(* ===== verification/Prelude.thy ===== *)
theory Prelude
  imports Main "HOL-Library.AList" "HOL-Library.Sublist"
begin

text \<open>
  Shared vocabulary of the development: the error values, Python strings as lists of
  characters (code points below 256), insertion-ordered dictionaries as association lists,
  and the state-with-exceptions monad in which the stateful code is written, together with
  its weakest-precondition calculus.

  An operation of type \<open>('s, 'a) op\<close> (\<open>('e, 's, 'a) eop\<close> with errors of another type) takes the state of the object it is a method of and
  returns either an exception or a value, and in both cases the state the object is left in:
  as in Python, a mutation that precedes a raise is kept. The collections \<open>wp_simps\<close> and
  \<open>dict_simps\<close> carry most component proofs.
\<close>

named_theorems wp_simps \<open>weakest preconditions of the monad's combinators\<close>
named_theorems dict_simps \<open>lookups in insertion-ordered dictionaries\<close>

section \<open>Errors\<close>

text \<open>
  The classes of \<^verbatim>\<open>asset_store_core/errors.py\<close>; messages are dropped, attributes kept. The
  last group stands for exceptions of the language (\<open>OverflowError\<close>, \<open>ValueError\<close>,
  \<open>KeyError\<close>, \<open>RuntimeError\<close>) and for whatever a storage adapter raises
  (\<open>BackendError\<close>). A request that FastAPI rejects before a handler runs is a
  \<open>RequestValidationError\<close>.
\<close>

datatype error =
    ServiceAuthError
  | ValidationError
  | AliasConflictError
  | AliasNotFoundError
  | AliasImmutableError
  | AssetNotFoundError
  | ObjectNotFoundError
  | PresignNotSupportedError
  | ChecksumMismatchError
  | CapabilityDeniedError
  | CapabilityAlreadyConsumedError
  | CapabilityCapacityError
  | InvalidStateTransitionError
  | AssetExpiredError
  | AssetDeletedError
  | CapacityExceededError
  | QuotaExceededError string
  | UploadTooLargeError
  | RegistryUnavailableError
  | WorkCapacityError
  | CapabilityRateError int
  | OverflowError
  | ValueError
  | KeyError
  | RuntimeError
  | BackendError
  | RequestValidationError

section \<open>Python strings\<close>

definition py_whitespace :: "char list" where
  "py_whitespace = [CHR 0x09, CHR 0x0A, CHR 0x0B, CHR 0x0C, CHR 0x0D, CHR 0x1C, CHR 0x1D,
     CHR 0x1E, CHR 0x1F, CHR 0x20, CHR 0x85, CHR 0xA0]"

definition py_isspace :: "char \<Rightarrow> bool" where
  "py_isspace c \<longleftrightarrow> c \<in> set py_whitespace"

definition strip_by :: "(char \<Rightarrow> bool) \<Rightarrow> string \<Rightarrow> string" where
  "strip_by P s = rev (dropWhile P (rev (dropWhile P s)))"

definition py_strip :: "string \<Rightarrow> string" where
  "py_strip s = strip_by py_isspace s"

definition strip_char :: "char \<Rightarrow> string \<Rightarrow> string" where
  "strip_char c s = strip_by (\<lambda>x. x = c) s"

fun split_on :: "char \<Rightarrow> string \<Rightarrow> string list" where
  "split_on c [] = [[]]"
| "split_on c (x # xs) =
     (if x = c then [] # split_on c xs
      else (case split_on c xs of [] \<Rightarrow> [[x]] | w # ws \<Rightarrow> (x # w) # ws))"

fun join_with :: "char \<Rightarrow> string list \<Rightarrow> string" where
  "join_with c [] = []"
| "join_with c [w] = w"
| "join_with c (w # v # ws) = w @ c # join_with c (v # ws)"

text \<open>\<open>s.partition(c)\<close>: the part before the first \<open>c\<close>, whether there was one, the rest.\<close>

fun py_partition :: "char \<Rightarrow> string \<Rightarrow> string \<times> bool \<times> string" where
  "py_partition c [] = ([], False, [])"
| "py_partition c (x # xs) =
     (if x = c then ([], True, xs)
      else (case py_partition c xs of (a, found, b) \<Rightarrow> (x # a, found, b)))"

abbreviation slash :: char where
  "slash \<equiv> CHR ''/''"

lemma dropWhile_hd: "dropWhile P xs \<noteq> [] \<Longrightarrow> \<not> P (hd (dropWhile P xs))"
  by (induction xs) auto

lemma dropWhile_fix: "xs = [] \<or> \<not> P (hd xs) \<Longrightarrow> dropWhile P xs = xs"
  by (cases xs) auto

lemma suffix_strip_head: "rev (dropWhile P (rev xs)) \<noteq> [] \<Longrightarrow> hd (rev (dropWhile P (rev xs))) = hd xs"
proof -
  assume ne: "rev (dropWhile P (rev xs)) \<noteq> []"
  have "xs = rev (dropWhile P (rev xs)) @ rev (takeWhile P (rev xs))"
    by (metis rev_append rev_rev_ident takeWhile_dropWhile_id)
  with ne show ?thesis by (metis hd_append2)
qed

text \<open>What stripping guarantees: neither end of a non-empty result satisfies the predicate.\<close>

lemma strip_by_ends:
  assumes "strip_by P s \<noteq> []"
  shows "\<not> P (hd (strip_by P s))" and "\<not> P (last (strip_by P s))"
proof -
  let ?d = "dropWhile P s"
  have ne: "rev (dropWhile P (rev ?d)) \<noteq> []" using assms by (simp add: strip_by_def)
  then have "hd (strip_by P s) = hd ?d"
    unfolding strip_by_def by (rule suffix_strip_head)
  moreover have "?d \<noteq> []" using ne by (metis dropWhile.simps(1) rev.simps(1))
  ultimately show "\<not> P (hd (strip_by P s))" by (simp only: dropWhile_hd not_False_eq_True)
  show "\<not> P (last (strip_by P s))"
    using ne by (simp add: strip_by_def last_rev dropWhile_hd)
qed

lemma strip_by_fix:
  assumes "s = [] \<or> (\<not> P (hd s) \<and> \<not> P (last s))"
  shows "strip_by P s = s"
proof -
  have "dropWhile P s = s" using assms by (auto intro: dropWhile_fix)
  moreover have "dropWhile P (rev s) = rev s"
    using assms by (auto intro!: dropWhile_fix simp: hd_rev)
  ultimately show ?thesis by (simp add: strip_by_def)
qed

lemma strip_by_idem [simp]: "strip_by P (strip_by P s) = strip_by P s"
  by (rule strip_by_fix) (use strip_by_ends in blast)

lemma py_strip_idem [simp]: "py_strip (py_strip s) = py_strip s"
  by (simp add: py_strip_def)

lemma split_on_ne [simp]: "split_on c s \<noteq> []"
  by (induction s) (auto split: list.splits)

lemma join_split_on [simp]: "join_with c (split_on c s) = s"
proof (induction s)
  case (Cons x xs)
  obtain w ws where w: "split_on c xs = w # ws" by (cases "split_on c xs") auto
  with Cons.IH show ?case by (cases ws) auto
qed simp

lemma split_on_no_sep: "w \<in> set (split_on c s) \<Longrightarrow> c \<notin> set w"
  by (induction s arbitrary: w) (auto split: if_splits list.splits)

lemma split_on_append_sep:
  "c \<notin> set w \<Longrightarrow> split_on c (w @ c # s) = w # split_on c s"
  by (induction w) auto

lemma split_on_word: "c \<notin> set w \<Longrightarrow> split_on c w = [w]"
  by (induction w) auto

lemma split_join:
  "ws \<noteq> [] \<Longrightarrow> (\<And>w. w \<in> set ws \<Longrightarrow> c \<notin> set w) \<Longrightarrow> split_on c (join_with c ws) = ws"
  by (induction c ws rule: join_with.induct) (auto simp: split_on_word split_on_append_sep)

lemma split_on_append: "split_on c (s @ c # t) = split_on c s @ split_on c t"
proof (induction s)
  case (Cons x s)
  obtain w ws where w: "split_on c s = w # ws" by (cases "split_on c s") auto
  with Cons show ?case by simp
qed simp

lemma py_partition_found:
  "py_partition c s = (a, True, b) \<longleftrightarrow> s = a @ c # b \<and> c \<notin> set a"
proof (induction s arbitrary: a)
  case (Cons x s)
  obtain a' f' b' where p: "py_partition c s = (a', f', b')" by (metis prod_cases3)
  show ?case
  proof (cases "x = c")
    case True
    then show ?thesis by (cases a) auto
  next
    case False
    with Cons.IH [of "tl a"] show ?thesis by (cases a) (auto simp: p)
  qed
qed simp

lemma py_partition_not_found:
  "py_partition c s = (a, False, b) \<longleftrightarrow> c \<notin> set s \<and> a = s \<and> b = []"
proof (induction s arbitrary: a)
  case (Cons x s)
  obtain a' f' b' where p: "py_partition c s = (a', f', b')" by (metis prod_cases3)
  show ?case
  proof (cases "x = c")
    case True
    then show ?thesis by auto
  next
    case False
    with Cons.IH [of "tl a"] show ?thesis by (cases a) (auto simp: p)
  qed
qed auto

lemma split_on_partition:
  "split_on c s = (case py_partition c s of (a, found, b) \<Rightarrow> if found then a # split_on c b else [s])"
proof (cases "py_partition c s")
  case (fields a found b)
  show ?thesis
  proof (cases found)
    case True
    with fields have "s = a @ c # b" "c \<notin> set a" by (auto simp: py_partition_found)
    with fields True show ?thesis by (simp add: split_on_append_sep)
  next
    case False
    with fields have "c \<notin> set s" by (auto simp: py_partition_not_found)
    with fields False show ?thesis by (simp add: split_on_word)
  qed
qed

section \<open>Insertion-ordered dictionaries\<close>

text \<open>
  A Python \<open>dict\<close> is an association list with distinct keys: \<open>AList.update\<close> replaces the
  value of an existing key in place and appends a new key at the end, \<open>AList.delete\<close> drops a
  key, \<open>map_of\<close> is \<open>get\<close>. Iteration follows the list.
\<close>

type_synonym ('k, 'v) dict = "('k \<times> 'v) list"

definition dict_ok :: "('k, 'v) dict \<Rightarrow> bool" where
  "dict_ok d \<longleftrightarrow> distinct (map fst d)"

definition dict_values :: "('k, 'v) dict \<Rightarrow> 'v list" where
  "dict_values d = map snd d"

definition dict_sum :: "('v \<Rightarrow> int) \<Rightarrow> ('k, 'v) dict \<Rightarrow> int" where
  "dict_sum f d = sum_list (map f (dict_values d))"

lemma dict_get_update [simp, dict_simps]:
  "map_of (AList.update k v d) k' = (if k' = k then Some v else map_of d k')"
  by (simp add: update_conv')

lemma dict_get_delete [simp, dict_simps]:
  "map_of (AList.delete k d) k' = (if k' = k then None else map_of d k')"
  by (simp add: delete_conv')

lemma dict_ok_Nil [simp]: "dict_ok []"
  by (simp add: dict_ok_def)

lemma dict_ok_update [simp, intro]: "dict_ok d \<Longrightarrow> dict_ok (AList.update k v d)"
  by (simp add: dict_ok_def distinct_update)

lemma dict_ok_delete [simp, intro]: "dict_ok d \<Longrightarrow> dict_ok (AList.delete k d)"
  by (simp add: dict_ok_def distinct_delete)

lemma dict_ok_filter [simp, intro]: "dict_ok d \<Longrightarrow> dict_ok (filter P d)"
  by (simp add: dict_ok_def distinct_map_filter)

lemma dict_in_iff: "dict_ok d \<Longrightarrow> (k, v) \<in> set d \<longleftrightarrow> map_of d k = Some v"
  by (simp add: dict_ok_def)

lemma dict_values_iff: "dict_ok d \<Longrightarrow> v \<in> set (dict_values d) \<longleftrightarrow> (\<exists>k. map_of d k = Some v)"
  by (force simp: dict_values_def dict_in_iff [symmetric])

lemma dict_get_filter:
  "dict_ok d \<Longrightarrow> map_of (filter P d) k =
     (case map_of d k of None \<Rightarrow> None | Some v \<Rightarrow> if P (k, v) then Some v else None)"
  by (induction d) (auto simp: dict_ok_def split: option.splits dest: map_of_SomeD intro!: rev_image_eqI)

lemma dict_values_new: "map_of d k = None \<Longrightarrow> dict_values (AList.update k v d) = dict_values d @ [v]"
  by (induction d) (auto simp: dict_values_def split: if_splits)

lemma dict_sum_Nil [simp]: "dict_sum f [] = 0"
  by (simp add: dict_sum_def dict_values_def)

lemma dict_sum_Cons [simp]: "dict_sum f (p # d) = f (snd p) + dict_sum f d"
  by (simp add: dict_sum_def dict_values_def)

lemma dict_sum_update_new: "map_of d k = None \<Longrightarrow> dict_sum f (AList.update k v d) = dict_sum f d + f v"
  by (induction d) (auto split: if_splits)

lemma dict_sum_update_old:
  "map_of d k = Some u \<Longrightarrow> dict_sum f (AList.update k v d) = dict_sum f d - f u + f v"
  by (induction d) (auto split: if_splits)

lemma dict_sum_nonneg: "(\<And>v. v \<in> set (dict_values d) \<Longrightarrow> 0 \<le> f v) \<Longrightarrow> 0 \<le> dict_sum f d"
  by (auto simp: dict_sum_def intro!: sum_list_nonneg)

lemma dict_sum_ge_member:
  assumes "map_of d k = Some u" and "\<And>v. v \<in> set (dict_values d) \<Longrightarrow> 0 \<le> f v"
  shows "f u \<le> dict_sum f d"
  using assms
proof (induction d)
  case (Cons p d)
  have rest: "0 \<le> dict_sum f d"
    by (rule dict_sum_nonneg) (use Cons.prems(2) in \<open>simp add: dict_values_def\<close>)
  have hd: "0 \<le> f (snd p)" using Cons.prems(2) [of "snd p"] by (simp add: dict_values_def)
  have tl: "v \<in> set (dict_values d) \<Longrightarrow> 0 \<le> f v" for v
    using Cons.prems(2) [of v] by (simp add: dict_values_def)
  show ?case
  proof (cases "fst p = k")
    case True
    with Cons.prems(1) have "snd p = u" by (cases p) simp
    with rest show ?thesis by simp
  next
    case False
    with Cons.prems(1) have "map_of d k = Some u" by (cases p) simp
    with Cons.IH tl hd show ?thesis by fastforce
  qed
qed simp

lemma dict_sum_cong: "(\<And>v. v \<in> set (dict_values d) \<Longrightarrow> f v = g v) \<Longrightarrow> dict_sum f d = dict_sum g d"
  by (simp add: dict_sum_def cong: map_cong)

section \<open>Operations: state with exceptions\<close>

type_synonym ('e, 's, 'a) eop = "'s \<Rightarrow> ('e + 'a) \<times> 's"
type_synonym ('s, 'a) op = "(error, 's, 'a) eop"

definition ret :: "'a \<Rightarrow> ('e, 's, 'a) eop" where
  "ret a s = (Inr a, s)"

definition raise :: "'e \<Rightarrow> ('e, 's, 'a) eop" where
  "raise e s = (Inl e, s)"

definition bind_op :: "('e, 's, 'a) eop \<Rightarrow> ('a \<Rightarrow> ('e, 's, 'b) eop) \<Rightarrow> ('e, 's, 'b) eop" where
  "bind_op m f s = (case m s of (Inl e, t) \<Rightarrow> (Inl e, t) | (Inr a, t) \<Rightarrow> f a t)"

definition seq_op :: "('e, 's, 'a) eop \<Rightarrow> ('e, 's, 'b) eop \<Rightarrow> ('e, 's, 'b) eop" where
  "seq_op m n = bind_op m (\<lambda>_. n)"

definition check :: "bool \<Rightarrow> 'e \<Rightarrow> ('e, 's, unit) eop" where
  "check b e = (if b then ret () else raise e)"

definition of_result :: "'e + 'a \<Rightarrow> ('e, 's, 'a) eop" where
  "of_result r s = (r, s)"

definition gets :: "('s \<Rightarrow> 'a) \<Rightarrow> ('e, 's, 'a) eop" where
  "gets f s = (Inr (f s), s)"

definition modify :: "('s \<Rightarrow> 's) \<Rightarrow> ('e, 's, unit) eop" where
  "modify f s = (Inr (), f s)"

text \<open>\<open>try: m except: h\<close>, the handler seeing the exception and the state at the raise.\<close>

definition try_op :: "('e, 's, 'a) eop \<Rightarrow> ('e \<Rightarrow> ('e, 's, 'a) eop) \<Rightarrow> ('e, 's, 'a) eop" where
  "try_op m h s = (case m s of (Inl e, t) \<Rightarrow> h e t | (Inr a, t) \<Rightarrow> (Inr a, t))"

fun for_each :: "'x list \<Rightarrow> ('x \<Rightarrow> ('e, 's, unit) eop) \<Rightarrow> ('e, 's, unit) eop" where
  "for_each [] f = ret ()"
| "for_each (x # xs) f = seq_op (f x) (for_each xs f)"

text \<open>An operation of a part of the state, run on the whole.\<close>

definition on_part :: "('w \<Rightarrow> 's) \<Rightarrow> ('s \<Rightarrow> 'w \<Rightarrow> 'w) \<Rightarrow> ('e, 's, 'a) eop \<Rightarrow> ('e, 'w, 'a) eop" where
  "on_part get put m w = (case m (get w) of (r, s) \<Rightarrow> (r, put s w))"

text \<open>The pure counterpart of \<open>bind_op\<close>, for helpers that raise but keep no state.\<close>

definition bind_result :: "'e + 'a \<Rightarrow> ('a \<Rightarrow> 'e + 'b) \<Rightarrow> 'e + 'b" where
  "bind_result r f = (case r of Inl e \<Rightarrow> Inl e | Inr a \<Rightarrow> f a)"

fun map_result :: "('a \<Rightarrow> 'e + 'b) \<Rightarrow> 'a list \<Rightarrow> 'e + 'b list" where
  "map_result f [] = Inr []"
| "map_result f (x # xs) =
     bind_result (f x) (\<lambda>y. bind_result (map_result f xs) (\<lambda>ys. Inr (y # ys)))"

definition guard_result :: "bool \<Rightarrow> 'e \<Rightarrow> 'e + unit" where
  "guard_result b e = (if b then Inr () else Inl e)"

definition is_ok :: "'e + 'a \<Rightarrow> bool" where
  "is_ok r \<longleftrightarrow> (case r of Inl _ \<Rightarrow> False | Inr _ \<Rightarrow> True)"

lemma bind_result_simps [simp]:
  "bind_result (Inl e) f = Inl e" "bind_result (Inr a) f = f a"
  by (simp_all add: bind_result_def)

lemma bind_result_Inr: "bind_result r f = Inr b \<longleftrightarrow> (\<exists>a. r = Inr a \<and> f a = Inr b)"
  by (cases r) auto

lemma bind_result_Inl:
  "bind_result r f = Inl e \<longleftrightarrow> r = Inl e \<or> (\<exists>a. r = Inr a \<and> f a = Inl e)"
  by (cases r) auto

lemma guard_result_Inr [simp]: "guard_result b e = Inr u \<longleftrightarrow> b"
  by (simp add: guard_result_def)

lemma guard_result_Inl [simp]: "guard_result b e = Inl x \<longleftrightarrow> \<not> b \<and> x = e"
  by (auto simp: guard_result_def)

lemma is_ok_simps [simp]: "is_ok (Inr a)" "\<not> is_ok (Inl e)"
  by (simp_all add: is_ok_def)

lemma is_ok_ex: "is_ok r \<longleftrightarrow> (\<exists>a. r = Inr a)"
  by (cases r) auto

subsection \<open>Weakest preconditions\<close>

text \<open>
  \<open>wp m Q E s\<close>: run from \<open>s\<close>, the operation \<open>m\<close> either returns a value and a state that
  satisfy \<open>Q\<close> or raises with an error and a state that satisfy \<open>E\<close>. Every operation of the
  development is total, so this is total correctness.
\<close>

definition wp :: "('e, 's, 'a) eop \<Rightarrow> ('a \<Rightarrow> 's \<Rightarrow> bool) \<Rightarrow> ('e \<Rightarrow> 's \<Rightarrow> bool) \<Rightarrow> 's \<Rightarrow> bool" where
  "wp m Q E s = (case m s of (Inl e, t) \<Rightarrow> E e t | (Inr a, t) \<Rightarrow> Q a t)"

lemma wp_ret [wp_simps]: "wp (ret a) Q E s = Q a s"
  by (simp add: wp_def ret_def)

lemma wp_ret_fun [wp_simps]: "wp (ret a) Q E = Q a"
  by (rule ext) (rule wp_ret)

lemma wp_raise [wp_simps]: "wp (raise e) Q E s = E e s"
  by (simp add: wp_def raise_def)

lemma wp_raise_fun [wp_simps]: "wp (raise e) Q E = E e"
  by (rule ext) (rule wp_raise)

lemma wp_bind [wp_simps]: "wp (bind_op m f) Q E s = wp m (\<lambda>a. wp (f a) Q E) E s"
  by (auto simp: wp_def bind_op_def split: prod.splits sum.splits)

lemma wp_seq [wp_simps]: "wp (seq_op m n) Q E s = wp m (\<lambda>_. wp n Q E) E s"
  by (simp add: seq_op_def wp_bind)

lemma wp_check [wp_simps]: "wp (check b e) Q E s = (if b then Q () s else E e s)"
  by (simp add: check_def wp_ret wp_raise)

lemma wp_of_result [wp_simps]:
  "wp (of_result r) Q E s = (case r of Inl e \<Rightarrow> E e s | Inr a \<Rightarrow> Q a s)"
  by (simp add: wp_def of_result_def)

lemma wp_gets [wp_simps]: "wp (gets f) Q E s = Q (f s) s"
  by (simp add: wp_def gets_def)

lemma wp_modify [wp_simps]: "wp (modify f) Q E s = Q () (f s)"
  by (simp add: wp_def modify_def)

lemma wp_try [wp_simps]: "wp (try_op m h) Q E s = wp m Q (\<lambda>e. wp (h e) Q E) s"
  by (auto simp: wp_def try_op_def split: prod.splits sum.splits)

lemma wp_on_part [wp_simps]:
  "wp (on_part get put m) Q E w =
     wp m (\<lambda>a s. Q a (put s w)) (\<lambda>e s. E e (put s w)) (get w)"
  by (auto simp: wp_def on_part_def split: prod.splits sum.splits)

lemma wp_if [wp_simps]: "wp (if b then m else n) Q E s = (if b then wp m Q E s else wp n Q E s)"
  by simp

lemma wp_case_option [wp_simps]:
  "wp (case x of None \<Rightarrow> m | Some a \<Rightarrow> n a) Q E s =
     (case x of None \<Rightarrow> wp m Q E s | Some a \<Rightarrow> wp (n a) Q E s)"
  by (simp split: option.splits)

text \<open>As a congruence rule: evaluate an operation before what follows it.\<close>

lemma wp_lazy: "m = m' \<Longrightarrow> s = s' \<Longrightarrow> wp m Q E s = wp m' Q E s'"
  by simp

lemma wp_mono:
  "wp m Q E s \<Longrightarrow> (\<And>a t. Q a t \<Longrightarrow> Q' a t) \<Longrightarrow> (\<And>e t. E e t \<Longrightarrow> E' e t) \<Longrightarrow> wp m Q' E' s"
  by (auto simp: wp_def split: prod.splits sum.splits)

lemma wp_conj:
  "wp m Q E s \<Longrightarrow> wp m Q' E' s \<Longrightarrow> wp m (\<lambda>a t. Q a t \<and> Q' a t) (\<lambda>e t. E e t \<and> E' e t) s"
  by (auto simp: wp_def split: prod.splits sum.splits)

lemma wpI: "(\<And>a t. m s = (Inr a, t) \<Longrightarrow> Q a t) \<Longrightarrow> (\<And>e t. m s = (Inl e, t) \<Longrightarrow> E e t) \<Longrightarrow> wp m Q E s"
  by (auto simp: wp_def split: prod.splits sum.splits)

lemma wp_result: "wp m Q E s \<Longrightarrow> m s = (Inr a, t) \<Longrightarrow> Q a t"
  by (simp add: wp_def)

lemma wp_error: "wp m Q E s \<Longrightarrow> m s = (Inl e, t) \<Longrightarrow> E e t"
  by (simp add: wp_def)

lemma wp_True [simp]: "wp m (\<lambda>_ _. True) (\<lambda>_ _. True) s"
  by (simp add: wp_def split: prod.split sum.split)

lemma wp_returns: "wp m Q (\<lambda>_ _. False) s \<Longrightarrow> \<exists>a t. m s = (Inr a, t) \<and> Q a t"
  by (auto simp: wp_def split: prod.splits sum.splits)

lemma case_sum_True [simp]: "(case x of Inl _ \<Rightarrow> True | Inr _ \<Rightarrow> True)"
  by (cases x) simp_all

lemma wp_post: "m s = (Inr a, t) \<Longrightarrow> wp m Q (\<lambda>_ _. True) s \<Longrightarrow> Q a t"
  by (simp add: wp_def)

lemma wp_eqI: "wp m (\<lambda>a t. a = x \<and> t = s') (\<lambda>_ _. False) s \<Longrightarrow> m s = (Inr x, s')"
  by (auto simp: wp_def split: prod.splits sum.splits)

lemma wp_raiseI: "wp m (\<lambda>_ _. False) (\<lambda>e t. e = x \<and> t = s') s \<Longrightarrow> m s = (Inl x, s')"
  by (auto simp: wp_def split: prod.splits sum.splits)

lemma wp_never_raises:
  fixes m :: "('s, unit) op"
  shows "wp m (\<lambda>_ _. True) (\<lambda>_ _. False) s \<Longrightarrow> wp m Q E s = Q () (snd (m s))"
  by (auto simp: wp_def split: prod.splits sum.splits)

lemma wp_of_eq: "m s = (Inr x, t) \<Longrightarrow> wp m Q E s = Q x t"
  by (simp add: wp_def)

lemma wp_snd: "wp m (\<lambda>_. P) (\<lambda>_. P) s \<Longrightarrow> P (snd (m s))"
  by (auto simp: wp_def split: prod.splits sum.splits)

lemma wp_snd_iff: "wp m (\<lambda>_. P) (\<lambda>_. P) s \<longleftrightarrow> P (snd (m s))"
  by (auto simp: wp_def split: prod.splits sum.splits)

text \<open>A loop keeps what every round keeps.\<close>

lemma wp_for_each:
  assumes "I s" and "\<And>x t. x \<in> set xs \<Longrightarrow> I t \<Longrightarrow> wp (f x) (\<lambda>_. I) E t"
  shows "wp (for_each xs f) (\<lambda>_. I) E s"
  using assms
proof (induction xs arbitrary: s)
  case Nil
  then show ?case by (simp add: wp_simps)
next
  case (Cons x xs)
  have "wp (f x) (\<lambda>_. I) E s" using Cons.prems by simp
  then show ?case
    by (simp add: wp_simps) (erule wp_mono, use Cons in auto)
qed

text \<open>A loop that also establishes something of every element.\<close>

lemma wp_for_each_all:
  assumes "I s" and "\<And>x t. x \<in> set xs \<Longrightarrow> I t \<Longrightarrow> wp (f x) (\<lambda>_ t. I t \<and> P x) E t"
  shows "wp (for_each xs f) (\<lambda>_ t. I t \<and> (\<forall>x\<in>set xs. P x)) E s"
  using assms
proof (induction xs arbitrary: s)
  case Nil
  then show ?case by (simp add: wp_simps)
next
  case (Cons x xs)
  have "wp (f x) (\<lambda>_ t. I t \<and> P x) E s" using Cons.prems by simp
  then show ?case
  proof (simp add: wp_simps, elim wp_mono)
    fix t assume t: "I t \<and> P x"
    then have "wp (for_each xs f) (\<lambda>_ t. I t \<and> (\<forall>x\<in>set xs. P x)) E t" using Cons by simp
    then show "wp (for_each xs f) (\<lambda>_ t. I t \<and> P x \<and> (\<forall>x\<in>set xs. P x)) E t"
      by (rule wp_mono) (use t in auto)
  qed simp
qed

lemma map_result_keys:
  "map_result f (map fst xs) = Inr ys \<Longrightarrow> set ys = {y. \<exists>x\<in>set xs. f (fst x) = Inr y}"
  by (induction xs arbitrary: ys) (fastforce simp: bind_result_Inr)+

end
