(* ===== verification/Paths.thy ===== *)
theory Paths
  imports Prelude
begin

text \<open>
  Alias paths, bucket names and object keys: \<^verbatim>\<open>asset_store_core/paths.py\<close> and
  \<^verbatim>\<open>asset_store_core/storage.py\<close>. Every name that reaches the registry passes through these
  normalisers, so the registry's invariants rest on what they guarantee: the segments of a
  normalised path are never empty, \<open>.\<close> or \<open>..\<close>, and a bucket name is one of four words.
  A path is \<open>canonical\<close> when normalising it changes nothing; normalisation does not always
  yield a canonical path.
\<close>

section \<open>Normalisers\<close>

definition STORAGE_BUCKETS :: "string set" where
  "STORAGE_BUCKETS = {''cache'', ''tmp'', ''users'', ''results''}"

definition normalize_bucket :: "string \<Rightarrow> error + string" where
  "normalize_bucket bucket =
     (let name = strip_char slash (py_strip bucket) in
      if name = [] then Inl ValidationError
      else if slash \<in> set name then Inl ValidationError
      else if name \<in> {''.'', ''..''} then Inl ValidationError
      else if name \<notin> STORAGE_BUCKETS then Inl ValidationError
      else Inr name)"

definition normalize_space :: "string \<Rightarrow> error + string" where
  "normalize_space space = normalize_bucket space"

definition bad_segment :: "string \<Rightarrow> bool" where
  "bad_segment part \<longleftrightarrow> part = [] \<or> part = ''.'' \<or> part = ''..''"

definition normalize_relative_alias :: "string \<Rightarrow> error + string" where
  "normalize_relative_alias alias =
     (let a = strip_char slash (py_strip alias) in
      if a = [] then Inl ValidationError
      else if list_ex bad_segment (split_on slash a) then Inl ValidationError
      else Inr a)"

definition normalize_partition_id :: "string \<Rightarrow> error + string" where
  "normalize_partition_id partition_id = normalize_relative_alias partition_id"

definition qualified_alias :: "string \<Rightarrow> string \<Rightarrow> error + string" where
  "qualified_alias space alias =
     bind_result (normalize_space space) (\<lambda>s.
     bind_result (normalize_relative_alias alias) (\<lambda>a.
     Inr (s @ slash # a)))"

definition qualified_alias_for_partition :: "string \<Rightarrow> string \<Rightarrow> string \<Rightarrow> error + string" where
  "qualified_alias_for_partition space partition_id relative_alias =
     bind_result (normalize_partition_id partition_id) (\<lambda>p.
     bind_result (normalize_relative_alias relative_alias) (\<lambda>r.
     qualified_alias space (p @ slash # r)))"

section \<open>Object keys\<close>

definition build_storage_key :: "string \<Rightarrow> string \<Rightarrow> error + string" where
  "build_storage_key partition_id asset_id =
     bind_result (normalize_partition_id partition_id) (\<lambda>pid.
     (let aid = py_strip asset_id in
      if aid = [] then Inl ValidationError
      else Inr (pid @ ''/assets/'' @ aid)))"

record object_store_location =
  loc_bucket :: string
  loc_key :: string

definition location_for_asset :: "string \<Rightarrow> string \<Rightarrow> string \<Rightarrow> error + object_store_location" where
  "location_for_asset space partition_id asset_id =
     bind_result (normalize_bucket space) (\<lambda>bucket.
     bind_result (build_storage_key partition_id asset_id) (\<lambda>key.
     Inr \<lparr>loc_bucket = bucket, loc_key = key\<rparr>))"

section \<open>What the normalisers guarantee\<close>

definition valid_path :: "string \<Rightarrow> bool" where
  "valid_path a \<longleftrightarrow> a \<noteq> [] \<and> \<not> list_ex bad_segment (split_on slash a)"

definition canonical :: "string \<Rightarrow> bool" where
  "canonical a \<longleftrightarrow> valid_path a \<and> \<not> py_isspace (hd a) \<and> \<not> py_isspace (last a)"

lemma not_isspace_slash [simp]: "\<not> py_isspace slash"
  by (simp add: py_isspace_def py_whitespace_def)

lemma normalize_relative_alias_valid:
  "normalize_relative_alias alias = Inr a \<Longrightarrow> valid_path a"
  by (auto simp: normalize_relative_alias_def valid_path_def Let_def split: if_splits)

lemma normalize_relative_alias_error:
  "normalize_relative_alias alias = Inl e \<Longrightarrow> e = ValidationError"
  by (auto simp: normalize_relative_alias_def Let_def split: if_splits)

lemma normalize_bucket_member: "normalize_bucket b = Inr n \<Longrightarrow> n \<in> STORAGE_BUCKETS"
  by (auto simp: normalize_bucket_def Let_def split: if_splits)

lemma bucket_cases:
  assumes "n \<in> STORAGE_BUCKETS" and "P ''cache''" and "P ''tmp''" and "P ''users''" and "P ''results''"
  shows "P n"
  using assms by (auto simp only: STORAGE_BUCKETS_def insert_iff empty_iff)

lemma bucket_normal: "n \<in> STORAGE_BUCKETS \<Longrightarrow> normalize_bucket n = Inr n"
  by (erule bucket_cases; code_simp)

lemma normalize_bucket_idem: "normalize_bucket b = Inr n \<Longrightarrow> normalize_bucket n = Inr n"
  by (simp add: normalize_bucket_member bucket_normal)

lemma normalize_space_idem: "normalize_space b = Inr n \<Longrightarrow> normalize_space n = Inr n"
  by (simp add: normalize_space_def normalize_bucket_idem)

lemma bucket_no_slash: "n \<in> STORAGE_BUCKETS \<Longrightarrow> slash \<notin> set n"
  by (auto simp: STORAGE_BUCKETS_def)

lemma split_first: "s \<noteq> [] \<Longrightarrow> hd s = c \<Longrightarrow> [] \<in> set (split_on c s)"
  by (cases s) auto

lemma split_last: "s \<noteq> [] \<Longrightarrow> last s = c \<Longrightarrow> [] \<in> set (split_on c s)"
  using split_on_append [of c "butlast s" "[]"] by (metis append_butlast_last_id in_set_conv_decomp split_on.simps(1))

lemma valid_path_ends: "valid_path a \<Longrightarrow> hd a \<noteq> slash \<and> last a \<noteq> slash"
  using split_first [of a slash] split_last [of a slash]
  by (auto simp: valid_path_def list_ex_iff bad_segment_def)

lemma valid_path_strip [simp]: "valid_path a \<Longrightarrow> strip_char slash a = a"
  unfolding strip_char_def by (rule strip_by_fix) (use valid_path_ends in blast)

lemma canonical_strip [simp]: "canonical a \<Longrightarrow> py_strip a = a"
  unfolding py_strip_def by (rule strip_by_fix) (simp add: canonical_def)

text \<open>A canonical path is exactly a fixed point of the normaliser.\<close>

lemma canonical_normal: "canonical a \<Longrightarrow> normalize_relative_alias a = Inr a"
proof -
  assume c: "canonical a"
  then have v: "valid_path a" by (simp add: canonical_def)
  with c have "strip_char slash (py_strip a) = a" by simp
  with v show ?thesis by (simp add: normalize_relative_alias_def Let_def valid_path_def)
qed

lemma strip_by_length: "length (strip_by P s) \<le> length s"
  unfolding strip_by_def
  by (metis length_dropWhile_le length_rev order_trans)

lemma strip_by_same_length: "length (strip_by P s) = length s \<Longrightarrow> strip_by P s = s"
proof -
  assume l: "length (strip_by P s) = length s"
  have 1: "length (dropWhile P (rev (dropWhile P s))) \<le> length (dropWhile P s)"
    by (metis length_dropWhile_le length_rev)
  have 2: "length (dropWhile P s) \<le> length s" by (rule length_dropWhile_le)
  from l 1 2 have d: "length (dropWhile P s) = length s" by (simp add: strip_by_def)
  then have a: "dropWhile P s = s"
    by (metis append_eq_append_conv append_self_conv2 takeWhile_dropWhile_id)
  from l 1 2 have "length (dropWhile P (rev (dropWhile P s))) = length (rev (dropWhile P s))"
    by (simp add: strip_by_def)
  then have "dropWhile P (rev (dropWhile P s)) = rev (dropWhile P s)"
    by (metis append_eq_append_conv append_self_conv2 takeWhile_dropWhile_id)
  with a show ?thesis by (simp add: strip_by_def)
qed

lemma normal_canonical: "normalize_relative_alias a = Inr a \<Longrightarrow> canonical a"
proof -
  assume n: "normalize_relative_alias a = Inr a"
  then have v: "valid_path a" by (rule normalize_relative_alias_valid)
  from n have "strip_char slash (py_strip a) = a"
    by (auto simp: normalize_relative_alias_def Let_def split: if_splits)
  then have "length (py_strip a) = length a"
    by (metis le_antisym py_strip_def strip_by_length strip_char_def)
  then have "py_strip a = a" by (simp add: py_strip_def strip_by_same_length)
  moreover have "a \<noteq> []" using v by (simp add: valid_path_def)
  ultimately have "\<not> py_isspace (hd a)" "\<not> py_isspace (last a)"
    using strip_by_ends [of py_isspace a] by (simp_all add: py_strip_def)
  with v show ?thesis by (simp add: canonical_def)
qed

lemma canonical_iff: "canonical a \<longleftrightarrow> normalize_relative_alias a = Inr a"
  using canonical_normal normal_canonical by blast

lemma canonical_partition [simp]: "canonical a \<Longrightarrow> normalize_partition_id a = Inr a"
  by (simp add: normalize_partition_id_def canonical_normal)

lemma valid_path_append:
  "valid_path p \<Longrightarrow> valid_path r \<Longrightarrow> valid_path (p @ slash # r)"
  by (auto simp: valid_path_def split_on_append)

lemma canonical_append [simp]:
  "canonical p \<Longrightarrow> canonical r \<Longrightarrow> canonical (p @ slash # r)"
  by (auto simp: canonical_def valid_path_append) (auto simp: valid_path_def)

lemma valid_path_appendD: "valid_path (p @ slash # r) \<Longrightarrow> valid_path p \<and> valid_path r"
proof -
  assume "valid_path (p @ slash # r)"
  then have "\<not> list_ex bad_segment (split_on slash p)" "\<not> list_ex bad_segment (split_on slash r)"
    by (simp_all add: valid_path_def split_on_append)
  moreover have "list_ex bad_segment (split_on slash [])" by (simp add: bad_segment_def)
  ultimately show ?thesis unfolding valid_path_def by metis
qed

lemma bucket_canonical: "n \<in> STORAGE_BUCKETS \<Longrightarrow> canonical n"
  by (erule bucket_cases; code_simp)

lemma first_segment_unique:
  fixes c :: char
  assumes "s @ c # a = s' @ c # a'" and "c \<notin> set s" and "c \<notin> set s'"
  shows "s = s' \<and> a = a'"
proof -
  have "py_partition c (s @ c # a) = (s, True, a)" and "py_partition c (s' @ c # a') = (s', True, a')"
    using assms(2,3) by (simp_all add: py_partition_found)
  then show ?thesis unfolding assms(1) by (metis Pair_inject)
qed

lemma qualified_alias_Inr:
  "qualified_alias sp al = Inr k \<longleftrightarrow>
     (\<exists>s a. normalize_space sp = Inr s \<and> normalize_relative_alias al = Inr a \<and> k = s @ slash # a)"
  by (auto simp: qualified_alias_def bind_result_Inr)

lemma qualified_alias_canonical:
  "s \<in> STORAGE_BUCKETS \<Longrightarrow> canonical a \<Longrightarrow> qualified_alias s a = Inr (s @ slash # a)"
  by (simp add: qualified_alias_def normalize_space_def bucket_normal canonical_normal)

lemma build_storage_key_Inr:
  "build_storage_key p i = Inr k \<longleftrightarrow>
     (\<exists>pid. normalize_partition_id p = Inr pid \<and> py_strip i \<noteq> [] \<and> k = pid @ ''/assets/'' @ py_strip i)"
  by (auto simp: build_storage_key_def bind_result_Inr Let_def)

end
