(* ===== verification/Py_Float.thy ===== *)
theory Py_Float
  imports Complex_Main Prelude
begin

text \<open>
  Python floats. A finite double is the rational it denotes; \<open>fl\<close> rounds a rational to the
  nearest value with a 53-bit significand, ties to even, as every IEEE 754 double operation of
  the program does. Integers are converted exactly as CPython converts them (correct rounding),
  an integer is compared with a float by exact comparison, and integer true division is
  correctly rounded. Exponent overflow and subnormal results (magnitudes beyond \<open>2^1023\<close> and
  below \<open>2^-1022\<close>) are outside the model: byte counts, ratios and ages stay far inside it.
\<close>

section \<open>Rounding to 53 bits\<close>

fun nat_bits :: "nat \<Rightarrow> nat" where
  "nat_bits n = (if n < 2 then 0 else Suc (nat_bits (n div 2)))"

declare nat_bits.simps [simp del]

definition pow2 :: "int \<Rightarrow> rat" where
  "pow2 e = (if 0 \<le> e then 2 ^ nat e else 1 / 2 ^ nat (- e))"

definition fexp :: "rat \<Rightarrow> int" where
  "fexp x = (if 1 \<le> x then int (nat_bits (nat \<lfloor>x\<rfloor>))
     else (let m = nat \<lceil>1 / x\<rceil> in if m \<le> 1 then 0 else - int (Suc (nat_bits (m - 1)))))"

definition round_half_even :: "rat \<Rightarrow> int" where
  "round_half_even y =
     (let f = \<lfloor>y\<rfloor>; d = y - of_int f
      in if d < 1/2 then f else if 1/2 < d then f + 1 else if even f then f else f + 1)"

definition fl_pos :: "rat \<Rightarrow> rat" where
  "fl_pos x = (let k = 52 - fexp x in of_int (round_half_even (x * pow2 k)) / pow2 k)"

definition fl :: "rat \<Rightarrow> rat" where
  "fl x = (if x = 0 then 0 else if 0 < x then fl_pos x else - fl_pos (- x))"

text \<open>Half a unit in the last place of a 53-bit significand, relative to the value.\<close>

definition eps53 :: rat where
  "eps53 = 1 / 2 ^ 53"

section \<open>The float operations the program uses\<close>

definition py_float_of_int :: "int \<Rightarrow> rat" where
  "py_float_of_int n = fl (of_int n)"

definition py_fmul :: "rat \<Rightarrow> rat \<Rightarrow> rat" where
  "py_fmul a b = fl (a * b)"

definition py_fadd :: "rat \<Rightarrow> rat \<Rightarrow> rat" where
  "py_fadd a b = fl (a + b)"

definition py_fsub :: "rat \<Rightarrow> rat \<Rightarrow> rat" where
  "py_fsub a b = fl (a - b)"

definition py_fdiv :: "rat \<Rightarrow> rat \<Rightarrow> rat" where
  "py_fdiv a b = fl (a / b)"

text \<open>\<open>int * float\<close>: the integer is converted first.\<close>

definition py_int_fmul :: "int \<Rightarrow> rat \<Rightarrow> rat" where
  "py_int_fmul n r = py_fmul (py_float_of_int n) r"

text \<open>\<open>int / int\<close>: the quotient, correctly rounded.\<close>

definition py_int_truediv :: "int \<Rightarrow> int \<Rightarrow> rat" where
  "py_int_truediv a b = fl (of_int a / of_int b)"

section \<open>Properties\<close>

lemma pow2_pos [simp]: "0 < pow2 e"
  by (simp add: pow2_def)

lemma pow2_nz [simp]: "pow2 e \<noteq> 0"
  by (simp add: pow2_def)

lemma pow2_power_int: "pow2 e = power_int 2 e"
  by (simp add: pow2_def power_int_def inverse_eq_divide power_one_over)

lemma pow2_add: "pow2 (a + b) = pow2 a * pow2 b"
  by (simp add: pow2_power_int power_int_add)

lemma pow2_of_nat [simp]: "pow2 (int n) = 2 ^ n"
  by (simp add: pow2_def)

lemma pow2_neg: "pow2 (- e) = 1 / pow2 e"
  by (simp add: pow2_def)

lemma nat_bits_bounds: "1 \<le> n \<Longrightarrow> 2 ^ nat_bits n \<le> n \<and> n < 2 ^ Suc (nat_bits n)"
proof (induction n rule: nat_bits.induct)
  case (1 n)
  show ?case
  proof (cases "n < 2")
    case True
    with "1.prems" show ?thesis by (subst (1 2) nat_bits.simps) simp
  next
    case False
    with "1.IH" have "2 ^ nat_bits (n div 2) \<le> n div 2" "n div 2 < 2 ^ Suc (nat_bits (n div 2))"
      by auto
    moreover have "nat_bits n = Suc (nat_bits (n div 2))"
      using False by (subst nat_bits.simps) simp
    ultimately show ?thesis by auto
  qed
qed

lemma pow2_fexp_le:
  assumes "0 < x"
  shows "pow2 (fexp x) \<le> x"
proof (cases "1 \<le> x")
  case True
  let ?n = "nat \<lfloor>x\<rfloor>"
  have n: "1 \<le> ?n" using True by (simp add: le_nat_iff)
  have "(2::rat) ^ nat_bits ?n = of_nat (2 ^ nat_bits ?n)" by simp
  also have "\<dots> \<le> of_nat ?n" using nat_bits_bounds [OF n] by (simp only: of_nat_le_iff)
  also have "\<dots> \<le> x" using assms by (simp add: of_nat_nat)
  finally show ?thesis using True by (simp add: fexp_def)
next
  case False
  let ?m = "nat \<lceil>1 / x\<rceil>"
  have "1 < 1 / x" using False assms by simp
  then have m: "2 \<le> ?m" by linarith
  have "1 / x \<le> of_nat ?m" using assms by (simp add: of_nat_nat)
  also have "\<dots> \<le> of_nat (2 ^ Suc (nat_bits (?m - 1)))"
    using nat_bits_bounds [of "?m - 1"] m by (subst of_nat_le_iff) linarith
  finally have "1 / x \<le> 2 ^ Suc (nat_bits (?m - 1))" by simp
  then have "1 / 2 ^ Suc (nat_bits (?m - 1)) \<le> x"
    using assms by (simp add: field_simps)
  moreover have "fexp x = - int (Suc (nat_bits (?m - 1)))"
    using False m by (simp add: fexp_def Let_def)
  ultimately show ?thesis by (simp only: pow2_neg pow2_of_nat)
qed

lemma round_half_even_bound: "\<bar>of_int (round_half_even y) - y\<bar> \<le> 1/2"
proof -
  have "of_int \<lfloor>y\<rfloor> \<le> y" "y < of_int \<lfloor>y\<rfloor> + 1" by linarith+
  then show ?thesis by (auto simp: round_half_even_def Let_def)
qed

lemma round_half_even_int [simp]: "round_half_even (of_int n) = n"
  by (simp add: round_half_even_def)

lemma eps53_bounds [simp]: "0 < eps53" "eps53 < 1"
  by (simp_all add: eps53_def)

lemma fl_pos_error:
  assumes "0 < x"
  shows "\<bar>fl_pos x - x\<bar> \<le> x * eps53"
proof -
  define k where "k = 52 - fexp x"
  define r :: rat where "r = of_int (round_half_even (x * pow2 k))"
  have "fl_pos x - x = (r - x * pow2 k) / pow2 k"
    by (simp add: fl_pos_def k_def [symmetric] r_def [symmetric] Let_def field_simps)
  then have "\<bar>fl_pos x - x\<bar> = \<bar>r - x * pow2 k\<bar> / pow2 k"
    by (simp add: abs_divide less_imp_le)
  also have "\<dots> \<le> (1/2) / pow2 k"
    using round_half_even_bound [of "x * pow2 k"]
    by (intro divide_right_mono) (simp_all add: r_def less_imp_le)
  also have "(1/2) / pow2 k = pow2 (fexp x) * eps53"
  proof -
    have "pow2 k * pow2 (fexp x) = pow2 (int 52)" by (simp add: k_def flip: pow2_add)
    then have "pow2 k * pow2 (fexp x) = 2 ^ 52" by (simp only: pow2_of_nat)
    then show ?thesis by (simp add: eps53_def field_simps)
  qed
  also have "\<dots> \<le> x * eps53"
    using pow2_fexp_le [OF assms] by (intro mult_right_mono) (simp_all add: less_imp_le)
  finally show ?thesis .
qed

text \<open>One rounding moves a value by at most one part in \<open>2^53\<close>.\<close>

lemma fl_error: "\<bar>fl x - x\<bar> \<le> \<bar>x\<bar> * eps53"
proof (cases "x = 0")
  case False
  then consider "0 < x" | "0 < - x" by linarith
  then show ?thesis
  proof cases
    case 1
    with fl_pos_error [of x] show ?thesis by (simp add: fl_def)
  next
    case 2
    then show ?thesis using fl_pos_error [of "- x"] by (simp add: fl_def abs_minus_commute)
  qed
qed (simp add: fl_def)

lemma fl_0 [simp]: "fl 0 = 0"
  by (simp add: fl_def)

lemma fl_upper: "0 \<le> x \<Longrightarrow> fl x \<le> x * (1 + eps53)"
  using fl_error [of x] by (simp add: distrib_left)

lemma fl_lower: "0 \<le> x \<Longrightarrow> x * (1 - eps53) \<le> fl x"
  using fl_error [of x] by (simp add: right_diff_distrib)

lemma fl_nonneg: "0 \<le> x \<Longrightarrow> 0 \<le> fl x"
  by (rule order_trans [OF mult_nonneg_nonneg fl_lower]) (simp_all add: less_imp_le)

lemma fl_gt_0: "0 < x \<Longrightarrow> 0 < fl x"
  by (rule less_le_trans [OF mult_pos_pos fl_lower]) (simp_all add: less_imp_le)

text \<open>Integers of at most 53 bits are exact.\<close>

lemma fl_of_int_exact:
  assumes "0 \<le> n" and "n < 2 ^ 53"
  shows "fl (of_int n) = of_int n"
proof (cases "n = 0")
  case False
  with assms have n: "1 \<le> nat n" by simp
  have "2 ^ nat_bits (nat n) \<le> nat n" using nat_bits_bounds [OF n] by simp
  also have "nat n < 2 ^ 53" using assms by (simp add: nat_less_iff)
  finally have "nat_bits (nat n) < 53" by (rule power_less_imp_less_exp [rotated]) simp
  moreover have "fexp (of_int n) = int (nat_bits (nat n))"
    using assms False by (simp add: fexp_def)
  ultimately obtain k where k: "52 - fexp (of_int n :: rat) = int k"
    by (metis (no_types, lifting) add.commute diff_add_cancel diff_ge_0_iff_ge int_ops(3)
        nat_0_le of_nat_le_iff less_Suc_eq_le eval_nat_numeral(3) of_nat_numeral)
  have "(of_int n :: rat) * pow2 (int k) = of_int (n * 2 ^ k)" by simp
  then have "round_half_even (of_int n * pow2 (int k)) = n * 2 ^ k"
    by (simp only: round_half_even_int)
  then have "fl_pos (of_int n) = of_int n" by (simp add: fl_pos_def k Let_def)
  then show ?thesis using assms False by (simp add: fl_def)
qed simp

lemma py_int_fmul_nonneg: "0 \<le> n \<Longrightarrow> 0 \<le> r \<Longrightarrow> 0 \<le> py_int_fmul n r"
  by (simp add: py_int_fmul_def py_fmul_def py_float_of_int_def fl_nonneg)

text \<open>The product of a byte count and a ratio is off by at most two roundings.\<close>

lemma py_int_fmul_upper:
  assumes "0 \<le> n" and "0 \<le> r"
  shows "py_int_fmul n r \<le> of_int n * r * (1 + eps53) ^ 2"
proof -
  have 1: "fl (of_int n) \<le> of_int n * (1 + eps53)" using assms by (simp add: fl_upper)
  have 2: "0 \<le> fl (of_int n)" using assms by (simp add: fl_nonneg)
  have "py_int_fmul n r \<le> fl (of_int n) * r * (1 + eps53)"
    using 2 assms by (simp add: py_int_fmul_def py_fmul_def py_float_of_int_def fl_upper)
  also have "\<dots> \<le> (of_int n * (1 + eps53)) * r * (1 + eps53)"
    using 1 assms by (intro mult_right_mono) (auto simp: add_nonneg_nonneg less_imp_le)
  finally show ?thesis by (simp add: power2_eq_square algebra_simps)
qed

end
