(* ===== verification/Models.thy ===== *)
theory Models
  imports Paths Py_Float "HOL-Library.Finite_Map"
begin

text \<open>
  The data structures of \<^verbatim>\<open>asset_store_core/models.py\<close> as records and datatypes, the retention
  rules of \<^verbatim>\<open>asset_store_core/retention.py\<close>, and the process environment they read.

  A \<open>datetime\<close> is a timezone-aware UTC instant, as microseconds since the epoch (the
  resolution of Python's \<open>datetime\<close>); the representable range is explicit, because adding a
  large \<open>timedelta\<close> raises \<open>OverflowError\<close>.
\<close>

section \<open>Instants\<close>

type_synonym datetime = int

definition datetime_max :: datetime where
  "datetime_max = 253402300799999999"

definition datetime_min :: datetime where
  "datetime_min = -62135596800000000"

definition seconds :: "int \<Rightarrow> int" where
  "seconds n = n * 1000000"

definition dt_add :: "datetime \<Rightarrow> int \<Rightarrow> error + datetime" where
  "dt_add t d = (if datetime_min \<le> t + d \<and> t + d \<le> datetime_max then Inr (t + d) else Inl OverflowError)"

text \<open>\<open>(a - b).total_seconds()\<close> for a difference of \<open>d\<close> microseconds.\<close>

definition total_seconds :: "int \<Rightarrow> rat" where
  "total_seconds d = py_int_truediv d 1000000"

section \<open>Records\<close>

datatype asset_state = PENDING | AVAILABLE | EXPIRED | DELETED

fun state_value :: "asset_state \<Rightarrow> string" where
  "state_value PENDING = ''pending''"
| "state_value AVAILABLE = ''available''"
| "state_value EXPIRED = ''expired''"
| "state_value DELETED = ''deleted''"

datatype eviction_policy = INHERIT | EXEMPT

fun eviction_value :: "eviction_policy \<Rightarrow> string" where
  "eviction_value INHERIT = ''inherit''"
| "eviction_value EXEMPT = ''exempt''"

record alias_binding =
  b_space :: string
  b_alias :: string
  b_asset_id :: "string option"
  b_mutable :: bool
  b_previous_asset_id :: "string option"
  b_created_at :: datetime
  b_updated_at :: datetime
  b_created_by_service_id :: string

definition binding_qualified_alias :: "alias_binding \<Rightarrow> error + string" where
  "binding_qualified_alias b = qualified_alias (b_space b) (b_alias b)"

record asset =
  a_asset_id :: string
  a_space :: string
  a_partition_id :: string
  a_storage_key :: string
  a_state :: asset_state
  a_aliases :: "string set"
  a_mime :: "string option"
  a_size_bytes :: "int option"
  a_reserved_bytes :: "int option"
  a_checksum_algo :: string
  a_checksum :: "string option"
  a_annotations :: "(string, string) fmap"
  a_created_at :: datetime
  a_updated_at :: datetime
  a_expires_at :: "datetime option"
  a_expired_at :: "datetime option"
  a_last_read_at :: "datetime option"
  a_read_count :: int
  a_payload_deleted_at :: "datetime option"
  a_owner_service_id :: string
  a_eviction_policy :: eviction_policy

definition is_resolvable :: "asset \<Rightarrow> bool" where
  "is_resolvable a \<longleftrightarrow> a_state a = AVAILABLE"

record audit_event =
  e_action :: string
  e_target :: string
  e_caller_service_id :: string
  e_outcome :: string
  e_before :: "string \<rightharpoonup> string"
  e_after :: "string \<rightharpoonup> string"
  e_ts :: datetime

record partition_quota =
  pq_space :: string
  pq_partition_id :: string
  pq_quota_bytes :: "int option"
  pq_quota_asset_count :: "int option"
  pq_used_bytes :: int
  pq_used_asset_count :: int
  pq_eviction_sweep_enabled :: bool

record bucket_quota =
  bq_space :: string
  bq_quota_bytes :: "int option"
  bq_used_bytes :: int
  bq_warn_threshold :: rat
  bq_hard_ceiling :: rat

text \<open>\<open>x or 0\<close> on an optional integer, as in \<open>asset.size_bytes or 0\<close>.\<close>

definition or_zero :: "int option \<Rightarrow> int" where
  "or_zero x = (case x of None \<Rightarrow> 0 | Some n \<Rightarrow> n)"

lemma or_zero_simps [simp]: "or_zero None = 0" "or_zero (Some n) = n"
  by (simp_all add: or_zero_def)

section \<open>The process environment\<close>

text \<open>
  What the code reads of \<open>os.environ\<close>, after the standard parsers: \<open>int(...)\<close> and
  \<open>json.loads(...)\<close> give \<open>None\<close> where they raise \<open>ValueError\<close>; \<open>float(...)\<close> may
  also return an infinity or NaN.
\<close>

datatype json = JNull | JBool bool | JInt int | JFloat rat | JString string
  | JList "json list" | JObject "(string \<times> json) list"

datatype float_text = FloatInvalid | FloatNonFinite | FloatValue rat

record environ =
  env_results_max_ttl :: "int option"
  env_capacity :: "json option"
  env_hard_ratio :: float_text

section \<open>Retention\<close>

definition expiry_for :: "environ \<Rightarrow> string \<Rightarrow> int option \<Rightarrow> datetime \<Rightarrow> error + datetime option" where
  "expiry_for env space ttl_seconds now =
     bind_result
       (if space = ''tmp'' then
          Inr (Some (7 * 86400), Some (case ttl_seconds of None \<Rightarrow> 86400 | Some t \<Rightarrow> t))
        else if space = ''results'' then
          (case env_results_max_ttl env of
             None \<Rightarrow> Inl ValueError
           | Some maximum \<Rightarrow>
               if maximum \<le> 0 then Inl ValidationError
               else Inr (Some maximum, Some (case ttl_seconds of None \<Rightarrow> maximum | Some t \<Rightarrow> t)))
        else Inr (None, ttl_seconds))
       (\<lambda>(maximum, ttl).
         case ttl of
           None \<Rightarrow> Inr None
         | Some t \<Rightarrow>
             if t \<le> 0 \<or> (case maximum of None \<Rightarrow> False | Some m \<Rightarrow> m < t) then Inl ValidationError
             else (case dt_add now (seconds t) of
                     Inl _ \<Rightarrow> Inl ValidationError
                   | Inr d \<Rightarrow> Inr (Some d)))"

definition require_live :: "asset \<Rightarrow> datetime \<Rightarrow> error + unit" where
  "require_live asset now =
     (if a_state asset = DELETED then Inl AssetDeletedError
      else if a_state asset = EXPIRED \<or>
              (a_state asset = AVAILABLE \<and>
               (case a_expires_at asset of None \<Rightarrow> False | Some d \<Rightarrow> d \<le> now))
           then Inl AssetExpiredError
      else Inr ())"

definition cleanup_allowed :: "asset \<Rightarrow> asset_state \<Rightarrow> bool \<Rightarrow> bool" where
  "cleanup_allowed asset state payload_deleted \<longleftrightarrow>
     (state = EXPIRED \<and> a_state asset = AVAILABLE \<and> \<not> payload_deleted) \<or>
     (state = DELETED \<and> a_state asset \<in> {PENDING, EXPIRED, DELETED} \<and>
      (\<not> payload_deleted \<or> a_state asset = DELETED))"

definition validate_cleanup_transition :: "asset \<Rightarrow> asset_state \<Rightarrow> bool \<Rightarrow> error + unit" where
  "validate_cleanup_transition asset state payload_deleted =
     (if \<not> cleanup_allowed asset state payload_deleted \<or> a_payload_deleted_at asset \<noteq> None
      then Inl InvalidStateTransitionError else Inr ())"

definition capacity_entry :: "string \<times> json \<Rightarrow> error + string \<times> int" where
  "capacity_entry kv =
     (case snd kv of
        JInt n \<Rightarrow> if fst kv \<notin> STORAGE_BUCKETS \<or> n \<le> 0 then Inl ValidationError else Inr (fst kv, n)
      | _ \<Rightarrow> Inl ValidationError)"

definition capacity_limits :: "environ \<Rightarrow> error + (string \<times> int) list" where
  "capacity_limits env =
     (case env_capacity env of
        Some (JObject values) \<Rightarrow> map_result capacity_entry values
      | _ \<Rightarrow> Inl ValidationError)"

definition enforce_capacity :: "environ \<Rightarrow> string \<Rightarrow> int \<Rightarrow> error + unit" where
  "enforce_capacity env space prospective_bytes =
     bind_result (capacity_limits env) (\<lambda>limits.
       case map_of limits space of
         None \<Rightarrow> Inr ()
       | Some limit \<Rightarrow>
           (case env_hard_ratio env of
              FloatInvalid \<Rightarrow> Inl ValueError
            | FloatNonFinite \<Rightarrow> Inl ValidationError
            | FloatValue ratio \<Rightarrow>
                if \<not> (0 < ratio \<and> ratio \<le> 1) then Inl ValidationError
                else if py_int_fmul limit ratio \<le> of_int prospective_bytes then Inl CapacityExceededError
                else Inr ()))"

section \<open>Properties of the retention rules\<close>

lemma expiry_for_future: "expiry_for env sp ttl now = Inr (Some d) \<Longrightarrow> now < d \<and> d \<le> datetime_max"
  by (auto simp: expiry_for_def bind_result_Inr dt_add_def seconds_def
      split: if_splits option.splits sum.splits)

text \<open>A tmp asset always has a deadline, at most a week away; so has a results asset.\<close>

lemma expiry_for_tmp:
  "expiry_for env ''tmp'' ttl now = Inr x \<Longrightarrow> \<exists>d. x = Some d \<and> d \<le> now + seconds (7 * 86400)"
  by (auto simp: expiry_for_def dt_add_def seconds_def split: if_splits option.splits sum.splits)

lemma expiry_for_results:
  assumes "expiry_for env ''results'' ttl now = Inr x"
  shows "\<exists>d m. x = Some d \<and> env_results_max_ttl env = Some m \<and> d \<le> now + seconds m"
  using assms
  by (auto simp: expiry_for_def dt_add_def seconds_def split: if_splits option.splits sum.splits)

lemma require_live_available:
  "require_live a now = Inr () \<Longrightarrow> is_resolvable a \<Longrightarrow>
     a_state a = AVAILABLE \<and> (\<forall>d. a_expires_at a = Some d \<longrightarrow> now < d)"
  by (auto simp: require_live_def is_resolvable_def split: if_splits option.splits)

lemma enforce_capacity_below:
  assumes "enforce_capacity env sp n = Inr ()" and "capacity_limits env = Inr limits"
    and "map_of limits sp = Some limit"
  shows "\<exists>r. env_hard_ratio env = FloatValue r \<and> 0 < r \<and> r \<le> 1 \<and> of_int n < py_int_fmul limit r"
  using assms by (auto simp: enforce_capacity_def split: float_text.splits if_splits)

end
