(* ===== verification/Py_Text.thy ===== *)
theory Py_Text
  imports Prelude "HOL-Library.Word"
begin

text \<open>
  The texts and digests the code derives from values: \<open>str\<close> of integers, booleans and UTC
  datetimes, UTF-8 encoding, and SHA-256 (FIPS 180-4) with its hexadecimal rendering, which the
  program uses for checksums and capability fingerprints.
\<close>

section \<open>Numbers and booleans\<close>

definition digit_char :: "nat \<Rightarrow> char" where
  "digit_char d = ''0123456789abcdef'' ! d"

fun nat_str :: "nat \<Rightarrow> string" where
  "nat_str n = (if n < 10 then [digit_char n] else nat_str (n div 10) @ [digit_char (n mod 10)])"

declare nat_str.simps [simp del]

definition int_str :: "int \<Rightarrow> string" where
  "int_str n = (if n < 0 then CHR ''-'' # nat_str (nat (- n)) else nat_str (nat n))"

definition bool_str :: "bool \<Rightarrow> string" where
  "bool_str b = (if b then ''True'' else ''False'')"

text \<open>\<open>str(flag).lower()\<close>.\<close>

definition bool_str_lower :: "bool \<Rightarrow> string" where
  "bool_str_lower b = (if b then ''true'' else ''false'')"

definition opt_str :: "('a \<Rightarrow> string) \<Rightarrow> 'a option \<Rightarrow> string" where
  "opt_str f x = (case x of None \<Rightarrow> ''None'' | Some a \<Rightarrow> f a)"

section \<open>\<open>str(datetime)\<close>\<close>

definition pad :: "nat \<Rightarrow> string \<Rightarrow> string" where
  "pad w s = replicate (w - length s) CHR ''0'' @ s"

text \<open>Proleptic Gregorian date of a day number counted from 1970-01-01, in 400-year eras.\<close>

definition civil_from_days :: "int \<Rightarrow> int \<times> int \<times> int" where
  "civil_from_days days =
     (let z = days + 719468;
          era = z div 146097;
          doe = z - era * 146097;
          yoe = (doe - doe div 1460 + doe div 36524 - doe div 146096) div 365;
          doy = doe - (365 * yoe + yoe div 4 - yoe div 100);
          mp = (5 * doy + 2) div 153;
          d = doy - (153 * mp + 2) div 5 + 1;
          m = (if mp < 10 then mp + 3 else mp - 9);
          y = yoe + era * 400 + (if m \<le> 2 then 1 else 0)
      in (y, m, d))"

definition datetime_str :: "int \<Rightarrow> string" where
  "datetime_str t =
     (let secs = t div 1000000; us = t mod 1000000; sod = secs mod 86400 in
      case civil_from_days (secs div 86400) of (y, m, d) \<Rightarrow>
        pad 4 (int_str y) @ ''-'' @ pad 2 (int_str m) @ ''-'' @ pad 2 (int_str d) @ '' '' @
        pad 2 (int_str (sod div 3600)) @ '':'' @ pad 2 (int_str (sod mod 3600 div 60)) @ '':'' @
        pad 2 (int_str (sod mod 60)) @
        (if us = 0 then [] else ''.'' @ pad 6 (int_str us)) @ ''+00:00'')"

text \<open>\<open>str.lower\<close> on Latin-1.\<close>

definition py_lower_char :: "char \<Rightarrow> char" where
  "py_lower_char c =
     (let n = of_char c :: nat in
      if (65 \<le> n \<and> n \<le> 90) \<or> (192 \<le> n \<and> n \<le> 222 \<and> n \<noteq> 215) then char_of (n + 32) else c)"

definition py_lower :: "string \<Rightarrow> string" where
  "py_lower s = map py_lower_char s"

text \<open>
  \<open>int(text)\<close>: white space around, a sign, decimal digits, at most 4300, with single
  underscores between them.
\<close>

definition is_digit_char :: "char \<Rightarrow> bool" where
  "is_digit_char c \<longleftrightarrow> c \<in> set ''0123456789''"

fun digits_value :: "string \<Rightarrow> int \<Rightarrow> int option" where
  "digits_value [] acc = Some acc"
| "digits_value (c # cs) acc =
     (if is_digit_char c then digits_value cs (10 * acc + (of_char c - 48))
      else if c = CHR ''_'' \<and> cs \<noteq> [] \<and> is_digit_char (hd cs) then digits_value cs acc
      else None)"

definition py_int_parse :: "string \<Rightarrow> int option" where
  "py_int_parse text =
     (let s = py_strip text;
          signed = (s \<noteq> [] \<and> hd s \<in> {CHR ''+'', CHR ''-''});
          body = (if signed then tl s else s) in
      if body = [] \<or> \<not> is_digit_char (hd body) \<or> 4300 < length (filter is_digit_char body) then None
      else map_option (\<lambda>n. if hd s = CHR ''-'' then - n else n) (digits_value body 0))"

section \<open>Bytes, UTF-8 and SHA-256\<close>

type_synonym bytes = "8 word list"

definition utf8_char :: "char \<Rightarrow> bytes" where
  "utf8_char c =
     (let n = of_char c :: nat in
      if n < 128 then [of_nat n] else [of_nat (192 + n div 64), of_nat (128 + n mod 64)])"

definition utf8_encode :: "string \<Rightarrow> bytes" where
  "utf8_encode s = concat (map utf8_char s)"

definition sha256_k :: "32 word list" where
  "sha256_k = [
     1116352408, 1899447441, 3049323471, 3921009573, 961987163, 1508970993, 2453635748, 2870763221,
     3624381080, 310598401, 607225278, 1426881987, 1925078388, 2162078206, 2614888103, 3248222580,
     3835390401, 4022224774, 264347078, 604807628, 770255983, 1249150122, 1555081692, 1996064986,
     2554220882, 2821834349, 2952996808, 3210313671, 3336571891, 3584528711, 113926993, 338241895,
     666307205, 773529912, 1294757372, 1396182291, 1695183700, 1986661051, 2177026350, 2456956037,
     2730485921, 2820302411, 3259730800, 3345764771, 3516065817, 3600352804, 4094571909, 275423344,
     430227734, 506948616, 659060556, 883997877, 958139571, 1322822218, 1537002063, 1747873779,
     1955562222, 2024104815, 2227730452, 2361852424, 2428436474, 2756734187, 3204031479, 3329325298]"

definition sha256_init :: "32 word list" where
  "sha256_init = [1779033703, 3144134277, 1013904242, 2773480762, 1359893119, 2600822924,
     528734635, 1541459225]"

unbundle bit_operations_syntax

definition sha_ch :: "32 word \<Rightarrow> 32 word \<Rightarrow> 32 word \<Rightarrow> 32 word" where
  "sha_ch x y z = (x AND y) XOR (NOT x AND z)"

definition sha_maj :: "32 word \<Rightarrow> 32 word \<Rightarrow> 32 word \<Rightarrow> 32 word" where
  "sha_maj x y z = (x AND y) XOR (x AND z) XOR (y AND z)"

definition sha_rotr :: "nat \<Rightarrow> 32 word \<Rightarrow> 32 word" where
  "sha_rotr n x = drop_bit n x OR push_bit (32 - n) x"

definition sha_bsig0 :: "32 word \<Rightarrow> 32 word" where
  "sha_bsig0 x = sha_rotr 2 x XOR sha_rotr 13 x XOR sha_rotr 22 x"

definition sha_bsig1 :: "32 word \<Rightarrow> 32 word" where
  "sha_bsig1 x = sha_rotr 6 x XOR sha_rotr 11 x XOR sha_rotr 25 x"

definition sha_ssig0 :: "32 word \<Rightarrow> 32 word" where
  "sha_ssig0 x = sha_rotr 7 x XOR sha_rotr 18 x XOR drop_bit 3 x"

definition sha_ssig1 :: "32 word \<Rightarrow> 32 word" where
  "sha_ssig1 x = sha_rotr 17 x XOR sha_rotr 19 x XOR drop_bit 10 x"

text \<open>Padding to a multiple of 64 bytes: a one bit, zeros, the length in bits.\<close>

definition be_bytes :: "nat \<Rightarrow> nat \<Rightarrow> bytes" where
  "be_bytes w n = map (\<lambda>i. of_nat (n div 256 ^ i)) (rev [0..<w])"

definition sha_pad :: "bytes \<Rightarrow> bytes" where
  "sha_pad m = m @ [0x80] @ replicate ((119 - length m mod 64) mod 64) 0 @ be_bytes 8 (8 * length m)"

fun be_words :: "bytes \<Rightarrow> 32 word list" where
  "be_words (a # b # c # d # rest) =
     (push_bit 24 (ucast a) OR push_bit 16 (ucast b) OR push_bit 8 (ucast c) OR ucast d) # be_words rest"
| "be_words _ = []"

text \<open>The message schedule, newest word first: each step looks 2, 7, 15 and 16 words back.\<close>

fun sha_schedule :: "nat \<Rightarrow> 32 word list \<Rightarrow> 32 word list" where
  "sha_schedule 0 w = w"
| "sha_schedule (Suc n) w =
     sha_schedule n ((sha_ssig1 (w ! 1) + w ! 6 + sha_ssig0 (w ! 14) + w ! 15) # w)"

fun sha_round :: "32 word list \<Rightarrow> 32 word \<times> 32 word \<Rightarrow> 32 word list" where
  "sha_round [a, b, c, d, e, f, g, h] (k, w) =
     (let t1 = h + sha_bsig1 e + sha_ch e f g + k + w;
          t2 = sha_bsig0 a + sha_maj a b c
      in [t1 + t2, a, b, c, d + t1, e, f, g])"
| "sha_round s _ = s"

definition sha_compress :: "32 word list \<Rightarrow> 32 word list \<Rightarrow> 32 word list" where
  "sha_compress hs block =
     (let w = rev (sha_schedule 48 (rev block));
          out = foldl sha_round hs (zip sha256_k w)
      in map2 (+) hs out)"

fun sha_blocks :: "nat \<Rightarrow> 32 word list \<Rightarrow> 32 word list \<Rightarrow> 32 word list" where
  "sha_blocks 0 hs ws = hs"
| "sha_blocks (Suc n) hs ws = sha_blocks n (sha_compress hs (take 16 ws)) (drop 16 ws)"

definition sha256 :: "bytes \<Rightarrow> 32 word list" where
  "sha256 m = (let ws = be_words (sha_pad m) in sha_blocks (length ws div 16) sha256_init ws)"

definition word_hex :: "32 word \<Rightarrow> string" where
  "word_hex w = map (\<lambda>i. digit_char (unat w div 16 ^ i mod 16)) (rev [0..<8])"

definition sha256_hex :: "bytes \<Rightarrow> string" where
  "sha256_hex m = concat (map word_hex (sha256 m))"

section \<open>Shapes of the texts\<close>

lemma nat_str_ne [simp]: "nat_str n \<noteq> []"
  by (subst nat_str.simps) simp

lemma sha_pad_arith: "(n + 1 + (119 - n mod 64) mod 64 + 8) mod 64 = (0::nat)"
proof -
  define r where "r = n mod 64"
  have r: "r < 64" and n: "n = 64 * (n div 64) + r" by (simp_all add: r_def)
  have "r + (119 - r) mod 64 = 55 \<or> r + (119 - r) mod 64 = 119"
  proof (cases "r \<le> 55")
    case True
    then have e: "119 - r = (55 - r) + 64" by simp
    have "(119 - r) mod 64 = 55 - r" unfolding e mod_add_self2 by simp
    with True show ?thesis by simp
  qed (use r in simp)
  then have "n + 1 + (119 - r) mod 64 + 8 = 64 * (n div 64) + 64
      \<or> n + 1 + (119 - r) mod 64 + 8 = 64 * (n div 64) + 128"
    using n by linarith
  then show ?thesis unfolding r_def [symmetric] by auto
qed

lemma length_sha_pad: "length (sha_pad m) mod 64 = 0"
proof -
  have "length (sha_pad m) = length m + 1 + (119 - length m mod 64) mod 64 + 8"
    by (simp add: sha_pad_def be_bytes_def)
  then show ?thesis by (simp only: sha_pad_arith)
qed

lemma length_sha_round [simp]: "length (sha_round s kw) = length s"
  by (cases "(s, kw)" rule: sha_round.cases) (auto simp: Let_def)

lemma length_foldl_sha_round [simp]: "length (foldl sha_round s kws) = length s"
  by (induction kws arbitrary: s) auto

lemma length_sha_compress [simp]: "length (sha_compress hs b) = length hs"
  by (simp add: sha_compress_def Let_def)

lemma length_sha_blocks [simp]: "length (sha_blocks n hs ws) = length hs"
  by (induction n arbitrary: hs ws) auto

lemma length_sha256 [simp]: "length (sha256 m) = 8"
  by (simp add: sha256_def Let_def sha256_init_def)

text \<open>A digest is always 64 hexadecimal characters.\<close>

lemma length_concat_const: "(\<And>x. x \<in> set xs \<Longrightarrow> length (f x) = k) \<Longrightarrow> length (concat (map f xs)) = length xs * k"
  by (induction xs) auto

lemma length_sha256_hex: "length (sha256_hex m) = 64"
  unfolding sha256_hex_def by (subst length_concat_const [where k = 8]) (simp_all add: word_hex_def)

lemma sha256_hex_ne [simp]: "sha256_hex m \<noteq> []"
  using length_sha256_hex [of m] by (metis list.size(3) zero_neq_numeral)

lemma digit_char_hex: "d < 16 \<Longrightarrow> digit_char d \<in> set ''0123456789abcdef''"
  unfolding digit_char_def by (rule nth_mem) simp

lemma sha256_hex_chars: "set (sha256_hex m) \<subseteq> set ''0123456789abcdef''"
  unfolding sha256_hex_def word_hex_def by (auto simp only: set_concat set_map intro!: digit_char_hex)

end
