(* ===== verification/Registry.thy ===== *)
theory Registry
  imports Models Py_Text
begin

text \<open>
  The in-memory asset registry, \<^verbatim>\<open>asset_store_core/registry.py\<close>: its state as a record (the
  dictionaries of the class, plus the clock, the identifier source and the environment it reads)
  and every method as an operation on that record, in the order of the source. Keyword arguments
  keep the source's order.

  The clock is a sequence of readings: each \<open>utcnow()\<close> returns the next one, so two reads in one
  method may differ, as they may in the code. The identifiers that \<open>uuid\<close> returns are a
  sequence too; what the code relies on about them is stated where it is used.
\<close>

section \<open>State\<close>

record registry =
  r_assets :: "(string, asset) dict"
  r_aliases :: "(string, alias_binding) dict"
  r_audit_events :: "audit_event list"
  r_tombstones :: "(string, datetime) dict"
  r_partition_quotas :: "(string \<times> string, partition_quota) dict"
  r_bucket_quotas :: "(string, bucket_quota) dict"
  r_alias_grace :: int
  r_env :: environ
  r_clock :: "nat \<Rightarrow> datetime"
  r_ticks :: nat
  r_uuids :: "nat \<Rightarrow> string"
  r_next_uuid :: nat

definition PARTITION_HARD_RATIO :: rat where
  "PARTITION_HARD_RATIO = fl (105 / 100)"

definition SWEEP_DEFAULT_SPACES :: "string set" where
  "SWEEP_DEFAULT_SPACES = {''cache'', ''tmp''}"

text \<open>The constructor: \<open>None\<close> selects the default grace period of seven days.\<close>

definition init_registry ::
  "int option \<Rightarrow> environ \<Rightarrow> (nat \<Rightarrow> datetime) \<Rightarrow> (nat \<Rightarrow> string) \<Rightarrow> error + registry" where
  "init_registry alias_name_grace_period env clock uuids =
     (let r = \<lparr>r_assets = [], r_aliases = [], r_audit_events = [], r_tombstones = [],
               r_partition_quotas = [], r_bucket_quotas = [], r_alias_grace = seconds (7 * 86400),
               r_env = env, r_clock = clock, r_ticks = 0, r_uuids = uuids, r_next_uuid = 0\<rparr>
      in case alias_name_grace_period of
           None \<Rightarrow> Inr r
         | Some g \<Rightarrow> if g < 0 then Inl ValidationError else Inr (r\<lparr>r_alias_grace := g\<rparr>))"

definition utcnow :: "(registry, datetime) op" where
  "utcnow r = (Inr (r_clock r (r_ticks r)), r\<lparr>r_ticks := Suc (r_ticks r)\<rparr>)"

definition new_asset_id :: "(registry, string) op" where
  "new_asset_id r = (Inr (r_uuids r (r_next_uuid r)), r\<lparr>r_next_uuid := Suc (r_next_uuid r)\<rparr>)"

section \<open>Private helpers\<close>

definition audit ::
  "string \<Rightarrow> string \<Rightarrow> string \<Rightarrow> string \<Rightarrow> (string \<rightharpoonup> string) \<Rightarrow> (string \<rightharpoonup> string) \<Rightarrow>
   (registry, unit) op" where
  "audit action target caller_service_id outcome before after =
     bind_op utcnow (\<lambda>ts.
     modify (\<lambda>r. r\<lparr>r_audit_events := r_audit_events r @
       [\<lparr>e_action = action, e_target = target, e_caller_service_id = caller_service_id,
         e_outcome = outcome, e_before = before, e_after = after, e_ts = ts\<rparr>]\<rparr>))"

definition put_asset :: "string \<Rightarrow> asset \<Rightarrow> (registry, unit) op" where
  "put_asset asset_id a = modify (\<lambda>r. r\<lparr>r_assets := AList.update asset_id a (r_assets r)\<rparr>)"

definition put_alias :: "string \<Rightarrow> alias_binding \<Rightarrow> (registry, unit) op" where
  "put_alias key b = modify (\<lambda>r. r\<lparr>r_aliases := AList.update key b (r_aliases r)\<rparr>)"

definition get_asset :: "string \<Rightarrow> (registry, asset) op" where
  "get_asset asset_id =
     bind_op (gets r_assets) (\<lambda>assets.
     case map_of assets asset_id of None \<Rightarrow> raise AssetNotFoundError | Some a \<Rightarrow> ret a)"

definition get_binding :: "string \<Rightarrow> string \<Rightarrow> (registry, alias_binding) op" where
  "get_binding space alias =
     bind_op (of_result (normalize_space space)) (\<lambda>s.
     bind_op (of_result (normalize_relative_alias alias)) (\<lambda>a.
     bind_op (of_result (qualified_alias s a)) (\<lambda>key.
     bind_op (gets r_aliases) (\<lambda>aliases.
     case map_of aliases key of None \<Rightarrow> raise AliasNotFoundError | Some b \<Rightarrow> ret b))))"

definition alias_name_is_blocked :: "string \<Rightarrow> string \<Rightarrow> (registry, bool) op" where
  "alias_name_is_blocked norm_space alias_name =
     bind_op (of_result (qualified_alias norm_space alias_name)) (\<lambda>key.
     bind_op (gets r_aliases) (\<lambda>aliases.
     if map_of aliases key \<noteq> None then ret True
     else
       bind_op (gets r_tombstones) (\<lambda>tombstones.
       case map_of tombstones key of
         None \<Rightarrow> ret False
       | Some grace_until \<Rightarrow>
           bind_op utcnow (\<lambda>now.
           if grace_until \<le> now then
             seq_op (modify (\<lambda>r. r\<lparr>r_tombstones := AList.delete key (r_tombstones r)\<rparr>)) (ret False)
           else ret True))))"

definition require_alias_name_available :: "string \<Rightarrow> string \<Rightarrow> (registry, unit) op" where
  "require_alias_name_available norm_space alias_name =
     bind_op (alias_name_is_blocked norm_space alias_name) (\<lambda>blocked.
     if blocked then
       bind_op (of_result (qualified_alias norm_space alias_name)) (\<lambda>_. raise AliasConflictError)
     else ret ())"

definition add_alias_to_asset :: "string \<Rightarrow> string \<Rightarrow> (registry, unit) op" where
  "add_alias_to_asset asset_id qualified_key =
     bind_op (get_asset asset_id) (\<lambda>asset.
     bind_op utcnow (\<lambda>now.
     put_asset asset_id
       (asset\<lparr>a_aliases := insert qualified_key (a_aliases asset), a_updated_at := now\<rparr>)))"

definition remove_alias_from_asset :: "string \<Rightarrow> string \<Rightarrow> (registry, unit) op" where
  "remove_alias_from_asset asset_id qualified_key =
     bind_op (get_asset asset_id) (\<lambda>asset.
     bind_op utcnow (\<lambda>now.
     put_asset asset_id
       (asset\<lparr>a_aliases := a_aliases asset - {qualified_key}, a_updated_at := now\<rparr>)))"

section \<open>Alias specifications\<close>

text \<open>
  \<open>Iterable[str] | Mapping[str, bool]\<close>: names alone are immutable. The result is a dictionary,
  so of two specifications with the same normalised name the later decides mutability.
\<close>

datatype alias_specs = AliasNames "string list" | AliasMapping "(string \<times> bool) list"

definition dict_of_pairs :: "('k \<times> 'v) list \<Rightarrow> ('k, 'v) dict" where
  "dict_of_pairs ps = fold (\<lambda>p d. AList.update (fst p) (snd p) d) ps []"

fun alias_items :: "alias_specs \<Rightarrow> (string \<times> bool) list" where
  "alias_items (AliasNames names) = map (\<lambda>n. (n, False)) names"
| "alias_items (AliasMapping items) = items"

definition normalize_alias_specs :: "alias_specs \<Rightarrow> error + (string, bool) dict" where
  "normalize_alias_specs aliases =
     bind_result
       (map_result (\<lambda>p. bind_result (normalize_relative_alias (fst p)) (\<lambda>n. Inr (n, snd p)))
          (alias_items aliases))
       (\<lambda>ps. Inr (dict_of_pairs ps))"

definition alias_under_partition :: "string \<Rightarrow> string \<Rightarrow> error + string" where
  "alias_under_partition partition_id relative_alias =
     bind_result (normalize_relative_alias relative_alias) (\<lambda>rel.
     bind_result (normalize_partition_id partition_id) (\<lambda>pfx.
     if rel = pfx \<or> prefix (pfx @ ''/'') rel then Inr rel else Inr (pfx @ ''/'' @ rel)))"

definition partition_from_scoped_alias :: "string \<Rightarrow> error + string" where
  "partition_from_scoped_alias scoped_alias =
     normalize_partition_id (fst (py_partition slash scoped_alias))"

section \<open>Quotas\<close>

definition default_partition_quota :: "string \<Rightarrow> string \<Rightarrow> partition_quota" where
  "default_partition_quota space partition_id =
     \<lparr>pq_space = space, pq_partition_id = partition_id, pq_quota_bytes = None,
      pq_quota_asset_count = None, pq_used_bytes = 0, pq_used_asset_count = 0,
      pq_eviction_sweep_enabled = space \<in> SWEEP_DEFAULT_SPACES\<rparr>"

definition default_bucket_quota :: "string \<Rightarrow> bucket_quota" where
  "default_bucket_quota space =
     \<lparr>bq_space = space, bq_quota_bytes = None, bq_used_bytes = 0,
      bq_warn_threshold = fl (80 / 100), bq_hard_ceiling = 1\<rparr>"

definition partition_quota_of :: "string \<Rightarrow> string \<Rightarrow> (registry, partition_quota) op" where
  "partition_quota_of space partition_id =
     bind_op (of_result (normalize_space space)) (\<lambda>norm_space.
     bind_op (of_result (normalize_partition_id partition_id)) (\<lambda>norm_partition.
     bind_op (gets r_partition_quotas) (\<lambda>quotas.
     case map_of quotas (norm_space, norm_partition) of
       Some existing \<Rightarrow> ret existing
     | None \<Rightarrow> ret (default_partition_quota norm_space norm_partition))))"

definition bucket_quota_of :: "string \<Rightarrow> (registry, bucket_quota) op" where
  "bucket_quota_of space =
     bind_op (of_result (normalize_space space)) (\<lambda>norm_space.
     bind_op (gets r_bucket_quotas) (\<lambda>quotas.
     case map_of quotas norm_space of
       Some existing \<Rightarrow> ret existing
     | None \<Rightarrow> ret (default_bucket_quota norm_space)))"

text \<open>Uploads in flight with an exact-size reservation, in the given space.\<close>

definition pending_uploads :: "string \<Rightarrow> string option \<Rightarrow> registry \<Rightarrow> asset list" where
  "pending_uploads space exclude_asset_id r =
     filter (\<lambda>a. a_space a = space \<and> a_state a = PENDING \<and> a_reserved_bytes a \<noteq> None \<and>
                 Some (a_asset_id a) \<noteq> exclude_asset_id)
       (dict_values (r_assets r))"

definition reserved_sum :: "asset list \<Rightarrow> int" where
  "reserved_sum as = sum_list (map (\<lambda>a. or_zero (a_reserved_bytes a)) as)"

definition physical_size :: "asset \<Rightarrow> int" where
  "physical_size a = (case a_size_bytes a of Some n \<Rightarrow> n | None \<Rightarrow> or_zero (a_reserved_bytes a))"

definition physical_bytes :: "string \<Rightarrow> string option \<Rightarrow> registry \<Rightarrow> int" where
  "physical_bytes space exclude_asset_id r =
     sum_list (map physical_size
       (filter (\<lambda>a. a_space a = space \<and> a_payload_deleted_at a = None \<and>
                    Some (a_asset_id a) \<noteq> exclude_asset_id)
          (dict_values (r_assets r))))"

definition enforce_quota ::
  "string \<Rightarrow> string \<Rightarrow> int \<Rightarrow> string option \<Rightarrow> (registry, unit) op" where
  "enforce_quota space partition_id new_bytes exclude_asset_id =
     bind_op (gets (pending_uploads space exclude_asset_id)) (\<lambda>pending.
     (let partition_pending = filter (\<lambda>a. a_partition_id a = partition_id) pending in
     bind_op (partition_quota_of space partition_id) (\<lambda>pq.
     seq_op (check
       (case pq_quota_bytes pq of
          None \<Rightarrow> True
        | Some q \<Rightarrow> of_int (pq_used_bytes pq + reserved_sum partition_pending + new_bytes)
                    < py_int_fmul q PARTITION_HARD_RATIO)
       (QuotaExceededError ''partition'')) (
     seq_op (check
       (case pq_quota_asset_count pq of
          None \<Rightarrow> True
        | Some n \<Rightarrow> pq_used_asset_count pq + int (length partition_pending) + 1 \<le> n)
       (QuotaExceededError ''partition'')) (
     bind_op (gets r_env) (\<lambda>env.
     bind_op (of_result (capacity_limits env)) (\<lambda>limits.
     seq_op
       (if map_of limits space \<noteq> None then
          bind_op (gets (physical_bytes space exclude_asset_id)) (\<lambda>physical.
          of_result (enforce_capacity env space (physical + new_bytes)))
        else ret ()) (
     bind_op (bucket_quota_of space) (\<lambda>bq.
     check
       (case bq_quota_bytes bq of
          None \<Rightarrow> True
        | Some q \<Rightarrow> of_int (bq_used_bytes bq + reserved_sum pending + new_bytes)
                    < py_int_fmul q (bq_hard_ceiling bq))
       (QuotaExceededError ''bucket''))))))))))"

definition put_partition_quota :: "partition_quota \<Rightarrow> (registry, unit) op" where
  "put_partition_quota pq =
     modify (\<lambda>r. r\<lparr>r_partition_quotas :=
       AList.update (pq_space pq, pq_partition_id pq) pq (r_partition_quotas r)\<rparr>)"

definition put_bucket_quota :: "bucket_quota \<Rightarrow> (registry, unit) op" where
  "put_bucket_quota bq =
     modify (\<lambda>r. r\<lparr>r_bucket_quotas := AList.update (bq_space bq) bq (r_bucket_quotas r)\<rparr>)"

definition acquire_quota :: "string \<Rightarrow> string \<Rightarrow> int \<Rightarrow> (registry, unit) op" where
  "acquire_quota space partition_id nbytes =
     bind_op (partition_quota_of space partition_id) (\<lambda>pq.
     seq_op (put_partition_quota
       (pq\<lparr>pq_used_bytes := pq_used_bytes pq + nbytes,
           pq_used_asset_count := pq_used_asset_count pq + 1\<rparr>)) (
     bind_op (bucket_quota_of space) (\<lambda>bq.
     put_bucket_quota (bq\<lparr>bq_used_bytes := bq_used_bytes bq + nbytes\<rparr>))))"

definition release_quota :: "asset \<Rightarrow> (registry, unit) op" where
  "release_quota asset =
     (if a_state asset \<noteq> AVAILABLE then ret ()
      else
        (let nbytes = or_zero (a_size_bytes asset) in
        bind_op (partition_quota_of (a_space asset) (a_partition_id asset)) (\<lambda>pq.
        seq_op (put_partition_quota
          (pq\<lparr>pq_used_bytes := max 0 (pq_used_bytes pq - nbytes),
              pq_used_asset_count := max 0 (pq_used_asset_count pq - 1)\<rparr>)) (
        bind_op (bucket_quota_of (a_space asset)) (\<lambda>bq.
        put_bucket_quota (bq\<lparr>bq_used_bytes := max 0 (bq_used_bytes bq - nbytes)\<rparr>))))))"

definition mark_for_gc_if_orphaned :: "string \<Rightarrow> string \<Rightarrow> (registry, unit) op" where
  "mark_for_gc_if_orphaned asset_id caller_service_id =
     bind_op (get_asset asset_id) (\<lambda>asset.
     if a_aliases asset \<noteq> {} then ret ()
     else if a_state asset \<in> {EXPIRED, DELETED} then ret ()
     else
       bind_op utcnow (\<lambda>t1.
       bind_op utcnow (\<lambda>t2.
       seq_op (put_asset asset_id
         (asset\<lparr>a_state := EXPIRED, a_updated_at := t1, a_expired_at := Some t2\<rparr>)) (
       seq_op (release_quota asset) (
       audit ''asset.gc_mark'' asset_id caller_service_id ''success''
         [''state'' \<mapsto> state_value (a_state asset), ''reason'' \<mapsto> ''zero_aliases'']
         [''state'' \<mapsto> state_value EXPIRED])))))"

section \<open>Capability audit\<close>

definition record_capability_issue ::
  "string \<Rightarrow> string \<Rightarrow> string \<Rightarrow> int \<Rightarrow> string \<Rightarrow> string option \<Rightarrow> (registry, unit) op" where
  "record_capability_issue caller_service_id operation scope_prefix ttl_seconds outcome capability_id =
     (let after = [''operation'' \<mapsto> operation, ''ttl_seconds'' \<mapsto> int_str ttl_seconds];
          after' = (case capability_id of
                      None \<Rightarrow> after
                    | Some cid \<Rightarrow> after(''capability_fingerprint'' \<mapsto> sha256_hex (utf8_encode cid)))
      in audit ''capability.issue'' scope_prefix caller_service_id outcome Map.empty after')"

section \<open>Reservation\<close>

definition scoped_key :: "string \<Rightarrow> string \<Rightarrow> string \<Rightarrow> error + string" where
  "scoped_key norm_space norm_partition alias_name =
     bind_result (alias_under_partition norm_partition alias_name) (qualified_alias norm_space)"

definition bind_reserved_alias ::
  "string \<Rightarrow> string \<Rightarrow> string \<Rightarrow> datetime \<Rightarrow> string \<Rightarrow> string \<times> bool \<Rightarrow> (registry, unit) op" where
  "bind_reserved_alias norm_space norm_partition asset_id now owner_service_id spec =
     bind_op (of_result (alias_under_partition norm_partition (fst spec))) (\<lambda>scoped.
     (let binding = \<lparr>b_space = norm_space, b_alias = scoped, b_asset_id = Some asset_id,
                     b_mutable = snd spec, b_previous_asset_id = None, b_created_at = now,
                     b_updated_at = now, b_created_by_service_id = owner_service_id\<rparr> in
     bind_op (of_result (binding_qualified_alias binding)) (\<lambda>key.
     seq_op (put_alias key binding) (
     audit ''alias.create'' key owner_service_id ''success'' Map.empty
       [''asset_id'' \<mapsto> asset_id, ''mutable'' \<mapsto> bool_str_lower (snd spec)]))))"

definition reserve_asset ::
  "string \<Rightarrow> string \<Rightarrow> alias_specs \<Rightarrow> string \<Rightarrow> string option \<Rightarrow> (string, string) fmap option \<Rightarrow>
   eviction_policy \<Rightarrow> int option \<Rightarrow> int option \<Rightarrow> (registry, asset) op" where
  "reserve_asset space partition_id aliases owner_service_id mime annotations eviction_policy
       ttl_seconds reserved_bytes =
     bind_op (of_result (normalize_space space)) (\<lambda>norm_space.
     bind_op (of_result (normalize_partition_id partition_id)) (\<lambda>norm_partition.
     bind_op (of_result (normalize_alias_specs aliases)) (\<lambda>alias_specs.
     seq_op (for_each (map fst alias_specs) (\<lambda>alias.
       bind_op (of_result (alias_under_partition norm_partition alias))
         (require_alias_name_available norm_space))) (
     seq_op (case reserved_bytes of
         None \<Rightarrow> ret ()
       | Some n \<Rightarrow>
           if n < 0 then raise ValidationError
           else enforce_quota norm_space norm_partition n None) (
     bind_op new_asset_id (\<lambda>asset_id.
     bind_op utcnow (\<lambda>now.
     bind_op (of_result (map_result (scoped_key norm_space norm_partition) (map fst alias_specs)))
       (\<lambda>qualified_aliases.
     bind_op (of_result (build_storage_key norm_partition asset_id)) (\<lambda>storage_key.
     bind_op (gets r_env) (\<lambda>env.
     bind_op (of_result (expiry_for env norm_space ttl_seconds now)) (\<lambda>expires_at.
     (let asset = \<lparr>a_asset_id = asset_id, a_space = norm_space, a_partition_id = norm_partition,
                   a_storage_key = storage_key, a_state = PENDING,
                   a_aliases = set qualified_aliases, a_mime = mime, a_size_bytes = None,
                   a_reserved_bytes = reserved_bytes, a_checksum_algo = ''sha256'',
                   a_checksum = None,
                   a_annotations = (case annotations of None \<Rightarrow> fmempty | Some m \<Rightarrow> m),
                   a_created_at = now, a_updated_at = now, a_expires_at = expires_at,
                   a_expired_at = None, a_last_read_at = None, a_read_count = 0,
                   a_payload_deleted_at = None, a_owner_service_id = owner_service_id,
                   a_eviction_policy = eviction_policy\<rparr> in
     seq_op (put_asset asset_id asset) (
     seq_op (for_each alias_specs
       (bind_reserved_alias norm_space norm_partition asset_id now owner_service_id)) (
     seq_op (case reserved_bytes of
         None \<Rightarrow> ret ()
       | Some n \<Rightarrow> audit ''asset.upload_reserve'' asset_id owner_service_id ''success'' Map.empty
                    [''reserved_bytes'' \<mapsto> int_str n]) (
     ret asset)))))))))))))))"

definition attach_alias :: "string \<Rightarrow> string \<Rightarrow> bool \<Rightarrow> string \<Rightarrow> (registry, alias_binding) op" where
  "attach_alias asset_id alias mutable caller_service_id =
     bind_op (get_asset asset_id) (\<lambda>asset.
     seq_op (check (a_state asset \<noteq> DELETED) InvalidStateTransitionError) (
     bind_op (of_result (normalize_space (a_space asset))) (\<lambda>norm_space.
     bind_op (of_result (alias_under_partition (a_partition_id asset) alias)) (\<lambda>alias_name.
     seq_op (require_alias_name_available norm_space alias_name) (
     bind_op (of_result (qualified_alias norm_space alias_name)) (\<lambda>key.
     bind_op utcnow (\<lambda>now.
     (let binding = \<lparr>b_space = norm_space, b_alias = alias_name, b_asset_id = Some asset_id,
                     b_mutable = mutable, b_previous_asset_id = None, b_created_at = now,
                     b_updated_at = now, b_created_by_service_id = caller_service_id\<rparr> in
     seq_op (put_alias key binding) (
     seq_op (add_alias_to_asset asset_id key) (
     seq_op (audit ''alias.attach'' key caller_service_id ''success'' Map.empty
       [''asset_id'' \<mapsto> asset_id, ''mutable'' \<mapsto> bool_str_lower mutable]) (
     ret binding)))))))))))"

section \<open>Commit and annotations\<close>

text \<open>\<open>mime or asset.mime\<close>: an absent or empty text falls back.\<close>

definition str_or :: "string option \<Rightarrow> string option \<Rightarrow> string option" where
  "str_or x y = (case x of None \<Rightarrow> y | Some s \<Rightarrow> if s = [] then y else Some s)"

definition commit_asset ::
  "string \<Rightarrow> int \<Rightarrow> string \<Rightarrow> string \<Rightarrow> string option \<Rightarrow> string option \<Rightarrow> (registry, asset) op" where
  "commit_asset asset_id size_bytes checksum caller_service_id mime expected_checksum =
     seq_op (check (0 \<le> size_bytes) ValidationError) (
     (let server_checksum = py_strip checksum in
     seq_op (check (server_checksum \<noteq> []) ValidationError) (
     seq_op (check (case expected_checksum of None \<Rightarrow> True | Some c \<Rightarrow> c = server_checksum)
       ChecksumMismatchError) (
     bind_op (get_asset asset_id) (\<lambda>asset.
     seq_op (check (a_state asset = PENDING) InvalidStateTransitionError) (
     seq_op (check (case a_reserved_bytes asset of None \<Rightarrow> True | Some n \<Rightarrow> n = size_bytes)
       ValidationError) (
     seq_op (enforce_quota (a_space asset) (a_partition_id asset) size_bytes (Some asset_id)) (
     bind_op utcnow (\<lambda>now.
     (let updated = asset\<lparr>a_state := AVAILABLE, a_size_bytes := Some size_bytes,
                          a_reserved_bytes := None, a_checksum := Some server_checksum,
                          a_mime := str_or mime (a_mime asset), a_updated_at := now\<rparr> in
     seq_op (put_asset asset_id updated) (
     seq_op (acquire_quota (a_space asset) (a_partition_id asset) size_bytes) (
     seq_op (audit ''asset.commit'' asset_id caller_service_id ''success''
       [''state'' \<mapsto> state_value (a_state asset)] [''state'' \<mapsto> state_value (a_state updated)]) (
     ret updated)))))))))))))"

definition update_annotations ::
  "string \<Rightarrow> (string, string) fmap \<Rightarrow> string \<Rightarrow> bool \<Rightarrow> (registry, asset) op" where
  "update_annotations asset_id patch caller_service_id overwrite =
     bind_op (get_asset asset_id) (\<lambda>asset.
     seq_op (check (a_state asset \<noteq> DELETED) InvalidStateTransitionError) (
     (let merged = (if overwrite then patch else a_annotations asset ++\<^sub>f patch) in
     bind_op utcnow (\<lambda>now.
     (let updated = asset\<lparr>a_annotations := merged, a_updated_at := now\<rparr> in
     seq_op (put_asset asset_id updated) (
     seq_op (audit ''asset.annotations_update'' asset_id caller_service_id ''success''
       (fmlookup (a_annotations asset)) (fmlookup (a_annotations updated))) (
     ret updated)))))))"

definition resolve_alias :: "string \<Rightarrow> string \<Rightarrow> (registry, asset) op" where
  "resolve_alias space alias =
     bind_op (get_binding space alias) (\<lambda>binding.
     case b_asset_id binding of
       None \<Rightarrow> raise InvalidStateTransitionError
     | Some asset_id \<Rightarrow>
         bind_op (get_asset asset_id) (\<lambda>asset.
         bind_op utcnow (\<lambda>now.
         seq_op (of_result (require_live asset now)) (
         seq_op (check (is_resolvable asset) InvalidStateTransitionError) (
         ret asset)))))"

section \<open>Detach and rebind\<close>

definition detach_alias :: "string \<Rightarrow> string \<Rightarrow> string \<Rightarrow> (registry, unit) op" where
  "detach_alias space alias caller_service_id =
     bind_op (get_binding space alias) (\<lambda>binding.
     bind_op (of_result (binding_qualified_alias binding)) (\<lambda>key.
     seq_op (check (\<not> b_mutable binding) AliasImmutableError) (
     case b_asset_id binding of
       None \<Rightarrow> raise InvalidStateTransitionError
     | Some asset_id \<Rightarrow>
         seq_op (modify (\<lambda>r. r\<lparr>r_aliases := AList.delete key (r_aliases r)\<rparr>)) (
         seq_op (remove_alias_from_asset asset_id key) (
         bind_op (gets r_alias_grace) (\<lambda>grace.
         seq_op (if 0 < grace then
             bind_op utcnow (\<lambda>now.
             bind_op (of_result (dt_add now grace)) (\<lambda>grace_until.
             modify (\<lambda>r. r\<lparr>r_tombstones := AList.update key grace_until (r_tombstones r)\<rparr>)))
           else ret ()) (
         seq_op (audit ''alias.detach'' key caller_service_id ''success''
           [''asset_id'' \<mapsto> asset_id] Map.empty) (
         mark_for_gc_if_orphaned asset_id caller_service_id)))))))) "

definition detach_mutable_alias :: "string \<Rightarrow> string \<Rightarrow> string \<Rightarrow> (registry, alias_binding) op" where
  "detach_mutable_alias space alias caller_service_id =
     bind_op (get_binding space alias) (\<lambda>binding.
     bind_op (of_result (binding_qualified_alias binding)) (\<lambda>key.
     seq_op (check (b_mutable binding) AliasImmutableError) (
     case b_asset_id binding of
       None \<Rightarrow> raise InvalidStateTransitionError
     | Some old_asset_id \<Rightarrow>
         seq_op (remove_alias_from_asset old_asset_id key) (
         bind_op utcnow (\<lambda>now.
         (let updated_binding = binding\<lparr>b_asset_id := None,
                b_previous_asset_id := Some old_asset_id, b_updated_at := now\<rparr> in
         seq_op (put_alias key updated_binding) (
         seq_op (audit ''alias.detach_mutable'' key caller_service_id ''success''
           [''asset_id'' \<mapsto> old_asset_id] [''asset_id'' \<mapsto> []]) (
         seq_op (mark_for_gc_if_orphaned old_asset_id caller_service_id) (
         ret updated_binding)))))))))"

definition rebind_alias ::
  "string \<Rightarrow> string \<Rightarrow> string \<Rightarrow> string \<Rightarrow> (registry, alias_binding) op" where
  "rebind_alias space alias target_asset_id caller_service_id =
     bind_op (get_binding space alias) (\<lambda>binding.
     bind_op (of_result (binding_qualified_alias binding)) (\<lambda>key.
     seq_op (check (b_mutable binding) AliasImmutableError) (
     seq_op (check (b_asset_id binding = None) InvalidStateTransitionError) (
     bind_op (get_asset target_asset_id) (\<lambda>new_asset.
     seq_op (check (a_space new_asset = b_space binding) AliasConflictError) (
     bind_op (of_result (partition_from_scoped_alias (b_alias binding))) (\<lambda>partition.
     seq_op (check (a_partition_id new_asset = partition) AliasConflictError) (
     seq_op (check (a_state new_asset = AVAILABLE) InvalidStateTransitionError) (
     bind_op utcnow (\<lambda>now.
     (let previous_asset_id = (case b_previous_asset_id binding of None \<Rightarrow> [] | Some p \<Rightarrow> p);
          updated_binding = binding\<lparr>b_asset_id := Some target_asset_id,
            b_previous_asset_id := None, b_updated_at := now\<rparr> in
     seq_op (put_alias key updated_binding) (
     seq_op (add_alias_to_asset target_asset_id key) (
     seq_op (audit ''alias.rebind'' key caller_service_id ''success''
       [''asset_id'' \<mapsto> previous_asset_id] [''asset_id'' \<mapsto> target_asset_id]) (
     ret updated_binding))))))))))))))"

section \<open>Lifecycle transitions\<close>

definition expire_asset :: "string \<Rightarrow> string \<Rightarrow> (registry, asset) op" where
  "expire_asset asset_id caller_service_id =
     bind_op (get_asset asset_id) (\<lambda>asset.
     seq_op (check (a_state asset = AVAILABLE) InvalidStateTransitionError) (
     bind_op utcnow (\<lambda>t1.
     bind_op utcnow (\<lambda>t2.
     (let updated = asset\<lparr>a_state := EXPIRED, a_updated_at := t1, a_expired_at := Some t2\<rparr> in
     seq_op (put_asset asset_id updated) (
     seq_op (release_quota asset) (
     seq_op (audit ''asset.expire'' asset_id caller_service_id ''success''
       [''state'' \<mapsto> state_value (a_state asset)] [''state'' \<mapsto> state_value (a_state updated)]) (
     ret updated))))))))"

definition delete_asset :: "string \<Rightarrow> string \<Rightarrow> (registry, asset) op" where
  "delete_asset asset_id caller_service_id =
     bind_op (get_asset asset_id) (\<lambda>asset.
     seq_op (check (a_state asset \<in> {AVAILABLE, EXPIRED}) InvalidStateTransitionError) (
     bind_op utcnow (\<lambda>now.
     (let updated = asset\<lparr>a_state := DELETED, a_updated_at := now\<rparr> in
     seq_op (put_asset asset_id updated) (
     seq_op (release_quota asset) (
     seq_op (audit ''asset.delete'' asset_id caller_service_id ''success''
       [''state'' \<mapsto> state_value (a_state asset)] [''state'' \<mapsto> state_value (a_state updated)]) (
     ret updated)))))))"

definition set_eviction_policy :: "string \<Rightarrow> eviction_policy \<Rightarrow> string \<Rightarrow> (registry, asset) op" where
  "set_eviction_policy asset_id eviction_policy caller_service_id =
     bind_op (get_asset asset_id) (\<lambda>asset.
     seq_op (check (a_state asset \<noteq> DELETED) InvalidStateTransitionError) (
     bind_op utcnow (\<lambda>now.
     (let updated = asset\<lparr>a_eviction_policy := eviction_policy, a_updated_at := now\<rparr> in
     seq_op (put_asset asset_id updated) (
     seq_op (audit ''asset.eviction_policy_set'' asset_id caller_service_id ''success''
       [''eviction_policy'' \<mapsto> eviction_value (a_eviction_policy asset)]
       [''eviction_policy'' \<mapsto> eviction_value (a_eviction_policy updated)]) (
     ret updated))))))"

section \<open>Quota configuration\<close>

definition set_partition_quota ::
  "string \<Rightarrow> string \<Rightarrow> int option \<Rightarrow> int option \<Rightarrow> bool option \<Rightarrow> string \<Rightarrow>
   (registry, partition_quota) op" where
  "set_partition_quota space partition_id quota_bytes quota_asset_count eviction_sweep_enabled
       caller_service_id =
     seq_op (check (case quota_bytes of None \<Rightarrow> True | Some q \<Rightarrow> 0 \<le> q) ValidationError) (
     seq_op (check (case quota_asset_count of None \<Rightarrow> True | Some q \<Rightarrow> 0 \<le> q) ValidationError) (
     bind_op (partition_quota_of space partition_id) (\<lambda>current.
     (let sweep = (case eviction_sweep_enabled of
                     None \<Rightarrow> pq_eviction_sweep_enabled current | Some b \<Rightarrow> b);
          updated = current\<lparr>pq_quota_bytes := quota_bytes, pq_quota_asset_count := quota_asset_count,
                            pq_eviction_sweep_enabled := sweep\<rparr> in
     seq_op (put_partition_quota updated) (
     seq_op (audit ''admin.quota_set'' (pq_space updated @ ''/'' @ pq_partition_id updated)
       caller_service_id ''success''
       [''quota_bytes'' \<mapsto> opt_str int_str (pq_quota_bytes current),
        ''quota_asset_count'' \<mapsto> opt_str int_str (pq_quota_asset_count current),
        ''eviction_sweep_enabled'' \<mapsto> bool_str (pq_eviction_sweep_enabled current)]
       [''quota_bytes'' \<mapsto> opt_str int_str quota_bytes,
        ''quota_asset_count'' \<mapsto> opt_str int_str quota_asset_count,
        ''eviction_sweep_enabled'' \<mapsto> bool_str sweep]) (
     ret updated))))))"

definition set_bucket_quota ::
  "string \<Rightarrow> int option \<Rightarrow> rat \<Rightarrow> rat \<Rightarrow> (registry, bucket_quota) op" where
  "set_bucket_quota space quota_bytes warn_threshold hard_ceiling =
     seq_op (check (case quota_bytes of None \<Rightarrow> True | Some q \<Rightarrow> 0 \<le> q) ValidationError) (
     bind_op (bucket_quota_of space) (\<lambda>current.
     (let updated = current\<lparr>bq_quota_bytes := quota_bytes, bq_warn_threshold := warn_threshold,
                            bq_hard_ceiling := hard_ceiling\<rparr> in
     seq_op (put_bucket_quota updated) (
     ret updated))))"

definition get_partition_quota :: "string \<Rightarrow> string \<Rightarrow> (registry, partition_quota) op" where
  "get_partition_quota space partition_id = partition_quota_of space partition_id"

definition get_bucket_quota :: "string \<Rightarrow> (registry, bucket_quota) op" where
  "get_bucket_quota space = bucket_quota_of space"

section \<open>Maintenance\<close>

definition reserved_upload_bytes :: "string \<Rightarrow> (registry, int) op" where
  "reserved_upload_bytes space =
     bind_op (gets (\<lambda>r. dict_values (r_assets r))) (\<lambda>assets.
     if assets = [] then ret 0
     else
       bind_op (of_result (normalize_space space)) (\<lambda>s.
       ret (reserved_sum (filter (\<lambda>a. a_space a = s \<and> a_payload_deleted_at a = None) assets))))"

definition list_assets :: "(registry, asset list) op" where
  "list_assets = gets (\<lambda>r. filter (\<lambda>a. a_payload_deleted_at a = None) (dict_values (r_assets r)))"

definition asset_lock :: "string \<Rightarrow> (registry, asset) op" where
  "asset_lock asset_id = get_asset asset_id"

definition record_read :: "string \<Rightarrow> (registry, unit) op" where
  "record_read asset_id =
     bind_op (get_asset asset_id) (\<lambda>asset.
     if a_state asset = AVAILABLE then
       bind_op utcnow (\<lambda>now.
       put_asset asset_id (asset\<lparr>a_last_read_at := Some now, a_read_count := a_read_count asset + 1\<rparr>))
     else ret ())"

definition lifecycle_update ::
  "asset \<Rightarrow> asset_state \<Rightarrow> datetime \<Rightarrow> string \<Rightarrow> bool \<Rightarrow> (registry, asset) op" where
  "lifecycle_update asset state now reason payload_deleted =
     bind_op (get_asset (a_asset_id asset)) (\<lambda>current.
     seq_op (check (current = asset) InvalidStateTransitionError) (
     seq_op (of_result (validate_cleanup_transition asset state payload_deleted)) (
     (let updated = asset\<lparr>a_state := state, a_updated_at := now,
            a_expired_at := (if state = EXPIRED then Some now else a_expired_at asset),
            a_payload_deleted_at :=
              (if payload_deleted then Some now else a_payload_deleted_at asset)\<rparr> in
     seq_op (release_quota asset) (
     seq_op (put_asset (a_asset_id asset) updated) (
     seq_op (audit
       (if payload_deleted then ''asset.payload_delete''
        else if state = EXPIRED then ''asset.expire'' else ''asset.delete'')
       (a_asset_id asset) ''lifecycle-worker'' ''success''
       [''state'' \<mapsto> state_value (a_state asset)]
       [''state'' \<mapsto> state_value state, ''reason'' \<mapsto> reason]) (
     ret updated)))))))"

definition recent_audit :: "string option \<Rightarrow> int \<Rightarrow> (registry, audit_event list) op" where
  "recent_audit asset_id limit =
     seq_op (check (1 \<le> limit \<and> limit \<le> 500) ValidationError) (
     bind_op (gets r_audit_events) (\<lambda>all.
     (let events = filter (\<lambda>e. case asset_id of
                               None \<Rightarrow> True
                             | Some i \<Rightarrow> e_target e = i \<or> e_before e ''asset_id'' = Some i \<or>
                                         e_after e ''asset_id'' = Some i) all in
     ret (drop (length events - nat limit) events))))"

definition set_asset_ttl :: "string \<Rightarrow> int \<Rightarrow> string \<Rightarrow> (registry, asset) op" where
  "set_asset_ttl asset_id ttl_seconds caller_service_id =
     bind_op (get_asset asset_id) (\<lambda>asset.
     seq_op (check (a_state asset \<in> {AVAILABLE, EXPIRED}) InvalidStateTransitionError) (
     seq_op (check (a_size_bytes asset \<noteq> None \<and> a_checksum asset \<noteq> None)
       InvalidStateTransitionError) (
     bind_op utcnow (\<lambda>now.
     bind_op (gets r_env) (\<lambda>env.
     bind_op (of_result (expiry_for env (a_space asset) (Some ttl_seconds) now)) (\<lambda>deadline.
     seq_op (if a_state asset = EXPIRED then
         seq_op (enforce_quota (a_space asset) (a_partition_id asset) (or_zero (a_size_bytes asset))
           (Some (a_asset_id asset)))
         (acquire_quota (a_space asset) (a_partition_id asset) (or_zero (a_size_bytes asset)))
       else ret ()) (
     (let updated = asset\<lparr>a_state := AVAILABLE, a_expires_at := deadline, a_expired_at := None,
                          a_updated_at := now\<rparr> in
     seq_op (put_asset asset_id updated) (
     seq_op (audit ''admin.ttl_set'' asset_id caller_service_id ''success''
       [''expires_at'' \<mapsto> opt_str datetime_str (a_expires_at asset),
        ''state'' \<mapsto> state_value (a_state asset)]
       [''expires_at'' \<mapsto> opt_str datetime_str deadline, ''state'' \<mapsto> ''available'']) (
     ret updated))))))))))"

end
