(* ===== verification/Registry_Inv.thy ===== *)
theory Registry_Inv
  imports Registry
begin

text \<open>
  The registry's invariant and that every operation of \<^verbatim>\<open>registry.py\<close> keeps it, also when it
  raises. The invariant says that the dictionaries are keyed by the names their values carry, that
  aliases and assets refer to each other consistently, that only mutable aliases are ever
  unbound, that the lifecycle fields of an asset agree with its state, and that the quota counters
  are exactly what the available assets use. The last part makes the clamping of the counters at
  zero in \<open>_release_quota\<close> unobservable.
\<close>

section \<open>The invariant\<close>

definition asset_wf :: "asset \<Rightarrow> bool" where
  "asset_wf a \<longleftrightarrow>
     a_space a \<in> STORAGE_BUCKETS \<and>
     is_ok (normalize_partition_id (a_partition_id a)) \<and>
     (\<forall>n. a_size_bytes a = Some n \<longrightarrow> 0 \<le> n) \<and>
     (\<forall>n. a_reserved_bytes a = Some n \<longrightarrow> 0 \<le> n) \<and>
     (a_state a = PENDING \<longrightarrow> a_size_bytes a = None) \<and>
     (a_size_bytes a \<noteq> None \<longrightarrow> a_reserved_bytes a = None) \<and>
     (a_state a = AVAILABLE \<longrightarrow> a_size_bytes a \<noteq> None \<and> a_checksum a \<noteq> None) \<and>
     (a_payload_deleted_at a \<noteq> None \<longrightarrow> a_state a = DELETED)"

definition assets_ok :: "(string, asset) dict \<Rightarrow> bool" where
  "assets_ok A \<longleftrightarrow> dict_ok A \<and> (\<forall>i a. map_of A i = Some a \<longrightarrow> a_asset_id a = i \<and> asset_wf a)"

definition binding_wf :: "string \<Rightarrow> alias_binding \<Rightarrow> bool" where
  "binding_wf k b \<longleftrightarrow>
     b_space b \<in> STORAGE_BUCKETS \<and> binding_qualified_alias b = Inr k \<and>
     (b_asset_id b = None \<longrightarrow> b_mutable b)"

definition aliases_ok :: "(string, alias_binding) dict \<Rightarrow> bool" where
  "aliases_ok L \<longleftrightarrow> dict_ok L \<and> (\<forall>k b. map_of L k = Some b \<longrightarrow> binding_wf k b)"

definition bound_to :: "(string, alias_binding) dict \<Rightarrow> string \<Rightarrow> string \<Rightarrow> bool" where
  "bound_to L k i \<longleftrightarrow> (\<exists>b. map_of L k = Some b \<and> b_asset_id b = Some i)"

definition has_alias :: "(string, asset) dict \<Rightarrow> string \<Rightarrow> string \<Rightarrow> bool" where
  "has_alias A i k \<longleftrightarrow> (\<exists>a. map_of A i = Some a \<and> k \<in> a_aliases a)"

definition links_ok :: "(string, asset) dict \<Rightarrow> (string, alias_binding) dict \<Rightarrow> bool" where
  "links_ok A L \<longleftrightarrow> (\<forall>k i. bound_to L k i \<longleftrightarrow> has_alias A i k)"

definition in_partition :: "string \<Rightarrow> string \<Rightarrow> asset \<Rightarrow> bool" where
  "in_partition s p a \<longleftrightarrow> a_space a = s \<and> normalize_partition_id (a_partition_id a) = Inr p"

definition used_in_partition :: "string \<Rightarrow> string \<Rightarrow> asset \<Rightarrow> int" where
  "used_in_partition s p a =
     (if a_state a = AVAILABLE \<and> in_partition s p a then or_zero (a_size_bytes a) else 0)"

definition counted_in_partition :: "string \<Rightarrow> string \<Rightarrow> asset \<Rightarrow> int" where
  "counted_in_partition s p a = (if a_state a = AVAILABLE \<and> in_partition s p a then 1 else 0)"

definition used_in_bucket :: "string \<Rightarrow> asset \<Rightarrow> int" where
  "used_in_bucket s a = (if a_state a = AVAILABLE \<and> a_space a = s then or_zero (a_size_bytes a) else 0)"

definition quota_at :: "(string \<times> string, partition_quota) dict \<Rightarrow> string \<Rightarrow> string \<Rightarrow> partition_quota" where
  "quota_at P s p = (case map_of P (s, p) of None \<Rightarrow> default_partition_quota s p | Some q \<Rightarrow> q)"

definition bucket_at :: "(string, bucket_quota) dict \<Rightarrow> string \<Rightarrow> bucket_quota" where
  "bucket_at B s = (case map_of B s of None \<Rightarrow> default_bucket_quota s | Some q \<Rightarrow> q)"

definition quotas_ok ::
  "(string \<times> string, partition_quota) dict \<Rightarrow> (string, bucket_quota) dict \<Rightarrow> bool" where
  "quotas_ok P B \<longleftrightarrow> dict_ok P \<and> dict_ok B \<and>
     (\<forall>k q. map_of P k = Some q \<longrightarrow> (pq_space q, pq_partition_id q) = k) \<and>
     (\<forall>s q. map_of B s = Some q \<longrightarrow> bq_space q = s)"

definition accounted ::
  "(string, asset) dict \<Rightarrow> (string \<times> string, partition_quota) dict \<Rightarrow> (string, bucket_quota) dict \<Rightarrow> bool" where
  "accounted A P B \<longleftrightarrow>
     (\<forall>s p. pq_used_bytes (quota_at P s p) = dict_sum (used_in_partition s p) A) \<and>
     (\<forall>s p. pq_used_asset_count (quota_at P s p) = dict_sum (counted_in_partition s p) A) \<and>
     (\<forall>s. bq_used_bytes (bucket_at B s) = dict_sum (used_in_bucket s) A)"

text \<open>What the registry relies on about \<open>uuid\<close>: identifiers are distinct and not blank.\<close>

definition uuid_source_ok :: "(nat \<Rightarrow> string) \<Rightarrow> bool" where
  "uuid_source_ok u \<longleftrightarrow> inj u \<and> (\<forall>n. py_strip (u n) \<noteq> [])"

definition ids_fresh :: "(nat \<Rightarrow> string) \<Rightarrow> nat \<Rightarrow> (string, asset) dict \<Rightarrow> bool" where
  "ids_fresh u next A \<longleftrightarrow> uuid_source_ok u \<and> (\<forall>n \<ge> next. map_of A (u n) = None)"

definition reg_inv :: "registry \<Rightarrow> bool" where
  "reg_inv r \<longleftrightarrow>
     assets_ok (r_assets r) \<and> aliases_ok (r_aliases r) \<and> links_ok (r_assets r) (r_aliases r) \<and>
     quotas_ok (r_partition_quotas r) (r_bucket_quotas r) \<and>
     accounted (r_assets r) (r_partition_quotas r) (r_bucket_quotas r) \<and>
     dict_ok (r_tombstones r) \<and> ids_fresh (r_uuids r) (r_next_uuid r) (r_assets r)"

section \<open>Weakest preconditions of the registry's helpers\<close>

lemma wp_utcnow [wp_simps]:
  "wp utcnow Q E r = Q (r_clock r (r_ticks r)) (r\<lparr>r_ticks := Suc (r_ticks r)\<rparr>)"
  by (simp add: wp_def utcnow_def)

lemma wp_new_asset_id [wp_simps]:
  "wp new_asset_id Q E r = Q (r_uuids r (r_next_uuid r)) (r\<lparr>r_next_uuid := Suc (r_next_uuid r)\<rparr>)"
  by (simp add: wp_def new_asset_id_def)

lemma wp_put_asset [wp_simps]:
  "wp (put_asset i a) Q E r = Q () (r\<lparr>r_assets := AList.update i a (r_assets r)\<rparr>)"
  by (simp add: put_asset_def wp_simps)

lemma wp_put_alias [wp_simps]:
  "wp (put_alias k b) Q E r = Q () (r\<lparr>r_aliases := AList.update k b (r_aliases r)\<rparr>)"
  by (simp add: put_alias_def wp_simps)

lemma wp_get_asset [wp_simps]:
  "wp (get_asset i) Q E r =
     (case map_of (r_assets r) i of None \<Rightarrow> E AssetNotFoundError r | Some a \<Rightarrow> Q a r)"
  by (simp add: get_asset_def wp_simps split: option.splits)

lemma wp_audit [wp_simps]:
  "wp (audit act tgt caller out bef aft) Q E r =
     Q () (r\<lparr>r_ticks := Suc (r_ticks r), r_audit_events := r_audit_events r @
       [\<lparr>e_action = act, e_target = tgt, e_caller_service_id = caller, e_outcome = out,
         e_before = bef, e_after = aft, e_ts = r_clock r (r_ticks r)\<rparr>]\<rparr>)"
  by (simp add: audit_def wp_simps)

lemma wp_partition_quota_of [wp_simps]:
  "wp (partition_quota_of sp p) Q E r =
     (case normalize_space sp of Inl e \<Rightarrow> E e r
      | Inr s \<Rightarrow> (case normalize_partition_id p of Inl e \<Rightarrow> E e r
                  | Inr k \<Rightarrow> Q (quota_at (r_partition_quotas r) s k) r))"
  by (simp add: partition_quota_of_def wp_simps quota_at_def split: option.splits sum.splits)

lemma wp_bucket_quota_of [wp_simps]:
  "wp (bucket_quota_of sp) Q E r =
     (case normalize_space sp of Inl e \<Rightarrow> E e r
      | Inr s \<Rightarrow> Q (bucket_at (r_bucket_quotas r) s) r)"
  by (simp add: bucket_quota_of_def wp_simps bucket_at_def split: option.splits sum.splits)

lemma wp_put_partition_quota [wp_simps]:
  "wp (put_partition_quota q) Q E r =
     Q () (r\<lparr>r_partition_quotas := AList.update (pq_space q, pq_partition_id q) q (r_partition_quotas r)\<rparr>)"
  by (simp add: put_partition_quota_def wp_simps)

lemma wp_put_bucket_quota [wp_simps]:
  "wp (put_bucket_quota q) Q E r =
     Q () (r\<lparr>r_bucket_quotas := AList.update (bq_space q) q (r_bucket_quotas r)\<rparr>)"
  by (simp add: put_bucket_quota_def wp_simps)

text \<open>Quota checks never change the registry.\<close>

lemma wp_enforce_quota:
  assumes "Q () r" and "\<And>e. E e r"
  shows "wp (enforce_quota sp p n x) Q E r"
  using assms by (simp add: enforce_quota_def wp_simps Let_def split: sum.splits)

section \<open>Accounting\<close>

lemma quota_at_names:
  "quotas_ok P B \<Longrightarrow> pq_space (quota_at P s p) = s \<and> pq_partition_id (quota_at P s p) = p"
  by (auto simp: quota_at_def quotas_ok_def default_partition_quota_def split: option.splits)

lemma bucket_at_name: "quotas_ok P B \<Longrightarrow> bq_space (bucket_at B s) = s"
  by (auto simp: bucket_at_def quotas_ok_def default_bucket_quota_def split: option.splits)

lemma quota_at_update [simp]:
  "quota_at (AList.update (s, p) q P) s' p' = (if s' = s \<and> p' = p then q else quota_at P s' p')"
  by (simp add: quota_at_def)

lemma bucket_at_update [simp]:
  "bucket_at (AList.update s q B) s' = (if s' = s then q else bucket_at B s')"
  by (simp add: bucket_at_def)

lemma quotas_ok_update_partition:
  "quotas_ok P B \<Longrightarrow> pq_space q = s \<Longrightarrow> pq_partition_id q = p \<Longrightarrow> quotas_ok (AList.update (s, p) q P) B"
  by (auto simp: quotas_ok_def split: if_splits)

lemma quotas_ok_update_bucket:
  "quotas_ok P B \<Longrightarrow> bq_space q = s \<Longrightarrow> quotas_ok P (AList.update s q B)"
  by (auto simp: quotas_ok_def split: if_splits)

lemmas quota_simps = quota_at_names bucket_at_name quotas_ok_update_partition quotas_ok_update_bucket

definition same_usage :: "asset \<Rightarrow> asset \<Rightarrow> bool" where
  "same_usage a a' \<longleftrightarrow>
     a_space a' = a_space a \<and> a_partition_id a' = a_partition_id a \<and>
     (a_state a' = AVAILABLE \<longleftrightarrow> a_state a = AVAILABLE) \<and>
     (a_state a = AVAILABLE \<longrightarrow> a_size_bytes a' = a_size_bytes a)"

lemma same_usage_eqs:
  assumes "same_usage a a'"
  shows "used_in_partition s p a' = used_in_partition s p a"
    and "counted_in_partition s p a' = counted_in_partition s p a"
    and "used_in_bucket s a' = used_in_bucket s a"
  using assms
  by (auto simp: same_usage_def used_in_partition_def counted_in_partition_def used_in_bucket_def
      in_partition_def)

lemma accounted_same:
  assumes "accounted A P B" and "map_of A i = Some a" and "same_usage a a'"
  shows "accounted (AList.update i a' A) P B"
  using assms(1) same_usage_eqs [OF assms(3)]
  by (simp add: accounted_def dict_sum_update_old [OF assms(2)])

lemma accounted_new:
  assumes "accounted A P B" and "map_of A i = None" and "a_state a \<noteq> AVAILABLE"
  shows "accounted (AList.update i a A) P B"
  using assms
  by (simp add: accounted_def dict_sum_update_new used_in_partition_def counted_in_partition_def
      used_in_bucket_def)

text \<open>An asset that becomes available, with the counters incremented.\<close>

lemma accounted_acquire:
  assumes acc: "accounted A P B" and a: "map_of A i = Some a"
    and st: "a_state a \<noteq> AVAILABLE" "a_state a' = AVAILABLE"
    and same: "a_space a' = s" "normalize_partition_id (a_partition_id a') = Inr p"
    and size: "a_size_bytes a' = Some n"
  shows "accounted (AList.update i a' A)
     (AList.update (s, p) ((quota_at P s p)\<lparr>pq_used_bytes := pq_used_bytes (quota_at P s p) + n,
        pq_used_asset_count := pq_used_asset_count (quota_at P s p) + 1\<rparr>) P)
     (AList.update s ((bucket_at B s)\<lparr>bq_used_bytes := bq_used_bytes (bucket_at B s) + n\<rparr>) B)"
  using assms
  by (auto simp: accounted_def dict_sum_update_old [OF a] used_in_partition_def counted_in_partition_def
      used_in_bucket_def in_partition_def)

lemma usage_nonneg:
  assumes "assets_ok A" and "v \<in> set (dict_values A)"
  shows "0 \<le> used_in_partition s p v" and "0 \<le> counted_in_partition s p v" and "0 \<le> used_in_bucket s v"
proof -
  from assms obtain i where "map_of A i = Some v" by (auto simp: assets_ok_def dict_values_iff)
  with assms(1) have "asset_wf v" by (auto simp: assets_ok_def)
  then show "0 \<le> used_in_partition s p v" and "0 \<le> counted_in_partition s p v"
    and "0 \<le> used_in_bucket s v"
    by (auto simp: asset_wf_def used_in_partition_def counted_in_partition_def used_in_bucket_def
        or_zero_def split: option.splits)
qed

text \<open>An available asset that stops being available: the clamp at zero never acts.\<close>

lemma accounted_release:
  assumes acc: "accounted A P B" and ok: "assets_ok A" and a: "map_of A i = Some a"
    and st: "a_state a = AVAILABLE" "a_state a' \<noteq> AVAILABLE"
    and same: "a_space a = s" "normalize_partition_id (a_partition_id a) = Inr p"
    and n: "n = or_zero (a_size_bytes a)"
  shows "accounted (AList.update i a' A)
     (AList.update (s, p) ((quota_at P s p)\<lparr>pq_used_bytes := max 0 (pq_used_bytes (quota_at P s p) - n),
        pq_used_asset_count := max 0 (pq_used_asset_count (quota_at P s p) - 1)\<rparr>) P)
     (AList.update s ((bucket_at B s)\<lparr>bq_used_bytes := max 0 (bq_used_bytes (bucket_at B s) - n)\<rparr>) B)"
proof -
  have le: "used_in_partition s p a \<le> dict_sum (used_in_partition s p) A"
    "counted_in_partition s p a \<le> dict_sum (counted_in_partition s p) A"
    "used_in_bucket s a \<le> dict_sum (used_in_bucket s) A"
    using dict_sum_ge_member [OF a] usage_nonneg [OF ok] by blast+
  have u: "used_in_partition s p a = n" "counted_in_partition s p a = 1" "used_in_bucket s a = n"
    using st same n
    by (simp_all add: used_in_partition_def counted_in_partition_def used_in_bucket_def in_partition_def)
  have z: "used_in_partition s' p' a' = 0" "counted_in_partition s' p' a' = 0" "used_in_bucket s' a' = 0"
    for s' p'
    using st by (simp_all add: used_in_partition_def counted_in_partition_def used_in_bucket_def)
  have other: "used_in_partition s' p' a = 0" "counted_in_partition s' p' a = 0"
    if "\<not> (s' = s \<and> p' = p)" for s' p'
    using that same by (auto simp: used_in_partition_def counted_in_partition_def in_partition_def)
  have otherb: "used_in_bucket s' a = 0" if "s' \<noteq> s" for s'
    using that same by (simp add: used_in_bucket_def)
  show ?thesis
    using acc le
    by (auto simp: accounted_def dict_sum_update_old [OF a] u z other otherb)
qed

lemma accounted_limits:
  assumes "accounted A P B" and "pq_used_bytes q = pq_used_bytes (quota_at P s p)"
    and "pq_used_asset_count q = pq_used_asset_count (quota_at P s p)"
  shows "accounted A (AList.update (s, p) q P) B"
  using assms by (simp add: accounted_def)

lemma accounted_bucket_limits:
  assumes "accounted A P B" and "bq_used_bytes q = bq_used_bytes (bucket_at B s)"
  shows "accounted A P (AList.update s q B)"
  using assms by (simp add: accounted_def)


section \<open>Updates of the dictionaries\<close>

text \<open>A change of an existing asset that keeps its name and place.\<close>

lemma assets_ok_update:
  "assets_ok A \<Longrightarrow> a_asset_id a' = i \<Longrightarrow> asset_wf a' \<Longrightarrow> assets_ok (AList.update i a' A)"
  by (auto simp: assets_ok_def split: if_splits)

lemma assets_okD: "assets_ok A \<Longrightarrow> map_of A i = Some a \<Longrightarrow> a_asset_id a = i \<and> asset_wf a"
  by (auto simp: assets_ok_def)

lemma aliases_okD: "aliases_ok L \<Longrightarrow> map_of L k = Some b \<Longrightarrow> binding_wf k b"
  by (auto simp: aliases_ok_def)

lemma aliases_ok_update: "aliases_ok L \<Longrightarrow> binding_wf k b \<Longrightarrow> aliases_ok (AList.update k b L)"
  by (auto simp: aliases_ok_def split: if_splits)

lemma aliases_ok_delete: "aliases_ok L \<Longrightarrow> aliases_ok (AList.delete k L)"
  by (auto simp: aliases_ok_def split: if_splits)

lemma ids_fresh_update:
  "ids_fresh u n A \<Longrightarrow> map_of A i = Some a \<Longrightarrow> ids_fresh u n (AList.update i a' A)"
  by (auto simp: ids_fresh_def)

lemma ids_fresh_new: "ids_fresh u n A \<Longrightarrow> ids_fresh u (Suc n) (AList.update (u n) a A)"
  by (auto simp: ids_fresh_def uuid_source_ok_def dest: inj_onD)

lemma ids_fresh_Suc: "ids_fresh u n A \<Longrightarrow> ids_fresh u (Suc n) A"
  by (simp add: ids_fresh_def)

lemma has_alias_update [simp]:
  "has_alias (AList.update i a A) j k = (if j = i then k \<in> a_aliases a else has_alias A j k)"
  by (simp add: has_alias_def)

lemma bound_to_update [simp]:
  "bound_to (AList.update k b L) l i = (if l = k then b_asset_id b = Some i else bound_to L l i)"
  by (simp add: bound_to_def)

lemma bound_to_delete [simp]:
  "bound_to (AList.delete k L) l i = (l \<noteq> k \<and> bound_to L l i)"
  by (simp add: bound_to_def)

lemma has_alias_iff: "map_of A i = Some a \<Longrightarrow> has_alias A i k \<longleftrightarrow> k \<in> a_aliases a"
  by (simp add: has_alias_def)

lemma links_ok_same:
  "links_ok A L \<Longrightarrow> map_of A i = Some a \<Longrightarrow> a_aliases a' = a_aliases a \<Longrightarrow>
     links_ok (AList.update i a' A) L"
  by (auto simp: links_ok_def has_alias_iff)

text \<open>A name that is bound to nothing becomes an alias of one asset.\<close>

lemma links_ok_attach:
  assumes "links_ok A L" and "map_of A i = Some a" and "\<And>j. \<not> bound_to L k j"
    and "b_asset_id b = Some i" and "a_aliases a' = insert k (a_aliases a)"
  shows "links_ok (AList.update i a' A) (AList.update k b L)"
  using assms by (auto simp: links_ok_def has_alias_iff)

lemma links_ok_unlink:
  assumes "links_ok A L" and "map_of A i = Some a" and "bound_to L k i"
    and "a_aliases a' = a_aliases a - {k}" and "\<And>j. \<not> bound_to L' k j"
    and "\<And>l j. l \<noteq> k \<Longrightarrow> bound_to L' l j = bound_to L l j"
  shows "links_ok (AList.update i a' A) L'"
proof -
  have one: "has_alias A j k \<longleftrightarrow> j = i" for j
    using assms(1,3) unfolding links_ok_def bound_to_def by (metis option.inject)
  show ?thesis
    unfolding links_ok_def
  proof (intro allI)
    fix l j
    show "bound_to L' l j \<longleftrightarrow> has_alias (AList.update i a' A) j l"
      using assms one [of j] has_alias_iff [OF assms(2)]
      by (cases "l = k"; cases "j = i") (auto simp: links_ok_def)
  qed
qed

lemma links_ok_new:
  "links_ok A L \<Longrightarrow> map_of A i = None \<Longrightarrow> a_aliases a = {} \<Longrightarrow> links_ok (AList.update i a A) L"
  by (auto simp: links_ok_def has_alias_def)


section \<open>Quota acquisition and release as state updates\<close>

definition released :: "asset \<Rightarrow> registry \<Rightarrow> registry" where
  "released a r = snd (release_quota a r)"

definition acquired :: "string \<Rightarrow> string \<Rightarrow> int \<Rightarrow> registry \<Rightarrow> registry" where
  "acquired s p n r = snd (acquire_quota s p n r)"

lemma reg_inv_frame [simp]:
  "reg_inv (r\<lparr>r_ticks := t\<rparr>) = reg_inv r"
  "reg_inv (r\<lparr>r_audit_events := ev\<rparr>) = reg_inv r"
  by (simp_all add: reg_inv_def)

lemma asset_wf_space: "asset_wf a \<Longrightarrow> normalize_space (a_space a) = Inr (a_space a)"
  by (simp add: asset_wf_def normalize_space_def bucket_normal)

lemma asset_wf_partition:
  assumes "asset_wf a"
  obtains p where "normalize_partition_id (a_partition_id a) = Inr p"
  using assms by (auto simp: asset_wf_def is_ok_ex)

lemma wp_release_quota: "asset_wf a \<Longrightarrow> wp (release_quota a) Q E r = Q () (released a r)"
  unfolding released_def
  by (rule wp_never_raises)
    (auto simp: release_quota_def wp_simps Let_def asset_wf_def normalize_space_def bucket_normal is_ok_ex)

lemma wp_acquire_quota:
  "asset_wf a \<Longrightarrow> wp (acquire_quota (a_space a) (a_partition_id a) n) Q E r =
     Q () (acquired (a_space a) (a_partition_id a) n r)"
  unfolding acquired_def
  by (rule wp_never_raises)
    (auto simp: acquire_quota_def wp_simps Let_def asset_wf_def normalize_space_def bucket_normal is_ok_ex)

lemma release_quota_eq:
  assumes "asset_wf a" "a_state a = AVAILABLE" and q: "quotas_ok (r_partition_quotas r) (r_bucket_quotas r)"
    and p: "normalize_partition_id (a_partition_id a) = Inr p"
  shows "released a r = r\<lparr>
     r_partition_quotas := AList.update (a_space a, p)
       ((quota_at (r_partition_quotas r) (a_space a) p)
        \<lparr>pq_used_bytes := max 0 (pq_used_bytes (quota_at (r_partition_quotas r) (a_space a) p) - or_zero (a_size_bytes a)),
         pq_used_asset_count := max 0 (pq_used_asset_count (quota_at (r_partition_quotas r) (a_space a) p) - 1)\<rparr>)
       (r_partition_quotas r),
     r_bucket_quotas := AList.update (a_space a)
       ((bucket_at (r_bucket_quotas r) (a_space a))
        \<lparr>bq_used_bytes := max 0 (bq_used_bytes (bucket_at (r_bucket_quotas r) (a_space a)) - or_zero (a_size_bytes a))\<rparr>)
       (r_bucket_quotas r)\<rparr>"
  unfolding released_def
  by (subst wp_eqI) (auto simp: release_quota_def wp_simps Let_def assms asset_wf_space quota_at_names [OF q] bucket_at_name [OF q])

lemma acquire_quota_eq:
  assumes "normalize_space s = Inr s" and q: "quotas_ok (r_partition_quotas r) (r_bucket_quotas r)"
    and p: "normalize_partition_id p' = Inr p"
  shows "acquired s p' n r = r\<lparr>
     r_partition_quotas := AList.update (s, p)
       ((quota_at (r_partition_quotas r) s p)
        \<lparr>pq_used_bytes := pq_used_bytes (quota_at (r_partition_quotas r) s p) + n,
         pq_used_asset_count := pq_used_asset_count (quota_at (r_partition_quotas r) s p) + 1\<rparr>)
       (r_partition_quotas r),
     r_bucket_quotas := AList.update s
       ((bucket_at (r_bucket_quotas r) s)
        \<lparr>bq_used_bytes := bq_used_bytes (bucket_at (r_bucket_quotas r) s) + n\<rparr>)
       (r_bucket_quotas r)\<rparr>"
  unfolding acquired_def
  by (subst wp_eqI) (auto simp: acquire_quota_def wp_simps Let_def assms quota_at_names [OF q] bucket_at_name [OF q])

text \<open>What an asset keeps while it changes state: its name, its place, its aliases.\<close>

definition same_place :: "asset \<Rightarrow> asset \<Rightarrow> bool" where
  "same_place a a' \<longleftrightarrow> a_asset_id a' = a_asset_id a \<and> a_space a' = a_space a \<and>
     a_partition_id a' = a_partition_id a \<and> a_aliases a' = a_aliases a"

lemma reg_inv_same:
  assumes "reg_inv r" and a: "map_of (r_assets r) i = Some a" and "same_place a a'" and "same_usage a a'"
    and "asset_wf a'" and "A = r_assets r"
  shows "reg_inv (r\<lparr>r_assets := AList.update i a' A\<rparr>)"
  using assms assets_okD [of "r_assets r" i a]
  by (auto simp: reg_inv_def same_place_def assets_ok_update links_ok_same accounted_same ids_fresh_update)

lemma reg_inv_leave:
  assumes inv: "reg_inv r" and a: "map_of (r_assets r) i = Some a" and place: "same_place a a'"
    and out: "a_state a' \<noteq> AVAILABLE" and wf: "asset_wf a'" and A: "A = r_assets r"
  shows "reg_inv (released a (r\<lparr>r_assets := AList.update i a' A\<rparr>))"
proof (cases "a_state a = AVAILABLE")
  case True
  define A' where "A' = AList.update i a' (r_assets r)"
  have "asset_wf a" using inv a by (auto simp: reg_inv_def dest: assets_okD)
  then obtain p where p: "normalize_partition_id (a_partition_id a) = Inr p" by (rule asset_wf_partition)
  have q: "quotas_ok (r_partition_quotas r) (r_bucket_quotas r)" using inv by (simp add: reg_inv_def)
  have eq: "released a (r\<lparr>r_assets := A'\<rparr>) = r\<lparr>r_assets := A',
     r_partition_quotas := r_partition_quotas (released a r),
     r_bucket_quotas := r_bucket_quotas (released a r)\<rparr>"
    using release_quota_eq [OF \<open>asset_wf a\<close> True _ p, of r] release_quota_eq [OF \<open>asset_wf a\<close> True _ p, of "r\<lparr>r_assets := A'\<rparr>"] q
    by simp
  have "accounted A' (r_partition_quotas (released a r)) (r_bucket_quotas (released a r))"
    unfolding A'_def release_quota_eq [OF \<open>asset_wf a\<close> True q p]
    using inv a True out p by (simp add: reg_inv_def) (rule accounted_release; simp)
  moreover have "quotas_ok (r_partition_quotas (released a r)) (r_bucket_quotas (released a r))"
    unfolding release_quota_eq [OF \<open>asset_wf a\<close> True q p]
    by (auto intro!: quotas_ok_update_partition quotas_ok_update_bucket q simp: quota_at_names [OF q] bucket_at_name [OF q])
  ultimately show ?thesis
    unfolding A A'_def [symmetric] eq using inv a place wf A'_def assets_okD [of "r_assets r" i a]
    by (auto simp: reg_inv_def same_place_def assets_ok_update links_ok_same ids_fresh_update)
next
  case False
  then have "released a s = s" for s by (simp add: released_def release_quota_def ret_def)
  moreover have "same_usage a a'" using place False out by (auto simp: same_usage_def same_place_def)
  ultimately show ?thesis using reg_inv_same [OF inv a place _ wf A] by simp
qed

lemma reg_inv_enter:
  assumes inv: "reg_inv r" and a: "map_of (r_assets r) i = Some a" and place: "same_place a a'"
    and "a_state a \<noteq> AVAILABLE" "a_state a' = AVAILABLE" "a_size_bytes a' = Some n" and wf: "asset_wf a'"
    and A: "A = r_assets r" and "s = a_space a" "p' = a_partition_id a"
  shows "reg_inv (acquired s p' n (r\<lparr>r_assets := AList.update i a' A\<rparr>))"
proof -
  have wfa: "asset_wf a" using inv a by (auto simp: reg_inv_def dest: assets_okD)
  then obtain p where p: "normalize_partition_id (a_partition_id a) = Inr p" by (rule asset_wf_partition)
  have q: "quotas_ok (r_partition_quotas r) (r_bucket_quotas r)" using inv by (simp add: reg_inv_def)
  have acc: "accounted (r_assets r) (r_partition_quotas r) (r_bucket_quotas r)" using inv by (simp add: reg_inv_def)
  note acc' = accounted_acquire [OF acc a assms(4,5) _ _ assms(6), of s p]
  show ?thesis
    using inv a place wf A assets_okD [of "r_assets r" i a] asset_wf_space [OF wfa] q p assms(9,10) acc'
    by (simp add: acquire_quota_eq [of _ _ _ p] reg_inv_def same_place_def)
      (auto simp: assets_ok_update links_ok_same ids_fresh_update
        quota_at_names [OF q] bucket_at_name [OF q]
        intro!: quotas_ok_update_partition quotas_ok_update_bucket)
qed

text \<open>Both touch the quota dictionaries only.\<close>

definition only_quotas :: "registry \<Rightarrow> registry \<Rightarrow> bool" where
  "only_quotas r t \<longleftrightarrow>
     r = t\<lparr>r_partition_quotas := r_partition_quotas r, r_bucket_quotas := r_bucket_quotas r\<rparr>"

lemma only_quotas_frame:
  assumes "only_quotas r t"
  shows "r_assets t = r_assets r" "r_aliases t = r_aliases r" "r_tombstones t = r_tombstones r"
    "r_audit_events t = r_audit_events r" "r_alias_grace t = r_alias_grace r" "r_env t = r_env r"
    "r_clock t = r_clock r" "r_ticks t = r_ticks r" "r_uuids t = r_uuids r" "r_next_uuid t = r_next_uuid r"
  using arg_cong [OF assms [unfolded only_quotas_def], of r_assets]
    arg_cong [OF assms [unfolded only_quotas_def], of r_aliases]
    arg_cong [OF assms [unfolded only_quotas_def], of r_tombstones]
    arg_cong [OF assms [unfolded only_quotas_def], of r_audit_events]
    arg_cong [OF assms [unfolded only_quotas_def], of r_alias_grace]
    arg_cong [OF assms [unfolded only_quotas_def], of r_env]
    arg_cong [OF assms [unfolded only_quotas_def], of r_clock]
    arg_cong [OF assms [unfolded only_quotas_def], of r_ticks]
    arg_cong [OF assms [unfolded only_quotas_def], of r_uuids]
    arg_cong [OF assms [unfolded only_quotas_def], of r_next_uuid]
  by simp_all

lemma released_only_quotas: "only_quotas r (released a r)"
  unfolding released_def
  by (rule wp_snd) (simp add: release_quota_def wp_simps Let_def only_quotas_def split: sum.splits)

lemma acquired_only_quotas: "only_quotas r (acquired s p n r)"
  unfolding acquired_def
  by (rule wp_snd) (simp add: acquire_quota_def wp_simps Let_def only_quotas_def split: sum.splits)

lemma released_frame [simp]:
  "r_assets (released a r) = r_assets r" "r_aliases (released a r) = r_aliases r"
  "r_tombstones (released a r) = r_tombstones r" "r_audit_events (released a r) = r_audit_events r"
  "r_alias_grace (released a r) = r_alias_grace r" "r_env (released a r) = r_env r"
  "r_clock (released a r) = r_clock r" "r_ticks (released a r) = r_ticks r"
  "r_uuids (released a r) = r_uuids r" "r_next_uuid (released a r) = r_next_uuid r"
  by (rule only_quotas_frame [OF released_only_quotas])+

lemma acquired_frame [simp]:
  "r_assets (acquired s p n r) = r_assets r" "r_aliases (acquired s p n r) = r_aliases r"
  "r_tombstones (acquired s p n r) = r_tombstones r" "r_audit_events (acquired s p n r) = r_audit_events r"
  "r_alias_grace (acquired s p n r) = r_alias_grace r" "r_env (acquired s p n r) = r_env r"
  "r_clock (acquired s p n r) = r_clock r" "r_ticks (acquired s p n r) = r_ticks r"
  "r_uuids (acquired s p n r) = r_uuids r" "r_next_uuid (acquired s p n r) = r_next_uuid r"
  by (rule only_quotas_frame [OF acquired_only_quotas])+

lemma released_assets:
  assumes "asset_wf a" and q: "quotas_ok (r_partition_quotas r) (r_bucket_quotas r)"
  shows "(released a r)\<lparr>r_assets := A'\<rparr> = released a (r\<lparr>r_assets := A'\<rparr>)"
proof (cases "a_state a = AVAILABLE")
  case True
  obtain p where "normalize_partition_id (a_partition_id a) = Inr p" using assms(1) by (rule asset_wf_partition)
  then show ?thesis using assms True by (simp add: release_quota_eq)
next
  case False
  then show ?thesis by (simp add: released_def release_quota_def ret_def)
qed

end
