(* ===== verification/Registry_Ops.thy ===== *)
theory Registry_Ops
  imports Registry_Inv
begin

text \<open>
  Every operation of the in-memory registry keeps the invariant of \<open>Registry_Inv\<close>, also when it
  raises; the effect of a reservation; and the registry as a transition system whose calls are the
  public methods of \<^verbatim>\<open>registry.py\<close>.
\<close>

section \<open>Operations on one asset\<close>

text \<open>Keeping the invariant: on every path, normal or exceptional.\<close>

definition keeps_inv :: "(registry, 'a) op \<Rightarrow> bool" where
  "keeps_inv m \<longleftrightarrow> (\<forall>r. reg_inv r \<longrightarrow> reg_inv (snd (m r)))"

lemma keeps_invI: "(\<And>r. reg_inv r \<Longrightarrow> wp m (\<lambda>_. reg_inv) (\<lambda>_. reg_inv) r) \<Longrightarrow> keeps_inv m"
  by (simp add: keeps_inv_def wp_snd_iff)

lemma keeps_inv_wp: "keeps_inv m \<Longrightarrow> reg_inv r \<Longrightarrow> wp m (\<lambda>_. reg_inv) (\<lambda>_. reg_inv) r"
  by (simp add: keeps_inv_def wp_snd_iff)

lemma reg_inv_asset: "reg_inv r \<Longrightarrow> map_of (r_assets r) i = Some a \<Longrightarrow> a_asset_id a = i \<and> asset_wf a"
  by (auto simp: reg_inv_def dest: assets_okD)

lemma reg_inv_quotas: "reg_inv r \<Longrightarrow> quotas_ok (r_partition_quotas r) (r_bucket_quotas r)"
  by (simp add: reg_inv_def)

lemma wp_bind_get_asset:
  assumes "reg_inv r" and "E AssetNotFoundError r"
    and "\<And>a. map_of (r_assets r) i = Some a \<Longrightarrow> a_asset_id a = i \<Longrightarrow> asset_wf a \<Longrightarrow> wp (k a) Q E r"
  shows "wp (bind_op (get_asset i) k) Q E r"
  using assms reg_inv_asset [OF assms(1)] by (auto simp: wp_simps split: option.splits)

lemmas op_simps = wp_simps Let_def wp_release_quota wp_acquire_quota

lemma keeps_expire_asset: "keeps_inv (expire_asset i c)"
  unfolding expire_asset_def
  by (intro keeps_invI wp_bind_get_asset; simp add: op_simps)
    (auto intro!: reg_inv_leave simp: same_place_def asset_wf_def)

lemma keeps_delete_asset: "keeps_inv (delete_asset i c)"
  unfolding delete_asset_def
  by (intro keeps_invI wp_bind_get_asset; simp add: op_simps)
    (auto intro!: reg_inv_leave simp: same_place_def asset_wf_def)

lemma keeps_update_annotations: "keeps_inv (update_annotations i p c ow)"
  unfolding update_annotations_def
  by (intro keeps_invI wp_bind_get_asset; simp add: op_simps)
    (auto intro!: reg_inv_same simp: same_place_def same_usage_def asset_wf_def)

lemma keeps_set_eviction_policy: "keeps_inv (set_eviction_policy i p c)"
  unfolding set_eviction_policy_def
  by (intro keeps_invI wp_bind_get_asset; simp add: op_simps)
    (auto intro!: reg_inv_same simp: same_place_def same_usage_def asset_wf_def)

lemma keeps_record_read: "keeps_inv (record_read i)"
  unfolding record_read_def
  by (intro keeps_invI wp_bind_get_asset; simp add: op_simps)
    (auto intro!: reg_inv_same simp: same_place_def same_usage_def asset_wf_def)

lemma cleanup_wf:
  assumes "validate_cleanup_transition a st pd = Inr u" and "asset_wf a"
  shows "st \<noteq> AVAILABLE" and
    "asset_wf (a\<lparr>a_state := st, a_updated_at := now, a_expired_at := x,
       a_payload_deleted_at := (if pd then Some now else a_payload_deleted_at a)\<rparr>)"
  using assms by (auto simp: validate_cleanup_transition_def cleanup_allowed_def asset_wf_def split: if_splits)

lemma keeps_lifecycle_update: "keeps_inv (lifecycle_update a st now reason pd)"
proof (rule keeps_invI)
  fix r assume inv: "reg_inv r"
  show "wp (lifecycle_update a st now reason pd) (\<lambda>_. reg_inv) (\<lambda>_. reg_inv) r"
    unfolding lifecycle_update_def
  proof (rule wp_bind_get_asset, rule inv, rule inv, goal_cases)
    case (1 c)
    show ?case
    proof (cases "c = a \<and> is_ok (validate_cleanup_transition a st pd)")
      case True
      then have v: "validate_cleanup_transition a st pd = Inr ()" "c = a" by (auto simp: is_ok_ex)
      show ?thesis
        using inv 1 cleanup_wf [OF v(1)] unfolding v
        by (simp add: op_simps v released_assets reg_inv_quotas split del: if_split)
          (rule reg_inv_leave, simp_all add: same_place_def split del: if_split)
    next
      case False
      then show ?thesis using inv by (auto simp: wp_simps is_ok_ex split: sum.splits)
    qed
  qed
qed

lemma keeps_mark_for_gc: "keeps_inv (mark_for_gc_if_orphaned i c)"
  unfolding mark_for_gc_if_orphaned_def
  by (intro keeps_invI wp_bind_get_asset; simp add: op_simps)
    (auto intro!: reg_inv_leave simp: same_place_def asset_wf_def)

lemma keeps_audit: "keeps_inv (audit x y z w b a)"
  by (rule keeps_invI) (simp add: wp_simps)

lemma keeps_record_capability_issue: "keeps_inv (record_capability_issue c op sp ttl out cid)"
  unfolding record_capability_issue_def Let_def by (rule keeps_audit)

lemma keeps_commit_asset: "keeps_inv (commit_asset i n cs c m ec)"
  unfolding commit_asset_def Let_def
  apply (intro keeps_invI)
  apply (simp add: wp_seq wp_check)
  apply (intro impI conjI)
  apply (rule wp_bind_get_asset, assumption, assumption)
  apply (simp add: wp_seq wp_check)
  apply (intro impI conjI)
  apply (rule wp_enforce_quota)
  apply (simp add: op_simps)
  apply (rule reg_inv_enter)
  apply (auto simp: same_place_def asset_wf_def)
  done


section \<open>Alias names\<close>

text \<open>
  The only effects of checking a name: clock readings, and tombstones that have run out disappear.
\<close>

definition names_checked :: "registry \<Rightarrow> registry \<Rightarrow> bool" where
  "names_checked r t \<longleftrightarrow> t = r\<lparr>r_ticks := r_ticks t, r_tombstones := r_tombstones t\<rparr> \<and>
     r_ticks r \<le> r_ticks t \<and>
     (dict_ok (r_tombstones r) \<longrightarrow> dict_ok (r_tombstones t)) \<and>
     map_of (r_tombstones t) \<subseteq>\<^sub>m map_of (r_tombstones r)"

lemma names_checked_refl [simp]: "names_checked r r"
  by (simp add: names_checked_def)

lemma names_checkedE:
  assumes "names_checked r t"
  obtains n T where "t = r\<lparr>r_ticks := n, r_tombstones := T\<rparr>" and "r_ticks r \<le> n"
    and "dict_ok (r_tombstones r) \<longrightarrow> dict_ok T" and "map_of T \<subseteq>\<^sub>m map_of (r_tombstones r)"
  using assms unfolding names_checked_def by blast

lemma names_checkedI:
  "dict_ok (r_tombstones r) \<longrightarrow> dict_ok T \<Longrightarrow> map_of T \<subseteq>\<^sub>m map_of (r_tombstones r) \<Longrightarrow>
     r_ticks r \<le> n \<Longrightarrow> names_checked r (r\<lparr>r_ticks := n, r_tombstones := T\<rparr>)"
  by (simp add: names_checked_def)

lemma names_checked_trans: "names_checked r s \<Longrightarrow> names_checked s t \<Longrightarrow> names_checked r t"
  by (elim names_checkedE) (auto intro!: names_checkedI elim: map_le_trans)

lemma reg_inv_names_checked: "names_checked r t \<Longrightarrow> reg_inv r \<Longrightarrow> reg_inv t"
  by (erule names_checkedE) (simp add: reg_inv_def)

text \<open>A name passes the check only if nothing is bound there.\<close>

lemma wp_require_available:
  assumes "\<And>e t. names_checked r t \<Longrightarrow> E e t"
    and "\<And>t k. names_checked r t \<Longrightarrow> qualified_alias s a = Inr k \<Longrightarrow> map_of (r_aliases r) k = None \<Longrightarrow> Q () t"
  shows "wp (require_alias_name_available s a) Q E r"
  unfolding require_alias_name_available_def alias_name_is_blocked_def
  by (simp add: wp_simps split: sum.split option.split)
    (auto intro!: assms simp: names_checked_def map_le_def)

text \<open>The bindings that a reservation creates.\<close>

definition names_bound ::
  "(string, alias_binding) dict \<Rightarrow> string set \<Rightarrow> string \<Rightarrow> (string, alias_binding) dict \<Rightarrow> bool" where
  "names_bound L K i L' \<longleftrightarrow>
     (\<forall>k. if k \<in> K then \<exists>b. map_of L' k = Some b \<and> b_asset_id b = Some i else map_of L' k = map_of L k)"

definition scoped_keys :: "string \<Rightarrow> string \<Rightarrow> (string, bool) dict \<Rightarrow> string set" where
  "scoped_keys s p specs = {k. \<exists>x\<in>set specs. scoped_key s p (fst x) = Inr k}"

lemma scoped_keys_Nil [simp]: "scoped_keys s p [] = {}"
  by (simp add: scoped_keys_def)

lemma scoped_keys_Cons:
  "scoped_key s p (fst x) = Inr k \<Longrightarrow> scoped_keys s p (x # specs) = insert k (scoped_keys s p specs)"
  by (auto simp: scoped_keys_def)

lemma map_result_scoped:
  "map_result (scoped_key s p) (map fst specs) = Inr ys \<Longrightarrow> set ys = scoped_keys s p specs"
  by (simp add: scoped_keys_def map_result_keys)

lemma names_bound_insert:
  assumes "names_bound (AList.update k b L) K i L'" and "b_asset_id b = Some i"
  shows "names_bound L (insert k K) i L'"
  unfolding names_bound_def
proof
  fix l
  show "if l \<in> insert k K then \<exists>b. map_of L' l = Some b \<and> b_asset_id b = Some i else map_of L' l = map_of L l"
    using assms spec [OF assms(1) [unfolded names_bound_def], of l] by (auto split: if_splits)
qed

lemma names_bound_to:
  "names_bound L K i L' \<Longrightarrow> bound_to L' k j \<longleftrightarrow> (if k \<in> K then j = i else bound_to L k j)"
  unfolding names_bound_def bound_to_def by (metis option.inject)

lemma wp_bind_reserved_aliases:
  assumes "s \<in> STORAGE_BUCKETS" and "aliases_ok (r_aliases r)"
    and "\<And>x. x \<in> set specs \<Longrightarrow> is_ok (scoped_key s p (fst x))"
  shows "wp (for_each specs (bind_reserved_alias s p i now owner))
     (\<lambda>_ t. \<exists>n ev L. t = r\<lparr>r_ticks := n, r_audit_events := ev, r_aliases := L\<rparr> \<and> aliases_ok L \<and>
        r_ticks r \<le> n \<and> prefix (r_audit_events r) ev \<and>
        names_bound (r_aliases r) (scoped_keys s p specs) i L)
     (\<lambda>_ _. False) r"
  using assms(2,3)
proof (induction specs arbitrary: r)
  case Nil
  then show ?case unfolding for_each.simps wp_ret
    by (intro exI [of _ "r_ticks r"] exI [of _ "r_audit_events r"] exI [of _ "r_aliases r"]) (simp add: names_bound_def)
next
  case (Cons x specs)
  obtain k0 where k0: "scoped_key s p (fst x) = Inr k0" using Cons.prems(2) [of x] by (auto simp: is_ok_ex)
  then obtain sc where sc: "alias_under_partition p (fst x) = Inr sc" "qualified_alias s sc = Inr k0"
    by (auto simp: scoped_key_def bind_result_Inr)
  let ?b = "\<lparr>b_space = s, b_alias = sc, b_asset_id = Some i, b_mutable = snd x, b_previous_asset_id = None,
    b_created_at = now, b_updated_at = now, b_created_by_service_id = owner\<rparr>"
  let ?after = "[''asset_id'' \<mapsto> i, ''mutable'' \<mapsto> bool_str_lower (snd x)]"
  let ?ev = "\<lparr>e_action = ''alias.create'', e_target = k0, e_caller_service_id = owner,
    e_outcome = ''success'', e_before = Map.empty, e_after = ?after, e_ts = r_clock r (r_ticks r)\<rparr>"
  define r1 where "r1 = r\<lparr>r_aliases := AList.update k0 ?b (r_aliases r), r_ticks := Suc (r_ticks r),
    r_audit_events := r_audit_events r @ [?ev]\<rparr>"
  have "aliases_ok (r_aliases r1)"
    using Cons.prems(1) sc assms(1) unfolding r1_def
    by (auto intro!: aliases_ok_update simp: binding_wf_def binding_qualified_alias_def)
  then have IH: "wp (for_each specs (bind_reserved_alias s p i now owner))
     (\<lambda>_ t. \<exists>n ev L. t = r1\<lparr>r_ticks := n, r_audit_events := ev, r_aliases := L\<rparr> \<and> aliases_ok L \<and>
        r_ticks r1 \<le> n \<and> prefix (r_audit_events r1) ev \<and>
        names_bound (r_aliases r1) (scoped_keys s p specs) i L)
     (\<lambda>_ _. False) r1"
    using Cons.prems(2) by (intro Cons.IH) auto
  have first: "bind_reserved_alias s p i now owner x r = (Inr (), r1)"
    by (rule wp_eqI) (simp add: bind_reserved_alias_def wp_simps sc binding_qualified_alias_def Let_def r1_def)
  show ?case
    unfolding for_each.simps wp_seq wp_of_eq [where m = "bind_reserved_alias s p i now owner x", OF first]
  proof (rule wp_mono [OF IH], goal_cases)
    case (1 u t)
    then obtain n ev L where "t = r\<lparr>r_ticks := n, r_audit_events := ev, r_aliases := L\<rparr>" "aliases_ok L"
      "r_ticks r \<le> n" "prefix (r_audit_events r) ev"
      "names_bound (r_aliases r1) (scoped_keys s p specs) i L"
      by (auto simp: r1_def dest: append_prefixD)
    then show ?case
      by (intro exI [of _ n] exI [of _ ev] exI [of _ L])
        (auto simp: r1_def scoped_keys_Cons [OF k0] intro: names_bound_insert)
  qed
qed

section \<open>Operations on aliases\<close>

lemma wp_bind_get_binding:
  assumes "reg_inv r" and "\<And>e. E e r"
    and "\<And>k b. map_of (r_aliases r) k = Some b \<Longrightarrow> binding_wf k b \<Longrightarrow> wp (f b) Q E r"
  shows "wp (bind_op (get_binding sp al) f) Q E r"
  using assms(1) unfolding get_binding_def
  by (simp add: wp_simps split: sum.split option.split)
    (auto simp: assms(2) reg_inv_def intro!: assms(3) dest: aliases_okD)

lemma bound_asset:
  assumes "reg_inv r" and "map_of (r_aliases r) k = Some b" and "b_asset_id b = Some i"
  shows "\<exists>a. map_of (r_assets r) i = Some a \<and> k \<in> a_aliases a"
  using assms by (auto simp: reg_inv_def links_ok_def bound_to_def has_alias_def)

lemma reg_inv_aliases:
  assumes inv: "reg_inv r" and a: "map_of (r_assets r) i = Some a"
    and L: "aliases_ok L" "links_ok (AList.update i a' (r_assets r)) L"
    and A: "A = r_assets r" and ids: "a_asset_id a' = a_asset_id a"
    and same: "same_usage a a'" and wf: "asset_wf a'"
  shows "reg_inv (r\<lparr>r_aliases := L, r_assets := AList.update i a' A\<rparr>)"
  using assms assets_okD [of "r_assets r" i a]
  by (auto simp: reg_inv_def assets_ok_update accounted_same ids_fresh_update)

lemma keeps_attach_alias: "keeps_inv (attach_alias i al mut c)"
proof (rule keeps_invI)
  fix r assume inv: "reg_inv r"
  show "wp (attach_alias i al mut c) (\<lambda>_. reg_inv) (\<lambda>_. reg_inv) r"
    unfolding attach_alias_def
  proof (rule wp_bind_get_asset, rule inv, rule inv, goal_cases)
    case (1 a)
    then have sp: "normalize_space (a_space a) = Inr (a_space a)" by (simp add: asset_wf_space)
    show ?case
    proof (cases "alias_under_partition (a_partition_id a) al")
      case (Inr name)
      show ?thesis
        unfolding wp_seq wp_check wp_bind wp_of_result sp Inr sum.case
      proof (simp add: inv, intro impI wp_require_available, goal_cases)
        case (2 t k)
        then have t: "r_assets t = r_assets r" "r_aliases t = r_aliases r" by (auto elim!: names_checkedE)
        have "\<not> bound_to (r_aliases r) k j" for j using 2(4) by (simp add: bound_to_def)
        then have "links_ok (AList.update i (a\<lparr>a_aliases := insert k (a_aliases a), a_updated_at := u\<rparr>) (r_assets t))
            (AList.update k b (r_aliases t))" if "b_asset_id b = Some i" for b u
          unfolding t using inv 1(1) that by (intro links_ok_attach) (auto simp: reg_inv_def)
        moreover have "reg_inv t" using inv 2(2) reg_inv_names_checked by blast
        ultimately show ?case
          using 1 2(1,3) t
          by (simp add: wp_simps Let_def add_alias_to_asset_def)
            (intro reg_inv_aliases; auto simp: asset_wf_def same_usage_def binding_wf_def binding_qualified_alias_def reg_inv_def
              intro!: aliases_ok_update)
      qed (use inv reg_inv_names_checked in auto)
    qed (use inv sp in \<open>simp add: wp_simps\<close>)
  qed
qed


lemma binding_wf_unbound: "binding_wf k b \<Longrightarrow> b_asset_id b = None \<Longrightarrow> map_of L k = Some b \<Longrightarrow> \<not> bound_to L k j"
  by (simp add: bound_to_def)

lemma reg_inv_detached:
  assumes inv: "reg_inv r" and k: "map_of (r_aliases r) k = Some b" and i: "b_asset_id b = Some i"
    and a: "map_of (r_assets r) i = Some a" and L: "aliases_ok L" "\<And>j. \<not> bound_to L k j"
    "\<And>l j. l \<noteq> k \<Longrightarrow> bound_to L l j = bound_to (r_aliases r) l j"
    and A: "A = r_assets r"
  shows "reg_inv (r\<lparr>r_aliases := L,
    r_assets := AList.update i (a\<lparr>a_aliases := a_aliases a - {k}, a_updated_at := u\<rparr>) A\<rparr>)"
proof -
  have "links_ok (r_assets r) (r_aliases r)" using inv by (simp add: reg_inv_def)
  then have "links_ok (AList.update i (a\<lparr>a_aliases := a_aliases a - {k}, a_updated_at := u\<rparr>) (r_assets r)) L"
    using a by (rule links_ok_unlink [where k = k]) (use k i L in \<open>auto simp: bound_to_def [of "r_aliases r"]\<close>)
  then show ?thesis
    using inv a L reg_inv_asset [OF inv a]
    by (intro reg_inv_aliases) (auto simp: A same_usage_def asset_wf_def)
qed

lemma registry_swap:
  "r\<lparr>r_assets := A, r_aliases := L\<rparr> = r\<lparr>r_aliases := L, r_assets := A\<rparr>" for r :: registry
  by simp

lemma reg_inv_tombstones: "reg_inv r \<Longrightarrow> dict_ok T \<Longrightarrow> reg_inv (r\<lparr>r_tombstones := T\<rparr>)"
  by (simp add: reg_inv_def)

lemma reg_inv_dict_tombstones: "reg_inv r \<Longrightarrow> dict_ok (r_tombstones r)"
  by (simp add: reg_inv_def)

lemma reg_inv_detach:
  assumes inv: "reg_inv r" and "map_of (r_aliases r) k = Some b" "b_asset_id b = Some i" "map_of (r_assets r) i = Some a"
  shows "reg_inv (r\<lparr>r_aliases := AList.delete k (r_aliases r), r_assets :=
          AList.update i (a\<lparr>a_aliases := a_aliases a - {k}, a_updated_at := u\<rparr>) (r_assets r)\<rparr>)"
  using assms by (rule_tac reg_inv_detached) (auto intro: aliases_ok_delete simp: reg_inv_def)

lemma reg_inv_unbind:
  assumes inv: "reg_inv r" and "map_of (r_aliases r) k = Some b" "b_asset_id b = Some i" "map_of (r_assets r) i = Some a"
    and "b_mutable b"
  shows "reg_inv (r\<lparr>r_aliases := AList.update k (b\<lparr>b_asset_id := None, b_previous_asset_id := Some i, b_updated_at := v\<rparr>) (r_aliases r),
          r_assets := AList.update i (a\<lparr>a_aliases := a_aliases a - {k}, a_updated_at := u\<rparr>) (r_assets r)\<rparr>)"
  using assms aliases_okD [of "r_aliases r" k b] by (rule_tac reg_inv_detached)
    (auto intro!: aliases_ok_update simp: reg_inv_def binding_wf_def binding_qualified_alias_def)


lemma keeps_detach_alias: "keeps_inv (detach_alias sp al c)"
proof (rule keeps_invI)
  fix r assume inv: "reg_inv r"
  show "wp (detach_alias sp al c) (\<lambda>_. reg_inv) (\<lambda>_. reg_inv) r"
    unfolding detach_alias_def
  proof (rule wp_bind_get_binding, rule inv, rule inv, goal_cases)
    case (1 k b)
    show ?case
    proof (cases "b_asset_id b")
      case (Some i)
      obtain a where a: "map_of (r_assets r) i = Some a" using bound_asset [OF inv 1(1) Some] by blast
      note reg_inv_detach [OF inv 1(1) Some a]
      then show ?thesis
        using 1(2) Some inv a
        by (auto simp: wp_simps Let_def binding_wf_def remove_alias_from_asset_def reg_inv_dict_tombstones
            intro!: reg_inv_tombstones keeps_inv_wp [OF keeps_mark_for_gc] split: sum.split)
    qed (use 1(2) inv in \<open>simp add: wp_simps binding_wf_def\<close>)
  qed
qed

lemma keeps_detach_mutable_alias: "keeps_inv (detach_mutable_alias sp al c)"
proof (rule keeps_invI)
  fix r assume inv: "reg_inv r"
  show "wp (detach_mutable_alias sp al c) (\<lambda>_. reg_inv) (\<lambda>_. reg_inv) r"
    unfolding detach_mutable_alias_def
  proof (rule wp_bind_get_binding, rule inv, rule inv, goal_cases)
    case (1 k b)
    show ?case
    proof (cases "b_asset_id b")
      case (Some i)
      obtain a where a: "map_of (r_assets r) i = Some a" using bound_asset [OF inv 1(1) Some] by blast
      note reg_inv_unbind [OF inv 1(1) Some a]
      then show ?thesis
        using 1(2) Some inv a
        by (auto simp: wp_simps Let_def binding_wf_def remove_alias_from_asset_def registry_swap
            intro!: keeps_inv_wp [OF keeps_mark_for_gc])
    qed (use 1(2) inv in \<open>simp add: wp_simps binding_wf_def\<close>)
  qed
qed

lemma keeps_rebind_alias: "keeps_inv (rebind_alias sp al i c)"
proof (rule keeps_invI)
  fix r assume inv: "reg_inv r"
  show "wp (rebind_alias sp al i c) (\<lambda>_. reg_inv) (\<lambda>_. reg_inv) r"
    unfolding rebind_alias_def
  proof (rule wp_bind_get_binding, rule inv, rule inv, goal_cases)
    case (1 k b)
    show ?case
    proof (cases "map_of (r_assets r) i")
      case (Some a)
      have "reg_inv (r\<lparr>r_aliases := AList.update k (b\<lparr>b_asset_id := Some i, b_previous_asset_id := None, b_updated_at := v\<rparr>) (r_aliases r),
          r_assets := AList.update i (a\<lparr>a_aliases := insert k (a_aliases a), a_updated_at := u\<rparr>) (r_assets r)\<rparr>)"
        if "b_asset_id b = None" for u v
        using inv 1 that Some reg_inv_asset [OF inv Some]
        by (intro reg_inv_aliases links_ok_attach)
          (auto intro!: aliases_ok_update links_ok_attach simp: reg_inv_def binding_wf_def same_usage_def asset_wf_def
              binding_qualified_alias_def bound_to_def)
      then show ?thesis
        using 1(2) Some inv
        by (auto simp: wp_simps Let_def binding_wf_def add_alias_to_asset_def registry_swap split: sum.split)
    qed (use 1(2) inv in \<open>auto simp: wp_simps binding_wf_def\<close>)
  qed
qed


section \<open>Quota settings, time to live, reservation\<close>

lemma keeps_set_partition_quota: "keeps_inv (set_partition_quota sp p qb qc sw c)"
  unfolding set_partition_quota_def
  by (rule keeps_invI) (auto simp: op_simps reg_inv_def quota_at_names split: sum.split
      intro!: quotas_ok_update_partition accounted_limits)

lemma keeps_set_bucket_quota: "keeps_inv (set_bucket_quota sp qb w h)"
  unfolding set_bucket_quota_def
  by (rule keeps_invI) (auto simp: op_simps reg_inv_def bucket_at_name split: sum.split
      intro!: quotas_ok_update_bucket accounted_bucket_limits)

lemma acquired_assets:
  assumes "normalize_space s = Inr s" and q: "quotas_ok (r_partition_quotas r) (r_bucket_quotas r)"
    and p: "normalize_partition_id p' = Inr p"
  shows "(acquired s p' n r)\<lparr>r_assets := A'\<rparr> = acquired s p' n (r\<lparr>r_assets := A'\<rparr>)"
  using assms by (simp add: acquire_quota_eq [of _ _ _ p])

lemma keeps_set_asset_ttl: "keeps_inv (set_asset_ttl i ttl c)"
proof (rule keeps_invI)
  fix r assume inv: "reg_inv r"
  show "wp (set_asset_ttl i ttl c) (\<lambda>_. reg_inv) (\<lambda>_. reg_inv) r"
    unfolding set_asset_ttl_def
  proof (rule wp_bind_get_asset, rule inv, rule inv, goal_cases)
    case (1 a)
    obtain p where p: "normalize_partition_id (a_partition_id a) = Inr p" using 1(3) by (rule asset_wf_partition)
    note acq = acquired_assets [OF asset_wf_space [OF 1(3)] _ p]
    consider "a_size_bytes a = None \<or> a_checksum a = None" | "a_state a \<notin> {AVAILABLE, EXPIRED}"
      | (available) n where "a_size_bytes a = Some n" "a_checksum a \<noteq> None" "a_state a = AVAILABLE"
      | (expired) n where "a_size_bytes a = Some n" "a_checksum a \<noteq> None" "a_state a = EXPIRED"
      by (cases "a_size_bytes a"; cases "a_state a") auto
    then show ?case
    proof cases
      case available
      then show ?thesis
        using inv 1 by (simp add: op_simps split: sum.split)
          (auto intro!: reg_inv_same simp: same_place_def same_usage_def asset_wf_def)
    next
      case expired
      then show ?thesis
        using inv 1
        apply (simp add: wp_simps Let_def split: sum.split)
        apply (intro allI impI wp_enforce_quota)
        apply (simp_all add: op_simps acq reg_inv_quotas)
        apply (rule reg_inv_enter)
        apply (auto simp: same_place_def asset_wf_def)
        done
    qed (use inv in \<open>auto simp: wp_simps\<close>)
  qed
qed

lemma keeps_alias_name_is_blocked: "keeps_inv (alias_name_is_blocked s a)"
  unfolding alias_name_is_blocked_def
  by (rule keeps_invI) (auto simp: wp_simps reg_inv_dict_tombstones intro!: reg_inv_tombstones split: sum.split option.split)

lemma keeps_resolve_alias: "keeps_inv (resolve_alias sp al)"
  unfolding resolve_alias_def
  by (rule keeps_invI, rule wp_bind_get_binding) (auto simp: wp_simps split: sum.split option.split)

text \<open>
  What a reservation leaves: when it fails, the registry is as before except for the clock, the
  identifier source and tombstones that have run out; when it succeeds, there is one more asset,
  pending and under a fresh identifier, and its names, which were free, are bound to it.
\<close>

definition reserve_failed :: "registry \<Rightarrow> registry \<Rightarrow> bool" where
  "reserve_failed r t \<longleftrightarrow> 
     (\<exists>u n m. r_next_uuid r \<le> m \<and> r_ticks u \<le> n \<and> names_checked r u \<and> t = u\<lparr>r_next_uuid := m, r_ticks := n\<rparr>)"

definition reserved :: "registry \<Rightarrow> asset \<Rightarrow> registry \<Rightarrow> bool" where
  "reserved r a t \<longleftrightarrow>
     a_asset_id a = r_uuids r (r_next_uuid r) \<and> asset_wf a \<and> a_state a = PENDING \<and> a_payload_deleted_at a = None \<and>
     (\<forall>k\<in>a_aliases a. map_of (r_aliases r) k = None) \<and>
     (\<exists>u n ev L. names_checked r u \<and> aliases_ok L \<and> r_ticks u \<le> n \<and> prefix (r_audit_events r) ev \<and>
        t = u\<lparr>r_ticks := n, r_audit_events := ev, r_aliases := L,
              r_next_uuid := Suc (r_next_uuid r), r_assets := AList.update (a_asset_id a) a (r_assets r)\<rparr> \<and>
        names_bound (r_aliases r) (a_aliases a) (a_asset_id a) L)"

definition reserve_args ::
  "registry \<Rightarrow> string \<Rightarrow> string \<Rightarrow> alias_specs \<Rightarrow> string \<Rightarrow> int option \<Rightarrow> int option \<Rightarrow> asset \<Rightarrow> bool" where
  "reserve_args r sp p al owner ttl rb a \<longleftrightarrow>
     normalize_space sp = Inr (a_space a) \<and> normalize_partition_id p = Inr (a_partition_id a) \<and>
     build_storage_key (a_partition_id a) (a_asset_id a) = Inr (a_storage_key a) \<and>
     (\<exists>specs. normalize_alias_specs al = Inr specs \<and>
        a_aliases a = scoped_keys (a_space a) (a_partition_id a) specs) \<and>
     a_owner_service_id a = owner \<and> a_reserved_bytes a = rb \<and>
     expiry_for (r_env r) (a_space a) ttl (a_created_at a) = Inr (a_expires_at a)"

lemma wp_check_names:
  "wp (for_each names (\<lambda>al. bind_op (of_result (alias_under_partition p al)) (require_alias_name_available s)))
     (\<lambda>_ t. names_checked r t \<and> (\<forall>al\<in>set names. \<exists>k. scoped_key s p al = Inr k \<and> map_of (r_aliases r) k = None))
     (\<lambda>_ t. names_checked r t) r"
proof (rule wp_for_each_all, simp, goal_cases)
  case (1 al t)
  then have t: "r_aliases t = r_aliases r" by (auto elim: names_checkedE)
  show ?case
  proof (cases "alias_under_partition p al")
    case (Inr sc)
    show ?thesis
      unfolding wp_bind wp_of_result Inr sum.case
      by (rule wp_require_available) (use 1 t Inr in \<open>auto simp: scoped_key_def intro: names_checked_trans\<close>)
  qed (use 1 in \<open>simp add: wp_simps\<close>)
qed

lemma reserve_failedI: "names_checked r u \<Longrightarrow> reserve_failed r u"
  unfolding reserve_failed_def
  by (intro exI [of _ u] exI [of _ "r_ticks u"] exI [of _ "r_next_uuid r"]) (auto elim!: names_checkedE)

text \<open>The part of a reservation that follows the checks.\<close>

lemma wp_store_reserved:
  assumes inv: "reg_inv r" and u: "names_checked r u" and s: "s \<in> STORAGE_BUCKETS"
    and free: "\<And>x. x \<in> set specs \<Longrightarrow> \<exists>k. scoped_key s p (fst x) = Inr k \<and> map_of (r_aliases r) k = None"
    and a: "a_asset_id a = i" "i = r_uuids r (r_next_uuid r)" "asset_wf a" "a_state a = PENDING" "a_payload_deleted_at a = None"
    and keys: "a_aliases a = scoped_keys s p specs"
    and t: "t = u\<lparr>r_next_uuid := Suc (r_next_uuid r), r_ticks := n\<rparr>" "r_ticks u \<le> n"
  shows "wp (seq_op (put_asset i a) (seq_op (for_each specs (bind_reserved_alias s p i now own))
     (seq_op (case rb of None \<Rightarrow> ret () | Some b \<Rightarrow> audit act i own out bef (aft b)) (ret a))))
     (\<lambda>x t. reserved r x t \<and> x = a) E t"
proof -
  define t1 where "t1 = t\<lparr>r_assets := AList.update i a (r_assets t)\<rparr>"
  have u': "r_aliases u = r_aliases r" "r_assets u = r_assets r" "r_audit_events u = r_audit_events r" using u by (auto elim!: names_checkedE)
  then have t': "r_aliases t1 = r_aliases r" "r_assets t1 = AList.update i a (r_assets r)" by (auto simp: t1_def t(1))
  have "wp (for_each specs (bind_reserved_alias s p i now own))
     (\<lambda>_ t. \<exists>n ev L. t = t1\<lparr>r_ticks := n, r_audit_events := ev, r_aliases := L\<rparr> \<and> aliases_ok L \<and>
        r_ticks t1 \<le> n \<and> prefix (r_audit_events t1) ev \<and>
        names_bound (r_aliases t1) (scoped_keys s p specs) i L)
     (\<lambda>_ _. False) t1"
    using s free inv by (intro wp_bind_reserved_aliases) (auto simp: t' reg_inv_def is_ok_ex)
  then show ?thesis
    unfolding wp_seq wp_put_asset t1_def [symmetric]
  proof (rule wp_mono, goal_cases)
    case (1 _ v)
    then obtain n' ev L where v: "v = t1\<lparr>r_ticks := n', r_audit_events := ev, r_aliases := L\<rparr>" "aliases_ok L"
      and n': "r_ticks u \<le> n'" and ev: "prefix (r_audit_events r) ev"
      and L: "names_bound (r_aliases r) (a_aliases a) i L"
      using t(2) by (auto simp: keys t' t1_def t(1) u')
    have "\<forall>k\<in>a_aliases a. map_of (r_aliases r) k = None" using free by (force simp: keys scoped_keys_def)
    then have res: "reserved r a (v\<lparr>r_ticks := x, r_audit_events := y\<rparr>)" if "n' \<le> x" "prefix ev y" for x y
      unfolding reserved_def using a v(2) L u that n' prefix_order.trans [OF ev]
      by (intro conjI exI [of _ u] exI [of _ x] exI [of _ y] exI [of _ L]) (auto simp: v(1) t1_def t(1) u')
    have v': "r_ticks v = n'" "r_audit_events v = ev" by (simp_all add: v(1))
    have same: "v\<lparr>r_ticks := n', r_audit_events := ev\<rparr> = v" unfolding v(1) by simp
    have "reserved r a v" using res [of n' ev] unfolding same by simp
    with res show ?case by (auto simp: wp_simps v' split: option.split)
  qed simp
qed

lemma wp_reserve_asset:
  assumes inv: "reg_inv r"
  shows "wp (reserve_asset sp p al own m ann ev ttl rb)
     (\<lambda>a t. reserved r a t \<and> reserve_args r sp p al own ttl rb a) (\<lambda>_. reserve_failed r) r"
proof (cases "is_ok (normalize_space sp) \<and> is_ok (normalize_partition_id p) \<and> is_ok (normalize_alias_specs al)")
  case True
  then obtain s' p' specs where ok: "normalize_space sp = Inr s'" "normalize_partition_id p = Inr p'"
    "normalize_alias_specs al = Inr specs"
    by (auto simp: is_ok_ex)
  then have s: "s' \<in> STORAGE_BUCKETS" by (simp add: normalize_space_def normalize_bucket_member)
  show ?thesis
    unfolding reserve_asset_def wp_bind wp_of_result wp_seq ok sum.case
  proof (rule wp_mono [OF wp_check_names], goal_cases)
    case (1 _ u)
    then have u: "names_checked r u" and free: "\<And>x. x \<in> set specs \<Longrightarrow> \<exists>k. scoped_key s' p' (fst x) = Inr k \<and> map_of (r_aliases r) k = None"
      by auto
    have fail: "reserve_failed r u" using u by (rule reserve_failedI)
    have "wp (case rb of None \<Rightarrow> ret () | Some n \<Rightarrow> if n < 0 then raise ValidationError else enforce_quota s' p' n None)
        (\<lambda>_ t. t = u \<and> (\<forall>n. rb = Some n \<longrightarrow> 0 \<le> n)) (\<lambda>_. reserve_failed r) u"
      using fail by (auto simp: wp_simps split: option.split intro!: wp_enforce_quota)
    then show ?case
    proof (rule wp_mono, goal_cases)
      case (1 _ t)
      then have t: "t = u" and rb: "\<And>n. rb = Some n \<Longrightarrow> 0 \<le> n" by auto
      have u': "r_uuids u = r_uuids r" "r_next_uuid u = r_next_uuid r" "r_env u = r_env r" using u by (auto elim!: names_checkedE)
      have fail': "reserve_failed r (u\<lparr>r_next_uuid := Suc (r_next_uuid r), r_ticks := n\<rparr>)" if "r_ticks u \<le> n" for n
        unfolding reserve_failed_def
        by (intro exI [of _ u] exI [of _ n] exI [of _ "Suc (r_next_uuid r)"]) (simp add: u that)
      let ?i = "r_uuids r (r_next_uuid r)" and ?now = "r_clock u (r_ticks u)"
      note eval = wp_bind wp_of_result wp_new_asset_id wp_utcnow wp_gets Let_def u'
      show ?case
      proof (cases "is_ok (map_result (scoped_key s' p') (map fst specs)) \<and> is_ok (build_storage_key p' ?i) \<and>
          is_ok (expiry_for (r_env r) s' ttl ?now)")
        case True
        then obtain keys sk ex where res: "map_result (scoped_key s' p') (map fst specs) = Inr keys"
          "build_storage_key p' ?i = Inr sk" "expiry_for (r_env r) s' ttl ?now = Inr ex"
          by (auto simp: is_ok_ex)
        then have pid: "is_ok (normalize_partition_id p')" by (auto simp: build_storage_key_Inr)
        have keys: "set keys = scoped_keys s' p' specs" using res(1) by (rule map_result_scoped)
        show ?thesis
          unfolding t
          by (simp add: eval res cong: wp_lazy, unfold u',
              rule wp_mono [OF wp_store_reserved [OF inv u s free, where n = "Suc (r_ticks u)"]])
            (use keys pid rb s in \<open>simp_all add: asset_wf_def reserve_args_def ok res\<close>)
      next
        case False
        then show ?thesis
          unfolding t by (auto simp: eval fail' is_ok_ex cong: wp_lazy split: sum.split)
      qed
    qed
  qed (rule reserve_failedI)
qed (auto simp: reserve_asset_def wp_simps is_ok_ex reserve_failedI split: sum.split)

lemma reserved_inv:
  assumes inv: "reg_inv r" and "reserved r a t"
  shows "reg_inv t"
proof -
  obtain u n ev L where t: "t = u\<lparr>r_ticks := n, r_audit_events := ev, r_aliases := L,
      r_next_uuid := Suc (r_next_uuid r), r_assets := AList.update (a_asset_id a) a (r_assets r)\<rparr>"
    and u: "names_checked r u" and L: "aliases_ok L"
      "names_bound (r_aliases r) (a_aliases a) (a_asset_id a) L"
    and a: "a_asset_id a = r_uuids r (r_next_uuid r)" "asset_wf a" "a_state a = PENDING"
      "\<And>k. k \<in> a_aliases a \<Longrightarrow> map_of (r_aliases r) k = None"
    using assms(2) unfolding reserved_def by blast
  have new: "map_of (r_assets r) (a_asset_id a) = None" using inv by (simp add: reg_inv_def ids_fresh_def a)
  have free: "\<not> bound_to (r_aliases r) k j" if "k \<in> a_aliases a" for k j
    using a(4) [OF that] by (simp add: bound_to_def)
  have links: "bound_to (r_aliases r) k j \<longleftrightarrow> has_alias (r_assets r) j k" for k j
    using inv by (simp add: reg_inv_def links_ok_def)
  have "\<not> has_alias (r_assets r) (a_asset_id a) k" for k using new by (simp add: has_alias_def)
  then have "links_ok (AList.update (a_asset_id a) a (r_assets r)) L"
    using names_bound_to [OF L(2)] free links by (auto simp: links_ok_def)
  moreover have "r_uuids u = r_uuids r" "r_partition_quotas u = r_partition_quotas r" "r_bucket_quotas u = r_bucket_quotas r"
    "dict_ok (r_tombstones u)"
    using u inv by (auto simp: reg_inv_def elim!: names_checkedE)
  ultimately show ?thesis
    using inv L(1) new a ids_fresh_new [of "r_uuids r" "r_next_uuid r" "r_assets r" a]
    by (simp add: t reg_inv_def assets_ok_update accounted_new)
qed

lemma reserve_failed_inv: "reg_inv r \<Longrightarrow> reserve_failed r t \<Longrightarrow> reg_inv t"
  by (auto simp: reserve_failed_def reg_inv_def ids_fresh_def elim!: names_checkedE)

lemma keeps_reserve_asset: "keeps_inv (reserve_asset sp p al own m ann ev ttl rb)"
  by (rule keeps_invI, rule wp_mono, erule wp_reserve_asset) (auto dest: reserved_inv reserve_failed_inv)

end
