(* ===== verification/Registry_Steps.thy ===== *)
theory Registry_Steps
  imports Registry_Ops
begin

text \<open>
  The registry as a transition system. A call is one public method with its arguments, or a reading
  of the clock by another component; a state is
  reachable when a sequence of calls leads to it from a new registry, whatever the calls return.
\<close>

section \<open>Calls\<close>

datatype call =
    ReserveAsset string string alias_specs string "string option" "(string, string) fmap option"
      eviction_policy "int option" "int option"
  | AttachAlias string string bool string
  | CommitAsset string int string string "string option" "string option"
  | UpdateAnnotations string "(string, string) fmap" string bool
  | ResolveAlias string string
  | DetachAlias string string string
  | DetachMutableAlias string string string
  | RebindAlias string string string string
  | ExpireAsset string string
  | DeleteAsset string string
  | SetEvictionPolicy string eviction_policy string
  | SetPartitionQuota string string "int option" "int option" "bool option" string
  | SetBucketQuota string "int option" rat rat
  | RecordRead string
  | LifecycleUpdate asset asset_state datetime string bool
  | SetAssetTtl string int string
  | RecordCapabilityIssue string string string int string "string option"
  | ReadClock

definition void :: "('s, 'a) op \<Rightarrow> ('s, unit) op" where
  "void m = seq_op m (ret ())"

fun exec_call :: "call \<Rightarrow> (registry, unit) op" where
  "exec_call (ReserveAsset sp p al own m ann ev ttl rb) = void (reserve_asset sp p al own m ann ev ttl rb)"
| "exec_call (AttachAlias i al mut c) = void (attach_alias i al mut c)"
| "exec_call (CommitAsset i n cs c m ec) = void (commit_asset i n cs c m ec)"
| "exec_call (UpdateAnnotations i p c ow) = void (update_annotations i p c ow)"
| "exec_call (ResolveAlias sp al) = void (resolve_alias sp al)"
| "exec_call (DetachAlias sp al c) = void (detach_alias sp al c)"
| "exec_call (DetachMutableAlias sp al c) = void (detach_mutable_alias sp al c)"
| "exec_call (RebindAlias sp al i c) = void (rebind_alias sp al i c)"
| "exec_call (ExpireAsset i c) = void (expire_asset i c)"
| "exec_call (DeleteAsset i c) = void (delete_asset i c)"
| "exec_call (SetEvictionPolicy i p c) = void (set_eviction_policy i p c)"
| "exec_call (SetPartitionQuota sp p qb qc sw c) = void (set_partition_quota sp p qb qc sw c)"
| "exec_call (SetBucketQuota sp qb w h) = void (set_bucket_quota sp qb w h)"
| "exec_call (RecordRead i) = record_read i"
| "exec_call (LifecycleUpdate a st now reason pd) = void (lifecycle_update a st now reason pd)"
| "exec_call (SetAssetTtl i ttl c) = void (set_asset_ttl i ttl c)"
| "exec_call (RecordCapabilityIssue c op sp ttl out cid) = record_capability_issue c op sp ttl out cid"
| "exec_call ReadClock = void utcnow"

inductive reachable :: "registry \<Rightarrow> bool" where
  new: "init_registry g env clock uuids = Inr r \<Longrightarrow> uuid_source_ok uuids \<Longrightarrow> reachable r"
| call: "reachable r \<Longrightarrow> reachable (snd (exec_call c r))"

lemma wp_void [wp_simps]: "wp (void m) Q E r = wp m (\<lambda>_. Q ()) E r"
  by (simp add: void_def wp_simps)

lemma keeps_void: "keeps_inv m \<Longrightarrow> keeps_inv (void m)"
  by (auto intro!: keeps_invI simp: wp_simps dest: keeps_inv_wp)

lemma keeps_utcnow: "keeps_inv utcnow"
  by (rule keeps_invI) (simp add: wp_simps)

lemmas keeps_calls = keeps_utcnow keeps_reserve_asset keeps_attach_alias keeps_commit_asset keeps_update_annotations
  keeps_resolve_alias keeps_detach_alias keeps_detach_mutable_alias keeps_rebind_alias
  keeps_expire_asset keeps_delete_asset keeps_set_eviction_policy keeps_set_partition_quota
  keeps_set_bucket_quota keeps_record_read keeps_lifecycle_update keeps_set_asset_ttl
  keeps_record_capability_issue

lemma keeps_exec_call: "keeps_inv (exec_call c)"
  by (cases c) (simp_all add: keeps_calls keeps_void)

lemma reg_inv_init: "init_registry g env clock uuids = Inr r \<Longrightarrow> uuid_source_ok uuids \<Longrightarrow> reg_inv r"
  by (auto simp: init_registry_def Let_def reg_inv_def assets_ok_def aliases_ok_def links_ok_def bound_to_def
      has_alias_def quotas_ok_def accounted_def quota_at_def bucket_at_def default_partition_quota_def
      default_bucket_quota_def ids_fresh_def split: option.splits if_splits)

lemma reachable_inv: "reachable r \<Longrightarrow> reg_inv r"
proof (induction rule: reachable.induct)
  case (call r c)
  then show ?case using keeps_exec_call [of c] by (simp add: keeps_inv_def)
qed (rule reg_inv_init)

section \<open>How the registry evolves\<close>

text \<open>
  The lifecycle of an asset goes one way: pending, then available or expired (a new time to live
  may revive an expired asset), then deleted. Its identity never changes, and neither does the
  content it records once it is committed.
\<close>

fun stage :: "asset_state \<Rightarrow> nat" where
  "stage PENDING = 0"
| "stage AVAILABLE = 1"
| "stage EXPIRED = 1"
| "stage DELETED = 2"

lemma stage_le_1 [simp]: "stage s \<le> Suc 0 \<longleftrightarrow> s \<noteq> DELETED"
  by (cases s) auto

definition asset_step :: "asset \<Rightarrow> asset \<Rightarrow> bool" where
  "asset_step a a' \<longleftrightarrow>
     a_asset_id a' = a_asset_id a \<and> a_space a' = a_space a \<and> a_partition_id a' = a_partition_id a \<and>
     a_storage_key a' = a_storage_key a \<and> a_created_at a' = a_created_at a \<and>
     a_owner_service_id a' = a_owner_service_id a \<and>
     stage (a_state a) \<le> stage (a_state a') \<and>
     (a_size_bytes a \<noteq> None \<longrightarrow> a_size_bytes a' = a_size_bytes a \<and> a_checksum a' = a_checksum a) \<and>
     (a_payload_deleted_at a \<noteq> None \<longrightarrow> a_payload_deleted_at a' = a_payload_deleted_at a)"

definition evolves :: "registry \<Rightarrow> registry \<Rightarrow> bool" where
  "evolves r t \<longleftrightarrow>
     (\<forall>i a. map_of (r_assets r) i = Some a \<longrightarrow> (\<exists>a'. map_of (r_assets t) i = Some a' \<and> asset_step a a')) \<and>
     prefix (r_audit_events r) (r_audit_events t) \<and> r_ticks r \<le> r_ticks t \<and>
     r_clock t = r_clock r \<and> r_env t = r_env r \<and> r_alias_grace t = r_alias_grace r \<and> r_uuids t = r_uuids r"

definition untouched :: "registry \<Rightarrow> registry \<Rightarrow> bool" where
  "untouched r t \<longleftrightarrow> r_assets t = r_assets r \<and> r_aliases t = r_aliases r \<and>
     r_partition_quotas t = r_partition_quotas r \<and> r_bucket_quotas t = r_bucket_quotas r \<and>
     r_audit_events t = r_audit_events r"

text \<open>An immutable name is never bound to anything else; it can only disappear.\<close>

definition immutable_kept :: "registry \<Rightarrow> registry \<Rightarrow> bool" where
  "immutable_kept r t \<longleftrightarrow>
     (\<forall>k b. map_of (r_aliases r) k = Some b \<and> \<not> b_mutable b \<longrightarrow>
        map_of (r_aliases t) k = None \<or> map_of (r_aliases t) k = Some b)"

definition step_ok :: "registry \<Rightarrow> registry \<Rightarrow> bool" where
  "step_ok r t \<longleftrightarrow> evolves r t \<and> immutable_kept r t"

definition well_behaved :: "(registry, 'a) op \<Rightarrow> bool" where
  "well_behaved m \<longleftrightarrow> (\<forall>r. reg_inv r \<longrightarrow>
     wp m (\<lambda>_. step_ok r) (\<lambda>e t. step_ok r t \<and> (untouched r t \<or> e = OverflowError)) r)"

lemma asset_step_refl [simp]: "asset_step a a"
  by (simp add: asset_step_def)

lemma asset_step_trans: "asset_step a b \<Longrightarrow> asset_step b c \<Longrightarrow> asset_step a c"
  by (auto simp: asset_step_def)

lemma evolves_refl [simp]: "evolves r r"
  by (simp add: evolves_def)

lemma evolves_trans: "evolves r s \<Longrightarrow> evolves s t \<Longrightarrow> evolves r t"
  unfolding evolves_def by (metis asset_step_trans le_trans prefix_order.trans)

lemma step_ok_refl [simp]: "step_ok r r"
  by (simp add: step_ok_def immutable_kept_def)

lemma immutable_kept_same: "r_aliases t = r_aliases r \<Longrightarrow> immutable_kept r t"
  by (simp add: immutable_kept_def)

lemma untouched_refl [simp]: "untouched r r"
  by (simp add: untouched_def)

lemma evolves_frame [simp]:
  "evolves r (t\<lparr>r_tombstones := T\<rparr>) = evolves r t"
  "evolves r (t\<lparr>r_aliases := L\<rparr>) = evolves r t"
  "evolves r (t\<lparr>r_partition_quotas := P\<rparr>) = evolves r t"
  "evolves r (t\<lparr>r_bucket_quotas := B\<rparr>) = evolves r t"
  "evolves r (t\<lparr>r_next_uuid := m\<rparr>) = evolves r t"
  by (simp_all add: evolves_def)

lemma well_behavedI:
  "(\<And>r. reg_inv r \<Longrightarrow> wp m (\<lambda>_. step_ok r) (\<lambda>e t. step_ok r t \<and> (untouched r t \<or> e = OverflowError)) r) \<Longrightarrow> well_behaved m"
  by (simp add: well_behaved_def)

lemmas evolve_simps = op_simps evolves_def untouched_def asset_step_def asset_wf_def

lemma wb_expire_asset: "well_behaved (expire_asset i c)"
  unfolding expire_asset_def
  by (intro well_behavedI wp_bind_get_asset; (simp add: op_simps)?) (auto simp: step_ok_def immutable_kept_def evolves_def untouched_def asset_step_def)

lemma wb_delete_asset: "well_behaved (delete_asset i c)"
  unfolding delete_asset_def
  by (intro well_behavedI wp_bind_get_asset; (simp add: op_simps)?) (auto simp: step_ok_def immutable_kept_def evolves_def untouched_def asset_step_def)

lemma wb_update_annotations: "well_behaved (update_annotations i p c ow)"
  unfolding update_annotations_def
  by (intro well_behavedI wp_bind_get_asset; (simp add: op_simps)?) (auto simp: step_ok_def immutable_kept_def evolves_def untouched_def asset_step_def)

lemma wb_set_eviction_policy: "well_behaved (set_eviction_policy i p c)"
  unfolding set_eviction_policy_def
  by (intro well_behavedI wp_bind_get_asset; (simp add: op_simps)?) (auto simp: step_ok_def immutable_kept_def evolves_def untouched_def asset_step_def)

lemma wb_record_read: "well_behaved (record_read i)"
  unfolding record_read_def
  by (intro well_behavedI wp_bind_get_asset; (simp add: op_simps)?) (auto simp: step_ok_def immutable_kept_def evolves_def untouched_def asset_step_def)


lemma wb_commit_asset: "well_behaved (commit_asset i n cs c m ec)"
  unfolding commit_asset_def Let_def
  apply (intro well_behavedI)
  apply (simp add: wp_seq wp_check)
  apply (intro impI conjI)
  apply (rule wp_bind_get_asset, assumption, simp)
  apply (simp add: wp_seq wp_check)
  apply (intro impI conjI)
  apply (rule wp_enforce_quota)
  apply (simp_all add: op_simps)
  apply (auto simp: step_ok_def immutable_kept_def evolves_def asset_step_def asset_wf_def)
  done

lemma wb_mark_for_gc:
  assumes "reg_inv r" and "map_of (r_assets r) i \<noteq> None"
  shows "wp (mark_for_gc_if_orphaned i c) (\<lambda>_ t. evolves r t \<and> r_aliases t = r_aliases r \<and> r_tombstones t = r_tombstones r) (\<lambda>_ _. False) r"
  unfolding mark_for_gc_if_orphaned_def wp_bind wp_get_asset
  using assms reg_inv_asset [OF assms(1)]
  by (auto simp: op_simps) (auto simp: step_ok_def immutable_kept_def evolves_def asset_step_def)

lemma wb_lifecycle_update: "well_behaved (lifecycle_update a st now reason pd)"
proof (rule well_behavedI)
  fix r assume inv: "reg_inv r"
  show "wp (lifecycle_update a st now reason pd) (\<lambda>_. step_ok r)
     (\<lambda>e t. step_ok r t \<and> (untouched r t \<or> e = OverflowError)) r"
    unfolding lifecycle_update_def
  proof (rule wp_bind_get_asset, rule inv, simp, goal_cases)
    case (1 c)
    show ?case
    proof (cases "c = a \<and> is_ok (validate_cleanup_transition a st pd)")
      case True
      then have v: "validate_cleanup_transition a st pd = Inr ()" "c = a" by (auto simp: is_ok_ex)
      then have "a_payload_deleted_at a = None" "stage (a_state a) \<le> stage st"
        by (auto simp: validate_cleanup_transition_def cleanup_allowed_def split: if_splits)
      then show ?thesis
        using 1 unfolding v
        by (simp add: op_simps v split del: if_split) (auto simp: step_ok_def immutable_kept_def evolves_def asset_step_def)
    next
      case False
      then show ?thesis by (auto simp: wp_simps is_ok_ex split: sum.splits)
    qed
  qed
qed

lemma wb_set_partition_quota: "well_behaved (set_partition_quota sp p qb qc sw c)"
  unfolding set_partition_quota_def
  by (rule well_behavedI) (auto simp: op_simps step_ok_def immutable_kept_def evolves_def split: sum.split)

lemma wb_set_bucket_quota: "well_behaved (set_bucket_quota sp qb w h)"
  unfolding set_bucket_quota_def
  by (rule well_behavedI) (auto simp: op_simps step_ok_def immutable_kept_def split: sum.split)

lemma wb_record_capability_issue: "well_behaved (record_capability_issue c op sp ttl out cid)"
  unfolding record_capability_issue_def Let_def
  by (rule well_behavedI) (simp add: wp_simps, simp add: step_ok_def immutable_kept_def evolves_def)

lemma wb_resolve_alias: "well_behaved (resolve_alias sp al)"
  unfolding resolve_alias_def
  by (rule well_behavedI, rule wp_bind_get_binding) (auto simp: wp_simps step_ok_def immutable_kept_def evolves_def untouched_def split: sum.split option.split)

lemma wb_set_asset_ttl: "well_behaved (set_asset_ttl i ttl c)"
  unfolding set_asset_ttl_def
  apply (intro well_behavedI wp_bind_get_asset)
  apply (assumption, simp)
  apply (simp add: wp_simps Let_def split: sum.split)
  apply (intro conjI impI allI wp_enforce_quota)
  apply (auto simp: op_simps step_ok_def immutable_kept_def evolves_def untouched_def asset_step_def)
  done

lemma names_checked_evolves: "names_checked r t \<Longrightarrow> evolves r t \<and> untouched r t"
  by (auto simp: step_ok_def immutable_kept_def evolves_def untouched_def elim!: names_checkedE)

lemma wb_reserve_asset: "well_behaved (reserve_asset sp p al own m ann ev ttl rb)"
proof (intro well_behavedI wp_mono [OF wp_reserve_asset], assumption, goal_cases)
  case (1 r a t)
  then have "map_of (r_assets r) (a_asset_id a) = None" by (simp add: reserved_def reg_inv_def ids_fresh_def)
  moreover have "immutable_kept r t"
    using 1(2) unfolding reserved_def names_bound_def immutable_kept_def
    by (auto split: if_splits) (metis option.distinct(1))+
  ultimately show ?case
    using 1(2) by (auto simp: reserved_def step_ok_def evolves_def elim!: names_checkedE)
next
  case (2 r e t)
  then show ?case by (auto simp: reserve_failed_def step_ok_def immutable_kept_def evolves_def untouched_def elim!: names_checkedE)
qed

lemma wb_attach_alias: "well_behaved (attach_alias i al mut c)"
proof (rule well_behavedI)
  fix r assume inv: "reg_inv r"
  show "wp (attach_alias i al mut c) (\<lambda>_. step_ok r) (\<lambda>e t. step_ok r t \<and> (untouched r t \<or> e = OverflowError)) r"
    unfolding attach_alias_def
  proof (rule wp_bind_get_asset, rule inv, simp, goal_cases)
    case (1 a)
    then have sp: "normalize_space (a_space a) = Inr (a_space a)" by (simp add: asset_wf_space)
    show ?case
    proof (cases "alias_under_partition (a_partition_id a) al")
      case (Inr name)
      show ?thesis
        unfolding wp_seq wp_check wp_bind wp_of_result sp Inr sum.case
        by (simp, intro impI wp_require_available; simp add: names_checked_evolves)
          (use 1 in \<open>auto simp: wp_simps Let_def add_alias_to_asset_def step_ok_def immutable_kept_def evolves_def asset_step_def elim!: names_checkedE\<close>)
    qed (use inv sp in \<open>simp add: wp_simps\<close>)
  qed
qed

lemma wb_rebind_alias: "well_behaved (rebind_alias sp al i c)"
  unfolding rebind_alias_def
  by (rule well_behavedI, rule wp_bind_get_binding)
    (auto simp: wp_simps Let_def add_alias_to_asset_def binding_wf_def step_ok_def immutable_kept_def evolves_def asset_step_def split: sum.split option.split)

lemma wp_mark_evolves:
  assumes "reg_inv t" and "map_of (r_assets t) i \<noteq> None" and "step_ok r t"
  shows "wp (mark_for_gc_if_orphaned i c) (\<lambda>_. step_ok r) E t"
  by (rule wp_mono [OF wb_mark_for_gc])
    (use assms in \<open>auto simp: step_ok_def immutable_kept_def intro: evolves_trans\<close>)

lemma wb_detach_alias: "well_behaved (detach_alias sp al c)"
proof (rule well_behavedI)
  fix r assume inv: "reg_inv r"
  show "wp (detach_alias sp al c) (\<lambda>_. step_ok r) (\<lambda>e t. step_ok r t \<and> (untouched r t \<or> e = OverflowError)) r"
    unfolding detach_alias_def
  proof (rule wp_bind_get_binding, rule inv, simp, goal_cases)
    case (1 k b)
    show ?case
    proof (cases "b_asset_id b")
      case (Some i)
      obtain a where a: "map_of (r_assets r) i = Some a" using bound_asset [OF inv 1(1) Some] by blast
      note inv1 = reg_inv_detach [OF inv 1(1) Some a]
      show ?thesis
        using 1(2) Some inv a
        by (auto simp: wp_simps Let_def binding_wf_def remove_alias_from_asset_def dt_add_def
            reg_inv_dict_tombstones inv1 intro!: wp_mark_evolves reg_inv_tombstones split: sum.split)
          (auto simp: step_ok_def immutable_kept_def evolves_def asset_step_def)
    qed (use 1(2) inv in \<open>simp add: wp_simps binding_wf_def\<close>)
  qed
qed

lemma wb_detach_mutable_alias: "well_behaved (detach_mutable_alias sp al c)"
proof (rule well_behavedI)
  fix r assume inv: "reg_inv r"
  show "wp (detach_mutable_alias sp al c) (\<lambda>_. step_ok r) (\<lambda>e t. step_ok r t \<and> (untouched r t \<or> e = OverflowError)) r"
    unfolding detach_mutable_alias_def
  proof (rule wp_bind_get_binding, rule inv, simp, goal_cases)
    case (1 k b)
    show ?case
    proof (cases "b_asset_id b")
      case (Some i)
      obtain a where a: "map_of (r_assets r) i = Some a" using bound_asset [OF inv 1(1) Some] by blast
      note inv1 = reg_inv_unbind [OF inv 1(1) Some a]
      show ?thesis
        using 1 Some inv a
        by (auto simp: wp_simps Let_def binding_wf_def remove_alias_from_asset_def registry_swap inv1
            intro!: wp_mark_evolves)
          (auto simp: step_ok_def immutable_kept_def evolves_def asset_step_def)
    qed (use 1(2) inv in \<open>simp add: wp_simps binding_wf_def\<close>)
  qed
qed

lemma well_behaved_void: "well_behaved m \<Longrightarrow> well_behaved (void m)"
  by (simp add: well_behaved_def wp_simps)

lemma wb_utcnow: "well_behaved utcnow"
  by (rule well_behavedI) (simp add: wp_simps step_ok_def immutable_kept_def evolves_def)

lemmas wb_calls = wb_utcnow wb_reserve_asset wb_attach_alias wb_commit_asset wb_update_annotations
  wb_resolve_alias wb_detach_alias wb_detach_mutable_alias wb_rebind_alias
  wb_expire_asset wb_delete_asset wb_set_eviction_policy wb_set_partition_quota
  wb_set_bucket_quota wb_record_read wb_lifecycle_update wb_set_asset_ttl
  wb_record_capability_issue

lemma wb_exec_call: "well_behaved (exec_call c)"
  by (cases c) (simp_all add: wb_calls well_behaved_void)

lemma exec_call_step_ok:
  assumes "reg_inv r"
  shows "step_ok r (snd (exec_call c r))"
proof (rule wp_snd)
  have "wp (exec_call c) (\<lambda>_. step_ok r) (\<lambda>e t. step_ok r t \<and> (untouched r t \<or> e = OverflowError)) r"
    using wb_exec_call [of c] assms by (simp add: well_behaved_def)
  then show "wp (exec_call c) (\<lambda>_. step_ok r) (\<lambda>_. step_ok r) r" by (rule wp_mono) auto
qed

text \<open>Sequences of calls.\<close>

definition run_calls :: "call list \<Rightarrow> registry \<Rightarrow> registry" where
  "run_calls cs r = fold (\<lambda>c s. snd (exec_call c s)) cs r"

lemma run_calls_simps [simp]:
  "run_calls [] r = r" "run_calls (c # cs) r = run_calls cs (snd (exec_call c r))"
  by (simp_all add: run_calls_def)

lemma run_calls_reachable: "reachable r \<Longrightarrow> reachable (run_calls cs r)"
  by (induction cs arbitrary: r) (auto intro: reachable.call)

lemma run_calls_evolves: "reg_inv r \<Longrightarrow> evolves r (run_calls cs r)"
proof (induction cs arbitrary: r)
  case (Cons c cs)
  have "evolves r (snd (exec_call c r))" using exec_call_step_ok [OF Cons.prems] by (simp add: step_ok_def)
  moreover have "reg_inv (snd (exec_call c r))" using keeps_exec_call Cons.prems by (simp add: keeps_inv_def)
  ultimately show ?case using Cons.IH by (auto intro: evolves_trans)
qed simp

end
