(* ===== verification/Capabilities.thy ===== *)
theory Capabilities
  imports Models
begin

text \<open>
  Capabilities, \<^verbatim>\<open>asset_store_core/capabilities.py\<close>: scoped grants, the ledger of consumed
  single-use grants and the bounded store of issued grants. The injected clock of the two stores is
  a callable; an operation takes the instant that the callable returned.
\<close>

section \<open>Capability\<close>

datatype operation = READ | WRITE

fun operation_value :: "operation \<Rightarrow> string" where
  "operation_value READ = ''read''"
| "operation_value WRITE = ''write''"

record capability =
  c_capability_id :: string
  c_operation :: operation
  c_scope_prefix :: string
  c_expires_at :: datetime
  c_caller_service_id :: string
  c_single_use :: bool

text \<open>
  Construction validates the scope. An instant of the model is timezone-aware, so the rejection of
  naive datetimes has no counterpart.
\<close>

definition valid_scope :: "string \<Rightarrow> error + unit" where
  "valid_scope scope_prefix =
     (let parts = split_on slash (strip_char slash (py_strip scope_prefix)) in
      if length parts < 2 then Inl ValidationError
      else bind_result (normalize_space (hd parts)) (\<lambda>_.
           bind_result (normalize_relative_alias (join_with slash (tl parts))) (\<lambda>_. Inr ())))"

definition make_capability ::
  "string \<Rightarrow> operation \<Rightarrow> string \<Rightarrow> datetime \<Rightarrow> string \<Rightarrow> bool \<Rightarrow> error + capability" where
  "make_capability capability_id op scope_prefix expires_at caller_service_id single_use =
     bind_result (valid_scope scope_prefix) (\<lambda>_.
       Inr \<lparr>c_capability_id = capability_id, c_operation = op, c_scope_prefix = scope_prefix,
            c_expires_at = expires_at, c_caller_service_id = caller_service_id,
            c_single_use = single_use\<rparr>)"

definition is_same_path_or_child :: "string \<Rightarrow> string \<Rightarrow> bool" where
  "is_same_path_or_child candidate pfx =
     (let c = strip_char slash candidate; p = strip_char slash pfx in
      c = p \<or> prefix (p @ ''/'') c)"

definition allows :: "capability \<Rightarrow> operation \<Rightarrow> string \<Rightarrow> datetime \<Rightarrow> bool" where
  "allows cap op qualified now \<longleftrightarrow>
     op = c_operation cap \<and> now < c_expires_at cap \<and>
     is_same_path_or_child qualified (c_scope_prefix cap)"

definition require_capability :: "capability \<Rightarrow> operation \<Rightarrow> string \<Rightarrow> datetime \<Rightarrow> error + unit" where
  "require_capability cap op qualified now =
     guard_result (allows cap op qualified now) CapabilityDeniedError"

section \<open>Single-use ledger\<close>

record ledger =
  l_consumed :: "(string, datetime) dict"

definition new_ledger :: ledger where
  "new_ledger = \<lparr>l_consumed = []\<rparr>"

definition ledger_prune_step :: "datetime \<Rightarrow> string \<times> datetime \<Rightarrow> (string, datetime) dict \<Rightarrow> (string, datetime) dict" where
  "ledger_prune_step now item d = (if snd item \<le> now then AList.delete (fst item) d else d)"

definition ledger_prune_locked :: "datetime \<Rightarrow> (string, datetime) dict \<Rightarrow> (string, datetime) dict" where
  "ledger_prune_locked now d = fold (ledger_prune_step now) d d"

definition prune_expired :: "datetime \<Rightarrow> (ledger, unit) op" where
  "prune_expired now = modify (\<lambda>l. l\<lparr>l_consumed := ledger_prune_locked now (l_consumed l)\<rparr>)"

definition record_successful_use :: "datetime \<Rightarrow> capability \<Rightarrow> (ledger, unit) op" where
  "record_successful_use now cap =
     seq_op (prune_expired now) (
     if \<not> c_single_use cap then ret ()
     else
       bind_op (gets l_consumed) (\<lambda>consumed.
       seq_op (check (map_of consumed (c_capability_id cap) = None) CapabilityAlreadyConsumedError) (
       modify (\<lambda>l. l\<lparr>l_consumed := AList.update (c_capability_id cap) (c_expires_at cap) (l_consumed l)\<rparr>))))"

definition assert_unused :: "datetime \<Rightarrow> capability \<Rightarrow> (ledger, unit) op" where
  "assert_unused now cap =
     seq_op (prune_expired now) (
     bind_op (gets l_consumed) (\<lambda>consumed.
     check (\<not> (c_single_use cap \<and> map_of consumed (c_capability_id cap) \<noteq> None))
       CapabilityAlreadyConsumedError))"

section \<open>Capability store\<close>

record capability_store =
  s_capabilities :: "(string, capability) dict"
  s_max_capabilities :: int

definition make_capability_store :: "int \<Rightarrow> error + capability_store" where
  "make_capability_store max_capabilities =
     (if max_capabilities \<le> 0 then Inl ValidationError
      else Inr \<lparr>s_capabilities = [], s_max_capabilities = max_capabilities\<rparr>)"

definition store_prune_step :: "datetime \<Rightarrow> string \<times> capability \<Rightarrow> (string, capability) dict \<Rightarrow> (string, capability) dict" where
  "store_prune_step now item d = (if c_expires_at (snd item) \<le> now then AList.delete (fst item) d else d)"

definition store_prune_locked :: "datetime \<Rightarrow> (string, capability) dict \<Rightarrow> (string, capability) dict" where
  "store_prune_locked now d = fold (store_prune_step now) d d"

definition store_prune :: "datetime \<Rightarrow> (capability_store, unit) op" where
  "store_prune now = modify (\<lambda>s. s\<lparr>s_capabilities := store_prune_locked now (s_capabilities s)\<rparr>)"

text \<open>
  \<open>issue\<close> runs the caller's \<open>on_grant\<close> between the admission checks and the publication; the
  callback works on a state of its own, paired with the store.
\<close>

definition on_store :: "(capability_store, 'a) op \<Rightarrow> (capability_store \<times> 'w, 'a) op" where
  "on_store = on_part fst (\<lambda>s w. (s, snd w))"

definition on_rest :: "('w, 'a) op \<Rightarrow> (capability_store \<times> 'w, 'a) op" where
  "on_rest = on_part snd (\<lambda>r w. (fst w, r))"

definition issue :: "datetime \<Rightarrow> capability \<Rightarrow> ('w, unit) op \<Rightarrow> (capability_store \<times> 'w, unit) op" where
  "issue now cap on_grant =
     seq_op (on_store (store_prune now)) (
     seq_op (check (now < c_expires_at cap) ValidationError) (
     bind_op (on_store (gets (\<lambda>s. int (length (s_capabilities s)) < s_max_capabilities s))) (\<lambda>room.
     seq_op (check room CapabilityCapacityError) (
     seq_op (on_rest on_grant) (
     on_store (modify (\<lambda>s. s\<lparr>s_capabilities :=
       AList.update (c_capability_id cap) cap (s_capabilities s)\<rparr>)))))))"

definition get_capability :: "datetime \<Rightarrow> string \<Rightarrow> (capability_store, capability option) op" where
  "get_capability now capability_id =
     seq_op (store_prune now) (gets (\<lambda>s. map_of (s_capabilities s) capability_id))"

definition capability_count :: "datetime \<Rightarrow> (capability_store, nat) op" where
  "capability_count now = seq_op (store_prune now) (gets (\<lambda>s. length (s_capabilities s)))"

section \<open>Pruning\<close>

text \<open>
  Both stores retire entries the same way. The interface: pruning removes exactly the entries
  whose expiry has been reached.
\<close>

locale expiring_dict =
  fixes expiry :: "'v \<Rightarrow> datetime"
    and prune :: "datetime \<Rightarrow> (string, 'v) dict \<Rightarrow> (string, 'v) dict"
  assumes prune_filter: "dict_ok d \<Longrightarrow> prune now d = filter (\<lambda>p. now < expiry (snd p)) d"
begin

lemma prune_ok: "dict_ok d \<Longrightarrow> dict_ok (prune now d)"
  by (simp add: prune_filter)

lemma prune_lookup:
  "dict_ok d \<Longrightarrow> map_of (prune now d) k =
     (case map_of d k of None \<Rightarrow> None | Some v \<Rightarrow> if now < expiry v then Some v else None)"
  by (simp add: prune_filter dict_get_filter split: option.split)

lemma prune_keeps: "dict_ok d \<Longrightarrow> map_of d k = Some v \<Longrightarrow> now < expiry v \<Longrightarrow> map_of (prune now d) k = Some v"
  by (simp add: prune_lookup)

lemma prune_length: "dict_ok d \<Longrightarrow> length (prune now d) \<le> length d"
  by (simp add: prune_filter)

lemma prune_prune: "dict_ok d \<Longrightarrow> t \<le> t' \<Longrightarrow> prune t' (prune t d) = prune t' d"
  by (auto simp: prune_filter intro!: filter_cong)

lemma prune_live: "dict_ok d \<Longrightarrow> p \<in> set (prune now d) \<Longrightarrow> now < expiry (snd p)"
  by (simp add: prune_filter)

end

lemma fold_delete_filter:
  assumes "dict_ok d"
  shows "fold (\<lambda>p e. if P p then AList.delete (fst p) e else e) xs d =
     filter (\<lambda>p. \<not> (\<exists>q\<in>set xs. fst q = fst p \<and> P q)) d"
  using assms
proof (induction xs arbitrary: d)
  case (Cons x xs)
  have del: "AList.delete (fst x) d = filter (\<lambda>p. fst p \<noteq> fst x) d" by (induction d) auto
  show ?case
  proof (cases "P x")
    case True
    then show ?thesis using Cons.prems
      by (simp add: Cons.IH del) (auto intro!: filter_cong)
  next
    case False
    then show ?thesis using Cons.IH [OF Cons.prems] by (auto intro!: filter_cong)
  qed
qed simp

lemma prune_fold_filter:
  assumes ok: "dict_ok d"
  shows "fold (\<lambda>p e. if P p then AList.delete (fst p) e else e) d d = filter (\<lambda>p. \<not> P p) d"
proof -
  have "q = p" if "p \<in> set d" "q \<in> set d" "fst q = fst p" for p q
    using that ok by (auto simp: dict_ok_def distinct_map inj_on_def)
  then show ?thesis unfolding fold_delete_filter [OF ok] by (auto intro!: filter_cong)
qed

interpretation consumed: expiring_dict "\<lambda>e. e" ledger_prune_locked
proof unfold_locales
  fix d :: "(string, datetime) dict" and now
  assume "dict_ok d"
  then show "ledger_prune_locked now d = filter (\<lambda>p. now < snd p) d"
    unfolding ledger_prune_locked_def ledger_prune_step_def by (simp add: prune_fold_filter not_le)
qed

interpretation issued: expiring_dict c_expires_at store_prune_locked
proof unfold_locales
  fix d :: "(string, capability) dict" and now
  assume "dict_ok d"
  then show "store_prune_locked now d = filter (\<lambda>p. now < c_expires_at (snd p)) d"
    unfolding store_prune_locked_def store_prune_step_def by (simp add: prune_fold_filter not_le)
qed


section \<open>Scope\<close>

lemma join_with_append:
  "xs \<noteq> [] \<Longrightarrow> ys \<noteq> [] \<Longrightarrow> join_with c (xs @ ys) = join_with c xs @ c # join_with c ys"
proof (induction c xs rule: join_with.induct)
  case (2 c w)
  then show ?case by (cases ys) auto
qed auto

lemma prefix_segments:
  "c = p \<or> prefix (p @ [s]) c \<longleftrightarrow> prefix (split_on s p) (split_on s c)"
proof
  assume "c = p \<or> prefix (p @ [s]) c"
  then show "prefix (split_on s p) (split_on s c)"
    by (auto simp: prefix_def split_on_append)
next
  assume "prefix (split_on s p) (split_on s c)"
  then obtain ws where ws: "split_on s c = split_on s p @ ws" by (auto simp: prefix_def)
  show "c = p \<or> prefix (p @ [s]) c"
  proof (cases "ws = []")
    case True
    with ws have "join_with s (split_on s c) = join_with s (split_on s p)" by simp
    then show ?thesis by simp
  next
    case False
    have "c = join_with s (split_on s p @ ws)" using ws by (metis join_split_on)
    also have "\<dots> = p @ s # join_with s ws" using False by (simp add: join_with_append)
    finally show ?thesis by (auto simp: prefix_def)
  qed
qed

text \<open>
  C11: A capability authorises an operation exactly if it is the granted one, the grant has not
  expired, and the path segments of the scope are the first segments of the alias: a scope
  never matches a sibling that only shares leading characters.
\<close>

theorem allows_iff:
  "allows cap op qualified now \<longleftrightarrow>
     op = c_operation cap \<and> now < c_expires_at cap \<and>
     prefix (split_on slash (strip_char slash (c_scope_prefix cap)))
       (split_on slash (strip_char slash qualified))"
  unfolding allows_def is_same_path_or_child_def Let_def prefix_segments ..

section \<open>Single use\<close>

definition ledger_ok :: "ledger \<Rightarrow> bool" where
  "ledger_ok l \<longleftrightarrow> dict_ok (l_consumed l)"

definition marked :: "capability \<Rightarrow> ledger \<Rightarrow> bool" where
  "marked cap l \<longleftrightarrow> map_of (l_consumed l) (c_capability_id cap) = Some (c_expires_at cap)"

lemma ledger_ops_ok:
  "ledger_ok l \<Longrightarrow> ledger_ok (snd (prune_expired now l))"
  "ledger_ok l \<Longrightarrow> ledger_ok (snd (record_successful_use now cap l))"
  "ledger_ok l \<Longrightarrow> ledger_ok (snd (assert_unused now cap l))"
  unfolding ledger_ok_def record_successful_use_def assert_unused_def prune_expired_def
  by (rule wp_snd, auto simp: wp_simps consumed.prune_ok)+

text \<open>A mark survives everything that happens before the capability expires.\<close>

lemma marked_kept:
  assumes "ledger_ok l" and "marked cap l" and "now < c_expires_at cap"
  shows "marked cap (snd (prune_expired now l))"
    and "marked cap (snd (record_successful_use now cap' l))"
    and "marked cap (snd (assert_unused now cap' l))"
  using assms unfolding ledger_ok_def marked_def record_successful_use_def assert_unused_def prune_expired_def
  by (rule_tac wp_snd, auto simp: wp_simps consumed.prune_keeps)+

lemma marked_refused:
  assumes "ledger_ok l" and "marked cap l" and "now < c_expires_at cap" and "c_single_use cap"
  shows "fst (assert_unused now cap l) = Inl CapabilityAlreadyConsumedError"
    and "fst (record_successful_use now cap l) = Inl CapabilityAlreadyConsumedError"
  using assms consumed.prune_keeps [of "l_consumed l" "c_capability_id cap" "c_expires_at cap" now]
  by (simp_all add: ledger_ok_def marked_def assert_unused_def record_successful_use_def prune_expired_def
      seq_op_def bind_op_def modify_def gets_def check_def raise_def)

text \<open>What happens to a ledger between two uses: any sequence of its operations.\<close>

datatype ledger_call = PruneExpired datetime | RecordUse datetime capability | AssertUnused datetime capability

fun ledger_call_time :: "ledger_call \<Rightarrow> datetime" where
  "ledger_call_time (PruneExpired t) = t"
| "ledger_call_time (RecordUse t cap) = t"
| "ledger_call_time (AssertUnused t cap) = t"

fun exec_ledger_call :: "ledger_call \<Rightarrow> (ledger, unit) op" where
  "exec_ledger_call (PruneExpired t) = prune_expired t"
| "exec_ledger_call (RecordUse t cap) = record_successful_use t cap"
| "exec_ledger_call (AssertUnused t cap) = assert_unused t cap"

definition run_ledger :: "ledger_call list \<Rightarrow> ledger \<Rightarrow> ledger" where
  "run_ledger cs l = fold (\<lambda>c m. snd (exec_ledger_call c m)) cs l"

lemma run_ledger_ok: "ledger_ok l \<Longrightarrow> ledger_ok (run_ledger cs l)"
  unfolding run_ledger_def
proof (induction cs arbitrary: l)
  case (Cons c cs)
  then show ?case by (cases c) (simp_all add: ledger_ops_ok)
qed simp

lemma run_ledger_marked:
  assumes "ledger_ok l" and "marked cap l" and "\<And>c. c \<in> set cs \<Longrightarrow> ledger_call_time c < c_expires_at cap"
  shows "marked cap (run_ledger cs l)"
  using assms unfolding run_ledger_def
proof (induction cs arbitrary: l)
  case (Cons c cs)
  have "ledger_call_time c < c_expires_at cap" using Cons.prems(3) by simp
  with Cons show ?case by (cases c) (simp_all add: ledger_ops_ok marked_kept)
qed simp

lemma record_marks:
  assumes "ledger_ok l" and "c_single_use cap" and "record_successful_use now cap l = (Inr (), l')"
  shows "marked cap l'"
proof -
  have "wp (record_successful_use now cap) (\<lambda>_. marked cap) (\<lambda>_ _. True) l"
    using assms(2) by (simp add: record_successful_use_def prune_expired_def wp_simps marked_def)
  from assms(3) this show ?thesis by (rule wp_post)
qed

text \<open>
  C12: Once the use of a single-use capability has been recorded, every later check and every
  later attempt to record it is refused, whatever the ledger did in between, as long as the clock
  has not reached the capability's expiry (from when on the capability itself is refused).
\<close>

theorem single_use_once:
  assumes "c_single_use cap" and "record_successful_use t0 cap (run_ledger pre new_ledger) = (Inr (), l)"
    and "\<forall>c\<in>set cs. ledger_call_time c < c_expires_at cap" and "now < c_expires_at cap"
  shows "fst (assert_unused now cap (run_ledger cs l)) = Inl CapabilityAlreadyConsumedError \<and>
     fst (record_successful_use now cap (run_ledger cs l)) = Inl CapabilityAlreadyConsumedError"
proof -
  have ok: "ledger_ok (run_ledger pre new_ledger)" by (rule run_ledger_ok) (simp add: ledger_ok_def new_ledger_def)
  have l: "ledger_ok l" "marked cap l"
    using ledger_ops_ok(2) [OF ok, of t0 cap] record_marks [OF ok assms(1,2)] assms(2) by simp_all
  have "marked cap (run_ledger cs l)" by (rule run_ledger_marked [OF l]) (use assms(3) in blast)
  then show ?thesis using marked_refused [OF run_ledger_ok [OF l(1)] _ assms(4,1)] by blast
qed

section \<open>Bounded store\<close>

definition store_ok :: "capability_store \<Rightarrow> bool" where
  "store_ok s \<longleftrightarrow> dict_ok (s_capabilities s) \<and> 0 < s_max_capabilities s \<and>
     int (length (s_capabilities s)) \<le> s_max_capabilities s \<and>
     (\<forall>i c. map_of (s_capabilities s) i = Some c \<longrightarrow> c_capability_id c = i)"

lemma store_ok_dict: "store_ok s \<Longrightarrow> dict_ok (s_capabilities s)"
  unfolding store_ok_def by blast

lemma length_update: "length (AList.update k v d) \<le> Suc (length d)"
  by (induction d) auto

lemma wp_store_prune [wp_simps]:
  "wp (store_prune now) Q E s = Q () (s\<lparr>s_capabilities := store_prune_locked now (s_capabilities s)\<rparr>)"
  by (simp add: store_prune_def wp_simps)

lemma store_ok_prune: "store_ok s \<Longrightarrow> store_ok (s\<lparr>s_capabilities := store_prune_locked now (s_capabilities s)\<rparr>)"
  using issued.prune_length [of "s_capabilities s" now]
  by (auto simp: store_ok_def issued.prune_ok issued.prune_lookup split: option.splits if_splits)

lemma wp_on_store [wp_simps]: "wp (on_store m) Q E w = wp m (\<lambda>a s. Q a (s, snd w)) (\<lambda>e s. E e (s, snd w)) (fst w)"
  by (simp add: on_store_def wp_on_part)

lemma wp_on_rest [wp_simps]: "wp (on_rest m) Q E w = wp m (\<lambda>a r. Q a (fst w, r)) (\<lambda>e r. E e (fst w, r)) (snd w)"
  by (simp add: on_rest_def wp_on_part)

text \<open>What \<open>issue\<close> does, whatever the callback does.\<close>

lemma wp_issue:
  assumes "store_ok s"
  shows "wp (issue now cap g)
     (\<lambda>_ w. store_ok (fst w) \<and> now < c_expires_at cap \<and>
        s_capabilities (fst w) = AList.update (c_capability_id cap) cap (store_prune_locked now (s_capabilities s)) \<and>
        g r = (Inr (), snd w))
     (\<lambda>e w. store_ok (fst w) \<and> s_capabilities (fst w) = store_prune_locked now (s_capabilities s) \<and>
        (snd w = r \<or> g r = (Inl e, snd w))) (s, r)"
proof -
  let ?d = "store_prune_locked now (s_capabilities s)"
  have ok: "store_ok (s\<lparr>s_capabilities := ?d\<rparr>)" using assms by (rule store_ok_prune)
  have "store_ok (s\<lparr>s_capabilities := AList.update (c_capability_id cap) cap ?d\<rparr>)"
    if "int (length ?d) < s_max_capabilities s"
    using ok that length_update [of "c_capability_id cap" cap ?d] by (auto simp: store_ok_def)
  with ok show ?thesis
    unfolding issue_def by (auto simp: wp_simps intro!: wpI)
qed


text \<open>
  C13: Issuing a capability keeps the store within its bound. If it succeeds, the audit callback
  has succeeded first and the capability can be looked up until it expires; if it raises, for
  whatever reason, nothing new has been published.
\<close>

theorem issue_audited_and_bounded:
  assumes "store_ok s" and "issue now cap g (s, r) = (res, (s', r'))"
  shows "store_ok s' \<and>
     (res = Inr () \<longrightarrow> g r = (Inr (), r') \<and>
        (\<forall>t < c_expires_at cap. fst (get_capability t (c_capability_id cap) s') = Inr (Some cap))) \<and>
     (\<forall>e. res = Inl e \<longrightarrow> map_of (s_capabilities s') \<subseteq>\<^sub>m map_of (s_capabilities s))"
proof (cases res)
  case (Inl e)
  from wp_error [OF wp_issue [OF assms(1)] assms(2) [unfolded Inl]]
  have w: "store_ok s'" "s_capabilities s' = store_prune_locked now (s_capabilities s)" by auto
  have "dict_ok (s_capabilities s)" using assms(1) by (rule store_ok_dict)
  with w show ?thesis
    by (simp add: Inl map_le_def issued.prune_lookup dom_def split: option.split)
next
  case (Inr u)
  from wp_result [OF wp_issue [OF assms(1)] assms(2) [unfolded Inr]]
  have w: "store_ok s'" "g r = (Inr (), r')"
    "s_capabilities s' = AList.update (c_capability_id cap) cap (store_prune_locked now (s_capabilities s))" by auto
  have "dict_ok (s_capabilities s')" using w(1) by (rule store_ok_dict)
  moreover have "map_of (s_capabilities s') (c_capability_id cap) = Some cap" by (simp add: w(3))
  ultimately have "map_of (store_prune_locked t (s_capabilities s')) (c_capability_id cap) = Some cap" if "t < c_expires_at cap" for t
    using that by (intro issued.prune_keeps)
  then have "fst (get_capability t (c_capability_id cap) s') = Inr (Some cap)" if "t < c_expires_at cap" for t
    using that by (simp add: get_capability_def store_prune_def seq_op_def bind_op_def modify_def gets_def)
  with w(1,2) show ?thesis unfolding Inr by blast
qed

definition demo_cap :: capability where
  "demo_cap = \<lparr>c_capability_id = ''k'', c_operation = READ, c_scope_prefix = ''cache/p'', c_expires_at = 1000,
     c_caller_service_id = ''worker'', c_single_use = True\<rparr>"

theorem single_use_once_witness:
  "fst (assert_unused 7 demo_cap (run_ledger [PruneExpired 6] \<lparr>l_consumed = [(''k'', 1000)]\<rparr>))
     = Inl CapabilityAlreadyConsumedError"
  using single_use_once [of demo_cap 5 "[]" "\<lparr>l_consumed = [(''k'', 1000)]\<rparr>" "[PruneExpired 6]" 7]
  by (simp add: demo_cap_def run_ledger_def record_successful_use_def prune_expired_def ledger_prune_locked_def
      seq_op_def bind_op_def modify_def gets_def check_def ret_def new_ledger_def)

theorem issue_audited_and_bounded_witness:
  "fst (get_capability 7 ''k'' \<lparr>s_capabilities = [(''k'', demo_cap)], s_max_capabilities = 1\<rparr>) = Inr (Some demo_cap)"
  using issue_audited_and_bounded [of "\<lparr>s_capabilities = [], s_max_capabilities = 1\<rparr>" 5 demo_cap "ret ()" "()"
      "Inr ()" "\<lparr>s_capabilities = [(''k'', demo_cap)], s_max_capabilities = 1\<rparr>" "()"]
  by (simp add: store_ok_def issue_def on_store_def on_rest_def on_part_def store_prune_def store_prune_locked_def
      seq_op_def bind_op_def modify_def gets_def check_def ret_def demo_cap_def)

end
