(* ===== verification/Services.thy ===== *)
theory Services
  imports Capabilities Py_Text
begin

text \<open>
  Service identities: the bucket allowlist of \<^verbatim>\<open>asset_store_core/service_policy.py\<close> and the static
  credentials of \<^verbatim>\<open>asset_store_core/service_identity.py\<close>. Environment variables are read through a
  partial map from names to texts.
\<close>

section \<open>Service to bucket allowlist\<close>

definition SERVICE_READ_BUCKETS :: "(string, string set) dict" where
  "SERVICE_READ_BUCKETS = [
     (''fetcher'', {''cache'', ''tmp''}),
     (''upload-api'', {''users'', ''tmp''}),
     (''bulk-loader'', {''cache''}),
     (''worker'', {''cache'', ''users'', ''tmp'', ''results''}),
     (''task-api'', {''cache'', ''users'', ''tmp''}),
     (''admin'', STORAGE_BUCKETS),
     (''iiif-server'', {''cache'', ''users''})]"

definition SERVICE_WRITE_BUCKETS :: "(string, string set) dict" where
  "SERVICE_WRITE_BUCKETS = [
     (''fetcher'', {''cache'', ''tmp''}),
     (''upload-api'', {''users'', ''tmp''}),
     (''bulk-loader'', {''cache''}),
     (''worker'', {''results''}),
     (''task-api'', {''tmp''}),
     (''admin'', STORAGE_BUCKETS),
     (''iiif-server'', {})]"

definition KNOWN_SERVICE_IDS :: "string set" where
  "KNOWN_SERVICE_IDS = set (map fst SERVICE_READ_BUCKETS) \<union> set (map fst SERVICE_WRITE_BUCKETS)"

definition buckets_for_service :: "string \<Rightarrow> operation \<Rightarrow> error + string set" where
  "buckets_for_service service_id op =
     (let sid = py_strip service_id;
          table = (if op = READ then SERVICE_READ_BUCKETS else SERVICE_WRITE_BUCKETS)
      in case map_of table sid of None \<Rightarrow> Inl CapabilityDeniedError | Some buckets \<Rightarrow> Inr buckets)"

definition assert_service_bucket_allowed :: "string \<Rightarrow> string \<Rightarrow> operation \<Rightarrow> error + unit" where
  "assert_service_bucket_allowed service_id bucket op =
     bind_result (buckets_for_service service_id op) (\<lambda>allowed.
     bind_result (normalize_bucket bucket) (\<lambda>norm.
     guard_result (norm \<in> allowed) CapabilityDeniedError))"

section \<open>Credentials\<close>

definition dev_secret :: "string \<Rightarrow> string" where
  "dev_secret service_id = ''dev-secret:'' @ py_strip service_id"

record credential_store =
  cs_secrets :: "(string, string) dict"

fun clean_credentials :: "(string \<times> string) list \<Rightarrow> (string, string) dict \<Rightarrow> error + (string, string) dict" where
  "clean_credentials [] cleaned = Inr cleaned"
| "clean_credentials ((raw_id, secret) # rest) cleaned =
     (let service_id = py_strip raw_id in
      if service_id = [] then Inl ValidationError
      else if secret = [] then Inl ValidationError
      else clean_credentials rest (AList.update service_id secret cleaned))"

definition make_credential_store :: "(string, string) dict \<Rightarrow> error + credential_store" where
  "make_credential_store credentials =
     bind_result (clean_credentials credentials []) (\<lambda>cleaned.
     if cleaned = [] then Inl ValidationError else Inr \<lparr>cs_secrets = cleaned\<rparr>)"

definition service_ids :: "credential_store \<Rightarrow> string set" where
  "service_ids s = set (map fst (cs_secrets s))"

text \<open>\<open>hmac.compare_digest\<close> compares the UTF-8 encodings; an unknown identity compares with NUL.\<close>

definition authenticate :: "credential_store \<Rightarrow> string \<Rightarrow> string \<Rightarrow> error + string" where
  "authenticate s service_id secret =
     (let candidate = py_strip service_id;
          expected = map_of (cs_secrets s) candidate;
          reference = (case expected of None \<Rightarrow> [CHR 0x00] | Some x \<Rightarrow> x);
          ok = (utf8_encode reference = utf8_encode secret)
      in if expected = None \<or> \<not> ok then Inl ServiceAuthError else Inr candidate)"

text \<open>The iteration order over the frozen set of identities is that of the read table.\<close>

definition dev_default :: "error + credential_store" where
  "dev_default = make_credential_store (map (\<lambda>p. (fst p, dev_secret (fst p))) SERVICE_READ_BUCKETS)"

fun parse_credentials :: "string list \<Rightarrow> (string, string) dict \<Rightarrow> error + (string, string) dict" where
  "parse_credentials [] credentials = Inr credentials"
| "parse_credentials (entry # rest) credentials =
     (let item = py_strip entry in
      if item = [] then parse_credentials rest credentials
      else (case py_partition (CHR '':'') item of (service_id, sep, secret) \<Rightarrow>
        if \<not> sep then Inl ValidationError
        else parse_credentials rest (AList.update (py_strip service_id) (py_strip secret) credentials)))"

definition credentials_from_env :: "(string \<rightharpoonup> string) \<Rightarrow> error + credential_store" where
  "credentials_from_env env =
     (let raw = (case env ''ASSET_STORE_SERVICE_CREDENTIALS'' of None \<Rightarrow> [] | Some s \<Rightarrow> s) in
      if raw = [] \<or> py_strip raw = [] then
        (if py_lower (case env ''ASSET_STORE_DEV_MODE'' of None \<Rightarrow> [] | Some s \<Rightarrow> s)
              \<in> {''1'', ''true'', ''yes''}
         then dev_default else Inl ValidationError)
      else bind_result (parse_credentials (split_on (CHR '','') raw) []) make_credential_store)"

section \<open>Properties\<close>

lemma byte_inj: "a < 256 \<Longrightarrow> b < 256 \<Longrightarrow> (of_nat a :: 8 word) = of_nat b \<longleftrightarrow> a = b"
  by (simp add: word_of_nat_eq_iff take_bit_nat_eq_self)

lemma of_char_less: "(of_char c :: nat) < 256"
  by (rule of_char_mod_256 [of c, where 'a = nat, symmetric, THEN ssubst]) simp

lemma utf8_char_inj:
  assumes "utf8_char c @ xs = utf8_char d @ ys"
  shows "c = d \<and> xs = ys"
proof -
  let ?n = "of_char c :: nat" and ?m = "of_char d :: nat"
  have b: "?n < 256" "?m < 256" by (rule of_char_less)+
  then have d: "?n div 64 < 4" "?m div 64 < 4" by (simp_all add: less_mult_imp_div_less)
  have "?n = ?m \<and> xs = ys"
  proof (cases "?n < 128"; cases "?m < 128")
    assume "\<not> ?n < 128" "\<not> ?m < 128"
    with assms d have "?n div 64 = ?m div 64" "?n mod 64 = ?m mod 64" "xs = ys"
      using byte_inj [of "192 + ?n div 64" "192 + ?m div 64"] byte_inj [of "128 + ?n mod 64" "128 + ?m mod 64"]
      by (simp_all add: utf8_char_def Let_def)
    then show ?thesis by (metis div_mult_mod_eq)
  next
    assume "?n < 128" "\<not> ?m < 128"
    with assms b d show ?thesis using byte_inj [of ?n "192 + ?m div 64"] by (simp add: utf8_char_def Let_def)
  next
    assume "\<not> ?n < 128" "?m < 128"
    with assms b d show ?thesis using byte_inj [of "192 + ?n div 64" ?m] by (simp add: utf8_char_def Let_def)
  qed (use assms b in \<open>simp add: utf8_char_def Let_def byte_inj\<close>)
  then show ?thesis by simp
qed

lemma utf8_char_ne [simp]: "utf8_char c \<noteq> []"
  by (simp add: utf8_char_def Let_def)

lemma utf8_encode_inj: "utf8_encode s = utf8_encode t \<Longrightarrow> s = t"
proof (induction s arbitrary: t)
  case Nil
  then show ?case by (cases t) (simp_all add: utf8_encode_def)
next
  case (Cons c s)
  then obtain d t' where t: "t = d # t'" by (cases t) (simp_all add: utf8_encode_def)
  with Cons show ?case using utf8_char_inj [of c _ d] by (auto simp: utf8_encode_def)
qed

text \<open>
  Authentication succeeds exactly for the configured secret of the (trimmed) identity, and
  returns that identity.
\<close>

theorem authenticate_iff:
  "authenticate s service_id secret = Inr i \<longleftrightarrow> i = py_strip service_id \<and> map_of (cs_secrets s) i = Some secret"
  by (auto simp: authenticate_def Let_def split: option.splits dest: utf8_encode_inj)

lemma known_both: "KNOWN_SERVICE_IDS = set (map fst SERVICE_READ_BUCKETS)"
  by (simp add: KNOWN_SERVICE_IDS_def SERVICE_READ_BUCKETS_def SERVICE_WRITE_BUCKETS_def)

lemma write_implies_read:
  "assert_service_bucket_allowed sid b WRITE = Inr () \<Longrightarrow> assert_service_bucket_allowed sid b READ = Inr ()"
  by (auto simp: assert_service_bucket_allowed_def buckets_for_service_def SERVICE_READ_BUCKETS_def
      SERVICE_WRITE_BUCKETS_def Let_def bind_result_Inr split: option.splits if_splits)


definition plain :: "string \<Rightarrow> bool" where
  "plain s \<longleftrightarrow> s \<noteq> [] \<and> \<not> py_isspace (hd s) \<and> \<not> py_isspace (last s) \<and> CHR '','' \<notin> set s"

definition credential_text :: "string \<times> string \<Rightarrow> string" where
  "credential_text p = fst p @ CHR '':'' # snd p"

definition credentials_plain :: "(string, string) dict \<Rightarrow> bool" where
  "credentials_plain cs \<longleftrightarrow> cs \<noteq> [] \<and> dict_ok cs \<and>
     (\<forall>p\<in>set cs. plain (fst p) \<and> plain (snd p) \<and> CHR '':'' \<notin> set (fst p))"

lemma strip_by_ne: "s \<noteq> [] \<Longrightarrow> \<not> P (hd s) \<Longrightarrow> strip_by P s \<noteq> []"
  by (cases s) (auto simp: strip_by_def)

lemma join_with_hd: "w \<noteq> [] \<Longrightarrow> join_with c (w # ws) \<noteq> [] \<and> hd (join_with c (w # ws)) = hd w"
  by (cases ws) auto

lemma plain_strip: "plain s \<Longrightarrow> py_strip s = s"
  unfolding py_strip_def by (rule strip_by_fix) (simp add: plain_def)

lemma update_new: "k \<notin> set (map fst d) \<Longrightarrow> AList.update k v d = d @ [(k, v)]"
  by (induction d) auto

lemma credential_text_plain: "plain (fst p) \<Longrightarrow> plain (snd p) \<Longrightarrow> plain (credential_text p)"
  by (auto simp: plain_def credential_text_def)

lemma parse_credentials_text:
  assumes "\<And>p. p \<in> set cs \<Longrightarrow> plain (fst p) \<and> plain (snd p) \<and> CHR '':'' \<notin> set (fst p)"
    and "distinct (map fst (acc @ cs))"
  shows "parse_credentials (map credential_text cs) acc = Inr (acc @ cs)"
  using assms
proof (induction cs arbitrary: acc)
  case (Cons p cs)
  have p: "plain (fst p)" "plain (snd p)" "CHR '':'' \<notin> set (fst p)" using Cons.prems(1) [of p] by auto
  have strip: "py_strip (credential_text p) = credential_text p" "py_strip (fst p) = fst p" "py_strip (snd p) = snd p"
    using p by (simp_all add: plain_strip credential_text_plain)
  have part: "py_partition (CHR '':'') (credential_text p) = (fst p, True, snd p)"
    using p(3) by (simp add: py_partition_found credential_text_def)
  have ne: "credential_text p \<noteq> []" by (simp add: credential_text_def)
  have "fst p \<notin> set (map fst acc)" using Cons.prems(2) by auto
  with Cons show ?case by (simp add: strip part ne update_new)
qed simp

lemma clean_credentials_plain:
  assumes "\<And>p. p \<in> set cs \<Longrightarrow> plain (fst p) \<and> plain (snd p)" and "distinct (map fst (acc @ cs))"
  shows "clean_credentials cs acc = Inr (acc @ cs)"
  using assms
proof (induction cs arbitrary: acc)
  case (Cons p cs)
  have p: "plain (fst p)" "plain (snd p)" using Cons.prems(1) [of p] by auto
  have "fst p \<notin> set (map fst acc)" using Cons.prems(2) by auto
  with Cons p show ?case by (cases p) (simp add: plain_strip update_new plain_def)
qed simp

text \<open>
  C15: Credentials written as \<open>id:secret\<close> pairs separated by commas are read back as the same
  store (identities and secrets trimmed, without commas, identities without colons).
\<close>

theorem credentials_round_trip:
  assumes "credentials_plain cs" and "env ''ASSET_STORE_SERVICE_CREDENTIALS'' = Some (join_with (CHR '','') (map credential_text cs))"
  shows "credentials_from_env env = Inr \<lparr>cs_secrets = cs\<rparr>"
proof -
  let ?raw = "join_with (CHR '','') (map credential_text cs)"
  have cs: "cs \<noteq> []" "distinct (map fst cs)" using assms(1) by (auto simp: credentials_plain_def dict_ok_def)
  have p: "plain (fst p) \<and> plain (snd p) \<and> CHR '':'' \<notin> set (fst p)" if "p \<in> set cs" for p
    using assms(1) that by (auto simp: credentials_plain_def)
  have split: "split_on (CHR '','') ?raw = map credential_text cs"
    using cs(1) p by (intro split_join) (auto simp: credential_text_def plain_def)
  have parse: "parse_credentials (map credential_text cs) [] = Inr cs" "clean_credentials cs [] = Inr cs"
    using parse_credentials_text [OF p, of cs "[]"] clean_credentials_plain [of cs "[]"] p cs(2) by auto
  have "?raw \<noteq> [] \<and> \<not> py_isspace (hd ?raw)"
  proof (cases cs)
    case (Cons q rest)
    then have "plain (credential_text q)" using p [of q] by (simp add: credential_text_plain)
    then show ?thesis using Cons join_with_hd [of "credential_text q" _ "map credential_text rest"] by (simp add: plain_def)
  qed (use cs in simp)
  then have raw: "?raw \<noteq> [] \<and> py_strip ?raw \<noteq> []" by (simp add: py_strip_def strip_by_ne)
  then show ?thesis
    by (simp add: credentials_from_env_def assms(2) split parse make_credential_store_def cs(1))
qed

theorem credentials_round_trip_witness:
  "credentials_from_env [''ASSET_STORE_SERVICE_CREDENTIALS'' \<mapsto> ''a:b,c:d''] = Inr \<lparr>cs_secrets = [(''a'', ''b''), (''c'', ''d'')]\<rparr>"
  using credentials_round_trip [of "[(''a'', ''b''), (''c'', ''d'')]" "[''ASSET_STORE_SERVICE_CREDENTIALS'' \<mapsto> ''a:b,c:d'']"]
  by (simp add: credentials_plain_def plain_def credential_text_def dict_ok_def py_isspace_def py_whitespace_def)

end
