(* ===== verification/Object_Store.thy ===== *)
theory Object_Store
  imports Paths Py_Text
begin

text \<open>
  The object-store seam, \<^verbatim>\<open>asset_store_core/object_store.py\<close>: the backend protocol as a record of
  operations over a store of any type, its contract as a locale, and the in-memory backend, which
  satisfies it.
\<close>

section \<open>The protocol\<close>

definition CHECKSUM_ALGO :: string where
  "CHECKSUM_ALGO = ''sha256''"

definition compute_checksum :: "bytes \<Rightarrow> string" where
  "compute_checksum data = CHECKSUM_ALGO @ '':'' @ sha256_hex data"

record stored_object_stat =
  st_size_bytes :: int
  st_checksum :: string
  st_checksum_algo :: string

definition stat_of :: "bytes \<Rightarrow> stored_object_stat" where
  "stat_of payload = \<lparr>st_size_bytes = int (length payload), st_checksum = compute_checksum payload,
     st_checksum_algo = CHECKSUM_ALGO\<rparr>"

record 's backend =
  bk_put_object :: "object_store_location \<Rightarrow> bytes \<Rightarrow> ('s, stored_object_stat) op"
  bk_get_object :: "object_store_location \<Rightarrow> ('s, bytes) op"
  bk_stat_object :: "object_store_location \<Rightarrow> ('s, stored_object_stat option) op"
  bk_delete_object :: "object_store_location \<Rightarrow> ('s, unit) op"
  bk_presign_get_url :: "object_store_location \<Rightarrow> int \<Rightarrow> ('s, string) op"

definition object_key :: "object_store_location \<Rightarrow> string \<times> string" where
  "object_key location = (loc_bucket location, loc_key location)"

section \<open>The in-memory backend\<close>

record local_store =
  o_objects :: "(string \<times> string, bytes) dict"

definition new_local_store :: local_store where
  "new_local_store = \<lparr>o_objects = []\<rparr>"

definition local_put_object :: "object_store_location \<Rightarrow> bytes \<Rightarrow> (local_store, stored_object_stat) op" where
  "local_put_object location payload =
     seq_op (modify (\<lambda>s. s\<lparr>o_objects := AList.update (object_key location) payload (o_objects s)\<rparr>))
       (ret (stat_of payload))"

definition local_get_object :: "object_store_location \<Rightarrow> (local_store, bytes) op" where
  "local_get_object location =
     bind_op (gets o_objects) (\<lambda>objects.
     case map_of objects (object_key location) of None \<Rightarrow> raise ObjectNotFoundError | Some payload \<Rightarrow> ret payload)"

definition local_stat_object :: "object_store_location \<Rightarrow> (local_store, stored_object_stat option) op" where
  "local_stat_object location =
     gets (\<lambda>s. map_option stat_of (map_of (o_objects s) (object_key location)))"

definition local_delete_object :: "object_store_location \<Rightarrow> (local_store, unit) op" where
  "local_delete_object location =
     modify (\<lambda>s. s\<lparr>o_objects := AList.delete (object_key location) (o_objects s)\<rparr>)"

definition local_presign_get_url :: "object_store_location \<Rightarrow> int \<Rightarrow> (local_store, string) op" where
  "local_presign_get_url location expires_in = raise PresignNotSupportedError"

definition local_backend :: "local_store backend" where
  "local_backend = \<lparr>bk_put_object = local_put_object, bk_get_object = local_get_object,
     bk_stat_object = local_stat_object, bk_delete_object = local_delete_object,
     bk_presign_get_url = local_presign_get_url\<rparr>"

section \<open>The contract\<close>

text \<open>
  What the data plane relies on: a stored object is what was put, its size and checksum are
  computed by the store, reading returns it, deleting removes it and nothing else, and reading
  changes nothing. Nothing is promised of the object itself when a call raises, but other objects
  are left alone.
\<close>

locale object_store =
  fixes B :: "'s backend" and contents :: "'s \<Rightarrow> (string \<times> string) \<Rightarrow> bytes option"
  assumes put_stored:
    "wp (bk_put_object B l d) (\<lambda>st s'. st = stat_of d \<and> contents s' = (contents s)(object_key l \<mapsto> d))
       (\<lambda>_ s'. \<forall>k. k \<noteq> object_key l \<longrightarrow> contents s' k = contents s k) s"
    and get_stored: "wp (bk_get_object B l) (\<lambda>d s'. contents s (object_key l) = Some d \<and> contents s' = contents s)
       (\<lambda>_ s'. contents s' = contents s) s"
    and delete_gone: "wp (bk_delete_object B l) (\<lambda>_ s'. contents s' = (contents s)(object_key l := None))
       (\<lambda>_ s'. \<forall>k. k \<noteq> object_key l \<longrightarrow> contents s' k = contents s k) s"
    and presign_pure: "wp (bk_presign_get_url B l n) (\<lambda>_ s'. contents s' = contents s) (\<lambda>_ s'. contents s' = contents s) s"
begin

lemma get_after_put:
  "bk_put_object B l d s = (Inr st, s') \<Longrightarrow> bk_get_object B l s' = (Inr d', s'') \<Longrightarrow> d' = d"
  using wp_result [OF put_stored [of l d s]] wp_result [OF get_stored [of l s']] by fastforce

lemma get_after_delete: "bk_delete_object B l s = (Inr u, s') \<Longrightarrow> bk_get_object B l s' \<noteq> (Inr d, s'')"
  using wp_result [OF delete_gone [of l s]] wp_result [OF get_stored [of l s']] by fastforce

lemma other_objects:
  "object_key l' \<noteq> object_key l \<Longrightarrow>
     contents (snd (bk_put_object B l d s)) (object_key l') = contents s (object_key l')"
  by (rule wp_snd, rule wp_mono [OF put_stored]) (simp_all only: fun_upd_apply if_False simp_thms)

end

text \<open>A store whose size and checksum records can moreover be trusted, whoever wrote the objects.\<close>

locale stat_store = object_store +
  assumes stat_stored: "wp (bk_stat_object B l)
       (\<lambda>st s'. st = map_option stat_of (contents s (object_key l)) \<and> contents s' = contents s)
       (\<lambda>_ s'. contents s' = contents s) s"
begin

lemma stat_after_put:
  "bk_put_object B l d s = (Inr st, s') \<Longrightarrow> bk_stat_object B l s' = (Inr x, s'') \<Longrightarrow> x = Some st"
  using wp_result [OF put_stored [of l d s]] wp_result [OF stat_stored [of l s']] by fastforce

end

text \<open>A store whose failed deletions have removed the object or left it as it was.\<close>

locale deleting_store = object_store +
  assumes delete_failed: "wp (bk_delete_object B l) (\<lambda>_ _. True)
     (\<lambda>_ s'. contents s' (object_key l) \<in> {None, contents s (object_key l)}) s"

definition local_contents :: "local_store \<Rightarrow> (string \<times> string) \<Rightarrow> bytes option" where
  "local_contents s = map_of (o_objects s)"

interpretation local_objects: stat_store local_backend local_contents
  by unfold_locales
    (auto simp: local_backend_def local_contents_def local_put_object_def local_get_object_def
      local_stat_object_def local_delete_object_def local_presign_get_url_def wp_simps fun_eq_iff split: option.split)

text \<open>The in-memory backend moreover never refuses a write, a deletion or the reading of a stored object.\<close>

lemma local_put_eq:
  "local_put_object l d s = (Inr (stat_of d), s\<lparr>o_objects := AList.update (object_key l) d (o_objects s)\<rparr>)"
  by (simp add: local_put_object_def seq_op_def bind_op_def modify_def ret_def)

lemma local_get_eq:
  "local_get_object l s = (case local_contents s (object_key l) of None \<Rightarrow> Inl ObjectNotFoundError | Some d \<Rightarrow> Inr d, s)"
  by (simp add: local_get_object_def local_contents_def bind_op_def gets_def raise_def ret_def split: option.split)

lemma local_delete_eq:
  "local_delete_object l s = (Inr (), s\<lparr>o_objects := AList.delete (object_key l) (o_objects s)\<rparr>)"
  by (simp add: local_delete_object_def modify_def)

section \<open>Shared facts\<close>

lemma local_backend_ops [simp]:
  "bk_put_object local_backend = local_put_object" "bk_get_object local_backend = local_get_object"
  "bk_delete_object local_backend = local_delete_object" "bk_presign_get_url local_backend = local_presign_get_url"
  by (simp_all add: local_backend_def)

interpretation local_deletes: deleting_store local_backend local_contents
  by unfold_locales (simp add: wp_of_eq [where m = "local_delete_object l" for l, OF local_delete_eq])

lemma checksum_ne [simp]: "compute_checksum d \<noteq> []"
  by (simp add: compute_checksum_def CHECKSUM_ALGO_def)

lemma checksum_strip [simp]: "py_strip (compute_checksum d) = compute_checksum d"
  unfolding py_strip_def
proof (rule strip_by_fix)
  have "last (sha256_hex d) \<in> set ''0123456789abcdef''"
    using sha256_hex_chars [of d] last_in_set [OF sha256_hex_ne] by blast
  then have "\<not> py_isspace (last (sha256_hex d))" by (auto simp: py_isspace_def py_whitespace_def)
  then show "compute_checksum d = [] \<or> \<not> py_isspace (hd (compute_checksum d)) \<and> \<not> py_isspace (last (compute_checksum d))"
    by (simp add: compute_checksum_def CHECKSUM_ALGO_def py_isspace_def py_whitespace_def)
qed

end
