(* ===== verification/Guard.thy ===== *)
theory Guard
  imports Registry_Steps Services Object_Store
begin

text \<open>
  The storage guard, \<^verbatim>\<open>asset_store_core/guard.py\<close>: authorisation in front of registry and object
  store. Its state is the world it works on: registry, store (of any backend), ledger of consumed
  capabilities and the two counters it exports. The guard, the capabilities and the ledger read the
  process clock, which is the one of the registry.
\<close>

section \<open>State\<close>

record 's world =
  w_registry :: registry
  w_store :: 's
  w_ledger :: ledger
  w_cleanup_total :: "(string \<times> string) list"
  w_reservation_total :: "(string \<times> string) list"

definition on_registry :: "(registry, 'a) op \<Rightarrow> ('s world, 'a) op" where
  "on_registry = on_part w_registry (\<lambda>r w. w\<lparr>w_registry := r\<rparr>)"

definition on_objects :: "('s, 'a) op \<Rightarrow> ('s world, 'a) op" where
  "on_objects = on_part w_store (\<lambda>s w. w\<lparr>w_store := s\<rparr>)"

definition on_ledger :: "(ledger, 'a) op \<Rightarrow> ('s world, 'a) op" where
  "on_ledger = on_part w_ledger (\<lambda>l w. w\<lparr>w_ledger := l\<rparr>)"

definition clock_now :: "('s world, datetime) op" where
  "clock_now = on_registry utcnow"

text \<open>A labelled counter as the list of its increments.\<close>

definition count_cleanup :: "string \<Rightarrow> string \<Rightarrow> ('s world, unit) op" where
  "count_cleanup space outcome = modify (\<lambda>w. w\<lparr>w_cleanup_total := w_cleanup_total w @ [(space, outcome)]\<rparr>)"

definition count_reservation :: "string \<Rightarrow> string \<Rightarrow> ('s world, unit) op" where
  "count_reservation space outcome =
     modify (\<lambda>w. w\<lparr>w_reservation_total := w_reservation_total w @ [(space, outcome)]\<rparr>)"

section \<open>Aliases\<close>

record parsed_alias =
  p_space :: string
  p_relative :: string
  p_partition_id :: string
  p_alias_in_partition :: string
  p_qualified :: string

definition parse_alias :: "string \<Rightarrow> error + parsed_alias" where
  "parse_alias alias =
     (let cleaned = strip_char slash (py_strip alias) in
      case py_partition slash cleaned of (space_raw, sep, remainder) \<Rightarrow>
      if \<not> sep \<or> remainder = [] then Inl ValidationError
      else
        bind_result (normalize_space space_raw) (\<lambda>space.
        bind_result (normalize_relative_alias remainder) (\<lambda>relative.
        case py_partition slash relative of (partition_raw, psep, name) \<Rightarrow>
        if \<not> psep \<or> name = [] then Inl ValidationError
        else
          bind_result (normalize_partition_id partition_raw) (\<lambda>partition_id.
          bind_result (normalize_relative_alias name) (\<lambda>alias_in_partition.
          bind_result (qualified_alias space relative) (\<lambda>qualified.
          Inr \<lparr>p_space = space, p_relative = relative, p_partition_id = partition_id,
               p_alias_in_partition = alias_in_partition, p_qualified = qualified\<rparr>))))))"

section \<open>Reading\<close>

record guarded_read =
  gr_asset :: asset
  gr_location :: object_store_location

record presigned_read =
  pr_asset :: asset
  pr_url :: string
  pr_expires_in :: int
  pr_expires_at :: datetime

definition DEFAULT_PRESIGN_TTL_SECONDS :: int where
  "DEFAULT_PRESIGN_TTL_SECONDS = 300"

definition MAX_PRESIGN_TTL_SECONDS :: int where
  "MAX_PRESIGN_TTL_SECONDS = 3600"

definition prune_consumed_capabilities :: "('s world, unit) op" where
  "prune_consumed_capabilities = bind_op clock_now (\<lambda>now. on_ledger (prune_expired now))"

text \<open>The common prefix of every guarded operation: scope, single use, service allowlist.\<close>

definition authorize :: "capability \<Rightarrow> operation \<Rightarrow> string \<Rightarrow> ('s world, parsed_alias) op" where
  "authorize cap op alias =
     bind_op (of_result (parse_alias alias)) (\<lambda>parsed.
     bind_op clock_now (\<lambda>now.
     seq_op (of_result (require_capability cap op (p_qualified parsed) now)) (
     bind_op clock_now (\<lambda>now'.
     seq_op (on_ledger (assert_unused now' cap)) (
     seq_op (of_result (assert_service_bucket_allowed (c_caller_service_id cap) (p_space parsed) op)) (
     ret parsed))))))"

definition resolve_for_read :: "capability \<Rightarrow> string \<Rightarrow> ('s world, guarded_read) op" where
  "resolve_for_read cap alias =
     bind_op (authorize cap READ alias) (\<lambda>parsed.
     bind_op (on_registry (resolve_alias (p_space parsed) (p_relative parsed))) (\<lambda>asset.
     bind_op (of_result (location_for_asset (a_space asset) (a_partition_id asset) (a_asset_id asset))) (\<lambda>location.
     ret \<lparr>gr_asset = asset, gr_location = location\<rparr>)))"

definition read_bytes :: "'s backend \<Rightarrow> capability \<Rightarrow> string \<Rightarrow> ('s world, bytes) op" where
  "read_bytes B cap alias =
     bind_op (resolve_for_read cap alias) (\<lambda>guarded.
     bind_op (on_objects (bk_get_object B (gr_location guarded))) (\<lambda>data.
     seq_op (on_registry (record_read (a_asset_id (gr_asset guarded)))) (
     bind_op clock_now (\<lambda>now.
     seq_op (on_ledger (record_successful_use now cap)) (
     ret data)))))"

text \<open>\<open>int((t - now).total_seconds())\<close> truncates towards zero.\<close>

definition py_int_of_float :: "rat \<Rightarrow> int" where
  "py_int_of_float x = (if 0 \<le> x then \<lfloor>x\<rfloor> else \<lceil>x\<rceil>)"

definition presign_read :: "'s backend \<Rightarrow> capability \<Rightarrow> string \<Rightarrow> int \<Rightarrow> ('s world, presigned_read) op" where
  "presign_read B cap alias expires_in =
     seq_op (check (\<not> c_single_use cap) CapabilityDeniedError) (
     seq_op (check (0 < expires_in) ValidationError) (
     bind_op (resolve_for_read cap alias) (\<lambda>guarded.
     bind_op clock_now (\<lambda>now.
     (let remaining = py_int_of_float (total_seconds (c_expires_at cap - now)) in
     seq_op (check (0 < remaining) CapabilityDeniedError) (
     (let ttl = min (min expires_in MAX_PRESIGN_TTL_SECONDS) remaining in
     bind_op
       (case a_expires_at (gr_asset guarded) of
          None \<Rightarrow> ret ttl
        | Some deadline \<Rightarrow>
            bind_op clock_now (\<lambda>now'.
            (let ttl' = min ttl (py_int_of_float (total_seconds (deadline - now'))) in
            seq_op (check (0 < ttl') AssetExpiredError) (ret ttl')))) (\<lambda>ttl.
     bind_op (on_objects (bk_presign_get_url B (gr_location guarded) ttl)) (\<lambda>url.
     seq_op (on_registry (record_read (a_asset_id (gr_asset guarded)))) (
     bind_op clock_now (\<lambda>now''.
     bind_op (of_result (dt_add now'' (seconds ttl))) (\<lambda>expires_at.
     ret \<lparr>pr_asset = gr_asset guarded, pr_url = url, pr_expires_in = ttl, pr_expires_at = expires_at\<rparr>)))))))))))) "

section \<open>Writing\<close>

definition authorize_write :: "capability \<Rightarrow> string \<Rightarrow> ('s world, unit) op" where
  "authorize_write cap alias = seq_op (authorize cap WRITE alias) (ret ())"

definition cleanup_outcome :: "'s backend \<Rightarrow> string \<Rightarrow> object_store_location \<Rightarrow> ('s world, string) op" where
  "cleanup_outcome B asset_id location =
     bind_op (on_registry (asset_lock asset_id)) (\<lambda>current.
     if a_state current \<noteq> PENDING \<and> a_state current \<noteq> DELETED then ret ''preserved''
     else
       seq_op
         (if a_state current = PENDING then
            bind_op clock_now (\<lambda>now.
            on_registry (bind_op (lifecycle_update current DELETED now ''upload_failed'' False) (\<lambda>_. ret ())))
          else ret ()) (
       bind_op (on_registry (asset_lock asset_id)) (\<lambda>fenced.
       if a_payload_deleted_at fenced \<noteq> None then ret ''reclaimed''
       else if a_state fenced \<noteq> DELETED then ret ''preserved''
       else
         seq_op (on_objects (bk_delete_object B location)) (
         bind_op clock_now (\<lambda>now.
         seq_op (on_registry (lifecycle_update fenced DELETED now ''upload_failed'' True)) (
         ret ''reclaimed''))))))"

definition cleanup_failed_upload :: "'s backend \<Rightarrow> string \<Rightarrow> object_store_location \<Rightarrow> ('s world, unit) op" where
  "cleanup_failed_upload B asset_id location =
     bind_op (try_op (cleanup_outcome B asset_id location) (\<lambda>_. ret ''deferred'')) (\<lambda>outcome.
     count_cleanup (loc_bucket location) outcome)"

definition write_object ::
  "'s backend \<Rightarrow> capability \<Rightarrow> string \<Rightarrow> bytes \<Rightarrow> bool \<Rightarrow> string option \<Rightarrow> string option \<Rightarrow> int option \<Rightarrow>
   ('s world, asset) op" where
  "write_object B cap alias data mutable mime expected_checksum ttl_seconds =
     bind_op (authorize cap WRITE alias) (\<lambda>parsed.
     bind_op
       (try_op
         (on_registry (reserve_asset (p_space parsed) (p_partition_id parsed)
            (AliasMapping [(p_alias_in_partition parsed, mutable)]) (c_caller_service_id cap) mime None
            INHERIT ttl_seconds (Some (int (length data)))))
         (\<lambda>e. seq_op (count_reservation (p_space parsed) ''denied'') (raise e))) (\<lambda>pending.
     seq_op (count_reservation (p_space parsed) ''granted'') (
     bind_op (of_result (location_for_asset (a_space pending) (a_partition_id pending) (a_asset_id pending)))
       (\<lambda>location.
     bind_op
       (try_op
         (bind_op (on_registry (asset_lock (a_asset_id pending))) (\<lambda>locked.
          seq_op (check (a_state locked = PENDING) ValidationError) (
          bind_op (on_objects (bk_put_object B location data)) (\<lambda>stat.
          on_registry (commit_asset (a_asset_id pending) (st_size_bytes stat) (st_checksum stat)
            (c_caller_service_id cap) mime expected_checksum)))))
         (\<lambda>e. seq_op (cleanup_failed_upload B (a_asset_id pending) location) (raise e))) (\<lambda>asset.
     bind_op clock_now (\<lambda>now.
     seq_op (on_ledger (record_successful_use now cap)) (
     ret asset)))))))"

section \<open>Weakest preconditions of the guard's parts\<close>

lemma wp_on_registry [wp_simps]:
  "wp (on_registry m) Q E w = wp m (\<lambda>a r. Q a (w\<lparr>w_registry := r\<rparr>)) (\<lambda>e r. E e (w\<lparr>w_registry := r\<rparr>)) (w_registry w)"
  by (simp add: on_registry_def wp_on_part)

lemma wp_on_objects [wp_simps]:
  "wp (on_objects m) Q E w = wp m (\<lambda>a s. Q a (w\<lparr>w_store := s\<rparr>)) (\<lambda>e s. E e (w\<lparr>w_store := s\<rparr>)) (w_store w)"
  by (simp add: on_objects_def wp_on_part)

lemma wp_on_ledger [wp_simps]:
  "wp (on_ledger m) Q E w = wp m (\<lambda>a s. Q a (w\<lparr>w_ledger := s\<rparr>)) (\<lambda>e s. E e (w\<lparr>w_ledger := s\<rparr>)) (w_ledger w)"
  by (simp add: on_ledger_def wp_on_part)

definition tick :: "'s world \<Rightarrow> 's world" where
  "tick w = w\<lparr>w_registry := (w_registry w)\<lparr>r_ticks := Suc (r_ticks (w_registry w))\<rparr>\<rparr>"

definition now_in :: "'s world \<Rightarrow> datetime" where
  "now_in w = r_clock (w_registry w) (r_ticks (w_registry w))"

lemma wp_clock_now [wp_simps]: "wp clock_now Q E w = Q (now_in w) (tick w)"
  by (simp add: clock_now_def wp_simps tick_def now_in_def)

lemma wp_counts [wp_simps]:
  "wp (count_cleanup x y) Q E w = Q () (w\<lparr>w_cleanup_total := w_cleanup_total w @ [(x, y)]\<rparr>)"
  "wp (count_reservation x y) Q E w = Q () (w\<lparr>w_reservation_total := w_reservation_total w @ [(x, y)]\<rparr>)"
  by (simp_all add: count_cleanup_def count_reservation_def wp_simps)

lemma wp_prune_expired [wp_simps]:
  "wp (prune_expired t) Q E l = Q () (l\<lparr>l_consumed := ledger_prune_locked t (l_consumed l)\<rparr>)"
  by (simp add: prune_expired_def wp_simps)

lemma wp_assert_unused [wp_simps]:
  "wp (assert_unused t cap) Q E l =
     (let l' = l\<lparr>l_consumed := ledger_prune_locked t (l_consumed l)\<rparr> in
      if c_single_use cap \<and> map_of (l_consumed l') (c_capability_id cap) \<noteq> None
      then E CapabilityAlreadyConsumedError l' else Q () l')"
  by (simp add: assert_unused_def wp_simps Let_def)

end
