(* ===== verification/Registry_Example.thy ===== *)
theory Registry_Example
  imports Registry_Steps
begin

text \<open>
  A concrete registry, evaluated step by step: a partition quota is set, an asset with one
  immutable and one mutable name is reserved and committed. It shows that the hypotheses of the
  registry's theorems can hold.
\<close>

definition demo_uuids :: "nat \<Rightarrow> string" where
  "demo_uuids n = replicate (Suc n) (CHR ''u'')"

definition demo_env :: environ where
  "demo_env = \<lparr>env_results_max_ttl = Some 2592000, env_capacity = Some (JObject []),
     env_hard_ratio = FloatValue (9 / 10)\<rparr>"

definition demo_new :: registry where
  "demo_new = \<lparr>r_assets = [], r_aliases = [], r_audit_events = [], r_tombstones = [],
     r_partition_quotas = [], r_bucket_quotas = [], r_alias_grace = 1000,
     r_env = demo_env, r_clock = (\<lambda>n. int n), r_ticks = 0, r_uuids = demo_uuids, r_next_uuid = 0\<rparr>"

definition demo_quota :: "int \<Rightarrow> int \<Rightarrow> partition_quota" where
  "demo_quota used n = \<lparr>pq_space = ''cache'', pq_partition_id = ''p'', pq_quota_bytes = Some 1000,
     pq_quota_asset_count = None, pq_used_bytes = used, pq_used_asset_count = n,
     pq_eviction_sweep_enabled = True\<rparr>"

definition demo_pending :: asset where
  "demo_pending = \<lparr>a_asset_id = ''u'', a_space = ''cache'', a_partition_id = ''p'',
     a_storage_key = ''p/assets/u'', a_state = PENDING, a_aliases = {''cache/p/x'', ''cache/p/y''},
     a_mime = None, a_size_bytes = None, a_reserved_bytes = Some 400, a_checksum_algo = ''sha256'',
     a_checksum = None, a_annotations = fmempty, a_created_at = 1, a_updated_at = 1,
     a_expires_at = Some 3600000001, a_expired_at = None, a_last_read_at = None, a_read_count = 0,
     a_payload_deleted_at = None, a_owner_service_id = ''s'', a_eviction_policy = INHERIT\<rparr>"

definition demo_binding :: "string \<Rightarrow> bool \<Rightarrow> alias_binding" where
  "demo_binding al mut = \<lparr>b_space = ''cache'', b_alias = al, b_asset_id = Some ''u'', b_mutable = mut,
     b_previous_asset_id = None, b_created_at = 1, b_updated_at = 1, b_created_by_service_id = ''s''\<rparr>"

definition demo_available :: asset where
  "demo_available = demo_pending\<lparr>a_state := AVAILABLE, a_size_bytes := Some 400, a_reserved_bytes := None,
     a_checksum := Some ''c'', a_updated_at := 5\<rparr>"

definition demo_events :: "audit_event list" where
  "demo_events =
    [\<lparr>e_action = ''admin.quota_set'', e_target = ''cache/p'', e_caller_service_id = ''o'', e_outcome = ''success'',
      e_before = [''quota_bytes'' \<mapsto> opt_str int_str None, ''quota_asset_count'' \<mapsto> opt_str int_str None,
                  ''eviction_sweep_enabled'' \<mapsto> bool_str True],
      e_after = [''quota_bytes'' \<mapsto> opt_str int_str (Some 1000), ''quota_asset_count'' \<mapsto> opt_str int_str None,
                 ''eviction_sweep_enabled'' \<mapsto> bool_str True], e_ts = 0\<rparr>,
     \<lparr>e_action = ''alias.create'', e_target = ''cache/p/x'', e_caller_service_id = ''s'', e_outcome = ''success'',
      e_before = Map.empty, e_after = [''asset_id'' \<mapsto> ''u'', ''mutable'' \<mapsto> bool_str_lower False], e_ts = 2\<rparr>,
     \<lparr>e_action = ''alias.create'', e_target = ''cache/p/y'', e_caller_service_id = ''s'', e_outcome = ''success'',
      e_before = Map.empty, e_after = [''asset_id'' \<mapsto> ''u'', ''mutable'' \<mapsto> bool_str_lower True], e_ts = 3\<rparr>,
     \<lparr>e_action = ''asset.upload_reserve'', e_target = ''u'', e_caller_service_id = ''s'', e_outcome = ''success'',
      e_before = Map.empty, e_after = [''reserved_bytes'' \<mapsto> int_str 400], e_ts = 4\<rparr>,
     \<lparr>e_action = ''asset.commit'', e_target = ''u'', e_caller_service_id = ''s'', e_outcome = ''success'',
      e_before = [''state'' \<mapsto> state_value PENDING], e_after = [''state'' \<mapsto> state_value AVAILABLE], e_ts = 6\<rparr>]"

definition demo_limited :: registry where
  "demo_limited = demo_new\<lparr>r_partition_quotas := [((''cache'', ''p''), demo_quota 0 0)],
     r_audit_events := take 1 demo_events, r_ticks := 1\<rparr>"

definition demo_reserved :: registry where
  "demo_reserved = demo_limited\<lparr>r_assets := [(''u'', demo_pending)],
     r_aliases := [(''cache/p/x'', demo_binding ''p/x'' False), (''cache/p/y'', demo_binding ''p/y'' True)],
     r_audit_events := take 4 demo_events, r_ticks := 5, r_next_uuid := 1\<rparr>"

definition demo_committed :: registry where
  "demo_committed = demo_reserved\<lparr>r_assets := [(''u'', demo_available)],
     r_partition_quotas := [((''cache'', ''p''), demo_quota 400 1)],
     r_bucket_quotas := [(''cache'', (default_bucket_quota ''cache'')\<lparr>bq_used_bytes := 400\<rparr>)],
     r_audit_events := demo_events, r_ticks := 7\<rparr>"

lemma demo_uuids_ok: "uuid_source_ok demo_uuids"
proof -
  have "inj demo_uuids" by (rule injI) (metis demo_uuids_def length_replicate nat.inject)
  moreover have "py_strip (demo_uuids n) \<noteq> []" for n
    by (simp add: demo_uuids_def py_strip_def) (subst strip_by_fix; simp add: py_isspace_def py_whitespace_def last_replicate)
  ultimately show ?thesis by (simp add: uuid_source_ok_def)
qed

lemma demo_names [simp]:
  "normalize_space ''cache'' = Inr ''cache''" "normalize_partition_id ''p'' = Inr ''p''"
  "normalize_alias_specs (AliasMapping [(''x'', False), (''y'', True)]) = Inr [(''x'', False), (''y'', True)]"
  "alias_under_partition ''p'' ''x'' = Inr ''p/x''" "alias_under_partition ''p'' ''y'' = Inr ''p/y''"
  "normalize_relative_alias ''p/x'' = Inr ''p/x''" "normalize_relative_alias ''p/y'' = Inr ''p/y''"
  "qualified_alias ''cache'' ''p/x'' = Inr ''cache/p/x''" "qualified_alias ''cache'' ''p/y'' = Inr ''cache/p/y''"
  "build_storage_key ''p'' ''u'' = Inr ''p/assets/u''" "partition_from_scoped_alias ''p/y'' = Inr ''p''"
  "py_strip ''c'' = ''c''"
  by code_simp+

lemma demo_limit [simp]: "py_int_fmul 1000 PARTITION_HARD_RATIO = 1050"
  by code_simp

lemma demo_expiry [simp]: "expiry_for demo_env ''cache'' (Some 3600) 1 = Inr (Some 3600000001)"
  by (simp add: expiry_for_def dt_add_def seconds_def datetime_max_def datetime_min_def)

lemma demo_capacity [simp]: "capacity_limits demo_env = Inr []"
  by (simp add: capacity_limits_def demo_env_def)

lemmas demo_defs = demo_new_def demo_limited_def demo_reserved_def demo_committed_def demo_pending_def
  demo_available_def demo_quota_def demo_binding_def demo_events_def
lemmas demo_eval = wp_simps quota_at_def bucket_at_def default_bucket_quota_def
  default_partition_quota_def dict_values_def Let_def
  SWEEP_DEFAULT_SPACES_def

lemma demo_set_quota:
  "set_partition_quota ''cache'' ''p'' (Some 1000) None None ''o'' demo_new = (Inr (demo_quota 0 0), demo_limited)"
  by (rule wp_eqI) (simp add: demo_eval demo_defs set_partition_quota_def cong: wp_lazy)

lemma demo_reserve:
  "reserve_asset ''cache'' ''p'' (AliasMapping [(''x'', False), (''y'', True)]) ''s'' None None INHERIT (Some 3600)
     (Some 400) demo_limited = (Inr demo_pending, demo_reserved)"
  by (rule wp_eqI)
    (simp add: demo_eval demo_defs reserve_asset_def require_alias_name_available_def alias_name_is_blocked_def
      enforce_quota_def pending_uploads_def reserved_sum_def demo_uuids_def scoped_key_def
      bind_reserved_alias_def binding_qualified_alias_def cong: wp_lazy)

lemma demo_commit:
  "commit_asset ''u'' 400 ''c'' ''s'' None None demo_reserved = (Inr demo_available, demo_committed)"
  by (rule wp_eqI)
    (simp add: demo_eval demo_defs commit_asset_def enforce_quota_def pending_uploads_def reserved_sum_def
      acquire_quota_def str_or_def cong: wp_lazy)

lemma reachable_exec: "reachable r \<Longrightarrow> exec_call c r = (x, t) \<Longrightarrow> reachable t"
  using reachable.call [of r c] by simp

lemma void_eq: "m r = (Inr x, t) \<Longrightarrow> void m r = (Inr (), t)"
  by (simp add: void_def seq_op_def bind_op_def ret_def)

lemma demo_reachable_new: "reachable demo_new"
  by (rule reachable.new [where g = "Some 1000" and env = demo_env and clock = "\<lambda>n. int n", OF _ demo_uuids_ok])
    (simp add: init_registry_def demo_new_def)

lemma demo_reachable_limited: "reachable demo_limited"
  by (rule reachable_exec [OF demo_reachable_new, of "SetPartitionQuota ''cache'' ''p'' (Some 1000) None None ''o''"])
    (simp add: void_eq [where m = "set_partition_quota ''cache'' ''p'' (Some 1000) None None ''o''", OF demo_set_quota])

lemma demo_reachable_reserved: "reachable demo_reserved"
  using demo_reachable_limited void_eq [where m = "reserve_asset ''cache'' ''p'' (AliasMapping [(''x'', False), (''y'', True)]) ''s''
     None None INHERIT (Some 3600) (Some 400)", OF demo_reserve]
  by (metis exec_call.simps(1) reachable_exec)

lemma demo_reachable: "reachable demo_committed"
  using demo_reachable_reserved void_eq [where m = "commit_asset ''u'' 400 ''c'' ''s'' None None", OF demo_commit]
  by (metis exec_call.simps(3) reachable_exec)

end
