(* ===== verification/Guard_Example.thy ===== *)
theory Guard_Example
  imports Guard Registry_Example
begin

text \<open>
  A concrete guard: two bytes are uploaded under a name, once with a capability for the partition
  and once with a capability for a deeper prefix that repeats the partition. Both runs end in the
  same world. Last, an upload that fails on a store which cannot delete.
\<close>

definition demo_world :: "local_store world" where
  "demo_world = \<lparr>w_registry = demo_new, w_store = new_local_store, w_ledger = new_ledger, w_cleanup_total = [],
     w_reservation_total = []\<rparr>"

definition demo_capability :: "operation \<Rightarrow> string \<Rightarrow> capability" where
  "demo_capability op scope = \<lparr>c_capability_id = ''k'', c_operation = op, c_scope_prefix = scope,
     c_expires_at = 10000000, c_caller_service_id = ''admin'', c_single_use = False\<rparr>"

definition demo_alias :: "string \<Rightarrow> string \<Rightarrow> parsed_alias" where
  "demo_alias rel name = \<lparr>p_space = ''cache'', p_relative = rel, p_partition_id = ''p'', p_alias_in_partition = name,
     p_qualified = ''cache/'' @ rel\<rparr>"

definition demo_upload :: asset where
  "demo_upload = \<lparr>a_asset_id = ''u'', a_space = ''cache'', a_partition_id = ''p'',
     a_storage_key = ''p/assets/u'', a_state = PENDING, a_aliases = {''cache/p/x''},
     a_mime = None, a_size_bytes = None, a_reserved_bytes = Some 2, a_checksum_algo = ''sha256'',
     a_checksum = None, a_annotations = fmempty, a_created_at = 2, a_updated_at = 2,
     a_expires_at = None, a_expired_at = None, a_last_read_at = None, a_read_count = 0,
     a_payload_deleted_at = None, a_owner_service_id = ''admin'', a_eviction_policy = INHERIT\<rparr>"

definition demo_uploaded :: asset where
  "demo_uploaded = demo_upload\<lparr>a_state := AVAILABLE, a_size_bytes := Some 2, a_reserved_bytes := None,
     a_checksum := Some (compute_checksum [1, 2]), a_updated_at := 5\<rparr>"

definition demo_upload_events :: "audit_event list" where
  "demo_upload_events =
    [\<lparr>e_action = ''alias.create'', e_target = ''cache/p/x'', e_caller_service_id = ''admin'', e_outcome = ''success'',
      e_before = Map.empty, e_after = [''asset_id'' \<mapsto> ''u'', ''mutable'' \<mapsto> bool_str_lower False], e_ts = 3\<rparr>,
     \<lparr>e_action = ''asset.upload_reserve'', e_target = ''u'', e_caller_service_id = ''admin'', e_outcome = ''success'',
      e_before = Map.empty, e_after = [''reserved_bytes'' \<mapsto> int_str 2], e_ts = 4\<rparr>,
     \<lparr>e_action = ''asset.commit'', e_target = ''u'', e_caller_service_id = ''admin'', e_outcome = ''success'',
      e_before = [''state'' \<mapsto> state_value PENDING], e_after = [''state'' \<mapsto> state_value AVAILABLE], e_ts = 6\<rparr>]"

definition demo_upload_binding :: alias_binding where
  "demo_upload_binding = \<lparr>b_space = ''cache'', b_alias = ''p/x'', b_asset_id = Some ''u'', b_mutable = False,
     b_previous_asset_id = None, b_created_at = 2, b_updated_at = 2, b_created_by_service_id = ''admin''\<rparr>"

definition demo_granted :: registry where
  "demo_granted = demo_new\<lparr>r_assets := [(''u'', demo_upload)],
     r_aliases := [(''cache/p/x'', demo_upload_binding)],
     r_audit_events := take 2 demo_upload_events, r_ticks := 5, r_next_uuid := 1\<rparr>"

definition demo_stored :: registry where
  "demo_stored = demo_granted\<lparr>r_assets := [(''u'', demo_uploaded)],
     r_partition_quotas := [((''cache'', ''p''), (default_partition_quota ''cache'' ''p'')\<lparr>pq_used_bytes := 2, pq_used_asset_count := 1\<rparr>)],
     r_bucket_quotas := [(''cache'', (default_bucket_quota ''cache'')\<lparr>bq_used_bytes := 2\<rparr>)],
     r_audit_events := demo_upload_events, r_ticks := 7\<rparr>"

definition demo_written :: "local_store world" where
  "demo_written = demo_world\<lparr>w_registry := demo_stored\<lparr>r_ticks := 8\<rparr>,
     w_store := \<lparr>o_objects = [((''cache'', ''p/assets/u''), [1, 2])]\<rparr>, w_reservation_total := [(''cache'', ''granted'')]\<rparr>"

lemma demo_parse:
  "parse_alias ''cache/p/x'' = Inr (demo_alias ''p/x'' ''x'')"
  "parse_alias ''cache/p/p/x'' = Inr (demo_alias ''p/p/x'' ''p/x'')"
  by code_simp+

lemma demo_covered:
  "is_same_path_or_child ''cache/p/x'' ''cache/p''" "is_same_path_or_child ''cache/p/p/x'' ''cache/p/p''"
  "\<not> is_same_path_or_child ''cache/p/x'' ''cache/p/p''"
  "assert_service_bucket_allowed ''admin'' ''cache'' WRITE = Inr ()"
  "assert_service_bucket_allowed ''admin'' ''cache'' READ = Inr ()"
  by code_simp+

lemma demo_specs [simp]:
  "normalize_alias_specs (AliasMapping [(''x'', b)]) = Inr [(''x'', b)]"
  "normalize_alias_specs (AliasMapping [(''p/x'', b)]) = Inr [(''p/x'', b)]"
  "alias_under_partition ''p'' ''p/x'' = Inr ''p/x''"
  "location_for_asset ''cache'' ''p'' ''u'' = Inr \<lparr>loc_bucket = ''cache'', loc_key = ''p/assets/u''\<rparr>"
  by (simp_all add: normalize_alias_specs_def) code_simp+

lemma demo_no_expiry [simp]: "expiry_for demo_env ''cache'' None t = Inr None"
  by (simp add: expiry_for_def)

lemmas upload_defs = demo_new_def demo_granted_def demo_stored_def demo_upload_def demo_uploaded_def
  demo_upload_events_def demo_upload_binding_def

lemma demo_upload_reserve:
  assumes "name = ''x'' \<or> name = ''p/x''"
  shows "reserve_asset ''cache'' ''p'' (AliasMapping [(name, False)]) ''admin'' None None INHERIT None (Some 2)
     (demo_new\<lparr>r_ticks := 2\<rparr>) = (Inr demo_upload, demo_granted)"
  using assms by (elim disjE; hypsubst; rule_tac wp_eqI)
    (simp_all add: demo_eval upload_defs reserve_asset_def require_alias_name_available_def alias_name_is_blocked_def
      enforce_quota_def pending_uploads_def reserved_sum_def demo_uuids_def scoped_key_def
      bind_reserved_alias_def binding_qualified_alias_def cong: wp_lazy)

lemma demo_upload_commit:
  "commit_asset ''u'' 2 (compute_checksum [1, 2]) ''admin'' None None demo_granted = (Inr demo_uploaded, demo_stored)"
  by (rule wp_eqI)
    (simp add: demo_eval upload_defs commit_asset_def enforce_quota_def pending_uploads_def reserved_sum_def
      acquire_quota_def str_or_def cong: wp_lazy)

lemma demo_canonical: "canonical ''p''" "canonical ''x''" "canonical ''p/x''"
  by code_simp+

lemma demo_allows [simp]:
  "allows (demo_capability op scope) op' q t \<longleftrightarrow> op' = op \<and> t < 10000000 \<and> is_same_path_or_child q scope"
  by (simp add: allows_def demo_capability_def)

lemma demo_capability_simps [simp]:
  "c_caller_service_id (demo_capability op scope) = ''admin''" "\<not> c_single_use (demo_capability op scope)"
  "c_expires_at (demo_capability op scope) = 10000000"
  by (simp_all add: demo_capability_def)

lemma demo_alias_simps [simp]:
  "p_space (demo_alias rel name) = ''cache''" "p_relative (demo_alias rel name) = rel"
  "p_partition_id (demo_alias rel name) = ''p''" "p_alias_in_partition (demo_alias rel name) = name"
  "p_qualified (demo_alias rel name) = ''cache/'' @ rel"
  by (simp_all add: demo_alias_def)

lemma demo_prune [simp]: "ledger_prune_locked t [] = []"
  by (simp add: ledger_prune_locked_def)

lemma demo_authorize:
  assumes "parse_alias alias = Inr (demo_alias rel name)" and "is_same_path_or_child (''cache/'' @ rel) scope"
    and "w_ledger w = new_ledger" and "now_in w < 10000000"
  shows "authorize (demo_capability op scope) op alias w = (Inr (demo_alias rel name), tick (tick w))"
proof (rule wp_eqI)
  have "assert_service_bucket_allowed ''admin'' ''cache'' op = Inr ()" by (cases op) (simp_all add: demo_covered)
  moreover have "(tick (tick w))\<lparr>w_ledger := new_ledger\<rparr> = tick (tick w)" using assms(3) by (simp add: tick_def)
  ultimately show "wp (authorize (demo_capability op scope) op alias)
      (\<lambda>a t. a = demo_alias rel name \<and> t = tick (tick w)) (\<lambda>_ _. False) w"
    using assms
    by (simp add: authorize_def wp_simps require_capability_def guard_result_def Let_def tick_def new_ledger_def cong: wp_lazy)
qed


lemma demo_write:
  assumes "alias = ''cache/p/x'' \<and> scope = ''cache/p'' \<or> alias = ''cache/p/p/x'' \<and> scope = ''cache/p/p''"
  shows "write_object local_backend (demo_capability WRITE scope) alias [1, 2] False None None None demo_world =
     (Inr demo_uploaded, demo_written)"
proof -
  obtain rel name where p: "parse_alias alias = Inr (demo_alias rel name)" "is_same_path_or_child (''cache/'' @ rel) scope"
    and name: "name = ''x'' \<or> name = ''p/x''"
    using assms demo_parse demo_covered by auto
  have t: "tick (tick demo_world) = demo_world\<lparr>w_registry := demo_new\<lparr>r_ticks := 2\<rparr>\<rparr>"
    by (simp add: tick_def demo_world_def demo_new_def)
  have a: "authorize (demo_capability WRITE scope) WRITE alias demo_world =
     (Inr (demo_alias rel name), demo_world\<lparr>w_registry := demo_new\<lparr>r_ticks := 2\<rparr>\<rparr>)"
    using demo_authorize [OF p, of demo_world WRITE] unfolding t by (simp add: demo_world_def now_in_def demo_new_def)
  note run = wp_of_eq [where m = "authorize (demo_capability WRITE scope) WRITE alias", OF a]
    wp_of_eq [where m = "reserve_asset ''cache'' ''p'' (AliasMapping [(name, False)]) ''admin'' None None INHERIT None (Some 2)",
      OF demo_upload_reserve [OF name]]
    wp_of_eq [where m = "commit_asset ''u'' 2 (compute_checksum [1, 2]) ''admin'' None None", OF demo_upload_commit]
    wp_of_eq [where m = "local_put_object l d" for l d, OF local_put_eq]
  have g: "map_of (r_assets demo_granted) ''u'' = Some demo_upload" by (simp add: demo_granted_def)
  have u: "a_asset_id demo_upload = ''u''" "a_space demo_upload = ''cache''" "a_partition_id demo_upload = ''p''"
    "a_state demo_upload = PENDING" by (simp_all add: demo_upload_def)
  have w: "w_store demo_world = new_local_store" "w_ledger demo_world = new_ledger" "w_reservation_total demo_world = []"
    by (simp_all add: demo_world_def)
  show ?thesis
    by (rule wp_eqI)
      (simp add: write_object_def wp_bind wp_seq wp_try wp_counts wp_of_result wp_on_registry run wp_on_objects wp_check
        asset_lock_def wp_get_asset g u w stat_of_def wp_clock_now wp_on_ledger record_successful_use_def wp_prune_expired wp_ret
        demo_written_def tick_def object_key_def new_local_store_def new_ledger_def demo_stored_def cong: wp_lazy)
qed

lemma demo_uploaded_simps [simp]:
  "a_asset_id demo_uploaded = ''u''" "a_space demo_uploaded = ''cache''" "a_partition_id demo_uploaded = ''p''"
  "a_expires_at demo_uploaded = None" "a_state demo_uploaded = AVAILABLE" "a_aliases demo_uploaded = {''cache/p/x''}"
  by (simp_all add: demo_upload_def demo_uploaded_def)

lemma demo_written_simps [simp]:
  "w_registry demo_written = demo_stored\<lparr>r_ticks := 8\<rparr>" "w_ledger demo_written = new_ledger" "now_in demo_written = 8"
  "w_store demo_written = \<lparr>o_objects = [((''cache'', ''p/assets/u''), [1, 2])]\<rparr>"
  "r_clock demo_stored n = int n" "map_of (r_assets demo_stored) ''u'' = Some demo_uploaded"
  by (simp_all add: demo_written_def demo_world_def now_in_def demo_stored_def demo_granted_def demo_new_def)

lemma demo_world_simps [simp]:
  "w_registry demo_world = demo_new" "w_ledger demo_world = new_ledger" "now_in demo_world = 0"
  "r_clock demo_new n = int n" "r_aliases demo_new = []"
  by (simp_all add: demo_world_def now_in_def demo_new_def)

lemma demo_resolve: "resolve_alias ''cache'' ''p/x'' (demo_stored\<lparr>r_ticks := n\<rparr>) = (Inr demo_uploaded, demo_stored\<lparr>r_ticks := Suc n\<rparr>)"
  by (rule wp_eqI) (simp add: demo_eval upload_defs resolve_alias_def get_binding_def require_live_def is_resolvable_def cong: wp_lazy)

lemma demo_unresolved: "fst (resolve_alias ''cache'' ''p/p/x'' (demo_stored\<lparr>r_ticks := n\<rparr>)) = Inl AliasNotFoundError"
proof -
  have "normalize_relative_alias ''p/p/x'' = Inr ''p/p/x''" "qualified_alias ''cache'' ''p/p/x'' = Inr ''cache/p/p/x''"
    by code_simp+
  then have "resolve_alias ''cache'' ''p/p/x'' (demo_stored\<lparr>r_ticks := n\<rparr>) = (Inl AliasNotFoundError, demo_stored\<lparr>r_ticks := n\<rparr>)"
    by (intro wp_raiseI) (simp add: demo_eval upload_defs resolve_alias_def get_binding_def require_live_def is_resolvable_def cong: wp_lazy)
  then show ?thesis by simp
qed

text \<open>The in-memory store signs no links; a store that does.\<close>

definition signing_backend :: "local_store backend" where
  "signing_backend = local_backend\<lparr>bk_presign_get_url := (\<lambda>l n. ret (''https://objects/'' @ loc_key l))\<rparr>"

lemma demo_presign:
  "fst (presign_read signing_backend (demo_capability READ ''cache/p'') ''cache/p/x'' 600 demo_written) =
     Inr \<lparr>pr_asset = demo_uploaded, pr_url = ''https://objects/p/assets/u'', pr_expires_in = 9, pr_expires_at = 9000013\<rparr>"
proof -
  have t: "tick (tick demo_written) = demo_written\<lparr>w_registry := demo_stored\<lparr>r_ticks := 10\<rparr>\<rparr>"
    by (simp add: tick_def demo_written_def demo_stored_def)
  have a: "authorize (demo_capability READ ''cache/p'') READ ''cache/p/x'' demo_written =
     (Inr (demo_alias ''p/x'' ''x''), demo_written\<lparr>w_registry := demo_stored\<lparr>r_ticks := 10\<rparr>\<rparr>)"
    using demo_authorize [OF demo_parse(1), of "''cache/p''" demo_written READ] demo_covered(1) unfolding t by simp
  note run = wp_of_eq [where m = "authorize (demo_capability READ ''cache/p'') READ ''cache/p/x''", OF a]
    wp_of_eq [where m = "resolve_alias ''cache'' ''p/x''", OF demo_resolve]
  have c: "py_int_of_float (total_seconds 9999989) = 9" by code_simp
  have d: "dt_add 13 (seconds 9) = Inr 9000013" by code_simp
  have "wp (presign_read signing_backend (demo_capability READ ''cache/p'') ''cache/p/x'' 600)
     (\<lambda>x _. x = \<lparr>pr_asset = demo_uploaded, pr_url = ''https://objects/p/assets/u'', pr_expires_in = 9, pr_expires_at = 9000013\<rparr>)
     (\<lambda>_ _. False) demo_written"
    by (simp add: presign_read_def resolve_for_read_def wp_bind wp_seq wp_of_result wp_on_registry run wp_on_objects wp_check
        c d wp_clock_now wp_ret Let_def signing_backend_def now_in_def tick_def record_read_def wp_simps
        MAX_PRESIGN_TTL_SECONDS_def cong: wp_lazy)
  then show ?thesis by (auto simp: wp_def split: prod.splits sum.splits)
qed

text \<open>A store that takes objects and cannot delete them: an upload whose checksum is not the announced one leaves its bytes.\<close>

definition stuck_backend :: "local_store backend" where
  "stuck_backend = local_backend\<lparr>bk_delete_object := (\<lambda>_. raise BackendError)\<rparr>"

lemma stuck_backend_ops [simp]:
  "bk_put_object stuck_backend = local_put_object" "bk_delete_object stuck_backend l = raise BackendError"
  by (simp_all add: stuck_backend_def)

interpretation stuck_objects: object_store stuck_backend local_contents
proof
  fix l :: object_store_location and s :: local_store and n :: int
  show "wp (bk_get_object stuck_backend l) (\<lambda>d s'. local_contents s (object_key l) = Some d \<and> local_contents s' = local_contents s)
       (\<lambda>_ s'. local_contents s' = local_contents s) s"
    using local_objects.get_stored [of l s] by (simp add: stuck_backend_def)
  show "wp (bk_presign_get_url stuck_backend l n) (\<lambda>_ s'. local_contents s' = local_contents s) (\<lambda>_ s'. local_contents s' = local_contents s) s"
    using local_objects.presign_pure [of l n s] by (simp add: stuck_backend_def)
qed (use local_objects.put_stored in \<open>simp_all add: stuck_backend_def wp_simps\<close>)

interpretation stuck_deletes: deleting_store stuck_backend local_contents
  by unfold_locales (simp add: wp_simps)

lemma demo_commit_mismatch:
  "wp (commit_asset ''u'' 2 (compute_checksum [1, 2]) ''admin'' None (Some ''bad'')) Q E r = E ChecksumMismatchError r"
proof -
  have "''bad'' \<noteq> compute_checksum [1, 2]" by (simp add: compute_checksum_def CHECKSUM_ALGO_def)
  then show ?thesis by (simp add: commit_asset_def Let_def wp_simps cong: wp_lazy)
qed

lemma demo_stuck:
  "wp (write_object stuck_backend (demo_capability WRITE ''cache/p'') ''cache/p/x'' [1, 2] False None (Some ''bad'') None)
     (\<lambda>_ _. False) (\<lambda>e w'. e = ChecksumMismatchError \<and> local_contents (w_store w') (''cache'', ''p/assets/u'') = Some [1, 2]) demo_world"
proof -
  have "tick (tick demo_world) = demo_world\<lparr>w_registry := demo_new\<lparr>r_ticks := 2\<rparr>\<rparr>"
    by (simp add: tick_def demo_world_def demo_new_def)
  then have a: "authorize (demo_capability WRITE ''cache/p'') WRITE ''cache/p/x'' demo_world =
     (Inr (demo_alias ''p/x'' ''x''), demo_world\<lparr>w_registry := demo_new\<lparr>r_ticks := 2\<rparr>\<rparr>)"
    using demo_authorize [OF demo_parse(1), of "''cache/p''" demo_world WRITE] demo_covered(1) by simp
  note run = wp_of_eq [where m = "authorize (demo_capability WRITE ''cache/p'') WRITE ''cache/p/x''", OF a]
    wp_of_eq [where m = "reserve_asset ''cache'' ''p'' (AliasMapping [(''x'', False)]) ''admin'' None None INHERIT None (Some 2)",
      OF demo_upload_reserve [OF disjI1 [OF refl]]]
    wp_of_eq [where m = "local_put_object l d" for l d, OF local_put_eq]
  have g: "map_of (r_assets demo_granted) ''u'' = Some demo_upload" by (simp add: demo_granted_def)
  have u: "a_asset_id demo_upload = ''u''" "a_space demo_upload = ''cache''" "a_partition_id demo_upload = ''p''"
    "a_state demo_upload = PENDING" "a_payload_deleted_at demo_upload = None" by (simp_all add: demo_upload_def)
  show ?thesis
    by (simp add: write_object_def wp_bind wp_seq wp_try wp_counts wp_of_result wp_on_registry run wp_on_objects wp_check
        asset_lock_def wp_get_asset g u stat_of_def demo_commit_mismatch cleanup_failed_upload_def cleanup_outcome_def wp_clock_now
        lifecycle_update_def validate_cleanup_transition_def cleanup_allowed_def release_quota_def Let_def wp_simps tick_def
        local_contents_def object_key_def cong: wp_lazy)
qed

end
