(* ===== verification/Registry_Props.thy ===== *)
theory Registry_Props
  imports Registry_Example
begin

text \<open>
  The properties of the in-memory registry, over the states that calls of its public methods can
  reach, each with an instance at the concrete registry of \<open>Registry_Example\<close>.
\<close>

section \<open>Accounting, atomicity, lifecycle\<close>

lemma get_partition_quota_Inr:
  "get_partition_quota sp p r = (Inr q, t) \<Longrightarrow>
     \<exists>s k. normalize_space sp = Inr s \<and> normalize_partition_id p = Inr k \<and> q = quota_at (r_partition_quotas r) s k"
  unfolding get_partition_quota_def
  by (drule wp_post) (auto simp: wp_simps split: sum.split)

lemma get_bucket_quota_Inr:
  "get_bucket_quota sp r = (Inr q, t) \<Longrightarrow> \<exists>s. normalize_space sp = Inr s \<and> q = bucket_at (r_bucket_quotas r) s"
  unfolding get_bucket_quota_def
  by (drule wp_post) (auto simp: wp_simps split: sum.split)

lemma demo_reports:
  "get_partition_quota ''cache'' ''p'' demo_committed = (Inr (demo_quota 400 1), demo_committed)"
  "get_bucket_quota ''cache'' demo_committed
     = (Inr ((default_bucket_quota ''cache'')\<lparr>bq_used_bytes := 400\<rparr>), demo_committed)"
  by (rule wp_eqI, simp add: get_partition_quota_def get_bucket_quota_def demo_eval demo_defs)+

text \<open>
  C1: In every reachable state the usage that a quota query reports is exactly what the available
  assets of that partition and of that bucket occupy: bytes, number of assets, and bucket bytes.
  No sequence of calls, successful or not, makes the counters drift.
\<close>

theorem quota_accounting:
  assumes "reachable r" and "get_partition_quota sp p r = (Inr q, t)" and "get_bucket_quota sp r = (Inr b, t')"
  shows "pq_used_bytes q = dict_sum (used_in_partition (pq_space q) (pq_partition_id q)) (r_assets r) \<and>
     pq_used_asset_count q = dict_sum (counted_in_partition (pq_space q) (pq_partition_id q)) (r_assets r) \<and>
     bq_used_bytes b = dict_sum (used_in_bucket (bq_space b)) (r_assets r)"
  using reachable_inv [OF assms(1)] get_partition_quota_Inr [OF assms(2)] get_bucket_quota_Inr [OF assms(3)]
  by (auto simp: reg_inv_def accounted_def quota_at_names bucket_at_name)

theorem quota_accounting_witness:
  "reachable demo_committed \<and>
   (400 :: int) = dict_sum (used_in_partition ''cache'' ''p'') (r_assets demo_committed) \<and>
   (1 :: int) = dict_sum (counted_in_partition ''cache'' ''p'') (r_assets demo_committed) \<and>
   (400 :: int) = dict_sum (used_in_bucket ''cache'') (r_assets demo_committed)"
  using demo_reachable quota_accounting [OF demo_reachable demo_reports]
  by (simp add: demo_quota_def default_bucket_quota_def)

lemma demo_commit_twice:
  "exec_call (CommitAsset ''u'' 400 ''c'' ''s'' None None) demo_committed
     = (Inl InvalidStateTransitionError, demo_committed)"
  by (rule wp_raiseI) (simp add: demo_eval demo_defs commit_asset_def cong: wp_lazy)

text \<open>
  C2: A call that raises anything but an overflow of the calendar leaves assets, aliases, quotas
  and the audit log as they were.
\<close>

theorem failed_call_atomic:
  assumes "reachable r" and "exec_call c r = (Inl e, t)" and "e \<noteq> OverflowError"
  shows "r_assets t = r_assets r \<and> r_aliases t = r_aliases r \<and> r_partition_quotas t = r_partition_quotas r \<and>
     r_bucket_quotas t = r_bucket_quotas r \<and> r_audit_events t = r_audit_events r"
proof -
  have "wp (exec_call c) (\<lambda>_. step_ok r) (\<lambda>e t. step_ok r t \<and> (untouched r t \<or> e = OverflowError)) r"
    using wb_exec_call [of c] reachable_inv [OF assms(1)] by (simp add: well_behaved_def)
  from wp_error [OF this assms(2)] assms(3) show ?thesis by (simp add: untouched_def)
qed

theorem failed_call_atomic_witness:
  "\<exists>t. exec_call (CommitAsset ''u'' 400 ''c'' ''s'' None None) demo_committed = (Inl InvalidStateTransitionError, t) \<and>
     r_assets t = r_assets demo_committed \<and> r_audit_events t = r_audit_events demo_committed"
  using failed_call_atomic [OF demo_reachable demo_commit_twice] demo_commit_twice by blast

text \<open>
  C3: An asset is never removed from the registry. Whatever calls follow, its identity, place and
  owner stay, its lifecycle never goes back to an earlier stage (deleted is final), and the size
  and checksum recorded at commit never change.
\<close>

theorem lifecycle_one_way:
  assumes "reachable r" and "map_of (r_assets r) i = Some a"
  shows "\<exists>a'. map_of (r_assets (run_calls cs r)) i = Some a' \<and> asset_step a a'"
  using run_calls_evolves [OF reachable_inv [OF assms(1)]] assms(2) by (simp add: evolves_def)

theorem lifecycle_one_way_witness:
  "\<exists>a'. map_of (r_assets (run_calls [ExpireAsset ''u'' ''s'', DeleteAsset ''u'' ''s''] demo_committed)) ''u'' = Some a' \<and>
     asset_step demo_available a'"
  by (rule lifecycle_one_way [OF demo_reachable]) (simp add: demo_committed_def)

text \<open>C4: The audit log only grows: no call rewrites or drops an event.\<close>

theorem audit_append_only:
  "reachable r \<Longrightarrow> prefix (r_audit_events r) (r_audit_events (run_calls cs r))"
  using run_calls_evolves [OF reachable_inv] by (simp add: evolves_def)

theorem audit_append_only_witness:
  "prefix (r_audit_events demo_committed) (r_audit_events (run_calls [ExpireAsset ''u'' ''s''] demo_committed))"
  by (rule audit_append_only [OF demo_reachable])

section \<open>Aliases\<close>

text \<open>
  C5: In every reachable state an alias is bound to an asset exactly if the asset lists it, and
  only a mutable alias is ever unbound.
\<close>

theorem alias_links:
  assumes "reachable r"
  shows "(bound_to (r_aliases r) k i \<longleftrightarrow> has_alias (r_assets r) i k) \<and>
     (\<forall>b. map_of (r_aliases r) k = Some b \<and> b_asset_id b = None \<longrightarrow> b_mutable b)"
  using reachable_inv [OF assms] by (auto simp: reg_inv_def links_ok_def binding_wf_def dest: aliases_okD)

theorem alias_links_witness:
  "bound_to (r_aliases demo_committed) ''cache/p/x'' ''u'' \<and> has_alias (r_assets demo_committed) ''u'' ''cache/p/x''"
  using alias_links [OF demo_reachable, of "''cache/p/x''" "''u''"]
  by (simp add: bound_to_def demo_defs)

text \<open>
  C6: No call binds an immutable alias to another asset or changes its record; it can only
  disappear.
\<close>

theorem immutable_names:
  assumes "reachable r" and "map_of (r_aliases r) k = Some b" and "\<not> b_mutable b"
  shows "map_of (r_aliases (snd (exec_call c r))) k \<in> {None, Some b}"
  using exec_call_step_ok [OF reachable_inv [OF assms(1)], of c] assms(2,3)
  by (auto simp: step_ok_def immutable_kept_def)

theorem immutable_names_witness:
  "map_of (r_aliases (snd (exec_call (RebindAlias ''cache'' ''p/x'' ''u'' ''s'') demo_committed))) ''cache/p/x''
     \<in> {None, Some (demo_binding ''p/x'' False)}"
  by (rule immutable_names [OF demo_reachable]) (simp_all add: demo_defs)

text \<open>The key under which a method looks an alias up.\<close>

definition lookup_key :: "string \<Rightarrow> string \<Rightarrow> error + string" where
  "lookup_key sp al = bind_result (normalize_space sp) (\<lambda>s. bind_result (normalize_relative_alias al) (qualified_alias s))"

lemma wp_get_binding:
  "wp (get_binding sp al) Q E r = (case lookup_key sp al of Inl e \<Rightarrow> E e r
     | Inr k \<Rightarrow> (case map_of (r_aliases r) k of None \<Rightarrow> E AliasNotFoundError r | Some b \<Rightarrow> Q b r))"
  by (simp add: get_binding_def lookup_key_def bind_result_def wp_simps split: sum.split option.split)

lemma resolves_to:
  "fst (resolve_alias sp al r) = Inr a \<longleftrightarrow>
     (\<exists>k b i. lookup_key sp al = Inr k \<and> map_of (r_aliases r) k = Some b \<and> b_asset_id b = Some i \<and>
        map_of (r_assets r) i = Some a \<and> a_state a = AVAILABLE \<and>
        (case a_expires_at a of None \<Rightarrow> True | Some d \<Rightarrow> r_clock r (r_ticks r) < d))" (is "_ \<longleftrightarrow> ?R a")
proof -
  have "wp (resolve_alias sp al) (\<lambda>x t. \<forall>a. x = a \<longleftrightarrow> ?R a) (\<lambda>e t. \<forall>a. \<not> ?R a) r"
    unfolding resolve_alias_def wp_bind wp_get_binding
    by (auto simp: wp_simps require_live_def is_resolvable_def split: sum.split option.split if_splits)
  then show ?thesis by (auto simp: wp_def split: prod.splits sum.splits)
qed

text \<open>
  C7: A name resolves to an asset exactly if it is bound to that asset, the asset is available,
  and its deadline, if any, lies after the current instant.
\<close>

theorem resolve_alias_iff:
  "fst (resolve_alias sp al r) = Inr a \<longleftrightarrow>
     (\<exists>k b i. lookup_key sp al = Inr k \<and> map_of (r_aliases r) k = Some b \<and> b_asset_id b = Some i \<and>
        map_of (r_assets r) i = Some a \<and> a_state a = AVAILABLE \<and>
        (case a_expires_at a of None \<Rightarrow> True | Some d \<Rightarrow> r_clock r (r_ticks r) < d))"
  by (rule resolves_to)

section \<open>Reserve, commit, resolve\<close>

lemma enforce_quota_cong:
  assumes "pending_uploads s x t = pending_uploads s y r" and "physical_bytes s x t = physical_bytes s y r"
    and "r_partition_quotas t = r_partition_quotas r" and "r_bucket_quotas t = r_bucket_quotas r" and "r_env t = r_env r"
  shows "fst (enforce_quota s p n x t) = fst (enforce_quota s p n y r)"
  unfolding enforce_quota_def partition_quota_of_def bucket_quota_of_def Let_def
  by (simp add: bind_op_def seq_op_def gets_def check_def ret_def raise_def of_result_def assms split: sum.split option.split)

lemma wp_enforce_ok:
  "wp (enforce_quota s p n x) Q E r = (case fst (enforce_quota s p n x r) of Inl e \<Rightarrow> E e r | Inr _ \<Rightarrow> Q () r)"
proof -
  have "snd (enforce_quota s p n x r) = r" by (rule wp_snd) (rule wp_enforce_quota; simp)
  then show ?thesis by (auto simp: wp_def split: prod.split sum.split)
qed

lemma reserved_pending:
  assumes inv: "reg_inv r" and res: "reserved r a t"
  shows "pending_uploads s (Some (a_asset_id a)) t = pending_uploads s None r"
    and "physical_bytes s (Some (a_asset_id a)) t = physical_bytes s None r"
proof -
  have t: "r_assets t = AList.update (a_asset_id a) a (r_assets r)" using res by (auto simp: reserved_def)
  have new: "map_of (r_assets r) (a_asset_id a) = None" using inv res by (simp add: reg_inv_def reserved_def ids_fresh_def)
  have ids: "a_asset_id v \<noteq> a_asset_id a" if "v \<in> set (dict_values (r_assets r))" for v
    using that new inv by (auto simp: reg_inv_def assets_ok_def dict_values_iff)
  show "pending_uploads s (Some (a_asset_id a)) t = pending_uploads s None r"
    and "physical_bytes s (Some (a_asset_id a)) t = physical_bytes s None r"
    using ids by (auto simp: pending_uploads_def physical_bytes_def t dict_values_new [OF new]
        intro!: filter_cong arg_cong [where f = "\<lambda>xs. sum_list (map physical_size xs)"])
qed

text \<open>A reservation with a declared size has passed the quota check for that size.\<close>

lemma wp_reserve_admitted:
  assumes ok: "normalize_space sp = Inr s" "normalize_partition_id p = Inr k"
  shows "wp (reserve_asset sp p al own m ann ev ttl (Some n))
     (\<lambda>_ _. 0 \<le> n \<and> is_ok (fst (enforce_quota s k n None r))) (\<lambda>_ _. True) r"
proof (cases "normalize_alias_specs al")
  case (Inr specs)
  show ?thesis
    unfolding reserve_asset_def wp_bind wp_of_result wp_seq ok Inr sum.case option.case wp_if wp_raise
  proof (rule wp_mono [OF wp_check_names], goal_cases)
    case (1 _ u)
    then have "fst (enforce_quota s k n None u) = fst (enforce_quota s k n None r)"
      by (intro enforce_quota_cong) (auto simp: pending_uploads_def physical_bytes_def elim!: names_checkedE)
    then show ?case
      unfolding wp_enforce_ok by (auto simp: wp_simps split: sum.split)
  qed simp
qed (simp add: reserve_asset_def wp_simps ok)

definition committed_as :: "asset \<Rightarrow> int \<Rightarrow> string \<Rightarrow> asset \<Rightarrow> bool" where
  "committed_as a n checksum a' \<longleftrightarrow>
     a_asset_id a' = a_asset_id a \<and> a_state a' = AVAILABLE \<and> a_size_bytes a' = Some n \<and>
     a_reserved_bytes a' = None \<and> a_checksum a' = Some checksum \<and> a_expires_at a' = a_expires_at a \<and>
     a_aliases a' = a_aliases a \<and> a_space a' = a_space a \<and> a_partition_id a' = a_partition_id a"

text \<open>What was admitted at reservation is admitted at commit.\<close>

lemma reserved_admitted:
  assumes inv: "reg_inv r" and res: "reserve_asset sp p al own m ann ev ttl (Some n) r = (Inr a, t)"
  shows "0 \<le> n" and "fst (enforce_quota (a_space a) (a_partition_id a) n (Some (a_asset_id a)) t) = Inr ()"
proof -
  have R: "reserved r a t" and args: "reserve_args r sp p al own ttl (Some n) a"
    using wp_result [OF wp_reserve_asset [OF inv] res] by auto
  have q: "0 \<le> n \<and> is_ok (fst (enforce_quota (a_space a) (a_partition_id a) n None r))"
    using wp_post [OF res wp_reserve_admitted] args by (simp add: reserve_args_def)
  moreover have "fst (enforce_quota (a_space a) (a_partition_id a) n (Some (a_asset_id a)) t)
      = fst (enforce_quota (a_space a) (a_partition_id a) n None r)"
    by (rule enforce_quota_cong) (use R reserved_pending [OF inv R] in \<open>auto simp: reserved_def elim!: names_checkedE\<close>)
  ultimately show "0 \<le> n" "fst (enforce_quota (a_space a) (a_partition_id a) n (Some (a_asset_id a)) t) = Inr ()"
    by (auto simp: is_ok_ex)
qed

lemma commit_reserved:
  assumes inv: "reg_inv r" and res: "reserve_asset sp p al own m ann ev ttl (Some n) r = (Inr a, t)"
    and cs: "py_strip cs \<noteq> []"
  shows "wp (commit_asset (a_asset_id a) n cs c m' ec)
    (\<lambda>a' t2. committed_as a n (py_strip cs) a' \<and> r_clock t2 = r_clock r \<and>
       r_assets t2 = AList.update (a_asset_id a) a' (r_assets t) \<and>
       names_bound (r_aliases r) (a_aliases a) (a_asset_id a) (r_aliases t2))
    (\<lambda>e t2. e = ChecksumMismatchError \<and> t2 = t \<and> (\<exists>x. ec = Some x \<and> x \<noteq> py_strip cs)) t"
proof -
  have R: "reserved r a t" and args: "reserve_args r sp p al own ttl (Some n) a"
    using wp_result [OF wp_reserve_asset [OF inv] res] by auto
  have t: "map_of (r_assets t) (a_asset_id a) = Some a" "r_clock t = r_clock r"
      "names_bound (r_aliases r) (a_aliases a) (a_asset_id a) (r_aliases t)"
    using R by (auto simp: reserved_def elim!: names_checkedE)
  have a: "asset_wf a" "a_state a = PENDING" "a_reserved_bytes a = Some n"
    using R args by (simp_all add: reserved_def reserve_args_def)
  show ?thesis
    unfolding commit_asset_def committed_as_def using cs reserved_admitted [OF inv res] a t
    by (auto simp: wp_seq wp_check wp_bind wp_enforce_ok op_simps split: option.splits)
qed

lemma resolve_bound:
  assumes "names_bound L0 K i (r_aliases t)" and "lookup_key sp al \<in> Inr ` K"
    and "map_of (r_assets t) i = Some a" and "a_state a = AVAILABLE"
    and "\<And>d. a_expires_at a = Some d \<Longrightarrow> r_clock t (r_ticks t) < d"
  shows "fst (resolve_alias sp al t) = Inr a"
proof -
  obtain k where k: "lookup_key sp al = Inr k" "k \<in> K" using assms(2) by blast
  then obtain b where "map_of (r_aliases t) k = Some b" "b_asset_id b = Some i"
    using assms(1) by (auto simp: names_bound_def split: if_splits)
  with k assms(3-5) show ?thesis by (auto simp: resolves_to split: option.split)
qed

text \<open>
  C8: A reservation with a declared size that succeeds is honoured: committing that size at once,
  with any checksum, succeeds, records size and checksum, and every name of the reservation then
  resolves to the committed asset until its deadline.
\<close>

theorem reserve_commit_resolve:
  assumes r: "reachable r" and res: "reserve_asset sp p al own m ann ev ttl (Some n) r = (Inr a, t)"
    and cs: "py_strip cs \<noteq> []"
  shows "\<exists>a' t2. commit_asset (a_asset_id a) n cs c m' (Some (py_strip cs)) t = (Inr a', t2) \<and>
     committed_as a n (py_strip cs) a' \<and>
     (\<forall>name. lookup_key (a_space a) name \<in> Inr ` a_aliases a \<and>
           (\<forall>d. a_expires_at a = Some d \<longrightarrow> r_clock r (r_ticks t2) < d) \<longrightarrow>
        fst (resolve_alias (a_space a) name t2) = Inr a')"
proof -
  have "wp (commit_asset (a_asset_id a) n cs c m' (Some (py_strip cs)))
    (\<lambda>a' t2. committed_as a n (py_strip cs) a' \<and> r_clock t2 = r_clock r \<and>
       r_assets t2 = AList.update (a_asset_id a) a' (r_assets t) \<and>
       names_bound (r_aliases r) (a_aliases a) (a_asset_id a) (r_aliases t2)) (\<lambda>_ _. False) t"
    by (rule wp_mono [OF commit_reserved [OF reachable_inv [OF r] res cs]]) auto
  from wp_returns [OF this] obtain a' t2 where
    c: "commit_asset (a_asset_id a) n cs c m' (Some (py_strip cs)) t = (Inr a', t2)" "committed_as a n (py_strip cs) a'"
    and t2: "r_clock t2 = r_clock r" "r_assets t2 = AList.update (a_asset_id a) a' (r_assets t)"
      "names_bound (r_aliases r) (a_aliases a) (a_asset_id a) (r_aliases t2)"
    by auto
  have "fst (resolve_alias (a_space a) name t2) = Inr a'"
    if "lookup_key (a_space a) name \<in> Inr ` a_aliases a" "\<And>d. a_expires_at a = Some d \<Longrightarrow> r_clock r (r_ticks t2) < d" for name
    using resolve_bound [OF t2(3) that(1)] that(2) c(2) t2(1,2) by (simp add: committed_as_def)
  with c show ?thesis by blast
qed

theorem reserve_commit_resolve_witness:
  "\<exists>a' t2. commit_asset ''u'' 400 ''c'' ''s'' None (Some ''c'') demo_reserved = (Inr a', t2) \<and>
     committed_as demo_pending 400 ''c'' a'"
  using reserve_commit_resolve [OF demo_reachable_limited demo_reserve, of "''c''" "''s''" None]
  by (auto simp: demo_pending_def)

section \<open>Names after a detach\<close>

lemma wp_mark_names:
  assumes "reg_inv t" and "map_of (r_assets t) i \<noteq> None"
    and "\<And>t'. r_aliases t' = r_aliases t \<Longrightarrow> r_tombstones t' = r_tombstones t \<Longrightarrow> r_clock t' = r_clock t \<Longrightarrow> Q () t'"
  shows "wp (mark_for_gc_if_orphaned i c) Q E t"
  by (rule wp_mono [OF wb_mark_for_gc]) (use assms in \<open>auto simp: evolves_def\<close>)

lemma wp_detach_tombstone:
  assumes inv: "reg_inv r" and grace: "0 < r_alias_grace r" and key: "lookup_key sp al = Inr k"
  shows "wp (detach_alias sp al c) (\<lambda>_ t. map_of (r_aliases t) k = None \<and> r_clock t = r_clock r \<and>
      map_of (r_tombstones t) k = Some (r_clock r (Suc (r_ticks r)) + r_alias_grace r)) (\<lambda>_ _. True) r"
proof (cases "\<exists>b i. map_of (r_aliases r) k = Some b \<and> b_asset_id b = Some i")
  case True
  then obtain b i where b: "map_of (r_aliases r) k = Some b" "b_asset_id b = Some i" by blast
  obtain a where a: "map_of (r_assets r) i = Some a" using bound_asset [OF inv b] by blast
  have "binding_qualified_alias b = Inr k" using inv b by (auto simp: reg_inv_def binding_wf_def dest: aliases_okD)
  then show ?thesis
    unfolding detach_alias_def wp_bind wp_get_binding key using b a inv grace
    by (auto simp: wp_simps remove_alias_from_asset_def dt_add_def reg_inv_dict_tombstones
        reg_inv_detach [OF inv b a] intro!: wp_mark_names reg_inv_tombstones split: sum.split)
next
  case False
  then show ?thesis
    unfolding detach_alias_def wp_bind wp_get_binding key
    by (auto simp: wp_simps split: option.split sum.split)
qed

text \<open>
  C9: After an alias is detached its name stays blocked for the grace period, counted from the
  detach, and is available again from then on.
\<close>

theorem detached_name_blocked:
  assumes r: "reachable r" and det: "detach_alias sp al c r = (Inr (), t)" and grace: "0 < r_alias_grace r"
    and key: "lookup_key sp al = Inr k" and same: "qualified_alias s name = Inr k"
  shows "fst (require_alias_name_available s name t) =
     (if r_clock r (r_ticks t) < r_clock r (Suc (r_ticks r)) + r_alias_grace r then Inl AliasConflictError else Inr ())"
proof -
  from wp_post [OF det wp_detach_tombstone [OF reachable_inv [OF r] grace key]] have t: "map_of (r_aliases t) k = None" "r_clock t = r_clock r"
      "map_of (r_tombstones t) k = Some (r_clock r (Suc (r_ticks r)) + r_alias_grace r)"
    by auto
  have "wp (require_alias_name_available s name)
     (\<lambda>_ _. \<not> (r_clock r (r_ticks t) < r_clock r (Suc (r_ticks r)) + r_alias_grace r))
     (\<lambda>e _. e = AliasConflictError \<and> (r_clock r (r_ticks t) < r_clock r (Suc (r_ticks r)) + r_alias_grace r)) t"
    by (simp add: require_alias_name_available_def alias_name_is_blocked_def wp_simps same t)
  then show ?thesis by (auto simp: wp_def split: prod.splits sum.splits)
qed

lemma demo_detach:
  "detach_alias ''cache'' ''p/x'' ''s'' demo_committed = (Inr (), snd (detach_alias ''cache'' ''p/x'' ''s'' demo_committed))"
proof -
  have "wp (detach_alias ''cache'' ''p/x'' ''s'') (\<lambda>_ _. True) (\<lambda>_ _. False) demo_committed"
    by (simp add: demo_eval demo_defs detach_alias_def get_binding_def binding_qualified_alias_def
        remove_alias_from_asset_def mark_for_gc_if_orphaned_def dt_add_def datetime_min_def datetime_max_def cong: wp_lazy)
  then show ?thesis by (auto simp: wp_def split: prod.splits sum.splits)
qed

theorem detached_name_blocked_witness:
  "fst (require_alias_name_available ''cache'' ''p/x'' (snd (detach_alias ''cache'' ''p/x'' ''s'' demo_committed))) =
     (if int (r_ticks (snd (detach_alias ''cache'' ''p/x'' ''s'' demo_committed))) < 1008
      then Inl AliasConflictError else Inr ())"
  using detached_name_blocked [OF demo_reachable demo_detach, of "''cache/p/x''" "''cache''" "''p/x''"]
  by (simp add: demo_defs lookup_key_def)

section \<open>Quota ceilings\<close>

lemma enforce_quota_bounds:
  assumes "fst (enforce_quota s p n x r) = Inr ()" and s: "normalize_space s = Inr s" and p: "normalize_partition_id p = Inr k"
  defines "q \<equiv> quota_at (r_partition_quotas r) s k" and "b \<equiv> bucket_at (r_bucket_quotas r) s"
    and "up \<equiv> pending_uploads s x r"
  shows "(\<forall>l. pq_quota_bytes q = Some l \<longrightarrow> of_int (pq_used_bytes q + reserved_sum (filter (\<lambda>a. a_partition_id a = p) up) + n)
        < py_int_fmul l PARTITION_HARD_RATIO) \<and>
     (\<forall>l. pq_quota_asset_count q = Some l \<longrightarrow>
        pq_used_asset_count q + int (length (filter (\<lambda>a. a_partition_id a = p) up)) + 1 \<le> l) \<and>
     (\<forall>l. bq_quota_bytes b = Some l \<longrightarrow> of_int (bq_used_bytes b + reserved_sum up + n) < py_int_fmul l (bq_hard_ceiling b))"
    (is ?R)
proof -
  have "wp (enforce_quota s p n x) (\<lambda>_ _. ?R) (\<lambda>_ _. True) r"
    unfolding enforce_quota_def q_def b_def up_def
    by (simp add: wp_simps Let_def s p split: sum.split) (auto split: option.splits)
  with assms(1) show ?R by (auto simp: wp_def split: prod.splits sum.splits)
qed

lemma reserved_sum_nonneg:
  assumes "reg_inv r" and "set as \<subseteq> set (dict_values (r_assets r))"
  shows "0 \<le> reserved_sum as"
proof -
  have "0 \<le> or_zero (a_reserved_bytes a)" if "a \<in> set as" for a
  proof -
    have "dict_ok (r_assets r)" using assms(1) by (simp add: reg_inv_def assets_ok_def)
    moreover have "a \<in> set (dict_values (r_assets r))" using that assms(2) by (rule subsetD [rotated])
    ultimately obtain i where "map_of (r_assets r) i = Some a" by (auto simp: dict_values_iff)
    then have "asset_wf a" using reg_inv_asset [OF assms(1)] by blast
    then show ?thesis by (auto simp: asset_wf_def or_zero_def split: option.split)
  qed
  then show ?thesis unfolding reserved_sum_def by (auto intro!: sum_list_nonneg)
qed

lemma wp_commit_quota:
  assumes inv: "reg_inv r"
  shows "wp (commit_asset i n cs c m ec) (\<lambda>a t. \<exists>k. asset_wf a \<and> normalize_partition_id (a_partition_id a) = Inr k \<and>
     fst (enforce_quota (a_space a) (a_partition_id a) n (Some i) r) = Inr () \<and>
     quota_at (r_partition_quotas t) (a_space a) k = (quota_at (r_partition_quotas r) (a_space a) k)
       \<lparr>pq_used_bytes := pq_used_bytes (quota_at (r_partition_quotas r) (a_space a) k) + n,
        pq_used_asset_count := pq_used_asset_count (quota_at (r_partition_quotas r) (a_space a) k) + 1\<rparr> \<and>
     bucket_at (r_bucket_quotas t) (a_space a) = (bucket_at (r_bucket_quotas r) (a_space a))
       \<lparr>bq_used_bytes := bq_used_bytes (bucket_at (r_bucket_quotas r) (a_space a)) + n\<rparr>) (\<lambda>_ _. True) r"
proof (cases "map_of (r_assets r) i")
  case (Some a)
  then have wf: "asset_wf a" using reg_inv_asset [OF inv] by blast
  obtain k where k: "normalize_partition_id (a_partition_id a) = Inr k" using wf by (rule asset_wf_partition)
  have q: "quotas_ok (r_partition_quotas r) (r_bucket_quotas r)" using inv by (rule reg_inv_quotas)
  show ?thesis
    unfolding commit_asset_def using Some wf k q
    by (auto simp: wp_seq wp_check wp_bind wp_enforce_ok op_simps asset_wf_space
        acquire_quota_eq [OF asset_wf_space [OF wf] _ k] split: sum.split)
      (auto simp: asset_wf_def)
qed (auto simp: commit_asset_def wp_simps Let_def)

text \<open>
  C10: After a successful commit the partition is below its byte ceiling (quota times 1.05 in
  floating point), within its asset count, and the bucket is below its ceiling.
\<close>

theorem commit_below_ceiling:
  assumes r: "reachable r" and com: "commit_asset i n cs c m ec r = (Inr a, t)"
    and p: "normalize_partition_id (a_partition_id a) = Inr p"
  defines "q \<equiv> quota_at (r_partition_quotas t) (a_space a) p" and "b \<equiv> bucket_at (r_bucket_quotas t) (a_space a)"
  shows "(\<forall>limit. pq_quota_bytes q = Some limit \<longrightarrow> of_int (pq_used_bytes q) < py_int_fmul limit PARTITION_HARD_RATIO) \<and>
     (\<forall>limit. pq_quota_asset_count q = Some limit \<longrightarrow> pq_used_asset_count q \<le> limit) \<and>
     (\<forall>limit. bq_quota_bytes b = Some limit \<longrightarrow> of_int (bq_used_bytes b) < py_int_fmul limit (bq_hard_ceiling b))"
proof -
  have inv: "reg_inv r" using r by (rule reachable_inv)
  from wp_post [OF com wp_commit_quota [OF inv]] p
  have wf: "asset_wf a" and ok: "fst (enforce_quota (a_space a) (a_partition_id a) n (Some i) r) = Inr ()"
    and q: "q = (quota_at (r_partition_quotas r) (a_space a) p)
       \<lparr>pq_used_bytes := pq_used_bytes (quota_at (r_partition_quotas r) (a_space a) p) + n,
        pq_used_asset_count := pq_used_asset_count (quota_at (r_partition_quotas r) (a_space a) p) + 1\<rparr>"
    and b: "b = (bucket_at (r_bucket_quotas r) (a_space a))
       \<lparr>bq_used_bytes := bq_used_bytes (bucket_at (r_bucket_quotas r) (a_space a)) + n\<rparr>"
    by (auto simp: q_def b_def)
  have nonneg: "0 \<le> reserved_sum (filter P (pending_uploads s x r))" "0 \<le> reserved_sum (pending_uploads s x r)" for P s x
    by (rule reserved_sum_nonneg [OF inv]; auto simp: pending_uploads_def)+
  have less: "of_int (x + m) < z" if "of_int (x + y + m) < z" "0 \<le> y" for x y m :: int and z :: rat
  proof -
    have "(of_int (x + m) :: rat) \<le> of_int (x + y + m)" using that(2) by simp
    with that(1) show ?thesis by (rule order.strict_trans1 [rotated])
  qed
  note bounds = enforce_quota_bounds [OF ok asset_wf_space [OF wf] p]
  let ?Q = "quota_at (r_partition_quotas r) (a_space a) p" and ?B = "bucket_at (r_bucket_quotas r) (a_space a)"
  have eqs: "pq_quota_bytes q = pq_quota_bytes ?Q" "pq_used_bytes q = pq_used_bytes ?Q + n"
    "pq_quota_asset_count q = pq_quota_asset_count ?Q" "pq_used_asset_count q = pq_used_asset_count ?Q + 1"
    "bq_quota_bytes b = bq_quota_bytes ?B" "bq_used_bytes b = bq_used_bytes ?B + n" "bq_hard_ceiling b = bq_hard_ceiling ?B"
    by (simp_all add: q b)
  show ?thesis
    unfolding eqs using bounds less [OF _ nonneg(1)] less [OF _ nonneg(2)]
    by (intro conjI allI impI) (blast, force, blast)
qed

theorem commit_below_ceiling_witness:
  "of_int (pq_used_bytes (quota_at (r_partition_quotas demo_committed) ''cache'' ''p''))
     < py_int_fmul 1000 PARTITION_HARD_RATIO"
  using commit_below_ceiling [OF demo_reachable_reserved demo_commit, of "''p''"]
  by (simp add: demo_defs quota_at_def)

end
