(* ===== verification/Guard_Props.thy ===== *)
theory Guard_Props
  imports Guard_Example Registry_Props
begin

text \<open>
  What the storage guard promises, over any store that keeps the contract: reads and presigned links only for
  authorised callers, uploads that can be read back, which name an upload binds, and failed uploads that leave
  no usage behind and no bytes, unless the store refuses to delete them.
\<close>

section \<open>Authorisation\<close>

definition authorized :: "capability \<Rightarrow> operation \<Rightarrow> parsed_alias \<Rightarrow> datetime \<Rightarrow> bool" where
  "authorized cap op p now \<longleftrightarrow>
     allows cap op (p_qualified p) now \<and>
     assert_service_bucket_allowed (c_caller_service_id cap) (p_space p) op = Inr ()"

text \<open>
  A dictionary of things that expire may lose an entry, but only one that had expired at an instant of \<open>T\<close>;
  no other entry changes and none appears.
\<close>

definition forgets_expired :: "('v \<Rightarrow> datetime) \<Rightarrow> datetime set \<Rightarrow> (string, 'v) dict \<Rightarrow> (string, 'v) dict \<Rightarrow> bool" where
  "forgets_expired expiry T d d' \<longleftrightarrow>
     (\<forall>i. map_of d' i = map_of d i \<or> map_of d' i = None \<and> (\<exists>v. \<exists>t \<in> T. map_of d i = Some v \<and> expiry v \<le> t))"

lemma forgets_refl [simp]: "forgets_expired expiry T d d"
  by (simp add: forgets_expired_def)

lemma forgets_trans: "forgets_expired expiry T d d' \<Longrightarrow> forgets_expired expiry U d' e \<Longrightarrow> T \<subseteq> V \<Longrightarrow> U \<subseteq> V \<Longrightarrow> forgets_expired expiry V d e"
  unfolding forgets_expired_def by (metis (no_types, opaque_lifting) subsetD)

context expiring_dict
begin

lemma prune_forgets: "dict_ok d \<Longrightarrow> t \<in> T \<Longrightarrow> forgets_expired expiry T d (prune t d)"
  by (auto simp: forgets_expired_def prune_lookup not_less split: option.split intro!: bexI [of _ t])

end

text \<open>The instants at which a registry's clock was read up to its reading \<open>n\<close>.\<close>

definition read_until :: "registry \<Rightarrow> nat \<Rightarrow> datetime set" where
  "read_until r n = r_clock r ` {r_ticks r..<n}"

text \<open>The effect of an authorisation: clock readings, and the ledger forgets what has expired.\<close>

definition only_clock :: "'s world \<Rightarrow> 's world \<Rightarrow> bool" where
  "only_clock w w' \<longleftrightarrow>
     (\<exists>n l. r_ticks (w_registry w) \<le> n \<and> w' = w\<lparr>w_registry := (w_registry w)\<lparr>r_ticks := n\<rparr>, w_ledger := l\<rparr> \<and>
        (ledger_ok (w_ledger w) \<longrightarrow> ledger_ok l \<and>
           forgets_expired (\<lambda>e. e) (read_until (w_registry w) n) (l_consumed (w_ledger w)) (l_consumed l)))"

lemma ledger_prune_forgets:
  "ledger_ok l \<Longrightarrow> t \<in> T \<Longrightarrow> ledger_ok (l\<lparr>l_consumed := ledger_prune_locked t (l_consumed l)\<rparr>) \<and>
     forgets_expired (\<lambda>e. e) T (l_consumed l) (ledger_prune_locked t (l_consumed l))"
  by (simp add: ledger_ok_def consumed.prune_ok consumed.prune_forgets)

lemma wp_authorize:
  "wp (authorize cap op alias)
     (\<lambda>p w'. parse_alias alias = Inr p \<and> authorized cap op p (now_in w) \<and> only_clock w w' \<and>
        w_registry w' = (w_registry w)\<lparr>r_ticks := r_ticks (w_registry w) + 2\<rparr> \<and>
        (c_single_use cap \<longrightarrow> map_of (l_consumed (w_ledger w')) (c_capability_id cap) = None))
     (\<lambda>e w'. only_clock w w' \<and>
        (\<forall>p. parse_alias alias = Inr p \<and> authorized cap op p (now_in w) \<longrightarrow>
           e = CapabilityAlreadyConsumedError \<and> c_single_use cap)) w"
proof -
  have o1: "only_clock w w"
    unfolding only_clock_def by (intro exI [of _ "r_ticks (w_registry w)"] exI [of _ "w_ledger w"]) simp
  have o2: "only_clock w (tick w)"
    unfolding only_clock_def
    by (intro exI [of _ "Suc (r_ticks (w_registry w))"] exI [of _ "w_ledger w"]) (simp add: tick_def)
  have "now_in (tick w) \<in> read_until (w_registry w) (r_ticks (w_registry w) + 2)" by (simp add: now_in_def tick_def read_until_def)
  from ledger_prune_forgets [OF _ this]
  have o3: "only_clock w ((tick (tick w))\<lparr>w_ledger := (w_ledger w)\<lparr>l_consumed := ledger_prune_locked (now_in (tick w)) (l_consumed (w_ledger w))\<rparr>\<rparr>)"
    unfolding only_clock_def
    by (intro exI [of _ "r_ticks (w_registry w) + 2"]
        exI [of _ "(w_ledger w)\<lparr>l_consumed := ledger_prune_locked (now_in (tick w)) (l_consumed (w_ledger w))\<rparr>"]) (simp add: tick_def)
  have l: "w_ledger (tick (tick w)) = w_ledger w" "w_registry (tick (tick w)) = (w_registry w)\<lparr>r_ticks := r_ticks (w_registry w) + 2\<rparr>"
    by (simp_all add: tick_def)
  show ?thesis
    unfolding authorize_def
    by (simp add: wp_simps require_capability_def guard_result_def authorized_def l Let_def split: sum.split)
      (auto simp: o1 o2 o3)
qed


lemma resolve_alias_frame:
  "snd (resolve_alias sp al r) = r \<or> snd (resolve_alias sp al r) = r\<lparr>r_ticks := Suc (r_ticks r)\<rparr>"
  by (rule wp_snd) (auto simp: resolve_alias_def wp_bind wp_get_binding wp_simps split: sum.split option.split)

lemma only_clock_tick:
  assumes "only_clock w w1" and "t = w_registry w1 \<or> t = (w_registry w1)\<lparr>r_ticks := Suc (r_ticks (w_registry w1))\<rparr>"
  shows "only_clock w (w1\<lparr>w_registry := t\<rparr>)"
proof -
  obtain n l where w1: "r_ticks (w_registry w) \<le> n" "w1 = w\<lparr>w_registry := (w_registry w)\<lparr>r_ticks := n\<rparr>, w_ledger := l\<rparr>"
    "ledger_ok (w_ledger w) \<longrightarrow> ledger_ok l \<and> forgets_expired (\<lambda>e. e) (read_until (w_registry w) n) (l_consumed (w_ledger w)) (l_consumed l)"
    using assms(1) unfolding only_clock_def by blast
  have "read_until (w_registry w) n \<subseteq> read_until (w_registry w) (Suc n)" by (auto simp: read_until_def)
  then have "forgets_expired (\<lambda>e. e) (read_until (w_registry w) n) d d' \<Longrightarrow> forgets_expired (\<lambda>e. e) (read_until (w_registry w) (Suc n)) d d'"
    for d d' using forgets_trans forgets_refl by blast
  then show ?thesis
    unfolding only_clock_def using assms(2) w1
    by (elim disjE) (intro exI [of _ n] exI [of _ "Suc n"] exI [of _ l], simp)+
qed

lemma wp_resolve_for_read:
  "wp (resolve_for_read cap alias)
     (\<lambda>g w'. \<exists>p. parse_alias alias = Inr p \<and> authorized cap READ p (now_in w) \<and> only_clock w w' \<and>
        (c_single_use cap \<longrightarrow> map_of (l_consumed (w_ledger w')) (c_capability_id cap) = None) \<and>
        fst (resolve_alias (p_space p) (p_relative p) ((w_registry w)\<lparr>r_ticks := r_ticks (w_registry w) + 2\<rparr>)) = Inr (gr_asset g) \<and>
        location_for_asset (a_space (gr_asset g)) (a_partition_id (gr_asset g)) (a_asset_id (gr_asset g)) = Inr (gr_location g))
     (\<lambda>e w'. only_clock w w') w"
  unfolding resolve_for_read_def wp_bind
proof (rule wp_mono [OF wp_authorize], goal_cases)
  case (1 p w1)
  then have p: "parse_alias alias = Inr p" "authorized cap READ p (now_in w)"
    "w_registry w1 = (w_registry w)\<lparr>r_ticks := r_ticks (w_registry w) + 2\<rparr>"
    "c_single_use cap \<longrightarrow> map_of (l_consumed (w_ledger w1)) (c_capability_id cap) = None" by auto
  have frame: "only_clock w (w1\<lparr>w_registry := t\<rparr>)" if "resolve_alias sp al (w_registry w1) = (x, t)" for sp al x t
    using 1 resolve_alias_frame [of sp al "w_registry w1"] that by (intro only_clock_tick) auto
  show ?case
    unfolding wp_on_registry
    by (rule wpI) (auto simp: wp_simps p frame [unfolded p(3)] split: sum.split)
qed simp

section \<open>What a successful read has shown\<close>

lemma read_bytes_post:
  assumes R: "\<And>p a l d. parse_alias alias = Inr p \<Longrightarrow> authorized cap READ p (now_in w) \<Longrightarrow>
     fst (resolve_alias (p_space p) (p_relative p) ((w_registry w)\<lparr>r_ticks := r_ticks (w_registry w) + 2\<rparr>)) = Inr a \<Longrightarrow>
     location_for_asset (a_space a) (a_partition_id a) (a_asset_id a) = Inr l \<Longrightarrow>
     fst (bk_get_object B l (w_store w)) = Inr d \<Longrightarrow> R d"
  shows "wp (read_bytes B cap alias) (\<lambda>d _. R d) (\<lambda>_ _. True) w"
  unfolding read_bytes_def wp_bind
proof (rule wp_mono [OF wp_resolve_for_read], goal_cases)
  case (1 g w1)
  then have st: "w_store w1 = w_store w" by (auto simp: only_clock_def)
  have "R d" if "bk_get_object B (gr_location g) (w_store w1) = (Inr d, s')" for d s'
    using 1 that st R [of _ "gr_asset g" "gr_location g" d] by fastforce
  then show ?case unfolding wp_on_objects by (rule_tac wpI) (simp_all add: wp_simps)
qed simp

text \<open>
  C18: Bytes are returned only to a caller whose capability grants reading, has not expired and
  covers the alias, whose service may read the bucket, and only if the alias resolves to an
  available asset; they are the bytes the store holds at that asset's location.
\<close>

theorem read_authorized:
  assumes "read_bytes B cap alias w = (Inr d, w')"
  shows "\<exists>p a l. parse_alias alias = Inr p \<and> authorized cap READ p (now_in w) \<and>
     fst (resolve_alias (p_space p) (p_relative p) ((w_registry w)\<lparr>r_ticks := r_ticks (w_registry w) + 2\<rparr>)) = Inr a \<and>
     location_for_asset (a_space a) (a_partition_id a) (a_asset_id a) = Inr l \<and>
     fst (bk_get_object B l (w_store w)) = Inr d"
  by (rule wp_post [OF assms read_bytes_post]) blast

text \<open>
  The world is the same but for the readings of the clock and for ledger entries that had expired when it
  was read: registry, objects and counters are equal, and no consumed capability is forgotten while it could
  still be used.
\<close>

definition no_effect :: "'s world \<Rightarrow> 's world \<Rightarrow> bool" where
  "no_effect w w' \<longleftrightarrow>
     (\<exists>n l. r_ticks (w_registry w) \<le> n \<and> w' = w\<lparr>w_registry := (w_registry w)\<lparr>r_ticks := n\<rparr>, w_ledger := l\<rparr> \<and>
        forgets_expired (\<lambda>e. e) (read_until (w_registry w) n) (l_consumed (w_ledger w)) (l_consumed l))"

lemma only_clock_no_effect: "only_clock w w' \<Longrightarrow> ledger_ok (w_ledger w) \<Longrightarrow> no_effect w w'"
  unfolding only_clock_def no_effect_def by auto

text \<open>
  C19: A request that the capability, its expiry, its scope or the service allowlist does not
  cover raises, and leaves registry, store and counters as they were, up to the clock; of the ledger of
  consumed capabilities, a dictionary with unique keys, only entries that have expired may go.
\<close>

theorem unauthorized_no_effect:
  assumes "parse_alias alias = Inr p" and "\<not> authorized cap op p (now_in w)" and "ledger_ok (w_ledger w)"
  shows "(op = READ \<longrightarrow> (\<exists>e. fst (read_bytes B cap alias w) = Inl e) \<and> no_effect w (snd (read_bytes B cap alias w))) \<and>
     (op = WRITE \<longrightarrow> (\<exists>e. fst (write_object B cap alias d mut mime ec ttl w) = Inl e) \<and>
        no_effect w (snd (write_object B cap alias d mut mime ec ttl w)))"
proof -
  have "wp (authorize cap op alias) (\<lambda>_ _. False) (\<lambda>_ w'. only_clock w w') w"
    by (rule wp_mono [OF wp_authorize]) (use assms in auto)
  then obtain e w' where "authorize cap op alias w = (Inl e, w')" "no_effect w w'"
    using assms(3) by (auto simp: wp_def only_clock_no_effect split: prod.splits sum.splits)
  then show ?thesis
    by (auto simp: read_bytes_def resolve_for_read_def write_object_def bind_op_def split: sum.splits prod.splits)
qed

section \<open>Presigned reads\<close>

lemma truncated_seconds_le:
  assumes "0 < n" and "n \<le> 3600" and "n \<le> py_int_of_float (total_seconds d)"
  shows "seconds n \<le> d"
proof (rule ccontr)
  assume "\<not> seconds n \<le> d"
  then have d: "d \<le> n * 1000000 - 1" by (simp add: seconds_def)
  let ?x = "of_int d / 1000000 :: rat"
  have x: "?x \<le> of_int n - 1 / 1000000" using d by (simp add: field_simps flip: of_int_mult) 
  have le: "of_int n \<le> fl ?x"
    using assms(1,3) by (simp add: py_int_of_float_def total_seconds_def py_int_truediv_def le_floor_iff split: if_splits) linarith
  then have "0 < fl ?x" using assms(1) by (simp add: order.strict_trans2)
  have pos: "0 \<le> ?x"
  proof (rule ccontr)
    assume "\<not> 0 \<le> ?x"
    then have neg: "?x < 0" by simp
    have "fl ?x \<le> ?x + - ?x * eps53" using fl_error [of ?x] neg by (simp only: abs_of_neg)
    also have "\<dots> = ?x * (1 - eps53)" by (simp add: right_diff_distrib)
    also have "\<dots> < 0" using neg by (intro mult_neg_pos) simp_all
    finally show False using \<open>0 < fl ?x\<close> by simp
  qed
  have "fl ?x \<le> ?x * (1 + eps53)" using pos by (rule fl_upper)
  also have "\<dots> \<le> (of_int n - 1 / 1000000) * (1 + eps53)" using x by (intro mult_right_mono) (simp_all add: less_imp_le)
  also have "\<dots> < of_int n"
  proof -
    have "of_int n * eps53 \<le> 3600 * eps53" using assms(2) by (intro mult_right_mono) (simp_all add: less_imp_le)
    also have "3600 * eps53 < 1 / 1000000" by (simp add: eps53_def)
    finally have "of_int n * eps53 < (1 / 1000000 :: rat)" .
    moreover have "0 < eps53" by simp
    ultimately have "of_int n * eps53 < (1 / 1000000 :: rat) + 1 / 1000000 * eps53" by linarith
    then show ?thesis by (simp add: algebra_simps)
  qed
  finally show False using le by simp
qed


definition presign_ok :: "capability \<Rightarrow> int \<Rightarrow> registry \<Rightarrow> asset \<Rightarrow> int \<Rightarrow> bool" where
  "presign_ok cap expires_in r a ttl \<longleftrightarrow>
     \<not> c_single_use cap \<and> 0 < ttl \<and> ttl \<le> expires_in \<and> ttl \<le> MAX_PRESIGN_TTL_SECONDS \<and>
     (\<exists>n. r_ticks r \<le> n \<and> r_clock r n + seconds ttl \<le> c_expires_at cap \<and>
        (\<forall>d. a_expires_at a = Some d \<longrightarrow> r_clock r (Suc n) + seconds ttl \<le> d))"

lemma presign_okI:
  assumes "\<not> c_single_use cap" and "0 < ttl" and "ttl \<le> expires_in" and "ttl \<le> MAX_PRESIGN_TTL_SECONDS"
    and "r_ticks r \<le> n" and "ttl \<le> py_int_of_float (total_seconds (c_expires_at cap - r_clock r n))"
    and "\<And>d. a_expires_at a = Some d \<Longrightarrow> ttl \<le> py_int_of_float (total_seconds (d - r_clock r (Suc n)))"
  shows "presign_ok cap expires_in r a ttl"
proof -
  have "ttl \<le> 3600" using assms(4) by (simp add: MAX_PRESIGN_TTL_SECONDS_def)
  note le = truncated_seconds_le [OF assms(2) this]
  show ?thesis
    unfolding presign_ok_def using assms le [OF assms(6)] le [OF assms(7)]
    by (intro conjI exI [of _ n]) (simp_all add: algebra_simps)
qed

lemma wp_presign_read:
  "wp (presign_read B cap alias expires_in)
     (\<lambda>x _. presign_ok cap expires_in (w_registry w) (pr_asset x) (pr_expires_in x)) (\<lambda>_ _. True) w"
  unfolding presign_read_def wp_seq wp_check wp_bind
proof (auto, rule wp_mono [OF wp_resolve_for_read], goal_cases)
  case (1 g w1)
  then obtain n where n: "r_ticks (w_registry w) \<le> n" "w_registry w1 = (w_registry w)\<lparr>r_ticks := n\<rparr>"
    by (auto simp: only_clock_def)
  have t: "now_in w1 = r_clock (w_registry w) n" "now_in (tick w1) = r_clock (w_registry w) (Suc n)"
    by (simp_all add: now_in_def tick_def n)
  have ok: "presign_ok cap expires_in (w_registry w) (gr_asset g) ttl"
    if "ttl \<le> min (min expires_in MAX_PRESIGN_TTL_SECONDS) (py_int_of_float (total_seconds (c_expires_at cap - now_in w1)))"
      "0 < ttl" "\<And>d. a_expires_at (gr_asset g) = Some d \<Longrightarrow> ttl \<le> py_int_of_float (total_seconds (d - now_in (tick w1)))" for ttl
    using 1 that n t by (intro presign_okI [of cap ttl expires_in "w_registry w" n]) auto
  let ?rem = "py_int_of_float (total_seconds (c_expires_at cap - now_in w1))"
  let ?ttl = "min (min expires_in MAX_PRESIGN_TTL_SECONDS) ?rem"
  show ?case
  proof (cases "a_expires_at (gr_asset g)")
    case None
    have "presign_ok cap expires_in (w_registry w) (gr_asset g) ?ttl" if "0 < ?rem"
      by (rule ok) (use 1 that None in \<open>auto simp: MAX_PRESIGN_TTL_SECONDS_def\<close>)
    then show ?thesis by (simp add: wp_simps Let_def None cong: wp_lazy) (auto simp: wp_simps)
  next
    case (Some d)
    have "presign_ok cap expires_in (w_registry w) (gr_asset g) ttl'"
      if "ttl' = min ?ttl (py_int_of_float (total_seconds (d - now_in (tick w1))))" "0 < ttl'" for ttl'
      by (rule ok) (use that Some in auto)
    then show ?thesis by (simp add: wp_simps Let_def Some cong: wp_lazy) (auto simp: wp_simps)
  qed
qed simp

text \<open>
  C20: A presigned URL lives for a positive number of whole seconds, at most what was asked for
  and at most an hour; it does not outlive the capability or the asset's deadline, counted from
  the instants at which the guard read the clock; and a single-use capability never gets one.
\<close>

theorem presign_bounded:
  assumes "presign_read B cap alias expires_in w = (Inr x, w')"
  shows "presign_ok cap expires_in (w_registry w) (pr_asset x) (pr_expires_in x)"
  using assms wp_presign_read by (rule wp_post)


section \<open>Uploads\<close>

lemma reserved_location:
  assumes "reg_inv r" and "reserved r a t"
  shows "\<exists>l. location_for_asset (a_space a) (a_partition_id a) (a_asset_id a) = Inr l"
proof -
  obtain p where "normalize_partition_id (a_partition_id a) = Inr p"
    using assms(2) by (auto simp: reserved_def asset_wf_def is_ok_ex)
  moreover have "py_strip (a_asset_id a) \<noteq> []"
    using assms by (simp add: reserved_def reg_inv_def ids_fresh_def uuid_source_ok_def)
  ultimately show ?thesis
    using assms(2) asset_wf_space [of a]
    by (simp add: reserved_def location_for_asset_def build_storage_key_def normalize_space_def)
qed

text \<open>The world after a successful upload.\<close>

definition uploaded :: "'s world \<Rightarrow> parsed_alias \<Rightarrow> bytes \<Rightarrow> asset \<Rightarrow> 's world \<Rightarrow> bool" where
  "uploaded w p d a w' \<longleftrightarrow>
     a_state a = AVAILABLE \<and> a_size_bytes a = Some (int (length d)) \<and> a_checksum a = Some (compute_checksum d) \<and>
     a_space a = p_space p \<and> r_clock (w_registry w') = r_clock (w_registry w) \<and>
     map_of (r_assets (w_registry w')) (a_asset_id a) = Some a \<and>
     names_bound (r_aliases (w_registry w)) (a_aliases a) (a_asset_id a) (r_aliases (w_registry w')) \<and>
     (\<forall>k. canonical (p_partition_id p) \<and> canonical (p_alias_in_partition p) \<and>
        scoped_key (p_space p) (p_partition_id p) (p_alias_in_partition p) = Inr k \<longrightarrow> a_aliases a = {k})"

lemma parse_alias_Inr:
  assumes "parse_alias alias = Inr p"
  shows "\<exists>space_raw remainder part name. normalize_space space_raw = Inr (p_space p) \<and>
     normalize_relative_alias remainder = Inr (p_relative p) \<and> py_partition slash (p_relative p) = (part, True, name) \<and>
     normalize_partition_id part = Inr (p_partition_id p) \<and> normalize_relative_alias name = Inr (p_alias_in_partition p) \<and>
     qualified_alias (p_space p) (p_relative p) = Inr (p_qualified p)"
proof -
  obtain sr f rem where c: "py_partition slash (strip_char slash (py_strip alias)) = (sr, f, rem)" by (metis prod_cases3)
  have p: "f" "rem \<noteq> []" "bind_result (normalize_space sr) (\<lambda>space. bind_result (normalize_relative_alias rem) (\<lambda>relative.
        case py_partition slash relative of (partition_raw, psep, name) \<Rightarrow>
        if \<not> psep \<or> name = [] then Inl ValidationError
        else bind_result (normalize_partition_id partition_raw) (\<lambda>partition_id.
          bind_result (normalize_relative_alias name) (\<lambda>alias_in_partition.
          bind_result (qualified_alias space relative) (\<lambda>qualified.
          Inr \<lparr>p_space = space, p_relative = relative, p_partition_id = partition_id,
               p_alias_in_partition = alias_in_partition, p_qualified = qualified\<rparr>))))) = Inr p"
    using assms by (auto simp: parse_alias_def c Let_def split: if_splits)
  then obtain s rel where s: "normalize_space sr = Inr s" "normalize_relative_alias rem = Inr rel"
    by (auto simp: bind_result_Inr)
  obtain pr g name where r: "py_partition slash rel = (pr, g, name)" by (metis prod_cases3)
  show ?thesis
    using p(3) s r by (auto simp: bind_result_Inr split: if_splits)
qed

lemma parse_alias_normal:
  assumes "parse_alias alias = Inr p"
  shows "normalize_space (p_space p) = Inr (p_space p)" and "p_space p \<in> STORAGE_BUCKETS" and "valid_path (p_relative p)"
    and "valid_path (p_partition_id p)" and "valid_path (p_alias_in_partition p)"
  using parse_alias_Inr [OF assms]
  by (auto simp: normalize_partition_id_def normalize_space_def
      dest: normalize_bucket_idem normalize_bucket_member normalize_relative_alias_valid)

lemma uploaded_committed:
  assumes inv: "reg_inv r" and p: "parse_alias alias = Inr p" and w: "r_aliases (w_registry w) = r_aliases r" "r_clock (w_registry w) = r_clock r"
    and res: "reserve_asset (p_space p) (p_partition_id p) (AliasMapping [(p_alias_in_partition p, mut)]) own mime None INHERIT ttl
      (Some (int (length d))) r = (Inr pend, t)"
    and com: "committed_as pend (int (length d)) (compute_checksum d) a"
    and t2: "r_clock t2 = r_clock r" "map_of (r_assets t2) (a_asset_id pend) = Some a"
      "names_bound (r_aliases r) (a_aliases pend) (a_asset_id pend) (r_aliases t2)"
    and w': "r_clock (w_registry w') = r_clock t2" "r_assets (w_registry w') = r_assets t2" "r_aliases (w_registry w') = r_aliases t2"
  shows "uploaded w p d a w'"
proof -
  have "reserve_args r (p_space p) (p_partition_id p) (AliasMapping [(p_alias_in_partition p, mut)]) own ttl
      (Some (int (length d))) pend"
    using wp_result [OF wp_reserve_asset [OF inv] res] by blast
  then obtain specs where args: "p_space p = a_space pend" "normalize_partition_id (p_partition_id p) = Inr (a_partition_id pend)"
    "normalize_alias_specs (AliasMapping [(p_alias_in_partition p, mut)]) = Inr specs"
    "a_aliases pend = scoped_keys (a_space pend) (a_partition_id pend) specs"
    using parse_alias_normal(1) [OF p] by (auto simp: reserve_args_def)
  have "a_aliases pend = {k}" if "canonical (p_partition_id p)" "canonical (p_alias_in_partition p)"
    "scoped_key (p_space p) (p_partition_id p) (p_alias_in_partition p) = Inr k" for k
    using args that
    by (auto simp: canonical_normal scoped_keys_def normalize_alias_specs_def dict_of_pairs_def)
  with com t2 w w' args(1) show ?thesis by (auto simp: uploaded_def committed_as_def)
qed

context object_store
begin

lemma wp_write_object:
  assumes inv: "reg_inv (w_registry w)"
    and Q: "\<And>p a l w'. parse_alias alias = Inr p \<Longrightarrow> authorized cap WRITE p (now_in w) \<Longrightarrow> uploaded w p d a w' \<Longrightarrow>
        location_for_asset (a_space a) (a_partition_id a) (a_asset_id a) = Inr l \<Longrightarrow>
        contents (w_store w') = (contents (w_store w))(object_key l \<mapsto> d) \<Longrightarrow> Q a w'"
  shows "wp (write_object B cap alias d mut mime ec ttl) Q (\<lambda>_ _. True) w"
  unfolding write_object_def wp_bind
proof (rule wp_mono [OF wp_authorize], goal_cases)
  case (1 p w1)
  then have p: "parse_alias alias = Inr p" "authorized cap WRITE p (now_in w)"
    and r1: "w_registry w1 = (w_registry w)\<lparr>r_ticks := r_ticks (w_registry w) + 2\<rparr>" "w_store w1 = w_store w"
    by (auto simp: only_clock_def)
  have inv1: "reg_inv (w_registry w1)" using inv by (simp add: r1)
  show ?case
    unfolding wp_try wp_on_registry
  proof (rule wpI, goal_cases)
    case (1 pend t)
    have R: "reserved (w_registry w1) pend t" using wp_result [OF wp_reserve_asset [OF inv1] 1] by blast
    obtain l where l: "location_for_asset (a_space pend) (a_partition_id pend) (a_asset_id pend) = Inr l"
      using reserved_location [OF inv1 R] by blast
    have pend: "map_of (r_assets t) (a_asset_id pend) = Some pend" "a_state pend = PENDING"
      using R by (auto simp: reserved_def)
    have fin: "Q a w'" if "committed_as pend (int (length d)) (compute_checksum d) a" "r_clock t2 = r_clock (w_registry w1)"
      "r_assets t2 = AList.update (a_asset_id pend) a (r_assets t)"
      "names_bound (r_aliases (w_registry w1)) (a_aliases pend) (a_asset_id pend) (r_aliases t2)"
      "contents (w_store w') = (contents (w_store w))(object_key l \<mapsto> d)"
      "r_clock (w_registry w') = r_clock t2" "r_assets (w_registry w') = r_assets t2" "r_aliases (w_registry w') = r_aliases t2"
      for a t2 w'
    proof (rule Q [OF p])
      show "uploaded w p d a w'" by (rule uploaded_committed [OF inv1 p(1) _ _ 1]) (use that r1 in auto)
      show "location_for_asset (a_space a) (a_partition_id a) (a_asset_id a) = Inr l"
        using l that(1) by (simp add: committed_as_def)
    qed (use that in simp)
    have com: "wp (commit_asset (a_asset_id pend) (int (length d)) (compute_checksum d) c mime ec)
        (\<lambda>a t2. committed_as pend (int (length d)) (compute_checksum d) a \<and> r_clock t2 = r_clock (w_registry w1) \<and>
          r_assets t2 = AList.update (a_asset_id pend) a (r_assets t) \<and>
          names_bound (r_aliases (w_registry w1)) (a_aliases pend) (a_asset_id pend) (r_aliases t2)) (\<lambda>_ _. True) t" for c
      by (rule wp_mono [OF commit_reserved [OF inv1 1, where cs = "compute_checksum d"]]) simp_all
    show ?case
      apply (simp add: wp_seq wp_counts wp_bind wp_of_result l wp_try wp_on_registry asset_lock_def wp_get_asset pend
          wp_check wp_on_objects cong: wp_lazy)
      apply (rule wp_mono [OF put_stored])
      apply (simp_all add: wp_simps stat_of_def)
      apply (rule wp_mono [OF com])
      apply (simp_all)
      apply (rule wpI)
      apply (rule fin)
      apply (auto simp: tick_def r1)
      done
  qed (simp add: wp_simps)
qed simp

end


text \<open>
  A lookup finds the name that an upload has bound, if the name is canonical and does not repeat
  its partition.
\<close>

lemma uploaded_resolves:
  assumes up: "uploaded w p d a w'" and p: "parse_alias alias = Inr p"
    and can: "canonical (p_partition_id p)" "canonical (p_alias_in_partition p)" "canonical (p_relative p)"
    and sc: "alias_under_partition (p_partition_id p) (p_alias_in_partition p) = Inr (p_relative p)"
    and live: "\<And>x. a_expires_at a = Some x \<Longrightarrow> r_clock (w_registry w) n < x"
  shows "fst (resolve_alias (p_space p) (p_relative p) ((w_registry w')\<lparr>r_ticks := n\<rparr>)) = Inr a"
proof (rule resolve_bound [where K = "a_aliases a" and i = "a_asset_id a"])
  have k: "qualified_alias (p_space p) (p_relative p) = Inr (p_qualified p)" using parse_alias_Inr [OF p] by blast
  then have "a_aliases a = {p_qualified p}"
    using up can sc by (simp add: uploaded_def scoped_key_def)
  moreover have "lookup_key (p_space p) (p_relative p) = Inr (p_qualified p)"
    using k parse_alias_normal(1) [OF p] can(3) by (simp add: lookup_key_def canonical_normal)
  ultimately show "lookup_key (p_space p) (p_relative p) \<in> Inr ` a_aliases a" by simp
qed (use up live in \<open>auto simp: uploaded_def\<close>)

lemma read_succeeds:
  assumes p: "parse_alias alias = Inr p" "authorized cap READ p (now_in w)" "\<not> c_single_use cap"
    and res: "fst (resolve_alias (p_space p) (p_relative p) ((w_registry w)\<lparr>r_ticks := r_ticks (w_registry w) + 2\<rparr>)) = Inr a"
    and l: "location_for_asset (a_space a) (a_partition_id a) (a_asset_id a) = Inr l"
    and get: "fst (bk_get_object B l (w_store w)) = Inr d"
    and a: "map_of (r_assets (w_registry w)) (a_asset_id a) = Some a"
  shows "fst (read_bytes B cap alias w) = Inr d"
proof -
  let ?r = "(w_registry w)\<lparr>r_ticks := r_ticks (w_registry w) + 2\<rparr>"
  have auth: "wp (authorize cap READ alias) (\<lambda>q w1. q = p \<and> w_registry w1 = ?r \<and> w_store w1 = w_store w) (\<lambda>_ _. False) w"
    by (rule wp_mono [OF wp_authorize]) (use p in \<open>auto simp: only_clock_def\<close>)
  obtain t where t: "resolve_alias (p_space p) (p_relative p) ?r = (Inr a, t)" using res by (metis prod.collapse)
  then have ta: "r_assets t = r_assets (w_registry w)" using resolve_alias_frame [of "p_space p" "p_relative p" ?r] by auto
  obtain s' where s': "bk_get_object B l (w_store w) = (Inr d, s')" using get by (metis prod.collapse)
  have "wp (read_bytes B cap alias) (\<lambda>x _. x = d) (\<lambda>_ _. False) w"
    unfolding read_bytes_def resolve_for_read_def wp_bind
  proof (rule wp_mono [OF auth], goal_cases)
    case (1 q w1)
    then have w1: "q = p" "w_registry w1 = ?r" "w_store w1 = w_store w" by auto
    show ?case
      unfolding w1(1) wp_on_registry w1(2) wp_of_eq [where m = "resolve_alias (p_space p) (p_relative p)", OF t]
      using a p(3)
      by (simp add: wp_simps l w1 wp_of_eq [where m = "bk_get_object B l", OF s'] record_read_def ta tick_def record_successful_use_def)
  qed simp
  from wp_returns [OF this] show ?thesis by auto
qed

text \<open>
  C21: With any store that keeps the contract, what is uploaded through the guard is what a later authorised
  read of the same alias returns, until the asset's deadline, if the store then answers the reading of its
  objects. The alias has to be canonical and must not repeat the partition at the start of the name.
\<close>

theorem upload_read_round_trip:
  assumes "object_store B contents" and "reachable (w_registry w)" and "parse_alias alias = Inr p"
    and "canonical (p_partition_id p)" and "canonical (p_alias_in_partition p)" and "canonical (p_relative p)"
    and "alias_under_partition (p_partition_id p) (p_alias_in_partition p) = Inr (p_relative p)"
    and "write_object B cap alias d mut mime ec ttl w = (Inr a, w1)"
    and "authorized cap' READ p (now_in w1)" and "\<not> c_single_use cap'"
    and "\<forall>x. a_expires_at a = Some x \<longrightarrow> r_clock (w_registry w) (r_ticks (w_registry w1) + 2) < x"
    and "\<forall>l. contents (w_store w1) (object_key l) \<noteq> None \<longrightarrow> (\<exists>x. fst (bk_get_object B l (w_store w1)) = Inr x)"
  shows "fst (read_bytes B cap' alias w1) = Inr d"
proof -
  have "\<exists>l. uploaded w p d a w1 \<and> location_for_asset (a_space a) (a_partition_id a) (a_asset_id a) = Inr l \<and>
      contents (w_store w1) = (contents (w_store w))(object_key l \<mapsto> d)"
    by (rule wp_post [OF assms(8) object_store.wp_write_object [OF assms(1) reachable_inv [OF assms(2)]]]) (use assms(3) in auto)
  then obtain l where up: "uploaded w p d a w1" and l: "location_for_asset (a_space a) (a_partition_id a) (a_asset_id a) = Inr l"
    and st: "contents (w_store w1) (object_key l) = Some d" by auto
  then obtain x s' where x: "bk_get_object B l (w_store w1) = (Inr x, s')" using assms(12) by (metis option.distinct(1) prod.collapse)
  have get: "fst (bk_get_object B l (w_store w1)) = Inr d"
    using wp_result [OF object_store.get_stored [OF assms(1)] x] st x by simp
  let ?r2 = "(w_registry w1)\<lparr>r_ticks := r_ticks (w_registry w1) + 2\<rparr>"
  have res: "fst (resolve_alias (p_space p) (p_relative p) ?r2) = Inr a"
    by (rule uploaded_resolves [OF up assms(3-7)]) (use assms(11) in auto)
  have a: "map_of (r_assets (w_registry w1)) (a_asset_id a) = Some a" using up by (simp add: uploaded_def)
  show ?thesis by (rule read_succeeds [OF assms(3,9,10) res l get a])
qed

lemma path_child_trans: "is_same_path_or_child a b \<Longrightarrow> is_same_path_or_child b c \<Longrightarrow> is_same_path_or_child a c"
  by (auto simp: is_same_path_or_child_def Let_def prefix_def)


section \<open>Failed uploads\<close>

text \<open>No asset becomes available and no counter moves.\<close>

definition no_upload :: "'s world \<Rightarrow> 's world \<Rightarrow> bool" where
  "no_upload w w' \<longleftrightarrow>
     (\<forall>i a. map_of (r_assets (w_registry w')) i = Some a \<and> a_state a = AVAILABLE \<longrightarrow>
        map_of (r_assets (w_registry w)) i = Some a) \<and>
     r_partition_quotas (w_registry w') = r_partition_quotas (w_registry w) \<and>
     r_bucket_quotas (w_registry w') = r_bucket_quotas (w_registry w)"

text \<open>No new bytes are in the store.\<close>

definition no_bytes :: "('s \<Rightarrow> string \<times> string \<Rightarrow> bytes option) \<Rightarrow> 's world \<Rightarrow> 's world \<Rightarrow> bool" where
  "no_bytes contents w w' \<longleftrightarrow> (\<forall>k. contents (w_store w') k \<in> {None, contents (w_store w) k})"

text \<open>
  The store refused to delete: the bytes may be there, but only under a new asset that is recorded as deleted
  with its payload outstanding, which every sweep takes up; the deferral is counted, other objects are as before.
\<close>

definition cleanup_deferred :: "'s backend \<Rightarrow> ('s \<Rightarrow> string \<times> string \<Rightarrow> bytes option) \<Rightarrow> 's world \<Rightarrow> 's world \<Rightarrow> bool" where
  "cleanup_deferred B contents w w' \<longleftrightarrow>
     (\<exists>a l. map_of (r_assets (w_registry w)) (a_asset_id a) = None \<and> map_of (r_assets (w_registry w')) (a_asset_id a) = Some a \<and>
        a_state a = DELETED \<and> a_payload_deleted_at a = None \<and>
        location_for_asset (a_space a) (a_partition_id a) (a_asset_id a) = Inr l \<and>
        w_cleanup_total w' = w_cleanup_total w @ [(loc_bucket l, ''deferred'')] \<and>
        (\<exists>s e. bk_delete_object B l s = (Inl e, w_store w')) \<and>
        (\<forall>k. k \<noteq> object_key l \<longrightarrow> contents (w_store w') k = contents (w_store w) k))"

definition undone :: "'s backend \<Rightarrow> ('s \<Rightarrow> string \<times> string \<Rightarrow> bytes option) \<Rightarrow> 's world \<Rightarrow> 's world \<Rightarrow> bool" where
  "undone B contents w w' \<longleftrightarrow> no_upload w w' \<and> (no_bytes contents w w' \<or> cleanup_deferred B contents w w')"

lemma wp_lifecycle_reclaim:
  assumes "map_of (r_assets r) (a_asset_id a) = Some a" and "a_state a \<in> {PENDING, EXPIRED} \<and> \<not> pd \<or> a_state a = DELETED"
    and "a_payload_deleted_at a = None"
  shows "wp (lifecycle_update a DELETED now reason pd)
     (\<lambda>x t. x = a\<lparr>a_state := DELETED, a_updated_at := now, a_payload_deleted_at := (if pd then Some now else None)\<rparr> \<and>
        r_assets t = AList.update (a_asset_id a) x (r_assets r) \<and>
        r_partition_quotas t = r_partition_quotas r \<and> r_bucket_quotas t = r_bucket_quotas r)
     (\<lambda>_ _. False) r"
  using assms
  by (auto simp: lifecycle_update_def wp_simps validate_cleanup_transition_def cleanup_allowed_def release_quota_def
      Let_def)

lemma no_upload_frame:
  assumes "r_assets (w_registry w') = r_assets (w_registry w)"
    and "r_partition_quotas (w_registry w') = r_partition_quotas (w_registry w)"
    and "r_bucket_quotas (w_registry w') = r_bucket_quotas (w_registry w)" and "w_store w' = w_store w"
  shows "undone B contents w w'"
  using assms by (simp add: undone_def no_upload_def no_bytes_def)

lemma only_clock_undone: "only_clock w w' \<Longrightarrow> undone B contents w w'"
  by (rule no_upload_frame) (auto simp: only_clock_def)

lemma reserved_frame:
  assumes "reserved r a t"
  shows "r_partition_quotas t = r_partition_quotas r" "r_bucket_quotas t = r_bucket_quotas r"
    "r_assets t = AList.update (a_asset_id a) a (r_assets r)"
  using assms by (auto simp: reserved_def elim!: names_checkedE)

lemma unused_records:
  assumes "ledger_ok l" and "c_single_use cap \<longrightarrow> map_of (l_consumed l) (c_capability_id cap) = None"
  shows "wp (record_successful_use now cap) (\<lambda>_ _. True) (\<lambda>_ _. False) l"
  using assms by (auto simp: record_successful_use_def wp_simps ledger_ok_def consumed.prune_lookup)

text \<open>The world between the reservation of an upload and its commit: only bytes of the reserved asset may be new.\<close>

definition half_done :: "('s \<Rightarrow> string \<times> string \<Rightarrow> bytes option) \<Rightarrow> 's world \<Rightarrow> asset \<Rightarrow> object_store_location \<Rightarrow> 's world \<Rightarrow> bool" where
  "half_done contents w a l v \<longleftrightarrow>
     map_of (r_assets (w_registry w)) (a_asset_id a) = None \<and> a_state a = PENDING \<and> a_payload_deleted_at a = None \<and>
     location_for_asset (a_space a) (a_partition_id a) (a_asset_id a) = Inr l \<and>
     r_assets (w_registry v) = AList.update (a_asset_id a) a (r_assets (w_registry w)) \<and>
     r_partition_quotas (w_registry v) = r_partition_quotas (w_registry w) \<and>
     r_bucket_quotas (w_registry v) = r_bucket_quotas (w_registry w) \<and>
     w_cleanup_total v = w_cleanup_total w \<and> (\<forall>k. k \<noteq> object_key l \<longrightarrow> contents (w_store v) k = contents (w_store w) k)"

context object_store
begin

lemma wp_cleanup_failed_upload:
  assumes h: "half_done contents w a l v"
  shows "wp (cleanup_failed_upload B (a_asset_id a) l) (\<lambda>_ w'. undone B contents w w') (\<lambda>_ _. False) v"
proof -
  have v: "map_of (r_assets (w_registry v)) (a_asset_id a) = Some a" using h by (simp add: half_done_def)
  let ?i = "a_asset_id a"
  have fin: "undone B contents w w'" if "r_assets (w_registry w') = AList.update ?i y (r_assets (w_registry v))" "a_state y = DELETED"
      "r_partition_quotas (w_registry w') = r_partition_quotas (w_registry v)" "r_bucket_quotas (w_registry w') = r_bucket_quotas (w_registry v)"
      "contents (w_store w') = (contents (w_store v))(object_key l := None)" for w' y
    using h that by (auto simp: undone_def no_upload_def no_bytes_def half_done_def)
  have del: "undone B contents w w'" if "r_assets (w_registry w') = AList.update ?i y (r_assets (w_registry v))"
      "y = a\<lparr>a_state := DELETED, a_updated_at := now, a_payload_deleted_at := None\<rparr>"
      "r_partition_quotas (w_registry w') = r_partition_quotas (w_registry v)" "r_bucket_quotas (w_registry w') = r_bucket_quotas (w_registry v)"
      "\<forall>k. k \<noteq> object_key l \<longrightarrow> contents (w_store w') k = contents (w_store v) k" "bk_delete_object B l s = (Inl e, w_store w')"
      "w_cleanup_total w' = w_cleanup_total v @ [(loc_bucket l, ''deferred'')]" for w' y now s e
  proof -
    have "cleanup_deferred B contents w w'"
      unfolding cleanup_deferred_def using h that by (intro exI [of _ y] exI [of _ l]) (auto simp: half_done_def)
    then show ?thesis using h that by (auto simp: undone_def no_upload_def half_done_def)
  qed
  have purge: "wp (bk_delete_object B l) (\<lambda>_ s'. contents s' = (contents s)(object_key l := None))
      (\<lambda>e s'. (\<forall>k. k \<noteq> object_key l \<longrightarrow> contents s' k = contents s k) \<and> bk_delete_object B l s = (Inl e, s')) s" for s
    by (rule wpI) (use wp_result [OF delete_gone] wp_error [OF delete_gone] in auto)
  show ?thesis
    unfolding cleanup_failed_upload_def cleanup_outcome_def wp_bind wp_try wp_on_registry asset_lock_def wp_get_asset
    using v h
    apply (simp add: wp_simps half_done_def cong: wp_lazy)
    apply (rule wp_mono [OF wp_lifecycle_reclaim])
        apply (simp_all add: tick_def)
    apply (simp add: wp_simps cong: wp_lazy)
    apply (rule wp_mono [OF purge])
     apply (simp add: wp_simps cong: wp_lazy)
     apply (rule wp_mono [OF wp_lifecycle_reclaim])
         apply (simp_all add: tick_def wp_simps)
     apply (rule fin, simp, simp_all)
    apply (rule del, simp, simp_all, blast)
    done
qed

lemma wp_write_failed:
  assumes inv: "reg_inv (w_registry w)" and led: "ledger_ok (w_ledger w)"
  shows "wp (write_object B cap alias d mut mime ec ttl) (\<lambda>_ _. True) (\<lambda>_ w'. undone B contents w w') w"
  unfolding write_object_def wp_bind
proof (rule wp_mono [OF wp_authorize], goal_cases)
  case (1 p w1)
  then have r1: "w_registry w1 = (w_registry w)\<lparr>r_ticks := r_ticks (w_registry w) + 2\<rparr>" "w_store w1 = w_store w"
    "w_cleanup_total w1 = w_cleanup_total w"
    "ledger_ok (w_ledger w1)" "c_single_use cap \<longrightarrow> map_of (l_consumed (w_ledger w1)) (c_capability_id cap) = None"
    using led by (auto simp: only_clock_def)
  have inv1: "reg_inv (w_registry w1)" using inv by (simp add: r1)
  show ?case
    unfolding wp_try wp_on_registry
  proof (rule wpI, goal_cases)
    case (1 pend t)
    have R: "reserved (w_registry w1) pend t" using wp_result [OF wp_reserve_asset [OF inv1] 1] by blast
    obtain l where l: "location_for_asset (a_space pend) (a_partition_id pend) (a_asset_id pend) = Inr l"
      using reserved_location [OF inv1 R] by blast
    have pend: "map_of (r_assets t) (a_asset_id pend) = Some pend" "a_state pend = PENDING" "a_payload_deleted_at pend = None"
      using R by (auto simp: reserved_def)
    have new: "map_of (r_assets (w_registry w)) (a_asset_id pend) = None"
      using R inv1 by (simp add: reserved_def reg_inv_def ids_fresh_def r1)
    have com: "wp (commit_asset (a_asset_id pend) (int (length d)) (compute_checksum d) c mime ec)
        (\<lambda>_ _. True) (\<lambda>_ t2. t2 = t) t" for c
      by (rule wp_mono [OF commit_reserved [OF inv1 1, where cs = "compute_checksum d"]]) simp_all
    have clean: "wp (cleanup_failed_upload B (a_asset_id pend) l) (\<lambda>_ w'. undone B contents w w') (\<lambda>_ _. False) v"
      if "w_registry v = t" "w_cleanup_total v = w_cleanup_total w" "\<forall>k. k \<noteq> object_key l \<longrightarrow> contents (w_store v) k = contents (w_store w) k" for v
      by (rule wp_cleanup_failed_upload) (use that new pend l R in \<open>simp add: half_done_def reserved_frame [OF R] r1\<close>)
    show ?case
      apply (simp add: wp_seq wp_counts wp_bind wp_of_result l wp_try wp_on_registry asset_lock_def wp_get_asset pend
          wp_check wp_on_objects cong: wp_lazy)
      apply (rule wp_mono [OF put_stored])
       apply (simp_all add: stat_of_def wp_simps)
       apply (rule wp_mono [OF com])
        apply (simp_all add: tick_def)
        apply (rule wp_mono [OF unused_records])
           apply (simp_all add: r1)
       apply (rule wp_mono [OF clean], simp_all add: r1)+
      done
  next
    case (2 e t)
    then have "reserve_failed (w_registry w1) t" using wp_error [OF wp_reserve_asset [OF inv1]] by blast
    then show ?case
      by (simp add: wp_simps) (rule no_upload_frame, auto simp: r1 reserve_failed_def elim!: names_checkedE)
  qed
qed (rule only_clock_undone, simp)

end

text \<open>
  C22: With any store that keeps the contract, an upload that raises, for whatever reason, makes no asset
  available and does not touch the quotas. It leaves no new bytes behind unless deleting them failed; then
  they belong to an asset recorded as deleted with its payload outstanding, and the deferral is counted.
\<close>

theorem failed_upload_leaves_nothing:
  assumes "object_store B contents" and "reachable (w_registry w)" and "ledger_ok (w_ledger w)"
    and "write_object B cap alias d mut mime ec ttl w = (Inl e, w')"
  shows "no_upload w w' \<and> (no_bytes contents w w' \<or> cleanup_deferred B contents w w')"
  using wp_error [OF object_store.wp_write_failed [OF assms(1) reachable_inv [OF assms(2)] assms(3)] assms(4)] unfolding undone_def .

section \<open>The theorems on the concrete guard\<close>

lemma demo_reads:
  "fst (read_bytes local_backend (demo_capability READ ''cache/p'') ''cache/p/x'' demo_written) = Inr [1, 2]"
  by (rule read_succeeds [OF demo_parse(1), where l = "\<lparr>loc_bucket = ''cache'', loc_key = ''p/assets/u''\<rparr>" and a = demo_uploaded])
    (simp_all add: authorized_def demo_covered demo_resolve local_get_eq local_contents_def object_key_def)

lemma fst_Inr: "fst (m w) = Inr x \<Longrightarrow> m w = (Inr x, snd (m w))"
  by (cases "m w") simp

theorem read_authorized_witness:
  "\<exists>p a l. parse_alias ''cache/p/x'' = Inr p \<and> authorized (demo_capability READ ''cache/p'') READ p (now_in demo_written) \<and>
     fst (resolve_alias (p_space p) (p_relative p)
       ((w_registry demo_written)\<lparr>r_ticks := r_ticks (w_registry demo_written) + 2\<rparr>)) = Inr a \<and>
     location_for_asset (a_space a) (a_partition_id a) (a_asset_id a) = Inr l \<and>
     fst (bk_get_object local_backend l (w_store demo_written)) = Inr [1, 2]"
  by (rule read_authorized [OF fst_Inr [where m = "read_bytes local_backend (demo_capability READ ''cache/p'') ''cache/p/x''", OF demo_reads]])

theorem unauthorized_no_effect_witness:
  "(\<exists>e. fst (write_object local_backend (demo_capability WRITE ''cache/p/p'') ''cache/p/x'' [1, 2] False None None None demo_world) = Inl e) \<and>
   no_effect demo_world
     (snd (write_object local_backend (demo_capability WRITE ''cache/p/p'') ''cache/p/x'' [1, 2] False None None None demo_world))"
  using unauthorized_no_effect [OF demo_parse(1), of "demo_capability WRITE ''cache/p/p''" WRITE demo_world]
  by (simp add: authorized_def demo_covered ledger_ok_def new_ledger_def)

theorem presign_bounded_witness:
  "presign_ok (demo_capability READ ''cache/p'') 600 (w_registry demo_written) demo_uploaded 9"
  using presign_bounded [OF fst_Inr [where m = "presign_read signing_backend (demo_capability READ ''cache/p'') ''cache/p/x'' 600",
        OF demo_presign]] by simp

theorem upload_read_round_trip_witness:
  "fst (read_bytes local_backend (demo_capability READ ''cache/p'') ''cache/p/x'' demo_written) = Inr [1, 2]"
  by (rule upload_read_round_trip [OF local_objects.object_store_axioms _ demo_parse(1) _ _ _ _ demo_write [of "''cache/p/x''" "''cache/p''"]])
    (auto simp: demo_reachable_new demo_canonical authorized_def demo_covered local_get_eq)


theorem failed_upload_leaves_nothing_witness:
  "\<exists>w'. write_object stuck_backend (demo_capability WRITE ''cache/p'') ''cache/p/x'' [1, 2] False None (Some ''bad'') None demo_world =
       (Inl ChecksumMismatchError, w') \<and> no_upload demo_world w' \<and> \<not> no_bytes local_contents demo_world w' \<and>
     cleanup_deferred stuck_backend local_contents demo_world w'"
proof -
  obtain w' where run: "write_object stuck_backend (demo_capability WRITE ''cache/p'') ''cache/p/x'' [1, 2] False None (Some ''bad'') None
      demo_world = (Inl ChecksumMismatchError, w')" and bytes: "local_contents (w_store w') (''cache'', ''p/assets/u'') = Some [1, 2]"
    using demo_stuck by (auto simp: wp_def split: prod.splits sum.splits)
  have "\<not> no_bytes local_contents demo_world w'"
    using bytes by (auto simp: no_bytes_def local_contents_def demo_world_def new_local_store_def dest: spec [of _ "''cache''"])
  moreover have "no_upload demo_world w' \<and> (no_bytes local_contents demo_world w' \<or> cleanup_deferred stuck_backend local_contents demo_world w')"
    by (rule failed_upload_leaves_nothing [OF stuck_objects.object_store_axioms _ _ run])
      (simp_all add: demo_reachable_new ledger_ok_def new_ledger_def)
  ultimately show ?thesis using run by blast
qed

end
