(* ===== verification/Lifecycle.thy ===== *)
theory Lifecycle
  imports Guard_Props "HOL-Library.List_Lexorder" "HOL-Library.Char_ord" "HOL-Library.Product_Lexorder"
begin

text \<open>
  The maintenance worker, \<^verbatim>\<open>asset_store_core/lifecycle.py\<close>: which assets a sweep acts on (deadlines and
  orphans, then partition quotas, then pressure on a bucket) and the two-phase application of the
  plan: an asset is fenced as deleted before its bytes are removed. Python compares strings by code
  point and tuples lexicographically, which are the library's orders on \<open>string\<close> and on pairs.
\<close>

section \<open>Policy\<close>

record sweep_policy =
  sp_pending_seconds :: int
  sp_grace_seconds :: "(string, int) dict"
  sp_capacity_bytes :: "(string, int) dict"
  sp_pressure_trigger :: rat
  sp_pressure_target :: rat
  sp_quota_trigger :: rat
  sp_quota_target :: rat

definition default_grace_seconds :: "(string, int) dict" where
  "default_grace_seconds =
     [(''cache'', 7 * 86400), (''tmp'', 86400), (''users'', 7 * 86400), (''results'', 7 * 86400)]"

text \<open>The bounds of the fields, then the validator.\<close>

definition validate_policy :: "sweep_policy \<Rightarrow> error + sweep_policy" where
  "validate_policy p =
     bind_result (guard_result (0 < sp_pending_seconds p \<and>
         0 < sp_pressure_trigger p \<and> sp_pressure_trigger p \<le> 1 \<and> 0 \<le> sp_pressure_target p \<and> sp_pressure_target p < 1 \<and>
         0 < sp_quota_trigger p \<and> sp_quota_trigger p \<le> 1 \<and> 0 \<le> sp_quota_target p \<and> sp_quota_target p < 1) ValueError) (\<lambda>_.
     bind_result (guard_result (fst ` set (sp_grace_seconds p) = STORAGE_BUCKETS \<and>
         \<not> list_ex (\<lambda>(k, v). v < 0) (sp_grace_seconds p)) ValueError) (\<lambda>_.
     bind_result (guard_result (\<not> list_ex (\<lambda>(k, v). k \<notin> STORAGE_BUCKETS \<or> v \<le> 0) (sp_capacity_bytes p)) ValueError) (\<lambda>_.
     bind_result (guard_result (\<not> (sp_pressure_trigger p \<le> sp_pressure_target p \<or> sp_quota_trigger p \<le> sp_quota_target p))
       ValueError) (\<lambda>_. Inr p))))"

definition default_policy :: "environ \<Rightarrow> error + sweep_policy" where
  "default_policy env =
     bind_result (capacity_limits env) (\<lambda>capacity.
     validate_policy \<lparr>sp_pending_seconds = 86400, sp_grace_seconds = default_grace_seconds, sp_capacity_bytes = capacity,
       sp_pressure_trigger = fl (9 / 10), sp_pressure_target = fl (7 / 10),
       sp_quota_trigger = fl (9 / 10), sp_quota_target = 3 / 4\<rparr>)"

section \<open>The plan\<close>

record action =
  ac_asset :: asset
  ac_state :: asset_state
  ac_reason :: string
  ac_purge :: bool

definition score :: "asset \<Rightarrow> datetime \<Rightarrow> rat \<times> string" where
  "score asset now =
     (let age = py_fdiv (max 0 (total_seconds (now - (case a_last_read_at asset of None \<Rightarrow> a_created_at asset | Some t \<Rightarrow> t)))) 86400
      in (py_fmul age (py_float_of_int (or_zero (a_size_bytes asset))), a_asset_id asset))"

text \<open>What is planned, and the local variables of \<open>plan_sweep\<close> that its loops and closures update.\<close>

record plan =
  pl_actions :: "action list"
  pl_selected :: "string set"
  pl_purged :: "string set"
  pl_exhausted :: "string set"
  pl_ratios :: "(string, rat) dict"

definition due_action :: "sweep_policy \<Rightarrow> datetime \<Rightarrow> asset \<Rightarrow> error + action option" where
  "due_action policy now asset =
     (if a_state asset = PENDING \<and> of_int (sp_pending_seconds policy) \<le> total_seconds (now - a_created_at asset) then
        Inr (Some \<lparr>ac_asset = asset, ac_state = DELETED, ac_reason = ''orphan'', ac_purge = True\<rparr>)
      else if a_state asset = AVAILABLE \<and> (case a_expires_at asset of None \<Rightarrow> False | Some d \<Rightarrow> d \<le> now) then
        Inr (Some \<lparr>ac_asset = asset, ac_state = EXPIRED, ac_reason = ''ttl_expired'', ac_purge = False\<rparr>)
      else if a_state asset = EXPIRED then
        (let expired_at = (case a_expired_at asset of None \<Rightarrow> a_updated_at asset | Some t \<Rightarrow> t) in
         case map_of (sp_grace_seconds policy) (a_space asset) of
           None \<Rightarrow> Inl KeyError
         | Some grace \<Rightarrow>
             if of_int grace \<le> total_seconds (now - expired_at) then
               Inr (Some \<lparr>ac_asset = asset, ac_state = DELETED, ac_reason = ''ttl_expired'', ac_purge = True\<rparr>)
             else Inr None)
      else if a_state asset = DELETED \<and> a_payload_deleted_at asset = None then
        Inr (Some \<lparr>ac_asset = asset, ac_state = DELETED, ac_reason = ''orphan'', ac_purge = True\<rparr>)
      else Inr None)"

definition add_action :: "action \<Rightarrow> plan \<Rightarrow> plan" where
  "add_action action p = p\<lparr>pl_actions := pl_actions p @ [action],
     pl_selected := insert (a_asset_id (ac_asset action)) (pl_selected p)\<rparr>"

fun due_phase :: "sweep_policy \<Rightarrow> datetime \<Rightarrow> asset list \<Rightarrow> plan \<Rightarrow> error + plan" where
  "due_phase policy now [] p = Inr p"
| "due_phase policy now (asset # assets) p =
     bind_result (due_action policy now asset) (\<lambda>action.
     due_phase policy now assets
       (case action of
          None \<Rightarrow> p
        | Some ac \<Rightarrow> (add_action ac p)\<lparr>pl_purged :=
            (if ac_purge ac then insert (a_asset_id asset) (pl_purged p) else pl_purged p)\<rparr>))"

definition available :: "plan \<Rightarrow> asset list \<Rightarrow> asset list" where
  "available p grp = filter (\<lambda>a. a_state a = AVAILABLE \<and> a_asset_id a \<notin> pl_selected p) grp"

definition total_size :: "asset list \<Rightarrow> int" where
  "total_size assets = sum_list (map (\<lambda>a. or_zero (a_size_bytes a)) assets)"

text \<open>\<open>sorted(..., reverse=True)\<close> keeps the order of equal elements.\<close>

definition candidates :: "plan \<Rightarrow> datetime \<Rightarrow> asset list \<Rightarrow> asset list" where
  "candidates p now grp =
     rev (sort_key (\<lambda>a. score a now) (rev (filter (\<lambda>a. a_eviction_policy a = INHERIT) (available p grp))))"

fun evict_loop :: "rat \<Rightarrow> string \<Rightarrow> asset list \<Rightarrow> int \<Rightarrow> plan \<Rightarrow> int \<times> plan" where
  "evict_loop target reason [] remaining p = (remaining, p)"
| "evict_loop target reason (asset # rest) remaining p =
     (if of_int remaining \<le> target then (remaining, p)
      else evict_loop target reason rest (remaining - or_zero (a_size_bytes asset))
             (add_action \<lparr>ac_asset = asset, ac_state = EXPIRED, ac_reason = reason, ac_purge = False\<rparr> p))"

definition evict :: "datetime \<Rightarrow> asset list \<Rightarrow> rat \<Rightarrow> string \<Rightarrow> string \<Rightarrow> plan \<Rightarrow> plan" where
  "evict now grp target reason space p =
     (case evict_loop target reason (candidates p now grp) (total_size (available p grp)) p of (remaining, p') \<Rightarrow>
      if target < of_int remaining then p'\<lparr>pl_exhausted := insert space (pl_exhausted p')\<rparr> else p')"

definition quota_step ::
  "sweep_policy \<Rightarrow> datetime \<Rightarrow> asset list \<Rightarrow> string \<times> string \<Rightarrow> partition_quota \<Rightarrow> plan \<Rightarrow> plan" where
  "quota_step policy now assets key quota p =
     (case pq_quota_bytes quota of
        None \<Rightarrow> p
      | Some quota_bytes \<Rightarrow>
          if \<not> pq_eviction_sweep_enabled quota then p
          else
            (let grp = filter (\<lambda>a. (a_space a, a_partition_id a) = key) assets;
                 used = total_size (available p grp) in
             if 0 < used \<and> py_int_fmul quota_bytes (sp_quota_trigger policy) \<le> of_int used
             then evict now grp (py_int_fmul quota_bytes (sp_quota_target policy)) ''quota_lfu'' (fst key) p
             else p))"

fun quota_phase ::
  "sweep_policy \<Rightarrow> datetime \<Rightarrow> asset list \<Rightarrow> (string \<times> string) list \<Rightarrow> plan \<Rightarrow> (registry, plan) op" where
  "quota_phase policy now assets [] p = ret p"
| "quota_phase policy now assets (key # keys) p =
     bind_op (get_partition_quota (fst key) (snd key)) (\<lambda>quota.
     quota_phase policy now assets keys (quota_step policy now assets key quota p))"

definition occupied :: "asset \<Rightarrow> int" where
  "occupied a = (case a_size_bytes a of Some n \<Rightarrow> n | None \<Rightarrow> or_zero (a_reserved_bytes a))"

fun pressure_phase :: "sweep_policy \<Rightarrow> datetime \<Rightarrow> asset list \<Rightarrow> (string \<times> int) list \<Rightarrow> plan \<Rightarrow> plan" where
  "pressure_phase policy now assets [] p = p"
| "pressure_phase policy now assets ((space, capacity) # items) p =
     (let grp = filter (\<lambda>a. a_space a = space) assets;
          physical = sum_list (map occupied (filter (\<lambda>a. a_payload_deleted_at a = None) grp));
          p1 = p\<lparr>pl_ratios := AList.update space (py_int_truediv physical capacity) (pl_ratios p)\<rparr>;
          projected_physical = sum_list (map occupied (filter (\<lambda>a. a_asset_id a \<notin> pl_purged p) grp)) in
      pressure_phase policy now assets items
        (if space \<in> {''cache'', ''tmp''} \<and> py_int_fmul capacity (sp_pressure_trigger policy) \<le> of_int projected_physical
         then evict now grp (py_int_fmul capacity (sp_pressure_target policy)) ''pressure_lfu'' space p1
         else p1))"

definition empty_plan :: plan where
  "empty_plan = \<lparr>pl_actions = [], pl_selected = {}, pl_purged = {}, pl_exhausted = {}, pl_ratios = []\<rparr>"

definition partition_keys :: "asset list \<Rightarrow> (string \<times> string) list" where
  "partition_keys assets =
     sort (filter (\<lambda>k. fst k \<in> {''cache'', ''tmp''}) (remdups (map (\<lambda>a. (a_space a, a_partition_id a)) assets)))"

definition plan_sweep :: "sweep_policy \<Rightarrow> datetime \<Rightarrow> (registry, action list \<times> string set \<times> (string, rat) dict) op" where
  "plan_sweep policy now =
     bind_op list_assets (\<lambda>assets.
     bind_op (of_result (due_phase policy now (sort_key a_asset_id assets) empty_plan)) (\<lambda>p.
     bind_op (quota_phase policy now assets (partition_keys assets) p) (\<lambda>p1.
     (let p2 = pressure_phase policy now assets (sort (sp_capacity_bytes policy)) p1 in
      ret (pl_actions p2, pl_exhausted p2, pl_ratios p2)))))"

section \<open>Applying the plan\<close>

record sweep_report =
  rp_dry_run :: bool
  rp_candidates :: nat
  rp_applied :: nat
  rp_skipped :: nat
  rp_errors :: nat
  rp_exhausted :: "string list"

record 's sweeper =
  sw_registry :: registry
  sw_store :: 's
  sw_evicted_total :: "(string \<times> string) list"
  sw_errors_total :: "string list"
  sw_exhausted :: "string \<rightharpoonup> int"
  sw_used_ratio :: "string \<rightharpoonup> rat"

definition sw_on_registry :: "(registry, 'a) op \<Rightarrow> ('s sweeper, 'a) op" where
  "sw_on_registry = on_part sw_registry (\<lambda>r w. w\<lparr>sw_registry := r\<rparr>)"

definition sw_on_store :: "('s, 'a) op \<Rightarrow> ('s sweeper, 'a) op" where
  "sw_on_store = on_part sw_store (\<lambda>s w. w\<lparr>sw_store := s\<rparr>)"

text \<open>The rechecks under the lock: true when the pressure that motivated the eviction has gone.\<close>

definition quota_relieved :: "sweep_policy \<Rightarrow> asset \<Rightarrow> (registry, bool) op" where
  "quota_relieved policy asset =
     bind_op (get_partition_quota (a_space asset) (a_partition_id asset)) (\<lambda>quota.
     ret (\<not> pq_eviction_sweep_enabled quota \<or>
       (case pq_quota_bytes quota of
          None \<Rightarrow> True
        | Some quota_bytes \<Rightarrow> of_int (pq_used_bytes quota) \<le> py_int_fmul quota_bytes (sp_quota_target policy))))"

definition pressure_relieved :: "sweep_policy \<Rightarrow> asset \<Rightarrow> (registry, bool) op" where
  "pressure_relieved policy asset =
     bind_op (get_bucket_quota (a_space asset)) (\<lambda>quota.
     case map_of (sp_capacity_bytes policy) (a_space asset) of
       None \<Rightarrow> raise KeyError
     | Some capacity \<Rightarrow> ret (of_int (bq_used_bytes quota) \<le> py_int_fmul capacity (sp_pressure_target policy)))"

text \<open>The body of the loop; the result says whether the action was applied or skipped.\<close>

definition purge_payload :: "'s backend \<Rightarrow> datetime \<Rightarrow> action \<Rightarrow> ('s sweeper, bool) op" where
  "purge_payload B now action =
     bind_op (sw_on_registry (asset_lock (a_asset_id (ac_asset action)))) (\<lambda>fenced.
     if a_payload_deleted_at fenced \<noteq> None then ret False
     else
       seq_op (check (a_state fenced = DELETED) RuntimeError) (
       seq_op (sw_on_store (bk_delete_object B \<lparr>loc_bucket = a_space fenced, loc_key = a_storage_key fenced\<rparr>)) (
       seq_op (sw_on_registry (lifecycle_update fenced DELETED now (ac_reason action) True)) (
       ret True))))"

definition apply_action :: "'s backend \<Rightarrow> sweep_policy \<Rightarrow> datetime \<Rightarrow> action \<Rightarrow> ('s sweeper, bool) op" where
  "apply_action B policy now action =
     bind_op (sw_on_registry (asset_lock (a_asset_id (ac_asset action)))) (\<lambda>current.
     if current \<noteq> ac_asset action then ret False
     else
       bind_op (if ac_reason action = ''quota_lfu'' then sw_on_registry (quota_relieved policy (ac_asset action)) else ret False)
         (\<lambda>relieved.
       if relieved then ret False
       else
         bind_op (if ac_reason action = ''pressure_lfu'' then sw_on_registry (pressure_relieved policy (ac_asset action))
                  else ret False) (\<lambda>relieved.
         if relieved then ret False
         else
           seq_op
             (if \<not> ac_purge action \<or> a_state current \<noteq> DELETED
              then sw_on_registry (void (lifecycle_update current (ac_state action) now (ac_reason action) False))
              else ret ()) (
           if ac_purge action then purge_payload B now action else ret True))))"

definition count_applied :: "action \<Rightarrow> ('s sweeper, unit) op" where
  "count_applied action = modify (\<lambda>w. w\<lparr>sw_evicted_total :=
     sw_evicted_total w @ [(a_space (ac_asset action), ac_reason action)]\<rparr>)"

definition count_error :: "action \<Rightarrow> ('s sweeper, unit) op" where
  "count_error action = modify (\<lambda>w. w\<lparr>sw_errors_total := sw_errors_total w @ [a_space (ac_asset action)]\<rparr>)"

definition sweep_action ::
  "'s backend \<Rightarrow> sweep_policy \<Rightarrow> datetime \<Rightarrow> action \<Rightarrow> sweep_report \<Rightarrow> ('s sweeper, sweep_report) op" where
  "sweep_action B policy now action report =
     try_op
       (bind_op (apply_action B policy now action) (\<lambda>applied.
        if applied then seq_op (count_applied action) (ret (report\<lparr>rp_applied := rp_applied report + 1\<rparr>))
        else ret (report\<lparr>rp_skipped := rp_skipped report + 1\<rparr>)))
       (\<lambda>e. seq_op (count_error action) (ret (report\<lparr>rp_errors := rp_errors report + 1\<rparr>)))"

fun sweep_actions ::
  "'s backend \<Rightarrow> sweep_policy \<Rightarrow> datetime \<Rightarrow> action list \<Rightarrow> sweep_report \<Rightarrow> ('s sweeper, sweep_report) op" where
  "sweep_actions B policy now [] report = ret report"
| "sweep_actions B policy now (action # actions) report =
     bind_op (sweep_action B policy now action report) (sweep_actions B policy now actions)"

definition set_gauges :: "string set \<Rightarrow> (string, rat) dict \<Rightarrow> ('s sweeper, unit) op" where
  "set_gauges exhausted ratios = modify (\<lambda>w. w\<lparr>
     sw_exhausted := (\<lambda>s. if s \<in> STORAGE_BUCKETS then Some (if s \<in> exhausted then 1 else 0) else sw_exhausted w s),
     sw_used_ratio := sw_used_ratio w ++ map_of ratios\<rparr>)"

definition run_sweep ::
  "'s backend \<Rightarrow> sweep_policy option \<Rightarrow> bool \<Rightarrow> datetime option \<Rightarrow> ('s sweeper, sweep_report) op" where
  "run_sweep B policy_opt dry_run now_opt =
     bind_op (case policy_opt of
                Some policy \<Rightarrow> ret policy
              | None \<Rightarrow> bind_op (sw_on_registry (gets r_env)) (\<lambda>env. of_result (default_policy env))) (\<lambda>policy.
     bind_op (case now_opt of Some now \<Rightarrow> ret now | None \<Rightarrow> sw_on_registry utcnow) (\<lambda>now.
     bind_op (sw_on_registry (plan_sweep policy now)) (\<lambda>(actions, exhausted, ratios).
     (let report = \<lparr>rp_dry_run = dry_run, rp_candidates = length actions, rp_applied = 0, rp_skipped = 0, rp_errors = 0,
            rp_exhausted = sorted_list_of_set exhausted\<rparr> in
      seq_op (set_gauges exhausted ratios) (
      if dry_run then ret report else sweep_actions B policy now actions report)))))"

end
