(* ===== verification/Lifecycle_Props.thy ===== *)
theory Lifecycle_Props
  imports Lifecycle
begin

text \<open>
  What the maintenance worker promises: eviction is greedy and minimal, plans are justified by triggers and
  deadlines and are complete, bytes are removed only after their asset was fenced, a dry run changes nothing, and
  what is due is reclaimed or counted as an error and kept for the next sweep.
\<close>

section \<open>Selection\<close>

abbreviation action_id :: "action \<Rightarrow> string" where
  "action_id ac \<equiv> a_asset_id (ac_asset ac)"

lemma total_size_simps [simp]:
  "total_size [] = 0" "total_size (a # as) = or_zero (a_size_bytes a) + total_size as"
  by (simp_all add: total_size_def)

lemma add_action_simps [simp]:
  "pl_actions (add_action ac p) = pl_actions p @ [ac]"
  "pl_selected (add_action ac p) = insert (action_id ac) (pl_selected p)"
  "pl_purged (add_action ac p) = pl_purged p" "pl_exhausted (add_action ac p) = pl_exhausted p"
  "pl_ratios (add_action ac p) = pl_ratios p"
  by (simp_all add: add_action_def)

definition eviction :: "string \<Rightarrow> asset \<Rightarrow> action" where
  "eviction reason asset = \<lparr>ac_asset = asset, ac_state = EXPIRED, ac_reason = reason, ac_purge = False\<rparr>"

lemma eviction_simps [simp]:
  "ac_asset (eviction reason a) = a" "ac_state (eviction reason a) = EXPIRED"
  "ac_reason (eviction reason a) = reason" "\<not> ac_purge (eviction reason a)"
  by (simp_all add: eviction_def)

lemma evict_loop_spec:
  "\<exists>n \<le> length cs. evict_loop target reason cs rem p = (rem - total_size (take n cs),
       p\<lparr>pl_actions := pl_actions p @ map (eviction reason) (take n cs),
         pl_selected := a_asset_id ` set (take n cs) \<union> pl_selected p\<rparr>) \<and>
     (\<forall>m<n. target < of_int (rem - total_size (take m cs))) \<and>
     (n = length cs \<or> of_int (rem - total_size (take n cs)) \<le> target)"
proof (induction cs arbitrary: rem p)
  case Nil
  then show ?case by simp
next
  case (Cons a cs)
  show ?case
  proof (cases "of_int rem \<le> target")
    case True
    then show ?thesis by (intro exI [of _ 0]) simp
  next
    case False
    let ?p = "add_action (eviction reason a) p"
    obtain n where n: "n \<le> length cs" "evict_loop target reason cs (rem - or_zero (a_size_bytes a)) ?p =
        (rem - or_zero (a_size_bytes a) - total_size (take n cs),
         ?p\<lparr>pl_actions := pl_actions ?p @ map (eviction reason) (take n cs),
           pl_selected := a_asset_id ` set (take n cs) \<union> pl_selected ?p\<rparr>)"
      "\<forall>m<n. target < of_int (rem - or_zero (a_size_bytes a) - total_size (take m cs))"
      "n = length cs \<or> of_int (rem - or_zero (a_size_bytes a) - total_size (take n cs)) \<le> target"
      using Cons.IH by blast
    have "\<forall>m<Suc n. target < of_int (rem - total_size (take m (a # cs)))"
      using n(3) False by (auto simp: less_Suc_eq_0_disj algebra_simps)
    then show ?thesis
      using False n(1,2,4) by (intro exI [of _ "Suc n"]) (auto simp: eviction_def add_action_def algebra_simps)
  qed
qed

lemma sorted_wrt_candidates: "sorted_wrt (\<lambda>a b. score b now \<le> score a now) (candidates p now grp)"
proof -
  have "sorted (map (\<lambda>a. score a now) (sort_key (\<lambda>a. score a now) xs))" for xs by simp
  then show ?thesis unfolding candidates_def by (simp add: sorted_wrt_rev sorted_wrt_map)
qed

lemma set_candidates:
  "set (candidates p now grp) =
     {a \<in> set grp. a_state a = AVAILABLE \<and> a_asset_id a \<notin> pl_selected p \<and> a_eviction_policy a = INHERIT}"
  by (auto simp: candidates_def available_def)

lemma distinct_candidates:
  assumes "distinct (map a_asset_id grp)"
  shows "distinct (map a_asset_id (candidates p now grp))"
proof -
  have "distinct (map a_asset_id (filter P grp))" for P using assms by (rule distinct_map_filter)
  then show ?thesis
    by (auto simp: candidates_def available_def distinct_map rev_map intro: inj_on_subset)
qed

text \<open>
  C24: Eviction takes exactly as many assets as it needs. The candidates are the available,
  unselected assets of the group that are not exempt, in descending order of score; a prefix of
  them is selected, no shorter prefix would reach the target, and either this one reaches it or
  all candidates are selected and the bucket is reported as exhausted.
\<close>

theorem evict_greedy:
  "\<exists>n. (let cs = candidates p now grp; left = (\<lambda>m. total_size (available p grp) - total_size (take m cs)) in
     pl_actions (evict now grp target reason space p) = pl_actions p @ map (eviction reason) (take n cs) \<and>
     sorted_wrt (\<lambda>a b. score b now \<le> score a now) cs \<and>
     set cs = {a \<in> set grp. a_state a = AVAILABLE \<and> a_asset_id a \<notin> pl_selected p \<and> a_eviction_policy a = INHERIT} \<and>
     (\<forall>m<n. target < of_int (left m)) \<and>
     (of_int (left n) \<le> target \<and> pl_exhausted (evict now grp target reason space p) = pl_exhausted p \<or>
      n = length cs \<and> target < of_int (left n) \<and>
      pl_exhausted (evict now grp target reason space p) = insert space (pl_exhausted p)))"
proof -
  obtain n where n: "n \<le> length (candidates p now grp)"
    "evict_loop target reason (candidates p now grp) (total_size (available p grp)) p =
       (total_size (available p grp) - total_size (take n (candidates p now grp)),
       p\<lparr>pl_actions := pl_actions p @ map (eviction reason) (take n (candidates p now grp)),
         pl_selected := a_asset_id ` set (take n (candidates p now grp)) \<union> pl_selected p\<rparr>)"
    "\<forall>m<n. target < of_int (total_size (available p grp) - total_size (take m (candidates p now grp)))"
    "n = length (candidates p now grp) \<or> of_int (total_size (available p grp) - total_size (take n (candidates p now grp))) \<le> target"
    using evict_loop_spec by blast
  show ?thesis
    unfolding Let_def using n(3,4)
    by (intro exI [of _ n]) (auto simp: evict_def n(2) sorted_wrt_candidates set_candidates)
qed

section \<open>What a plan contains\<close>

definition due :: "sweep_policy \<Rightarrow> datetime \<Rightarrow> asset \<Rightarrow> bool" where
  "due policy now a \<longleftrightarrow>
     a_state a = PENDING \<and> of_int (sp_pending_seconds policy) \<le> total_seconds (now - a_created_at a) \<or>
     a_state a = EXPIRED \<and> (\<exists>grace. map_of (sp_grace_seconds policy) (a_space a) = Some grace \<and>
       of_int grace \<le> total_seconds (now - (case a_expired_at a of None \<Rightarrow> a_updated_at a | Some t \<Rightarrow> t))) \<or>
     a_state a = DELETED \<and> a_payload_deleted_at a = None"

definition justified :: "sweep_policy \<Rightarrow> datetime \<Rightarrow> action \<Rightarrow> bool" where
  "justified policy now ac \<longleftrightarrow> (let a = ac_asset ac in
     if ac_purge ac then ac_state ac = DELETED \<and> ac_reason ac \<in> {''orphan'', ''ttl_expired''} \<and> due policy now a
     else ac_state ac = EXPIRED \<and> a_state a = AVAILABLE \<and>
       (ac_reason ac = ''ttl_expired'' \<and> (\<exists>d. a_expires_at a = Some d \<and> d \<le> now) \<or>
        ac_reason ac \<in> {''quota_lfu'', ''pressure_lfu''} \<and> a_space a \<in> {''cache'', ''tmp''} \<and> a_eviction_policy a = INHERIT))"

definition plan_ok :: "sweep_policy \<Rightarrow> datetime \<Rightarrow> asset list \<Rightarrow> plan \<Rightarrow> bool" where
  "plan_ok policy now assets p \<longleftrightarrow>
     distinct (map action_id (pl_actions p)) \<and> pl_selected p = action_id ` set (pl_actions p) \<and>
     (\<forall>ac \<in> set (pl_actions p). ac_asset ac \<in> set assets \<and> justified policy now ac)"

lemma due_action_justified:
  "due_action policy now a = Inr (Some ac) \<Longrightarrow> ac_asset ac = a \<and> justified policy now ac"
  by (auto simp: due_action_def justified_def due_def Let_def split: if_splits option.splits)

lemma due_action_iff:
  "due_action policy now a = Inr x \<Longrightarrow> due policy now a \<longleftrightarrow> (\<exists>ac. x = Some ac \<and> ac_purge ac)"
  by (auto simp: due_action_def due_def Let_def split: if_splits option.splits)

lemma plan_ok_add:
  assumes "plan_ok policy now assets p" and "action_id ac \<notin> pl_selected p" and "ac_asset ac \<in> set assets"
    and "justified policy now ac"
  shows "plan_ok policy now assets (add_action ac p)"
  using assms by (auto simp: plan_ok_def)

lemma plan_ok_frame [simp]:
  "plan_ok policy now assets (p\<lparr>pl_purged := x\<rparr>) = plan_ok policy now assets p"
  "plan_ok policy now assets (p\<lparr>pl_exhausted := y\<rparr>) = plan_ok policy now assets p"
  "plan_ok policy now assets (p\<lparr>pl_ratios := z\<rparr>) = plan_ok policy now assets p"
  by (simp_all add: plan_ok_def)

lemma due_phase_ok:
  assumes "due_phase policy now xs p = Inr p'" and "plan_ok policy now assets p" and "distinct (map a_asset_id xs)"
    and "a_asset_id ` set xs \<inter> pl_selected p = {}" and "set xs \<subseteq> set assets"
  shows "plan_ok policy now assets p' \<and> set (pl_actions p) \<subseteq> set (pl_actions p') \<and>
     (\<forall>a \<in> set xs. \<forall>ac. due_action policy now a = Inr (Some ac) \<longrightarrow> ac \<in> set (pl_actions p'))"
  using assms
proof (induction xs arbitrary: p)
  case (Cons a xs)
  obtain x where x: "due_action policy now a = Inr x" using Cons.prems(1) by (auto simp: bind_result_def split: sum.splits)
  show ?case
  proof (cases x)
    case None
    then show ?thesis using Cons.prems Cons.IH [of p] x by (simp add: bind_result_def)
  next
    case (Some ac)
    let ?q = "(add_action ac p)\<lparr>pl_purged := (if ac_purge ac then insert (a_asset_id a) (pl_purged p) else pl_purged p)\<rparr>"
    have ac: "ac_asset ac = a" "justified policy now ac" using due_action_justified x Some by auto
    have q: "pl_actions ?q = pl_actions p @ [ac]" "pl_selected ?q = insert (a_asset_id a) (pl_selected p)" by (simp_all add: ac)
    have "plan_ok policy now assets ?q"
      using Cons.prems(2,4,5) ac unfolding plan_ok_frame by (intro plan_ok_add) auto
    moreover have "a_asset_id ` set xs \<inter> pl_selected ?q = {}" using Cons.prems(3,4) unfolding q by auto
    ultimately show ?thesis
      using Cons.prems(1,3,5) Cons.IH [of ?q] x Some unfolding q by (auto simp: bind_result_def)
  qed
qed simp

lemma evict_ok:
  assumes ok: "plan_ok policy now assets p" and grp: "distinct (map a_asset_id grp)" "set grp \<subseteq> set assets"
    and sp: "\<forall>a \<in> set grp. a_space a \<in> {''cache'', ''tmp''}" and reason: "reason \<in> {''quota_lfu'', ''pressure_lfu''}"
  shows "plan_ok policy now assets (evict now grp target reason space p) \<and>
     set (pl_actions p) \<subseteq> set (pl_actions (evict now grp target reason space p))"
proof -
  let ?cs = "candidates p now grp"
  obtain n where n: "evict_loop target reason ?cs (total_size (available p grp)) p =
       (total_size (available p grp) - total_size (take n ?cs),
       p\<lparr>pl_actions := pl_actions p @ map (eviction reason) (take n ?cs),
         pl_selected := a_asset_id ` set (take n ?cs) \<union> pl_selected p\<rparr>)"
    using evict_loop_spec by blast
  have cs: "a \<in> set grp" "a_state a = AVAILABLE" "a_asset_id a \<notin> pl_selected p" "a_eviction_policy a = INHERIT"
    if "a \<in> set (take n ?cs)" for a using that set_candidates [of p now grp] in_set_takeD by fast+
  have "distinct (map a_asset_id (take n ?cs))" using distinct_candidates [OF grp(1)] by (metis distinct_take take_map)
  moreover have "map action_id (map (eviction reason) xs) = map a_asset_id xs" for xs by simp
  moreover have "a_asset_id ` set (take n ?cs) \<inter> pl_selected p = {}" using cs(3) by auto
  ultimately have d: "distinct (map action_id (pl_actions p @ map (eviction reason) (take n ?cs)))"
    using ok unfolding plan_ok_def map_append distinct_append by (metis Int_commute set_map)
  have s: "a_asset_id ` set (take n ?cs) \<union> pl_selected p = action_id ` set (pl_actions p @ map (eviction reason) (take n ?cs))"
    using ok by (simp add: plan_ok_def image_Un image_image Un_commute)
  have "a \<in> set assets \<and> justified policy now (eviction reason a)" if "a \<in> set (take n ?cs)" for a
    using cs [OF that] grp(2) sp reason by (auto simp: justified_def)
  then have "plan_ok policy now assets (p\<lparr>pl_actions := pl_actions p @ map (eviction reason) (take n ?cs),
         pl_selected := a_asset_id ` set (take n ?cs) \<union> pl_selected p\<rparr>)"
    using ok d unfolding s plan_ok_def by auto
  then show ?thesis by (simp add: evict_def n)
qed

lemma distinct_filter_ids: "distinct (map a_asset_id assets) \<Longrightarrow> distinct (map a_asset_id (filter P assets))"
  by (rule distinct_map_filter)

lemma quota_phase_ok:
  assumes "distinct (map a_asset_id assets)" and "plan_ok policy now assets p" and "set keys \<subseteq> {''cache'', ''tmp''} \<times> UNIV"
  shows "wp (quota_phase policy now assets keys p)
     (\<lambda>p' t. t = r \<and> plan_ok policy now assets p' \<and> set (pl_actions p) \<subseteq> set (pl_actions p')) (\<lambda>_ t. t = r) r"
  using assms(2,3)
proof (induction keys arbitrary: p)
  case Nil
  then show ?case by (simp add: wp_simps)
next
  case (Cons k keys)
  let ?grp = "filter (\<lambda>a. (a_space a, a_partition_id a) = k) assets"
  have "\<forall>a \<in> set ?grp. a_space a \<in> {''cache'', ''tmp''}" using Cons.prems(2) by auto
  then have "plan_ok policy now assets (evict now ?grp tgt ''quota_lfu'' sp p) \<and>
      set (pl_actions p) \<subseteq> set (pl_actions (evict now ?grp tgt ''quota_lfu'' sp p))" for tgt sp
    by (intro evict_ok [OF Cons.prems(1) distinct_filter_ids [OF assms(1)]]) auto
  then have step: "plan_ok policy now assets (quota_step policy now assets k q p) \<and>
      set (pl_actions p) \<subseteq> set (pl_actions (quota_step policy now assets k q p))" for q
    using Cons.prems(1) by (simp add: quota_step_def Let_def split: option.split)
  have "wp (quota_phase policy now assets keys (quota_step policy now assets k q p))
      (\<lambda>p' t. t = r \<and> plan_ok policy now assets p' \<and> set (pl_actions p) \<subseteq> set (pl_actions p')) (\<lambda>_ t. t = r) r" for q
    by (rule wp_mono [OF Cons.IH]) (use step [of q] Cons.prems in auto)
  then show ?case
    by (simp add: wp_bind get_partition_quota_def wp_partition_quota_of split: sum.split)
qed

lemma pressure_phase_ok:
  assumes "distinct (map a_asset_id assets)" and "plan_ok policy now assets p"
  shows "plan_ok policy now assets (pressure_phase policy now assets items p) \<and>
     set (pl_actions p) \<subseteq> set (pl_actions (pressure_phase policy now assets items p))"
  using assms(2)
proof (induction items arbitrary: p)
  case (Cons k items)
  obtain sp cap where k: "k = (sp, cap)" by (cases k)
  have ev: "plan_ok policy now assets (evict now (filter (\<lambda>a. a_space a = sp) assets) tgt ''pressure_lfu'' sp (p\<lparr>pl_ratios := z\<rparr>)) \<and>
     set (pl_actions p) \<subseteq> set (pl_actions (evict now (filter (\<lambda>a. a_space a = sp) assets) tgt ''pressure_lfu'' sp (p\<lparr>pl_ratios := z\<rparr>)))"
    if "sp \<in> {''cache'', ''tmp''}" for tgt z
    using evict_ok [of policy now assets "p\<lparr>pl_ratios := z\<rparr>", OF _ distinct_filter_ids [OF assms(1)]] Cons.prems that by auto
  let ?goal = "\<lambda>q. plan_ok policy now assets (pressure_phase policy now assets items q) \<and>
     set (pl_actions p) \<subseteq> set (pl_actions (pressure_phase policy now assets items q))"
  have "?goal (evict now (filter (\<lambda>a. a_space a = sp) assets) tgt ''pressure_lfu'' sp (p\<lparr>pl_ratios := z\<rparr>))"
    if "sp \<in> {''cache'', ''tmp''}" for tgt z
    using ev [OF that, of tgt z] Cons.IH by (meson dual_order.trans)
  moreover have "?goal (p\<lparr>pl_ratios := z\<rparr>)" for z using Cons.IH [of "p\<lparr>pl_ratios := z\<rparr>"] Cons.prems by simp
  ultimately have "?goal (if sp \<in> {''cache'', ''tmp''} \<and> b
      then evict now (filter (\<lambda>a. a_space a = sp) assets) tgt ''pressure_lfu'' sp (p\<lparr>pl_ratios := z\<rparr>) else p\<lparr>pl_ratios := z\<rparr>)" for b tgt z
    by (cases "sp \<in> {''cache'', ''tmp''} \<and> b") (simp_all only: if_True if_False simp_thms)
  then show ?case unfolding k pressure_phase.simps Let_def .
qed simp

lemma listed_assets:
  assumes "reg_inv r"
  defines "xs \<equiv> filter (\<lambda>a. a_payload_deleted_at a = None) (dict_values (r_assets r))"
  shows "distinct (map a_asset_id xs)"
    and "a \<in> set xs \<longleftrightarrow> map_of (r_assets r) (a_asset_id a) = Some a \<and> a_payload_deleted_at a = None"
proof -
  have d: "dict_ok (r_assets r)" and k: "\<And>i a. map_of (r_assets r) i = Some a \<Longrightarrow> a_asset_id a = i"
    using assms(1) by (auto simp: reg_inv_def assets_ok_def)
  have "map a_asset_id (dict_values (r_assets r)) = map fst (r_assets r)"
    using d k unfolding dict_values_def dict_ok_def by (auto intro!: map_cong simp: map_of_is_SomeI)
  then show "distinct (map a_asset_id xs)"
    using d unfolding xs_def dict_ok_def by (metis distinct_filter_ids)
  show "a \<in> set xs \<longleftrightarrow> map_of (r_assets r) (a_asset_id a) = Some a \<and> a_payload_deleted_at a = None"
    unfolding xs_def by (auto simp: dict_values_iff [OF d] dest: k)
qed


definition plan_for :: "sweep_policy \<Rightarrow> datetime \<Rightarrow> registry \<Rightarrow> action list \<Rightarrow> bool" where
  "plan_for policy now r acts \<longleftrightarrow>
     distinct (map action_id acts) \<and>
     (\<forall>ac \<in> set acts. map_of (r_assets r) (action_id ac) = Some (ac_asset ac) \<and> justified policy now ac) \<and>
     (\<forall>i a. map_of (r_assets r) i = Some a \<and> a_payload_deleted_at a = None \<and> due policy now a \<longrightarrow>
        (\<exists>ac \<in> set acts. ac_asset ac = a \<and> ac_purge ac))"

lemma due_phase_total:
  "due_phase policy now xs p = Inr p' \<Longrightarrow> a \<in> set xs \<Longrightarrow> \<exists>x. due_action policy now a = Inr x"
  by (induction xs arbitrary: p) (auto simp: bind_result_def split: sum.splits)

lemma wp_plan_sweep:
  assumes inv: "reg_inv r"
  shows "wp (plan_sweep policy now) (\<lambda>(acts, ex, ratios) t. t = r \<and> plan_for policy now r acts) (\<lambda>_ t. t = r) r"
proof -
  define xs where "xs = filter (\<lambda>a. a_payload_deleted_at a = None) (dict_values (r_assets r))"
  note xs = listed_assets [OF inv, folded xs_def]
  have keys: "set (partition_keys xs) \<subseteq> {''cache'', ''tmp''} \<times> UNIV" by (auto simp: partition_keys_def)
  have sorted: "distinct (map a_asset_id (sort_key a_asset_id xs))"
    using xs(1) by (simp add: distinct_map)
  have fin: "plan_for policy now r (pl_actions p2)"
    if p: "due_phase policy now (sort_key a_asset_id xs) empty_plan = Inr p"
      and p2: "plan_ok policy now xs p2" "set (pl_actions p) \<subseteq> set (pl_actions p2)" for p p2
  proof -
    have all: "ac \<in> set (pl_actions p2)" if "a \<in> set xs" "due_action policy now a = Inr (Some ac)" for a ac
      using due_phase_ok [OF p, where assets = xs] sorted that p2(2) by (auto simp: plan_ok_def empty_plan_def)
    have "\<exists>ac \<in> set (pl_actions p2). ac_asset ac = a \<and> ac_purge ac" if "a \<in> set xs" "due policy now a" for a
      using due_phase_total [OF p, of a] due_action_iff [of policy now a] due_action_justified [of policy now a] all [of a] that
      by fastforce
    then show ?thesis
      using p2(1) xs(2) listed_assets(2) [OF inv] inv unfolding plan_for_def plan_ok_def
      by (auto simp: reg_inv_def assets_ok_def)
  qed
  show ?thesis
    unfolding plan_sweep_def list_assets_def wp_bind wp_gets wp_of_result xs_def [symmetric]
  proof (cases "due_phase policy now (sort_key a_asset_id xs) empty_plan", simp_all)
    fix p assume p: "due_phase policy now (sort_key a_asset_id xs) empty_plan = Inr p"
    have ok: "plan_ok policy now xs p"
      using due_phase_ok [OF p, where assets = xs] sorted by (simp add: plan_ok_def empty_plan_def)
    show "wp (quota_phase policy now xs (partition_keys xs) p)
        (\<lambda>p1. wp (let p2 = pressure_phase policy now xs (sort (sp_capacity_bytes policy)) p1 in
            ret (pl_actions p2, pl_exhausted p2, pl_ratios p2))
          (\<lambda>(acts, ex, ratios) t. t = r \<and> plan_for policy now r acts) (\<lambda>_ t. t = r)) (\<lambda>_ t. t = r) r"
      by (rule wp_mono [OF quota_phase_ok [OF xs(1) ok keys]])
        (use pressure_phase_ok [OF xs(1)] fin [OF p] in \<open>simp_all add: wp_simps Let_def, meson dual_order.trans\<close>)
  qed
qed

section \<open>Why an eviction is planned\<close>

abbreviation part_of :: "asset \<Rightarrow> string \<times> string" where
  "part_of a \<equiv> (a_space a, a_partition_id a)"

text \<open>The available assets whose deadline is still ahead.\<close>

definition live :: "datetime \<Rightarrow> asset list \<Rightarrow> asset list" where
  "live now assets = filter (\<lambda>a. a_state a = AVAILABLE \<and> (case a_expires_at a of None \<Rightarrow> True | Some d \<Rightarrow> now < d)) assets"

text \<open>
  The assets \<open>E\<close> are evicted, in that order, to bring the assets \<open>av\<close> down to a target: they are not exempt, no
  asset with a higher score is spared, each of them was still needed, and they suffice unless all are taken.
\<close>

definition relieves :: "datetime \<Rightarrow> rat \<Rightarrow> asset list \<Rightarrow> asset list \<Rightarrow> bool" where
  "relieves now target av E \<longleftrightarrow> (let cs = {a \<in> set av. a_eviction_policy a = INHERIT} in
     set E \<subseteq> cs \<and> sorted_wrt (\<lambda>a b. score b now \<le> score a now) E \<and>
     (\<forall>a \<in> set E. \<forall>b \<in> cs - set E. score b now \<le> score a now) \<and>
     (\<forall>m < length E. target < of_int (total_size av - total_size (take m E))) \<and>
     (of_int (total_size av - total_size E) \<le> target \<or> set E = cs))"

text \<open>A partition is relieved exactly when it has a byte quota, the sweep is enabled for it and the trigger is reached.\<close>

definition quota_evictions :: "sweep_policy \<Rightarrow> datetime \<Rightarrow> partition_quota \<Rightarrow> asset list \<Rightarrow> asset list \<Rightarrow> bool" where
  "quota_evictions policy now q av E \<longleftrightarrow>
     (case pq_quota_bytes q of
        None \<Rightarrow> E = []
      | Some n \<Rightarrow>
          if pq_eviction_sweep_enabled q \<and> 0 < total_size av \<and> py_int_fmul n (sp_quota_trigger policy) \<le> of_int (total_size av)
          then relieves now (py_int_fmul n (sp_quota_target policy)) av E else E = [])"

text \<open>A bucket is relieved exactly when it is sweepable and what will still be stored in it reaches the trigger.\<close>

definition pressure_evictions :: "sweep_policy \<Rightarrow> datetime \<Rightarrow> string \<Rightarrow> int \<Rightarrow> int \<Rightarrow> asset list \<Rightarrow> asset list \<Rightarrow> bool" where
  "pressure_evictions policy now sp cap stored av E \<longleftrightarrow>
     (if sp \<in> {''cache'', ''tmp''} \<and> py_int_fmul cap (sp_pressure_trigger policy) \<le> of_int stored
      then relieves now (py_int_fmul cap (sp_pressure_target policy)) av E else E = [])"

definition evicted :: "string \<Rightarrow> action list \<Rightarrow> asset list" where
  "evicted reason acts = map ac_asset (filter (\<lambda>ac. ac_reason ac = reason) acts)"

definition evictions_for :: "sweep_policy \<Rightarrow> datetime \<Rightarrow> registry \<Rightarrow> action list \<Rightarrow> bool" where
  "evictions_for policy now r acts \<longleftrightarrow>
     (let assets = filter (\<lambda>a. a_payload_deleted_at a = None) (dict_values (r_assets r)); quota = evicted ''quota_lfu'' acts in
      (\<forall>k. let E = filter (\<lambda>a. part_of a = k) quota in
         if fst k \<in> {''cache'', ''tmp''} \<and> k \<in> part_of ` set assets
         then \<exists>q. fst (get_partition_quota (fst k) (snd k) r) = Inr q \<and>
                quota_evictions policy now q (filter (\<lambda>a. part_of a = k) (live now assets)) E
         else E = []) \<and>
      (\<forall>sp. let E = filter (\<lambda>a. a_space a = sp) (evicted ''pressure_lfu'' acts) in
         case map_of (sp_capacity_bytes policy) sp of
           None \<Rightarrow> E = []
         | Some cap \<Rightarrow> pressure_evictions policy now sp cap
             (sum_list (map occupied (filter (\<lambda>a. a_space a = sp \<and> \<not> due policy now a) assets)))
             (filter (\<lambda>a. a_space a = sp \<and> a \<notin> set quota) (live now assets)) E))"

text \<open>The effect of evictions on the plan.\<close>

definition evicting :: "string \<Rightarrow> asset list \<Rightarrow> plan \<Rightarrow> plan \<Rightarrow> bool" where
  "evicting reason E p p' \<longleftrightarrow> pl_actions p' = pl_actions p @ map (eviction reason) E \<and>
     pl_selected p' = a_asset_id ` set E \<union> pl_selected p \<and> pl_purged p' = pl_purged p"

lemma evicting_nil: "evicting reason [] p p' \<longleftrightarrow> pl_actions p' = pl_actions p \<and> pl_selected p' = pl_selected p \<and> pl_purged p' = pl_purged p"
  by (simp add: evicting_def)

lemma evicting_trans: "evicting reason E p q \<Longrightarrow> evicting reason F q s \<Longrightarrow> evicting reason (E @ F) p s"
  by (auto simp: evicting_def)

lemma evict_relieves: "\<exists>E. evicting reason E p (evict now grp target reason space p) \<and> relieves now target (available p grp) E"
proof -
  let ?cs = "candidates p now grp" and ?t = "total_size (available p grp)"
  obtain n where n: "n \<le> length ?cs" "evict_loop target reason ?cs ?t p = (?t - total_size (take n ?cs),
       p\<lparr>pl_actions := pl_actions p @ map (eviction reason) (take n ?cs),
         pl_selected := a_asset_id ` set (take n ?cs) \<union> pl_selected p\<rparr>)"
    "\<forall>m<n. target < of_int (?t - total_size (take m ?cs))" "n = length ?cs \<or> of_int (?t - total_size (take n ?cs)) \<le> target"
    using evict_loop_spec by blast
  have cs: "{a \<in> set (available p grp). a_eviction_policy a = INHERIT} = set ?cs" by (auto simp: set_candidates available_def)
  have "sorted_wrt (\<lambda>a b. score b now \<le> score a now) (take n ?cs @ drop n ?cs)" by (simp add: sorted_wrt_candidates)
  then have s: "sorted_wrt (\<lambda>a b. score b now \<le> score a now) (take n ?cs)"
    "\<forall>a \<in> set (take n ?cs). \<forall>b \<in> set (drop n ?cs). score b now \<le> score a now"
    unfolding sorted_wrt_append by blast+
  have "set ?cs - set (take n ?cs) \<subseteq> set (drop n ?cs)" by (metis Diff_subset_conv append_take_drop_id set_append subset_refl)
  moreover have "\<forall>m < length (take n ?cs). target < of_int (?t - total_size (take m (take n ?cs)))"
    using n(3) by (simp add: min_def)
  ultimately have "relieves now target (available p grp) (take n ?cs)"
    unfolding relieves_def cs Let_def using s n(1,4) by (auto dest: in_set_takeD)
  moreover have "evicting reason (take n ?cs) p (evict now grp target reason space p)"
    by (simp add: evict_def n(2) evicting_def)
  ultimately show ?thesis by blast
qed

lemma relieves_sub: "relieves now target (available p grp) E \<Longrightarrow> set E \<subseteq> set grp"
  by (auto simp: relieves_def available_def Let_def)

text \<open>Evicted assets are no longer available; assets of other groups are not concerned.\<close>

lemma available_evicting:
  assumes "evicting reason E p p'" and "distinct (map a_asset_id assets)" and "set E \<subseteq> set assets"
  shows "available p' (filter P assets) = filter (\<lambda>a. a \<notin> set E) (available p (filter P assets))"
proof -
  have "a_asset_id a \<in> a_asset_id ` set E \<longleftrightarrow> a \<in> set E" if "a \<in> set assets" for a
    using assms(2,3) that by (auto simp: distinct_map dest: inj_onD)
  then show ?thesis
    using assms(1) by (auto simp: available_def evicting_def filter_filter intro!: filter_cong)
qed

lemma available_others:
  assumes "evicting reason E p p'" and "distinct (map a_asset_id assets)" and "set E \<subseteq> set assets" and "\<forall>a \<in> set E. \<not> P a"
  shows "available p' (filter P assets) = available p (filter P assets)"
  unfolding available_evicting [OF assms(1-3)] using assms(4) by (auto simp: available_def intro!: filter_cong)

lemma quota_step_spec:
  "\<exists>E. evicting ''quota_lfu'' E p (quota_step policy now assets k q p) \<and> set E \<subseteq> set (filter (\<lambda>a. part_of a = k) assets) \<and>
     quota_evictions policy now q (available p (filter (\<lambda>a. part_of a = k) assets)) E"
proof -
  let ?grp = "filter (\<lambda>a. part_of a = k) assets"
  have none: "evicting ''quota_lfu'' [] p p" by (simp add: evicting_nil)
  show ?thesis
  proof (cases "pq_quota_bytes q")
    case None
    then show ?thesis using none by (intro exI [of _ "[]"]) (simp add: quota_step_def quota_evictions_def)
  next
    case (Some n)
    obtain E where E: "evicting ''quota_lfu'' E p (evict now ?grp (py_int_fmul n (sp_quota_target policy)) ''quota_lfu'' (fst k) p)"
      "relieves now (py_int_fmul n (sp_quota_target policy)) (available p ?grp) E" using evict_relieves by blast
    show ?thesis
      using E relieves_sub [OF E(2)] none Some
      by (cases "pq_eviction_sweep_enabled q \<and> 0 < total_size (available p ?grp) \<and>
            py_int_fmul n (sp_quota_trigger policy) \<le> of_int (total_size (available p ?grp))")
        (intro exI [of _ E], simp add: quota_step_def quota_evictions_def Let_def,
         intro exI [of _ "[]"], auto simp: quota_step_def quota_evictions_def Let_def)
  qed
qed

lemma get_partition_quota_pure: "get_partition_quota s p r = (x, t) \<Longrightarrow> t = r"
proof -
  have "wp (get_partition_quota s p) (\<lambda>_ t. t = r) (\<lambda>_ t. t = r) r"
    by (simp add: get_partition_quota_def wp_partition_quota_of split: sum.split)
  then show "get_partition_quota s p r = (x, t) \<Longrightarrow> t = r" by (auto simp: wp_def split: sum.splits)
qed

lemma quota_phase_spec:
  assumes ids: "distinct (map a_asset_id assets)"
  shows "distinct keys \<Longrightarrow> wp (quota_phase policy now assets keys p)
     (\<lambda>p' t. \<exists>E. evicting ''quota_lfu'' E p p' \<and> set E \<subseteq> set assets \<and>
        (\<forall>k. if k \<in> set keys then \<exists>q. fst (get_partition_quota (fst k) (snd k) r) = Inr q \<and>
            quota_evictions policy now q (available p (filter (\<lambda>a. part_of a = k) assets)) (filter (\<lambda>a. part_of a = k) E)
          else filter (\<lambda>a. part_of a = k) E = [])) (\<lambda>_ _. True) r"
proof (induction keys arbitrary: p)
  case Nil
  then show ?case by (auto simp: wp_simps evicting_nil intro!: exI [of _ "[]"])
next
  case (Cons k keys)
  show ?case
    unfolding quota_phase.simps wp_bind
  proof (rule wpI, goal_cases)
    case (1 q t)
    let ?p = "quota_step policy now assets k q p"
    have t: "t = r" and q: "fst (get_partition_quota (fst k) (snd k) r) = Inr q" using get_partition_quota_pure [OF 1] 1 by simp_all
    obtain E where E: "evicting ''quota_lfu'' E p ?p" "set E \<subseteq> set (filter (\<lambda>a. part_of a = k) assets)"
      "quota_evictions policy now q (available p (filter (\<lambda>a. part_of a = k) assets)) E" using quota_step_spec by blast
    then have Ek: "filter (\<lambda>a. part_of a = k') E = (if k' = k then E else [])" "set E \<subseteq> set assets" for k'
      by (auto simp: filter_empty_conv intro!: filter_True)
    have other: "available ?p (filter (\<lambda>a. part_of a = k') assets) = available p (filter (\<lambda>a. part_of a = k') assets)" if "k' \<noteq> k" for k'
      by (rule available_others [OF E(1) ids Ek(2)]) (use E(2) that in auto)
    have "distinct keys" and k: "k \<notin> set keys" using Cons.prems by auto
    show ?case
      unfolding t
    proof (rule wp_mono [OF Cons.IH [OF \<open>distinct keys\<close>]], goal_cases)
      case (1 p' t')
      then obtain F where F: "evicting ''quota_lfu'' F ?p p'" "set F \<subseteq> set assets"
        "\<And>k'. if k' \<in> set keys then \<exists>q. fst (get_partition_quota (fst k') (snd k') r) = Inr q \<and>
            quota_evictions policy now q (available ?p (filter (\<lambda>a. part_of a = k') assets)) (filter (\<lambda>a. part_of a = k') F)
          else filter (\<lambda>a. part_of a = k') F = []" by blast
      have Fk: "filter (\<lambda>a. part_of a = k) F = []" using F(3) [of k] k by simp
      have "if k' \<in> set (k # keys) then \<exists>q. fst (get_partition_quota (fst k') (snd k') r) = Inr q \<and>
            quota_evictions policy now q (available p (filter (\<lambda>a. part_of a = k') assets)) (filter (\<lambda>a. part_of a = k') (E @ F))
          else filter (\<lambda>a. part_of a = k') (E @ F) = []" for k'
      proof (cases "k' = k")
        case True
        then show ?thesis using q E(3) Fk Ek(1) [of k] by auto
      next
        case False
        then show ?thesis using F(3) [of k'] Ek(1) [of k'] unfolding other [OF False] by simp
      qed
      moreover have "set (E @ F) \<subseteq> set assets" using Ek(2) F(2) by simp
      ultimately show ?case using evicting_trans [OF E(1) F(1)] by (intro exI [of _ "E @ F"] conjI allI)
    qed simp
  qed simp
qed

lemma pressure_phase_spec:
  assumes ids: "distinct (map a_asset_id assets)"
  shows "distinct (map fst items) \<Longrightarrow> \<exists>E. evicting ''pressure_lfu'' E p (pressure_phase policy now assets items p) \<and> set E \<subseteq> set assets \<and>
     (\<forall>sp. case map_of items sp of
         None \<Rightarrow> filter (\<lambda>a. a_space a = sp) E = []
       | Some cap \<Rightarrow> pressure_evictions policy now sp cap
             (sum_list (map occupied (filter (\<lambda>a. a_asset_id a \<notin> pl_purged p) (filter (\<lambda>a. a_space a = sp) assets))))
             (available p (filter (\<lambda>a. a_space a = sp) assets)) (filter (\<lambda>a. a_space a = sp) E))"
proof (induction items arbitrary: p)
  case Nil
  then show ?case by (auto simp: evicting_nil intro!: exI [of _ "[]"])
next
  case (Cons x items)
  obtain s cap where x: "x = (s, cap)" by (cases x)
  let ?grp = "\<lambda>sp. filter (\<lambda>a. a_space a = sp) assets"
  let ?stored = "sum_list (map occupied (filter (\<lambda>a. a_asset_id a \<notin> pl_purged p) (?grp s)))"
  let ?r = "p\<lparr>pl_ratios := AList.update s (py_int_truediv (sum_list (map occupied (filter (\<lambda>a. a_payload_deleted_at a = None) (?grp s)))) cap) (pl_ratios p)\<rparr>"
  let ?p = "if s \<in> {''cache'', ''tmp''} \<and> py_int_fmul cap (sp_pressure_trigger policy) \<le> of_int ?stored
         then evict now (?grp s) (py_int_fmul cap (sp_pressure_target policy)) ''pressure_lfu'' s ?r else ?r"
  have step: "pressure_phase policy now assets (x # items) p = pressure_phase policy now assets items ?p"
    unfolding x pressure_phase.simps Let_def ..
  obtain E where E: "evicting ''pressure_lfu'' E p ?p" "set E \<subseteq> set (?grp s)"
    "pressure_evictions policy now s cap ?stored (available p (?grp s)) E"
  proof (cases "s \<in> {''cache'', ''tmp''} \<and> py_int_fmul cap (sp_pressure_trigger policy) \<le> of_int ?stored")
    case True
    obtain E where "evicting ''pressure_lfu'' E ?r (evict now (?grp s) (py_int_fmul cap (sp_pressure_target policy)) ''pressure_lfu'' s ?r)"
      "relieves now (py_int_fmul cap (sp_pressure_target policy)) (available ?r (?grp s)) E" using evict_relieves by blast
    moreover have "available ?r (?grp s) = available p (?grp s)" by (simp add: available_def)
    ultimately show ?thesis
      using True that [of E] relieves_sub [of now _ p "?grp s" E] unfolding if_P [OF True] pressure_evictions_def by (simp add: evicting_def)
  next
    case False
    then show ?thesis using that [of "[]"] unfolding if_not_P [OF False] pressure_evictions_def by (simp add: evicting_nil)
  qed
  then have Es: "filter (\<lambda>a. a_space a = sp) E = (if sp = s then E else [])" "set E \<subseteq> set assets" for sp
    by (auto simp: filter_empty_conv intro!: filter_True)
  have other: "available ?p (?grp sp) = available p (?grp sp)" if "sp \<noteq> s" for sp
    by (rule available_others [OF E(1) ids Es(2)]) (use E(2) that in auto)
  have purged: "pl_purged ?p = pl_purged p" using E(1) by (simp only: evicting_def)
  have "distinct (map fst items)" and s: "map_of items s = None" using Cons.prems by (auto simp: x map_of_eq_None_iff)
  obtain F where F: "evicting ''pressure_lfu'' F ?p (pressure_phase policy now assets items ?p)" "set F \<subseteq> set assets"
    "\<And>sp. case map_of items sp of
         None \<Rightarrow> filter (\<lambda>a. a_space a = sp) F = []
       | Some cap \<Rightarrow> pressure_evictions policy now sp cap
             (sum_list (map occupied (filter (\<lambda>a. a_asset_id a \<notin> pl_purged p) (?grp sp)))) (available ?p (?grp sp)) (filter (\<lambda>a. a_space a = sp) F)"
    using Cons.IH [OF \<open>distinct (map fst items)\<close>, of ?p] unfolding purged by blast
  have Fs: "filter (\<lambda>a. a_space a = s) F = []" using F(3) [of s] s by simp
  have "case map_of (x # items) sp of
         None \<Rightarrow> filter (\<lambda>a. a_space a = sp) (E @ F) = []
       | Some cap \<Rightarrow> pressure_evictions policy now sp cap
             (sum_list (map occupied (filter (\<lambda>a. a_asset_id a \<notin> pl_purged p) (?grp sp)))) (available p (?grp sp)) (filter (\<lambda>a. a_space a = sp) (E @ F))" for sp
  proof (cases "sp = s")
    case True
    then show ?thesis using E(3) Fs Es(1) [of s] by (simp add: x)
  next
    case False
    then show ?thesis using F(3) [of sp] Es(1) [of sp] unfolding other [OF False] by (cases "map_of items sp") (simp_all add: x)
  qed
  moreover have "set (E @ F) \<subseteq> set assets" using Es(2) F(2) by simp
  ultimately show ?case using evicting_trans [OF E(1) F(1)] unfolding step by (intro exI [of _ "E @ F"] conjI allI)
qed

text \<open>The first phase selects exactly what is overdue, and marks what it purges.\<close>

lemma due_phase_exact:
  "due_phase policy now xs p = Inr p' \<Longrightarrow>
     pl_selected p' = pl_selected p \<union> a_asset_id ` {a \<in> set xs. \<exists>ac. due_action policy now a = Inr (Some ac)} \<and>
     pl_purged p' = pl_purged p \<union> a_asset_id ` {a \<in> set xs. due policy now a} \<and>
     (\<exists>D. pl_actions p' = pl_actions p @ D \<and> (\<forall>ac \<in> set D. ac_reason ac \<in> {''orphan'', ''ttl_expired''}))"
proof (induction xs arbitrary: p)
  case (Cons a xs)
  obtain x where x: "due_action policy now a = Inr x" using Cons.prems by (auto simp: bind_result_def split: sum.splits)
  show ?case
  proof (cases x)
    case None
    then show ?thesis
      using Cons.IH [of p] Cons.prems x due_action_iff [OF x] by (auto simp: bind_result_def)
  next
    case (Some ac)
    let ?q = "(add_action ac p)\<lparr>pl_purged := (if ac_purge ac then insert (a_asset_id a) (pl_purged p) else pl_purged p)\<rparr>"
    have ac: "ac_asset ac = a" using due_action_justified x Some by auto
    have reason: "ac_reason ac \<in> {''orphan'', ''ttl_expired''}"
      using x Some by (auto simp: due_action_def Let_def split: if_splits option.splits)
    have "due_phase policy now xs ?q = Inr p'" using Cons.prems x Some by (simp add: bind_result_def)
    from Cons.IH [OF this] obtain D where D: "pl_actions p' = pl_actions p @ ac # D" "\<forall>ac \<in> set D. ac_reason ac \<in> {''orphan'', ''ttl_expired''}"
      and sel: "pl_selected p' = insert (a_asset_id a) (pl_selected p) \<union> a_asset_id ` {a \<in> set xs. \<exists>ac. due_action policy now a = Inr (Some ac)}"
      and pur: "pl_purged p' = (if ac_purge ac then insert (a_asset_id a) (pl_purged p) else pl_purged p) \<union> a_asset_id ` {a \<in> set xs. due policy now a}"
      by (auto simp: ac)
    have "{b \<in> set (a # xs). \<exists>ac. due_action policy now b = Inr (Some ac)} = insert a {b \<in> set xs. \<exists>ac. due_action policy now b = Inr (Some ac)}"
      using x Some by auto
    moreover have "{b \<in> set (a # xs). due policy now b} = (if ac_purge ac then insert a {b \<in> set xs. due policy now b} else {b \<in> set xs. due policy now b})"
      using due_action_iff [OF x] Some by auto
    moreover have "\<exists>D. pl_actions p' = pl_actions p @ D \<and> (\<forall>ac \<in> set D. ac_reason ac \<in> {''orphan'', ''ttl_expired''})"
      using D reason by (intro exI [of _ "ac # D"]) simp
    ultimately show ?thesis using sel pur by simp
  qed
qed simp

lemma live_available:
  assumes "due_phase policy now ys empty_plan = Inr p" and "set ys = set xs" and "distinct (map a_asset_id xs)"
  shows "available p (filter P xs) = filter P (live now xs)"
proof -
  have "a_asset_id a \<in> pl_selected p \<longleftrightarrow> (\<exists>ac. due_action policy now a = Inr (Some ac))" if "a \<in> set xs" for a
    using due_phase_exact [OF assms(1)] assms(2,3) that by (auto simp: empty_plan_def distinct_map dest: inj_onD)
  moreover have "(\<exists>ac. due_action policy now a = Inr (Some ac)) \<longleftrightarrow> \<not> (case a_expires_at a of None \<Rightarrow> True | Some d \<Rightarrow> now < d)"
    if "a_state a = AVAILABLE" for a
    using that by (auto simp: due_action_def split: option.split)
  ultimately show ?thesis by (auto simp: available_def live_def intro!: filter_cong)
qed

lemma distinct_partition_keys: "distinct (partition_keys xs)"
  by (simp add: partition_keys_def)

lemma set_partition_keys: "k \<in> set (partition_keys xs) \<longleftrightarrow> fst k \<in> {''cache'', ''tmp''} \<and> k \<in> part_of ` set xs"
  by (auto simp: partition_keys_def)

lemma wp_plan_evictions:
  assumes inv: "reg_inv r" and cap: "dict_ok (sp_capacity_bytes policy)"
  shows "wp (plan_sweep policy now) (\<lambda>(acts, ex, ratios) _. evictions_for policy now r acts) (\<lambda>_ _. True) r"
proof -
  define xs where "xs = filter (\<lambda>a. a_payload_deleted_at a = None) (dict_values (r_assets r))"
  note xs = listed_assets [OF inv, folded xs_def]
  have items: "distinct (map fst (sort (sp_capacity_bytes policy)))" "map_of (sort (sp_capacity_bytes policy)) = map_of (sp_capacity_bytes policy)"
  proof -
    show d: "distinct (map fst (sort (sp_capacity_bytes policy)))"
      using cap by (simp add: dict_ok_def distinct_map)
    show "map_of (sort (sp_capacity_bytes policy)) = map_of (sp_capacity_bytes policy)"
      using cap by (intro map_of_eqI) (auto simp: dict_ok_def map_of_inject_set d)
  qed
  show ?thesis
    unfolding plan_sweep_def list_assets_def wp_bind wp_gets wp_of_result xs_def [symmetric]
  proof (cases "due_phase policy now (sort_key a_asset_id xs) empty_plan", simp_all)
    fix p assume p: "due_phase policy now (sort_key a_asset_id xs) empty_plan = Inr p"
    obtain D where D: "pl_actions p = D" "\<forall>ac \<in> set D. ac_reason ac \<in> {''orphan'', ''ttl_expired''}"
      and purged: "pl_purged p = a_asset_id ` {a \<in> set xs. due policy now a}"
      using due_phase_exact [OF p] by (auto simp: empty_plan_def)
    have live: "available p (filter P xs) = filter P (live now xs)" for P by (rule live_available [OF p _ xs(1)]) simp
    have stored: "filter (\<lambda>a. a_asset_id a \<notin> pl_purged p) (filter (\<lambda>a. a_space a = sp) xs) = filter (\<lambda>a. a_space a = sp \<and> \<not> due policy now a) xs" for sp
      using xs(1) by (auto simp: purged distinct_map intro!: filter_cong dest: inj_onD)
    have nil: "filter (\<lambda>ac. ac_reason ac = reason) D = []" if "reason \<in> {''quota_lfu'', ''pressure_lfu''}" for reason
      using D(2) that by (auto simp: filter_empty_conv)
    show "wp (quota_phase policy now xs (partition_keys xs) p)
        (\<lambda>p1. wp (let p2 = pressure_phase policy now xs (sort (sp_capacity_bytes policy)) p1 in
            ret (pl_actions p2, pl_exhausted p2, pl_ratios p2))
          (\<lambda>(acts, ex, ratios) _. evictions_for policy now r acts) (\<lambda>_ _. True)) (\<lambda>_ _. True) r"
    proof (rule wp_mono [OF quota_phase_spec [OF xs(1) distinct_partition_keys]], goal_cases)
      case (1 p1 t)
      then obtain Q where Q: "evicting ''quota_lfu'' Q p p1" "set Q \<subseteq> set xs"
        "\<And>k. if k \<in> set (partition_keys xs) then \<exists>q. fst (get_partition_quota (fst k) (snd k) r) = Inr q \<and>
            quota_evictions policy now q (filter (\<lambda>a. part_of a = k) (live now xs)) (filter (\<lambda>a. part_of a = k) Q)
          else filter (\<lambda>a. part_of a = k) Q = []" unfolding live by blast
      let ?p2 = "pressure_phase policy now xs (sort (sp_capacity_bytes policy)) p1"
      have p1: "pl_purged p1 = pl_purged p" "available p1 (filter P xs) = filter (\<lambda>a. P a \<and> a \<notin> set Q) (live now xs)" for P
        using Q(1) by (simp add: evicting_def) (simp add: available_evicting [OF Q(1) xs(1) Q(2)] live conj_commute)
      obtain E where E: "evicting ''pressure_lfu'' E p1 ?p2"
        "\<And>sp. case map_of (sp_capacity_bytes policy) sp of
         None \<Rightarrow> filter (\<lambda>a. a_space a = sp) E = []
       | Some cap \<Rightarrow> pressure_evictions policy now sp cap
             (sum_list (map occupied (filter (\<lambda>a. a_space a = sp \<and> \<not> due policy now a) xs)))
             (filter (\<lambda>a. a_space a = sp \<and> a \<notin> set Q) (live now xs)) (filter (\<lambda>a. a_space a = sp) E)"
        using pressure_phase_spec [OF xs(1) items(1), of p1 policy now] unfolding p1 stored items(2) by blast
      have acts: "pl_actions ?p2 = D @ map (eviction ''quota_lfu'') Q @ map (eviction ''pressure_lfu'') E"
        using Q(1) E(1) by (simp add: evicting_def D(1))
      have ev: "evicted ''quota_lfu'' (pl_actions ?p2) = Q" "evicted ''pressure_lfu'' (pl_actions ?p2) = E"
        unfolding acts evicted_def by (simp_all add: nil filter_map comp_def)
      show ?case
        using Q(3) E(2) unfolding Let_def wp_ret split evictions_for_def ev xs_def [symmetric] set_partition_keys by blast
    qed simp
  qed
qed


section \<open>Applying a plan\<close>

lemma wp_sw_on_registry [wp_simps]:
  "wp (sw_on_registry m) Q E w = wp m (\<lambda>a r. Q a (w\<lparr>sw_registry := r\<rparr>)) (\<lambda>e r. E e (w\<lparr>sw_registry := r\<rparr>)) (sw_registry w)"
  by (simp add: sw_on_registry_def wp_on_part)

lemma wp_sw_on_store [wp_simps]:
  "wp (sw_on_store m) Q E w = wp m (\<lambda>a s. Q a (w\<lparr>sw_store := s\<rparr>)) (\<lambda>e s. E e (w\<lparr>sw_store := s\<rparr>)) (sw_store w)"
  by (simp add: sw_on_store_def wp_on_part)

lemma wp_ifI: "(b \<Longrightarrow> wp m Q E w) \<Longrightarrow> (\<not> b \<Longrightarrow> wp n Q E w) \<Longrightarrow> wp (if b then m else n) Q E w"
  by simp

lemma wp_under_lock:
  assumes "\<And>c. map_of (r_assets (sw_registry w)) i = Some c \<Longrightarrow> wp (f c) Q E w"
    and "E AssetNotFoundError w"
  shows "wp (bind_op (sw_on_registry (asset_lock i)) f) Q E w"
  using assms by (simp add: asset_lock_def wp_bind wp_sw_on_registry wp_get_asset split: option.split)

lemma wp_after_rechecks:
  assumes q: "wp q (\<lambda>_ v. v = w) (\<lambda>_ v. v = w) w" and p: "wp p (\<lambda>_ v. v = w) (\<lambda>_ v. v = w) w"
    and m: "wp m (\<lambda>_. P) (\<lambda>_. P) w" and w: "P w"
  shows "wp (bind_op q (\<lambda>b. if b then ret x else bind_op p (\<lambda>b. if b then ret x else m))) (\<lambda>_. P) (\<lambda>_. P) w"
proof -
  have "wp (bind_op p (\<lambda>b. if b then ret x else m)) (\<lambda>_. P) (\<lambda>_. P) w"
    unfolding wp_bind by (rule wp_mono [OF p]) (use m w in \<open>auto simp: wp_ret\<close>)
  then show ?thesis
    unfolding wp_bind [of q] by (intro wp_mono [OF q]) (use w in \<open>auto simp: wp_ret\<close>)
qed

lemma wp_recheck_quota:
  "wp (if b then sw_on_registry (quota_relieved policy a) else ret x) (\<lambda>_ v. v = w) (\<lambda>_ v. v = w) w"
  by (simp add: quota_relieved_def wp_bind get_partition_quota_def wp_partition_quota_of wp_ret wp_sw_on_registry split: sum.split)

lemma wp_recheck_pressure:
  "wp (if b then sw_on_registry (pressure_relieved policy a) else ret x) (\<lambda>_ v. v = w) (\<lambda>_ v. v = w) w"
  by (simp add: pressure_relieved_def wp_bind get_bucket_quota_def wp_bucket_quota_of wp_simps split: sum.split option.split)

lemma wp_sweep_counts [wp_simps]:
  "wp (count_applied ac) Q E w = Q () (w\<lparr>sw_evicted_total := sw_evicted_total w @ [(a_space (ac_asset ac), ac_reason ac)]\<rparr>)"
  "wp (count_error ac) Q E w = Q () (w\<lparr>sw_errors_total := sw_errors_total w @ [a_space (ac_asset ac)]\<rparr>)"
  by (simp_all add: count_applied_def count_error_def wp_simps)

text \<open>The effect of one update: the registry stays reachable and evolves.\<close>

definition moved :: "registry \<Rightarrow> registry \<Rightarrow> bool" where
  "moved r t \<longleftrightarrow> reachable t \<and> evolves r t"

lemma moved_refl: "reachable r \<Longrightarrow> moved r r"
  by (simp add: moved_def)

lemma moved_trans: "moved r s \<Longrightarrow> moved s t \<Longrightarrow> moved r t"
  by (auto simp: moved_def intro: evolves_trans)

lemma wp_lifecycle_moved:
  assumes "reachable r"
  shows "wp (lifecycle_update a st now reason pd) (\<lambda>_. moved r) (\<lambda>_. moved r) r"
proof (rule wpI, goal_cases)
  case (1 x t)
  then have "exec_call (LifecycleUpdate a st now reason pd) r = (Inr (), t)" by (simp add: void_eq)
  then show ?case using exec_call_step_ok [OF reachable_inv [OF assms]] reachable_exec [OF assms]
    by (metis moved_def snd_conv step_ok_def)
next
  case (2 e t)
  then have "exec_call (LifecycleUpdate a st now reason pd) r = (Inl e, t)"
    by (simp add: void_def seq_op_def bind_op_def)
  then show ?case using exec_call_step_ok [OF reachable_inv [OF assms]] reachable_exec [OF assms]
    by (metis moved_def snd_conv step_ok_def)
qed

lemma moved_deleted:
  assumes "moved r t" and "map_of (r_assets r) i = Some a" and "a_state a = DELETED"
  shows "\<exists>a'. map_of (r_assets t) i = Some a' \<and> a_state a' = DELETED \<and> a_space a' = a_space a \<and> a_storage_key a' = a_storage_key a"
proof -
  obtain a' where "map_of (r_assets t) i = Some a'" "asset_step a a'" using assms by (auto simp: moved_def evolves_def)
  then show ?thesis using assms(3) by (cases "a_state a'") (auto simp: asset_step_def)
qed

text \<open>Bytes disappear only where a deleted asset kept them.\<close>

definition fenced :: "('s \<Rightarrow> (string \<times> string) \<Rightarrow> bytes option) \<Rightarrow> 's sweeper \<Rightarrow> 's sweeper \<Rightarrow> bool" where
  "fenced contents w w' \<longleftrightarrow> moved (sw_registry w) (sw_registry w') \<and>
     (\<forall>k. contents (sw_store w') k \<noteq> contents (sw_store w) k \<longrightarrow>
        (\<exists>i a. map_of (r_assets (sw_registry w')) i = Some a \<and> a_state a = DELETED \<and> k = (a_space a, a_storage_key a)))"

definition tallied :: "nat \<Rightarrow> sweep_report \<Rightarrow> sweep_report \<Rightarrow> bool" where
  "tallied n rep rep' \<longleftrightarrow> rp_applied rep' + rp_skipped rep' + rp_errors rep' = rp_applied rep + rp_skipped rep + rp_errors rep + n \<and>
     rp_dry_run rep' = rp_dry_run rep \<and> rp_candidates rep' = rp_candidates rep \<and> rp_exhausted rep' = rp_exhausted rep"

context object_store
begin

lemma fenced_refl: "reachable (sw_registry w) \<Longrightarrow> fenced contents w w"
  by (simp add: fenced_def moved_refl)

lemma fenced_reachable: "fenced contents w v \<Longrightarrow> reachable (sw_registry v)"
  by (simp add: fenced_def moved_def)

lemma fenced_trans:
  assumes 1: "fenced contents w v" and 2: "fenced contents v u"
  shows "fenced contents w u"
proof -
  have "\<exists>i a. map_of (r_assets (sw_registry u)) i = Some a \<and> a_state a = DELETED \<and> k = (a_space a, a_storage_key a)"
    if "contents (sw_store u) k \<noteq> contents (sw_store w) k" for k
  proof (cases "contents (sw_store u) k = contents (sw_store v) k")
    case True
    then have "contents (sw_store v) k \<noteq> contents (sw_store w) k" using that by simp
    then obtain i a where "map_of (r_assets (sw_registry v)) i = Some a" "a_state a = DELETED" "k = (a_space a, a_storage_key a)"
      using 1 unfolding fenced_def by blast
    then show ?thesis using moved_deleted [of "sw_registry v" "sw_registry u" i a] 2 unfolding fenced_def by metis
  qed (use 2 in \<open>unfold fenced_def, blast\<close>)
  then show ?thesis using 1 2 moved_trans unfolding fenced_def by blast
qed

lemma fenced_moved: "moved (sw_registry w) t \<Longrightarrow> fenced contents w (w\<lparr>sw_registry := t\<rparr>)"
  by (simp add: fenced_def)

lemma fenced_counts:
  "fenced contents w (v\<lparr>sw_evicted_total := x\<rparr>) = fenced contents w v" "fenced contents w (v\<lparr>sw_errors_total := y\<rparr>) = fenced contents w v"
  by (simp_all add: fenced_def)

lemma fenced_deleted:
  assumes "reachable (sw_registry w)" and "map_of (r_assets (sw_registry w)) i = Some a" "a_state a = DELETED"
    and "\<forall>k. k \<noteq> (a_space a, a_storage_key a) \<longrightarrow> contents s k = contents (sw_store w) k"
  shows "fenced contents w (w\<lparr>sw_store := s\<rparr>)"
  unfolding fenced_def using assms moved_refl by auto

lemma wp_purge_fenced:
  assumes "reachable (sw_registry w)"
  shows "wp (purge_payload B now ac) (\<lambda>_. fenced contents w) (\<lambda>_. fenced contents w) w"
proof (cases "map_of (r_assets (sw_registry w)) (a_asset_id (ac_asset ac))")
  case None
  then show ?thesis by (simp add: purge_payload_def asset_lock_def wp_simps fenced_refl assms)
next
  case (Some a)
  let ?l = "\<lparr>loc_bucket = a_space a, loc_key = a_storage_key a\<rparr>"
  have upd: "wp (lifecycle_update a DELETED now (ac_reason ac) True)
      (\<lambda>x t. fenced contents w (w\<lparr>sw_store := s, sw_registry := t\<rparr>)) (\<lambda>e t. fenced contents w (w\<lparr>sw_store := s, sw_registry := t\<rparr>)) (sw_registry w)"
    if "fenced contents w (w\<lparr>sw_store := s\<rparr>)" for s
    by (rule wp_mono [OF wp_lifecycle_moved [OF assms]];
        rule fenced_trans [OF that]; rule fenced_moved [of "w\<lparr>sw_store := s\<rparr>", simplified]; simp)
  have del: "wp (bk_delete_object B ?l) (\<lambda>_ s. fenced contents w (w\<lparr>sw_store := s\<rparr>)) (\<lambda>_ s. fenced contents w (w\<lparr>sw_store := s\<rparr>)) (sw_store w)"
    if "a_state a = DELETED"
    by (rule wp_mono [OF delete_gone]) (rule fenced_deleted [OF assms Some that], simp add: object_key_def)+
  show ?thesis
  proof (cases "a_payload_deleted_at a = None \<and> a_state a = DELETED")
    case True
    have "wp (bk_delete_object B ?l)
        (\<lambda>_ s. wp (lifecycle_update a DELETED now (ac_reason ac) True) (\<lambda>x t. fenced contents w (w\<lparr>sw_store := s, sw_registry := t\<rparr>))
          (\<lambda>e t. fenced contents w (w\<lparr>sw_store := s, sw_registry := t\<rparr>)) (sw_registry w))
        (\<lambda>_ s. fenced contents w (w\<lparr>sw_store := s\<rparr>)) (sw_store w)"
      by (rule wp_mono [OF del]) (use True upd in blast)+
    then show ?thesis using True
      by (simp add: purge_payload_def asset_lock_def wp_bind wp_sw_on_registry wp_get_asset wp_if wp_seq wp_check wp_sw_on_store wp_ret Some)
  next
    case False
    then show ?thesis using fenced_refl [OF assms] by (auto simp: purge_payload_def asset_lock_def wp_simps Some)
  qed
qed

lemma wp_apply_fenced:
  assumes "reachable (sw_registry w)"
  shows "wp (apply_action B policy now ac) (\<lambda>_. fenced contents w) (\<lambda>_. fenced contents w) w"
proof -
  have purge: "wp (purge_payload B now ac) (\<lambda>_. fenced contents w) (\<lambda>_. fenced contents w) v" if "fenced contents w v" for v
    by (rule wp_mono [OF wp_purge_fenced [OF fenced_reachable [OF that]]]) (use that fenced_trans in blast)+
  have upd: "wp (lifecycle_update a st now reason pd)
      (\<lambda>_ t. fenced contents w (w\<lparr>sw_registry := t\<rparr>)) (\<lambda>_ t. fenced contents w (w\<lparr>sw_registry := t\<rparr>)) (sw_registry w)" for a st reason pd
    by (rule wp_mono [OF wp_lifecycle_moved [OF assms]]) (simp_all add: fenced_moved)
  have rest: "wp (seq_op (if \<not> ac_purge ac \<or> a_state c \<noteq> DELETED
              then sw_on_registry (void (lifecycle_update c (ac_state ac) now (ac_reason ac) False)) else ret ())
             (if ac_purge ac then purge_payload B now ac else ret True))
      (\<lambda>_. fenced contents w) (\<lambda>_. fenced contents w) w" for c
  proof -
    have fin: "wp (if ac_purge ac then purge_payload B now ac else ret True) (\<lambda>_. fenced contents w) (\<lambda>_. fenced contents w) v"
      if "fenced contents w v" for v using purge that by (simp add: wp_simps)
    have "wp (lifecycle_update c (ac_state ac) now (ac_reason ac) False)
        (\<lambda>_ t. wp (if ac_purge ac then purge_payload B now ac else ret True) (\<lambda>_. fenced contents w) (\<lambda>_. fenced contents w)
          (w\<lparr>sw_registry := t\<rparr>)) (\<lambda>_ t. fenced contents w (w\<lparr>sw_registry := t\<rparr>)) (sw_registry w)"
      by (rule wp_mono [OF upd]) (use fin in blast)+
    then show ?thesis using fin [OF fenced_refl [OF assms]]
      unfolding wp_seq wp_if wp_sw_on_registry wp_void wp_ret by simp
  qed
  have "wp (bind_op (if ac_reason ac = ''quota_lfu'' then sw_on_registry (quota_relieved policy (ac_asset ac)) else ret False)
         (\<lambda>relieved. if relieved then ret False else
         bind_op (if ac_reason ac = ''pressure_lfu'' then sw_on_registry (pressure_relieved policy (ac_asset ac))
                  else ret False) (\<lambda>relieved.
         if relieved then ret False
         else seq_op (if \<not> ac_purge ac \<or> a_state c \<noteq> DELETED
              then sw_on_registry (void (lifecycle_update c (ac_state ac) now (ac_reason ac) False))
              else ret ()) (if ac_purge ac then purge_payload B now ac else ret True))))
      (\<lambda>_. fenced contents w) (\<lambda>_. fenced contents w) w" for c
    by (rule wp_after_rechecks [OF wp_recheck_quota wp_recheck_pressure rest fenced_refl [OF assms]])
  then show ?thesis
    unfolding apply_action_def by (intro wp_under_lock wp_ifI) (simp_all only: wp_ret fenced_refl assms)
qed

lemma wp_sweep_action:
  assumes "reachable (sw_registry w)"
  shows "wp (sweep_action B policy now ac rep) (\<lambda>rep' w'. fenced contents w w' \<and> tallied 1 rep rep') (\<lambda>_ _. False) w"
  unfolding sweep_action_def wp_try wp_bind
  by (rule wp_mono [OF wp_apply_fenced [OF assms]]) (simp_all add: wp_simps fenced_counts tallied_def)

lemma wp_sweep_actions:
  "reachable (sw_registry w) \<Longrightarrow> wp (sweep_actions B policy now acts rep)
     (\<lambda>rep' w'. fenced contents w w' \<and> tallied (length acts) rep rep') (\<lambda>_ _. False) w"
proof (induction acts arbitrary: w rep)
  case Nil
  then show ?case by (simp add: wp_simps fenced_refl tallied_def)
next
  case (Cons ac acts)
  show ?case
    unfolding sweep_actions.simps wp_bind
  proof (rule wp_mono [OF wp_sweep_action [OF Cons.prems]], goal_cases)
    case (1 rep1 w1)
    then show ?case
      by (intro wp_mono [OF Cons.IH [OF fenced_reachable [of w]]]) (auto simp: tallied_def intro: fenced_trans)
  qed simp
qed

end

section \<open>Whole sweeps\<close>

lemma wp_clock_moved: "reachable r \<Longrightarrow> wp utcnow (\<lambda>_ t. moved r t \<and> t = r\<lparr>r_ticks := Suc (r_ticks r)\<rparr>) (\<lambda>_ _. False) r"
  using reachable.call [of r ReadClock]
  by (simp add: wp_simps moved_def evolves_def void_def seq_op_def bind_op_def utcnow_def ret_def)

lemma plan_for_ticks [simp]: "plan_for policy now (r\<lparr>r_ticks := n\<rparr>) acts = plan_for policy now r acts"
  by (simp add: plan_for_def)

text \<open>Where a sweep starts to act: policy and instant are known, the plan is made.\<close>

lemma wp_run_sweep:
  assumes r: "reachable (sw_registry w)"
    and act: "\<And>policy now acts ex n rep v. plan_for policy now (sw_registry w) acts \<Longrightarrow>
      rep = \<lparr>rp_dry_run = False, rp_candidates = length acts, rp_applied = 0, rp_skipped = 0, rp_errors = 0,
            rp_exhausted = sorted_list_of_set ex\<rparr> \<Longrightarrow>
      reachable (sw_registry v) \<Longrightarrow> sw_registry v = (sw_registry w)\<lparr>r_ticks := n\<rparr> \<Longrightarrow> r_ticks (sw_registry w) \<le> n \<Longrightarrow> sw_store v = sw_store w \<Longrightarrow>
      policy_opt = None \<or> policy_opt = Some policy \<Longrightarrow> now_opt = None \<or> now_opt = Some now \<Longrightarrow> \<not> dry \<Longrightarrow>
      wp (sweep_actions B policy now acts rep) Q E v"
    and idle: "\<And>n rep v. reachable (sw_registry v) \<Longrightarrow> sw_registry v = (sw_registry w)\<lparr>r_ticks := n\<rparr> \<Longrightarrow> r_ticks (sw_registry w) \<le> n \<Longrightarrow>
      sw_store v = sw_store w \<Longrightarrow> dry \<Longrightarrow> Q rep v"
    and err: "\<And>e n v. reachable (sw_registry v) \<Longrightarrow> sw_registry v = (sw_registry w)\<lparr>r_ticks := n\<rparr> \<Longrightarrow> r_ticks (sw_registry w) \<le> n \<Longrightarrow>
      sw_store v = sw_store w \<Longrightarrow> E e v"
  shows "wp (run_sweep B policy_opt dry now_opt) Q E w"
proof -
  have self: "sw_registry w = (sw_registry w)\<lparr>r_ticks := r_ticks (sw_registry w)\<rparr>" by simp
  have plan: "wp (bind_op (sw_on_registry (plan_sweep policy now)) (\<lambda>(actions, exhausted, ratios).
     (let report = \<lparr>rp_dry_run = dry, rp_candidates = length actions, rp_applied = 0, rp_skipped = 0, rp_errors = 0,
            rp_exhausted = sorted_list_of_set exhausted\<rparr> in
      seq_op (set_gauges exhausted ratios) (
      if dry then ret report else sweep_actions B policy now actions report)))) Q E v"
    if v: "reachable (sw_registry v)" "sw_registry v = (sw_registry w)\<lparr>r_ticks := n\<rparr>" "r_ticks (sw_registry w) \<le> n" "sw_store v = sw_store w"
      "policy_opt = None \<or> policy_opt = Some policy" "now_opt = None \<or> now_opt = Some now" for v n policy now
    unfolding wp_bind wp_sw_on_registry
  proof (rule wp_mono [OF wp_plan_sweep [OF reachable_inv [OF v(1)]]], goal_cases)
    case (1 x r1)
    obtain acts ex ratios where x: "x = (acts, ex, ratios)" by (cases x)
    have "plan_for policy now (sw_registry w) acts" using 1 v(2) by (simp add: x)
    then show ?case
      using 1 v act idle by (cases dry) (auto simp: x Let_def wp_seq set_gauges_def wp_modify wp_ret)
  next
    case (2 e r1)
    then show ?case using err v by auto
  qed
  have clock: "wp (bind_op (case now_opt of Some now \<Rightarrow> ret now | None \<Rightarrow> sw_on_registry utcnow) (\<lambda>now.
      bind_op (sw_on_registry (plan_sweep policy now)) (\<lambda>(actions, exhausted, ratios).
     (let report = \<lparr>rp_dry_run = dry, rp_candidates = length actions, rp_applied = 0, rp_skipped = 0, rp_errors = 0,
            rp_exhausted = sorted_list_of_set exhausted\<rparr> in
      seq_op (set_gauges exhausted ratios) (
      if dry then ret report else sweep_actions B policy now actions report))))) Q E w"
    if "policy_opt = None \<or> policy_opt = Some policy" for policy
  proof (cases now_opt)
    case None
    show ?thesis
      unfolding None option.case wp_bind [of "sw_on_registry utcnow"] wp_sw_on_registry
      by (rule wp_mono [OF wp_clock_moved [OF r]]) (use None that in \<open>auto simp: moved_def intro!: plan\<close>)
  next
    case (Some t)
    then show ?thesis unfolding Some option.case wp_bind [of "ret t"] wp_ret by (intro plan [OF r self]) (use that Some in simp_all)
  qed
  show ?thesis
  proof (cases policy_opt)
    case None
    then show ?thesis
      using err [OF r self order.refl] clock
      by (simp add: run_sweep_def wp_bind [of "bind_op _ _"] wp_bind [of "sw_on_registry _"] wp_sw_on_registry wp_gets wp_of_result
          split: sum.split)
  next
    case (Some p)
    then show ?thesis using clock by (simp add: run_sweep_def wp_bind [of "ret _"] wp_ret)
  qed
qed


text \<open>
  C26: Bytes are removed only behind a fence. With any object store that meets the contract,
  whatever calls of it fail, a sweep leaves the registry in a reachable state that evolved from the
  one before, every object that disappeared belonged to an asset that is recorded as deleted, and
  each planned action was applied, skipped or counted as an error.
\<close>

theorem sweep_fences_bytes:
  assumes "object_store B contents" and "reachable (sw_registry w)"
    and "run_sweep B policy_opt dry now_opt w = (Inr rep, w')"
  shows "fenced contents w w' \<and>
     (\<not> dry \<longrightarrow> rp_applied rep + rp_skipped rep + rp_errors rep = rp_candidates rep)"
proof -
  note acts = object_store.wp_sweep_actions [OF assms(1)]
  have moved: "fenced contents w v" if "reachable (sw_registry v)" "sw_registry v = (sw_registry w)\<lparr>r_ticks := n\<rparr>" "r_ticks (sw_registry w) \<le> n" "sw_store v = sw_store w" for v n
    using that by (simp add: fenced_def moved_def evolves_def)
  have "wp (run_sweep B policy_opt dry now_opt) (\<lambda>rep w'. fenced contents w w' \<and>
     (\<not> dry \<longrightarrow> rp_applied rep + rp_skipped rep + rp_errors rep = rp_candidates rep)) (\<lambda>_ _. True) w"
  proof (rule wp_run_sweep [OF assms(2)], goal_cases)
    case (1 policy now planned ex n rep v)
    note v = moved [OF 1(3,4,5,6)]
    show ?case
      by (rule wp_mono [OF acts [OF 1(3)]]) (use 1(2) object_store.fenced_trans [OF assms(1) v] in \<open>auto simp: tallied_def\<close>)
  qed (simp_all add: moved)
  then show ?thesis using assms(3) by (auto dest: wp_result)
qed

text \<open>
  C27: A dry run, or one that fails while planning, changes neither assets, aliases, quotas, audit
  log nor stored bytes; only the clock is read.
\<close>

theorem dry_run_no_effect:
  assumes "reachable (sw_registry w)"
  shows "sw_store (snd (run_sweep B policy_opt True now_opt w)) = sw_store w \<and>
     (\<exists>n. sw_registry (snd (run_sweep B policy_opt True now_opt w)) = (sw_registry w)\<lparr>r_ticks := n\<rparr>)"
  by (rule wp_snd [of _ "\<lambda>v. sw_store v = sw_store w \<and> (\<exists>n. sw_registry v = (sw_registry w)\<lparr>r_ticks := n\<rparr>)"],
      rule wp_run_sweep [OF assms]) auto

section \<open>What is due is reclaimed\<close>

definition reclaimed :: "('s \<Rightarrow> (string \<times> string) \<Rightarrow> bytes option) \<Rightarrow> datetime \<Rightarrow> asset \<Rightarrow> 's sweeper \<Rightarrow> bool" where
  "reclaimed contents now a w \<longleftrightarrow>
     (\<exists>a'. map_of (r_assets (sw_registry w)) (a_asset_id a) = Some a' \<and> a_state a' = DELETED \<and> a_payload_deleted_at a' = Some now) \<and>
     contents (sw_store w) (a_space a, a_storage_key a) = None"

text \<open>
  The store refused to delete the bytes: they may remain, behind an asset that is recorded as deleted with its
  payload outstanding, and an error was counted for the bucket.
\<close>

definition outstanding :: "'s backend \<Rightarrow> string list \<Rightarrow> asset \<Rightarrow> 's sweeper \<Rightarrow> bool" where
  "outstanding B errors a w \<longleftrightarrow>
     (\<exists>a'. map_of (r_assets (sw_registry w)) (a_asset_id a) = Some a' \<and> a_state a' = DELETED \<and> a_payload_deleted_at a' = None) \<and>
     a_space a \<in> set errors \<and>
     (\<exists>s e. fst (bk_delete_object B \<lparr>loc_bucket = a_space a, loc_key = a_storage_key a\<rparr> s) = Inl e)"

lemma wp_lifecycle_frame:
  assumes "i \<noteq> a_asset_id a"
  shows "wp (lifecycle_update a st now reason pd) (\<lambda>_ t. map_of (r_assets t) i = map_of (r_assets r) i)
     (\<lambda>_ t. map_of (r_assets t) i = map_of (r_assets r) i) r"
  using assms
  by (auto simp: lifecycle_update_def release_quota_def wp_simps Let_def split: option.split sum.split)

text \<open>Errors are counted by the loop only.\<close>

lemma wp_log_part:
  assumes "sw_errors_total w = es" and "\<And>a v. sw_errors_total v = es \<Longrightarrow> Q a v" and "\<And>e v. sw_errors_total v = es \<Longrightarrow> E e v"
  shows "wp (sw_on_registry m) Q E w" "wp (sw_on_store n) Q E w"
  unfolding wp_sw_on_registry wp_sw_on_store using assms by (auto intro!: wpI)

lemma if_boolI: "(b \<Longrightarrow> P) \<Longrightarrow> (\<not> b \<Longrightarrow> Q) \<Longrightarrow> if b then P else Q"
  by simp

lemma wp_apply_log:
  "sw_errors_total w = es \<Longrightarrow> wp (apply_action B policy now ac) (\<lambda>_ v. sw_errors_total v = es) (\<lambda>_ v. sw_errors_total v = es) w"
  unfolding apply_action_def purge_payload_def wp_bind wp_seq wp_if wp_check wp_ret
  by (intro wp_log_part if_boolI | assumption)+

definition logged :: "sweep_report \<Rightarrow> 's sweeper \<Rightarrow> string list \<Rightarrow> sweep_report \<Rightarrow> 's sweeper \<Rightarrow> bool" where
  "logged rep w errors rep' w' \<longleftrightarrow> sw_errors_total w' = sw_errors_total w @ errors \<and> rp_errors rep' = rp_errors rep + length errors"

lemma wp_sweep_log:
  "wp (sweep_action B policy now ac rep) (\<lambda>rep' w'. \<exists>es. logged rep w es rep' w') (\<lambda>_ _. False) w"
  unfolding sweep_action_def wp_try wp_bind
  by (rule wp_mono [OF wp_apply_log [OF refl]]) (simp_all add: wp_simps logged_def)

text \<open>An action leaves other assets and the absence of other objects alone.\<close>

definition kept :: "('s \<Rightarrow> (string \<times> string) \<Rightarrow> bytes option) \<Rightarrow> asset \<Rightarrow> 's sweeper \<Rightarrow> 's sweeper \<Rightarrow> bool" where
  "kept contents a w w' \<longleftrightarrow> map_of (r_assets (sw_registry w')) (a_asset_id a) = map_of (r_assets (sw_registry w)) (a_asset_id a) \<and>
     (contents (sw_store w) (a_space a, a_storage_key a) = None \<longrightarrow> contents (sw_store w') (a_space a, a_storage_key a) = None)"

lemma kept_refl: "kept contents a w w"
  by (simp add: kept_def)

lemma kept_trans: "kept contents a w v \<Longrightarrow> kept contents a v u \<Longrightarrow> kept contents a w u"
  by (simp add: kept_def)

lemma kept_registry:
  "map_of (r_assets t) (a_asset_id a) = map_of (r_assets (sw_registry w)) (a_asset_id a) \<Longrightarrow> kept contents a w (w\<lparr>sw_registry := t\<rparr>)"
  by (simp add: kept_def)

context deleting_store
begin

lemma delete_kept:
  "wp (bk_delete_object B l) (\<lambda>_ s'. \<forall>k. contents s k = None \<longrightarrow> contents s' k = None) (\<lambda>_ s'. \<forall>k. contents s k = None \<longrightarrow> contents s' k = None) s"
  by (rule wp_mono [OF wp_conj [OF delete_gone delete_failed [of l s]]]) (simp, metis empty_iff insert_iff)

lemma wp_purge_due:
  assumes a: "map_of (r_assets (sw_registry w)) (a_asset_id b) = Some b" "a_state b = DELETED" "a_payload_deleted_at b = None"
    and b: "a_asset_id b = action_id ac" "a_space b = a_space a" "a_storage_key b = a_storage_key a" "a_asset_id a = action_id ac"
  shows "wp (purge_payload B now ac) (\<lambda>x w'. x \<and> reclaimed contents now a w')
     (\<lambda>_ w'. outstanding B [a_space a] a w') w"
proof -
  let ?l = "\<lparr>loc_bucket = a_space a, loc_key = a_storage_key a\<rparr>"
  have upd: "wp (lifecycle_update b DELETED now (ac_reason ac) True)
      (\<lambda>_ t. reclaimed contents now a (w\<lparr>sw_store := s, sw_registry := t\<rparr>)) E (sw_registry w)"
    if "contents s (a_space a, a_storage_key a) = None" for s E
    by (rule wp_mono [OF wp_lifecycle_reclaim [OF a(1) _ a(3)]]) (use a b that in \<open>auto simp: reclaimed_def\<close>)
  have "wp (bk_delete_object B ?l) (\<lambda>_ s. contents s (a_space a, a_storage_key a) = None)
      (\<lambda>e _. fst (bk_delete_object B ?l (sw_store w)) = Inl e) (sw_store w)"
    by (rule wpI) (use wp_result [OF delete_gone] in \<open>auto simp: object_key_def\<close>)
  then have "wp (bk_delete_object B ?l)
      (\<lambda>_ s. wp (lifecycle_update b DELETED now (ac_reason ac) True) (\<lambda>_ t. reclaimed contents now a (w\<lparr>sw_store := s, sw_registry := t\<rparr>))
         (\<lambda>_ t. outstanding B [a_space a] a (w\<lparr>sw_store := s, sw_registry := t\<rparr>)) (sw_registry w))
      (\<lambda>_ s. outstanding B [a_space a] a (w\<lparr>sw_store := s\<rparr>)) (sw_store w)"
    by (rule wp_mono) (use a b upd in \<open>auto simp: outstanding_def\<close>)
  then show ?thesis
    using a b
    by (simp add: purge_payload_def asset_lock_def wp_bind wp_sw_on_registry wp_get_asset wp_if wp_seq wp_check wp_sw_on_store wp_ret)
qed

lemma wp_sweep_purge:
  assumes a: "map_of (r_assets (sw_registry w)) (a_asset_id a) = Some a" "a_payload_deleted_at a = None"
    and ac: "justified policy now ac" "ac_purge ac" "ac_asset ac = a"
  shows "wp (sweep_action B policy now ac rep)
     (\<lambda>rep' w'. \<exists>es. logged rep w es rep' w' \<and> (reclaimed contents now a w' \<or> outstanding B es a w')) (\<lambda>_ _. False) w"
proof -
  have st: "a_state a \<in> {PENDING, EXPIRED} \<or> a_state a = DELETED" and reason: "ac_reason ac \<noteq> ''quota_lfu''" "ac_reason ac \<noteq> ''pressure_lfu''"
    "ac_state ac = DELETED"
    using ac by (auto simp: justified_def due_def Let_def)
  let ?Q = "\<lambda>x w'. x \<and> reclaimed contents now a w'" and ?E = "\<lambda>_ w'. outstanding B [a_space a] a w'"
  have "wp (apply_action B policy now ac) ?Q ?E w"
  proof (cases "a_state a = DELETED")
    case True
    have "wp (purge_payload B now ac) ?Q ?E w"
      by (rule wp_purge_due [of _ a]) (use a ac True in simp_all)
    then show ?thesis
      using a ac True reason by (simp add: apply_action_def asset_lock_def wp_bind wp_sw_on_registry wp_get_asset wp_seq wp_ret)
  next
    case False
    have "wp (lifecycle_update a DELETED now (ac_reason ac) False)
        (\<lambda>_ t. wp (purge_payload B now ac) ?Q ?E (w\<lparr>sw_registry := t\<rparr>)) (\<lambda>_ t. ?E e (w\<lparr>sw_registry := t\<rparr>)) (sw_registry w)" for e
      by (rule wp_mono [OF wp_lifecycle_reclaim [OF a(1) _ a(2)]])
        (use st False ac a in \<open>auto intro!: wp_purge_due [of _ "a\<lparr>a_state := DELETED, a_updated_at := now, a_payload_deleted_at := None\<rparr>"]\<close>)
    then show ?thesis
      using a ac False reason
      by (simp add: apply_action_def asset_lock_def wp_bind wp_sw_on_registry wp_get_asset wp_seq wp_ret wp_void)
  qed
  then show ?thesis
    unfolding sweep_action_def wp_try wp_bind
    by (rule wp_mono [OF wp_conj [OF _ wp_apply_log [OF refl]]])
      (use ac(3) in \<open>simp_all add: wp_simps reclaimed_def outstanding_def logged_def\<close>)
qed

lemma wp_purge_kept:
  assumes "action_id ac \<noteq> a_asset_id a" and inv: "reg_inv (sw_registry w)"
  shows "wp (purge_payload B now ac) (\<lambda>_. kept contents a w) (\<lambda>_. kept contents a w) w"
proof -
  have "wp (lifecycle_update c DELETED now (ac_reason ac) True)
      (\<lambda>_ t. kept contents a w (w\<lparr>sw_store := s, sw_registry := t\<rparr>)) (\<lambda>_ t. kept contents a w (w\<lparr>sw_store := s, sw_registry := t\<rparr>)) (sw_registry w)"
    if "map_of (r_assets (sw_registry w)) (action_id ac) = Some c" "\<forall>k. contents (sw_store w) k = None \<longrightarrow> contents s k = None" for c s
  proof -
    have "a_asset_id c = action_id ac" using inv that by (auto simp: reg_inv_def assets_ok_def)
    then show ?thesis
      by (intro wp_mono [OF wp_lifecycle_frame [of "a_asset_id a"]]) (use assms(1) that(2) in \<open>auto simp: kept_def\<close>)
  qed
  then have "wp (bk_delete_object B l) (\<lambda>_ s. wp (lifecycle_update c DELETED now (ac_reason ac) True)
      (\<lambda>_ t. kept contents a w (w\<lparr>sw_store := s, sw_registry := t\<rparr>)) (\<lambda>_ t. kept contents a w (w\<lparr>sw_store := s, sw_registry := t\<rparr>)) (sw_registry w))
      (\<lambda>_ s. kept contents a w (w\<lparr>sw_store := s\<rparr>)) (sw_store w)"
    if "map_of (r_assets (sw_registry w)) (action_id ac) = Some c" for c l
    by (intro wp_mono [OF delete_kept]) (use that in \<open>simp_all add: kept_def\<close>)
  then show ?thesis
    unfolding purge_payload_def
    by (intro wp_under_lock wp_ifI) (simp_all add: wp_seq wp_check wp_sw_on_store wp_sw_on_registry wp_ret kept_refl)
qed

lemma wp_apply_kept:
  assumes id: "action_id ac \<noteq> a_asset_id a" and r: "reachable (sw_registry w)"
  shows "wp (apply_action B policy now ac) (\<lambda>_. kept contents a w) (\<lambda>_. kept contents a w) w"
proof -
  have rest: "wp (seq_op (if \<not> ac_purge ac \<or> a_state c \<noteq> DELETED
              then sw_on_registry (void (lifecycle_update c (ac_state ac) now (ac_reason ac) False)) else ret ())
             (if ac_purge ac then purge_payload B now ac else ret True)) (\<lambda>_. kept contents a w) (\<lambda>_. kept contents a w) w"
    if c: "map_of (r_assets (sw_registry w)) (action_id ac) = Some c" for c
  proof -
    have "a_asset_id c = action_id ac" using reachable_inv [OF r] c by (auto simp: reg_inv_def assets_ok_def)
    then have upd: "wp (lifecycle_update c (ac_state ac) now (ac_reason ac) False) (\<lambda>_ t. kept contents a w (w\<lparr>sw_registry := t\<rparr>) \<and> reachable t)
        (\<lambda>_ t. kept contents a w (w\<lparr>sw_registry := t\<rparr>) \<and> moved (sw_registry w) t) (sw_registry w)"
      by (intro wp_mono [OF wp_conj [OF wp_lifecycle_frame [of "a_asset_id a"] wp_lifecycle_moved [OF r]]])
        (use id in \<open>auto simp: moved_def intro: kept_registry\<close>)
    have fin: "wp (if ac_purge ac then purge_payload B now ac else ret True) (\<lambda>_. kept contents a w) (\<lambda>_. kept contents a w) v"
      if "kept contents a w v" "reachable (sw_registry v)" for v
      using wp_mono [OF wp_purge_kept [OF id reachable_inv [OF that(2)]]] kept_trans [OF that(1)] that(1)
      by (simp add: wp_ret)
    have "wp (lifecycle_update c (ac_state ac) now (ac_reason ac) False)
        (\<lambda>_ t. wp (if ac_purge ac then purge_payload B now ac else ret True) (\<lambda>_. kept contents a w) (\<lambda>_. kept contents a w)
          (w\<lparr>sw_registry := t\<rparr>)) (\<lambda>_ t. kept contents a w (w\<lparr>sw_registry := t\<rparr>)) (sw_registry w)"
      by (rule wp_mono [OF upd]) (elim conjE, rule fin, simp_all)
    then show ?thesis using fin [OF kept_refl r] unfolding wp_seq wp_if wp_sw_on_registry wp_void wp_ret by simp
  qed
  show ?thesis
    unfolding apply_action_def
    by (intro wp_under_lock wp_ifI wp_after_rechecks [OF wp_recheck_quota wp_recheck_pressure] rest)
      (simp_all only: wp_ret kept_refl)
qed

lemma wp_sweep_kept:
  assumes "reachable (sw_registry w)"
  shows "wp (sweep_action B policy now ac rep) (\<lambda>_ w'. \<forall>a. a_asset_id a \<noteq> action_id ac \<longrightarrow> kept contents a w w') (\<lambda>_ _. False) w"
proof (rule wpI, goal_cases)
  case (1 rep' w')
  have "kept contents a w w'" if "a_asset_id a \<noteq> action_id ac" for a
  proof -
    have "wp (sweep_action B policy now ac rep) (\<lambda>_. kept contents a w) (\<lambda>_ _. False) w"
      unfolding sweep_action_def wp_try wp_bind
      by (rule wp_mono [OF wp_apply_kept [OF that [symmetric] assms]]) (simp_all add: wp_simps kept_def)
    from wp_result [OF this 1] show ?thesis .
  qed
  then show ?case by blast
next
  case (2 e w')
  then show ?case using wp_error [OF wp_sweep_action [OF assms]] by blast
qed

text \<open>What is settled for an asset stays so while other assets are swept and more errors are counted.\<close>

lemma settled_kept:
  "kept contents a w v \<Longrightarrow> reclaimed contents now a w \<or> outstanding B es a w \<Longrightarrow> reclaimed contents now a v \<or> outstanding B (es @ fs) a v"
  by (auto simp: kept_def reclaimed_def outstanding_def)

lemma outstanding_more: "outstanding B fs a w \<Longrightarrow> outstanding B (es @ fs) a w"
  by (auto simp: outstanding_def)

lemma wp_sweep_reclaims:
  assumes "reachable (sw_registry w)" and "distinct (map action_id acts)"
    and "\<forall>ac \<in> set acts. map_of (r_assets (sw_registry w)) (action_id ac) = Some (ac_asset ac) \<and> justified policy now ac"
    and "\<forall>ac \<in> set acts. a_payload_deleted_at (ac_asset ac) = None"
  shows "wp (sweep_actions B policy now acts rep)
     (\<lambda>rep' w'. \<exists>es. logged rep w es rep' w' \<and>
        (\<forall>ac \<in> set acts. ac_purge ac \<longrightarrow> reclaimed contents now (ac_asset ac) w' \<or> outstanding B es (ac_asset ac) w') \<and>
        (\<forall>a. a_asset_id a \<notin> action_id ` set acts \<longrightarrow> kept contents a w w')) (\<lambda>_ _. False) w"
  using assms
proof (induction acts arbitrary: w rep)
  case Nil
  then show ?case by (simp add: wp_simps kept_refl logged_def)
next
  case (Cons ac acts)
  have purge: "wp (sweep_action B policy now ac rep) (\<lambda>rep' w'. \<exists>es. logged rep w es rep' w' \<and>
      (ac_purge ac \<longrightarrow> reclaimed contents now (ac_asset ac) w' \<or> outstanding B es (ac_asset ac) w')) (\<lambda>_ _. False) w"
  proof (cases "ac_purge ac")
    case True
    then show ?thesis using wp_sweep_purge [OF _ _ _ True refl] Cons.prems by simp
  next
    case False
    then show ?thesis using wp_sweep_log by simp
  qed
  show ?case
    unfolding sweep_actions.simps wp_bind
  proof (rule wp_mono [OF wp_conj [OF wp_conj [OF wp_sweep_kept [OF Cons.prems(1)] purge] wp_sweep_action [OF Cons.prems(1)]]], goal_cases)
    case (1 rep1 w1)
    then obtain es where k: "\<And>a. a_asset_id a \<noteq> action_id ac \<Longrightarrow> kept contents a w w1" and log: "logged rep w es rep1 w1"
      and r: "ac_purge ac \<Longrightarrow> reclaimed contents now (ac_asset ac) w1 \<or> outstanding B es (ac_asset ac) w1"
      and w1: "reachable (sw_registry w1)" using fenced_reachable by blast
    have ac: "action_id ac \<notin> action_id ` set acts" using Cons.prems(2) by simp
    have "map_of (r_assets (sw_registry w1)) (action_id x) = Some (ac_asset x)" if "x \<in> set acts" for x
    proof -
      have "action_id x \<noteq> action_id ac" using ac that by (metis imageI)
      from k [OF this] show ?thesis using Cons.prems(3) that unfolding kept_def by simp
    qed
    then have pre: "\<forall>x \<in> set acts. map_of (r_assets (sw_registry w1)) (action_id x) = Some (ac_asset x) \<and> justified policy now x"
      using Cons.prems(3) by simp
    show ?case
    proof (rule wp_mono [OF Cons.IH [OF w1 _ pre]], goal_cases)
      case (3 rep2 w2)
      then obtain fs where fs: "logged rep1 w1 fs rep2 w2" "\<And>a. a_asset_id a \<notin> action_id ` set acts \<Longrightarrow> kept contents a w1 w2"
        "\<And>x. x \<in> set acts \<Longrightarrow> ac_purge x \<Longrightarrow> reclaimed contents now (ac_asset x) w2 \<or> outstanding B fs (ac_asset x) w2" by blast
      have "logged rep w (es @ fs) rep2 w2" using log fs(1) by (simp add: logged_def)
      moreover have "reclaimed contents now (ac_asset x) w2 \<or> outstanding B (es @ fs) (ac_asset x) w2"
        if "x \<in> set (ac # acts)" "ac_purge x" for x
        using that settled_kept [OF fs(2) [OF ac] r] fs(3) [of x] outstanding_more by auto
      moreover have "kept contents a w w2" if "a_asset_id a \<notin> action_id ` set (ac # acts)" for a
        using fs(2) [of a] k [of a] that kept_trans by auto
      ultimately show ?case by blast
    qed (use Cons.prems in simp_all)
  qed simp
qed

end

lemma justified_unpurged:
  assumes "reg_inv r" and "map_of (r_assets r) (action_id ac) = Some (ac_asset ac)" and "justified policy now ac"
  shows "a_payload_deleted_at (ac_asset ac) = None"
proof -
  have "a_payload_deleted_at (ac_asset ac) \<noteq> None \<longrightarrow> a_state (ac_asset ac) = DELETED"
    using reg_inv_asset [OF assms(1,2)] by (simp add: asset_wf_def)
  then show ?thesis using assms(3) by (auto simp: justified_def due_def Let_def split: if_splits)
qed

lemma plan_sweep_returns:
  assumes inv: "reg_inv r" and ok: "validate_policy policy = Inr policy"
  shows "wp (plan_sweep policy now) (\<lambda>_ _. True) (\<lambda>_ _. False) r"
proof -
  have grace: "fst ` set (sp_grace_seconds policy) = STORAGE_BUCKETS"
    using ok by (auto simp: validate_policy_def bind_result_def guard_result_def split: if_splits)
  define xs where "xs = filter (\<lambda>a. a_payload_deleted_at a = None) (dict_values (r_assets r))"
  have wf: "asset_wf a" if "a \<in> set xs" for a
    using that listed_assets(2) [OF inv, of a] reg_inv_asset [OF inv] by (auto simp: xs_def)
  have "is_ok (due_action policy now a)" if "a_space a \<in> STORAGE_BUCKETS" for a
  proof -
    have "a_space a \<in> fst ` set (sp_grace_seconds policy)" using that by (simp only: grace)
    then have "map_of (sp_grace_seconds policy) (a_space a) \<noteq> None" by (simp only: map_of_eq_None_iff not_not)
    then obtain g where "map_of (sp_grace_seconds policy) (a_space a) = Some g" by blast
    then show ?thesis by (simp add: due_action_def is_ok_def Let_def)
  qed
  then have "is_ok (due_phase policy now ys p)" if "\<And>a. a \<in> set ys \<Longrightarrow> asset_wf a" for ys p
    using that
  proof (induction ys arbitrary: p)
    case (Cons a ys)
    then have "is_ok (due_action policy now a)" by (simp add: asset_wf_def)
    with Cons show ?case by (auto simp: is_ok_ex bind_result_def)
  qed (simp add: is_ok_def)
  then obtain p where p: "due_phase policy now (sort_key a_asset_id xs) empty_plan = Inr p"
    using wf by (metis is_ok_ex set_sort)
  have quota: "wp (quota_phase policy now xs keys q) (\<lambda>_ _. True) (\<lambda>_ _. False) r"
    if "\<And>k. k \<in> set keys \<Longrightarrow> \<exists>a \<in> set xs. k = (a_space a, a_partition_id a)" for keys q
    using that
  proof (induction keys arbitrary: q)
    case (Cons k keys)
    obtain a where "a \<in> set xs" "k = (a_space a, a_partition_id a)" using Cons.prems [of k] by auto
    moreover obtain part where "normalize_partition_id (a_partition_id a) = Inr part"
      using asset_wf_partition [OF wf [OF \<open>a \<in> set xs\<close>]] .
    ultimately show ?case
      using Cons.IH Cons.prems asset_wf_space [OF wf [of a]]
      by (simp add: wp_bind get_partition_quota_def wp_partition_quota_of)
  qed (simp add: wp_simps)
  have "wp (quota_phase policy now xs (partition_keys xs) p) (\<lambda>_ _. True) (\<lambda>_ _. False) r"
    by (rule quota) (auto simp: partition_keys_def)
  then show ?thesis
    unfolding plan_sweep_def list_assets_def wp_bind wp_gets wp_of_result xs_def [symmetric] p
    by (simp add: wp_simps Let_def)
qed

context deleting_store
begin

lemma run_sweep_reclaims:
  assumes "reachable (sw_registry w)" and "validate_policy policy = Inr policy"
  shows "\<exists>rep w' es. run_sweep B (Some policy) False (Some now) w = (Inr rep, w') \<and>
     sw_errors_total w' = sw_errors_total w @ es \<and> rp_errors rep = length es \<and>
     (\<forall>i a. map_of (r_assets (sw_registry w)) i = Some a \<and> a_payload_deleted_at a = None \<and> due policy now a \<longrightarrow>
        reclaimed contents now a w' \<or> outstanding B es a w')"
proof -
  let ?r = "sw_registry w"
  let ?Q = "\<lambda>rep w'. \<exists>es. sw_errors_total w' = sw_errors_total w @ es \<and> rp_errors rep = length es \<and>
     (\<forall>i a. map_of (r_assets ?r) i = Some a \<and> a_payload_deleted_at a = None \<and> due policy now a \<longrightarrow>
        reclaimed contents now a w' \<or> outstanding B es a w')"
  have plan: "wp (plan_sweep policy now) (\<lambda>x t. t = ?r \<and> plan_for policy now ?r (fst x)) (\<lambda>_ _. False) ?r"
    by (rule wp_mono [OF wp_conj [OF wp_plan_sweep plan_sweep_returns]]) (use assms reachable_inv in auto)
  have "wp (run_sweep B (Some policy) False (Some now)) ?Q (\<lambda>_ _. False) w"
    unfolding run_sweep_def option.case wp_bind wp_ret wp_sw_on_registry
  proof (rule wp_mono [OF plan], goal_cases)
    case (1 x t)
    then obtain acts ex ratios where x: "x = (acts, ex, ratios)" and t: "t = ?r" and p: "plan_for policy now ?r acts"
      by (cases x) auto
    let ?v = "snd (set_gauges ex ratios (w\<lparr>sw_registry := ?r\<rparr>))"
    have v: "sw_registry ?v = ?r" "sw_store ?v = sw_store w" "sw_errors_total ?v = sw_errors_total w" by (simp_all add: set_gauges_def modify_def)
    have "wp (sweep_actions B policy now acts rep)
        (\<lambda>rep' w'. \<exists>es. logged rep ?v es rep' w' \<and>
          (\<forall>ac \<in> set acts. ac_purge ac \<longrightarrow> reclaimed contents now (ac_asset ac) w' \<or> outstanding B es (ac_asset ac) w') \<and>
          (\<forall>a. a_asset_id a \<notin> action_id ` set acts \<longrightarrow> kept contents a ?v w')) (\<lambda>_ _. False) ?v" for rep
      using p justified_unpurged [OF reachable_inv [OF assms(1)]] assms(1) unfolding plan_for_def
      by (intro wp_sweep_reclaims) (auto simp only: v)
    then have "wp (sweep_actions B policy now acts rep) ?Q (\<lambda>_ _. False) ?v" if "rp_errors rep = 0" for rep
      by (rule wp_mono) (use p that in \<open>unfold plan_for_def logged_def v(3), auto, blast\<close>)
    then show ?case
      by (simp add: x t Let_def wp_seq set_gauges_def wp_modify modify_def)
  qed simp
  then show ?thesis using wp_returns by fastforce
qed

end

text \<open>
  C28: What is due is reclaimed. With any store that keeps the contract and whose failed deletions remove the
  object or leave it, from every reachable state and with a valid policy, a sweep that is not a dry run returns,
  and every asset that was due for deletion (an abandoned reservation, an asset expired for longer than its grace
  period, one deleted before) is recorded as deleted with its payload gone, and no bytes are left under its key;
  or the store refuses to delete that object, an error is counted for its bucket, and the asset is recorded as
  deleted with its payload outstanding, so that it is due in every later sweep.
\<close>

theorem sweep_reclaims_due:
  assumes "deleting_store B contents" and "reachable (sw_registry w)" and "validate_policy policy = Inr policy"
  shows "\<exists>rep w' es. run_sweep B (Some policy) False (Some now) w = (Inr rep, w') \<and>
     sw_errors_total w' = sw_errors_total w @ es \<and> rp_errors rep = length es \<and>
     (\<forall>i a. map_of (r_assets (sw_registry w)) i = Some a \<and> a_payload_deleted_at a = None \<and> due policy now a \<longrightarrow>
        reclaimed contents now a w' \<or> outstanding B es a w')"
  using deleting_store.run_sweep_reclaims [OF assms] .

section \<open>The theorems on a concrete registry\<close>

text \<open>The reservation of the concrete registry is a day old and was never committed.\<close>

definition demo_policy :: sweep_policy where
  "demo_policy = \<lparr>sp_pending_seconds = 86400, sp_grace_seconds = default_grace_seconds, sp_capacity_bytes = [(''cache'', 1000)],
     sp_pressure_trigger = 7 / 8, sp_pressure_target = 1 / 2, sp_quota_trigger = 7 / 8, sp_quota_target = 3 / 4\<rparr>"

definition demo_sweeper :: "local_store sweeper" where
  "demo_sweeper = \<lparr>sw_registry = demo_reserved, sw_store = \<lparr>o_objects = [((''cache'', ''p/assets/u''), [1, 2])]\<rparr>,
     sw_evicted_total = [], sw_errors_total = [], sw_exhausted = Map.empty, sw_used_ratio = Map.empty\<rparr>"

lemma demo_policy_valid: "validate_policy demo_policy = Inr demo_policy"
  by (auto simp: validate_policy_def demo_policy_def default_grace_seconds_def STORAGE_BUCKETS_def bind_result_def guard_result_def)

lemma demo_sweeper_simps [simp]:
  "sw_registry demo_sweeper = demo_reserved" "reachable demo_reserved"
  by (simp_all add: demo_sweeper_def demo_reachable_reserved)

theorem evict_greedy_witness:
  "\<exists>n. (let cs = candidates empty_plan 10 [demo_available];
          left = (\<lambda>m. total_size (available empty_plan [demo_available]) - total_size (take m cs)) in
     pl_actions (evict 10 [demo_available] 100 ''quota_lfu'' ''cache'' empty_plan) = [] @ map (eviction ''quota_lfu'') (take n cs) \<and>
     sorted_wrt (\<lambda>a b. score b 10 \<le> score a 10) cs \<and>
     set cs = {a \<in> {demo_available}. a_state a = AVAILABLE \<and> a_asset_id a \<notin> {} \<and> a_eviction_policy a = INHERIT} \<and>
     (\<forall>m<n. 100 < rat_of_int (left m)) \<and>
     (rat_of_int (left n) \<le> 100 \<and> pl_exhausted (evict 10 [demo_available] 100 ''quota_lfu'' ''cache'' empty_plan) = {} \<or>
      n = length cs \<and> 100 < rat_of_int (left n) \<and>
      pl_exhausted (evict 10 [demo_available] 100 ''quota_lfu'' ''cache'' empty_plan) = insert ''cache'' {}))"
  using evict_greedy [of empty_plan 10 "[demo_available]" 100 "''quota_lfu''" "''cache''"]
  by (simp add: empty_plan_def)


theorem sweep_fences_bytes_witness:
  "\<exists>rep w'. run_sweep local_backend (Some demo_policy) False (Some 90000000001) demo_sweeper = (Inr rep, w') \<and>
     fenced local_contents demo_sweeper w' \<and> rp_applied rep + rp_skipped rep + rp_errors rep = rp_candidates rep"
proof -
  obtain rep w' where r: "run_sweep local_backend (Some demo_policy) False (Some 90000000001) demo_sweeper = (Inr rep, w')"
    using local_deletes.run_sweep_reclaims [OF _ demo_policy_valid, of demo_sweeper 90000000001] by auto
  have "reachable (sw_registry demo_sweeper)" by simp
  from sweep_fences_bytes [OF local_objects.object_store_axioms this r] r show ?thesis by blast
qed

theorem dry_run_no_effect_witness:
  "sw_store (snd (run_sweep local_backend (Some demo_policy) True None demo_sweeper)) = sw_store demo_sweeper \<and>
   (\<exists>n. sw_registry (snd (run_sweep local_backend (Some demo_policy) True None demo_sweeper)) = demo_reserved\<lparr>r_ticks := n\<rparr>)"
  using dry_run_no_effect [of demo_sweeper] by simp

theorem sweep_reclaims_due_witness:
  "(\<exists>rep w'. run_sweep local_backend (Some demo_policy) False (Some 90000000001) demo_sweeper = (Inr rep, w') \<and>
     reclaimed local_contents 90000000001 demo_pending w') \<and>
   (\<exists>rep w' es. run_sweep stuck_backend (Some demo_policy) False (Some 90000000001) demo_sweeper = (Inr rep, w') \<and>
     (reclaimed local_contents 90000000001 demo_pending w' \<or> outstanding stuck_backend es demo_pending w'))"
proof -
  have "86400 \<le> total_seconds 90000000000"
    using fl_lower [of 90000] by (simp add: total_seconds_def py_int_truediv_def eps53_def)
  then have "due demo_policy 90000000001 demo_pending"
    by (simp add: due_def demo_pending_def demo_policy_def)
  moreover have "map_of (r_assets demo_reserved) ''u'' = Some demo_pending" "a_payload_deleted_at demo_pending = None"
    by (simp_all add: demo_reserved_def demo_pending_def)
  moreover have "\<not> outstanding local_backend es demo_pending w" for es w
    by (simp add: outstanding_def local_delete_eq)
  moreover have "reachable (sw_registry demo_sweeper)" by simp
  note sweep_reclaims_due [OF local_deletes.deleting_store_axioms this demo_policy_valid, of 90000000001, unfolded demo_sweeper_simps]
    sweep_reclaims_due [OF stuck_deletes.deleting_store_axioms this demo_policy_valid, of 90000000001, unfolded demo_sweeper_simps]
  ultimately show ?thesis by meson
qed

end
