(* ===== verification/Admission.thy ===== *)
theory Admission
  imports Models
begin

text \<open>
  Admission control: the per-identity token bucket of \<^verbatim>\<open>asset_store_core/issuance_rate.py\<close> and the
  no-wait work gate of \<^verbatim>\<open>asset_store_core/admission.py\<close>. The token count is a Python number: an
  integer when it was capped at the burst size, a float otherwise, and the arithmetic rounds
  accordingly. Clock readings (\<open>time.monotonic\<close>) are arguments.
\<close>

section \<open>Token bucket\<close>

datatype py_num = PyInt int | PyFloat rat

fun num_val :: "py_num \<Rightarrow> rat" where
  "num_val (PyInt n) = of_int n"
| "num_val (PyFloat x) = x"

fun num_float :: "py_num \<Rightarrow> rat" where
  "num_float (PyInt n) = py_float_of_int n"
| "num_float (PyFloat x) = x"

fun num_dec :: "py_num \<Rightarrow> py_num" where
  "num_dec (PyInt n) = PyInt (n - 1)"
| "num_dec (PyFloat x) = PyFloat (py_fsub x 1)"

fun num_one_minus :: "py_num \<Rightarrow> rat" where
  "num_one_minus (PyInt n) = py_float_of_int (1 - n)"
| "num_one_minus (PyFloat x) = py_fsub 1 x"

record credit =
  cr_tokens :: py_num
  cr_updated_at :: rat

record rate_limiter =
  rl_rate :: rat
  rl_burst :: int
  rl_credit :: "(string, credit) dict"

definition make_rate_limiter :: "string list \<Rightarrow> int \<Rightarrow> int \<Rightarrow> rat \<Rightarrow> error + rate_limiter" where
  "make_rate_limiter identities per_minute burst now =
     (if per_minute \<le> 0 \<or> burst \<le> 0 then Inl ValidationError
      else Inr \<lparr>rl_rate = py_int_truediv per_minute 60, rl_burst = burst,
                rl_credit = fold (\<lambda>i d. AList.update i \<lparr>cr_tokens = PyFloat (py_float_of_int burst),
                                                       cr_updated_at = now\<rparr> d) identities []\<rparr>)"

text \<open>\<open>min(burst, tokens + max(0.0, now - updated_at) * rate)\<close>; \<open>min\<close> keeps its first argument on a tie.\<close>

definition refill :: "rate_limiter \<Rightarrow> rat \<Rightarrow> credit \<Rightarrow> py_num" where
  "refill l now c =
     (let x = py_fadd (num_float (cr_tokens c)) (py_fmul (max 0 (py_fsub now (cr_updated_at c))) (rl_rate l))
      in if x < of_int (rl_burst l) then PyFloat x else PyInt (rl_burst l))"

definition admit :: "rat \<Rightarrow> string \<Rightarrow> (rate_limiter, unit) op" where
  "admit now identity =
     bind_op (gets id) (\<lambda>l.
     case map_of (rl_credit l) identity of
       None \<Rightarrow> raise ServiceAuthError
     | Some c \<Rightarrow>
         (let tokens = refill l now c; updated_at = max now (cr_updated_at c);
              put = (\<lambda>t. modify (\<lambda>l. l\<lparr>rl_credit :=
                AList.update identity \<lparr>cr_tokens = t, cr_updated_at = updated_at\<rparr> (rl_credit l)\<rparr>)) in
         seq_op (put tokens) (
         if num_val tokens < 1 then
           raise (CapabilityRateError (max 1 \<lceil>py_fdiv (num_one_minus tokens) (rl_rate l)\<rceil>))
         else put (num_dec tokens))))"

definition limiter_ok :: "rate_limiter \<Rightarrow> bool" where
  "limiter_ok l \<longleftrightarrow> 0 < rl_rate l \<and> 0 < rl_burst l \<and> rl_burst l < 2 ^ 53 \<and> dict_ok (rl_credit l) \<and>
     (\<forall>i c. map_of (rl_credit l) i = Some c \<longrightarrow> 0 \<le> num_val (cr_tokens c) \<and> num_val (cr_tokens c) \<le> of_int (rl_burst l))"

lemma num_float_nonneg: "0 \<le> num_val t \<Longrightarrow> 0 \<le> num_float t"
  by (cases t) (simp_all add: py_float_of_int_def fl_nonneg)

lemma refill_bounds:
  assumes "0 < rl_rate l" and "0 < rl_burst l" and "0 \<le> num_val (cr_tokens c)"
  shows "0 \<le> num_val (refill l now c) \<and> num_val (refill l now c) \<le> of_int (rl_burst l)"
proof -
  have "0 \<le> py_fadd (num_float (cr_tokens c)) (py_fmul (max 0 (py_fsub now (cr_updated_at c))) (rl_rate l))"
    using assms(1) num_float_nonneg [OF assms(3)] by (simp add: py_fadd_def py_fmul_def fl_nonneg)
  then show ?thesis using assms(2) by (simp add: refill_def Let_def)
qed

text \<open>Taking one token leaves a count between zero and the burst size.\<close>

lemma num_dec_bounds:
  assumes t: "1 \<le> num_val t" "num_val t \<le> of_int b" and b: "b < 2 ^ 53"
  shows "0 \<le> num_val (num_dec t) \<and> num_val (num_dec t) \<le> of_int b"
proof (cases t)
  case (PyFloat x)
  have x: "0 \<le> x - 1" "x - 1 \<le> of_int b - 1" using t PyFloat by simp_all
  have "fl (x - 1) \<le> (x - 1) * (1 + eps53)" using x(1) by (rule fl_upper)
  also have "\<dots> = (x - 1) + (x - 1) * eps53" by (simp add: distrib_left)
  also have "\<dots> \<le> (of_int b - 1) + 1"
  proof (rule add_mono [OF x(2)])
    have "(of_int b :: rat) < of_int (2 ^ 53)" using b by (simp only: of_int_less_iff)
    then have "x - 1 \<le> 2 ^ 53" using x(2) by simp
    then show "(x - 1) * eps53 \<le> 1" by (simp add: eps53_def)
  qed
  finally show ?thesis using PyFloat x(1) by (simp add: py_fsub_def fl_nonneg)
qed (use t in simp)

lemma limiter_ok_update:
  assumes "limiter_ok l" and "0 \<le> num_val t \<and> num_val t \<le> of_int (rl_burst l)"
  shows "limiter_ok (l\<lparr>rl_credit := AList.update i \<lparr>cr_tokens = t, cr_updated_at = u\<rparr> (rl_credit l)\<rparr>)"
  using assms by (simp add: limiter_ok_def)

lemma make_rate_limiter_ok:
  assumes "make_rate_limiter ids per_minute burst now = Inr l" and "burst < 2 ^ 53"
  shows "limiter_ok l"
proof -
  have pos: "0 < per_minute" "0 < burst" using assms(1) by (auto simp: make_rate_limiter_def split: if_splits)
  have l: "rl_rate l = py_int_truediv per_minute 60" "rl_burst l = burst"
    "rl_credit l = fold (\<lambda>i d. AList.update i \<lparr>cr_tokens = PyFloat (py_float_of_int burst), cr_updated_at = now\<rparr> d) ids []"
    using assms(1) by (auto simp: make_rate_limiter_def split: if_splits)
  have "dict_ok (fold (\<lambda>i d. AList.update i c d) ids d) \<and>
      (\<forall>i x. map_of (fold (\<lambda>i d. AList.update i c d) ids d) i = Some x \<longrightarrow> x = c)"
    if "dict_ok d" "\<forall>i x. map_of d i = Some x \<longrightarrow> x = c" for d :: "(string, credit) dict" and c
    using that
  proof (induction ids arbitrary: d)
    case (Cons j ids)
    have "dict_ok (AList.update j c d)" "\<forall>i x. map_of (AList.update j c d) i = Some x \<longrightarrow> x = c"
      using Cons.prems by simp_all
    from Cons.IH [OF this] show ?case by simp
  qed simp
  from this [of "[]"] have "dict_ok (rl_credit l)"
    "map_of (rl_credit l) i = Some x \<Longrightarrow> x = \<lparr>cr_tokens = PyFloat (py_float_of_int burst), cr_updated_at = now\<rparr>" for i x
    unfolding l(3) by auto
  moreover have "num_val (PyFloat (py_float_of_int burst)) = of_int burst"
    using pos(2) assms(2) by (simp add: py_float_of_int_def fl_of_int_exact)
  ultimately have "0 \<le> num_val (cr_tokens c) \<and> num_val (cr_tokens c) \<le> of_int burst" if "map_of (rl_credit l) i = Some c" for i c
    using that pos(2) by fastforce
  then show ?thesis
    using pos assms(2) \<open>dict_ok (rl_credit l)\<close> unfolding limiter_ok_def l(1,2)
    by (simp add: py_int_truediv_def fl_gt_0)
qed

text \<open>
  C16: An attempt keeps every count between zero and the burst size, touches no other identity,
  never grows the table, and is admitted exactly if the refilled count is at least one; a refusal
  asks to wait at least a second and consumes nothing.
\<close>

theorem admit_spec:
  assumes ok: "limiter_ok l" and "admit now i l = (res, l')"
  shows "limiter_ok l' \<and> (\<forall>j. j \<noteq> i \<longrightarrow> map_of (rl_credit l') j = map_of (rl_credit l) j) \<and>
     (case map_of (rl_credit l) i of
        None \<Rightarrow> res = Inl ServiceAuthError \<and> l' = l
      | Some c \<Rightarrow>
          (\<exists>c'. map_of (rl_credit l') i = Some c' \<and> cr_updated_at c' = max now (cr_updated_at c) \<and>
             (if 1 \<le> num_val (refill l now c) then res = Inr () \<and> cr_tokens c' = num_dec (refill l now c)
              else (\<exists>n \<ge> 1. res = Inl (CapabilityRateError n)) \<and> cr_tokens c' = refill l now c)))"
proof (cases "map_of (rl_credit l) i")
  case None
  then show ?thesis using assms by (simp add: admit_def bind_op_def gets_def raise_def)
next
  case (Some c)
  have c: "0 \<le> num_val (cr_tokens c)" using ok Some by (simp add: limiter_ok_def)
  have b: "0 \<le> num_val (refill l now c) \<and> num_val (refill l now c) \<le> of_int (rl_burst l)"
    using ok c by (intro refill_bounds) (auto simp: limiter_ok_def)
  have d: "0 \<le> num_val (num_dec (refill l now c)) \<and> num_val (num_dec (refill l now c)) \<le> of_int (rl_burst l)"
    if "1 \<le> num_val (refill l now c)"
    by (rule num_dec_bounds [OF that]) (use b ok in \<open>auto simp: limiter_ok_def\<close>)
  show ?thesis
    using assms(2) Some limiter_ok_update [OF ok b] limiter_ok_update [OF ok d]
    by (auto simp: admit_def bind_op_def seq_op_def gets_def modify_def raise_def Let_def not_less split: if_splits)
qed

section \<open>Work gate\<close>

text \<open>\<open>int(os.environ.get(name, default))\<close>: \<open>None\<close> where \<open>int\<close> raises.\<close>

definition positive_limit_from_env :: "int option \<Rightarrow> error + int" where
  "positive_limit_from_env value =
     (case value of None \<Rightarrow> Inl ValidationError
      | Some limit \<Rightarrow> if limit \<le> 0 then Inl ValidationError else Inr limit)"

record work_gate =
  g_limit :: int
  g_active :: int
  g_granted :: nat
  g_denied :: nat

definition make_work_gate :: "int \<Rightarrow> error + work_gate" where
  "make_work_gate limit =
     (if limit \<le> 0 then Inl ValidationError
      else Inr \<lparr>g_limit = limit, g_active = 0, g_granted = 0, g_denied = 0\<rparr>)"

text \<open>The two ends of a lease: what runs before the body and what the \<open>finally\<close> clause does.\<close>

definition lease_enter :: "(work_gate, unit) op" where
  "lease_enter =
     bind_op (gets (\<lambda>g. g_active g < g_limit g)) (\<lambda>admitted.
     if admitted then
       seq_op (modify (\<lambda>g. g\<lparr>g_active := g_active g + 1\<rparr>))
         (modify (\<lambda>g. g\<lparr>g_granted := g_granted g + 1\<rparr>))
     else
       seq_op (modify (\<lambda>g. g\<lparr>g_denied := g_denied g + 1\<rparr>)) (raise WorkCapacityError))"

definition lease_exit :: "(work_gate, unit) op" where
  "lease_exit = modify (\<lambda>g. g\<lparr>g_active := g_active g - 1\<rparr>)"

text \<open>A \<open>with\<close> block in one thread: the body works on its own state and may raise.\<close>

definition with_lease :: "('w, 'a) op \<Rightarrow> (work_gate \<times> 'w, 'a) op" where
  "with_lease body =
     (let on_gate = on_part fst (\<lambda>g w. (g, snd w)); on_body = on_part snd (\<lambda>x w. (fst w, x)) in
      seq_op (on_gate lease_enter) (
      bind_op (try_op (on_body body) (\<lambda>e. seq_op (on_gate lease_exit) (raise e))) (\<lambda>r.
      seq_op (on_gate lease_exit) (ret r))))"

text \<open>
  Many requests at once: the body of a lease runs outside the lock, so entries and exits of
  different jobs interleave freely. A job is inside between its admission and its exit.
\<close>

inductive gate_step :: "work_gate \<times> nat set \<Rightarrow> work_gate \<times> nat set \<Rightarrow> bool" where
  enter: "j \<notin> inside \<Longrightarrow> lease_enter g = (Inr (), g') \<Longrightarrow> gate_step (g, inside) (g', insert j inside)"
| refuse: "j \<notin> inside \<Longrightarrow> lease_enter g = (Inl e, g') \<Longrightarrow> gate_step (g, inside) (g', inside)"
| leave: "j \<in> inside \<Longrightarrow> lease_exit g = (Inr (), g') \<Longrightarrow> gate_step (g, inside) (g', inside - {j})"

inductive gate_reachable :: "work_gate \<times> nat set \<Rightarrow> bool" where
  start: "make_work_gate limit = Inr g \<Longrightarrow> gate_reachable (g, {})"
| step: "gate_reachable s \<Longrightarrow> gate_step s t \<Longrightarrow> gate_reachable t"

lemma lease_enter_eq:
  "lease_enter g = (if g_active g < g_limit g
     then (Inr (), g\<lparr>g_active := g_active g + 1, g_granted := g_granted g + 1\<rparr>)
     else (Inl WorkCapacityError, g\<lparr>g_denied := g_denied g + 1\<rparr>))"
  by (simp add: lease_enter_def bind_op_def seq_op_def gets_def modify_def raise_def)

text \<open>
  C17: At any moment the number of jobs inside equals the gate's counter and never exceeds the
  limit; an attempt is refused exactly when the limit is reached, and a refused job is never
  inside.
\<close>

theorem gate_bound:
  assumes "gate_reachable s"
  shows "finite (snd s) \<and> g_active (fst s) = int (card (snd s)) \<and> g_active (fst s) \<le> g_limit (fst s) \<and>
     (fst (lease_enter (fst s)) = Inl WorkCapacityError \<longleftrightarrow> int (card (snd s)) = g_limit (fst s))"
proof -
  have "finite (snd s) \<and> g_active (fst s) = int (card (snd s)) \<and> g_active (fst s) \<le> g_limit (fst s)"
    using assms
  proof (induction rule: gate_reachable.induct)
    case (start limit g)
    then show ?case by (auto simp: make_work_gate_def split: if_splits)
  next
    case (step s t)
    from step(2) step(3) show ?case
    proof (cases rule: gate_step.cases)
      case (leave j inside g g')
      then have "0 < card inside" using step(3) by (auto simp: card_gt_0_iff)
      with leave step(3) show ?thesis
        by (auto simp: lease_exit_def modify_def card_Diff_singleton of_nat_diff)
    qed (auto simp: lease_enter_eq split: if_splits)
  qed
  then show ?thesis by (auto simp: lease_enter_eq)
qed

text \<open>A lease gives back its slot however the body ends.\<close>

lemma with_lease_releases:
  assumes "fst (with_lease body (g, w)) \<noteq> Inl WorkCapacityError \<or> g_active g < g_limit g"
  shows "g_active (fst (snd (with_lease body (g, w)))) = g_active g"
  using assms unfolding with_lease_def
  by (auto simp: Let_def bind_op_def seq_op_def try_op_def on_part_def lease_enter_eq lease_exit_def modify_def
      raise_def ret_def split: prod.splits sum.splits if_splits)


definition demo_limiter :: "py_num \<Rightarrow> rate_limiter" where
  "demo_limiter t = \<lparr>rl_rate = 1, rl_burst = 2, rl_credit = [(''w'', \<lparr>cr_tokens = t, cr_updated_at = 0\<rparr>)]\<rparr>"

lemma demo_admit: "admit 0 ''w'' (demo_limiter (PyInt 2)) = (Inr (), demo_limiter (PyInt 1))"
proof -
  have "refill (demo_limiter (PyInt 2)) 0 \<lparr>cr_tokens = PyInt 2, cr_updated_at = 0\<rparr> = PyInt 2" by code_simp
  then show ?thesis
    by (simp add: admit_def demo_limiter_def bind_op_def seq_op_def gets_def modify_def Let_def)
qed

theorem admit_spec_witness: "limiter_ok (demo_limiter (PyInt 2)) \<and> limiter_ok (demo_limiter (PyInt 1))"
proof -
  have ok: "limiter_ok (demo_limiter (PyInt 2))" by (simp add: limiter_ok_def demo_limiter_def dict_ok_def)
  with admit_spec [OF ok demo_admit] show ?thesis by blast
qed

theorem gate_bound_witness:
  "g_active \<lparr>g_limit = 1, g_active = 1, g_granted = 1, g_denied = 0\<rparr> = int (card {7 :: nat})"
proof -
  have "gate_reachable (\<lparr>g_limit = 1, g_active = 0, g_granted = 0, g_denied = 0\<rparr>, {})"
    by (rule gate_reachable.start [of 1]) (simp add: make_work_gate_def)
  then have "gate_reachable (\<lparr>g_limit = 1, g_active = 1, g_granted = 1, g_denied = 0\<rparr>, {7})"
    by (rule gate_reachable.step) (rule gate_step.enter, simp, simp add: lease_enter_eq)
  from gate_bound [OF this] show ?thesis by simp
qed

end
