(* ===== verification/Api_Schemas.thy ===== *)
theory Api_Schemas
  imports Guard Admission "HOL-Library.List_Lexorder" "HOL-Library.Char_ord"
begin

text \<open>
  The HTTP API's data: the request and response models of \<^verbatim>\<open>asset_store_core/api/schemas.py\<close> and
  the problem documents of \<^verbatim>\<open>asset_store_core/api/errors.py\<close>. A request model is a record of the
  parsed fields together with the predicate for the bounds its fields declare; JSON rendering and
  parsing are FastAPI's.
\<close>

section \<open>Requests\<close>

record alias_spec_in =
  as_name :: string
  as_mutable :: bool

record reserve_request =
  rq_space :: string
  rq_partition_id :: string
  rq_aliases :: "alias_spec_in list"
  rq_owner_service_id :: string
  rq_mime :: "string option"
  rq_annotations :: "(string, string) fmap option"
  rq_eviction_policy :: eviction_policy
  rq_ttl_seconds :: "int option"

definition positive_opt :: "int option \<Rightarrow> bool" where
  "positive_opt x = (case x of None \<Rightarrow> True | Some n \<Rightarrow> 0 < n)"

definition nonneg_opt :: "int option \<Rightarrow> bool" where
  "nonneg_opt x = (case x of None \<Rightarrow> True | Some n \<Rightarrow> 0 \<le> n)"

definition valid_reserve :: "reserve_request \<Rightarrow> bool" where
  "valid_reserve b \<longleftrightarrow> rq_aliases b \<noteq> [] \<and> positive_opt (rq_ttl_seconds b)"

record commit_request =
  cq_size_bytes :: int
  cq_checksum :: string
  cq_caller_service_id :: string
  cq_mime :: "string option"
  cq_expected_checksum :: "string option"

definition valid_commit :: "commit_request \<Rightarrow> bool" where
  "valid_commit b \<longleftrightarrow> 0 \<le> cq_size_bytes b"

record mint_request =
  mq_operation :: operation
  mq_scope_prefix :: string
  mq_ttl_seconds :: int
  mq_single_use :: bool

definition valid_mint :: "mint_request \<Rightarrow> bool" where
  "valid_mint b \<longleftrightarrow> 60 \<le> mq_ttl_seconds b \<and> mq_ttl_seconds b \<le> 86400"

record lifecycle_request =
  lq_caller_service_id :: string

record annotations_request =
  nq_patch :: "(string, string) fmap"
  nq_caller_service_id :: string
  nq_overwrite :: bool

record detach_request =
  dq_space :: string
  dq_alias :: string
  dq_caller_service_id :: string

record rebind_request =
  jq_space :: string
  jq_alias :: string
  jq_new_asset_id :: string
  jq_caller_service_id :: string

record eviction_request =
  vq_eviction_policy :: eviction_policy
  vq_caller_service_id :: string

record partition_quota_request =
  pr_space :: string
  pr_partition_id :: string
  pr_quota_bytes :: "int option"
  pr_quota_asset_count :: "int option"
  pr_eviction_sweep_enabled :: "bool option"

definition valid_partition_quota :: "partition_quota_request \<Rightarrow> bool" where
  "valid_partition_quota b \<longleftrightarrow> nonneg_opt (pr_quota_bytes b) \<and> nonneg_opt (pr_quota_asset_count b)"

record bucket_quota_request =
  br_space :: string
  br_quota_bytes :: "int option"
  br_warn_threshold :: rat
  br_hard_ceiling :: rat

definition valid_bucket_quota :: "bucket_quota_request \<Rightarrow> bool" where
  "valid_bucket_quota b \<longleftrightarrow> nonneg_opt (br_quota_bytes b) \<and>
     0 \<le> br_warn_threshold b \<and> br_warn_threshold b \<le> 1 \<and> 0 \<le> br_hard_ceiling b \<and> br_hard_ceiling b \<le> 2"

section \<open>Responses\<close>

text \<open>The projection without the storage key is the one the operator's interface shows.\<close>

record public_asset_out =
  ao_asset_id :: string
  ao_space :: string
  ao_partition_id :: string
  ao_state :: string
  ao_aliases :: "string list"
  ao_mime :: "string option"
  ao_size_bytes :: "int option"
  ao_checksum :: "string option"
  ao_annotations :: "(string, string) fmap"
  ao_created_at :: datetime
  ao_updated_at :: datetime
  ao_expires_at :: "datetime option"
  ao_expired_at :: "datetime option"
  ao_last_read_at :: "datetime option"
  ao_read_count :: int
  ao_payload_deleted_at :: "datetime option"
  ao_owner_service_id :: string
  ao_eviction_policy :: string

record asset_out = public_asset_out +
  ao_storage_key :: string

definition from_asset :: "asset \<Rightarrow> asset_out" where
  "from_asset a = \<lparr>ao_asset_id = a_asset_id a, ao_space = a_space a, ao_partition_id = a_partition_id a,
     ao_state = state_value (a_state a), ao_aliases = sorted_list_of_set (a_aliases a),
     ao_mime = a_mime a, ao_size_bytes = a_size_bytes a, ao_checksum = a_checksum a, ao_annotations = a_annotations a,
     ao_created_at = a_created_at a, ao_updated_at = a_updated_at a, ao_expires_at = a_expires_at a,
     ao_expired_at = a_expired_at a, ao_last_read_at = a_last_read_at a, ao_read_count = a_read_count a,
     ao_payload_deleted_at = a_payload_deleted_at a, ao_owner_service_id = a_owner_service_id a,
     ao_eviction_policy = eviction_value (a_eviction_policy a), ao_storage_key = a_storage_key a\<rparr>"

record capability_out =
  co_capability_id :: string
  co_operation :: string
  co_scope_prefix :: string
  co_caller_service_id :: string
  co_expires_at :: datetime
  co_single_use :: bool

record presigned_url_out =
  po_alias :: string
  po_asset_id :: string
  po_method :: string
  po_url :: string
  po_expires_in :: int
  po_expires_at :: datetime
  po_size_bytes :: "int option"
  po_checksum :: "string option"

record audit_event_out =
  eo_action :: string
  eo_target :: string
  eo_caller_service_id :: string
  eo_outcome :: string
  eo_before :: "string \<rightharpoonup> string"
  eo_after :: "string \<rightharpoonup> string"
  eo_ts :: datetime

definition from_event :: "audit_event \<Rightarrow> audit_event_out" where
  "from_event e = \<lparr>eo_action = e_action e, eo_target = e_target e, eo_caller_service_id = e_caller_service_id e,
     eo_outcome = e_outcome e, eo_before = e_before e, eo_after = e_after e, eo_ts = e_ts e\<rparr>"

record alias_binding_out =
  bo_space :: string
  bo_alias :: string
  bo_asset_id :: "string option"
  bo_mutable :: bool
  bo_previous_asset_id :: "string option"
  bo_updated_at :: datetime

definition from_binding :: "alias_binding \<Rightarrow> alias_binding_out" where
  "from_binding b = \<lparr>bo_space = b_space b, bo_alias = b_alias b, bo_asset_id = b_asset_id b, bo_mutable = b_mutable b,
     bo_previous_asset_id = b_previous_asset_id b, bo_updated_at = b_updated_at b\<rparr>"

record partition_quota_out =
  qo_space :: string
  qo_partition_id :: string
  qo_quota_bytes :: "int option"
  qo_quota_asset_count :: "int option"
  qo_used_bytes :: int
  qo_used_asset_count :: int
  qo_eviction_sweep_enabled :: bool

definition from_partition_quota :: "partition_quota \<Rightarrow> partition_quota_out" where
  "from_partition_quota q = \<lparr>qo_space = pq_space q, qo_partition_id = pq_partition_id q, qo_quota_bytes = pq_quota_bytes q,
     qo_quota_asset_count = pq_quota_asset_count q, qo_used_bytes = pq_used_bytes q,
     qo_used_asset_count = pq_used_asset_count q, qo_eviction_sweep_enabled = pq_eviction_sweep_enabled q\<rparr>"

record bucket_quota_out =
  ko_space :: string
  ko_quota_bytes :: "int option"
  ko_used_bytes :: int
  ko_warn_threshold :: rat
  ko_hard_ceiling :: rat

definition from_bucket_quota :: "bucket_quota \<Rightarrow> bucket_quota_out" where
  "from_bucket_quota q = \<lparr>ko_space = bq_space q, ko_quota_bytes = bq_quota_bytes q, ko_used_bytes = bq_used_bytes q,
     ko_warn_threshold = bq_warn_threshold q, ko_hard_ceiling = bq_hard_ceiling q\<rparr>"

section \<open>Problem documents\<close>

text \<open>The error classes the table lists; a class outside it is answered with 500.\<close>

fun status_by_error :: "error \<Rightarrow> nat option" where
  "status_by_error ValidationError = Some 400"
| "status_by_error UploadTooLargeError = Some 413"
| "status_by_error ServiceAuthError = Some 401"
| "status_by_error CapabilityDeniedError = Some 403"
| "status_by_error CapabilityAlreadyConsumedError = Some 403"
| "status_by_error CapabilityCapacityError = Some 503"
| "status_by_error (CapabilityRateError n) = Some 429"
| "status_by_error WorkCapacityError = Some 503"
| "status_by_error AliasNotFoundError = Some 404"
| "status_by_error AssetNotFoundError = Some 404"
| "status_by_error AssetExpiredError = Some 410"
| "status_by_error AssetDeletedError = Some 404"
| "status_by_error CapacityExceededError = Some 503"
| "status_by_error RegistryUnavailableError = Some 503"
| "status_by_error ObjectNotFoundError = Some 404"
| "status_by_error AliasConflictError = Some 409"
| "status_by_error AliasImmutableError = Some 409"
| "status_by_error ChecksumMismatchError = Some 409"
| "status_by_error InvalidStateTransitionError = Some 409"
| "status_by_error (QuotaExceededError s) = Some 413"
| "status_by_error PresignNotSupportedError = Some 501"
| "status_by_error _ = None"

record problem =
  pb_status :: nat
  pb_error :: error
  pb_scope :: "string option"
  pb_retry_after :: "string option"

definition handle_domain :: "error \<Rightarrow> problem" where
  "handle_domain e = \<lparr>pb_status = (case status_by_error e of None \<Rightarrow> 500 | Some n \<Rightarrow> n), pb_error = e,
     pb_scope = (case e of QuotaExceededError s \<Rightarrow> Some s | _ \<Rightarrow> None),
     pb_retry_after =
       (case e of
          CapabilityRateError n \<Rightarrow> Some (int_str n)
        | CapacityExceededError \<Rightarrow> Some ''60''
        | RegistryUnavailableError \<Rightarrow> Some ''1''
        | CapabilityCapacityError \<Rightarrow> Some ''1''
        | WorkCapacityError \<Rightarrow> Some ''1''
        | _ \<Rightarrow> None)\<rparr>"

definition handle_validation :: problem where
  "handle_validation = \<lparr>pb_status = 422, pb_error = RequestValidationError, pb_scope = None, pb_retry_after = None\<rparr>"

definition problem_for :: "error \<Rightarrow> problem" where
  "problem_for e = (if e = RequestValidationError then handle_validation else handle_domain e)"

end
