(* ===== verification/Api.thy ===== *)
theory Api
  imports Api_Schemas
begin

text \<open>
  The HTTP application, \<^verbatim>\<open>asset_store_core/api/app.py\<close>: the state that \<open>create_app\<close> wires together,
  the three ways a request is authenticated, and the handler of every route. FastAPI resolves the
  dependencies of a route, authentication among them, before it validates the body against the
  declared bounds, and runs the handler last; a handler of the model does the three in that order.
\<close>

section \<open>The application\<close>

record 's app =
  ap_world :: "'s world"
  ap_credentials :: credential_store
  ap_capabilities :: capability_store
  ap_issuance_rate :: rate_limiter
  ap_uploads :: work_gate
  ap_max_upload_bytes :: int
  ap_issued_total :: "(string \<times> string) list"
  ap_bucket_fill_ratio :: "string \<rightharpoonup> rat"
  ap_monotonic :: "nat \<Rightarrow> rat"
  ap_monotonic_reads :: nat
  ap_hex_ids :: "nat \<Rightarrow> string"
  ap_next_hex :: nat

text \<open>
  \<open>create_app\<close> with its environment variables already read (\<open>None\<close> where \<open>int\<close> fails on one); the
  uuid source and the clocks are those of the process.
\<close>

definition create_app ::
  "'s world \<Rightarrow> credential_store \<Rightarrow> int option \<Rightarrow> int option \<Rightarrow> int option \<Rightarrow> int option \<Rightarrow> int option \<Rightarrow>
   (nat \<Rightarrow> rat) \<Rightarrow> (nat \<Rightarrow> string) \<Rightarrow> error + 's app" where
  "create_app w credentials max_upload max_caps per_minute burst inflight monotonic hex_ids =
     (case max_upload of
        None \<Rightarrow> Inl ValueError
      | Some max_upload_bytes \<Rightarrow>
          bind_result (guard_result (0 < max_upload_bytes) ValidationError) (\<lambda>_.
          case max_caps of
            None \<Rightarrow> Inl ValidationError
          | Some max_capabilities \<Rightarrow>
              bind_result (make_capability_store max_capabilities) (\<lambda>capabilities.
              bind_result (positive_limit_from_env per_minute) (\<lambda>rate.
              bind_result (positive_limit_from_env burst) (\<lambda>size.
              bind_result (make_rate_limiter (map fst (cs_secrets credentials)) rate size (monotonic 0)) (\<lambda>limiter.
              bind_result (positive_limit_from_env inflight) (\<lambda>limit.
              bind_result (make_work_gate limit) (\<lambda>uploads.
              Inr \<lparr>ap_world = w, ap_credentials = credentials, ap_capabilities = capabilities, ap_issuance_rate = limiter,
                   ap_uploads = uploads, ap_max_upload_bytes = max_upload_bytes, ap_issued_total = [],
                   ap_bucket_fill_ratio = Map.empty, ap_monotonic = monotonic, ap_monotonic_reads = 1,
                   ap_hex_ids = hex_ids, ap_next_hex = 0\<rparr>)))))))) "

definition on_world :: "('s world, 'a) op \<Rightarrow> ('s app, 'a) op" where
  "on_world = on_part ap_world (\<lambda>w a. a\<lparr>ap_world := w\<rparr>)"

definition on_reg :: "(registry, 'a) op \<Rightarrow> ('s app, 'a) op" where
  "on_reg m = on_world (on_registry m)"

definition on_capabilities :: "(capability_store, 'a) op \<Rightarrow> ('s app, 'a) op" where
  "on_capabilities = on_part ap_capabilities (\<lambda>c a. a\<lparr>ap_capabilities := c\<rparr>)"

definition on_limiter :: "(rate_limiter, 'a) op \<Rightarrow> ('s app, 'a) op" where
  "on_limiter = on_part ap_issuance_rate (\<lambda>l a. a\<lparr>ap_issuance_rate := l\<rparr>)"

definition now_op :: "('s app, datetime) op" where
  "now_op = on_world clock_now"

definition monotonic_op :: "('s app, rat) op" where
  "monotonic_op a = (Inr (ap_monotonic a (ap_monotonic_reads a)), a\<lparr>ap_monotonic_reads := Suc (ap_monotonic_reads a)\<rparr>)"

definition uuid4_hex :: "('s app, string) op" where
  "uuid4_hex a = (Inr (ap_hex_ids a (ap_next_hex a)), a\<lparr>ap_next_hex := Suc (ap_next_hex a)\<rparr>)"

definition count_issued :: "operation \<Rightarrow> string \<Rightarrow> ('s app, unit) op" where
  "count_issued op outcome = modify (\<lambda>a. a\<lparr>ap_issued_total := ap_issued_total a @ [(operation_value op, outcome)]\<rparr>)"

definition observe_bucket_fill :: "string \<Rightarrow> ('s app, unit) op" where
  "observe_bucket_fill space =
     bind_op (on_reg (get_bucket_quota space)) (\<lambda>quota.
     case bq_quota_bytes quota of
       None \<Rightarrow> ret ()
     | Some quota_bytes \<Rightarrow>
         if quota_bytes \<le> 0 then ret ()
         else modify (\<lambda>a. a\<lparr>ap_bucket_fill_ratio :=
           (ap_bucket_fill_ratio a)(bq_space quota \<mapsto> py_int_truediv (bq_used_bytes quota) quota_bytes)\<rparr>))"

section \<open>Authentication\<close>

text \<open>An absent header is the empty string.\<close>

definition authorization_token :: "string \<Rightarrow> string \<Rightarrow> string option" where
  "authorization_token expected header =
     (case py_partition (CHR '' '') header of (scheme, _, token) \<Rightarrow>
      if py_lower scheme \<noteq> expected \<or> py_strip token = [] then None else Some (py_strip token))"

definition require_capability_dep :: "string \<Rightarrow> ('s app, capability) op" where
  "require_capability_dep header =
     (case authorization_token ''capability'' header of
        None \<Rightarrow> raise CapabilityDeniedError
      | Some token \<Rightarrow>
          bind_op now_op (\<lambda>now.
          bind_op (on_capabilities (get_capability now token)) (\<lambda>found.
          case found of None \<Rightarrow> raise CapabilityDeniedError | Some cap \<Rightarrow> ret cap)))"

definition service_identity :: "credential_store \<Rightarrow> string \<Rightarrow> error + string" where
  "service_identity credentials header =
     (case authorization_token ''service'' header of
        None \<Rightarrow> Inl ServiceAuthError
      | Some token \<Rightarrow>
          (case py_partition (CHR '':'') token of (service_id, sep, secret) \<Rightarrow>
           if \<not> sep then Inl ServiceAuthError else authenticate credentials service_id secret))"

definition require_service_identity :: "string \<Rightarrow> ('s app, string) op" where
  "require_service_identity header =
     bind_op (gets ap_credentials) (\<lambda>credentials. of_result (service_identity credentials header))"

definition require_admin :: "string \<Rightarrow> ('s app, string) op" where
  "require_admin header =
     bind_op (require_service_identity header) (\<lambda>caller.
     seq_op (check (caller = ''admin'') CapabilityDeniedError) (ret caller))"

text \<open>
  The second argument is the caller named in the request's JSON body: absent for a route without a
  body or a body without the field.
\<close>

definition require_legacy_admin :: "string \<Rightarrow> json option \<Rightarrow> ('s app, string) op" where
  "require_legacy_admin header body_caller =
     bind_op (require_admin header) (\<lambda>caller.
     seq_op (check (case body_caller of None \<Rightarrow> True | Some c \<Rightarrow> c = JString caller) CapabilityDeniedError) (
     ret caller))"

section \<open>Assets\<close>

definition alias_dict :: "alias_spec_in list \<Rightarrow> (string, bool) dict" where
  "alias_dict specs = fold (\<lambda>spec d. AList.update (as_name spec) (as_mutable spec) d) specs []"

definition reserve :: "string \<Rightarrow> reserve_request \<Rightarrow> ('s app, asset_out) op" where
  "reserve header body =
     bind_op (require_service_identity header) (\<lambda>caller.
     seq_op (check (valid_reserve body) RequestValidationError) (
     seq_op (check (rq_owner_service_id body = caller) CapabilityDeniedError) (
     seq_op (of_result (assert_service_bucket_allowed caller (rq_space body) WRITE)) (
     bind_op (on_reg (reserve_asset (rq_space body) (rq_partition_id body) (AliasMapping (alias_dict (rq_aliases body)))
        (rq_owner_service_id body) (rq_mime body) (rq_annotations body) (rq_eviction_policy body) (rq_ttl_seconds body) None))
       (\<lambda>asset. ret (from_asset asset))))))"

definition commit :: "'s backend \<Rightarrow> string \<Rightarrow> string \<Rightarrow> commit_request \<Rightarrow> ('s app, asset_out) op" where
  "commit B header asset_id body =
     bind_op (require_service_identity header) (\<lambda>caller.
     seq_op (check (valid_commit body) RequestValidationError) (
     seq_op (check (cq_caller_service_id body = caller) CapabilityDeniedError) (
     bind_op (on_reg (asset_lock asset_id)) (\<lambda>pending.
     seq_op (of_result (assert_service_bucket_allowed caller (a_space pending) WRITE)) (
     seq_op (check (a_owner_service_id pending = caller \<or> caller = ''admin'') CapabilityDeniedError) (
     bind_op (of_result (location_for_asset (a_space pending) (a_partition_id pending) (a_asset_id pending))) (\<lambda>location.
     bind_op (on_world (on_objects (bk_stat_object B location))) (\<lambda>found.
     case found of
       None \<Rightarrow> raise ObjectNotFoundError
     | Some stat \<Rightarrow>
         seq_op (check (cq_size_bytes body = st_size_bytes stat \<and> cq_checksum body = st_checksum stat) ChecksumMismatchError) (
         bind_op (on_reg (commit_asset asset_id (st_size_bytes stat) (st_checksum stat) caller (cq_mime body)
            (cq_expected_checksum body))) (\<lambda>asset.
         seq_op (observe_bucket_fill (a_space asset)) (
         ret (from_asset asset))))))))))))"

definition resolve :: "string \<Rightarrow> string \<Rightarrow> string \<Rightarrow> ('s app, asset_out) op" where
  "resolve header space alias =
     bind_op (require_service_identity header) (\<lambda>caller.
     seq_op (of_result (assert_service_bucket_allowed caller space READ)) (
     bind_op (on_reg (resolve_alias space alias)) (\<lambda>asset. ret (from_asset asset))))"

definition update_annotations_route :: "string \<Rightarrow> string \<Rightarrow> annotations_request \<Rightarrow> ('s app, asset_out) op" where
  "update_annotations_route header asset_id body =
     seq_op (require_legacy_admin header (Some (JString (nq_caller_service_id body)))) (
     bind_op (on_reg (update_annotations asset_id (nq_patch body) (nq_caller_service_id body) (nq_overwrite body)))
       (\<lambda>asset. ret (from_asset asset)))"

definition expire_route :: "string \<Rightarrow> string \<Rightarrow> lifecycle_request \<Rightarrow> ('s app, asset_out) op" where
  "expire_route header asset_id body =
     seq_op (require_legacy_admin header (Some (JString (lq_caller_service_id body)))) (
     bind_op (on_reg (expire_asset asset_id (lq_caller_service_id body))) (\<lambda>asset. ret (from_asset asset)))"

definition delete_route :: "string \<Rightarrow> string \<Rightarrow> lifecycle_request \<Rightarrow> ('s app, asset_out) op" where
  "delete_route header asset_id body =
     seq_op (require_legacy_admin header (Some (JString (lq_caller_service_id body)))) (
     bind_op (on_reg (delete_asset asset_id (lq_caller_service_id body))) (\<lambda>asset. ret (from_asset asset)))"

definition set_eviction_policy_route :: "string \<Rightarrow> string \<Rightarrow> eviction_request \<Rightarrow> ('s app, asset_out) op" where
  "set_eviction_policy_route header asset_id body =
     seq_op (require_legacy_admin header (Some (JString (vq_caller_service_id body)))) (
     bind_op (on_reg (set_eviction_policy asset_id (vq_eviction_policy body) (vq_caller_service_id body)))
       (\<lambda>asset. ret (from_asset asset)))"

section \<open>Aliases\<close>

definition detach_alias_route :: "string \<Rightarrow> detach_request \<Rightarrow> ('s app, unit) op" where
  "detach_alias_route header body =
     seq_op (require_legacy_admin header (Some (JString (dq_caller_service_id body)))) (
     on_reg (detach_alias (dq_space body) (dq_alias body) (dq_caller_service_id body)))"

definition detach_mutable_alias_route :: "string \<Rightarrow> detach_request \<Rightarrow> ('s app, alias_binding_out) op" where
  "detach_mutable_alias_route header body =
     seq_op (require_legacy_admin header (Some (JString (dq_caller_service_id body)))) (
     bind_op (on_reg (detach_mutable_alias (dq_space body) (dq_alias body) (dq_caller_service_id body)))
       (\<lambda>binding. ret (from_binding binding)))"

definition rebind_alias_route :: "string \<Rightarrow> rebind_request \<Rightarrow> ('s app, alias_binding_out) op" where
  "rebind_alias_route header body =
     seq_op (require_legacy_admin header (Some (JString (jq_caller_service_id body)))) (
     bind_op (on_reg (rebind_alias (jq_space body) (jq_alias body) (jq_new_asset_id body) (jq_caller_service_id body)))
       (\<lambda>binding. ret (from_binding binding)))"

section \<open>Quotas and audit\<close>

definition set_partition_quota_route ::
  "string \<Rightarrow> json option \<Rightarrow> partition_quota_request \<Rightarrow> ('s app, partition_quota_out) op" where
  "set_partition_quota_route header body_caller body =
     seq_op (require_legacy_admin header body_caller) (
     seq_op (check (valid_partition_quota body) RequestValidationError) (
     bind_op (on_reg (set_partition_quota (pr_space body) (pr_partition_id body) (pr_quota_bytes body)
        (pr_quota_asset_count body) (pr_eviction_sweep_enabled body) ''admin'')) (\<lambda>quota. ret (from_partition_quota quota))))"

definition get_partition_quota_route :: "string \<Rightarrow> string \<Rightarrow> string \<Rightarrow> ('s app, partition_quota_out) op" where
  "get_partition_quota_route header space partition_id =
     seq_op (require_legacy_admin header None) (
     bind_op (on_reg (get_partition_quota space partition_id)) (\<lambda>quota. ret (from_partition_quota quota)))"

definition set_bucket_quota_route :: "string \<Rightarrow> json option \<Rightarrow> bucket_quota_request \<Rightarrow> ('s app, bucket_quota_out) op" where
  "set_bucket_quota_route header body_caller body =
     seq_op (require_legacy_admin header body_caller) (
     seq_op (check (valid_bucket_quota body) RequestValidationError) (
     bind_op (on_reg (set_bucket_quota (br_space body) (br_quota_bytes body) (br_warn_threshold body) (br_hard_ceiling body)))
       (\<lambda>quota. ret (from_bucket_quota quota))))"

definition get_bucket_quota_route :: "string \<Rightarrow> string \<Rightarrow> ('s app, bucket_quota_out) op" where
  "get_bucket_quota_route header space =
     seq_op (require_legacy_admin header None) (
     bind_op (on_reg (get_bucket_quota space)) (\<lambda>quota. ret (from_bucket_quota quota)))"

text \<open>\<open>matched[-limit:]\<close> for a positive limit.\<close>

definition last_n :: "int \<Rightarrow> 'a list \<Rightarrow> 'a list" where
  "last_n n xs = drop (length xs - nat n) xs"

definition list_audit ::
  "string \<Rightarrow> string option \<Rightarrow> string option \<Rightarrow> string option \<Rightarrow> int \<Rightarrow> ('s app, audit_event_out list) op" where
  "list_audit header action target caller limit =
     seq_op (require_legacy_admin header None) (
     seq_op (check (1 \<le> limit \<and> limit \<le> 1000) RequestValidationError) (
     bind_op (on_reg (gets r_audit_events)) (\<lambda>events.
     (let matched = filter (\<lambda>e. (action = None \<or> action = Some (e_action e)) \<and> (target = None \<or> target = Some (e_target e)) \<and>
            (caller = None \<or> caller = Some (e_caller_service_id e))) events in
      ret (map from_event (last_n limit matched))))))"

section \<open>Capabilities\<close>

definition on_issue :: "(capability_store \<times> registry, 'a) op \<Rightarrow> ('s app, 'a) op" where
  "on_issue = on_part (\<lambda>a. (ap_capabilities a, w_registry (ap_world a)))
     (\<lambda>(c, r) a. a\<lparr>ap_capabilities := c, ap_world := (ap_world a)\<lparr>w_registry := r\<rparr>\<rparr>)"

definition mint_capability :: "string \<Rightarrow> mint_request \<Rightarrow> ('s app, capability_out) op" where
  "mint_capability header body =
     bind_op (require_service_identity header) (\<lambda>caller.
     seq_op (check (valid_mint body) RequestValidationError) (
     bind_op monotonic_op (\<lambda>instant.
     seq_op (try_op (on_limiter (admit instant caller)) (\<lambda>e. seq_op
       (case e of CapabilityRateError n \<Rightarrow> count_issued (mq_operation body) ''rate_denied'' | _ \<Rightarrow> ret ()) (raise e))) (
     bind_op (of_result (normalize_space (fst (py_partition slash (strip_char slash (mq_scope_prefix body)))))) (\<lambda>bucket.
     seq_op (try_op (of_result (assert_service_bucket_allowed caller bucket (mq_operation body))) (\<lambda>e. seq_op
       (if e = CapabilityDeniedError then
          seq_op (count_issued (mq_operation body) ''denied'')
            (on_reg (record_capability_issue caller (operation_value (mq_operation body)) (mq_scope_prefix body)
               (mq_ttl_seconds body) ''denied'' None))
        else ret ()) (raise e))) (
     bind_op uuid4_hex (\<lambda>hex.
     bind_op now_op (\<lambda>now.
     bind_op (of_result (dt_add now (seconds (mq_ttl_seconds body)))) (\<lambda>expires_at.
     bind_op (of_result (make_capability (''cap-'' @ hex) (mq_operation body) (mq_scope_prefix body) expires_at caller
        (mq_single_use body))) (\<lambda>cap.
     seq_op (on_world prune_consumed_capabilities) (
     bind_op now_op (\<lambda>now'.
     seq_op (try_op
        (on_issue (issue now' cap (record_capability_issue caller (operation_value (mq_operation body))
           (mq_scope_prefix body) (mq_ttl_seconds body) ''granted'' (Some (c_capability_id cap)))))
        (\<lambda>e. seq_op (if e = CapabilityCapacityError then count_issued (mq_operation body) ''capacity_denied'' else ret ())
               (raise e))) (
     seq_op (count_issued (mq_operation body) ''granted'') (
     ret \<lparr>co_capability_id = c_capability_id cap, co_operation = operation_value (c_operation cap),
          co_scope_prefix = c_scope_prefix cap, co_caller_service_id = c_caller_service_id cap,
          co_expires_at = c_expires_at cap, co_single_use = c_single_use cap\<rparr>))))))))))))))"

section \<open>Objects\<close>

fun read_body :: "int \<Rightarrow> bytes list \<Rightarrow> bytes \<Rightarrow> error + bytes" where
  "read_body limit [] data = Inr data"
| "read_body limit (chunk # chunks) data =
     (if limit < int (length data) + int (length chunk) then Inl UploadTooLargeError
      else read_body limit chunks (data @ chunk))"

definition check_declared_size :: "int \<Rightarrow> string option \<Rightarrow> error + unit" where
  "check_declared_size limit declared =
     (case declared of
        None \<Rightarrow> Inr ()
      | Some text \<Rightarrow>
          (case py_int_parse text of
             None \<Rightarrow> Inl ValidationError
           | Some n \<Rightarrow>
               if n < 0 then Inl ValidationError
               else if limit < n then Inl UploadTooLargeError else Inr ()))"

definition under_lease :: "('s app, 'a) op \<Rightarrow> ('s app, 'a) op" where
  "under_lease body = on_part (\<lambda>a. (ap_uploads a, a)) (\<lambda>(g, b) a. b\<lparr>ap_uploads := g\<rparr>) (with_lease body)"

record upload_request =
  uq_mutable :: bool
  uq_expected_checksum :: "string option"
  uq_ttl_seconds :: "int option"
  uq_content_length :: "string option"
  uq_content_type :: "string option"
  uq_chunks :: "bytes list"

definition write_object_route :: "'s backend \<Rightarrow> string \<Rightarrow> string \<Rightarrow> upload_request \<Rightarrow> ('s app, asset_out) op" where
  "write_object_route B header alias q =
     bind_op (require_capability_dep header) (\<lambda>cap.
     seq_op (check (positive_opt (uq_ttl_seconds q)) RequestValidationError) (
     seq_op (on_world (authorize_write cap alias)) (
     bind_op (gets ap_max_upload_bytes) (\<lambda>limit.
     seq_op (of_result (check_declared_size limit (uq_content_length q))) (
     bind_op (under_lease
       (bind_op (of_result (read_body limit (uq_chunks q) [])) (\<lambda>data.
        bind_op (on_world (write_object B cap alias data (uq_mutable q) (uq_content_type q) (uq_expected_checksum q)
          (uq_ttl_seconds q))) (\<lambda>asset.
        seq_op (observe_bucket_fill (a_space asset)) (ret asset))))) (\<lambda>asset.
     ret (from_asset asset)))))))"

datatype read_response = ReadBytes bytes | ReadLink presigned_url_out

definition read_object_route ::
  "'s backend \<Rightarrow> string \<Rightarrow> string \<Rightarrow> string \<Rightarrow> int \<Rightarrow> ('s app, read_response) op" where
  "read_object_route B header alias mode expires_in =
     bind_op (require_capability_dep header) (\<lambda>cap.
     seq_op (check (1 \<le> expires_in \<and> expires_in \<le> 3600) RequestValidationError) (
     if mode = ''presign'' then
       bind_op (on_world (presign_read B cap alias expires_in)) (\<lambda>presigned.
       ret (ReadLink \<lparr>po_alias = alias, po_asset_id = a_asset_id (pr_asset presigned), po_method = ''GET'',
         po_url = pr_url presigned, po_expires_in = pr_expires_in presigned, po_expires_at = pr_expires_at presigned,
         po_size_bytes = a_size_bytes (pr_asset presigned), po_checksum = a_checksum (pr_asset presigned)\<rparr>))
     else
       seq_op (check (mode = ''proxy'') ValidationError) (
       bind_op (on_world (read_bytes B cap alias)) (\<lambda>data. ret (ReadBytes data)))))"

end
