(* ===== verification/Admin.thy ===== *)
theory Admin
  imports Api "HOL-Library.Product_Lexorder"
begin

text \<open>
  The operator's interface: the asset listing with its filters and pages
  (\<^verbatim>\<open>asset_store_core/admin_query.py\<close>, \<open>query_assets\<close> of the registry) and the routes of
  \<^verbatim>\<open>asset_store_core/api/admin.py\<close>. A cursor is modelled by what its text decodes to: nothing, a
  fingerprint of filters with an instant and an asset id, or text that is not a cursor. The
  fingerprint, a SHA-256 digest of the filters, is modelled by the filters themselves.
\<close>

section \<open>Queries\<close>

type_synonym fingerprint =
  "string option \<times> string option \<times> asset_state option \<times> datetime option \<times> datetime option \<times> string option"

datatype cursor = NoCursor | BadCursor | Cursor fingerprint datetime string

record asset_query =
  q_space :: "string option"
  q_partition_id :: "string option"
  q_state :: "asset_state option"
  q_created_from :: "datetime option"
  q_created_to :: "datetime option"
  q_prefix :: "string option"
  q_limit :: int
  q_cursor :: cursor

definition given :: "string option \<Rightarrow> bool" where
  "given x = (case x of None \<Rightarrow> False | Some s \<Rightarrow> s \<noteq> [])"

definition normalize_given :: "(string \<Rightarrow> error + string) \<Rightarrow> string option \<Rightarrow> error + string option" where
  "normalize_given f x = (case x of Some (c # s) \<Rightarrow> bind_result (f (c # s)) (\<lambda>y. Inr (Some y)) | _ \<Rightarrow> Inr x)"

text \<open>A \<open>ValueError\<close> of the validator becomes FastAPI's validation error; a store error passes through.\<close>

definition validate_filters :: "asset_query \<Rightarrow> error + asset_query" where
  "validate_filters q =
     bind_result (guard_result (1 \<le> q_limit q \<and> q_limit q \<le> 500) RequestValidationError) (\<lambda>_.
     bind_result (normalize_given normalize_space (q_space q)) (\<lambda>space.
     bind_result (guard_result (\<not> given (q_partition_id q) \<or> given space) RequestValidationError) (\<lambda>_.
     bind_result (normalize_given normalize_partition_id (q_partition_id q)) (\<lambda>partition_id.
     bind_result (normalize_given normalize_relative_alias (q_prefix q)) (\<lambda>pfx.
     bind_result (case pfx of
                    Some (c # s) \<Rightarrow> bind_result (normalize_space (hd (split_on slash (c # s)))) (\<lambda>_. Inr ())
                  | _ \<Rightarrow> Inr ()) (\<lambda>_.
     bind_result (guard_result (case (q_created_from q, q_created_to q) of
                                  (Some a, Some b) \<Rightarrow> a \<le> b | _ \<Rightarrow> True) RequestValidationError) (\<lambda>_.
     Inr (q\<lparr>q_space := space, q_partition_id := partition_id, q_prefix := pfx\<rparr>))))))))"

definition fingerprint :: "asset_query \<Rightarrow> fingerprint" where
  "fingerprint q = (q_space q, q_partition_id q, q_state q, q_created_from q, q_created_to q, q_prefix q)"

definition after :: "asset_query \<Rightarrow> error + (datetime \<times> string) option" where
  "after q =
     (case q_cursor q of
        NoCursor \<Rightarrow> Inr None
      | BadCursor \<Rightarrow> Inl ValidationError
      | Cursor f t i \<Rightarrow> if f \<noteq> fingerprint q then Inl ValidationError else Inr (Some (t, i)))"

definition cursor_for :: "asset_query \<Rightarrow> asset \<Rightarrow> cursor" where
  "cursor_for q a = Cursor (fingerprint q) (a_created_at a) (a_asset_id a)"

definition prefix_matches :: "string \<Rightarrow> string \<Rightarrow> bool" where
  "prefix_matches alias pfx \<longleftrightarrow> alias = pfx \<or> prefix (pfx @ ''/'') alias"

definition matches :: "asset_query \<Rightarrow> asset \<Rightarrow> bool" where
  "matches q a \<longleftrightarrow>
     (q_space q = None \<or> q_space q = Some (a_space a)) \<and>
     (q_partition_id q = None \<or> q_partition_id q = Some (a_partition_id a)) \<and>
     (q_state q = None \<or> q_state q = Some (a_state a)) \<and>
     (case q_created_from q of None \<Rightarrow> True | Some t \<Rightarrow> t \<le> a_created_at a) \<and>
     (case q_created_to q of None \<Rightarrow> True | Some t \<Rightarrow> a_created_at a \<le> t) \<and>
     (case q_prefix q of None \<Rightarrow> True | Some p \<Rightarrow> \<exists>k \<in> a_aliases a. prefix_matches k p)"

definition asset_key :: "asset \<Rightarrow> datetime \<times> string" where
  "asset_key a = (a_created_at a, a_asset_id a)"

definition query_assets :: "asset_query \<Rightarrow> (registry, asset list) op" where
  "query_assets q =
     bind_op (of_result (after q)) (\<lambda>start.
     bind_op (gets (\<lambda>r. sort_key asset_key (dict_values (r_assets r)))) (\<lambda>assets.
     ret (take (nat (q_limit q + 1))
       (filter (\<lambda>a. matches q a \<and> (case start of None \<Rightarrow> True | Some k \<Rightarrow> k < asset_key a)) assets))))"

section \<open>Routes\<close>

definition public_asset :: "asset \<Rightarrow> public_asset_out" where
  "public_asset a = public_asset_out.truncate (from_asset a)"

text \<open>The application with the counter of operator actions.\<close>

record 's console =
  cn_app :: "'s app"
  cn_actions_total :: "(string \<times> string) list"

definition on_app :: "('s app, 'a) op \<Rightarrow> ('s console, 'a) op" where
  "on_app = on_part cn_app (\<lambda>a c. c\<lparr>cn_app := a\<rparr>)"

definition cn_reg :: "(registry, 'a) op \<Rightarrow> ('s console, 'a) op" where
  "cn_reg m = on_app (on_reg m)"

definition count_action :: "string \<Rightarrow> string \<Rightarrow> ('s console, unit) op" where
  "count_action action outcome = modify (\<lambda>c. c\<lparr>cn_actions_total := cn_actions_total c @ [(action, outcome)]\<rparr>)"

definition observe :: "string \<Rightarrow> ('s console, 'a) op \<Rightarrow> ('s console, 'a) op" where
  "observe action body =
     bind_op (try_op body (\<lambda>e. seq_op (count_action action ''error'') (raise e))) (\<lambda>x.
     seq_op (count_action action ''success'') (ret x))"

record listing_out =
  lo_items :: "public_asset_out list"
  lo_next_cursor :: "cursor option"
  lo_quota :: "partition_quota_out option"

definition listing :: "string \<Rightarrow> asset_query \<Rightarrow> ('s console, listing_out) op" where
  "listing header q0 =
     seq_op (on_app (require_admin header)) (
     bind_op (of_result (validate_filters q0)) (\<lambda>q.
     bind_op (cn_reg (query_assets q)) (\<lambda>rows.
     (let more = q_limit q < int (length rows); rows' = take (nat (q_limit q)) rows in
     bind_op
       (case (q_space q, q_partition_id q) of
          (Some space, Some part) \<Rightarrow>
            if space \<noteq> [] \<and> part \<noteq> [] then
              bind_op (cn_reg (get_partition_quota space part)) (\<lambda>quota. ret (Some (from_partition_quota quota)))
            else ret None
        | _ \<Rightarrow> ret None) (\<lambda>quota.
     ret \<lparr>lo_items = map public_asset rows', lo_next_cursor = (if more then Some (cursor_for q (last rows')) else None),
          lo_quota = quota\<rparr>)))))"

definition inspect :: "string \<Rightarrow> string \<Rightarrow> ('s console, public_asset_out \<times> audit_event_out list) op" where
  "inspect header asset_id =
     seq_op (on_app (require_admin header)) (
     bind_op (cn_reg (get_asset asset_id)) (\<lambda>asset.
     bind_op (cn_reg (recent_audit (Some asset_id) 100)) (\<lambda>events.
     ret (public_asset asset, map from_event (last_n 100 events)))))"

definition audit_route :: "string \<Rightarrow> int \<Rightarrow> ('s console, audit_event_out list) op" where
  "audit_route header limit =
     seq_op (on_app (require_admin header)) (
     seq_op (check (1 \<le> limit \<and> limit \<le> 500) RequestValidationError) (
     bind_op (cn_reg (recent_audit None limit)) (\<lambda>events. ret (map from_event events))))"

datatype admin_action = Expire | Delete | Ttl | Attach | Detach | Annotations | Eviction

fun action_value :: "admin_action \<Rightarrow> string" where
  "action_value Expire = ''expire''"
| "action_value Delete = ''delete''"
| "action_value Ttl = ''ttl''"
| "action_value Attach = ''attach''"
| "action_value Detach = ''detach''"
| "action_value Annotations = ''annotations''"
| "action_value Eviction = ''eviction''"

record mutation =
  mu_expected_updated_at :: datetime
  mu_action :: admin_action
  mu_ttl_seconds :: "int option"
  mu_alias :: "string option"
  mu_mutable :: bool
  mu_annotations :: "(string, string) fmap option"
  mu_eviction_policy :: "eviction_policy option"

definition detach_from :: "asset \<Rightarrow> string \<Rightarrow> (registry, unit) op" where
  "detach_from asset alias =
     (let name = strip_char slash (py_strip alias) in
      seq_op (check (a_space asset @ ''/'' @ name \<in> a_aliases asset) ValidationError) (
      try_op (detach_alias (a_space asset) name ''admin'') (\<lambda>e.
        if e = AliasImmutableError then void (detach_mutable_alias (a_space asset) name ''admin'') else raise e)))"

definition apply_mutation :: "string \<Rightarrow> mutation \<Rightarrow> asset \<Rightarrow> (registry, unit) op" where
  "apply_mutation asset_id body asset =
     (case mu_action body of
        Expire \<Rightarrow> void (expire_asset asset_id ''admin'')
      | Delete \<Rightarrow> void (delete_asset asset_id ''admin'')
      | Ttl \<Rightarrow> (case mu_ttl_seconds body of
                 None \<Rightarrow> raise ValidationError
               | Some ttl \<Rightarrow> void (set_asset_ttl asset_id ttl ''admin''))
      | Attach \<Rightarrow> (case mu_alias body of
                    Some (c # s) \<Rightarrow> void (attach_alias asset_id (c # s) (mu_mutable body) ''admin'')
                  | _ \<Rightarrow> raise ValidationError)
      | Detach \<Rightarrow> (case mu_alias body of Some (c # s) \<Rightarrow> detach_from asset (c # s) | _ \<Rightarrow> raise ValidationError)
      | Annotations \<Rightarrow> (case mu_annotations body of
                         None \<Rightarrow> raise ValidationError
                       | Some patch \<Rightarrow> void (update_annotations asset_id patch ''admin'' True))
      | Eviction \<Rightarrow> (case mu_eviction_policy body of
                      None \<Rightarrow> raise ValidationError
                    | Some policy \<Rightarrow> void (set_eviction_policy asset_id policy ''admin'')))"

definition mutate :: "string \<Rightarrow> string \<Rightarrow> mutation \<Rightarrow> ('s console, public_asset_out) op" where
  "mutate header asset_id body =
     seq_op (on_app (require_admin header)) (
     seq_op (check (positive_opt (mu_ttl_seconds body)) RequestValidationError) (
     observe (action_value (mu_action body)) (
       bind_op (cn_reg (asset_lock asset_id)) (\<lambda>asset.
       seq_op (check (mu_expected_updated_at body = a_updated_at asset) InvalidStateTransitionError) (
       seq_op (cn_reg (apply_mutation asset_id body asset)) (
       bind_op (cn_reg (get_asset asset_id)) (\<lambda>current. ret (public_asset current))))))))"

definition quota_route :: "string \<Rightarrow> partition_quota_request \<Rightarrow> ('s console, partition_quota_out) op" where
  "quota_route header body =
     seq_op (on_app (require_admin header)) (
     seq_op (check (valid_partition_quota body) RequestValidationError) (
     observe ''quota'' (
       bind_op (cn_reg (set_partition_quota (pr_space body) (pr_partition_id body) (pr_quota_bytes body)
          (pr_quota_asset_count body) (pr_eviction_sweep_enabled body) ''admin''))
         (\<lambda>quota. ret (from_partition_quota quota)))))"

text \<open>\<open>AssetQuery\<close> is built outside of a request here, where a \<open>ValueError\<close> cannot arise.\<close>

definition bulk_query :: "string \<Rightarrow> error + asset_query" where
  "bulk_query pfx =
     bind_result (validate_filters \<lparr>q_space = None, q_partition_id = None, q_state = Some AVAILABLE, q_created_from = None,
       q_created_to = None, q_prefix = Some pfx, q_limit = 500, q_cursor = NoCursor\<rparr>) (\<lambda>q.
     bind_result (guard_result (case q_prefix q of None \<Rightarrow> False | Some p \<Rightarrow> 2 \<le> length (split_on slash p)) ValidationError)
       (\<lambda>_. Inr q))"

record candidate =
  cd_asset_id :: string
  cd_expected_updated_at :: datetime

definition preview :: "string \<Rightarrow> string \<Rightarrow> ('s console, string option \<times> candidate list) op" where
  "preview header pfx =
     seq_op (on_app (require_admin header)) (
     bind_op (of_result (bulk_query pfx)) (\<lambda>q.
     bind_op (cn_reg (query_assets q)) (\<lambda>rows.
     seq_op (check (int (length rows) \<le> q_limit q) ValidationError) (
     ret (q_prefix q, map (\<lambda>a. \<lparr>cd_asset_id = a_asset_id a, cd_expected_updated_at = a_updated_at a\<rparr>) rows)))))"

fun bulk_loop :: "asset_query \<Rightarrow> candidate list \<Rightarrow> nat \<Rightarrow> nat \<Rightarrow> (registry, nat \<times> nat) op" where
  "bulk_loop q [] applied skipped = ret (applied, skipped)"
| "bulk_loop q (c # cs) applied skipped =
     bind_op (asset_lock (cd_asset_id c)) (\<lambda>asset.
     if a_updated_at asset \<noteq> cd_expected_updated_at c \<or> a_state asset \<noteq> AVAILABLE \<or>
        \<not> (\<exists>k \<in> a_aliases asset. prefix_matches k (case q_prefix q of None \<Rightarrow> [] | Some p \<Rightarrow> p))
     then bulk_loop q cs applied (skipped + 1)
     else seq_op (expire_asset (a_asset_id asset) ''admin'') (bulk_loop q cs (applied + 1) skipped))"

definition bulk :: "string \<Rightarrow> string \<Rightarrow> candidate list \<Rightarrow> ('s console, nat \<times> nat) op" where
  "bulk header pfx cs =
     seq_op (on_app (require_admin header)) (
     seq_op (check (length cs \<le> 500) RequestValidationError) (
     bind_op (of_result (bulk_query pfx)) (\<lambda>q.
     seq_op (check (card (set (map cd_asset_id cs)) = length cs) ValidationError) (
     observe ''bulk_expire'' (cn_reg (bulk_loop q cs 0 0))))))"

end
