(* ===== verification/Api_Server.thy ===== *)
theory Api_Server
  imports Admin Registry_Props
begin

text \<open>
  The application as a server: every route as a request, the response the exception handlers make
  of it, and the states a sequence of requests can lead to.
\<close>

section \<open>Requests and responses\<close>

datatype request =
    Reserve string reserve_request
  | Commit string string commit_request
  | Resolve string string string
  | UpdateAnnotationsR string string annotations_request
  | ExpireR string string lifecycle_request
  | DeleteR string string lifecycle_request
  | DetachAliasR string detach_request
  | DetachMutableAliasR string detach_request
  | RebindAliasR string rebind_request
  | SetEvictionPolicyR string string eviction_request
  | SetPartitionQuotaR string "json option" partition_quota_request
  | GetPartitionQuotaR string string string
  | SetBucketQuotaR string "json option" bucket_quota_request
  | GetBucketQuotaR string string
  | ListAudit string "string option" "string option" "string option" int
  | MintCapability string mint_request
  | WriteObject string string upload_request
  | ReadObject string string string int

datatype payload =
    AssetPayload asset_out
  | BindingPayload alias_binding_out
  | PartitionQuotaPayload partition_quota_out
  | BucketQuotaPayload bucket_quota_out
  | AuditPayload "audit_event_out list"
  | CapabilityPayload capability_out
  | ReadPayload read_response
  | NoContent

datatype response = Success nat payload | Problem problem

definition as_payload :: "('a \<Rightarrow> payload) \<Rightarrow> ('s, 'a) op \<Rightarrow> ('s, payload) op" where
  "as_payload f m = bind_op m (\<lambda>x. ret (f x))"

fun route :: "'s backend \<Rightarrow> request \<Rightarrow> ('s app, payload) op" where
  "route B (Reserve h b) = as_payload AssetPayload (reserve h b)"
| "route B (Commit h i b) = as_payload AssetPayload (commit B h i b)"
| "route B (Resolve h sp al) = as_payload AssetPayload (resolve h sp al)"
| "route B (UpdateAnnotationsR h i b) = as_payload AssetPayload (update_annotations_route h i b)"
| "route B (ExpireR h i b) = as_payload AssetPayload (expire_route h i b)"
| "route B (DeleteR h i b) = as_payload AssetPayload (delete_route h i b)"
| "route B (DetachAliasR h b) = as_payload (\<lambda>_. NoContent) (detach_alias_route h b)"
| "route B (DetachMutableAliasR h b) = as_payload BindingPayload (detach_mutable_alias_route h b)"
| "route B (RebindAliasR h b) = as_payload BindingPayload (rebind_alias_route h b)"
| "route B (SetEvictionPolicyR h i b) = as_payload AssetPayload (set_eviction_policy_route h i b)"
| "route B (SetPartitionQuotaR h c b) = as_payload PartitionQuotaPayload (set_partition_quota_route h c b)"
| "route B (GetPartitionQuotaR h sp p) = as_payload PartitionQuotaPayload (get_partition_quota_route h sp p)"
| "route B (SetBucketQuotaR h c b) = as_payload BucketQuotaPayload (set_bucket_quota_route h c b)"
| "route B (GetBucketQuotaR h sp) = as_payload BucketQuotaPayload (get_bucket_quota_route h sp)"
| "route B (ListAudit h ac tg cl n) = as_payload AuditPayload (list_audit h ac tg cl n)"
| "route B (MintCapability h b) = as_payload CapabilityPayload (mint_capability h b)"
| "route B (WriteObject h al q) = as_payload AssetPayload (write_object_route B h al q)"
| "route B (ReadObject h al md n) = as_payload ReadPayload (read_object_route B h al md n)"

text \<open>The operator's routes, for their effect on the application.\<close>

datatype admin_request =
    Listing string asset_query
  | Inspect string string
  | AuditTail string int
  | Mutate string string mutation
  | PartitionQuota string partition_quota_request
  | Preview string string
  | BulkExpire string string "candidate list"

fun admin_route :: "admin_request \<Rightarrow> ('s console, unit) op" where
  "admin_route (Listing h q) = void (listing h q)"
| "admin_route (Inspect h i) = void (inspect h i)"
| "admin_route (AuditTail h n) = void (audit_route h n)"
| "admin_route (Mutate h i b) = void (mutate h i b)"
| "admin_route (PartitionQuota h b) = void (quota_route h b)"
| "admin_route (Preview h p) = void (preview h p)"
| "admin_route (BulkExpire h p cs) = void (bulk h p cs)"

fun success_status :: "request \<Rightarrow> nat" where
  "success_status (Reserve h b) = 201"
| "success_status (MintCapability h b) = 201"
| "success_status (WriteObject h al q) = 201"
| "success_status (DetachAliasR h b) = 204"
| "success_status _ = 200"

definition serve :: "'s backend \<Rightarrow> request \<Rightarrow> 's app \<Rightarrow> response \<times> 's app" where
  "serve B q a = (case route B q a of
     (Inl e, a') \<Rightarrow> (Problem (problem_for e), a') | (Inr x, a') \<Rightarrow> (Success (success_status q) x, a'))"

fun header_of :: "request \<Rightarrow> string" where
  "header_of (Reserve h b) = h" | "header_of (Commit h i b) = h" | "header_of (Resolve h sp al) = h"
| "header_of (UpdateAnnotationsR h i b) = h" | "header_of (ExpireR h i b) = h" | "header_of (DeleteR h i b) = h"
| "header_of (DetachAliasR h b) = h" | "header_of (DetachMutableAliasR h b) = h" | "header_of (RebindAliasR h b) = h"
| "header_of (SetEvictionPolicyR h i b) = h" | "header_of (SetPartitionQuotaR h c b) = h"
| "header_of (GetPartitionQuotaR h sp p) = h" | "header_of (SetBucketQuotaR h c b) = h"
| "header_of (GetBucketQuotaR h sp) = h" | "header_of (ListAudit h ac tg cl n) = h"
| "header_of (MintCapability h b) = h" | "header_of (WriteObject h al q) = h" | "header_of (ReadObject h al md n) = h"

section \<open>Keeping an invariant\<close>

named_theorems keeps_intros \<open>operations that keep an invariant\<close>

definition keeps :: "('s \<Rightarrow> bool) \<Rightarrow> ('s, 'a) op \<Rightarrow> bool" where
  "keeps I m \<longleftrightarrow> (\<forall>s. I s \<longrightarrow> I (snd (m s)))"

lemma keepsD: "keeps I m \<Longrightarrow> I s \<Longrightarrow> I (snd (m s))"
  by (simp add: keeps_def)

lemma keeps_wp: "keeps I m \<longleftrightarrow> (\<forall>s. I s \<longrightarrow> wp m (\<lambda>_. I) (\<lambda>_. I) s)"
  by (simp add: keeps_def wp_snd_iff)

lemma keeps_basic [keeps_intros]:
  "keeps I (ret x)" "keeps I (raise e)" "keeps I (check b e)" "keeps I (of_result c)" "keeps I (gets f)"
  by (simp_all add: keeps_wp wp_simps split: sum.split)

lemma keeps_bind [keeps_intros]: "keeps I m \<Longrightarrow> (\<And>x. keeps I (f x)) \<Longrightarrow> keeps I (bind_op m f)"
  unfolding keeps_wp wp_bind by (intro allI impI) (rule wp_mono, blast, simp_all)

lemma keeps_seq [keeps_intros]: "keeps I m \<Longrightarrow> keeps I n \<Longrightarrow> keeps I (seq_op m n)"
  unfolding keeps_wp wp_seq by (intro allI impI) (rule wp_mono, blast, simp_all)

lemma keeps_try [keeps_intros]: "keeps I m \<Longrightarrow> (\<And>e. keeps I (h e)) \<Longrightarrow> keeps I (try_op m h)"
  unfolding keeps_wp wp_try by (intro allI impI) (rule wp_mono, blast, simp_all)

lemma keeps_if [keeps_intros]: "(b \<Longrightarrow> keeps I m) \<Longrightarrow> (\<not> b \<Longrightarrow> keeps I n) \<Longrightarrow> keeps I (if b then m else n)"
  by simp

lemma keeps_option [keeps_intros]:
  "(x = None \<Longrightarrow> keeps I m) \<Longrightarrow> (\<And>y. x = Some y \<Longrightarrow> keeps I (f y)) \<Longrightarrow> keeps I (case x of None \<Rightarrow> m | Some y \<Rightarrow> f y)"
  by (cases x) auto

lemma keeps_op_void [keeps_intros]: "keeps I m \<Longrightarrow> keeps I (void m)"
  unfolding void_def by (intro keeps_intros)

lemma keeps_part:
  assumes "keeps J m" and "\<And>s. I s \<Longrightarrow> J (get s)" and "\<And>s x. I s \<Longrightarrow> J x \<Longrightarrow> I (put x s)"
  shows "keeps I (on_part get put m)"
  unfolding keeps_wp wp_on_part
  using assms by (intro allI impI) (rule wp_mono [of m "\<lambda>_. J" "\<lambda>_. J"], simp_all add: keeps_wp)

section \<open>The registry stays reachable\<close>

lemma snd_void [simp]: "snd (void m s) = snd (m s)"
  by (simp add: void_def seq_op_def bind_op_def ret_def split: prod.split sum.split)

lemma keeps_exec: "keeps reachable (exec_call c)"
  by (simp add: keeps_def reachable.call)

lemma keeps_call: "exec_call c = void m \<Longrightarrow> keeps reachable m"
  unfolding keeps_def using reachable.call [of _ c] by simp

lemma keeps_reads [keeps_intros]:
  "keeps reachable (get_asset i)" "keeps reachable (asset_lock i)" "keeps reachable (get_partition_quota sp p)"
  "keeps reachable (get_bucket_quota sp)" "keeps reachable (query_assets q)" "keeps reachable (recent_audit io n)"
  by (simp_all add: keeps_wp asset_lock_def get_partition_quota_def get_bucket_quota_def query_assets_def recent_audit_def
      wp_simps Let_def split: option.split sum.split)

lemmas keeps_registry_calls [keeps_intros] =
  keeps_call [OF exec_call.simps(1)] keeps_call [OF exec_call.simps(2)] keeps_call [OF exec_call.simps(3)]
  keeps_call [OF exec_call.simps(4)] keeps_call [OF exec_call.simps(5)] keeps_call [OF exec_call.simps(6)]
  keeps_call [OF exec_call.simps(7)] keeps_call [OF exec_call.simps(8)] keeps_call [OF exec_call.simps(9)]
  keeps_call [OF exec_call.simps(10)] keeps_call [OF exec_call.simps(11)] keeps_call [OF exec_call.simps(12)]
  keeps_call [OF exec_call.simps(13)] keeps_call [OF exec_call.simps(15)] keeps_call [OF exec_call.simps(16)]
  keeps_call [OF exec_call.simps(18)]

lemma keeps_plain_calls [keeps_intros]:
  "keeps reachable (record_read i)" "keeps reachable (record_capability_issue c op sp ttl out cid)"
  using keeps_exec [of "RecordRead i"] keeps_exec [of "RecordCapabilityIssue c op sp ttl out cid"] by simp_all

section \<open>The guard\<close>

definition world_ok :: "'s world \<Rightarrow> bool" where
  "world_ok w \<longleftrightarrow> reachable (w_registry w)"

lemma keeps_on_registry [keeps_intros]: "keeps reachable m \<Longrightarrow> keeps world_ok (on_registry m)"
  unfolding on_registry_def by (erule keeps_part) (simp_all add: world_ok_def)

lemma keeps_on_objects [keeps_intros]: "keeps world_ok (on_objects m)"
  unfolding on_objects_def by (rule keeps_part [where J = "\<lambda>_. True"]) (simp_all add: world_ok_def keeps_def)

lemma keeps_on_ledger [keeps_intros]: "keeps world_ok (on_ledger m)"
  unfolding on_ledger_def by (rule keeps_part [where J = "\<lambda>_. True"]) (simp_all add: world_ok_def keeps_def)

lemma keeps_counts [keeps_intros]: "keeps world_ok (count_cleanup x y)" "keeps world_ok (count_reservation x y)"
  by (simp_all add: keeps_wp wp_simps world_ok_def)

lemma keeps_clock [keeps_intros]: "keeps world_ok clock_now"
  unfolding clock_now_def by (intro keeps_intros)

lemma keeps_authorize [keeps_intros]: "keeps world_ok (authorize cap op al)" "keeps world_ok (authorize_write cap al)"
  unfolding authorize_def authorize_write_def by (intro keeps_intros)+

lemma keeps_resolve_for_read [keeps_intros]: "keeps world_ok (resolve_for_read cap al)"
  unfolding resolve_for_read_def by (intro keeps_intros)

lemma keeps_read_bytes [keeps_intros]: "keeps world_ok (read_bytes B cap al)"
  unfolding read_bytes_def by (intro keeps_intros)

lemma keeps_presign_read [keeps_intros]: "keeps world_ok (presign_read B cap al n)"
  unfolding presign_read_def Let_def by (intro keeps_intros)

lemma keeps_cleanup [keeps_intros]: "keeps world_ok (cleanup_failed_upload B i l)"
  unfolding cleanup_failed_upload_def cleanup_outcome_def by (intro keeps_intros)

lemma keeps_write_object [keeps_intros]: "keeps world_ok (write_object B cap al d mut mime ec ttl)"
  unfolding write_object_def by (intro keeps_intros)

lemma keeps_prune [keeps_intros]: "keeps world_ok prune_consumed_capabilities"
  unfolding prune_consumed_capabilities_def by (intro keeps_intros)

end
