(* ===== verification/Api_Props.thy ===== *)
theory Api_Props
  imports Api_Server Guard_Props
begin

text \<open>
  What the HTTP application promises: its invariant over all request sequences, that requests
  without credentials have no effect, who may mint capabilities, what a problem response says, and
  the limit on uploads.
\<close>

section \<open>The application's invariant\<close>

text \<open>
  Every capability in the store was minted by an identity of the credential store for a bucket it
  may use; the registry is in a reachable state; between requests no upload is admitted.
\<close>

definition scope_bucket :: "string \<Rightarrow> error + string" where
  "scope_bucket scope = normalize_space (fst (py_partition slash (strip_char slash scope)))"

definition entitled :: "credential_store \<Rightarrow> capability \<Rightarrow> bool" where
  "entitled creds cap \<longleftrightarrow> map_of (cs_secrets creds) (c_caller_service_id cap) \<noteq> None \<and>
     (\<exists>bucket. scope_bucket (c_scope_prefix cap) = Inr bucket \<and>
        assert_service_bucket_allowed (c_caller_service_id cap) bucket (c_operation cap) = Inr ())"

definition app_inv :: "credential_store \<Rightarrow> 's app \<Rightarrow> bool" where
  "app_inv creds a \<longleftrightarrow> ap_credentials a = creds \<and> world_ok (ap_world a) \<and> store_ok (ap_capabilities a) \<and>
     (\<forall>i cap. map_of (s_capabilities (ap_capabilities a)) i = Some cap \<longrightarrow> entitled creds cap) \<and>
     g_active (ap_uploads a) = 0 \<and> 0 < g_limit (ap_uploads a) \<and> 0 < ap_max_upload_bytes a"

lemma keeps_on_world [keeps_intros]: "keeps world_ok m \<Longrightarrow> keeps (app_inv creds) (on_world m)"
  unfolding on_world_def by (erule keeps_part) (simp_all add: app_inv_def)

lemma keeps_on_reg [keeps_intros]: "keeps reachable m \<Longrightarrow> keeps (app_inv creds) (on_reg m)"
  unfolding on_reg_def by (intro keeps_intros)

lemma keeps_on_limiter [keeps_intros]: "keeps (app_inv creds) (on_limiter m)"
  unfolding on_limiter_def by (rule keeps_part [where J = "\<lambda>_. True"]) (simp_all add: app_inv_def keeps_def)

lemma keeps_now [keeps_intros]: "keeps (app_inv creds) now_op"
  unfolding now_op_def by (intro keeps_intros)

lemma keeps_sources [keeps_intros]:
  "keeps (app_inv creds) monotonic_op" "keeps (app_inv creds) uuid4_hex" "keeps (app_inv creds) (count_issued op x)"
  by (simp_all add: keeps_def monotonic_op_def uuid4_hex_def count_issued_def modify_def app_inv_def)

lemma keeps_observe_fill [keeps_intros]: "keeps (app_inv creds) (observe_bucket_fill sp)"
proof -
  have "keeps (app_inv creds) (modify (\<lambda>a. a\<lparr>ap_bucket_fill_ratio := f a\<rparr>))" for f
    by (simp add: keeps_def modify_def app_inv_def)
  then show ?thesis unfolding observe_bucket_fill_def by (intro keeps_intros)
qed

lemma pruned_lookup:
  "store_ok s \<Longrightarrow> map_of (store_prune_locked now (s_capabilities s)) i = Some cap \<Longrightarrow> map_of (s_capabilities s) i = Some cap"
  by (simp add: issued.prune_lookup store_ok_dict split: option.splits if_splits)

lemma keeps_lookup [keeps_intros]: "keeps (app_inv creds) (on_capabilities (get_capability now t))"
  unfolding on_capabilities_def
  by (rule keeps_part [where J = "\<lambda>s. store_ok s \<and> (\<forall>i cap. map_of (s_capabilities s) i = Some cap \<longrightarrow> entitled creds cap)"])
    (auto simp: keeps_wp get_capability_def wp_simps store_ok_prune app_inv_def dest: pruned_lookup)

lemma keeps_capability_dep [keeps_intros]: "keeps (app_inv creds) (require_capability_dep h)"
  unfolding require_capability_dep_def by (intro keeps_intros)

lemma keeps_identity:
  assumes "\<And>caller. service_identity creds h = Inr caller \<Longrightarrow> keeps (app_inv creds) (f caller)"
  shows "keeps (app_inv creds) (bind_op (require_service_identity h) f)"
  using assms unfolding keeps_wp require_service_identity_def wp_bind wp_gets wp_of_result
  by (auto simp: app_inv_def split: sum.split)

lemma keeps_require_identity [keeps_intros]:
  "keeps (app_inv creds) (require_service_identity h)" "keeps (app_inv creds) (require_admin h)"
  "keeps (app_inv creds) (require_legacy_admin h c)"
  unfolding require_legacy_admin_def require_admin_def require_service_identity_def by (intro keeps_intros)+

lemma wp_with_lease:
  "wp (with_lease m) Q E (g, w) =
     (if g_active g < g_limit g
      then wp m (\<lambda>x v. Q x (g\<lparr>g_granted := g_granted g + 1\<rparr>, v)) (\<lambda>e v. E e (g\<lparr>g_granted := g_granted g + 1\<rparr>, v)) w
      else E WorkCapacityError (g\<lparr>g_denied := g_denied g + 1\<rparr>, w))"
  by (simp add: with_lease_def lease_enter_def lease_exit_def Let_def wp_simps)

lemma wp_under_lease:
  "wp (under_lease m) Q E a =
     (if g_active (ap_uploads a) < g_limit (ap_uploads a)
      then wp m (\<lambda>x b. Q x (b\<lparr>ap_uploads := (ap_uploads a)\<lparr>g_granted := g_granted (ap_uploads a) + 1\<rparr>\<rparr>))
             (\<lambda>e b. E e (b\<lparr>ap_uploads := (ap_uploads a)\<lparr>g_granted := g_granted (ap_uploads a) + 1\<rparr>\<rparr>)) a
      else E WorkCapacityError (a\<lparr>ap_uploads := (ap_uploads a)\<lparr>g_denied := g_denied (ap_uploads a) + 1\<rparr>\<rparr>))"
  by (simp add: under_lease_def wp_on_part wp_with_lease)

lemma keeps_under_lease [keeps_intros]:
  assumes "keeps (app_inv creds) m"
  shows "keeps (app_inv creds) (under_lease m)"
proof -
  have m: "wp m (\<lambda>_. app_inv creds) (\<lambda>_. app_inv creds) a" if "app_inv creds a" for a
    using assms that by (simp add: keeps_wp)
  show ?thesis
    unfolding keeps_wp wp_under_lease
    by (auto intro!: wp_mono [OF m]) (auto simp: app_inv_def)
qed

lemma keeps_issue:
  assumes "entitled creds cap" and "keeps reachable g"
  shows "keeps (app_inv creds) (on_issue (issue now cap g))"
proof (unfold keeps_wp on_issue_def wp_on_part, intro allI impI)
  fix a :: "'s app" assume a: "app_inv creds a"
  let ?s = "ap_capabilities a" and ?r = "w_registry (ap_world a)"
  have ok: "store_ok ?s" "reachable ?r" using a by (simp_all add: app_inv_def world_ok_def)
  have old: "entitled creds c" if "map_of (store_prune_locked now (s_capabilities ?s)) i = Some c" for i c
    using a pruned_lookup [OF ok(1) that] unfolding app_inv_def by blast
  have r: "reachable t" if "g ?r = (x, t)" for x t
    using keepsD [OF assms(2) ok(2)] that by simp
  show "wp (issue now cap g) (\<lambda>x w. app_inv creds ((\<lambda>(c, r) a. a\<lparr>ap_capabilities := c, ap_world := (ap_world a)\<lparr>w_registry := r\<rparr>\<rparr>) w a))
      (\<lambda>e w. app_inv creds ((\<lambda>(c, r) a. a\<lparr>ap_capabilities := c, ap_world := (ap_world a)\<lparr>w_registry := r\<rparr>\<rparr>) w a))
      (?s, ?r)"
    by (rule wp_mono [OF wp_issue [OF ok(1), where r = ?r]])
      (use a ok r assms(1) old in \<open>auto simp: app_inv_def world_ok_def split: if_splits\<close>)
qed

lemma keeps_of_result:
  "(\<And>x. c = Inr x \<Longrightarrow> keeps I (f x)) \<Longrightarrow> keeps I (bind_op (of_result c) f)"
  by (cases c) (simp_all add: keeps_wp wp_simps)

lemma keeps_checked:
  "(c = Inr () \<Longrightarrow> keeps I n) \<Longrightarrow> (\<And>e. keeps I (h e)) \<Longrightarrow> keeps I (seq_op (try_op (of_result c) (\<lambda>e. seq_op (h e) (raise e))) n)"
proof (cases c)
  case (Inl e)
  assume "\<And>e. keeps I (h e)"
  then show ?thesis unfolding keeps_wp Inl wp_seq wp_try wp_of_result sum.case wp_raise by blast
next
  case (Inr x)
  assume "c = Inr () \<Longrightarrow> keeps I n"
  then show ?thesis unfolding keeps_wp Inr wp_seq wp_try wp_of_result sum.case by simp
qed

lemma authenticate_known: "service_identity creds h = Inr caller \<Longrightarrow> map_of (cs_secrets creds) caller \<noteq> None"
  by (auto simp: service_identity_def authenticate_def Let_def split: option.splits prod.splits if_splits)

lemma make_capability_fields:
  "make_capability i op sp ex c su = Inr cap \<Longrightarrow>
     cap = \<lparr>c_capability_id = i, c_operation = op, c_scope_prefix = sp, c_expires_at = ex, c_caller_service_id = c, c_single_use = su\<rparr>"
  by (auto simp: make_capability_def bind_result_def split: sum.splits)

lemma keeps_rate [keeps_intros]:
  "keeps (app_inv creds) (case e of CapabilityRateError n \<Rightarrow> count_issued op x | _ \<Rightarrow> ret ())"
  by (cases e) (simp_all add: keeps_intros)

lemma keeps_mint [keeps_intros]: "keeps (app_inv creds) (mint_capability h b)"
proof -
  have grant: "keeps (app_inv creds) (on_issue (issue now cap g))"
    if "service_identity creds h = Inr caller" "make_capability i (mq_operation b) (mq_scope_prefix b) ex caller su = Inr cap"
      "normalize_space (fst (py_partition slash (strip_char slash (mq_scope_prefix b)))) = Inr bucket"
      "assert_service_bucket_allowed caller bucket (mq_operation b) = Inr ()" "keeps reachable g"
    for caller i ex su cap bucket now g
    using that authenticate_known [OF that(1)]
    by (intro keeps_issue) (auto simp: entitled_def scope_bucket_def dest!: make_capability_fields)
  show ?thesis
    unfolding mint_capability_def
    by (rule keeps_identity, rule keeps_seq, rule keeps_basic, rule keeps_bind, rule keeps_sources, rule keeps_seq,
        intro keeps_intros, rule keeps_of_result, rule keeps_checked, intro keeps_bind keeps_seq keeps_of_result)
      (intro keeps_intros grant; assumption?)+
qed


lemma keeps_as_payload [keeps_intros]: "keeps I m \<Longrightarrow> keeps I (as_payload f m)"
  unfolding as_payload_def by (intro keeps_intros)

lemma keeps_route: "keeps (app_inv creds) (route B q)"
proof (cases q)
  case (Commit h i b)
  then show ?thesis unfolding Commit route.simps commit_def by (intro keeps_intros)
next
  case (WriteObject h al x)
  then show ?thesis unfolding WriteObject route.simps write_object_route_def by (intro keeps_intros)
next
  case (ReadObject h al md n)
  then show ?thesis unfolding ReadObject route.simps read_object_route_def by (intro keeps_intros)
next
  case (ListAudit h ac tg cl n)
  then show ?thesis unfolding ListAudit route.simps list_audit_def Let_def by (intro keeps_intros)
qed (simp_all only: route.simps reserve_def resolve_def update_annotations_route_def expire_route_def delete_route_def
    detach_alias_route_def detach_mutable_alias_route_def rebind_alias_route_def set_eviction_policy_route_def
    set_partition_quota_route_def get_partition_quota_route_def set_bucket_quota_route_def get_bucket_quota_route_def,
    (intro keeps_intros)+)

lemma keeps_on_app [keeps_intros]: "keeps I m \<Longrightarrow> keeps (\<lambda>c. I (cn_app c)) (on_app m)"
  unfolding on_app_def by (erule keeps_part) simp_all

lemma keeps_observe [keeps_intros]: "keeps (\<lambda>c. I (cn_app c)) m \<Longrightarrow> keeps (\<lambda>c. I (cn_app c)) (observe x m)"
proof -
  have "keeps (\<lambda>c. I (cn_app c)) (count_action x y)" for y by (simp add: keeps_def count_action_def modify_def)
  then show "keeps (\<lambda>c. I (cn_app c)) m \<Longrightarrow> keeps (\<lambda>c. I (cn_app c)) (observe x m)"
    unfolding observe_def by (intro keeps_intros)
qed

lemma keeps_apply_mutation [keeps_intros]: "keeps reachable (apply_mutation i b asset)"
  unfolding apply_mutation_def detach_from_def Let_def
  by (cases "mu_action b") (auto intro!: keeps_intros split: list.split)

lemma keeps_bulk_loop [keeps_intros]: "keeps reachable (bulk_loop q cs m n)"
proof (induction cs arbitrary: m n)
  case (Cons c cs)
  show ?case unfolding bulk_loop.simps by (intro keeps_intros Cons.IH)
qed (simp add: keeps_def ret_def)

lemma keeps_admin_route: "keeps (\<lambda>c. app_inv creds (cn_app c)) (admin_route q)"
  by (cases q) (auto simp: listing_def inspect_def audit_route_def mutate_def quota_route_def preview_def bulk_def cn_reg_def Let_def
      intro!: keeps_intros split: option.split)

inductive app_reachable :: "'s backend \<Rightarrow> 's app \<Rightarrow> bool" for B where
  start: "reachable (w_registry w) \<Longrightarrow>
     create_app w creds max_upload max_caps per_minute burst inflight monotonic hex_ids = Inr a \<Longrightarrow> app_reachable B a"
| request: "app_reachable B a \<Longrightarrow> app_reachable B (snd (serve B q a))"
| operator: "app_reachable B a \<Longrightarrow> app_reachable B (cn_app (snd (admin_route x \<lparr>cn_app = a, cn_actions_total = n\<rparr>)))"

lemma create_app_inv:
  "reachable (w_registry w) \<Longrightarrow>
   create_app w creds max_upload max_caps per_minute burst inflight monotonic hex_ids = Inr a \<Longrightarrow> app_inv creds a"
  by (auto simp: create_app_def bind_result_def guard_result_def make_capability_store_def make_work_gate_def
      app_inv_def world_ok_def store_ok_def split: option.splits sum.splits if_splits)

lemma snd_serve: "snd (serve B q a) = snd (route B q a)"
  by (simp add: serve_def split: prod.split sum.split)

lemma app_reachable_inv: "app_reachable B a \<Longrightarrow> app_inv (ap_credentials a) a"
proof (induction rule: app_reachable.induct)
  case (start w creds max_upload max_caps per_minute burst inflight monotonic hex_ids a)
  then show ?case using create_app_inv by (metis app_inv_def)
next
  case (request a q)
  then have "app_inv (ap_credentials a) (snd (serve B q a))"
    unfolding snd_serve by (intro keepsD [OF keeps_route])
  then show ?case by (simp add: app_inv_def)
next
  case (operator a x n)
  then have "app_inv (ap_credentials a) (cn_app (snd (admin_route x \<lparr>cn_app = a, cn_actions_total = n\<rparr>)))"
    using keepsD [OF keeps_admin_route, where s = "\<lparr>cn_app = a, cn_actions_total = n\<rparr>"] by simp
  then show ?case by (simp add: app_inv_def)
qed

text \<open>
  C32: Whatever requests arrive, operator actions included, the registry stays in a state that registry calls alone can reach
  (so everything proved of it holds of the server), the capability store stays within its bound,
  every capability in it was minted by a configured identity for a bucket which that identity may
  use with that operation, and no upload slot is lost.
\<close>

theorem server_invariant:
  assumes "app_reachable B a"
  shows "reachable (w_registry (ap_world a)) \<and> store_ok (ap_capabilities a) \<and>
     (\<forall>i cap. map_of (s_capabilities (ap_capabilities a)) i = Some cap \<longrightarrow> entitled (ap_credentials a) cap) \<and>
     g_active (ap_uploads a) = 0"
  using app_reachable_inv [OF assms] unfolding app_inv_def world_ok_def by blast

section \<open>Requests without credentials\<close>

text \<open>
  The application is the same but for readings of the clock, for ledger entries and capabilities that had
  expired when it was read, and for the statistics of the upload gate.
\<close>

definition idle :: "'s app \<Rightarrow> 's app \<Rightarrow> bool" where
  "idle a a' \<longleftrightarrow>
     (\<exists>w c u. a' = a\<lparr>ap_world := w, ap_capabilities := c, ap_uploads := u\<rparr> \<and> no_effect (ap_world a) w \<and>
        s_max_capabilities c = s_max_capabilities (ap_capabilities a) \<and>
        forgets_expired c_expires_at (read_until (w_registry (ap_world a)) (r_ticks (w_registry w)))
          (s_capabilities (ap_capabilities a)) (s_capabilities c) \<and>
        g_limit u = g_limit (ap_uploads a) \<and> g_active u = g_active (ap_uploads a))"

lemma no_effect_refl [simp]: "no_effect w w"
  unfolding no_effect_def by (intro exI [of _ "r_ticks (w_registry w)"] exI [of _ "w_ledger w"]) simp

lemma idleI:
  assumes "no_effect (ap_world a) w" and "s_max_capabilities c = s_max_capabilities (ap_capabilities a)"
    and "forgets_expired c_expires_at (read_until (w_registry (ap_world a)) (r_ticks (w_registry w)))
          (s_capabilities (ap_capabilities a)) (s_capabilities c)"
    and "g_limit u = g_limit (ap_uploads a)" and "g_active u = g_active (ap_uploads a)"
  shows "idle a (a\<lparr>ap_world := w, ap_capabilities := c, ap_uploads := u\<rparr>)"
  unfolding idle_def using assms by (intro exI [of _ w] exI [of _ c] exI [of _ u]) simp

lemma idle_refl [simp]: "idle a a"
  using idleI [of a "ap_world a" "ap_capabilities a" "ap_uploads a"] by simp

lemma read_until_mono: "r_ticks r \<le> m \<Longrightarrow> m \<le> n \<Longrightarrow> read_until r m \<subseteq> read_until r n \<and> read_until (r\<lparr>r_ticks := m\<rparr>) n \<subseteq> read_until r n"
  by (auto simp: read_until_def)

lemma idle_world:
  assumes "idle a b" and "no_effect (ap_world b) v"
  shows "idle a (b\<lparr>ap_world := v\<rparr>)"
proof -
  let ?r = "w_registry (ap_world a)" and ?l = "l_consumed (w_ledger (ap_world a))"
  obtain c u m k where b: "b = a\<lparr>ap_world := (ap_world a)\<lparr>w_registry := ?r\<lparr>r_ticks := m\<rparr>, w_ledger := k\<rparr>, ap_capabilities := c, ap_uploads := u\<rparr>"
    and m: "r_ticks ?r \<le> m" "forgets_expired (\<lambda>e. e) (read_until ?r m) ?l (l_consumed k)"
    and c: "s_max_capabilities c = s_max_capabilities (ap_capabilities a)"
      "forgets_expired c_expires_at (read_until ?r m) (s_capabilities (ap_capabilities a)) (s_capabilities c)"
    and u: "g_limit u = g_limit (ap_uploads a)" "g_active u = g_active (ap_uploads a)"
    using assms(1) unfolding idle_def no_effect_def by auto
  obtain n l where v: "v = (ap_world a)\<lparr>w_registry := ?r\<lparr>r_ticks := n\<rparr>, w_ledger := l\<rparr>" and n: "m \<le> n"
    "forgets_expired (\<lambda>e. e) (read_until (?r\<lparr>r_ticks := m\<rparr>) n) (l_consumed k) (l_consumed l)"
    using assms(2) unfolding no_effect_def b by auto
  note sub = read_until_mono [OF m(1) n(1), THEN conjunct1] read_until_mono [OF m(1) n(1), THEN conjunct2]
  have "no_effect (ap_world a) v"
    unfolding no_effect_def v using forgets_trans [OF m(2) n(2) sub] m(1) n(1) by (intro exI [of _ n] exI [of _ l]) simp
  then have "idle a (a\<lparr>ap_world := v, ap_capabilities := c, ap_uploads := u\<rparr>)"
    using forgets_trans [OF c(2) forgets_refl sub(1) subset_refl] c(1) u by (intro idleI) (simp_all add: v)
  moreover have "b\<lparr>ap_world := v\<rparr> = a\<lparr>ap_world := v, ap_capabilities := c, ap_uploads := u\<rparr>" by (simp add: b)
  ultimately show ?thesis by simp
qed

lemma idle_uploads:
  "idle a b \<Longrightarrow> g_limit g = g_limit (ap_uploads b) \<Longrightarrow> g_active g = g_active (ap_uploads b) \<Longrightarrow> idle a (b\<lparr>ap_uploads := g\<rparr>)"
  unfolding idle_def by (elim exE conjE, rule_tac x = w in exI, rule_tac x = c in exI, rule_tac x = g in exI) simp

lemma service_identity_error: "service_identity creds h = Inl e \<Longrightarrow> e = ServiceAuthError"
  by (auto simp: service_identity_def authenticate_def Let_def split: option.splits prod.splits if_splits)

lemma identity_refused:
  assumes "\<forall>s. service_identity (ap_credentials a) h \<noteq> Inr s"
  shows "bind_op (require_service_identity h) f a = (Inl ServiceAuthError, a)"
proof -
  obtain e where e: "service_identity (ap_credentials a) h = Inl e" using assms by (cases "service_identity (ap_credentials a) h") auto
  with service_identity_error [OF e] show ?thesis
    by (simp add: bind_op_def require_service_identity_def gets_def of_result_def raise_def)
qed

lemma admin_refused:
  assumes "\<forall>s. service_identity (ap_credentials a) h \<noteq> Inr s"
  shows "seq_op (require_legacy_admin h c) m a = (Inl ServiceAuthError, a)"
  unfolding require_legacy_admin_def require_admin_def seq_op_def
  by (subst bind_op_def) (simp add: bind_op_def [of "bind_op _ _"] identity_refused [OF assms])

lemma wp_capability_dep:
  assumes "store_ok (ap_capabilities a)"
  shows "wp (require_capability_dep h)
     (\<lambda>cap a'. idle a a' \<and> (\<exists>t. authorization_token ''capability'' h = Some t \<and> map_of (s_capabilities (ap_capabilities a)) t = Some cap) \<and>
        ap_uploads a' = ap_uploads a \<and> ap_world a' = tick (ap_world a))
     (\<lambda>e a'. idle a a' \<and> w_ledger (ap_world a') = w_ledger (ap_world a) \<and> e = CapabilityDeniedError \<and>
        (\<forall>t cap. authorization_token ''capability'' h = Some t \<and> map_of (s_capabilities (ap_capabilities a)) t = Some cap \<longrightarrow>
           c_expires_at cap \<le> now_in (ap_world a))) a"
proof -
  let ?now = "now_in (ap_world a)"
  let ?c = "(ap_capabilities a)\<lparr>s_capabilities := store_prune_locked ?now (s_capabilities (ap_capabilities a))\<rparr>"
  have "no_effect (ap_world a) (tick (ap_world a))"
    unfolding no_effect_def by (intro exI [of _ "Suc (r_ticks (w_registry (ap_world a)))"] exI [of _ "w_ledger (ap_world a)"]) (simp add: tick_def)
  then have i: "idle a (a\<lparr>ap_world := tick (ap_world a), ap_capabilities := ?c, ap_uploads := ap_uploads a\<rparr>)"
    using assms by (intro idleI) (auto intro!: issued.prune_forgets simp: store_ok_dict tick_def now_in_def read_until_def)
  show ?thesis
    using assms i
    by (auto simp: require_capability_dep_def now_op_def on_world_def on_capabilities_def wp_simps get_capability_def
        issued.prune_lookup store_ok_dict not_less split: option.splits if_splits) (simp_all add: tick_def)
qed

lemma capability_refused:
  assumes "store_ok (ap_capabilities a)"
    and "\<forall>t. authorization_token ''capability'' h = Some t \<longrightarrow> map_of (s_capabilities (ap_capabilities a)) t = None"
  shows "\<exists>a'. bind_op (require_capability_dep h) f a = (Inl CapabilityDeniedError, a') \<and> idle a a' \<and> w_ledger (ap_world a') = w_ledger (ap_world a)"
proof -
  have "wp (bind_op (require_capability_dep h) f) (\<lambda>_ _. False)
      (\<lambda>e a'. e = CapabilityDeniedError \<and> idle a a' \<and> w_ledger (ap_world a') = w_ledger (ap_world a)) a"
    unfolding wp_bind by (rule wp_mono [OF wp_capability_dep [OF assms(1)]]) (use assms(2) in auto)
  then show ?thesis by (auto simp: wp_def split: prod.splits sum.splits)
qed

lemma as_payload_error: "m a = (Inl e, a') \<Longrightarrow> as_payload f m a = (Inl e, a')"
  by (simp add: as_payload_def bind_op_def)

lemmas refused = as_payload_error [where m = "bind_op (require_service_identity h) f" for h f, OF identity_refused]
  as_payload_error [where m = "seq_op (require_legacy_admin h c) n" for h c n, OF admin_refused]

text \<open>
  C31: A request whose credential is neither a configured service identity with its secret nor a
  capability in the store is answered with 401 or 403, whatever route it names. Registry, object store, ledger
  and counters are not touched but for the clock, and the capability store loses at most what has expired.
\<close>

theorem no_credential_no_effect:
  assumes "app_reachable B a"
    and "\<forall>s. service_identity (ap_credentials a) (header_of q) \<noteq> Inr s"
    and "\<forall>t. authorization_token ''capability'' (header_of q) = Some t \<longrightarrow> map_of (s_capabilities (ap_capabilities a)) t = None"
  shows "\<exists>p a'. serve B q a = (Problem p, a') \<and> pb_status p \<in> {401, 403} \<and> idle a a' \<and> w_ledger (ap_world a') = w_ledger (ap_world a)"
proof -
  have ok: "store_ok (ap_capabilities a)" using app_reachable_inv [OF assms(1)] by (simp add: app_inv_def)
  have "\<exists>e a'. route B q a = (Inl e, a') \<and> e \<in> {ServiceAuthError, CapabilityDeniedError} \<and> idle a a' \<and> w_ledger (ap_world a') = w_ledger (ap_world a)"
  proof (cases q)
    case (WriteObject h al x)
    then show ?thesis using capability_refused [OF ok] assms(3) as_payload_error [where m = "write_object_route B h al x"]
      by (fastforce simp: write_object_route_def)
  next
    case (ReadObject h al md n)
    then show ?thesis using capability_refused [OF ok] assms(3) as_payload_error [where m = "read_object_route B h al md n"]
      by (fastforce simp: read_object_route_def)
  qed (use assms(2) in \<open>simp_all add: refused reserve_def commit_def resolve_def mint_capability_def list_audit_def
      update_annotations_route_def expire_route_def delete_route_def detach_alias_route_def detach_mutable_alias_route_def
      rebind_alias_route_def set_eviction_policy_route_def set_partition_quota_route_def get_partition_quota_route_def
      set_bucket_quota_route_def get_bucket_quota_route_def\<close>)
  then show ?thesis
    by (auto simp: serve_def problem_for_def handle_domain_def)
qed


section \<open>Minting\<close>

lemma wp_fails [simp]: "wp (seq_op m (raise e)) Q (\<lambda>_ _. True) s"
  by (simp add: wp_seq wp_raise_fun)

lemma wp_on_limiterI:
  "(\<And>x l. Q x (a\<lparr>ap_issuance_rate := l\<rparr>)) \<Longrightarrow> (\<And>e l. E e (a\<lparr>ap_issuance_rate := l\<rparr>)) \<Longrightarrow> wp (on_limiter m) Q E a"
  unfolding on_limiter_def wp_on_part by (rule wpI) simp_all

lemma wp_now_op [wp_simps]: "wp now_op Q E a = Q (now_in (ap_world a)) (a\<lparr>ap_world := tick (ap_world a)\<rparr>)"
  by (simp add: now_op_def on_world_def wp_simps)

lemma wp_monotonic [wp_simps]:
  "wp monotonic_op Q E a = Q (ap_monotonic a (ap_monotonic_reads a)) (a\<lparr>ap_monotonic_reads := Suc (ap_monotonic_reads a)\<rparr>)"
  by (simp add: wp_def monotonic_op_def)

lemma wp_hex [wp_simps]:
  "wp uuid4_hex Q E a = Q (ap_hex_ids a (ap_next_hex a)) (a\<lparr>ap_next_hex := Suc (ap_next_hex a)\<rparr>)"
  by (simp add: wp_def uuid4_hex_def)

lemma wp_count_issued [wp_simps]:
  "wp (count_issued op x) Q E a = Q () (a\<lparr>ap_issued_total := ap_issued_total a @ [(operation_value op, x)]\<rparr>)"
  by (simp add: wp_def count_issued_def modify_def)

definition granted :: "string \<Rightarrow> mint_request \<Rightarrow> 's app \<Rightarrow> capability_out \<Rightarrow> 's app \<Rightarrow> bool" where
  "granted h b a out a' \<longleftrightarrow> (\<exists>caller bucket cap now ev.
     service_identity (ap_credentials a) h = Inr caller \<and> scope_bucket (mq_scope_prefix b) = Inr bucket \<and>
     assert_service_bucket_allowed caller bucket (mq_operation b) = Inr () \<and>
     60 \<le> mq_ttl_seconds b \<and> mq_ttl_seconds b \<le> 86400 \<and>
     cap = \<lparr>c_capability_id = co_capability_id out, c_operation = mq_operation b, c_scope_prefix = mq_scope_prefix b,
            c_expires_at = now + seconds (mq_ttl_seconds b), c_caller_service_id = caller, c_single_use = mq_single_use b\<rparr> \<and>
     now \<in> range (r_clock (w_registry (ap_world a))) \<and>
     map_of (s_capabilities (ap_capabilities a')) (co_capability_id out) = Some cap \<and>
     r_audit_events (w_registry (ap_world a')) = r_audit_events (w_registry (ap_world a)) @ [ev] \<and>
     e_action ev = ''capability.issue'' \<and> e_outcome ev = ''granted'' \<and> e_caller_service_id ev = caller \<and>
     e_target ev = mq_scope_prefix b)"

lemma wp_mint_capability:
  assumes ok: "store_ok (ap_capabilities a)"
  shows "wp (mint_capability h b) (\<lambda>out a'. granted h b a out a') (\<lambda>_ _. True) a"
proof -
  let ?issue = "\<lambda>now cap caller. on_issue (issue now cap (record_capability_issue caller (operation_value (mq_operation b))
           (mq_scope_prefix b) (mq_ttl_seconds b) ''granted'' (Some (c_capability_id cap))))"
  have iss: "wp (?issue now' cap caller)
      (\<lambda>_ a2. granted h b a \<lparr>co_capability_id = c_capability_id cap, co_operation = operation_value (c_operation cap),
          co_scope_prefix = c_scope_prefix cap, co_caller_service_id = c_caller_service_id cap,
          co_expires_at = c_expires_at cap, co_single_use = c_single_use cap\<rparr> (a2\<lparr>ap_issued_total := f a2\<rparr>)) (\<lambda>_ _. True) a1"
    if c: "service_identity (ap_credentials a) h = Inr caller" "valid_mint b" "scope_bucket (mq_scope_prefix b) = Inr bucket"
      "assert_service_bucket_allowed caller bucket (mq_operation b) = Inr ()" "dt_add now (seconds (mq_ttl_seconds b)) = Inr ex"
      "make_capability i (mq_operation b) (mq_scope_prefix b) ex caller (mq_single_use b) = Inr cap"
      "now = r_clock (w_registry (ap_world a)) n" "ap_capabilities a1 = ap_capabilities a"
      "r_audit_events (w_registry (ap_world a1)) = r_audit_events (w_registry (ap_world a))"
    for now now' caller bucket ex i cap n a1 f
  proof -
    have cap: "cap = \<lparr>c_capability_id = i, c_operation = mq_operation b, c_scope_prefix = mq_scope_prefix b,
        c_expires_at = now + seconds (mq_ttl_seconds b), c_caller_service_id = caller, c_single_use = mq_single_use b\<rparr>"
      using make_capability_fields [OF c(6)] c(5) by (auto simp: dt_add_def split: if_splits)
    show ?thesis
      unfolding on_issue_def wp_on_part
      apply (rule wp_mono [OF wp_issue [of "ap_capabilities a1", where r = "w_registry (ap_world a1)"]])
      using ok c apply (simp_all add: valid_mint_def)
      apply (auto simp: granted_def cap record_capability_issue_def Let_def audit_def bind_op_def seq_op_def utcnow_def modify_def gets_def)
      done
  qed
  show ?thesis
    unfolding mint_capability_def require_service_identity_def wp_bind wp_seq wp_gets wp_of_result wp_check wp_try wp_monotonic
    apply (simp split: sum.split)
    apply (intro allI impI wp_on_limiterI)
     apply (simp_all add: wp_raise_fun)
    apply (intro allI impI)
    apply (simp only: wp_hex wp_now_op)
    apply (intro allI impI)
    apply (simp add: on_world_def prune_consumed_capabilities_def wp_on_part wp_bind wp_clock_now wp_on_ledger wp_prune_expired wp_now_op cong: wp_lazy)
    apply (rule wp_mono [OF iss])
    apply (simp_all add: scope_bucket_def wp_raise_fun wp_count_issued wp_ret now_in_def tick_def)
    done
qed


text \<open>
  C30: A capability is minted only for an authenticated service, under that service's own identity,
  for a bucket its allowlist covers and a lifetime of between a minute and a day; it is then in the
  store under the id of the response, and exactly one audit event, a granted issue by that
  service, was recorded.
\<close>

theorem mint_grants:
  assumes "app_reachable B a" and "mint_capability h b a = (Inr out, a')"
  shows "granted h b a out a'"
proof -
  have "store_ok (ap_capabilities a)" using app_reachable_inv [OF assms(1)] by (simp add: app_inv_def)
  from wp_result [OF wp_mint_capability [OF this] assms(2)] show ?thesis .
qed

section \<open>Responses\<close>

text \<open>
  Every error of the store is answered with a client or server error status of its own, only
  exceptions outside of its hierarchy with 500, and a response invites a retry (a Retry-After
  header) exactly when it is 429 or 503.
\<close>

theorem problem_statuses:
  "400 \<le> pb_status (problem_for e) \<and> pb_status (problem_for e) < 600 \<and>
   (pb_status (problem_for e) = 500 \<longleftrightarrow> e \<in> {OverflowError, ValueError, KeyError, RuntimeError, BackendError}) \<and>
   (pb_retry_after (problem_for e) \<noteq> None \<longleftrightarrow> pb_status (problem_for e) \<in> {429, 503})"
  by (cases e) (simp_all add: problem_for_def handle_domain_def handle_validation_def)

section \<open>Uploads\<close>

lemma read_body_Inr:
  "read_body limit chunks data = Inr d \<Longrightarrow> d = data @ concat chunks \<and> (chunks = [] \<or> int (length d) \<le> limit)"
proof (induction limit chunks data rule: read_body.induct)
  case (2 limit chunk chunks data)
  then show ?case by (cases chunks) (auto split: if_splits)
qed simp

text \<open>The request says, or turns out, to be longer than the limit.\<close>

definition oversized :: "int \<Rightarrow> upload_request \<Rightarrow> bool" where
  "oversized limit q \<longleftrightarrow> limit < int (length (concat (uq_chunks q))) \<or>
     (\<exists>text n. uq_content_length q = Some text \<and> py_int_parse text = Some n \<and> limit < n)"

text \<open>
  Nothing but its size speaks against the request: it is well-formed, and a live capability of the store that can
  be used more than once covers the alias.
\<close>

definition admitted :: "string \<Rightarrow> string \<Rightarrow> upload_request \<Rightarrow> 's app \<Rightarrow> bool" where
  "admitted h al q a \<longleftrightarrow>
     positive_opt (uq_ttl_seconds q) \<and> (\<forall>text. uq_content_length q = Some text \<longrightarrow> (\<exists>n. py_int_parse text = Some n \<and> 0 \<le> n)) \<and>
     (\<exists>t cap p. authorization_token ''capability'' h = Some t \<and> map_of (s_capabilities (ap_capabilities a)) t = Some cap \<and>
        now_in (ap_world a) < c_expires_at cap \<and> \<not> c_single_use cap \<and>
        parse_alias al = Inr p \<and> authorized cap WRITE p (now_in (tick (ap_world a))))"

lemma read_body_error: "read_body limit chunks data = Inl e \<Longrightarrow> e = UploadTooLargeError"
  by (induction limit chunks data rule: read_body.induct) (auto split: if_splits)

lemma oversized_refused:
  assumes "oversized limit q" and "0 < limit"
  shows "(\<exists>e. check_declared_size limit (uq_content_length q) = Inl e \<and>
        ((\<forall>text. uq_content_length q = Some text \<longrightarrow> (\<exists>n. py_int_parse text = Some n \<and> 0 \<le> n)) \<longrightarrow> e = UploadTooLargeError)) \<or>
     check_declared_size limit (uq_content_length q) = Inr () \<and> read_body limit (uq_chunks q) [] = Inl UploadTooLargeError"
proof (cases "check_declared_size limit (uq_content_length q)")
  case (Inl e)
  then show ?thesis by (auto simp: check_declared_size_def split: option.splits if_splits)
next
  case (Inr x)
  then have "limit < int (length (concat (uq_chunks q)))"
    using assms by (auto simp: oversized_def check_declared_size_def split: option.splits if_splits)
  then have "\<exists>e. read_body limit (uq_chunks q) [] = Inl e"
    using read_body_Inr [of limit "uq_chunks q" "[]"] assms(2)
    by (cases "read_body limit (uq_chunks q) []") force+
  then show ?thesis using read_body_error Inr by fastforce
qed

text \<open>
  C33: An upload that is longer than the configured limit, by the length it declares or by the bytes that
  arrive, however they are cut into chunks, is refused. If nothing else speaks against it, it is refused for its
  size. The refusal leaves registry, store, ledger, capabilities and upload slots as they were, but for the
  clock and for what has expired.
\<close>

theorem oversized_upload_refused:
  assumes "app_reachable B a" and "ledger_ok (w_ledger (ap_world a))" and "oversized (ap_max_upload_bytes a) q"
  shows "\<exists>e a'. write_object_route B h al q a = (Inl e, a') \<and> idle a a' \<and> (admitted h al q a \<longrightarrow> e = UploadTooLargeError)"
proof -
  let ?E = "\<lambda>e b. idle a b \<and> (admitted h al q a \<longrightarrow> e = UploadTooLargeError)"
  have ok: "store_ok (ap_capabilities a)" "0 < ap_max_upload_bytes a" "g_active (ap_uploads a) < g_limit (ap_uploads a)"
    using app_reachable_inv [OF assms(1)] by (simp_all add: app_inv_def)
  have auth: "wp (on_world (authorize_write cap al))
      (\<lambda>_ b. idle a b \<and> ap_uploads b = ap_uploads a \<and> ap_max_upload_bytes b = ap_max_upload_bytes a) ?E b"
    if b: "idle a b" "ap_uploads b = ap_uploads a" "ap_world b = tick (ap_world a)"
      and cap: "authorization_token ''capability'' h = Some t" "map_of (s_capabilities (ap_capabilities a)) t = Some cap" for cap b t
  proof -
    have l: "ledger_ok (w_ledger (ap_world b))" using assms(2) b(3) by (simp add: tick_def)
    have m: "ap_max_upload_bytes b = ap_max_upload_bytes a" using b(1) by (auto simp: idle_def)
    have i: "idle a (b\<lparr>ap_world := v\<rparr>)" if "only_clock (ap_world b) v" for v
      using idle_world [OF b(1) only_clock_no_effect [OF that l]] .
    show ?thesis
      unfolding on_world_def wp_on_part authorize_write_def wp_seq wp_ret
      by (rule wp_mono [OF wp_authorize]) (use i b cap m in \<open>auto simp: admitted_def\<close>)
  qed
  have "wp (write_object_route B h al q) (\<lambda>_ _. False) ?E a"
    unfolding write_object_route_def wp_bind wp_seq wp_check wp_gets wp_of_result wp_under_lease
  proof (rule wp_mono [OF wp_capability_dep [OF ok(1)]], goal_cases)
    case (1 cap a1)
    then obtain t where "authorization_token ''capability'' h = Some t" "map_of (s_capabilities (ap_capabilities a)) t = Some cap" by blast
    then have "wp (on_world (authorize_write cap al))
      (\<lambda>_ b. idle a b \<and> ap_uploads b = ap_uploads a \<and> ap_max_upload_bytes b = ap_max_upload_bytes a) ?E a1"
      using 1 by (intro auth) auto
    then show ?case
      using 1 oversized_refused [OF assms(3) ok(2)] ok(3)
      by (auto elim!: wp_mono simp: admitted_def idle_uploads)
  next
    case (2 e a1)
    then show ?case by (auto simp: admitted_def)
  qed
  then show ?thesis by (auto simp: wp_def split: prod.splits sum.splits)
qed

section \<open>The theorems on a concrete application\<close>

definition demo_credentials :: credential_store where
  "demo_credentials = \<lparr>cs_secrets = [(''admin'', ''s'')]\<rparr>"

definition demo_app :: "local_store app" where
  "demo_app = \<lparr>ap_world = demo_world, ap_credentials = demo_credentials,
     ap_capabilities = \<lparr>s_capabilities = [], s_max_capabilities = 5\<rparr>,
     ap_issuance_rate = \<lparr>rl_rate = 1, rl_burst = 2, rl_credit = [(''admin'', \<lparr>cr_tokens = PyFloat 2, cr_updated_at = 0\<rparr>)]\<rparr>,
     ap_uploads = \<lparr>g_limit = 1, g_active = 0, g_granted = 0, g_denied = 0\<rparr>, ap_max_upload_bytes = 2,
     ap_issued_total = [], ap_bucket_fill_ratio = Map.empty, ap_monotonic = (\<lambda>_. 0), ap_monotonic_reads = 1,
     ap_hex_ids = (\<lambda>_. ''f''), ap_next_hex = 0\<rparr>"

lemma demo_limiter_made:
  "make_rate_limiter [''admin''] 60 2 0 = Inr \<lparr>rl_rate = 1, rl_burst = 2, rl_credit = [(''admin'', \<lparr>cr_tokens = PyFloat 2, cr_updated_at = 0\<rparr>)]\<rparr>"
  by code_simp

lemma demo_app_reachable: "app_reachable local_backend demo_app"
proof (rule app_reachable.start)
  show "reachable (w_registry demo_world)" by (simp add: demo_reachable_new)
  show "create_app demo_world demo_credentials (Some 2) (Some 5) (Some 60) (Some 2) (Some 1) (\<lambda>_. 0) (\<lambda>_. ''f'') = Inr demo_app"
    by (simp add: create_app_def bind_result_def guard_result_def make_capability_store_def positive_limit_from_env_def
        make_work_gate_def demo_limiter_made demo_credentials_def demo_app_def)
qed

lemma demo_headers:
  "service_identity demo_credentials ''Service admin:s'' = Inr ''admin''"
  "service_identity demo_credentials ''Service admin:x'' = Inl ServiceAuthError"
  "authorization_token ''capability'' ''Service admin:x'' = None"
  by code_simp+

definition demo_mint :: mint_request where
  "demo_mint = \<lparr>mq_operation = WRITE, mq_scope_prefix = ''cache/p'', mq_ttl_seconds = 60, mq_single_use = False\<rparr>"

lemma demo_minted:
  "\<exists>out a'. mint_capability ''Service admin:s'' demo_mint demo_app = (Inr out, a') \<and>
     s_capabilities (ap_capabilities a') = [(''cap-f'', \<lparr>c_capability_id = ''cap-f'', c_operation = WRITE, c_scope_prefix = ''cache/p'',
       c_expires_at = 60000000, c_caller_service_id = ''admin'', c_single_use = False\<rparr>)] \<and>
     now_in (ap_world a') = 4 \<and> now_in (tick (ap_world a')) = 5 \<and> w_ledger (ap_world a') = new_ledger \<and> ap_max_upload_bytes a' = 2"
proof -
  have adm: "admit 0 ''admin'' \<lparr>rl_rate = 1, rl_burst = 2, rl_credit = [(''admin'', \<lparr>cr_tokens = PyFloat 2, cr_updated_at = 0\<rparr>)]\<rparr>
      = (Inr (), \<lparr>rl_rate = 1, rl_burst = 2, rl_credit = [(''admin'', \<lparr>cr_tokens = PyInt 1, cr_updated_at = 0\<rparr>)]\<rparr>)"
    by code_simp
  have sp: "normalize_space (fst (py_partition slash (strip_char slash ''cache/p''))) = Inr ''cache''"
    "valid_scope ''cache/p'' = Inr ()" by code_simp+
  have "wp (mint_capability ''Service admin:s'' demo_mint) (\<lambda>_ a'.
     s_capabilities (ap_capabilities a') = [(''cap-f'', \<lparr>c_capability_id = ''cap-f'', c_operation = WRITE, c_scope_prefix = ''cache/p'',
       c_expires_at = 60000000, c_caller_service_id = ''admin'', c_single_use = False\<rparr>)] \<and>
     now_in (ap_world a') = 4 \<and> now_in (tick (ap_world a')) = 5 \<and> w_ledger (ap_world a') = new_ledger \<and> ap_max_upload_bytes a' = 2)
     (\<lambda>_ _. False) demo_app"
    by (simp add: new_ledger_def mint_capability_def demo_mint_def require_service_identity_def wp_simps demo_app_def demo_headers valid_mint_def
        on_limiter_def wp_of_eq [where m = "admit 0 ''admin''", OF adm] sp demo_covered dt_add_def seconds_def datetime_max_def datetime_min_def
        make_capability_def bind_result_def on_world_def prune_consumed_capabilities_def on_issue_def issue_def record_capability_issue_def
        Let_def now_in_def tick_def demo_world_def demo_new_def store_prune_locked_def cong: wp_lazy)
  from wp_returns [OF this] show ?thesis by blast
qed

theorem mint_grants_witness: "\<exists>out a'. granted ''Service admin:s'' demo_mint demo_app out a'"
proof -
  obtain out a' where "mint_capability ''Service admin:s'' demo_mint demo_app = (Inr out, a')" using demo_minted by blast
  from mint_grants [OF demo_app_reachable this] show ?thesis by blast
qed

theorem no_credential_no_effect_witness:
  "\<exists>p a'. serve local_backend (Resolve ''Service admin:x'' ''cache'' ''p/x'') demo_app = (Problem p, a') \<and>
     pb_status p \<in> {401, 403} \<and> idle demo_app a' \<and> w_ledger (ap_world a') = w_ledger (ap_world demo_app)"
  by (rule no_credential_no_effect [OF demo_app_reachable]) (simp_all add: demo_app_def demo_headers)

definition demo_served :: "local_store app" where
  "demo_served = snd (serve local_backend (MintCapability ''Service admin:s'' demo_mint) demo_app)"

lemma demo_served_capability: "\<exists>i cap. map_of (s_capabilities (ap_capabilities demo_served)) i = Some cap"
proof -
  obtain out a' where m: "mint_capability ''Service admin:s'' demo_mint demo_app = (Inr out, a')" using demo_minted by blast
  then have "demo_served = a'"
    by (simp add: demo_served_def snd_serve as_payload_def bind_op_def ret_def)
  moreover have "granted ''Service admin:s'' demo_mint demo_app out a'"
    by (rule wp_result [OF wp_mint_capability m]) (simp add: demo_app_def store_ok_def dict_ok_def)
  ultimately show ?thesis by (auto simp: granted_def)
qed

theorem server_invariant_witness:
  "\<exists>i cap. map_of (s_capabilities (ap_capabilities demo_served)) i = Some cap \<and> entitled (ap_credentials demo_served) cap \<and>
     reachable (w_registry (ap_world demo_served)) \<and> g_active (ap_uploads demo_served) = 0"
proof -
  have "app_reachable local_backend demo_served"
    unfolding demo_served_def by (rule app_reachable.request [OF demo_app_reachable])
  from server_invariant [OF this] demo_served_capability show ?thesis by blast
qed

text \<open>A holder of the capability that was minted declares one byte and sends three, or declares three.\<close>

definition demo_oversized :: "string \<Rightarrow> upload_request" where
  "demo_oversized n = \<lparr>uq_mutable = False, uq_expected_checksum = None, uq_ttl_seconds = None, uq_content_length = Some n,
     uq_content_type = None, uq_chunks = [[1], [2, 3]]\<rparr>"

theorem oversized_upload_refused_witness:
  "\<exists>a' b'. write_object_route local_backend ''Capability cap-f'' ''cache/p/x'' (demo_oversized ''1'') demo_served = (Inl UploadTooLargeError, a') \<and>
     write_object_route local_backend ''Capability cap-f'' ''cache/p/x'' (demo_oversized ''3'') demo_served = (Inl UploadTooLargeError, b') \<and>
     idle demo_served a' \<and> idle demo_served b'"
proof -
  obtain out where m: "mint_capability ''Service admin:s'' demo_mint demo_app = (Inr out, demo_served)"
    and caps: "s_capabilities (ap_capabilities demo_served) = [(''cap-f'', \<lparr>c_capability_id = ''cap-f'', c_operation = WRITE, c_scope_prefix = ''cache/p'',
       c_expires_at = 60000000, c_caller_service_id = ''admin'', c_single_use = False\<rparr>)]"
    and now: "now_in (ap_world demo_served) = 4" "now_in (tick (ap_world demo_served)) = 5"
    and rest: "w_ledger (ap_world demo_served) = new_ledger" "ap_max_upload_bytes demo_served = 2"
    using demo_minted by (auto simp: demo_served_def snd_serve as_payload_def bind_op_def ret_def)
  have r: "app_reachable local_backend demo_served"
    unfolding demo_served_def by (rule app_reachable.request [OF demo_app_reachable])
  have l: "ledger_ok (w_ledger (ap_world demo_served))" by (simp add: rest ledger_ok_def new_ledger_def)
  have texts: "authorization_token ''capability'' ''Capability cap-f'' = Some ''cap-f''" "py_int_parse ''1'' = Some 1" "py_int_parse ''3'' = Some 3"
    by code_simp+
  have ok: "oversized (ap_max_upload_bytes demo_served) (demo_oversized n) \<and> admitted ''Capability cap-f'' ''cache/p/x'' (demo_oversized n) demo_served"
    if "n = ''1'' \<or> n = ''3''" for n
    using that
    by (auto simp: oversized_def admitted_def demo_oversized_def rest caps now positive_opt_def texts demo_parse(1) authorized_def allows_def demo_covered)
  show ?thesis
    using oversized_upload_refused [OF r l, of "demo_oversized ''1''" "''Capability cap-f''" "''cache/p/x''"]
      oversized_upload_refused [OF r l, of "demo_oversized ''3''" "''Capability cap-f''" "''cache/p/x''"] ok by blast
qed

end
