(* ===== verification/Admin_Props.thy ===== *)
theory Admin_Props
  imports Api_Props
begin

text \<open>
  What the operator's interface promises: following the cursors of the listing shows every matching
  asset once, and an action on a version of an asset that is no longer current has no effect.
\<close>

section \<open>Pages\<close>

text \<open>A client that follows the cursors: the pages it sees, with a bound on their number.\<close>

fun walk :: "nat \<Rightarrow> asset_query \<Rightarrow> registry \<Rightarrow> asset list list option" where
  "walk 0 q r = None"
| "walk (Suc n) q r =
     (case query_assets q r of
        (Inl e, _) \<Rightarrow> None
      | (Inr rows, r') \<Rightarrow>
          (let page = take (nat (q_limit q)) rows in
           if q_limit q < int (length rows)
           then map_option (Cons page) (walk n (q\<lparr>q_cursor := cursor_for q (last page)\<rparr>) r')
           else Some [page]))"

definition listed :: "asset_query \<Rightarrow> registry \<Rightarrow> asset list" where
  "listed q r = filter (matches q) (sort_key asset_key (dict_values (r_assets r)))"

lemma matches_cursor [simp]: "matches (q\<lparr>q_cursor := c\<rparr>) = matches q"
  by (simp add: matches_def fun_eq_iff)

lemma fingerprint_cursor [simp]: "fingerprint (q\<lparr>q_cursor := c\<rparr>) = fingerprint q"
  by (simp add: fingerprint_def)

lemma cursor_for_cursor [simp]: "cursor_for (q\<lparr>q_cursor := c\<rparr>) = cursor_for q"
  by (simp add: cursor_for_def fun_eq_iff)

lemma asset_key_distinct:
  assumes "reg_inv r"
  shows "distinct (map asset_key (dict_values (r_assets r)))"
proof -
  have d: "dict_ok (r_assets r)" and k: "\<And>i a. map_of (r_assets r) i = Some a \<Longrightarrow> a_asset_id a = i"
    using assms by (auto simp: reg_inv_def assets_ok_def)
  have "map a_asset_id (dict_values (r_assets r)) = map fst (r_assets r)"
    using d k unfolding dict_values_def dict_ok_def by (auto intro!: map_cong simp: map_of_is_SomeI)
  then have "distinct (map snd (map asset_key (dict_values (r_assets r))))"
    using d by (simp add: dict_ok_def asset_key_def comp_def)
  then show ?thesis by (metis distinct_map)
qed

lemma listed_sorted:
  assumes "reg_inv r"
  shows "sorted_wrt (\<lambda>a b. asset_key a < asset_key b) (listed q r)"
proof -
  let ?xs = "sort_key asset_key (dict_values (r_assets r))"
  have "sorted (map asset_key ?xs)" by simp
  moreover have "distinct (map asset_key ?xs)"
    using asset_key_distinct [OF assms] by (simp add: distinct_map)
  ultimately have "sorted_wrt (<) (map asset_key ?xs)" by (simp add: strict_sorted_iff)
  then show ?thesis unfolding listed_def sorted_wrt_map by (rule sorted_wrt_filter)
qed

lemma filter_after:
  assumes "sorted_wrt (\<lambda>a b. f a < (f b :: 'k :: linorder)) (xs @ ys)" and "xs \<noteq> []"
  shows "filter (\<lambda>a. f (last xs) < f a) (xs @ ys) = ys"
proof -
  have "f a \<le> f (last xs)" if "a \<in> set xs" for a
    using assms that by (induction xs rule: rev_induct) (auto simp: sorted_wrt_append less_imp_le)
  moreover have "f (last xs) < f a" if "a \<in> set ys" for a
    using assms that by (auto simp: sorted_wrt_append)
  ultimately show ?thesis by (simp add: filter_empty_conv filter_id_conv leD)
qed

lemma query_rest:
  assumes inv: "reg_inv r" and split: "listed q r = seen @ rest"
    and c: "seen = [] \<and> c = NoCursor \<or> seen \<noteq> [] \<and> c = cursor_for q (last seen)"
  shows "query_assets (q\<lparr>q_cursor := c\<rparr>) r = (Inr (take (nat (q_limit q + 1)) rest), r)"
proof -
  have rest: "filter (\<lambda>a. asset_key (last seen) < asset_key a) (listed q r) = rest" if "seen \<noteq> []"
    using listed_sorted [OF inv, of q] that unfolding split by (rule filter_after)
  have flt: "filter (\<lambda>a. matches q a \<and> P a) (sort_key asset_key (dict_values (r_assets r))) = filter P (listed q r)" for P
    unfolding listed_def filter_filter by (simp only: conj_commute)
  have start: "s = (if seen = [] then None else Some (asset_key (last seen)))" if "after (q\<lparr>q_cursor := c\<rparr>) = Inr s" for s
    using c that by (auto simp: after_def cursor_for_def asset_key_def)
  have "filter (\<lambda>a. matches q a \<and> (case s of None \<Rightarrow> True | Some k \<Rightarrow> k < asset_key a))
      (sort_key asset_key (dict_values (r_assets r))) = rest" if "after (q\<lparr>q_cursor := c\<rparr>) = Inr s" for s
    unfolding flt start [OF that] using split rest by simp
  moreover have "\<exists>s. after (q\<lparr>q_cursor := c\<rparr>) = Inr s" using c by (auto simp: after_def cursor_for_def)
  ultimately show ?thesis
    by (auto simp: query_assets_def bind_op_def of_result_def gets_def ret_def)
qed

lemma walk_rest:
  assumes "reg_inv r" and "1 \<le> q_limit q" and "listed q r = seen @ rest"
    and "seen = [] \<and> c = NoCursor \<or> seen \<noteq> [] \<and> c = cursor_for q (last seen)" and "length rest \<le> n"
  shows "\<exists>ps. walk (Suc n) (q\<lparr>q_cursor := c\<rparr>) r = Some ps \<and> concat ps = rest \<and> (\<forall>p \<in> set ps. int (length p) \<le> q_limit q)"
  using assms(3-5)
proof (induction n arbitrary: seen rest c)
  case 0
  then show ?case using query_rest [OF assms(1) 0(1,2)] assms(2) by simp
next
  case (Suc n)
  note step = query_rest [OF assms(1) Suc.prems(1,2)]
  let ?page = "take (nat (q_limit q)) rest"
  have page: "take (nat (q_limit q)) (take (nat (q_limit q + 1)) rest) = ?page" by (simp add: min_def)
  show ?case
  proof (cases "q_limit q < int (length rest)")
    case False
    then show ?thesis using step assms(2) by (simp add: Let_def min_def)
  next
    case True
    then have ne: "?page \<noteq> []" using assms(2) by auto
    have short: "length (drop (nat (q_limit q)) rest) \<le> n" using Suc.prems(3) assms(2) by simp
    have split: "listed q r = (seen @ ?page) @ drop (nat (q_limit q)) rest" using Suc.prems(1) by simp
    have "seen @ ?page = [] \<and> cursor_for q (last ?page) = NoCursor \<or>
        seen @ ?page \<noteq> [] \<and> cursor_for q (last ?page) = cursor_for q (last (seen @ ?page))"
      using ne by simp
    from Suc.IH [OF split this short]
    obtain ps where ps: "walk (Suc n) (q\<lparr>q_cursor := cursor_for q (last ?page)\<rparr>) r = Some ps"
      "concat ps = drop (nat (q_limit q)) rest" "\<forall>p \<in> set ps. int (length p) \<le> q_limit q" by blast
    have len: "int (length ?page) \<le> q_limit q" using assms(2) by simp
    have more: "q_limit q < int (length (take (nat (q_limit q + 1)) rest))" using True assms(2) by simp
    show ?thesis
      using ps assms(2) True len by (subst walk.simps) (simp add: step more page Let_def del: walk.simps length_take)
  qed
qed

text \<open>
  C34: Following the cursors of the listing shows every asset that matches the filters exactly
  once, in the order of creation, on pages of at most the limit, and ends after at most one page per
  asset plus one.
\<close>

theorem pages_complete:
  assumes "reachable r" and "1 \<le> q_limit q" and "q_cursor q = NoCursor"
  shows "\<exists>ps. walk (Suc (length (listed q r))) q r = Some ps \<and> concat ps = listed q r \<and>
     (\<forall>p \<in> set ps. int (length p) \<le> q_limit q) \<and>
     distinct (listed q r) \<and> sorted (map asset_key (listed q r)) \<and>
     set (listed q r) = {a. (\<exists>i. map_of (r_assets r) i = Some a) \<and> matches q a}"
proof -
  have inv: "reg_inv r" using assms(1) by (rule reachable_inv)
  have q: "q = q\<lparr>q_cursor := NoCursor\<rparr>" using assms(3) by simp
  have "distinct (listed q r)" "sorted (map asset_key (listed q r))"
    using asset_key_distinct [OF inv] by (auto simp: listed_def distinct_map intro!: sorted_filter)
  moreover have "set (listed q r) = {a. (\<exists>i. map_of (r_assets r) i = Some a) \<and> matches q a}"
    using inv by (auto simp: listed_def reg_inv_def assets_ok_def dict_values_iff)
  ultimately show ?thesis using walk_rest [OF inv assms(2), of "[]" "listed q r" NoCursor "length (listed q r)"] q by auto
qed

definition demo_query :: asset_query where
  "demo_query = \<lparr>q_space = Some ''cache'', q_partition_id = Some ''p'', q_state = Some AVAILABLE, q_created_from = None,
     q_created_to = None, q_prefix = None, q_limit = 1, q_cursor = NoCursor\<rparr>"

theorem pages_complete_witness:
  "(\<exists>ps. walk 2 demo_query demo_committed = Some ps \<and> concat ps = [demo_available]) \<and>
   listed demo_query demo_committed = [demo_available]"
proof -
  have l: "listed demo_query demo_committed = [demo_available]"
    by (simp add: listed_def demo_query_def demo_defs matches_def dict_values_def)
  have lim: "1 \<le> q_limit demo_query" and c: "q_cursor demo_query = NoCursor" by (simp_all add: demo_query_def)
  show ?thesis
    using pages_complete [OF demo_reachable lim c] l by (auto simp: numeral_2_eq_2 simp del: walk.simps)
qed

section \<open>Operator actions\<close>

lemma wp_on_app [wp_simps]:
  "wp (on_app m) Q E c = wp m (\<lambda>x a. Q x (c\<lparr>cn_app := a\<rparr>)) (\<lambda>e a. E e (c\<lparr>cn_app := a\<rparr>)) (cn_app c)"
  by (simp add: on_app_def wp_on_part)

lemma wp_count_action [wp_simps]:
  "wp (count_action x y) Q E c = Q () (c\<lparr>cn_actions_total := cn_actions_total c @ [(x, y)]\<rparr>)"
  by (simp add: wp_def count_action_def modify_def)

text \<open>
  C35: An operator action is refused, and changes no asset, unless it comes with the administrator's
  credential and names the version of the asset that the registry holds: an action prepared from a
  page that has gone stale has no effect.
\<close>

theorem stale_action_refused:
  assumes "service_identity (ap_credentials (cn_app c)) h \<noteq> Inr ''admin'' \<or>
     map_option a_updated_at (map_of (r_assets (w_registry (ap_world (cn_app c)))) i) \<noteq> Some (mu_expected_updated_at b)"
  shows "\<exists>e c'. mutate h i b c = (Inl e, c') \<and> cn_app c' = cn_app c"
proof -
  have "wp (mutate h i b) (\<lambda>_ _. False) (\<lambda>_ c'. cn_app c' = cn_app c) c"
    using assms
    by (auto simp: mutate_def require_admin_def require_service_identity_def observe_def cn_reg_def on_reg_def on_world_def
        on_registry_def asset_lock_def wp_simps split: sum.split option.split)
  then show ?thesis by (auto simp: wp_def split: prod.splits sum.splits)
qed

definition demo_console :: "local_store console" where
  "demo_console = \<lparr>cn_app = demo_app\<lparr>ap_world := demo_world\<lparr>w_registry := demo_committed\<rparr>\<rparr>, cn_actions_total = []\<rparr>"

definition demo_stale :: mutation where
  "demo_stale = \<lparr>mu_expected_updated_at = a_updated_at demo_available + 1, mu_action = Delete, mu_ttl_seconds = None, mu_alias = None,
     mu_mutable = False, mu_annotations = None, mu_eviction_policy = None\<rparr>"

theorem stale_action_refused_witness:
  "\<exists>e c'. mutate ''Service admin:s'' ''u'' demo_stale demo_console = (Inl e, c') \<and> cn_app c' = cn_app demo_console"
  by (rule stale_action_refused) (simp add: demo_console_def demo_stale_def demo_committed_def)

end
