(* ===== verification/S3_Store.thy ===== *)
theory S3_Store
  imports Object_Store
begin

text \<open>
  The S3 adapter, \<^verbatim>\<open>asset_store_core/s3_object_store.py\<close>. The boto3 client is a record of calls over
  a service state of any type; what S3 documents of them is the locale \<open>s3_service\<close>, and every
  service that meets it makes the adapter meet the object-store contract.
\<close>

section \<open>The client\<close>

text \<open>
  A call fails with botocore's \<open>ClientError\<close>, of which the adapter reads the error code and the HTTP
  status (empty and 0 when the response lacks them), or with any other exception.
\<close>

datatype s3_failure = ClientError string int | OtherFailure

type_synonym metadata = "(string, string) dict"
type_synonym ('c, 'a) s3_call = "'c \<Rightarrow> (s3_failure + 'a) \<times> 'c"

record 'c s3_client =
  c_put_object :: "string \<Rightarrow> string \<Rightarrow> bytes \<Rightarrow> metadata \<Rightarrow> ('c, unit) s3_call"
  c_create_multipart_upload :: "string \<Rightarrow> string \<Rightarrow> metadata \<Rightarrow> ('c, string) s3_call"
  c_upload_part :: "string \<Rightarrow> string \<Rightarrow> string \<Rightarrow> nat \<Rightarrow> bytes \<Rightarrow> ('c, string) s3_call"
  c_complete_multipart_upload :: "string \<Rightarrow> string \<Rightarrow> string \<Rightarrow> (string \<times> nat) list \<Rightarrow> ('c, unit) s3_call"
  c_abort_multipart_upload :: "string \<Rightarrow> string \<Rightarrow> string \<Rightarrow> ('c, unit) s3_call"
  c_get_object :: "string \<Rightarrow> string \<Rightarrow> ('c, bytes) s3_call"
  c_head_object :: "string \<Rightarrow> string \<Rightarrow> ('c, int \<times> metadata) s3_call"
  c_delete_object :: "string \<Rightarrow> string \<Rightarrow> ('c, unit) s3_call"
  c_generate_presigned_url :: "string \<Rightarrow> string \<Rightarrow> int \<Rightarrow> ('c, string) s3_call"

definition of_client :: "(s3_failure \<Rightarrow> error) \<Rightarrow> ('c, 'a) s3_call \<Rightarrow> ('c, 'a) op" where
  "of_client f m c = (case m c of (Inl e, c') \<Rightarrow> (Inl (f e), c') | (Inr x, c') \<Rightarrow> (Inr x, c'))"

abbreviation backend_call :: "('c, 'a) s3_call \<Rightarrow> ('c, 'a) op" where
  "backend_call \<equiv> of_client (\<lambda>_. BackendError)"

section \<open>The adapter\<close>

fun is_not_found :: "s3_failure \<Rightarrow> bool" where
  "is_not_found (ClientError code status) \<longleftrightarrow> code \<in> {''NoSuchKey'', ''NoSuchBucket'', ''404''} \<or> status = 404"
| "is_not_found OtherFailure \<longleftrightarrow> False"

record s3_config =
  s3_multipart_threshold :: int
  s3_part_size :: int

definition s3_defaults :: s3_config where
  "s3_defaults = \<lparr>s3_multipart_threshold = 8 * 1024 * 1024, s3_part_size = 8 * 1024 * 1024\<rparr>"

definition CHECKSUM_META_KEY :: string where
  "CHECKSUM_META_KEY = ''checksum''"

text \<open>The slices \<open>payload[start:start + n]\<close> for \<open>start\<close> in \<open>range(0, len(payload), n)\<close> with a positive \<open>n\<close>.\<close>

function part_chunks :: "nat \<Rightarrow> bytes \<Rightarrow> bytes list" where
  "part_chunks n payload =
     (if n = 0 \<or> payload = [] then [] else take n payload # part_chunks n (drop n payload))"
  by pat_completeness auto
termination by (relation "measure (\<lambda>(n, payload). length payload)") auto

declare part_chunks.simps [simp del]

fun upload_parts ::
  "'c s3_client \<Rightarrow> object_store_location \<Rightarrow> string \<Rightarrow> nat \<Rightarrow> bytes list \<Rightarrow> (string \<times> nat) list \<Rightarrow>
   ('c, (string \<times> nat) list) op" where
  "upload_parts C location upload_id part_number [] parts = ret parts"
| "upload_parts C location upload_id part_number (chunk # chunks) parts =
     bind_op (backend_call (c_upload_part C (loc_bucket location) (loc_key location) upload_id part_number chunk)) (\<lambda>etag.
     upload_parts C location upload_id (Suc part_number) chunks (parts @ [(etag, part_number)]))"

definition s3_put_multipart ::
  "'c s3_client \<Rightarrow> s3_config \<Rightarrow> object_store_location \<Rightarrow> bytes \<Rightarrow> metadata \<Rightarrow> ('c, unit) op" where
  "s3_put_multipart C cfg location payload meta =
     bind_op (backend_call (c_create_multipart_upload C (loc_bucket location) (loc_key location) meta)) (\<lambda>upload_id.
     try_op
       (seq_op (check (s3_part_size cfg \<noteq> 0) ValueError) (
        bind_op (upload_parts C location upload_id 1 (part_chunks (nat (s3_part_size cfg)) payload) []) (\<lambda>parts.
        backend_call (c_complete_multipart_upload C (loc_bucket location) (loc_key location) upload_id parts))))
       (\<lambda>e. seq_op (backend_call (c_abort_multipart_upload C (loc_bucket location) (loc_key location) upload_id)) (raise e)))"

definition s3_put_object ::
  "'c s3_client \<Rightarrow> s3_config \<Rightarrow> object_store_location \<Rightarrow> bytes \<Rightarrow> ('c, stored_object_stat) op" where
  "s3_put_object C cfg location payload =
     (let checksum = compute_checksum payload; meta = [(CHECKSUM_META_KEY, checksum)] in
      seq_op
        (if s3_multipart_threshold cfg \<le> int (length payload) then s3_put_multipart C cfg location payload meta
         else backend_call (c_put_object C (loc_bucket location) (loc_key location) payload meta))
        (ret \<lparr>st_size_bytes = int (length payload), st_checksum = checksum, st_checksum_algo = CHECKSUM_ALGO\<rparr>))"

definition s3_get_object :: "'c s3_client \<Rightarrow> object_store_location \<Rightarrow> ('c, bytes) op" where
  "s3_get_object C location =
     of_client (\<lambda>e. if is_not_found e then ObjectNotFoundError else BackendError)
       (c_get_object C (loc_bucket location) (loc_key location))"

definition s3_stat_object :: "'c s3_client \<Rightarrow> object_store_location \<Rightarrow> ('c, stored_object_stat option) op" where
  "s3_stat_object C location c =
     (case c_head_object C (loc_bucket location) (loc_key location) c of
        (Inl e, c') \<Rightarrow> (if is_not_found e then Inr None else Inl BackendError, c')
      | (Inr (nbytes, meta), c') \<Rightarrow>
          bind_op
            (case map_of meta CHECKSUM_META_KEY of
               Some checksum \<Rightarrow> ret checksum
             | None \<Rightarrow> bind_op (s3_get_object C location) (\<lambda>data. ret (compute_checksum data)))
            (\<lambda>checksum. ret (Some \<lparr>st_size_bytes = nbytes, st_checksum = checksum, st_checksum_algo = CHECKSUM_ALGO\<rparr>)) c')"

definition s3_delete_object :: "'c s3_client \<Rightarrow> object_store_location \<Rightarrow> ('c, unit) op" where
  "s3_delete_object C location = backend_call (c_delete_object C (loc_bucket location) (loc_key location))"

definition s3_presign_get_url :: "'c s3_client \<Rightarrow> object_store_location \<Rightarrow> int \<Rightarrow> ('c, string) op" where
  "s3_presign_get_url C location expires_in =
     backend_call (c_generate_presigned_url C (loc_bucket location) (loc_key location) expires_in)"

definition s3_backend :: "'c s3_client \<Rightarrow> s3_config \<Rightarrow> 'c backend" where
  "s3_backend C cfg = \<lparr>bk_put_object = s3_put_object C cfg, bk_get_object = s3_get_object C,
     bk_stat_object = s3_stat_object C, bk_delete_object = s3_delete_object C,
     bk_presign_get_url = s3_presign_get_url C\<rparr>"

section \<open>What S3 documents\<close>

record s3_upload =
  up_key :: "string \<times> string"
  up_metadata :: metadata
  up_parts :: "nat \<rightharpoonup> string \<times> bytes"

definition assembled :: "(nat \<rightharpoonup> string \<times> bytes) \<Rightarrow> (string \<times> nat) list \<Rightarrow> bytes list \<Rightarrow> bool" where
  "assembled parts listed ds \<longleftrightarrow> list_all2 (\<lambda>(e, n) d. parts n = Some (e, d)) listed ds"

text \<open>
  An object is written as a whole or not at all, even by a call whose response is lost; a multipart
  upload collects parts under a fresh id and becomes an object, the listed parts in the listed
  order, when it is completed; an upload that is not completed is no object. An aborted upload is gone, and
  calls for one upload, failed ones too, do not touch the others. A key reported missing is
  missing; reading, listing and signing change nothing.
\<close>

locale s3_service =
  fixes C :: "'c s3_client"
    and objects :: "'c \<Rightarrow> string \<times> string \<Rightarrow> (bytes \<times> metadata) option"
    and uploads :: "'c \<Rightarrow> string \<Rightarrow> s3_upload option"
  assumes put_whole: "c_put_object C b k d m c = (r, c') \<Longrightarrow>
      uploads c' = uploads c \<and>
      (case r of Inr _ \<Rightarrow> objects c' = (objects c)((b, k) \<mapsto> (d, m))
       | Inl _ \<Rightarrow> objects c' = objects c \<or> objects c' = (objects c)((b, k) \<mapsto> (d, m)))"
    and create_upload: "c_create_multipart_upload C b k m c = (rs, c') \<Longrightarrow> objects c' = objects c \<and>
      (case rs of Inr u \<Rightarrow> uploads c u = None \<and>
         uploads c' = (uploads c)(u \<mapsto> \<lparr>up_key = (b, k), up_metadata = m, up_parts = Map.empty\<rparr>) | Inl _ \<Rightarrow> True)"
    and upload_part: "uploads c u = Some up \<Longrightarrow> up_key up = (b, k) \<Longrightarrow> c_upload_part C b k u n d c = (rs, c') \<Longrightarrow>
      objects c' = objects c \<and>
      (case rs of Inr e \<Rightarrow> uploads c' = (uploads c)(u \<mapsto> up\<lparr>up_parts := (up_parts up)(n \<mapsto> (e, d))\<rparr>)
       | Inl _ \<Rightarrow> \<forall>v. v \<noteq> u \<longrightarrow> uploads c' v = uploads c v)"
    and complete_upload: "uploads c u = Some up \<Longrightarrow> up_key up = (b, k) \<Longrightarrow>
      c_complete_multipart_upload C b k u ps c = (r, c') \<Longrightarrow>
      (case r of Inr _ \<Rightarrow> (\<exists>ds. assembled (up_parts up) ps ds \<and> objects c' = (objects c)((b, k) \<mapsto> (concat ds, up_metadata up))) \<and>
           uploads c' = (uploads c)(u := None)
       | Inl _ \<Rightarrow> (objects c' = objects c \<or>
           (\<exists>ds. assembled (up_parts up) ps ds \<and> objects c' = (objects c)((b, k) \<mapsto> (concat ds, up_metadata up)))) \<and>
           (\<forall>v. v \<noteq> u \<longrightarrow> uploads c' v = uploads c v))"
    and abort_upload: "c_abort_multipart_upload C b k u c = (r, c') \<Longrightarrow> objects c' = objects c \<and>
      (case r of Inr _ \<Rightarrow> uploads c' = (uploads c)(u := None) | Inl _ \<Rightarrow> True)"
    and get_whole: "c_get_object C b k c = (rb, c') \<Longrightarrow> objects c' = objects c \<and>
      (case rb of Inr d \<Rightarrow> \<exists>m. objects c (b, k) = Some (d, m) | Inl e \<Rightarrow> is_not_found e \<longrightarrow> objects c (b, k) = None)"
    and head_whole: "c_head_object C b k c = (rh, c') \<Longrightarrow> objects c' = objects c \<and>
      (case rh of Inr (n, m) \<Rightarrow> \<exists>d. objects c (b, k) = Some (d, m) \<and> n = int (length d)
       | Inl e \<Rightarrow> is_not_found e \<longrightarrow> objects c (b, k) = None)"
    and delete_whole: "c_delete_object C b k c = (r, c') \<Longrightarrow>
      (case r of Inr _ \<Rightarrow> objects c' = (objects c)((b, k) := None)
       | Inl _ \<Rightarrow> objects c' = objects c \<or> objects c' = (objects c)((b, k) := None))"
    and sign_pure: "c_generate_presigned_url C b k i c = (rs, c') \<Longrightarrow> objects c' = objects c"

definition s3_contents :: "('c \<Rightarrow> string \<times> string \<Rightarrow> (bytes \<times> metadata) option) \<Rightarrow> 'c \<Rightarrow> string \<times> string \<Rightarrow> bytes option" where
  "s3_contents objects c k = map_option fst (objects c k)"

text \<open>Checksums recorded with objects are right; so they are when only this adapter has written them.\<close>

definition checksums_ok :: "(string \<times> string \<Rightarrow> (bytes \<times> metadata) option) \<Rightarrow> bool" where
  "checksums_ok objs \<longleftrightarrow> (\<forall>k d m x. objs k = Some (d, m) \<longrightarrow> map_of m CHECKSUM_META_KEY = Some x \<longrightarrow> x = compute_checksum d)"

section \<open>The adapter meets the contract\<close>

lemma concat_part_chunks: "0 < n \<Longrightarrow> concat (part_chunks n d) = d"
proof (induction n d rule: part_chunks.induct)
  case (1 n d)
  then show ?case by (cases "d = []") (simp_all add: part_chunks.simps [of n d] part_chunks.simps [of n "[]"])
qed

lemma assembled_unique: "assembled parts ps ds \<Longrightarrow> assembled parts ps es \<Longrightarrow> ds = es"
  unfolding assembled_def
proof (induction ps arbitrary: ds es)
  case (Cons p ps)
  then show ?case by (auto simp: list_all2_Cons1 split: prod.splits)
qed simp

lemma assembled_update: "assembled parts ps ds \<Longrightarrow> \<forall>(e, m) \<in> set ps. m < n \<Longrightarrow> assembled (parts(n \<mapsto> x)) ps ds"
  unfolding assembled_def
proof (induction ps arbitrary: ds)
  case (Cons p ps)
  then show ?case by (auto simp: list_all2_Cons1 split: prod.splits)
qed simp

lemma wp_of_client:
  "wp (of_client f m) Q E c = (case m c of (Inl e, c') \<Rightarrow> E (f e) c' | (Inr x, c') \<Rightarrow> Q x c')"
  by (simp add: wp_def of_client_def split: prod.split sum.split)

lemma wp_of_clientI:
  assumes "\<And>r c'. m c = (r, c') \<Longrightarrow> (case r of Inl e \<Rightarrow> E (f e) c' | Inr x \<Rightarrow> Q x c')"
  shows "wp (of_client f m) Q E c"
  using assms by (cases "m c") (auto simp: wp_of_client split: sum.splits)

text \<open>The two ways in which a put may leave an upload open: its creation was not acknowledged, or its abort failed.\<close>

definition left_open :: "'c s3_client \<Rightarrow> object_store_location \<Rightarrow> metadata \<Rightarrow> 'c \<Rightarrow> 'c \<Rightarrow> bool" where
  "left_open C l m c c' \<longleftrightarrow> (\<exists>x. fst (c_create_multipart_upload C (loc_bucket l) (loc_key l) m c) = Inl x) \<or>
     (\<exists>u v x. c_abort_multipart_upload C (loc_bucket l) (loc_key l) u v = (Inl x, c'))"

abbreviation recorded :: "bytes \<Rightarrow> metadata" where
  "recorded d \<equiv> [(CHECKSUM_META_KEY, compute_checksum d)]"

context s3_service
begin

lemma wp_upload_parts:
  assumes "uploads c u = Some up" and "up_key up = object_key l" and "assembled (up_parts up) ps ds"
    and "\<forall>(e, m) \<in> set ps. m < n"
  shows "wp (upload_parts C l u n chunks ps)
     (\<lambda>ps' c'. objects c' = objects c \<and> (\<exists>parts'. uploads c' = (uploads c)(u \<mapsto> up\<lparr>up_parts := parts'\<rparr>) \<and>
        assembled parts' ps' (ds @ chunks)))
     (\<lambda>_ c'. objects c' = objects c \<and> (\<forall>v. v \<noteq> u \<longrightarrow> uploads c' v = uploads c v)) c"
  using assms
proof (induction chunks arbitrary: c up ps ds n)
  case Nil
  have "(uploads c)(u \<mapsto> up\<lparr>up_parts := up_parts up\<rparr>) = uploads c" using Nil.prems(1) by auto
  then show ?case using Nil.prems by (auto simp: wp_ret intro!: exI [of _ "up_parts up"])
next
  case (Cons d chunks)
  show ?case
    unfolding upload_parts.simps wp_bind
  proof (rule wp_of_clientI, goal_cases)
    case (1 r c')
    note part = upload_part [OF Cons.prems(1) Cons.prems(2) [unfolded object_key_def] 1]
    show ?case
    proof (cases r)
      case (Inr e)
      let ?up = "up\<lparr>up_parts := (up_parts up)(n \<mapsto> (e, d))\<rparr>"
      have "assembled (up_parts ?up) ps ds"
        using assembled_update [OF Cons.prems(3,4)] by simp
      then have asm: "assembled (up_parts ?up) (ps @ [(e, n)]) (ds @ [d])"
        by (auto simp: assembled_def intro!: list_all2_appendI)
      have "wp (upload_parts C l u (Suc n) chunks (ps @ [(e, n)]))
          (\<lambda>ps' c''. objects c'' = objects c' \<and> (\<exists>parts'. uploads c'' = (uploads c')(u \<mapsto> ?up\<lparr>up_parts := parts'\<rparr>) \<and>
             assembled parts' ps' ((ds @ [d]) @ chunks)))
          (\<lambda>_ c''. objects c'' = objects c' \<and> (\<forall>v. v \<noteq> u \<longrightarrow> uploads c'' v = uploads c' v)) c'"
        by (rule Cons.IH [OF _ _ asm]) (use part Inr Cons.prems(2,4) in auto)
      then show ?thesis unfolding Inr sum.case by (rule wp_mono) (use part Inr in auto)
    qed (use part in simp)
  qed
qed

text \<open>
  After a put the object is the payload with its checksum; a put that fails has left the old object
  or the new one. No upload is left open, unless the creation of one failed after the fact or the
  abort of it failed.
\<close>

lemma wp_put_multipart:
  assumes "0 < s3_part_size cfg"
  shows "wp (s3_put_multipart C cfg l d m)
     (\<lambda>_ c'. objects c' = (objects c)(object_key l \<mapsto> (d, m)) \<and> uploads c' = uploads c)
     (\<lambda>_ c'. (objects c' = objects c \<or> objects c' = (objects c)(object_key l \<mapsto> (d, m))) \<and>
        (uploads c' = uploads c \<or> left_open C l m c c')) c"
  unfolding s3_put_multipart_def wp_bind
proof (rule wp_of_clientI, goal_cases)
  case (1 r c1)
  have part_size: "s3_part_size cfg \<noteq> 0" using assms by simp
  note cr = create_upload [OF 1]
  show ?case
  proof (cases r)
    case (Inr u)
    let ?up = "\<lparr>up_key = object_key l, up_metadata = m, up_parts = Map.empty\<rparr>"
    let ?O = "\<lambda>v. objects v = objects c \<or> objects v = (objects c)(object_key l \<mapsto> (d, m))"
    have c1: "uploads c1 u = Some ?up" "objects c1 = objects c" "(uploads c1)(u := None) = uploads c"
      and c: "uploads c u = None" "\<forall>v. v \<noteq> u \<longrightarrow> uploads c1 v = uploads c v"
      using cr Inr by (auto simp: object_key_def fun_upd_idem)
    have abort: "wp (backend_call (c_abort_multipart_upload C (loc_bucket l) (loc_key l) u))
        (\<lambda>_ v'. ?O v' \<and> (uploads v' = uploads c \<or> left_open C l m c v')) (\<lambda>_ v'. ?O v' \<and> (uploads v' = uploads c \<or> left_open C l m c v')) v"
      if v: "?O v" "\<forall>w. w \<noteq> u \<longrightarrow> uploads v w = uploads c w" for v
    proof (rule wp_of_clientI, goal_cases)
      case (1 ra v')
      have "(uploads v)(u := None) = uploads c" using v(2) c(1) by (auto simp: fun_eq_iff)
      then show ?case using abort_upload [OF 1] v(1) 1 by (auto simp: left_open_def split: sum.splits)
    qed
    have ups: "wp (upload_parts C l u 1 (part_chunks (nat (s3_part_size cfg)) d) [])
       (\<lambda>ps' c'. objects c' = objects c1 \<and> (\<exists>parts'. uploads c' = (uploads c1)(u \<mapsto> ?up\<lparr>up_parts := parts'\<rparr>) \<and>
        assembled parts' ps' ([] @ part_chunks (nat (s3_part_size cfg)) d)))
       (\<lambda>_ c'. objects c' = objects c1 \<and> (\<forall>v. v \<noteq> u \<longrightarrow> uploads c' v = uploads c1 v)) c1"
      by (rule wp_upload_parts [OF c1(1)]) (simp_all add: assembled_def)
    have fin: "wp (backend_call (c_complete_multipart_upload C (loc_bucket l) (loc_key l) u ps))
       (\<lambda>_ c'. objects c' = (objects c)(object_key l \<mapsto> (d, m)) \<and> uploads c' = uploads c)
       (\<lambda>_ c'. ?O c' \<and> (\<forall>v. v \<noteq> u \<longrightarrow> uploads c' v = uploads c v)) c2"
      if "objects c2 = objects c1" "uploads c2 = (uploads c1)(u \<mapsto> ?up\<lparr>up_parts := parts'\<rparr>)"
        "assembled parts' ps (part_chunks (nat (s3_part_size cfg)) d)" for ps c2 parts'
    proof (rule wp_of_clientI, goal_cases)
      case (1 r c')
      have whole: "concat ds = d" if "assembled parts' ps ds" for ds
        using assembled_unique [OF that \<open>assembled parts' ps (part_chunks (nat (s3_part_size cfg)) d)\<close>] assms
        by (simp add: concat_part_chunks)
      have "uploads c2 u = Some (?up\<lparr>up_parts := parts'\<rparr>)" using that(2) by simp
      from complete_upload [OF this _ 1] that c1 c whole show ?case
        by (auto simp: object_key_def split: sum.splits)
    qed
    show ?thesis
      unfolding Inr sum.case wp_try wp_seq wp_check wp_bind if_P [OF part_size] wp_raise_fun
    proof (rule wp_mono [OF ups], goal_cases)
      case (1 ps c2)
      then obtain parts' where "objects c2 = objects c1" "uploads c2 = (uploads c1)(u \<mapsto> ?up\<lparr>up_parts := parts'\<rparr>)"
        "assembled parts' ps (part_chunks (nat (s3_part_size cfg)) d)" by auto
      from fin [OF this] show ?case by (rule wp_mono) (simp, rule abort, simp_all)
    next
      case (2 e c2)
      then show ?case by (intro abort) (simp_all add: c1 c)
    qed
  qed (use cr 1 in \<open>auto simp: left_open_def\<close>)
qed

lemma wp_s3_put:
  assumes "0 < s3_part_size cfg"
  shows "wp (s3_put_object C cfg l d)
     (\<lambda>st c'. st = stat_of d \<and> objects c' = (objects c)(object_key l \<mapsto> (d, recorded d)) \<and> uploads c' = uploads c)
     (\<lambda>_ c'. (objects c' = objects c \<or> objects c' = (objects c)(object_key l \<mapsto> (d, recorded d))) \<and>
        (uploads c' = uploads c \<or> left_open C l (recorded d) c c')) c"
proof (cases "s3_multipart_threshold cfg \<le> int (length d)")
  case True
  show ?thesis
    unfolding s3_put_object_def Let_def wp_seq if_P [OF True] wp_ret
    by (rule wp_mono [OF wp_put_multipart [OF assms]]) (simp_all add: stat_of_def)
next
  case False
  show ?thesis
    unfolding s3_put_object_def Let_def wp_seq if_not_P [OF False] wp_ret
    by (rule wp_of_clientI) (drule put_whole, auto simp: stat_of_def object_key_def split: sum.splits)
qed

lemma wp_s3_get:
  "wp (s3_get_object C l) (\<lambda>d c'. s3_contents objects c (object_key l) = Some d \<and> objects c' = objects c) (\<lambda>_ c'. objects c' = objects c) c"
  unfolding s3_get_object_def
  by (rule wp_of_clientI) (drule get_whole, auto simp: object_key_def s3_contents_def split: sum.splits)

lemma wp_s3_delete:
  "wp (s3_delete_object C l) (\<lambda>_ c'. objects c' = (objects c)(object_key l := None))
     (\<lambda>_ c'. objects c' = objects c \<or> objects c' = (objects c)(object_key l := None)) c"
  unfolding s3_delete_object_def
  by (rule wp_of_clientI) (drule delete_whole, auto simp: object_key_def split: sum.splits)

lemma wp_s3_stat:
  assumes "checksums_ok (objects c)"
  shows "wp (s3_stat_object C l)
     (\<lambda>st c'. st = map_option stat_of (s3_contents objects c (object_key l)) \<and> objects c' = objects c)
     (\<lambda>_ c'. objects c' = objects c) c"
proof (cases "c_head_object C (loc_bucket l) (loc_key l) c")
  case (Pair r c1)
  note head = head_whole [OF Pair]
  show ?thesis
  proof (cases r)
    case (Inl e)
    then show ?thesis
      using head by (auto simp: wp_def s3_stat_object_def Pair s3_contents_def object_key_def)
  next
    case (Inr x)
    obtain n m where x: "x = (n, m)" by (cases x)
    then obtain d where d: "objects c (object_key l) = Some (d, m)" "n = int (length d)" "objects c1 = objects c"
      using head Inr by (auto simp: object_key_def)
    have eq: "s3_stat_object C l c = bind_op
        (case map_of m CHECKSUM_META_KEY of
           Some checksum \<Rightarrow> ret checksum
         | None \<Rightarrow> bind_op (s3_get_object C l) (\<lambda>data. ret (compute_checksum data)))
        (\<lambda>checksum. ret (Some \<lparr>st_size_bytes = n, st_checksum = checksum, st_checksum_algo = CHECKSUM_ALGO\<rparr>)) c1"
      by (simp add: s3_stat_object_def Pair Inr x)
    have "wp (bind_op
        (case map_of m CHECKSUM_META_KEY of
           Some checksum \<Rightarrow> ret checksum
         | None \<Rightarrow> bind_op (s3_get_object C l) (\<lambda>data. ret (compute_checksum data)))
        (\<lambda>checksum. ret (Some \<lparr>st_size_bytes = n, st_checksum = checksum, st_checksum_algo = CHECKSUM_ALGO\<rparr>)))
        (\<lambda>st c'. st = map_option stat_of (s3_contents objects c (object_key l)) \<and> objects c' = objects c)
        (\<lambda>_ c'. objects c' = objects c) c1"
    proof (cases "map_of m CHECKSUM_META_KEY")
      case None
      show ?thesis
        unfolding None option.case wp_bind wp_ret
        by (rule wp_mono [OF wp_s3_get]) (use d in \<open>auto simp: s3_contents_def stat_of_def\<close>)
    next
      case (Some k)
      then have "k = compute_checksum d" using assms d(1) unfolding checksums_ok_def by blast
      then show ?thesis using d by (simp add: Some wp_simps s3_contents_def stat_of_def)
    qed
    then show ?thesis by (simp add: wp_def eq)
  qed
qed

end

locale s3_adapter = s3_service +
  fixes cfg :: s3_config
  assumes part_size: "0 < s3_part_size cfg"
begin

lemma meets_contract: "deleting_store (s3_backend C cfg) (s3_contents objects)"
proof (unfold_locales, goal_cases)
  case (1 l d s)
  show ?case
    unfolding s3_backend_def backend.simps
    by (rule wp_mono [OF wp_s3_put [OF part_size]]) (auto simp: s3_contents_def fun_eq_iff)
next
  case (2 l s)
  show ?case
    unfolding s3_backend_def backend.simps by (rule wp_mono [OF wp_s3_get]) (auto simp: s3_contents_def fun_eq_iff)
next
  case (3 l s)
  show ?case
    unfolding s3_backend_def backend.simps by (rule wp_mono [OF wp_s3_delete]) (auto simp: s3_contents_def fun_eq_iff)
next
  case (4 l n s)
  show ?case
    unfolding s3_backend_def backend.simps s3_presign_get_url_def
    by (rule wp_of_clientI) (drule sign_pure, auto simp: s3_contents_def fun_eq_iff split: sum.split)
next
  case (5 l s)
  show ?case
    unfolding s3_backend_def backend.simps by (rule wp_mono [OF wp_s3_delete]) (auto simp: s3_contents_def)
qed

end

sublocale s3_adapter \<subseteq> deleting_store "s3_backend C cfg" "s3_contents objects"
  by (rule meets_contract)

lemma checksums_ok_upd:
  "checksums_ok objs \<Longrightarrow> checksums_ok (objs(k \<mapsto> (d, [(CHECKSUM_META_KEY, compute_checksum d)])))"
  "checksums_ok objs \<Longrightarrow> checksums_ok (objs(k := None))"
  by (auto simp: checksums_ok_def)


section \<open>A service in memory\<close>

record demo_s3 =
  ds_objects :: "string \<times> string \<Rightarrow> (bytes \<times> metadata) option"
  ds_uploads :: "string \<Rightarrow> s3_upload option"
  ds_next :: nat

fun collect :: "(nat \<rightharpoonup> string \<times> bytes) \<Rightarrow> (string \<times> nat) list \<Rightarrow> bytes list option" where
  "collect parts [] = Some []"
| "collect parts ((e, n) # ps) =
     (case parts n of
        None \<Rightarrow> None
      | Some (e', d) \<Rightarrow> if e' = e then map_option (Cons d) (collect parts ps) else None)"

definition demo_client :: "demo_s3 s3_client" where
  "demo_client = \<lparr>
     c_put_object = (\<lambda>b k d m c. (Inr (), c\<lparr>ds_objects := (ds_objects c)((b, k) \<mapsto> (d, m))\<rparr>)),
     c_create_multipart_upload = (\<lambda>b k m c. let u = replicate (ds_next c) (CHR ''u'') in
       if ds_uploads c u \<noteq> None then (Inl OtherFailure, c)
       else (Inr u, c\<lparr>ds_uploads := (ds_uploads c)(u \<mapsto> \<lparr>up_key = (b, k), up_metadata = m, up_parts = Map.empty\<rparr>), ds_next := Suc (ds_next c)\<rparr>)),
     c_upload_part = (\<lambda>b k u n d c. case ds_uploads c u of
         None \<Rightarrow> (Inl (ClientError ''NoSuchUpload'' 404), c)
       | Some up \<Rightarrow> (Inr ''e'', c\<lparr>ds_uploads := (ds_uploads c)(u \<mapsto> up\<lparr>up_parts := (up_parts up)(n \<mapsto> (''e'', d))\<rparr>)\<rparr>)),
     c_complete_multipart_upload = (\<lambda>b k u ps c. case ds_uploads c u of
         None \<Rightarrow> (Inl (ClientError ''NoSuchUpload'' 404), c)
       | Some up \<Rightarrow> (case collect (up_parts up) ps of
           None \<Rightarrow> (Inl (ClientError ''InvalidPart'' 400), c)
         | Some ds \<Rightarrow> (Inr (), c\<lparr>ds_objects := (ds_objects c)((b, k) \<mapsto> (concat ds, up_metadata up)), ds_uploads := (ds_uploads c)(u := None)\<rparr>))),
     c_abort_multipart_upload = (\<lambda>b k u c. (Inr (), c\<lparr>ds_uploads := (ds_uploads c)(u := None)\<rparr>)),
     c_get_object = (\<lambda>b k c. case ds_objects c (b, k) of None \<Rightarrow> (Inl (ClientError ''NoSuchKey'' 404), c) | Some (d, m) \<Rightarrow> (Inr d, c)),
     c_head_object = (\<lambda>b k c. case ds_objects c (b, k) of
       None \<Rightarrow> (Inl (ClientError ''404'' 404), c) | Some (d, m) \<Rightarrow> (Inr (int (length d), m), c)),
     c_delete_object = (\<lambda>b k c. (Inr (), c\<lparr>ds_objects := (ds_objects c)((b, k) := None)\<rparr>)),
     c_generate_presigned_url = (\<lambda>b k n c. (Inr ''https'', c))\<rparr>"

lemma collect_assembled: "collect parts ps = Some ds \<Longrightarrow> assembled parts ps ds"
  unfolding assembled_def by (induction parts ps arbitrary: ds rule: collect.induct) (auto split: option.splits if_splits)

interpretation demo_service: s3_service demo_client ds_objects ds_uploads
  by unfold_locales
    (auto simp: demo_client_def Let_def dest!: collect_assembled split: option.splits sum.splits if_splits prod.splits)

interpretation demo_adapter: s3_adapter demo_client ds_objects ds_uploads s3_defaults
  by unfold_locales (simp add: s3_defaults_def)

text \<open>The same service when it refuses every part.\<close>

definition flaky_client :: "demo_s3 s3_client" where
  "flaky_client = demo_client\<lparr>c_upload_part := (\<lambda>b k u n d c. (Inl (ClientError ''SlowDown'' 503), c))\<rparr>"

interpretation flaky_service: s3_service flaky_client ds_objects ds_uploads
  by unfold_locales
    (auto simp: flaky_client_def demo_client_def Let_def dest!: collect_assembled split: option.splits sum.splits if_splits prod.splits)

definition demo_empty :: demo_s3 where
  "demo_empty = \<lparr>ds_objects = (\<lambda>_. None), ds_uploads = (\<lambda>_. None), ds_next = 0\<rparr>"

definition demo_location :: object_store_location where
  "demo_location = \<lparr>loc_bucket = ''cache'', loc_key = ''k''\<rparr>"

definition demo_config :: s3_config where
  "demo_config = \<lparr>s3_multipart_threshold = 2, s3_part_size = 2\<rparr>"


end
