(* ===== verification/Py_Net.thy ===== *)
theory Py_Net
  imports Py_Text
begin

text \<open>
  Python's \<open>ipaddress\<close>: addresses as words, parsed from text the way \<open>ip_address\<close> does it, and the
  registries of special-purpose networks behind \<open>is_private\<close>, \<open>is_global\<close> and \<open>is_multicast\<close> (the
  tables of Python 3.11.10).
\<close>

section \<open>Addresses\<close>

text \<open>The string of an IPv6 address is its scope id, empty when it has none.\<close>

datatype ip = IPv4 "32 word" | IPv6 "128 word" string

definition dec_digit :: "char \<Rightarrow> bool" where
  "dec_digit c \<longleftrightarrow> 48 \<le> (of_char c :: int) \<and> (of_char c :: int) \<le> 57"

definition dec_value :: "string \<Rightarrow> int" where
  "dec_value s = foldl (\<lambda>v c. 10 * v + (of_char c - 48)) 0 s"

definition hex_char_value :: "char \<Rightarrow> int option" where
  "hex_char_value c =
     (let n = of_char c in
      if 48 \<le> n \<and> n \<le> 57 then Some (n - 48)
      else if 65 \<le> n \<and> n \<le> 70 then Some (n - 55)
      else if 97 \<le> n \<and> n \<le> 102 then Some (n - 87)
      else None)"

definition hex_value :: "string \<Rightarrow> int" where
  "hex_value s = foldl (\<lambda>v c. 16 * v + the (hex_char_value c)) 0 s"

definition parse_octet :: "string \<Rightarrow> int option" where
  "parse_octet s =
     (if s \<noteq> [] \<and> list_all dec_digit s \<and> length s \<le> 3 \<and> \<not> (s \<noteq> ''0'' \<and> hd s = CHR ''0'') \<and> dec_value s \<le> 255
      then Some (dec_value s) else None)"

definition v4 :: "int \<Rightarrow> int \<Rightarrow> int \<Rightarrow> int \<Rightarrow> 32 word" where
  "v4 a b c d = of_int (((a * 256 + b) * 256 + c) * 256 + d)"

definition parse_ipv4 :: "string \<Rightarrow> (32 word) option" where
  "parse_ipv4 s =
     (case map parse_octet (split_on (CHR ''.'') s) of
        [Some a, Some b, Some c, Some d] \<Rightarrow> Some (v4 a b c d)
      | _ \<Rightarrow> None)"

definition parse_hextet :: "string \<Rightarrow> int option" where
  "parse_hextet s =
     (if s \<noteq> [] \<and> list_all (\<lambda>c. hex_char_value c \<noteq> None) s \<and> length s \<le> 4 then Some (hex_value s) else None)"

fun all_some :: "'a option list \<Rightarrow> 'a list option" where
  "all_some [] = Some []"
| "all_some (x # xs) = (case x of None \<Rightarrow> None | Some a \<Rightarrow> map_option (Cons a) (all_some xs))"

definition v6 :: "int list \<Rightarrow> 128 word" where
  "v6 hs = of_int (foldl (\<lambda>v h. v * 65536 + h) 0 hs)"

text \<open>A part is text still to be parsed, or half of an embedded IPv4 address.\<close>

definition ipv6_parts :: "string \<Rightarrow> (string + int) list option" where
  "ipv6_parts s =
     (let parts = split_on (CHR '':'') s in
      if length parts < 3 then None
      else if CHR ''.'' \<in> set (last parts) then
        map_option (\<lambda>w. map Inl (butlast parts) @ [Inr (uint (drop_bit 16 w)), Inr (uint (take_bit 16 w))]) (parse_ipv4 (last parts))
      else Some (map Inl parts))"

definition part_value :: "string + int \<Rightarrow> int option" where
  "part_value p = (case p of Inl s \<Rightarrow> parse_hextet s | Inr n \<Rightarrow> Some n)"

definition parse_parts :: "(string + int) list \<Rightarrow> (128 word) option" where
  "parse_parts parts =
     (let n = length parts; blank = (\<lambda>i. parts ! i = Inl []) in
      if 9 < n then None
      else
        (case filter blank [1..<n - 1] of
           [] \<Rightarrow> if n = 8 then map_option v6 (all_some (map part_value parts)) else None
         | [i] \<Rightarrow>
             (let hi = (if blank 0 then i - 1 else i); lo = (if blank (n - 1) then n - i - 2 else n - i - 1) in
              if blank 0 \<and> hi \<noteq> 0 \<or> blank (n - 1) \<and> lo \<noteq> 0 \<or> 8 \<le> hi + lo then None
              else map_option (\<lambda>(a, b). v6 (a @ replicate (8 - (hi + lo)) 0 @ b))
                (case (all_some (map part_value (take hi parts)), all_some (map part_value (drop (n - lo) parts))) of
                   (Some a, Some b) \<Rightarrow> Some (a, b) | _ \<Rightarrow> None))
         | _ \<Rightarrow> None))"

definition parse_ipv6 :: "string \<Rightarrow> ip option" where
  "parse_ipv6 s =
     (case py_partition (CHR ''%'') s of (addr, sep, scope) \<Rightarrow>
      if slash \<in> set s \<or> sep \<and> (scope = [] \<or> CHR ''%'' \<in> set scope) then None
      else (case ipv6_parts addr of
              None \<Rightarrow> None
            | Some parts \<Rightarrow> map_option (\<lambda>w. IPv6 w scope) (parse_parts parts)))"

definition ip_address :: "string \<Rightarrow> ip option" where
  "ip_address s = (case parse_ipv4 s of Some w \<Rightarrow> Some (IPv4 w) | None \<Rightarrow> parse_ipv6 s)"

section \<open>Networks\<close>

definition in_net :: "'a::len word \<times> nat \<Rightarrow> 'a word \<Rightarrow> bool" where
  "in_net net w \<longleftrightarrow> drop_bit (LENGTH('a) - snd net) w = drop_bit (LENGTH('a) - snd net) (fst net)"

definition private_networks4 :: "(32 word \<times> nat) list" where
  "private_networks4 =
     [(v4 0 0 0 0, 8), (v4 10 0 0 0, 8), (v4 127 0 0 0, 8), (v4 169 254 0 0, 16), (v4 172 16 0 0, 12), (v4 192 0 0 0, 24),
      (v4 192 0 0 170, 31), (v4 192 0 2 0, 24), (v4 192 168 0 0, 16), (v4 198 18 0 0, 15), (v4 198 51 100 0, 24),
      (v4 203 0 113 0, 24), (v4 240 0 0 0, 4), (v4 255 255 255 255, 32)]"

definition private_exceptions4 :: "(32 word \<times> nat) list" where
  "private_exceptions4 = [(v4 192 0 0 9, 32), (v4 192 0 0 10, 32)]"

definition is_private4 :: "32 word \<Rightarrow> bool" where
  "is_private4 w \<longleftrightarrow> list_ex (\<lambda>n. in_net n w) private_networks4 \<and> list_all (\<lambda>n. \<not> in_net n w) private_exceptions4"

definition is_global4 :: "32 word \<Rightarrow> bool" where
  "is_global4 w \<longleftrightarrow> \<not> in_net (v4 100 64 0 0, 10) w \<and> \<not> is_private4 w"

definition is_multicast4 :: "32 word \<Rightarrow> bool" where
  "is_multicast4 w \<longleftrightarrow> in_net (v4 224 0 0 0, 4) w"

definition private_networks6 :: "(128 word \<times> nat) list" where
  "private_networks6 =
     [(v6 [0, 0, 0, 0, 0, 0, 0, 1], 128), (v6 [0, 0, 0, 0, 0, 0, 0, 0], 128), (v6 [0, 0, 0, 0, 0, 0xFFFF, 0, 0], 96),
      (v6 [0x64, 0xFF9B, 1, 0, 0, 0, 0, 0], 48), (v6 [0x100, 0, 0, 0, 0, 0, 0, 0], 64), (v6 [0x2001, 0, 0, 0, 0, 0, 0, 0], 23),
      (v6 [0x2001, 0xDB8, 0, 0, 0, 0, 0, 0], 32), (v6 [0x2002, 0, 0, 0, 0, 0, 0, 0], 16), (v6 [0xFC00, 0, 0, 0, 0, 0, 0, 0], 7),
      (v6 [0xFE80, 0, 0, 0, 0, 0, 0, 0], 10)]"

definition private_exceptions6 :: "(128 word \<times> nat) list" where
  "private_exceptions6 =
     [(v6 [0x2001, 1, 0, 0, 0, 0, 0, 1], 128), (v6 [0x2001, 1, 0, 0, 0, 0, 0, 2], 128), (v6 [0x2001, 3, 0, 0, 0, 0, 0, 0], 32),
      (v6 [0x2001, 4, 0x112, 0, 0, 0, 0, 0], 48), (v6 [0x2001, 0x20, 0, 0, 0, 0, 0, 0], 28), (v6 [0x2001, 0x30, 0, 0, 0, 0, 0, 0], 28)]"

definition ipv4_mapped :: "128 word \<Rightarrow> (32 word) option" where
  "ipv4_mapped w = (if drop_bit 32 w = 0xFFFF then Some (ucast w) else None)"

definition is_private6 :: "128 word \<Rightarrow> bool" where
  "is_private6 w \<longleftrightarrow>
     (case ipv4_mapped w of
        Some v \<Rightarrow> is_private4 v
      | None \<Rightarrow> list_ex (\<lambda>n. in_net n w) private_networks6 \<and> list_all (\<lambda>n. \<not> in_net n w) private_exceptions6)"

definition is_multicast6 :: "128 word \<Rightarrow> bool" where
  "is_multicast6 w \<longleftrightarrow> in_net (v6 [0xFF00, 0, 0, 0, 0, 0, 0, 0], 8) w"

fun is_global :: "ip \<Rightarrow> bool" where
  "is_global (IPv4 w) = is_global4 w"
| "is_global (IPv6 w scope) = (\<not> is_private6 w)"

fun is_multicast :: "ip \<Rightarrow> bool" where
  "is_multicast (IPv4 w) = is_multicast4 w"
| "is_multicast (IPv6 w scope) = is_multicast6 w"

section \<open>Membership as arithmetic\<close>

lemma uint_drop_bit_div: "uint (drop_bit n w) = uint w div 2 ^ n" for w :: "'a::len word"
proof -
  have "uint (drop_bit n w) = drop_bit n (uint w)" by (simp add: unsigned_drop_bit_eq take_bit_int_eq_self uint_lt2p)
  then show ?thesis by (simp only: drop_bit_eq_div)
qed

lemma in_net_div:
  fixes w :: "'a::len word"
  shows "in_net (v, p) w \<longleftrightarrow> uint w div 2 ^ (LENGTH('a) - p) = uint v div 2 ^ (LENGTH('a) - p)"
  by (simp only: in_net_def word_uint_eq_iff uint_drop_bit_div fst_conv snd_conv)

end
