(* ===== verification/Py_Url.thy ===== *)
theory Py_Url
  imports Py_Net
begin

text \<open>
  Python's \<open>urllib.parse\<close> as the fetcher uses it (the functions of Python 3.11): splitting a URL,
  the host and port of its authority, percent-decoding and joining with a relative reference. A
  \<open>ValueError\<close> is \<open>None\<close>. The check of an authority under Unicode normalisation is left out, as no
  Latin-1 character normalises to one of the delimiters it looks for.
\<close>

section \<open>Splitting\<close>

record split_result =
  u_scheme :: string
  u_netloc :: string
  u_path :: string
  u_query :: string
  u_fragment :: string

definition is_ascii_alpha :: "char \<Rightarrow> bool" where
  "is_ascii_alpha c \<longleftrightarrow> (let n = of_char c :: int in 65 \<le> n \<and> n \<le> 90 \<or> 97 \<le> n \<and> n \<le> 122)"

definition scheme_char :: "char \<Rightarrow> bool" where
  "scheme_char c \<longleftrightarrow> is_ascii_alpha c \<or> dec_digit c \<or> c \<in> set ''+-.''"

definition clean_url :: "string \<Rightarrow> string" where
  "clean_url url = filter (\<lambda>c. c \<notin> {CHR 0x09, CHR 0x0D, CHR 0x0A}) (dropWhile (\<lambda>c. (of_char c :: int) \<le> 32) url)"

definition split_scheme :: "string \<Rightarrow> string \<Rightarrow> string \<times> string" where
  "split_scheme dflt url =
     (case py_partition (CHR '':'') url of (pre, found, post) \<Rightarrow>
      if found \<and> pre \<noteq> [] \<and> is_ascii_alpha (hd pre) \<and> list_all scheme_char pre then (py_lower pre, post)
      else (dflt, url))"

definition split_netloc :: "string \<Rightarrow> string \<times> string" where
  "split_netloc url =
     (if take 2 url = ''//'' then
        (takeWhile (\<lambda>c. c \<notin> set ''/?#'') (drop 2 url), dropWhile (\<lambda>c. c \<notin> set ''/?#'') (drop 2 url))
      else ([], url))"

definition check_bracketed_host :: "string \<Rightarrow> bool" where
  "check_bracketed_host hostname =
     (case hostname of
        [] \<Rightarrow> False
      | c # cs \<Rightarrow>
          if c = CHR ''v'' then
            (let digits = takeWhile (\<lambda>x. hex_char_value x \<noteq> None) cs; rest = dropWhile (\<lambda>x. hex_char_value x \<noteq> None) cs in
             digits \<noteq> [] \<and> rest \<noteq> [] \<and> hd rest = CHR ''.'' \<and> tl rest \<noteq> [])
          else (case ip_address hostname of Some (IPv6 w scope) \<Rightarrow> True | _ \<Rightarrow> False))"

definition netloc_ok :: "string \<Rightarrow> bool" where
  "netloc_ok netloc \<longleftrightarrow>
     (CHR ''['' \<in> set netloc \<longleftrightarrow> CHR '']'' \<in> set netloc) \<and>
     (CHR ''['' \<in> set netloc \<longrightarrow>
        check_bracketed_host (fst (py_partition (CHR '']'') (snd (snd (py_partition (CHR ''['') netloc))))))"

definition urlsplit_in :: "string \<Rightarrow> string \<Rightarrow> split_result option" where
  "urlsplit_in dflt raw =
     (let (scheme, url) = split_scheme dflt (clean_url raw); (netloc, rest) = split_netloc url in
      if \<not> netloc_ok netloc then None
      else
        (let (rest, _, fragment) = py_partition (CHR ''#'') rest; (path, _, query) = py_partition (CHR ''?'') rest in
         Some \<lparr>u_scheme = scheme, u_netloc = netloc, u_path = path, u_query = query, u_fragment = fragment\<rparr>))"

definition urlsplit :: "string \<Rightarrow> split_result option" where
  "urlsplit raw = urlsplit_in [] raw"

section \<open>Authority\<close>

definition hostinfo :: "string \<Rightarrow> string \<times> string" where
  "hostinfo netloc =
     (let info = rev (takeWhile (\<lambda>c. c \<noteq> CHR ''@'') (rev netloc)) in
      case py_partition (CHR ''['') info of (_, bracket, bracketed) \<Rightarrow>
      if bracket then
        (case py_partition (CHR '']'') bracketed of (hostname, _, port) \<Rightarrow> (hostname, snd (snd (py_partition (CHR '':'') port))))
      else (case py_partition (CHR '':'') info of (hostname, _, port) \<Rightarrow> (hostname, port)))"

definition url_hostname :: "split_result \<Rightarrow> string option" where
  "url_hostname u =
     (let hostname = fst (hostinfo (u_netloc u)) in
      if hostname = [] then None
      else (case py_partition (CHR ''%'') hostname of (name, percent, zone) \<Rightarrow>
        Some (py_lower name @ (if percent then CHR ''%'' # zone else []))))"

text \<open>The outer option is the \<open>ValueError\<close> of a port that is no number or out of range.\<close>

definition url_port :: "split_result \<Rightarrow> int option option" where
  "url_port u =
     (let port = snd (hostinfo (u_netloc u)) in
      if port = [] then Some None
      else if list_all dec_digit port \<and> dec_value port \<le> 65535 then Some (Some (dec_value port))
      else None)"

section \<open>Percent-decoding\<close>

text \<open>
  Runs of ASCII characters are decoded to bytes and the bytes as UTF-8; other characters stay. The
  result is \<open>None\<close> when it has a character outside of Latin-1, the replacement character for bytes
  that are not UTF-8 included.
\<close>

function unquote_tokens :: "string \<Rightarrow> (int + char) list" where
  "unquote_tokens [] = []"
| "unquote_tokens (c # cs) =
     (if c = CHR ''%'' then
        (case cs of
           a # b # rest \<Rightarrow>
             (case (hex_char_value a, hex_char_value b) of
                (Some x, Some y) \<Rightarrow> Inl (16 * x + y) # unquote_tokens rest
              | _ \<Rightarrow> Inl 37 # unquote_tokens cs)
         | _ \<Rightarrow> Inl 37 # unquote_tokens cs)
      else if (of_char c :: int) < 128 then Inl (of_char c) # unquote_tokens cs
      else Inr c # unquote_tokens cs)"
  by pat_completeness auto
termination by (relation "measure length") auto

fun utf8_latin1 :: "(int + char) list \<Rightarrow> string option" where
  "utf8_latin1 [] = Some []"
| "utf8_latin1 (Inr c # ts) = map_option (Cons c) (utf8_latin1 ts)"
| "utf8_latin1 (Inl b # ts) =
     (if b < 128 then map_option (Cons (char_of b)) (utf8_latin1 ts)
      else if b = 194 \<or> b = 195 then
        (case ts of
           Inl b2 # ts' \<Rightarrow>
             if 128 \<le> b2 \<and> b2 < 192 then map_option (Cons (char_of ((b - 192) * 64 + (b2 - 128)))) (utf8_latin1 ts') else None
         | _ \<Rightarrow> None)
      else None)"

definition unquote :: "string \<Rightarrow> string option" where
  "unquote s = utf8_latin1 (unquote_tokens s)"

section \<open>Joining\<close>

definition uses_relative :: "string list" where
  "uses_relative = [[], ''ftp'', ''http'', ''gopher'', ''nntp'', ''imap'', ''wais'', ''file'', ''https'', ''shttp'', ''mms'',
     ''prospero'', ''rtsp'', ''rtsps'', ''rtspu'', ''sftp'', ''svn'', ''svn+ssh'', ''ws'', ''wss'']"

definition uses_netloc :: "string list" where
  "uses_netloc = [[], ''ftp'', ''http'', ''gopher'', ''nntp'', ''telnet'', ''imap'', ''wais'', ''file'', ''mms'', ''https'',
     ''shttp'', ''snews'', ''prospero'', ''rtsp'', ''rtsps'', ''rtspu'', ''rsync'', ''svn'', ''svn+ssh'', ''sftp'', ''nfs'',
     ''git'', ''git+ssh'', ''ws'', ''wss'']"

definition uses_params :: "string list" where
  "uses_params = [[], ''ftp'', ''hdl'', ''prospero'', ''http'', ''imap'', ''https'', ''shttp'', ''rtsp'', ''rtsps'', ''rtspu'',
     ''sip'', ''sips'', ''mms'', ''sftp'', ''tel'']"

text \<open>Path and parameters: what follows the first semicolon of the last segment.\<close>

definition splitparams :: "string \<Rightarrow> string \<Rightarrow> string \<times> string" where
  "splitparams scheme path =
     (let head = rev (dropWhile (\<lambda>c. c \<noteq> slash) (rev path)); last_part = rev (takeWhile (\<lambda>c. c \<noteq> slash) (rev path)) in
      if scheme \<in> set uses_params then (case py_partition (CHR '';'') last_part of (a, _, b) \<Rightarrow> (head @ a, b))
      else (path, []))"

definition urlunsplit :: "string \<Rightarrow> string \<Rightarrow> string \<Rightarrow> string \<Rightarrow> string \<Rightarrow> string" where
  "urlunsplit scheme netloc path query fragment =
     (let url = (if netloc \<noteq> [] \<or> scheme \<noteq> [] \<and> scheme \<in> set uses_netloc \<or> take 2 path = ''//''
                 then ''//'' @ netloc @ (if path \<noteq> [] \<and> hd path \<noteq> slash then slash # path else path)
                 else path) in
      (if scheme \<noteq> [] then scheme @ '':'' else []) @ url @
      (if query \<noteq> [] then CHR ''?'' # query else []) @ (if fragment \<noteq> [] then CHR ''#'' # fragment else []))"

definition urlunparse :: "string \<Rightarrow> string \<Rightarrow> string \<Rightarrow> string \<Rightarrow> string \<Rightarrow> string \<Rightarrow> string" where
  "urlunparse scheme netloc path params query fragment =
     urlunsplit scheme netloc (if params \<noteq> [] then path @ CHR '';'' # params else path) query fragment"

fun resolve_segments :: "string list \<Rightarrow> string list \<Rightarrow> string list" where
  "resolve_segments [] resolved = resolved"
| "resolve_segments (seg # segs) resolved =
     (if seg = ''..'' then resolve_segments segs (butlast resolved)
      else if seg = ''.'' then resolve_segments segs resolved
      else resolve_segments segs (resolved @ [seg]))"

definition drop_empty_inner :: "string list \<Rightarrow> string list" where
  "drop_empty_inner segs =
     (if length segs \<le> 1 then segs else hd segs # filter (\<lambda>s. s \<noteq> []) (butlast (tl segs)) @ [last segs])"

definition merge_paths :: "string \<Rightarrow> string \<Rightarrow> string" where
  "merge_paths bpath path =
     (let parts = split_on slash bpath;
          base_parts = (if last parts \<noteq> [] then butlast parts else parts);
          segments = (if take 1 path = ''/'' then split_on slash path
                      else drop_empty_inner (base_parts @ split_on slash path));
          resolved = resolve_segments segments [] @ (if last segments \<in> {''.'', ''..''} then [[]] else []);
          joined = join_with slash resolved in
      if joined = [] then ''/'' else joined)"

definition urljoin :: "string \<Rightarrow> string \<Rightarrow> string option" where
  "urljoin base url =
     (if base = [] then Some url
      else if url = [] then Some base
      else (case urlsplit base of
              None \<Rightarrow> None
            | Some b \<Rightarrow>
                (case urlsplit_in (u_scheme b) url of
                   None \<Rightarrow> None
                 | Some u \<Rightarrow>
                     if u_scheme u \<noteq> u_scheme b \<or> u_scheme u \<notin> set uses_relative then Some url
                     else
                       (let (bpath, bparams) = splitparams (u_scheme b) (u_path b);
                            (path, params) = splitparams (u_scheme u) (u_path u);
                            netloc = (if u_scheme u \<in> set uses_netloc then u_netloc b else u_netloc u) in
                        if u_scheme u \<in> set uses_netloc \<and> u_netloc u \<noteq> [] then
                          Some (urlunparse (u_scheme u) (u_netloc u) path params (u_query u) (u_fragment u))
                        else if path = [] \<and> params = [] then
                          Some (urlunparse (u_scheme u) netloc bpath bparams
                            (if u_query u = [] then u_query b else u_query u) (u_fragment u))
                        else Some (urlunparse (u_scheme u) netloc (merge_paths bpath path) params (u_query u) (u_fragment u))))))"

end
