(* ===== verification/Transport.thy ===== *)
theory Transport
  imports Py_Net Py_Float
begin

text \<open>
  The outbound connections of the fetcher, \<^verbatim>\<open>fetcher_service/transport.py\<close>, and the error classes of
  \<^verbatim>\<open>fetcher_service/errors.py\<close>. Name resolution and the dialer of \<open>httpcore\<close> are parameters.
\<close>

section \<open>Errors\<close>

text \<open>
  The classes of the fetcher, the error of its asset-store client, and those of the HTTP libraries
  that its code distinguishes; the store's own errors are \<open>StoreError\<close>. \<open>UnmodelledText\<close> is no exception of the
  program: it stands for continuing with text outside of the characters that are modelled.
\<close>

datatype fetch_error =
    InvalidRequestError
  | ContentMismatchError
  | UpstreamError
  | UpstreamTimeoutError
  | PilotDeniedError
  | CacheMissError
  | CacheBackendError int "string option"
  | AssetStoreError "int option" "string option"
  | InvalidUrl
  | ConnectError
  | ConnectTimeout
  | HttpTimeout
  | HttpError
  | PlainValueError
  | OtherException
  | UnmodelledText
  | StoreError error

section \<open>Which addresses may be reached\<close>

definition TRANSITION_NETWORKS :: "(128 word \<times> nat) list" where
  "TRANSITION_NETWORKS =
     [(v6 [0x64, 0xFF9B, 0, 0, 0, 0, 0, 0], 96), (v6 [0x64, 0xFF9B, 1, 0, 0, 0, 0, 0], 48),
      (v6 [0x2002, 0, 0, 0, 0, 0, 0, 0], 16), (v6 [0x2001, 0, 0, 0, 0, 0, 0, 0], 32)]"

definition blocked_ipv4 :: "32 word \<Rightarrow> bool" where
  "blocked_ipv4 w \<longleftrightarrow> \<not> is_global (IPv4 w) \<or> is_multicast (IPv4 w)"

fun blocked_ip :: "ip \<Rightarrow> bool" where
  "blocked_ip (IPv4 w) = blocked_ipv4 w"
| "blocked_ip (IPv6 w scope) =
     (if \<not> is_global (IPv6 w scope) \<or> is_multicast (IPv6 w scope) then True
      else (case ipv4_mapped w of
              Some v \<Rightarrow> blocked_ipv4 v
            | None \<Rightarrow> list_ex (\<lambda>n. in_net n w) TRANSITION_NETWORKS))"

section \<open>Resolution\<close>

text \<open>What \<open>getaddrinfo\<close> answers: nothing on an \<open>OSError\<close>, else families with address texts.\<close>

datatype family = AF_INET | AF_INET6 | OtherFamily

fun resolve_infos :: "bool \<Rightarrow> (family \<times> string) list \<Rightarrow> ip list \<Rightarrow> fetch_error + ip list" where
  "resolve_infos allow_private [] addresses = Inr addresses"
| "resolve_infos allow_private ((fam, address) # infos) addresses =
     (if fam = OtherFamily then Inl UpstreamError
      else (case ip_address address of
              None \<Rightarrow> Inl UpstreamError
            | Some ip \<Rightarrow>
                if \<not> allow_private \<and> (CHR ''%'' \<in> set address \<or> blocked_ip ip) then Inl UpstreamError
                else resolve_infos allow_private infos (if ip \<notin> set addresses then addresses @ [ip] else addresses)))"

definition resolve_allowed :: "bool \<Rightarrow> (family \<times> string) list option \<Rightarrow> fetch_error + ip list" where
  "resolve_allowed allow_private answer =
     (case answer of
        None \<Rightarrow> Inl UpstreamError
      | Some infos \<Rightarrow>
          bind_result (resolve_infos allow_private infos []) (\<lambda>addresses.
          bind_result (guard_result (addresses \<noteq> []) UpstreamError) (\<lambda>_. Inr addresses)))"

section \<open>Connecting\<close>

datatype dial_failure = DialConnectError | DialConnectTimeout | DialOther

text \<open>The dialer takes an address, a port and a timeout and acts on a network state of any type.\<close>

type_synonym ('d, 'x) dialer = "ip \<Rightarrow> int \<Rightarrow> rat option \<Rightarrow> 'd \<Rightarrow> (dial_failure + 'x) \<times> 'd"

record 'd net =
  nt_network :: 'd
  nt_connections :: "string list"
  nt_monotonic :: "nat \<Rightarrow> rat"
  nt_reads :: nat

definition net_monotonic :: "(fetch_error, 'd net, rat) eop" where
  "net_monotonic n = (Inr (nt_monotonic n (nt_reads n)), n\<lparr>nt_reads := Suc (nt_reads n)\<rparr>)"

definition count_connection :: "string \<Rightarrow> (fetch_error, 'd net, unit) eop" where
  "count_connection outcome = modify (\<lambda>n. n\<lparr>nt_connections := nt_connections n @ [outcome]\<rparr>)"

definition dial_op :: "('d, 'x) dialer \<Rightarrow> ip \<Rightarrow> int \<Rightarrow> rat option \<Rightarrow> (fetch_error, 'd net, dial_failure + 'x) eop" where
  "dial_op dial address port timeout n =
     (case dial address port timeout (nt_network n) of (r, d) \<Rightarrow> (Inr r, n\<lparr>nt_network := d\<rparr>))"

fun dial_each ::
  "('d, 'x) dialer \<Rightarrow> int \<Rightarrow> rat option \<Rightarrow> rat \<Rightarrow> ip list \<Rightarrow> fetch_error option \<Rightarrow> (fetch_error, 'd net, 'x) eop" where
  "dial_each dial port timeout started [] last_error =
     raise (case last_error of None \<Rightarrow> OtherException | Some e \<Rightarrow> e)"
| "dial_each dial port timeout started (address # addresses) last_error =
     bind_op
       (case timeout of
          None \<Rightarrow> ret None
        | Some t \<Rightarrow> bind_op net_monotonic (\<lambda>now. ret (Some (fl (t - fl (now - started)))))) (\<lambda>remaining.
     seq_op (check (case remaining of None \<Rightarrow> True | Some r \<Rightarrow> 0 < r) ConnectTimeout) (
     bind_op (dial_op dial address port remaining) (\<lambda>result.
     case result of
       Inr stream \<Rightarrow> seq_op (count_connection ''connected'') (ret stream)
     | Inl DialOther \<Rightarrow> raise OtherException
     | Inl DialConnectError \<Rightarrow>
         seq_op (count_connection ''failed'') (dial_each dial port timeout started addresses (Some ConnectError))
     | Inl DialConnectTimeout \<Rightarrow>
         seq_op (count_connection ''failed'') (dial_each dial port timeout started addresses (Some ConnectTimeout)))))"

definition connect_tcp ::
  "bool \<Rightarrow> (string \<Rightarrow> int \<Rightarrow> (family \<times> string) list option) \<Rightarrow> ('d, 'x) dialer \<Rightarrow> string \<Rightarrow> int \<Rightarrow> rat option \<Rightarrow>
   (fetch_error, 'd net, 'x) eop" where
  "connect_tcp allow_private getaddrinfo dial host port timeout =
     bind_op net_monotonic (\<lambda>started.
     bind_op
       (try_op (of_result (resolve_allowed allow_private (getaddrinfo host port)))
          (\<lambda>e. seq_op (if e = UpstreamError then count_connection ''rejected'' else ret ()) (raise e))) (\<lambda>addresses.
     dial_each dial port timeout started addresses None))"

section \<open>Only vetted addresses are dialled\<close>

text \<open>
  What must not be reached, by the names of the address registries. For IPv4: this network, the private and
  shared ranges, loopback, link-local, protocol assignments, the documentation and benchmarking ranges, multicast
  and the reserved range; the two anycast addresses among the protocol assignments may be reached.
\<close>

definition DENIED4 :: "(32 word \<times> nat) list" where
  "DENIED4 =
     [(v4 0 0 0 0, 8), (v4 10 0 0 0, 8), (v4 100 64 0 0, 10), (v4 127 0 0 0, 8), (v4 169 254 0 0, 16), (v4 172 16 0 0, 12),
      (v4 192 0 0 0, 24), (v4 192 0 2 0, 24), (v4 192 168 0 0, 16), (v4 198 18 0 0, 15), (v4 198 51 100 0, 24),
      (v4 203 0 113 0, 24), (v4 224 0 0 0, 4), (v4 240 0 0 0, 4)]"

definition routable4 :: "32 word \<Rightarrow> bool" where
  "routable4 w \<longleftrightarrow> w \<in> {v4 192 0 0 9, v4 192 0 0 10} \<or> (\<forall>n \<in> set DENIED4. \<not> in_net n w)"

text \<open>
  For IPv6: the unspecified address and loopback, the discard prefix, protocol assignments with their
  exceptions, documentation, unique local, link-local and multicast addresses, and the prefixes whose addresses
  are translated to IPv4 (NAT64, local NAT64, 6to4, Teredo). A mapped IPv4 address is judged as such. The list
  leaves out the deprecated prefixes of IPv4-compatible and of site-local addresses, which the code admits.
\<close>

definition DENIED6 :: "(128 word \<times> nat) list" where
  "DENIED6 =
     [(v6 [0, 0, 0, 0, 0, 0, 0, 0], 128), (v6 [0, 0, 0, 0, 0, 0, 0, 1], 128), (v6 [0x100, 0, 0, 0, 0, 0, 0, 0], 64),
      (v6 [0x2001, 0, 0, 0, 0, 0, 0, 0], 23), (v6 [0x2001, 0xDB8, 0, 0, 0, 0, 0, 0], 32), (v6 [0xFC00, 0, 0, 0, 0, 0, 0, 0], 7),
      (v6 [0xFE80, 0, 0, 0, 0, 0, 0, 0], 10)]"

definition TRANSLATED6 :: "(128 word \<times> nat) list" where
  "TRANSLATED6 =
     [(v6 [0x64, 0xFF9B, 0, 0, 0, 0, 0, 0], 96), (v6 [0x64, 0xFF9B, 1, 0, 0, 0, 0, 0], 48), (v6 [0x2002, 0, 0, 0, 0, 0, 0, 0], 16),
      (v6 [0x2001, 0, 0, 0, 0, 0, 0, 0], 32)]"

definition ASSIGNED6 :: "(128 word \<times> nat) list" where
  "ASSIGNED6 =
     [(v6 [0x2001, 1, 0, 0, 0, 0, 0, 1], 128), (v6 [0x2001, 1, 0, 0, 0, 0, 0, 2], 128), (v6 [0x2001, 3, 0, 0, 0, 0, 0, 0], 32),
      (v6 [0x2001, 4, 0x112, 0, 0, 0, 0, 0], 48), (v6 [0x2001, 0x20, 0, 0, 0, 0, 0, 0], 28), (v6 [0x2001, 0x30, 0, 0, 0, 0, 0, 0], 28)]"

fun routable :: "ip \<Rightarrow> bool" where
  "routable (IPv4 w) = routable4 w"
| "routable (IPv6 w scope) \<longleftrightarrow> scope = [] \<and>
     (case ipv4_mapped w of
        Some v \<Rightarrow> routable4 v
      | None \<Rightarrow> \<not> in_net (v6 [0xFF00, 0, 0, 0, 0, 0, 0, 0], 8) w \<and> (\<forall>n \<in> set TRANSLATED6. \<not> in_net n w) \<and>
          ((\<exists>n \<in> set ASSIGNED6. in_net n w) \<or> (\<forall>n \<in> set DENIED6. \<not> in_net n w)))"

lemma in_net_full: "in_net (v, LENGTH('a)) w \<longleftrightarrow> w = v" for w :: "'a::len word"
  by (simp add: in_net_def)

lemma not_blocked4:
  assumes "\<not> blocked_ipv4 w"
  shows "routable4 w"
proof (cases "list_ex (\<lambda>n. in_net n w) private_exceptions4")
  case True
  then show ?thesis using in_net_full [where 'a = 32] by (auto simp: private_exceptions4_def routable4_def)
next
  case False
  then show ?thesis
    using assms by (simp add: blocked_ipv4_def is_global4_def is_private4_def is_multicast4_def routable4_def DENIED4_def private_networks4_def
        private_exceptions4_def)
qed

lemma not_blocked6:
  assumes "\<not> blocked_ip (IPv6 w [])"
  shows "routable (IPv6 w [])"
proof (cases "ipv4_mapped w")
  case (Some v)
  then show ?thesis using assms by (auto intro: not_blocked4 split: if_splits)
next
  case None
  have glob: "\<not> is_private6 w" "\<not> is_multicast6 w" "\<not> list_ex (\<lambda>n. in_net n w) TRANSITION_NETWORKS"
    using assms None by (auto split: if_splits)
  have "(\<exists>n \<in> set ASSIGNED6. in_net n w) \<or> (\<forall>n \<in> set DENIED6. \<not> in_net n w)"
    using glob(1) None by (simp add: is_private6_def private_networks6_def private_exceptions6_def ASSIGNED6_def DENIED6_def) blast
  then show ?thesis
    using glob(2,3) None by (simp add: is_multicast6_def TRANSITION_NETWORKS_def TRANSLATED6_def)
qed

declare routable.simps(2) [simp del]

text \<open>The two deprecated prefixes: an address that carries 10.0.0.1 and a site-local one are admitted.\<close>

lemma deprecated_admitted:
  "\<not> blocked_ip (IPv6 (v6 [0, 0, 0, 0, 0, 0, 0xA00, 1]) [])" "\<not> blocked_ip (IPv6 (v6 [0xFEC0, 0, 0, 0, 0, 0, 0, 1]) [])"
  by code_simp+

lemma ip_address_unscoped:
  assumes "ip_address s = Some (IPv6 w scope)" and "CHR ''%'' \<notin> set s"
  shows "scope = []"
proof -
  obtain addr sep sc where p: "py_partition (CHR ''%'') s = (addr, sep, sc)" by (rule prod_cases3)
  have "\<not> sep" using p assms(2) py_partition_found [of "CHR ''%''" s addr sc] by (cases sep) auto
  then have "sc = []" using p by (simp add: py_partition_not_found)
  then show ?thesis
    using assms(1) p by (auto simp: ip_address_def parse_ipv6_def split: option.splits if_splits)
qed

lemma admitted_routable:
  assumes "ip_address s = Some ip" and "CHR ''%'' \<notin> set s" and "\<not> blocked_ip ip"
  shows "routable ip"
proof (cases ip)
  case (IPv4 w)
  then show ?thesis using assms(3) not_blocked4 by simp
next
  case (IPv6 w scope)
  then have "scope = []" using ip_address_unscoped assms(1,2) by blast
  then show ?thesis using assms(3) not_blocked6 unfolding IPv6 by blast
qed

text \<open>What is resolved comes from the answer, and all of the answer has been vetted.\<close>

definition answered :: "(family \<times> string) list \<Rightarrow> ip \<Rightarrow> bool" where
  "answered infos ip \<longleftrightarrow> (\<exists>fam s. (fam, s) \<in> set infos \<and> ip_address s = Some ip)"

lemma resolve_infos_routable:
  "resolve_infos False infos acc = Inr xs \<Longrightarrow> \<forall>ip \<in> set acc. routable ip \<Longrightarrow>
   (\<forall>ip \<in> set xs. routable ip \<and> (ip \<in> set acc \<or> answered infos ip)) \<and> (\<forall>ip. answered infos ip \<longrightarrow> routable ip)"
proof (induction infos arbitrary: acc)
  case (Cons info infos)
  obtain fam s where info: "info = (fam, s)" by (cases info)
  note step = Cons.prems(1) [unfolded info resolve_infos.simps]
  then have fam: "fam \<noteq> OtherFamily" by (cases "fam = OtherFamily") simp_all
  obtain ip where ip1: "ip_address s = Some ip" using step fam by (cases "ip_address s") simp_all
  note step = step [unfolded if_not_P [OF fam] ip1 option.case]
  have ok: "\<not> (\<not> False \<and> (CHR ''%'' \<in> set s \<or> blocked_ip ip))"
  proof
    assume "\<not> False \<and> (CHR ''%'' \<in> set s \<or> blocked_ip ip)"
    from step [unfolded if_P [OF this]] show False by (rule notE [OF Inl_not_Inr])
  qed
  note rest = step [unfolded if_not_P [OF ok]]
  have ip: "ip_address s = Some ip" "CHR ''%'' \<notin> set s" "\<not> blocked_ip ip" using ip1 ok by blast+
  have r: "routable ip" by (rule admitted_routable [OF ip])
  then have "\<forall>x \<in> set (if ip \<notin> set acc then acc @ [ip] else acc). routable x" using Cons.prems(2) by simp
  note IH = Cons.IH [OF rest this]
  have more: "answered (info # infos) x \<longleftrightarrow> x = ip \<or> answered infos x" for x
    using ip(1) unfolding answered_def info list.set by (metis insert_iff option.inject prod.inject)
  have "set (if ip \<notin> set acc then acc @ [ip] else acc) \<subseteq> insert ip (set acc)" by auto
  then show ?case using IH r unfolding more by blast
qed (simp add: answered_def)

lemma resolve_allowed_routable:
  "resolve_allowed False (Some infos) = Inr xs \<Longrightarrow>
   (\<forall>ip \<in> set xs. routable ip \<and> answered infos ip) \<and> (\<forall>ip. answered infos ip \<longrightarrow> routable ip)"
  using resolve_infos_routable [of infos "[]"] by (auto simp: resolve_allowed_def bind_result_Inr)

lemma resolve_allowed_error: "resolve_allowed p answer = Inl e \<Longrightarrow> e = UpstreamError"
proof -
  have "resolve_infos p infos acc = Inl e \<Longrightarrow> e = UpstreamError" for infos acc
    by (induction p infos acc rule: resolve_infos.induct) (auto split: if_splits option.splits)
  then show "resolve_allowed p answer = Inl e \<Longrightarrow> e = UpstreamError"
    by (auto simp: resolve_allowed_def bind_result_Inl split: option.splits)
qed

lemma dial_each_cong:
  "\<forall>ip \<in> set addresses. dial ip = dial' ip \<Longrightarrow>
   dial_each dial port timeout started addresses err = dial_each dial' port timeout started addresses err"
proof (induction addresses arbitrary: err)
  case (Cons a as)
  have d: "dial_op dial a port t = dial_op dial' a port t" for t using Cons.prems by (simp add: dial_op_def fun_eq_iff)
  have r: "dial_each dial port timeout started as e = dial_each dial' port timeout started as e" for e
    using Cons.IH Cons.prems by simp
  show ?case unfolding dial_each.simps d r ..
qed simp

text \<open>
  C37: A connection only reaches vetted addresses of one answer of the name service. Connecting behaves the same
  for any two dialers that agree on the addresses which are in the answer for the host and in none of the denied
  ranges, so no other address is ever dialled; and when one address of the answer lies in a denied range, the
  whole answer is rejected before anything is dialled.
\<close>

theorem only_vetted_dialled:
  assumes "\<And>infos ip. getaddrinfo host port = Some infos \<Longrightarrow> answered infos ip \<Longrightarrow> routable ip \<Longrightarrow> dial ip = dial' ip"
  shows "connect_tcp False getaddrinfo dial host port timeout n = connect_tcp False getaddrinfo dial' host port timeout n \<and>
     ((\<exists>infos ip. getaddrinfo host port = Some infos \<and> answered infos ip \<and> \<not> routable ip) \<longrightarrow>
        connect_tcp False getaddrinfo dial host port timeout n =
          (Inl UpstreamError, n\<lparr>nt_reads := Suc (nt_reads n), nt_connections := nt_connections n @ [''rejected'']\<rparr>))"
proof (cases "resolve_allowed False (getaddrinfo host port)")
  case (Inl e)
  then have "e = UpstreamError" by (rule resolve_allowed_error)
  then show ?thesis
    using Inl by (simp add: connect_tcp_def bind_op_def seq_op_def try_op_def of_result_def net_monotonic_def count_connection_def
        modify_def raise_def)
next
  case (Inr addresses)
  then obtain infos where infos: "getaddrinfo host port = Some infos"
    by (auto simp: resolve_allowed_def split: option.splits)
  note r = resolve_allowed_routable [OF Inr [unfolded infos]]
  then have "dial_each dial port timeout started addresses None = dial_each dial' port timeout started addresses None" for started
    by (intro dial_each_cong) (use assms [OF infos] in blast)
  then show ?thesis using r Inr infos
    by (auto simp: connect_tcp_def bind_op_def try_op_def of_result_def net_monotonic_def)
qed

definition demo_answer :: "(family \<times> string) list" where
  "demo_answer = [(AF_INET, ''8.8.8.8''), (AF_INET6, ''::ffff:10.0.0.1'')]"

definition demo_net :: "unit net" where
  "demo_net = \<lparr>nt_network = (), nt_connections = [], nt_monotonic = (\<lambda>_. 0), nt_reads = 0\<rparr>"

theorem only_vetted_dialled_witness:
  "connect_tcp False (\<lambda>_ _. Some demo_answer) (\<lambda>ip p t d. (Inr (), d)) ''h'' 443 None demo_net =
     (Inl UpstreamError, demo_net\<lparr>nt_reads := 1, nt_connections := [''rejected'']\<rparr>) \<and>
   connect_tcp False (\<lambda>_ _. Some [(AF_INET, ''8.8.8.8'')]) (\<lambda>ip p t d. (Inr ip, d)) ''h'' 443 None demo_net =
     connect_tcp False (\<lambda>_ _. Some [(AF_INET, ''8.8.8.8'')])
       (\<lambda>ip p t d. if ip = IPv4 (v4 8 8 8 8) then (Inr ip, d) else (Inl DialOther, d)) ''h'' 443 None demo_net"
proof -
  let ?ip = "IPv6 (v6 [0, 0, 0, 0, 0, 0xFFFF, 0xA00, 1]) []"
  have ip: "ip_address ''::ffff:10.0.0.1'' = Some ?ip" "\<not> routable ?ip" "ip_address ''8.8.8.8'' = Some (IPv4 (v4 8 8 8 8))" by code_simp+
  have "answered demo_answer ?ip"
    unfolding answered_def by (intro exI [of _ AF_INET6] exI [of _ "''::ffff:10.0.0.1''"]) (simp add: demo_answer_def ip)
  then have "\<exists>infos ip. Some demo_answer = Some infos \<and> answered infos ip \<and> \<not> routable ip" using ip(2) by blast
  from mp [OF conjunct2 [OF only_vetted_dialled [of "\<lambda>_ _. Some demo_answer" "''h''" 443 "\<lambda>ip p t d. (Inr (), d)" "\<lambda>ip p t d. (Inr (), d)" None demo_net]] this]
  have "connect_tcp False (\<lambda>_ _. Some demo_answer) (\<lambda>ip p t d. (Inr (), d)) ''h'' 443 None demo_net =
     (Inl UpstreamError, demo_net\<lparr>nt_reads := 1, nt_connections := [''rejected'']\<rparr>)" by (simp add: demo_net_def)
  moreover have "x = IPv4 (v4 8 8 8 8)" if "answered [(AF_INET, ''8.8.8.8'')] x" for x
    using that ip(3) by (simp add: answered_def)
  then have "connect_tcp False (\<lambda>_ _. Some [(AF_INET, ''8.8.8.8'')]) (\<lambda>ip p t d. (Inr ip, d)) ''h'' 443 None demo_net =
     connect_tcp False (\<lambda>_ _. Some [(AF_INET, ''8.8.8.8'')])
       (\<lambda>ip p t d. if ip = IPv4 (v4 8 8 8 8) then (Inr ip, d) else (Inl DialOther, d)) ''h'' 443 None demo_net"
    by (intro conjunct1 [OF only_vetted_dialled]) auto
  ultimately show ?thesis by blast
qed

end
