(* ===== verification/Rules.thy ===== *)
theory Rules
  imports Py_Url Transport
begin

text \<open>
  Which URLs the fetcher caches and under which name: \<^verbatim>\<open>fetcher_service/normalize.py\<close>,
  \<^verbatim>\<open>fetcher_service/rules.py\<close> and the loader \<^verbatim>\<open>fetcher_service/config.py\<close>. The regular expressions of
  configured rules are Python's and are given by what compiling them yields.
\<close>

section \<open>Normalisation\<close>

record normalized_url =
  n_scheme :: string
  n_host :: string
  n_port :: "int option"
  n_path :: string
  n_query :: string

definition default_port :: "string \<Rightarrow> int option" where
  "default_port scheme = (if scheme = ''http'' then Some 80 else if scheme = ''https'' then Some 443 else None)"

definition rstrip_char :: "char \<Rightarrow> string \<Rightarrow> string" where
  "rstrip_char c s = rev (dropWhile (\<lambda>x. x = c) (rev s))"

definition normalize_url :: "string \<Rightarrow> fetch_error + normalized_url" where
  "normalize_url raw =
     bind_result (guard_result (py_strip raw \<noteq> []) InvalidUrl) (\<lambda>_.
     case urlsplit (py_strip raw) of
       None \<Rightarrow> Inl PlainValueError
     | Some parts \<Rightarrow>
         (let scheme = py_lower (u_scheme parts) in
          bind_result (guard_result (scheme \<in> {''http'', ''https''}) InvalidUrl) (\<lambda>_.
          case url_hostname parts of
            None \<Rightarrow> Inl InvalidUrl
          | Some hostname \<Rightarrow>
              bind_result (guard_result (hostname \<noteq> []) InvalidUrl) (\<lambda>_.
              case url_port parts of
                None \<Rightarrow> Inl PlainValueError
              | Some port \<Rightarrow>
                  (case unquote (u_path parts) of
                     None \<Rightarrow> Inl UnmodelledText
                   | Some decoded \<Rightarrow>
                       (let path = (if decoded = [] then ''/'' else decoded);
                            path' = (if 1 < length path \<and> last path = slash then rstrip_char slash path else path) in
                        Inr \<lparr>n_scheme = scheme, n_host = py_lower hostname,
                             n_port = (if port \<noteq> None \<and> default_port scheme = port then None else port),
                             n_path = path', n_query = u_query parts\<rparr>))))))"

definition canonical_url :: "normalized_url \<Rightarrow> string" where
  "canonical_url u =
     (let authority = (case n_port u of None \<Rightarrow> n_host u | Some p \<Rightarrow> n_host u @ '':'' @ int_str p);
          base = n_scheme u @ ''://'' @ authority @ n_path u in
      if n_query u \<noteq> [] then base @ ''?'' @ n_query u else base)"

definition path_segments :: "normalized_url \<Rightarrow> string list" where
  "path_segments u = filter (\<lambda>seg. seg \<noteq> []) (split_on slash (n_path u))"

section \<open>Rules\<close>

record rule_match =
  rm_mirror_id :: string
  rm_aliases :: "string list"

definition primary_alias :: "rule_match \<Rightarrow> string" where
  "primary_alias m = hd (rm_aliases m)"

definition host_matches :: "normalized_url \<Rightarrow> string \<Rightarrow> bool" where
  "host_matches u host \<longleftrightarrow> n_host u = host \<or> suffix (CHR ''.'' # host) (n_host u)"

definition normalize_rotation :: "string \<Rightarrow> string" where
  "normalize_rotation rotation =
     (let mirrored = (take 1 rotation = ''!''); body = (if mirrored then tl rotation else rotation) in
      case py_int_parse body of
        None \<Rightarrow> rotation
      | Some v \<Rightarrow> (if mirrored then ''!'' else []) @ int_str v)"

definition iiif_quality :: "string \<Rightarrow> string" where
  "iiif_quality quality = (if quality = ''native'' then ''default'' else quality)"

definition iiif_match :: "string \<Rightarrow> string \<Rightarrow> string list \<Rightarrow> normalized_url \<Rightarrow> rule_match option" where
  "iiif_match host mirror_id path_prefix u =
     (let all_segments = path_segments u; segments = drop (length path_prefix) all_segments; n = length segments in
      if \<not> host_matches u host \<or> take (length path_prefix) all_segments \<noteq> path_prefix \<or> n < 5
      then None
      else
        (let quality_format = segments ! (n - 1) in
         if CHR ''.'' \<notin> set quality_format then None
         else
           (let fmt = rev (takeWhile (\<lambda>c. c \<noteq> CHR ''.'') (rev quality_format));
                quality = take (length quality_format - length fmt - 1) quality_format;
                rotation = segments ! (n - 2); sz = segments ! (n - 3); region = segments ! (n - 4);
                resource_id = join_with slash (take (n - 4) segments) in
            if resource_id = [] then None
            else Some \<lparr>rm_mirror_id = mirror_id,
              rm_aliases = [''iiif/'' @ resource_id @ ''/'' @ py_lower region @ ''/'' @ py_lower sz @ ''/'' @
                normalize_rotation rotation @ ''/'' @ iiif_quality (py_lower quality) @ ''.'' @ py_lower fmt]\<rparr>)))"

definition with_query :: "string \<Rightarrow> normalized_url \<Rightarrow> string" where
  "with_query tail u = (if n_query u \<noteq> [] then tail @ ''?'' @ n_query u else tail)"

definition passthrough_match :: "string \<Rightarrow> string \<Rightarrow> normalized_url \<Rightarrow> rule_match option" where
  "passthrough_match host mirror_id u =
     (if \<not> host_matches u host \<or> path_segments u = [] then None
      else Some \<lparr>rm_mirror_id = mirror_id, rm_aliases = [with_query (join_with slash (path_segments u)) u]\<rparr>)"

text \<open>
  A compiled pattern: the names of its groups and \<open>fullmatch\<close>, which yields the text of every
  group (\<open>None\<close> for one that took no part). A template is a list of literals and group names.
\<close>

record compiled =
  re_groups :: "string list"
  re_fullmatch :: "string \<Rightarrow> (string \<rightharpoonup> string option) option"

datatype piece = Lit string | Field string

text \<open>A field without a name is a positional one, and \<open>format\<close> is given no positional arguments.\<close>

fun format_pieces :: "(string \<rightharpoonup> string option) \<Rightarrow> piece list \<Rightarrow> fetch_error + string" where
  "format_pieces groups [] = Inr []"
| "format_pieces groups (Lit s # ps) = bind_result (format_pieces groups ps) (\<lambda>t. Inr (s @ t))"
| "format_pieces groups (Field f # ps) =
     (case groups f of
        None \<Rightarrow> Inl OtherException
      | Some v \<Rightarrow> bind_result (format_pieces groups ps) (\<lambda>t. Inr ((case v of None \<Rightarrow> ''None'' | Some s \<Rightarrow> s) @ t)))"

definition regex_match :: "string \<Rightarrow> string \<Rightarrow> compiled \<Rightarrow> piece list \<Rightarrow> normalized_url \<Rightarrow> fetch_error + rule_match option" where
  "regex_match host mirror_id pattern alias_template u =
     (if \<not> host_matches u host then Inr None
      else (case re_fullmatch pattern (join_with slash (path_segments u)) of
              None \<Rightarrow> Inr None
            | Some groups \<Rightarrow>
                bind_result (format_pieces groups alias_template) (\<lambda>tail.
                Inr (Some \<lparr>rm_mirror_id = mirror_id, rm_aliases = [with_query tail u]\<rparr>))))"

datatype cache_rule =
    IIIFImageRule string string "string list"
  | HostPassthroughRule string string
  | RegexRule string string compiled "piece list"

fun rule_matches :: "cache_rule \<Rightarrow> normalized_url \<Rightarrow> fetch_error + rule_match option" where
  "rule_matches (IIIFImageRule host mirror_id path_prefix) u = Inr (iiif_match host mirror_id path_prefix u)"
| "rule_matches (HostPassthroughRule host mirror_id) u = Inr (passthrough_match host mirror_id u)"
| "rule_matches (RegexRule host mirror_id pattern alias_template) u = regex_match host mirror_id pattern alias_template u"

fun evaluate_rules :: "cache_rule list \<Rightarrow> normalized_url \<Rightarrow> fetch_error + rule_match option" where
  "evaluate_rules [] u = Inr None"
| "evaluate_rules (rule # rules) u =
     bind_result (rule_matches rule u) (\<lambda>found.
     case found of None \<Rightarrow> evaluate_rules rules u | Some m \<Rightarrow> Inr (Some m))"

definition default_rule_set :: "cache_rule list" where
  "default_rule_set =
     [IIIFImageRule ''gallica.bnf.fr'' ''gallica'' [''iiif''], HostPassthroughRule ''images.example.org'' ''example'']"

section \<open>Configuration\<close>

text \<open>A parsed TOML value; \<open>TOther\<close> is a number, boolean, date or the like.\<close>

datatype toml = TString string | TArray "toml list" | TTable "(string, toml) dict" | TOther

text \<open>\<open>UnmodelledTemplate\<close> stands for going on with a template that uses conversions or format specifications.\<close>

datatype config_error = RuleConfigError | UnmodelledTemplate

definition require_str :: "(string, toml) dict \<Rightarrow> string \<Rightarrow> config_error + string" where
  "require_str rule key =
     (case map_of rule key of Some (TString (c # cs)) \<Rightarrow> Inr (c # cs) | _ \<Rightarrow> Inl RuleConfigError)"

text \<open>A search for \<open>\\[1-9]|\\g<|\(\?<?[=!]\<close>.\<close>

fun unsafe_regex :: "string \<Rightarrow> bool" where
  "unsafe_regex [] = False"
| "unsafe_regex (c # cs) =
     ((case c # cs of
         a # b # rest \<Rightarrow>
           a = CHR 0x5C \<and> (b \<in> set ''123456789'' \<or> b = CHR ''g'' \<and> take 1 rest = ''<'') \<or>
           a = CHR ''('' \<and> b = CHR ''?'' \<and>
             (let r = (if take 1 rest = ''<'' then tl rest else rest) in
              (rest \<noteq> [] \<and> hd rest \<in> set ''=!'') \<or> (r \<noteq> [] \<and> hd r \<in> set ''=!''))
       | _ \<Rightarrow> False) \<or> unsafe_regex cs)"

text \<open>
  \<open>Formatter.parse\<close>: doubled braces are literal ones and a field ends at its brace. What has an index in
  brackets is malformed or no name of a group; either is a configuration error.
\<close>

function parse_template :: "string \<Rightarrow> config_error + piece list" where
  "parse_template [] = Inr []"
| "parse_template (c # cs) =
     (if c = CHR ''{'' then
        (if take 1 cs = ''{'' then bind_result (parse_template (tl cs)) (\<lambda>ps. Inr (Lit ''{'' # ps))
         else
           (case dropWhile (\<lambda>x. x \<notin> set ''{}!:['') cs of
              [] \<Rightarrow> Inl RuleConfigError
            | x # rest \<Rightarrow>
                if x = CHR ''}'' then
                  bind_result (parse_template rest) (\<lambda>ps. Inr (Field (takeWhile (\<lambda>x. x \<notin> set ''{}!:['') cs) # ps))
                else Inl (if x \<in> set ''!:'' then UnmodelledTemplate else RuleConfigError)))
      else if c = CHR ''}'' then
        (if take 1 cs = ''}'' then bind_result (parse_template (tl cs)) (\<lambda>ps. Inr (Lit ''}'' # ps))
         else Inl RuleConfigError)
      else bind_result (parse_template cs) (\<lambda>ps. Inr (Lit [c] # ps)))"
  by pat_completeness auto
termination
proof (relation "measure length")
  fix cs :: string and x rest
  assume "dropWhile (\<lambda>x. x \<notin> set ''{}!:['') cs = x # rest"
  then have "length rest < length cs" using length_dropWhile_le [of "\<lambda>x. x \<notin> set ''{}!:[''" cs] by simp
  then show "(rest, c # cs) \<in> measure length" for c by simp
qed auto

fun piece_field :: "piece \<Rightarrow> string list" where
  "piece_field (Lit s) = []"
| "piece_field (Field f) = (if f = [] then [] else [f])"

definition template_fields :: "piece list \<Rightarrow> string list" where
  "template_fields pieces = concat (map piece_field pieces)"

text \<open>\<open>re.compile\<close> is a parameter, \<open>None\<close> for an invalid pattern.\<close>

definition build_regex_rule :: "(string \<Rightarrow> compiled option) \<Rightarrow> (string, toml) dict \<Rightarrow> config_error + cache_rule" where
  "build_regex_rule compile rule =
     bind_result (require_str rule ''host'') (\<lambda>host.
     bind_result (require_str rule ''mirror_id'') (\<lambda>mirror_id.
     bind_result (require_str rule ''path_match'') (\<lambda>path_match.
     bind_result (require_str rule ''alias_template'') (\<lambda>alias_template.
     bind_result (guard_result (\<not> unsafe_regex path_match) RuleConfigError) (\<lambda>_.
     case compile path_match of
       None \<Rightarrow> Inl RuleConfigError
     | Some pattern \<Rightarrow>
         bind_result (parse_template alias_template) (\<lambda>pieces.
         bind_result (guard_result (set (template_fields pieces) \<subseteq> set (re_groups pattern)) RuleConfigError) (\<lambda>_.
         Inr (RegexRule host mirror_id pattern pieces))))))))"

fun toml_strings :: "toml list \<Rightarrow> string list option" where
  "toml_strings [] = Some []"
| "toml_strings (TString s # ts) = map_option (Cons s) (toml_strings ts)"
| "toml_strings (_ # ts) = None"

definition build_rule :: "(string \<Rightarrow> compiled option) \<Rightarrow> (string, toml) dict \<Rightarrow> config_error + cache_rule" where
  "build_rule compile rule =
     (case map_of rule ''type'' of
        Some (TString rule_type) \<Rightarrow>
          if rule_type = ''iiif'' then
            bind_result (require_str rule ''host'') (\<lambda>host.
            bind_result (require_str rule ''mirror_id'') (\<lambda>mirror_id.
            case map_of rule ''path_prefix'' of
              None \<Rightarrow> Inr (IIIFImageRule host mirror_id [''iiif''])
            | Some (TArray segs) \<Rightarrow>
                (case toml_strings segs of None \<Rightarrow> Inl RuleConfigError | Some path_prefix \<Rightarrow> Inr (IIIFImageRule host mirror_id path_prefix))
            | Some _ \<Rightarrow> Inl RuleConfigError))
          else if rule_type = ''passthrough'' then
            bind_result (require_str rule ''host'') (\<lambda>host.
            bind_result (require_str rule ''mirror_id'') (\<lambda>mirror_id. Inr (HostPassthroughRule host mirror_id)))
          else if rule_type = ''regex'' then build_regex_rule compile rule
          else Inl RuleConfigError
      | _ \<Rightarrow> Inl RuleConfigError)"

fun build_rules :: "(string \<Rightarrow> compiled option) \<Rightarrow> toml list \<Rightarrow> config_error + cache_rule list" where
  "build_rules compile [] = Inr []"
| "build_rules compile (TTable rule # raw_rules) =
     bind_result (build_rule compile rule) (\<lambda>r. bind_result (build_rules compile raw_rules) (\<lambda>rs. Inr (r # rs)))"
| "build_rules compile (_ # raw_rules) = Inl RuleConfigError"

text \<open>The document is what \<open>tomllib\<close> makes of the text, \<open>None\<close> when it does not parse.\<close>

definition load_rule_set :: "(string \<Rightarrow> compiled option) \<Rightarrow> (string, toml) dict option \<Rightarrow> config_error + cache_rule list" where
  "load_rule_set compile document =
     (case document of
        None \<Rightarrow> Inl RuleConfigError
      | Some doc \<Rightarrow>
          (case map_of doc ''rule'' of
             None \<Rightarrow> Inr []
           | Some (TArray raw_rules) \<Rightarrow> build_rules compile raw_rules
           | Some _ \<Rightarrow> Inl RuleConfigError))"

end
