(* ===== verification/Fetch.thy ===== *)
theory Fetch
  imports Rules Models
begin

text \<open>
  Fetching a URL, \<^verbatim>\<open>fetcher_service/fetcher.py\<close>: the offline stub and the HTTP fetcher with its
  redirect cap, body cap and per-hop checks. The HTTP client (\<open>httpx\<close>) and the name service are
  parameters.
\<close>

section \<open>Content\<close>

record fetched_content =
  fc_data :: bytes
  fc_mime :: string

definition DEFAULT_MIME :: string where "DEFAULT_MIME = ''application/octet-stream''"

section \<open>The offline stub\<close>

text \<open>A string as \<open>json.dumps\<close> writes it, and the time as \<open>isoformat\<close> does.\<close>

definition hex_digit :: "int \<Rightarrow> char" where
  "hex_digit n = ''0123456789abcdef'' ! nat n"

definition json_char :: "char \<Rightarrow> string" where
  "json_char c =
     (let n = of_char c :: int in
      if c = CHR 0x22 \<or> c = CHR 0x5C then [CHR 0x5C, c]
      else if n = 8 then [CHR 0x5C, CHR ''b'']
      else if n = 9 then [CHR 0x5C, CHR ''t'']
      else if n = 10 then [CHR 0x5C, CHR ''n'']
      else if n = 12 then [CHR 0x5C, CHR ''f'']
      else if n = 13 then [CHR 0x5C, CHR ''r'']
      else if 32 \<le> n \<and> n \<le> 126 then [c]
      else [CHR 0x5C, CHR ''u'', CHR ''0'', CHR ''0'', hex_digit (n div 16), hex_digit (n mod 16)])"

definition json_string :: "string \<Rightarrow> string" where
  "json_string s = [CHR 0x22] @ concat (map json_char s) @ [CHR 0x22]"

definition isoformat :: "int \<Rightarrow> string" where
  "isoformat t = map (\<lambda>c. if c = CHR '' '' then CHR ''T'' else c) (datetime_str t)"

definition synthetic_fetch :: "int \<Rightarrow> string \<Rightarrow> fetched_content" where
  "synthetic_fetch now url =
     (let content_id = sha256_hex (utf8_encode url) in
      \<lparr>fc_data = utf8_encode (''{'' @ json_string ''content_id'' @ '': '' @ json_string content_id @ '', '' @
         json_string ''fetched_at'' @ '': '' @ json_string (isoformat now) @ '', '' @
         json_string ''stub'' @ '': true, '' @ json_string ''url'' @ '': '' @ json_string url @ ''}''),
       fc_mime = ''application/json''\<rparr>)"

section \<open>The HTTP fetcher\<close>

text \<open>
  A response of the client, with the body in the chunks it arrives in and the error that may cut it
  short; \<open>None\<close> is an absent header. \<open>hr_is_redirect\<close> is what the client says of the status.
\<close>

record http_response =
  hr_status :: int
  hr_is_redirect :: bool
  hr_location :: "string option"
  hr_content_type :: "string option"
  hr_chunks :: "bytes list"
  hr_broken :: "fetch_error option"

text \<open>The network: name resolution, and a GET without following redirects.\<close>

record 'd http_client =
  hc_getaddrinfo :: "string \<Rightarrow> int \<Rightarrow> 'd \<Rightarrow> (family \<times> string) list option \<times> 'd"
  hc_stream :: "string \<Rightarrow> 'd \<Rightarrow> (fetch_error + http_response) \<times> 'd"

record http_config =
  hf_connect_timeout :: float_text
  hf_read_timeout :: float_text
  hf_max_bytes :: int
  hf_max_redirects :: int
  hf_allow_private_hosts :: bool

definition assert_host_allowed :: "http_config \<Rightarrow> 'd http_client \<Rightarrow> string \<Rightarrow> (fetch_error, 'd, unit) eop" where
  "assert_host_allowed cfg client host d =
     (case hc_getaddrinfo client host 443 d of (answer, d') \<Rightarrow>
      (bind_result (resolve_allowed (hf_allow_private_hosts cfg) answer) (\<lambda>_. Inr ()), d'))"

definition validate_hop :: "http_config \<Rightarrow> 'd http_client \<Rightarrow> string \<Rightarrow> (fetch_error, 'd, unit) eop" where
  "validate_hop cfg client url =
     (case urlsplit url of
        None \<Rightarrow> raise PlainValueError
      | Some parts \<Rightarrow>
          seq_op (check (py_lower (u_scheme parts) \<in> {''http'', ''https''}) UpstreamError)
          (case url_hostname parts of
             None \<Rightarrow> raise UpstreamError
           | Some host \<Rightarrow> seq_op (check (host \<noteq> []) UpstreamError) (assert_host_allowed cfg client host)))"

fun read_chunks :: "int \<Rightarrow> int \<Rightarrow> bytes list \<Rightarrow> bytes list \<Rightarrow> fetch_error option \<Rightarrow> fetch_error + bytes" where
  "read_chunks max_bytes count chunks [] broken = (case broken of None \<Rightarrow> Inr (concat chunks) | Some e \<Rightarrow> Inl e)"
| "read_chunks max_bytes count chunks (chunk # rest) broken =
     (if count + int (length chunk) > max_bytes then Inl UpstreamError
      else read_chunks max_bytes (count + int (length chunk)) (chunks @ [chunk]) rest broken)"

definition read_capped :: "http_config \<Rightarrow> http_response \<Rightarrow> fetch_error + bytes" where
  "read_capped cfg r = read_chunks (hf_max_bytes cfg) 0 [] (hr_chunks r) (hr_broken r)"

definition mime_of :: "http_response \<Rightarrow> string" where
  "mime_of r =
     (let content_type = (case hr_content_type r of None \<Rightarrow> DEFAULT_MIME | Some t \<Rightarrow> t);
          mime = py_strip (fst (py_partition (CHR '';'') content_type)) in
      if mime = [] then DEFAULT_MIME else mime)"

text \<open>What one response means: the next URL, or the content.\<close>

definition hop_outcome :: "http_config \<Rightarrow> string \<Rightarrow> http_response \<Rightarrow> fetch_error + (string + fetched_content)" where
  "hop_outcome cfg current r =
     (if hr_is_redirect r then
        (case hr_location r of
           Some (c # cs) \<Rightarrow> (case urljoin current (c # cs) of None \<Rightarrow> Inl PlainValueError | Some next_url \<Rightarrow> Inr (Inl next_url))
         | _ \<Rightarrow> Inl UpstreamError)
      else if hr_status r \<ge> 400 then Inl UpstreamError
      else bind_result (read_capped cfg r) (\<lambda>data. Inr (Inr \<lparr>fc_data = data, fc_mime = mime_of r\<rparr>)))"

definition upstream_error :: "fetch_error \<Rightarrow> fetch_error" where
  "upstream_error e =
     (case e of
        HttpTimeout \<Rightarrow> UpstreamTimeoutError | ConnectTimeout \<Rightarrow> UpstreamTimeoutError
      | HttpError \<Rightarrow> UpstreamError | ConnectError \<Rightarrow> UpstreamError
      | _ \<Rightarrow> e)"

definition hop :: "http_config \<Rightarrow> 'd http_client \<Rightarrow> string \<Rightarrow> (fetch_error, 'd, string + fetched_content) eop" where
  "hop cfg client current =
     try_op (bind_op (hc_stream client current) (\<lambda>r. of_result (hop_outcome cfg current r))) (\<lambda>e. raise (upstream_error e))"

text \<open>The loop runs over a range of hops, so its length is a number.\<close>

fun fetch_hops ::
  "http_config \<Rightarrow> 'd http_client \<Rightarrow> (string \<Rightarrow> fetch_error + 'v) \<Rightarrow> nat \<Rightarrow> string \<Rightarrow> (fetch_error, 'd, fetched_content) eop" where
  "fetch_hops cfg client validate 0 current = raise UpstreamError"
| "fetch_hops cfg client validate (Suc n) current =
     seq_op (of_result (validate current)) (
     seq_op (validate_hop cfg client current) (
     bind_op (hop cfg client current) (\<lambda>outcome.
     case outcome of Inl next_url \<Rightarrow> fetch_hops cfg client validate n next_url | Inr content \<Rightarrow> ret content)))"

definition fetch_with_policy ::
  "http_config \<Rightarrow> 'd http_client \<Rightarrow> string \<Rightarrow> (string \<Rightarrow> fetch_error + 'v) \<Rightarrow> (fetch_error, 'd, fetched_content) eop" where
  "fetch_with_policy cfg client url validate = fetch_hops cfg client validate (nat (hf_max_redirects cfg + 1)) url"

definition http_fetch :: "http_config \<Rightarrow> 'd http_client \<Rightarrow> string \<Rightarrow> (fetch_error, 'd, fetched_content) eop" where
  "http_fetch cfg client url = fetch_with_policy cfg client url (\<lambda>_. Inr ())"

section \<open>Configuration\<close>

text \<open>The environment as a map, with what \<open>float\<close> makes of a text; an empty variable counts as unset.\<close>

definition env_float :: "(string \<Rightarrow> float_text) \<Rightarrow> (string \<rightharpoonup> string) \<Rightarrow> string \<Rightarrow> rat \<Rightarrow> fetch_error + float_text" where
  "env_float py_float env name dflt =
     (case env name of
        Some (c # cs) \<Rightarrow> (case py_float (c # cs) of FloatInvalid \<Rightarrow> Inl PlainValueError | x \<Rightarrow> Inr x)
      | _ \<Rightarrow> Inr (FloatValue dflt))"

definition env_int :: "(string \<rightharpoonup> string) \<Rightarrow> string \<Rightarrow> int \<Rightarrow> fetch_error + int" where
  "env_int env name dflt =
     (case env name of
        Some (c # cs) \<Rightarrow> (case py_int_parse (c # cs) of None \<Rightarrow> Inl PlainValueError | Some n \<Rightarrow> Inr n)
      | _ \<Rightarrow> Inr dflt)"

definition env_flag :: "(string \<rightharpoonup> string) \<Rightarrow> string \<Rightarrow> bool" where
  "env_flag env name \<longleftrightarrow> py_lower (case env name of None \<Rightarrow> [] | Some s \<Rightarrow> s) \<in> {''1'', ''true'', ''yes''}"

definition http_fetcher_from_env :: "(string \<Rightarrow> float_text) \<Rightarrow> (string \<rightharpoonup> string) \<Rightarrow> fetch_error + http_config" where
  "http_fetcher_from_env py_float env =
     bind_result (env_float py_float env ''FETCHER_HTTP_CONNECT_TIMEOUT'' 5) (\<lambda>connect_timeout.
     bind_result (env_float py_float env ''FETCHER_HTTP_READ_TIMEOUT'' 30) (\<lambda>read_timeout.
     bind_result (env_int env ''FETCHER_HTTP_MAX_BYTES'' (50 * 1024 * 1024)) (\<lambda>max_bytes.
     bind_result (env_int env ''FETCHER_HTTP_MAX_REDIRECTS'' 5) (\<lambda>max_redirects.
     Inr \<lparr>hf_connect_timeout = connect_timeout, hf_read_timeout = read_timeout, hf_max_bytes = max_bytes,
       hf_max_redirects = max_redirects, hf_allow_private_hosts = env_flag env ''FETCHER_ALLOW_PRIVATE_HOSTS''\<rparr>))))"

section \<open>What a fetch does on the network\<close>

text \<open>A client that writes down what it is asked and what the name service answers.\<close>

datatype net_event = Looked string "(family \<times> string) list option" | Requested string "fetch_error + http_response"

definition logged :: "'d http_client \<Rightarrow> ('d \<times> net_event list) http_client" where
  "logged client =
     \<lparr>hc_getaddrinfo = (\<lambda>host port (d, evs).
        case hc_getaddrinfo client host port d of (answer, d') \<Rightarrow> (answer, (d', evs @ [Looked host answer]))),
      hc_stream = (\<lambda>url (d, evs). case hc_stream client url d of (r, d') \<Rightarrow> (r, (d', evs @ [Requested url r])))\<rparr>"

text \<open>
  A URL may be requested when the caller's policy admits it, its scheme is HTTP and the addresses of its
  host, looked up just before, are all allowed.
\<close>

definition may_request ::
  "http_config \<Rightarrow> (string \<Rightarrow> fetch_error + 'v) \<Rightarrow> string \<Rightarrow> string \<Rightarrow> (family \<times> string) list option \<Rightarrow> bool" where
  "may_request cfg validate url host answer \<longleftrightarrow>
     is_ok (validate url) \<and> is_ok (resolve_allowed (hf_allow_private_hosts cfg) answer) \<and>
     (\<exists>parts. urlsplit url = Some parts \<and> py_lower (u_scheme parts) \<in> {''http'', ''https''} \<and> url_hostname parts = Some host)"

text \<open>
  The events of a fetch of a URL in at most \<open>n\<close> rounds: a look-up, then the request, and further
  rounds only for the URL that a redirection names.
\<close>

fun disciplined :: "http_config \<Rightarrow> (string \<Rightarrow> fetch_error + 'v) \<Rightarrow> nat \<Rightarrow> string \<Rightarrow> net_event list \<Rightarrow> bool" where
  "disciplined cfg validate n url [] = True"
| "disciplined cfg validate (Suc n) url [Looked host answer] = True"
| "disciplined cfg validate (Suc n) url (Looked host answer # Requested u r # evs) =
     (u = url \<and> may_request cfg validate url host answer \<and>
      (evs = [] \<or>
       (case r of
          Inl _ \<Rightarrow> False
        | Inr resp \<Rightarrow> hr_is_redirect resp \<and>
            (case hr_location resp of
               None \<Rightarrow> False
             | Some location \<Rightarrow>
                 (case urljoin url location of None \<Rightarrow> False | Some next_url \<Rightarrow> disciplined cfg validate n next_url evs)))))"
| "disciplined cfg validate n url evs = False"

text \<open>The content is the whole body of the last response, within the limit.\<close>

definition content_of :: "http_config \<Rightarrow> net_event list \<Rightarrow> fetched_content \<Rightarrow> bool" where
  "content_of cfg evs c \<longleftrightarrow>
     (\<exists>pre url resp. evs = pre @ [Requested url (Inr resp)] \<and> \<not> hr_is_redirect resp \<and> hr_status resp < 400 \<and>
        hr_broken resp = None \<and> fc_data c = concat (hr_chunks resp) \<and> fc_mime c \<noteq> [] \<and>
        int (length (fc_data c)) \<le> max 0 (hf_max_bytes cfg))"

lemma wp_validate_hop:
  "wp (validate_hop cfg (logged client) url)
     (\<lambda>_ s. \<exists>d' host answer. s = (d', evs @ [Looked host answer]) \<and> (is_ok (validate url) \<longrightarrow> may_request cfg validate url host answer))
     (\<lambda>_ s. \<exists>d' new. s = (d', evs @ new) \<and> (\<forall>n. disciplined cfg validate (Suc n) url new)) (d, evs)"
proof (cases "urlsplit url")
  case None
  then show ?thesis by (auto simp: validate_hop_def wp_simps)
next
  case (Some parts)
  have "wp (assert_host_allowed cfg (logged client) host)
     (\<lambda>_ s. \<exists>d' answer. s = (d', evs @ [Looked host answer]) \<and> is_ok (resolve_allowed (hf_allow_private_hosts cfg) answer))
     (\<lambda>_ s. \<exists>d' answer. s = (d', evs @ [Looked host answer])) (d, evs)" for host
    by (auto simp: wp_def assert_host_allowed_def logged_def bind_result_def is_ok_def split: prod.splits sum.splits)
  note lookup = this [THEN wp_mono]
  show ?thesis
    unfolding validate_hop_def Some
    by (auto simp: wp_simps Some may_request_def split: option.split intro!: lookup)
qed

lemma read_chunks_ok:
  "read_chunks m count chunks rest broken = Inr data \<Longrightarrow> count = int (length (concat chunks)) \<Longrightarrow> count \<le> max 0 m \<Longrightarrow>
   broken = None \<and> data = concat (chunks @ rest) \<and> int (length data) \<le> max 0 m"
  by (induction m count chunks rest broken rule: read_chunks.induct) (auto split: option.splits if_splits)

lemma mime_of_ne: "mime_of r \<noteq> []"
  by (simp add: mime_of_def Let_def DEFAULT_MIME_def)

text \<open>What the outcomes of a hop say of its response.\<close>

lemma hop_content: "hop_outcome cfg url r = Inr (Inr c) \<Longrightarrow> content_of cfg (evs @ [Requested u (Inr r)]) c"
  using read_chunks_ok [of "hf_max_bytes cfg" 0 "[]" "hr_chunks r" "hr_broken r"] mime_of_ne
  by (auto simp: hop_outcome_def read_capped_def bind_result_Inr content_of_def split: if_splits option.splits list.splits)

lemma hop_redirect:
  "hop_outcome cfg url r = Inr (Inl next_url) \<Longrightarrow>
   hr_is_redirect r \<and> (\<exists>location. hr_location r = Some location \<and> urljoin url location = Some next_url)"
  by (auto simp: hop_outcome_def bind_result_Inr split: if_splits option.splits list.splits)

lemma wp_hop:
  "wp (hop cfg (logged client) url)
     (\<lambda>x s. \<exists>d' resp. s = (d', evs @ [Requested url (Inr resp)]) \<and> hop_outcome cfg url resp = Inr x)
     (\<lambda>_ s. \<exists>d' r. s = (d', evs @ [Requested url r])) (d, evs)"
proof -
  have "wp (hc_stream (logged client) url) (\<lambda>resp s. \<exists>d'. s = (d', evs @ [Requested url (Inr resp)]))
      (\<lambda>_ s. \<exists>d' r. s = (d', evs @ [Requested url r])) (d, evs)"
    by (auto simp: wp_def logged_def split: prod.splits sum.splits)
  then show ?thesis
    unfolding hop_def wp_try wp_bind wp_of_result wp_raise
    by (rule wp_mono) (auto split: sum.split)
qed

lemma wp_fetch_hops:
  "wp (fetch_hops cfg (logged client) validate n url)
     (\<lambda>c s. \<exists>d' new. s = (d', evs @ new) \<and> disciplined cfg validate n url new \<and> content_of cfg new c)
     (\<lambda>_ s. \<exists>d' new. s = (d', evs @ new) \<and> disciplined cfg validate n url new) (d, evs)"
proof (induction n arbitrary: url d evs)
  case 0
  show ?case by (simp add: wp_simps)
next
  case (Suc n)
  show ?case
  proof (cases "validate url")
    case (Inl e)
    then show ?thesis by (simp add: wp_simps)
  next
    case (Inr v)
    show ?thesis
      unfolding fetch_hops.simps wp_seq wp_bind wp_of_result Inr sum.case
    proof (rule wp_mono [OF wp_validate_hop [where validate = validate]], goal_cases)
      case (1 u s)
      then obtain d' host answer where s: "s = (d', evs @ [Looked host answer])" and may: "may_request cfg validate url host answer"
        using Inr by auto
      show ?case
        unfolding s
      proof (rule wp_mono [OF wp_hop], goal_cases)
        case (1 x t)
        then obtain d'' resp where t: "t = (d'', evs @ [Looked host answer, Requested url (Inr resp)])"
          and out: "hop_outcome cfg url resp = Inr x" by auto
        show ?case
        proof (cases x)
          case (Inl next_url)
          have more: "disciplined cfg validate (Suc n) url ([Looked host answer, Requested url (Inr resp)] @ new)"
            if "disciplined cfg validate n next_url new" for new
            using that hop_redirect [OF out [unfolded Inl]] may by auto
          have content: "content_of cfg ([Looked host answer, Requested url (Inr resp)] @ new) c" if "content_of cfg new c" for new c
            using that unfolding content_of_def by (metis append.assoc)
          show ?thesis
            unfolding Inl sum.case t
            by (rule wp_mono [OF Suc.IH]) (use more content in \<open>metis append.assoc\<close>)+
        next
          case (Inr c)
          have "content_of cfg [Looked host answer, Requested url (Inr resp)] c"
            using hop_content [OF out [unfolded Inr], of "[Looked host answer]"] by simp
          then show ?thesis using Inr may t by (simp add: wp_simps)
        qed
      next
        case (2 e t)
        then show ?case using may by auto
      qed
    qed blast
  qed
qed

text \<open>Writing down what happens does not change it.\<close>

definition erases :: "('e, 'd \<times> net_event list, 'a) eop \<Rightarrow> ('e, 'd, 'a) eop \<Rightarrow> bool" where
  "erases m' m \<longleftrightarrow> (\<forall>d evs. \<exists>evs'. m' (d, evs) = (fst (m d), (snd (m d), evs')))"

lemma erases_basic: "erases (ret a) (ret a)" "erases (raise e) (raise e)" "erases (check b e) (check b e)" "erases (of_result r) (of_result r)"
  by (simp_all add: erases_def ret_def raise_def check_def of_result_def)

lemma erasesD: "erases m' m \<Longrightarrow> m d = (r, d') \<Longrightarrow> \<exists>evs'. m' (d, evs) = (r, (d', evs'))"
  unfolding erases_def by (metis fst_conv snd_conv)

lemma erasesI: "(\<And>d evs r d'. m d = (r, d') \<Longrightarrow> \<exists>evs'. m' (d, evs) = (r, (d', evs'))) \<Longrightarrow> erases m' m"
  unfolding erases_def by (metis prod.collapse)

lemma erases_bind:
  assumes "erases m' m" and "\<And>a. erases (f' a) (f a)"
  shows "erases (bind_op m' f') (bind_op m f)"
proof (rule erasesI)
  fix d evs r d' assume b: "bind_op m f d = (r, d')"
  obtain q d1 where m: "m d = (q, d1)" by (cases "m d")
  obtain evs1 where m': "m' (d, evs) = (q, (d1, evs1))" using erasesD [OF assms(1) m] by blast
  show "\<exists>evs'. bind_op m' f' (d, evs) = (r, (d', evs'))"
    using b m m' erasesD [OF assms(2)] by (cases q) (auto simp: bind_op_def)
qed

lemma erases_seq: "erases m' m \<Longrightarrow> erases n' n \<Longrightarrow> erases (seq_op m' n') (seq_op m n)"
  unfolding seq_op_def by (rule erases_bind)

lemma erases_try:
  assumes "erases m' m" and "\<And>e. erases (h' e) (h e)"
  shows "erases (try_op m' h') (try_op m h)"
proof (rule erasesI)
  fix d evs r d' assume b: "try_op m h d = (r, d')"
  obtain q d1 where m: "m d = (q, d1)" by (cases "m d")
  obtain evs1 where m': "m' (d, evs) = (q, (d1, evs1))" using erasesD [OF assms(1) m] by blast
  show "\<exists>evs'. try_op m' h' (d, evs) = (r, (d', evs'))"
    using b m m' erasesD [OF assms(2)] by (cases q) (auto simp: try_op_def)
qed

lemma erases_client:
  "erases (assert_host_allowed cfg (logged client) host) (assert_host_allowed cfg client host)"
  "erases (hc_stream (logged client) url) (hc_stream client url)"
  by (auto simp: erases_def assert_host_allowed_def logged_def split: prod.split)

lemmas erases_rules = erases_basic erases_bind erases_seq erases_try erases_client

lemma erases_hops: "erases (fetch_hops cfg (logged client) validate n url) (fetch_hops cfg client validate n url)"
proof (induction n arbitrary: url)
  case (Suc n)
  have "erases (validate_hop cfg (logged client) url) (validate_hop cfg client url)"
    by (auto simp: validate_hop_def split: option.split intro!: erases_rules)
  moreover have "erases (hop cfg (logged client) url) (hop cfg client url)" unfolding hop_def by (intro erases_rules)
  ultimately show ?case using Suc by (auto intro!: erases_rules split: sum.split)
qed (simp add: erases_basic)

text \<open>
  C39: However the network answers (and writing down what happens changes nothing), a fetch comes to an end after at most one request more than the
  redirects it may follow. The first request is for the URL asked for and every further one for the
  URL that the redirection before it names; each is made only when the caller's policy admits the
  URL and its host, looked up just before, has allowed addresses only. Content that is returned is the
  complete body of the last response, not longer than the configured maximum.
\<close>

theorem fetch_disciplined:
  "\<exists>r d' evs. fetch_with_policy cfg client url validate d = (r, d') \<and>
     fetch_with_policy cfg (logged client) url validate (d, []) = (r, (d', evs)) \<and>
     disciplined cfg validate (nat (hf_max_redirects cfg + 1)) url evs \<and>
     (case r of Inl e \<Rightarrow> True | Inr c \<Rightarrow> content_of cfg evs c)"
proof -
  let ?n = "nat (hf_max_redirects cfg + 1)"
  obtain evs where "fetch_hops cfg (logged client) validate ?n url (d, []) =
      (fst (fetch_hops cfg client validate ?n url d), (snd (fetch_hops cfg client validate ?n url d), evs))"
    using erases_hops [of cfg client validate ?n url] unfolding erases_def by blast
  then show ?thesis
    using wp_fetch_hops [of cfg client validate ?n url "[]" d]
    by (auto simp: fetch_with_policy_def wp_def split: prod.splits sum.splits)
qed

end
