(* ===== verification/Store_Client.thy ===== *)
theory Store_Client
  imports Fetch
begin

text \<open>
  The fetcher's client of the asset store, \<^verbatim>\<open>fetcher_service/client.py\<close>. What sends a request and
  returns the reply (\<open>httpx\<close>, the network, the store) is one parameter, the wire.
\<close>

section \<open>Percent-encoding\<close>

definition unreserved :: "char \<Rightarrow> bool" where
  "unreserved c \<longleftrightarrow> is_ascii_alpha c \<or> dec_digit c \<or> c \<in> set ''_.-~''"

definition upper_hex :: "int \<Rightarrow> char" where
  "upper_hex n = ''0123456789ABCDEF'' ! nat n"

definition quote_byte :: "8 word \<Rightarrow> string" where
  "quote_byte b =
     (let c = char_of (uint b) in
      if unreserved c \<or> c = slash then [c] else [CHR ''%'', upper_hex (uint b div 16), upper_hex (uint b mod 16)])"

definition quote :: "string \<Rightarrow> string" where
  "quote s = concat (map quote_byte (utf8_encode s))"

section \<open>Requests and replies\<close>

text \<open>The requests, each with its \<open>Authorization\<close> header.\<close>

datatype store_request =
    GetResolve string string string
  | PostCapability string string string int bool
  | PutObject string string "string option" bytes
  | GetObject string string

text \<open>
  A reply: the JSON document it holds, if it holds one, and the body in chunks with the error that
  may cut it short.
\<close>

record store_reply =
  sr_status :: int
  sr_retry_after :: "string option"
  sr_json :: "json option"
  sr_chunks :: "bytes list"
  sr_broken :: "fetch_error option"

type_synonym 'a wire = "store_request \<Rightarrow> 'a \<Rightarrow> (fetch_error + store_reply) \<times> 'a"

record 'a store_client =
  sc_wire :: "'a wire"
  sc_service_id :: string
  sc_service_secret :: string

section \<open>Values of JSON documents\<close>

text \<open>\<open>document[key]\<close> and \<open>document.get(key)\<close>; both fail on what is no object.\<close>

definition json_item :: "json \<Rightarrow> string \<Rightarrow> fetch_error + json" where
  "json_item doc key =
     (case doc of
        JObject members \<Rightarrow> (case map_of members key of None \<Rightarrow> Inl OtherException | Some v \<Rightarrow> Inr v)
      | _ \<Rightarrow> Inl OtherException)"

definition json_get :: "json \<Rightarrow> string \<Rightarrow> fetch_error + json" where
  "json_get doc key =
     (case doc of
        JObject members \<Rightarrow> Inr (case map_of members key of None \<Rightarrow> JNull | Some v \<Rightarrow> v)
      | _ \<Rightarrow> Inl OtherException)"

section \<open>The client\<close>

definition service_header :: "'a store_client \<Rightarrow> string" where
  "service_header c = ''Service '' @ sc_service_id c @ '':'' @ sc_service_secret c"

definition reply_json :: "store_reply \<Rightarrow> fetch_error + json" where
  "reply_json r = (case sr_json r of None \<Rightarrow> Inl PlainValueError | Some doc \<Rightarrow> Inr doc)"

definition store_error :: "store_reply \<Rightarrow> fetch_error" where
  "store_error r = AssetStoreError (Some (sr_status r)) (sr_retry_after r)"

definition client_resolve :: "'a store_client \<Rightarrow> string \<Rightarrow> string \<Rightarrow> (fetch_error, 'a, json option) eop" where
  "client_resolve c space alias =
     bind_op (sc_wire c (GetResolve (service_header c) space alias)) (\<lambda>r.
     if sr_status r = 200 then bind_op (of_result (reply_json r)) (\<lambda>doc. ret (Some doc))
     else if sr_status r = 404 then ret None
     else raise (store_error r))"

text \<open>A capability id that is no string would be written into a header as Python prints it, which is not modelled.\<close>

definition client_mint :: "'a store_client \<Rightarrow> string \<Rightarrow> string \<Rightarrow> int \<Rightarrow> (fetch_error, 'a, string) eop" where
  "client_mint c operation scope_prefix ttl_seconds =
     bind_op (sc_wire c (PostCapability (service_header c) operation scope_prefix ttl_seconds False)) (\<lambda>r.
     seq_op (check (sr_status r = 201) (store_error r)) (
     bind_op (of_result (reply_json r)) (\<lambda>doc.
     bind_op (of_result (json_item doc ''capability_id'')) (\<lambda>v.
     case v of JString capability_id \<Rightarrow> ret capability_id | _ \<Rightarrow> raise UnmodelledText))))"

definition mint_write_capability :: "'a store_client \<Rightarrow> string \<Rightarrow> int \<Rightarrow> (fetch_error, 'a, string) eop" where
  "mint_write_capability c scope_prefix ttl_seconds = client_mint c ''write'' scope_prefix ttl_seconds"

definition mint_read_capability :: "'a store_client \<Rightarrow> string \<Rightarrow> (fetch_error, 'a, string) eop" where
  "mint_read_capability c scope_prefix = client_mint c ''read'' scope_prefix 300"

definition object_path :: "string \<Rightarrow> string" where
  "object_path full_alias = ''/objects/'' @ quote full_alias"

definition client_put_object ::
  "'a store_client \<Rightarrow> string \<Rightarrow> string \<Rightarrow> bytes \<Rightarrow> string \<Rightarrow> (fetch_error, 'a, json) eop" where
  "client_put_object c capability_id full_alias data mime =
     bind_op (sc_wire c (PutObject (''Capability '' @ capability_id) (object_path full_alias)
        (if mime = [] then None else Some mime) data)) (\<lambda>r.
     seq_op (check (sr_status r = 201) (store_error r)) (of_result (reply_json r)))"

fun read_limited :: "int \<Rightarrow> int \<Rightarrow> bytes list \<Rightarrow> bytes list \<Rightarrow> fetch_error option \<Rightarrow> fetch_error + bytes" where
  "read_limited max_bytes count chunks [] broken = (case broken of None \<Rightarrow> Inr (concat chunks) | Some e \<Rightarrow> Inl e)"
| "read_limited max_bytes count chunks (chunk # rest) broken =
     (if count + int (length chunk) > max_bytes then Inl (AssetStoreError (Some 413) None)
      else read_limited max_bytes (count + int (length chunk)) (chunks @ [chunk]) rest broken)"

definition client_read_object ::
  "'a store_client \<Rightarrow> string \<Rightarrow> string \<Rightarrow> int \<Rightarrow> (fetch_error, 'a, bytes) eop" where
  "client_read_object c capability_id full_alias max_bytes =
     bind_op (sc_wire c (GetObject (''Capability '' @ capability_id) (object_path full_alias))) (\<lambda>r.
     seq_op (check (sr_status r = 200) (store_error r))
       (of_result (read_limited max_bytes 0 [] (sr_chunks r) (sr_broken r))))"

end
