(* ===== verification/Ensure.thy ===== *)
theory Ensure
  imports Store_Client Admission
begin

text \<open>
  Materialising a URL in the asset store, \<^verbatim>\<open>fetcher_service/service.py\<close>, over the state of a fetcher
  process: the store and the network it reaches, and what the process itself keeps.
\<close>

section \<open>The state of the process\<close>

record ('a, 'd) fetcher =
  fs_store :: 'a
  fs_network :: 'd
  fs_read_capability :: "string option"
  fs_jobs :: work_gate
  fs_refetch_checks :: "(string \<times> string) list"
  fs_cache_operations :: "(string \<times> string) list"
  fs_ingress_auth :: "string list"

definition on_asset_store :: "(fetch_error, 'a, 'x) eop \<Rightarrow> (fetch_error, ('a, 'd) fetcher, 'x) eop" where
  "on_asset_store = on_part fs_store (\<lambda>a s. s\<lparr>fs_store := a\<rparr>)"

definition on_network :: "(fetch_error, 'd, 'x) eop \<Rightarrow> (fetch_error, ('a, 'd) fetcher, 'x) eop" where
  "on_network = on_part fs_network (\<lambda>d s. s\<lparr>fs_network := d\<rparr>)"

definition record_refetch :: "string \<Rightarrow> string \<Rightarrow> (fetch_error, ('a, 'd) fetcher, unit) eop" where
  "record_refetch bucket outcome = modify (\<lambda>s. s\<lparr>fs_refetch_checks := fs_refetch_checks s @ [(bucket, outcome)]\<rparr>)"

text \<open>A fetcher is the HTTP fetcher or another implementation of the protocol.\<close>

datatype 'd url_fetcher =
    HttpFetcher http_config "'d http_client"
  | OtherFetcher "string \<Rightarrow> (fetch_error, 'd, fetched_content) eop"

fun fetcher_fetch :: "'d url_fetcher \<Rightarrow> string \<Rightarrow> (fetch_error, 'd, fetched_content) eop" where
  "fetcher_fetch (HttpFetcher cfg client) url = http_fetch cfg client url"
| "fetcher_fetch (OtherFetcher f) url = f url"

section \<open>Ensuring a URL\<close>

text \<open>The argument \<open>mirror_id\<close> of \<open>ensure_url\<close> is never read and is left out.\<close>

record ensure_url_result =
  eu_asset_id :: json
  eu_qualified_alias :: string
  eu_cache_hit :: bool
  eu_bucket :: string
  eu_partition_id :: string

definition tmp_alias_tail :: "normalized_url \<Rightarrow> string option \<Rightarrow> string" where
  "tmp_alias_tail normalized preferred_alias_suffix =
     (case preferred_alias_suffix of
        Some (c # cs) \<Rightarrow> strip_char slash (c # cs)
      | _ \<Rightarrow> ''fetched/'' @ take 32 (sha256_hex (utf8_encode (canonical_url normalized))))"

text \<open>Where a URL is kept: bucket, partition and the alias in the bucket.\<close>

definition placement ::
  "(normalized_url \<Rightarrow> fetch_error + rule_match option) \<Rightarrow> normalized_url \<Rightarrow> string option \<Rightarrow> string option \<Rightarrow>
   fetch_error + string \<times> string \<times> string" where
  "placement evaluate normalized tmp_id preferred_alias_suffix =
     bind_result (evaluate normalized) (\<lambda>found.
     case found of
       Some m \<Rightarrow> Inr (''cache'', rm_mirror_id m, rm_mirror_id m @ ''/'' @ primary_alias m)
     | None \<Rightarrow>
         (case tmp_id of
            Some (c # cs) \<Rightarrow>
              (let partition_id = strip_char slash (c # cs) in
               Inr (''tmp'', partition_id, partition_id @ ''/'' @ tmp_alias_tail normalized preferred_alias_suffix))
          | _ \<Rightarrow> Inl InvalidRequestError))"

text \<open>The warning about a mismatch names the asset, so the id is looked up first.\<close>

definition refetch_check :: "string \<Rightarrow> bytes \<Rightarrow> json \<Rightarrow> (fetch_error, ('a, 'd) fetcher, unit) eop" where
  "refetch_check bucket data existing =
     bind_op (of_result (json_item existing ''checksum'')) (\<lambda>checksum.
     let outcome = (if JString (''sha256:'' @ sha256_hex data) = checksum then ''match'' else ''mismatch'') in
     seq_op (record_refetch bucket outcome) (
     if outcome = ''match'' then ret ()
     else bind_op (of_result (json_item existing ''asset_id'')) (\<lambda>_. raise ContentMismatchError)))"

definition normalize_request :: "string \<Rightarrow> fetch_error + normalized_url" where
  "normalize_request url =
     (case normalize_url url of Inl e \<Rightarrow> Inl (if e = InvalidUrl then InvalidRequestError else e) | Inr n \<Rightarrow> Inr n)"

definition ensure_url ::
  "'a store_client \<Rightarrow> (normalized_url \<Rightarrow> fetch_error + rule_match option) \<Rightarrow> (string \<Rightarrow> (fetch_error, 'd, fetched_content) eop) \<Rightarrow>
   string \<Rightarrow> bool \<Rightarrow> string option \<Rightarrow> string option \<Rightarrow> int \<Rightarrow> (fetch_error, ('a, 'd) fetcher, ensure_url_result) eop" where
  "ensure_url client evaluate fetch url no_cache tmp_id preferred_alias_suffix ttl_seconds =
     bind_op (of_result (normalize_request url)) (\<lambda>normalized.
     bind_op (of_result (placement evaluate normalized tmp_id preferred_alias_suffix)) (\<lambda>(bucket, partition_id, relative).
     let qualified = bucket @ ''/'' @ relative;
         outcome = (\<lambda>asset hit. bind_op (of_result (json_item asset ''asset_id'')) (\<lambda>i.
           ret \<lparr>eu_asset_id = i, eu_qualified_alias = qualified, eu_cache_hit = hit, eu_bucket = bucket, eu_partition_id = partition_id\<rparr>)) in
     bind_op (on_asset_store (client_resolve client bucket relative)) (\<lambda>found.
     case (found, no_cache) of
       (Some existing, False) \<Rightarrow> outcome existing True
     | _ \<Rightarrow>
         bind_op (on_network (fetch (canonical_url normalized))) (\<lambda>content.
         case found of
           Some existing \<Rightarrow> seq_op (refetch_check bucket (fc_data content) existing) (outcome existing False)
         | None \<Rightarrow>
             bind_op (on_asset_store (mint_write_capability client (bucket @ ''/'' @ partition_id) ttl_seconds)) (\<lambda>capability_id.
             bind_op (on_asset_store (client_put_object client capability_id qualified (fc_data content) (fc_mime content))) (\<lambda>asset.
             outcome asset False))))))"

end
