(* ===== verification/Py_Regex.thy ===== *)
theory Py_Regex
  imports Main
begin

text \<open>
  Regular expressions over characters, for the patterns that the program writes in \<open>re\<close> without
  groups that matter: their language, and \<open>fullmatch\<close> by derivatives, which computes.
\<close>

section \<open>Expressions and their languages\<close>

text \<open>A character class is a list of ranges.\<close>

datatype rexp = Never | Empty | Chars "(char \<times> char) list" | Cat rexp rexp | Either rexp rexp | Many rexp

definition in_ranges :: "(char \<times> char) list \<Rightarrow> char \<Rightarrow> bool" where
  "in_ranges rs c \<longleftrightarrow> list_ex (\<lambda>(a, b). of_char a \<le> (of_char c :: int) \<and> (of_char c :: int) \<le> of_char b) rs"

primrec lang :: "rexp \<Rightarrow> string set" where
  "lang Never = {}"
| "lang Empty = {[]}"
| "lang (Chars rs) = {[c] | c. in_ranges rs c}"
| "lang (Cat r s) = {u @ v | u v. u \<in> lang r \<and> v \<in> lang s}"
| "lang (Either r s) = lang r \<union> lang s"
| "lang (Many r) = {concat ws | ws. set ws \<subseteq> lang r}"

definition one_char :: "char \<Rightarrow> rexp" where
  "one_char c = Chars [(c, c)]"

definition seq_of :: "rexp list \<Rightarrow> rexp" where
  "seq_of rs = foldr Cat rs Empty"

definition lit :: "string \<Rightarrow> rexp" where
  "lit s = seq_of (map one_char s)"

definition any_of :: "rexp list \<Rightarrow> rexp" where
  "any_of rs = foldr Either rs Never"

definition many1 :: "rexp \<Rightarrow> rexp" where
  "many1 r = Cat r (Many r)"

definition maybe :: "rexp \<Rightarrow> rexp" where
  "maybe r = Either r Empty"

section \<open>Matching\<close>

primrec nullable :: "rexp \<Rightarrow> bool" where
  "nullable Never = False"
| "nullable Empty = True"
| "nullable (Chars rs) = False"
| "nullable (Cat r s) = (nullable r \<and> nullable s)"
| "nullable (Either r s) = (nullable r \<or> nullable s)"
| "nullable (Many r) = True"

fun cat :: "rexp \<Rightarrow> rexp \<Rightarrow> rexp" where
  "cat Never s = Never"
| "cat Empty s = s"
| "cat r s = (if s = Never then Never else Cat r s)"

fun either :: "rexp \<Rightarrow> rexp \<Rightarrow> rexp" where
  "either Never s = s"
| "either r s = (if s = Never \<or> r = s then r else Either r s)"

primrec deriv :: "char \<Rightarrow> rexp \<Rightarrow> rexp" where
  "deriv c Never = Never"
| "deriv c Empty = Never"
| "deriv c (Chars rs) = (if in_ranges rs c then Empty else Never)"
| "deriv c (Cat r s) = (if nullable r then either (cat (deriv c r) s) (deriv c s) else cat (deriv c r) s)"
| "deriv c (Either r s) = either (deriv c r) (deriv c s)"
| "deriv c (Many r) = cat (deriv c r) (Many r)"

fun fullmatch :: "rexp \<Rightarrow> string \<Rightarrow> bool" where
  "fullmatch r [] = nullable r"
| "fullmatch r (c # cs) = fullmatch (deriv c r) cs"

lemma lang_cat: "lang (cat r s) = lang (Cat r s)"
  by (cases r) auto

lemma lang_either: "lang (either r s) = lang (Either r s)"
  by (cases r) auto

lemma nullable_lang: "nullable r \<longleftrightarrow> [] \<in> lang r"
  by (induction r) (auto intro: exI [of _ "[]"])

lemma concat_Cons: "c # cs = concat ws \<Longrightarrow> \<exists>u vs. (c # u) \<in> set ws \<and> cs = u @ concat vs \<and> set vs \<subseteq> set ws"
proof (induction ws)
  case (Cons w ws)
  show ?case
  proof (cases w)
    case Nil
    then show ?thesis using Cons by fastforce
  next
    case (Cons x xs)
    then show ?thesis using Cons.prems by (intro exI [of _ xs] exI [of _ ws]) auto
  qed
qed simp

lemma many_Cons: "c # cs \<in> lang (Many r) \<longleftrightarrow> (\<exists>u v. cs = u @ v \<and> c # u \<in> lang r \<and> v \<in> lang (Many r))"
proof
  assume "c # cs \<in> lang (Many r)"
  then obtain ws where ws: "c # cs = concat ws" "set ws \<subseteq> lang r" by auto
  from concat_Cons [OF ws(1)] obtain u vs where "c # u \<in> set ws" "cs = u @ concat vs" "set vs \<subseteq> set ws" by blast
  then show "\<exists>u v. cs = u @ v \<and> c # u \<in> lang r \<and> v \<in> lang (Many r)" using ws(2) by (auto intro!: exI)
next
  assume "\<exists>u v. cs = u @ v \<and> c # u \<in> lang r \<and> v \<in> lang (Many r)"
  then obtain u ws where "cs = u @ concat ws" "c # u \<in> lang r" "set ws \<subseteq> lang r" by auto
  then show "c # cs \<in> lang (Many r)" by (auto intro!: exI [of _ "(c # u) # ws"])
qed

lemma cat_Cons:
  "c # cs \<in> lang (Cat r s) \<longleftrightarrow>
     (\<exists>u v. cs = u @ v \<and> c # u \<in> lang r \<and> v \<in> lang s) \<or> [] \<in> lang r \<and> c # cs \<in> lang s"
  by (auto simp: Cons_eq_append_conv)

lemma deriv_lang: "cs \<in> lang (deriv c r) \<longleftrightarrow> c # cs \<in> lang r"
proof (induction r arbitrary: cs)
  case (Cat r s)
  show ?case by (simp only: cat_Cons) (auto simp: lang_cat lang_either nullable_lang Cat)
next
  case (Many r)
  show ?case by (simp only: many_Cons deriv.simps lang_cat) (auto simp: Many)
qed (auto simp: lang_either)

lemma fullmatch_lang: "fullmatch r s \<longleftrightarrow> s \<in> lang r"
  by (induction s arbitrary: r) (simp_all add: nullable_lang deriv_lang)

section \<open>Words of a language\<close>

lemma lang_seq_Nil [simp]: "lang (seq_of []) = {[]}"
  by (simp add: seq_of_def)

lemma lang_seq_Cons: "lang (seq_of (r # rs)) = {u @ v | u v. u \<in> lang r \<and> v \<in> lang (seq_of rs)}"
  by (simp add: seq_of_def)

lemma lang_seq_append: "lang (seq_of (rs @ ss)) = {u @ v | u v. u \<in> lang (seq_of rs) \<and> v \<in> lang (seq_of ss)}"
proof (induction rs)
  case (Cons r rs)
  show ?case unfolding append_Cons lang_seq_Cons Cons by (auto; metis append.assoc)
qed auto

lemma lang_one_char [simp]: "lang (one_char c) = {[c]}"
  by (auto simp: one_char_def in_ranges_def intro: of_char_eqI [where 'a = int])

lemma lang_lit [simp]: "lang (lit s) = {s}"
  unfolding lit_def by (induction s) (simp_all add: lang_seq_Cons)

lemma lang_any_Nil [simp]: "lang (any_of []) = {}"
  by (simp add: any_of_def)

lemma lang_any_Cons [simp]: "lang (any_of (r # rs)) = lang r \<union> lang (any_of rs)"
  by (simp add: any_of_def)

lemma lang_any_lits [simp]: "lang (any_of (map lit ss)) = set ss"
  by (induction ss) auto

lemma lang_many1: "lang (many1 r) = {u @ v | u v. u \<in> lang r \<and> v \<in> lang (Many r)}"
  by (simp add: many1_def)

lemma lang_maybe [simp]: "lang (maybe r) = insert [] (lang r)"
  by (auto simp: maybe_def)

text \<open>The characters that can occur.\<close>

primrec may_occur :: "rexp \<Rightarrow> char \<Rightarrow> bool" where
  "may_occur Never c = False"
| "may_occur Empty c = False"
| "may_occur (Chars rs) c = in_ranges rs c"
| "may_occur (Cat r s) c = (may_occur r c \<or> may_occur s c)"
| "may_occur (Either r s) c = (may_occur r c \<or> may_occur s c)"
| "may_occur (Many r) c = may_occur r c"

lemma lang_chars: "s \<in> lang r \<Longrightarrow> c \<in> set s \<Longrightarrow> may_occur r c"
  by (induction r arbitrary: s) (auto; blast)+

lemma may_occur_seq [simp]: "may_occur (seq_of rs) c \<longleftrightarrow> (\<exists>r \<in> set rs. may_occur r c)"
  unfolding seq_of_def by (induction rs) auto

lemma may_occur_any [simp]: "may_occur (any_of rs) c \<longleftrightarrow> (\<exists>r \<in> set rs. may_occur r c)"
  unfolding any_of_def by (induction rs) auto

lemma may_occur_more [simp]:
  "may_occur (one_char d) c \<longleftrightarrow> c = d" "may_occur (lit s) c \<longleftrightarrow> c \<in> set s"
  "may_occur (many1 r) c \<longleftrightarrow> may_occur r c" "may_occur (maybe r) c \<longleftrightarrow> may_occur r c"
  by (auto simp: one_char_def lit_def many1_def maybe_def in_ranges_def dest: antisym intro: of_char_eqI [where 'a = int])

end
