(* ===== verification/Pilot_Policy.thy ===== *)
theory Pilot_Policy
  imports Rules Py_Regex
begin

text \<open>
  The origin policy of the image pilot, \<^verbatim>\<open>fetcher_service/pilot_policy.py\<close>: which URLs are approved
  image renditions, where they are fetched from and under which name they are cached.
\<close>

section \<open>The approved paths\<close>

definition HOST :: string where "HOST = ''gallica.bnf.fr''"

definition PARTITION :: string where "PARTITION = ''gallica-pilot''"

definition V3_HOST :: string where "V3_HOST = ''openapi.bnf.fr''"

definition IMAGE_MIMES :: "string list" where
  "IMAGE_MIMES = [''image/jpeg'', ''image/tiff'', ''image/webp'']"

definition digit :: rexp where "digit = Chars [(CHR ''0'', CHR ''9'')]"

definition NUMBER :: rexp where
  "NUMBER = seq_of [many1 digit, maybe (seq_of [lit ''.'', many1 digit])]"

definition REGION :: rexp where
  "REGION = any_of [lit ''full'', lit ''square'',
     seq_of [maybe (lit ''pct:''), NUMBER, lit '','', NUMBER, lit '','', NUMBER, lit '','', NUMBER]]"

definition SIZE :: rexp where
  "SIZE = any_of [lit ''full'', lit ''max'', seq_of [lit ''pct:'', NUMBER],
     seq_of [maybe (lit ''!''), many1 digit, lit '','', Many digit],
     seq_of [maybe (lit ''!''), Many digit, lit '','', many1 digit]]"

text \<open>The document and page of an image, and what follows them.\<close>

definition ark_page :: "rexp list" where
  "ark_page = [lit ''ark:/12148/'', many1 (Chars [(CHR ''A'', CHR ''Z''), (CHR ''a'', CHR ''z''), (CHR ''0'', CHR ''9'')]),
     lit ''/f'', Chars [(CHR ''1'', CHR ''9'')], Many digit]"

definition rendition :: "string list \<Rightarrow> rexp list" where
  "rendition formats = [lit ''/'', REGION, lit ''/'', SIZE, lit ''/'', maybe (lit ''!''), NUMBER, lit ''/'',
     any_of [lit ''native'', lit ''default'', lit ''color'', lit ''gray'', lit ''bitonal''], lit ''.'',
     any_of (map lit formats)]"

definition IMAGE :: rexp where
  "IMAGE = seq_of (lit ''/iiif/'' # ark_page @ rendition [''jpg'', ''jpeg'', ''tif'', ''tiff''])"

definition V3_IMAGE :: rexp where
  "V3_IMAGE = seq_of (lit ''/iiif/image/v3/'' # ark_page @ rendition [''jpg'', ''jpeg'', ''tif'', ''tiff'', ''webp''])"

definition LEGACY_FULL :: rexp where
  "LEGACY_FULL = seq_of (lit ''/iiif/'' # ark_page @ [lit ''/full/full/0/native.jpg''])"

definition POLICIES :: "(string, rexp) dict" where
  "POLICIES = [(HOST, IMAGE), (V3_HOST, V3_IMAGE)]"

section \<open>Targets\<close>

record pilot_target =
  t_origin_url :: string
  t_path :: string
  t_host :: string

text \<open>The group of the legacy pattern lies between two fixed texts.\<close>

definition legacy_group :: "string \<Rightarrow> string" where
  "legacy_group path = take (length path - length ''/iiif/'' - length ''/full/full/0/native.jpg'') (drop (length ''/iiif/'') path)"

definition fetch_url :: "pilot_target \<Rightarrow> string" where
  "fetch_url t =
     (if t_host t = HOST \<and> fullmatch LEGACY_FULL (t_path t)
      then ''https://'' @ V3_HOST @ ''/iiif/image/v3/'' @ legacy_group (t_path t) @ ''/full/max/0/default.jpg''
      else t_origin_url t)"

definition lstrip_char :: "char \<Rightarrow> string \<Rightarrow> string" where
  "lstrip_char c s = dropWhile (\<lambda>x. x = c) s"

definition relative_alias :: "pilot_target \<Rightarrow> fetch_error + string" where
  "relative_alias t =
     (if fetch_url t \<noteq> t_origin_url t then
        (case urlsplit (fetch_url t) of
           None \<Rightarrow> Inl PlainValueError
         | Some canonical \<Rightarrow> Inr (PARTITION @ ''/'' @ V3_HOST @ ''/'' @ lstrip_char slash (u_path canonical)))
      else
        (let pre = (if t_host t = HOST then [] else t_host t @ ''/'') in
         Inr (PARTITION @ ''/'' @ pre @ lstrip_char slash (t_path t))))"

section \<open>Approval\<close>

text \<open>Searches for a percent sign without two hex digits, and for an escaped delimiter.\<close>

fun bad_escape :: "string \<Rightarrow> bool" where
  "bad_escape [] = False"
| "bad_escape (c # cs) =
     (c = CHR ''%'' \<and> \<not> (case cs of a # b # _ \<Rightarrow> hex_char_value a \<noteq> None \<and> hex_char_value b \<noteq> None | _ \<Rightarrow> False) \<or>
      bad_escape cs)"

fun ambiguous_escape :: "string \<Rightarrow> bool" where
  "ambiguous_escape [] = False"
| "ambiguous_escape (c # cs) =
     (c = CHR ''%'' \<and>
      (case cs of
         a # b # _ \<Rightarrow>
           (case (hex_char_value a, hex_char_value b) of
              (Some x, Some y) \<Rightarrow> char_of (16 * x + y) \<in> {CHR ''/'', CHR 0x5C, CHR ''%'', CHR ''?'', CHR ''#''}
            | _ \<Rightarrow> False)
       | _ \<Rightarrow> False) \<or>
      ambiguous_escape cs)"

text \<open>A path that decodes to characters outside of Latin-1 matches no pattern.\<close>

definition pilot_require :: "string \<Rightarrow> fetch_error + pilot_target" where
  "pilot_require raw =
     bind_result (guard_result
       (raw \<noteq> [] \<and> length raw \<le> 2048 \<and> list_all (\<lambda>c. 33 \<le> (of_char c :: int) \<and> (of_char c :: int) \<le> 126) raw) PilotDeniedError) (\<lambda>_.
     case urlsplit raw of
       None \<Rightarrow> Inl PilotDeniedError
     | Some parts \<Rightarrow>
         (let host = py_lower (u_netloc parts) in
          case map_of POLICIES host of
            None \<Rightarrow> Inl PilotDeniedError
          | Some pattern \<Rightarrow>
              bind_result (guard_result (u_scheme parts = ''https'' \<and> CHR ''?'' \<notin> set raw \<and> CHR ''#'' \<notin> set raw) PilotDeniedError) (\<lambda>_.
              bind_result (guard_result (\<not> bad_escape (u_path parts)) PilotDeniedError) (\<lambda>_.
              bind_result (guard_result (\<not> ambiguous_escape (u_path parts)) PilotDeniedError) (\<lambda>_.
              case unquote (u_path parts) of
                None \<Rightarrow> Inl PilotDeniedError
              | Some path \<Rightarrow>
                  bind_result (guard_result (fullmatch pattern path) PilotDeniedError) (\<lambda>_.
                  Inr \<lparr>t_origin_url = ''https://'' @ host @ path, t_path = path, t_host = host\<rparr>))))))"

definition require_read :: "bytes \<Rightarrow> bytes \<Rightarrow> fetch_error + pilot_target" where
  "require_read raw_path query =
     bind_result (guard_result (list_all (\<lambda>b. b < 128) raw_path) PilotDeniedError) (\<lambda>_.
     let path = map (\<lambda>b. char_of (uint b)) raw_path in
     bind_result (guard_result (query = [] \<and> list_ex (\<lambda>(host, _). prefix (''/'' @ host @ ''/'') path) POLICIES) PilotDeniedError) (\<lambda>_.
     pilot_require (''https:/'' @ path)))"

definition removeprefix :: "string \<Rightarrow> string \<Rightarrow> string" where
  "removeprefix p s = (if prefix p s then drop (length p) s else s)"

definition pilot_match :: "normalized_url \<Rightarrow> fetch_error + rule_match option" where
  "pilot_match u =
     bind_result (pilot_require (canonical_url u)) (\<lambda>target.
     bind_result (relative_alias target) (\<lambda>alias.
     Inr (Some \<lparr>rm_mirror_id = PARTITION, rm_aliases = [removeprefix (PARTITION @ ''/'') alias]\<rparr>)))"

end
