(* ===== verification/Pilot.thy ===== *)
theory Pilot
  imports Ensure Pilot_Policy
begin

text \<open>
  The image cache of the pilot, \<^verbatim>\<open>fetcher_service/pilot.py\<close>: preloading an approved image into the
  asset store and reading it back from there.
\<close>

record cached_image =
  ci_data :: bytes
  ci_mime :: string
  ci_checksum :: string

record ('a, 'd) pilot =
  pc_client :: "'a store_client"
  pc_fetcher :: "'d url_fetcher"
  pc_max_bytes :: int

section \<open>Fetching approved images\<close>

fun policy_fetch :: "'d url_fetcher \<Rightarrow> string \<Rightarrow> (fetch_error, 'd, fetched_content) eop" where
  "policy_fetch (HttpFetcher cfg client) url = fetch_with_policy cfg client url pilot_require"
| "policy_fetch (OtherFetcher f) url = f url"

definition approved_fetch :: "('a, 'd) pilot \<Rightarrow> string \<Rightarrow> (fetch_error, 'd, fetched_content) eop" where
  "approved_fetch p url =
     seq_op (of_result (pilot_require url)) (
     bind_op (policy_fetch (pc_fetcher p) url) (\<lambda>content.
     seq_op (check (int (length (fc_data content)) \<le> pc_max_bytes p) UpstreamError) (
     seq_op (check (fc_mime content \<in> set IMAGE_MIMES) UpstreamError) (ret content))))"

section \<open>Failures of the store\<close>

text \<open>\<open>str.isdigit\<close> on Latin-1 also holds of the superscript digits.\<close>

definition py_isdigit :: "string \<Rightarrow> bool" where
  "py_isdigit s \<longleftrightarrow> s \<noteq> [] \<and> list_all (\<lambda>c. dec_digit c \<or> c \<in> {CHR 0xB2, CHR 0xB3, CHR 0xB9}) s"

definition backend_error :: "int option \<Rightarrow> string option \<Rightarrow> fetch_error" where
  "backend_error status retry_after =
     (if status = Some 429 \<or> status = Some 503 then
        CacheBackendError 503 (Some (case retry_after of Some r \<Rightarrow> if py_isdigit r then r else ''1'' | None \<Rightarrow> ''1''))
      else if status = Some 409 \<or> status = Some 410 then CacheBackendError 409 (Some ''1'')
      else CacheBackendError (if status = Some 413 then 413 else 502) None)"

definition is_http_error :: "fetch_error \<Rightarrow> bool" where
  "is_http_error e \<longleftrightarrow> e = HttpError \<or> e = HttpTimeout"

section \<open>Preloading\<close>

text \<open>A conflict may mean that another writer has stored the image since it was looked up.\<close>

definition after_conflict :: "('a, 'd) pilot \<Rightarrow> pilot_target \<Rightarrow> fetch_error \<Rightarrow> (fetch_error, ('a, 'd) fetcher, ensure_url_result) eop" where
  "after_conflict p target backend =
     bind_op (of_result (relative_alias target)) (\<lambda>alias.
     bind_op (try_op (on_asset_store (client_resolve (pc_client p) ''cache'' alias)) (\<lambda>e.
       case e of
         AssetStoreError status retry_after \<Rightarrow> raise (backend_error status retry_after)
       | _ \<Rightarrow> raise (if is_http_error e then CacheBackendError 503 (Some ''1'') else e))) (\<lambda>found.
     case found of
       None \<Rightarrow> raise backend
     | Some existing \<Rightarrow>
         bind_op (of_result (json_item existing ''asset_id'')) (\<lambda>i.
         ret \<lparr>eu_asset_id = i, eu_qualified_alias = ''cache/'' @ alias, eu_cache_hit = True, eu_bucket = ''cache'',
              eu_partition_id = PARTITION\<rparr>)))"

definition preload :: "('a, 'd) pilot \<Rightarrow> string \<Rightarrow> bool \<Rightarrow> (fetch_error, ('a, 'd) fetcher, ensure_url_result) eop" where
  "preload p url no_cache =
     bind_op (of_result (pilot_require url)) (\<lambda>target.
     try_op (ensure_url (pc_client p) pilot_match (approved_fetch p) (fetch_url target) no_cache None None 300) (\<lambda>e.
       case e of
         AssetStoreError status retry_after \<Rightarrow>
           if status = Some 409 then after_conflict p target (backend_error status retry_after)
           else raise (backend_error status retry_after)
       | _ \<Rightarrow> raise (if is_http_error e then CacheBackendError 503 (Some ''1'') else e)))"

section \<open>Reading\<close>

definition read_token :: "('a, 'd) pilot \<Rightarrow> string option \<Rightarrow> (fetch_error, ('a, 'd) fetcher, string) eop" where
  "read_token p stale =
     bind_op (gets fs_read_capability) (\<lambda>current.
     case current of
       Some token \<Rightarrow>
         if Some token \<noteq> stale then ret token
         else bind_op (on_asset_store (mint_read_capability (pc_client p) (''cache/'' @ PARTITION))) (\<lambda>fresh.
              seq_op (modify (\<lambda>s. s\<lparr>fs_read_capability := Some fresh\<rparr>)) (ret fresh))
     | None \<Rightarrow>
         bind_op (on_asset_store (mint_read_capability (pc_client p) (''cache/'' @ PARTITION))) (\<lambda>fresh.
         seq_op (modify (\<lambda>s. s\<lparr>fs_read_capability := Some fresh\<rparr>)) (ret fresh)))"

text \<open>The size that a document gives, a boolean being an integer in Python; a type that cannot be looked up in a set fails.\<close>

definition json_size :: "json \<Rightarrow> int option" where
  "json_size v = (case v of JInt n \<Rightarrow> Some n | JBool b \<Rightarrow> Some (if b then 1 else 0) | _ \<Rightarrow> None)"

definition image_mime :: "json \<Rightarrow> fetch_error + string" where
  "image_mime v =
     (case v of
        JString m \<Rightarrow> if m \<in> set IMAGE_MIMES then Inr m else Inl (CacheBackendError 502 None)
      | JList _ \<Rightarrow> Inl OtherException
      | JObject _ \<Rightarrow> Inl OtherException
      | _ \<Rightarrow> Inl (CacheBackendError 502 None))"

definition read_image :: "('a, 'd) pilot \<Rightarrow> string \<Rightarrow> (fetch_error, ('a, 'd) fetcher, bytes) eop" where
  "read_image p full_alias =
     bind_op (read_token p None) (\<lambda>token.
     try_op (on_asset_store (client_read_object (pc_client p) token full_alias (pc_max_bytes p))) (\<lambda>e.
       case e of
         AssetStoreError status _ \<Rightarrow>
           if status \<noteq> Some 403 then raise e
           else bind_op (read_token p (Some token)) (\<lambda>fresh.
                on_asset_store (client_read_object (pc_client p) fresh full_alias (pc_max_bytes p)))
       | _ \<Rightarrow> raise e))"

definition read_asset :: "('a, 'd) pilot \<Rightarrow> string \<Rightarrow> json \<Rightarrow> (fetch_error, ('a, 'd) fetcher, cached_image) eop" where
  "read_asset p alias asset =
     bind_op (of_result (json_get asset ''size_bytes'')) (\<lambda>size_json.
     case json_size size_json of
       None \<Rightarrow> raise (CacheBackendError 502 None)
     | Some size_bytes \<Rightarrow>
         seq_op (check (0 \<le> size_bytes) (CacheBackendError 502 None)) (
         seq_op (check (size_bytes \<le> pc_max_bytes p) (CacheBackendError 413 None)) (
         bind_op (of_result (bind_result (json_get asset ''mime'') image_mime)) (\<lambda>mime.
         bind_op (read_image p (''cache/'' @ alias)) (\<lambda>data.
         bind_op (of_result (json_get asset ''checksum'')) (\<lambda>expected.
         let checksum = ''sha256:'' @ sha256_hex data in
         seq_op (check (int (length data) = size_bytes \<and> JString checksum = expected) (CacheBackendError 502 None)) (
         ret \<lparr>ci_data = data, ci_mime = mime, ci_checksum = checksum\<rparr>)))))))"

definition pilot_read :: "('a, 'd) pilot \<Rightarrow> pilot_target \<Rightarrow> (fetch_error, ('a, 'd) fetcher, cached_image) eop" where
  "pilot_read p target =
     try_op
       (bind_op (of_result (relative_alias target)) (\<lambda>alias.
        bind_op (on_asset_store (client_resolve (pc_client p) ''cache'' alias)) (\<lambda>found.
        case found of None \<Rightarrow> raise CacheMissError | Some asset \<Rightarrow> read_asset p alias asset)))
       (\<lambda>e. case e of
          AssetStoreError status retry_after \<Rightarrow>
            raise (if status = Some 404 \<or> status = Some 410 then CacheMissError else backend_error status retry_after)
        | _ \<Rightarrow> raise (if is_http_error e then CacheBackendError 503 (Some ''1'') else e))"

end
