(* ===== verification/Fetcher_App.thy ===== *)
theory Fetcher_App
  imports Pilot Services Api_Schemas
begin

text \<open>
  The fetcher's HTTP application, \<^verbatim>\<open>fetcher_service/app.py\<close>: its set-up from the environment, the
  dispatcher's credential, the job gate, the three routes that do work and the answers to errors. One
  request runs at a time; counters are lists of label values.
\<close>

section \<open>The application\<close>

record ('a, 'd) fetcher_app =
  fa_credentials :: credential_store
  fa_rules :: "cache_rule list"
  fa_pilot :: "('a, 'd) pilot"
  fa_pilot_mode :: bool

text \<open>An operation of the store's library inside the fetcher.\<close>

definition store_op :: "('s, 'x) op \<Rightarrow> (fetch_error, 's, 'x) eop" where
  "store_op m s = (case m s of (Inl e, t) \<Rightarrow> (Inl (StoreError e), t) | (Inr x, t) \<Rightarrow> (Inr x, t))"

definition on_jobs :: "(work_gate, 'x) op \<Rightarrow> (fetch_error, ('a, 'd) fetcher, 'x) eop" where
  "on_jobs m = on_part fs_jobs (\<lambda>g s. s\<lparr>fs_jobs := g\<rparr>) (store_op m)"

definition job_lease :: "(fetch_error, ('a, 'd) fetcher, 'x) eop \<Rightarrow> (fetch_error, ('a, 'd) fetcher, 'x) eop" where
  "job_lease body =
     seq_op (on_jobs lease_enter) (
     bind_op (try_op body (\<lambda>e. seq_op (on_jobs lease_exit) (raise e))) (\<lambda>r.
     seq_op (on_jobs lease_exit) (ret r)))"

definition record_cache :: "string \<Rightarrow> string \<Rightarrow> (fetch_error, ('a, 'd) fetcher, unit) eop" where
  "record_cache operation outcome = modify (\<lambda>s. s\<lparr>fs_cache_operations := fs_cache_operations s @ [(operation, outcome)]\<rparr>)"

definition count_ingress :: "string \<Rightarrow> (fetch_error, ('a, 'd) fetcher, unit) eop" where
  "count_ingress outcome = modify (\<lambda>s. s\<lparr>fs_ingress_auth := fs_ingress_auth s @ [outcome]\<rparr>)"

section \<open>Who may ask\<close>

definition dispatcher_identity :: "credential_store \<Rightarrow> string \<Rightarrow> error + string" where
  "dispatcher_identity credentials header =
     (case py_partition (CHR '' '') header of (scheme, _, token) \<Rightarrow>
      case py_partition (CHR '':'') token of (identity, sep, secret) \<Rightarrow>
      bind_result (guard_result (py_lower scheme = ''service'' \<and> sep) ServiceAuthError) (\<lambda>_.
      bind_result (authenticate credentials identity secret) (\<lambda>caller.
      bind_result (guard_result (caller \<in> {''task-api'', ''admin''}) CapabilityDeniedError) (\<lambda>_. Inr caller))))"

definition require_dispatcher :: "('a, 'd) fetcher_app \<Rightarrow> string \<Rightarrow> (fetch_error, ('a, 'd) fetcher, string) eop" where
  "require_dispatcher app header =
     (case dispatcher_identity (fa_credentials app) header of
        Inl e \<Rightarrow> seq_op (count_ingress ''denied'') (raise (StoreError e))
      | Inr caller \<Rightarrow> seq_op (count_ingress ''granted'') (ret caller))"

section \<open>Routes\<close>

record ensure_request =
  en_url :: string
  en_mirror_id :: "string option"
  en_no_cache :: bool
  en_tmp_id :: "string option"
  en_preferred_alias_suffix :: "string option"
  en_ttl_seconds :: int

definition valid_ensure :: "ensure_request \<Rightarrow> bool" where
  "valid_ensure b \<longleftrightarrow> en_url b \<noteq> [] \<and> 1 \<le> en_ttl_seconds b \<and> en_ttl_seconds b \<le> 86400"

record preload_request =
  pl_url :: string
  pl_no_cache :: bool

definition valid_preload :: "preload_request \<Rightarrow> bool" where
  "valid_preload b \<longleftrightarrow> pl_url b \<noteq> [] \<and> length (pl_url b) \<le> 2048"

record ensure_response =
  eo_asset_id :: string
  eo_qualified_alias :: string
  eo_cache_hit :: bool
  eo_bucket :: string
  eo_partition_id :: string

definition from_result :: "ensure_url_result \<Rightarrow> fetch_error + ensure_response" where
  "from_result r =
     (case eu_asset_id r of
        JString i \<Rightarrow> Inr \<lparr>eo_asset_id = i, eo_qualified_alias = eu_qualified_alias r, eo_cache_hit = eu_cache_hit r,
          eo_bucket = eu_bucket r, eo_partition_id = eu_partition_id r\<rparr>
      | _ \<Rightarrow> Inl OtherException)"

definition ensure_url_endpoint ::
  "('a, 'd) fetcher_app \<Rightarrow> string \<Rightarrow> ensure_request \<Rightarrow> (fetch_error, ('a, 'd) fetcher, ensure_response) eop" where
  "ensure_url_endpoint app header b =
     seq_op (require_dispatcher app header) (
     seq_op (check (valid_ensure b) (StoreError RequestValidationError)) (
     bind_op (job_lease (ensure_url (pc_client (fa_pilot app)) (evaluate_rules (fa_rules app))
        (fetcher_fetch (pc_fetcher (fa_pilot app))) (en_url b) (en_no_cache b) (en_tmp_id b)
        (en_preferred_alias_suffix b) (en_ttl_seconds b))) (\<lambda>r.
     of_result (from_result r))))"

definition preload_cache ::
  "('a, 'd) fetcher_app \<Rightarrow> string \<Rightarrow> preload_request \<Rightarrow> (fetch_error, ('a, 'd) fetcher, ensure_response) eop" where
  "preload_cache app header b =
     seq_op (require_dispatcher app header) (
     seq_op (check (valid_preload b) (StoreError RequestValidationError)) (
     try_op
       (bind_op (job_lease (preload (fa_pilot app) (pl_url b) (pl_no_cache b))) (\<lambda>r.
        seq_op (record_cache ''preload'' (if eu_cache_hit r then ''hit'' else ''stored'')) (of_result (from_result r))))
       (\<lambda>e. seq_op (record_cache ''preload'' ''error'') (raise e))))"

record image_response =
  im_data :: bytes
  im_media_type :: string
  im_etag :: string
  im_cache_control :: string
  im_content_type_options :: string

definition read_cache ::
  "('a, 'd) fetcher_app \<Rightarrow> string \<Rightarrow> bytes \<Rightarrow> bytes \<Rightarrow> (fetch_error, ('a, 'd) fetcher, image_response) eop" where
  "read_cache app header raw_path query =
     seq_op (require_dispatcher app header) (
     try_op
       (bind_op (of_result (require_read raw_path query)) (\<lambda>target.
        bind_op (job_lease (pilot_read (fa_pilot app) target)) (\<lambda>image.
        seq_op (record_cache ''read'' ''hit'') (
        ret \<lparr>im_data = ci_data image, im_media_type = ci_mime image, im_etag = [CHR 0x22] @ ci_checksum image @ [CHR 0x22],
          im_cache_control = ''no-store'', im_content_type_options = ''nosniff''\<rparr>))))
       (\<lambda>e. seq_op (record_cache ''read'' (if e = CacheMissError then ''miss'' else ''error'')) (raise e)))"

section \<open>Answers to errors\<close>

record fetcher_problem =
  fp_status :: int
  fp_retry_after :: "string option"

definition plain_problem :: "int \<Rightarrow> fetcher_problem" where
  "plain_problem status = \<lparr>fp_status = status, fp_retry_after = None\<rparr>"

text \<open>A header is set only for a delay that is not empty; what no handler knows is answered with 500.\<close>

fun fetcher_error :: "fetch_error \<Rightarrow> fetcher_problem" where
  "fetcher_error PilotDeniedError = plain_problem 403"
| "fetcher_error CacheMissError = plain_problem 404"
| "fetcher_error (CacheBackendError status retry_after) =
     \<lparr>fp_status = status, fp_retry_after = (if retry_after = Some [] then None else retry_after)\<rparr>"
| "fetcher_error ContentMismatchError = plain_problem 409"
| "fetcher_error InvalidRequestError = plain_problem 400"
| "fetcher_error UpstreamTimeoutError = plain_problem 504"
| "fetcher_error UpstreamError = plain_problem 502"
| "fetcher_error (AssetStoreError status retry_after) = plain_problem 502"
| "fetcher_error (StoreError e) =
     \<lparr>fp_status = int (pb_status (problem_for e)), fp_retry_after = pb_retry_after (problem_for e)\<rparr>"
| "fetcher_error _ = plain_problem 500"

section \<open>The server\<close>

datatype fetcher_request =
    EnsureUrl string ensure_request
  | PreloadCache string preload_request
  | ReadCache string bytes bytes
  | Healthz
  | Readyz

datatype fetcher_payload = Ensured ensure_response | Image image_response | Status string

datatype fetcher_response = Answer int fetcher_payload | Failure fetcher_problem | NoRoute

text \<open>In pilot mode the route for arbitrary URLs does not exist.\<close>

fun fetcher_route :: "('a, 'd) fetcher_app \<Rightarrow> fetcher_request \<Rightarrow> (fetch_error, ('a, 'd) fetcher, fetcher_payload) eop option" where
  "fetcher_route app (EnsureUrl header b) =
     (if fa_pilot_mode app then None else Some (bind_op (ensure_url_endpoint app header b) (\<lambda>r. ret (Ensured r))))"
| "fetcher_route app (PreloadCache header b) = Some (bind_op (preload_cache app header b) (\<lambda>r. ret (Ensured r)))"
| "fetcher_route app (ReadCache header raw_path query) = Some (bind_op (read_cache app header raw_path query) (\<lambda>r. ret (Image r)))"
| "fetcher_route app Healthz = Some (ret (Status ''ok''))"
| "fetcher_route app Readyz = Some (ret (Status ''ready''))"

definition serve_fetcher :: "('a, 'd) fetcher_app \<Rightarrow> fetcher_request \<Rightarrow> ('a, 'd) fetcher \<Rightarrow> fetcher_response \<times> ('a, 'd) fetcher" where
  "serve_fetcher app q s =
     (case fetcher_route app q of
        None \<Rightarrow> (NoRoute, s)
      | Some m \<Rightarrow>
          (case m s of
             (Inl e, t) \<Rightarrow> (Failure (fetcher_error e), t)
           | (Inr x, t) \<Rightarrow> (Answer 200 x, t)))"

section \<open>Set-up\<close>

text \<open>
  The environment is a map; reading a rules file (\<open>None\<close> when the system refuses), parsing TOML and
  floats, compiling patterns, the HTTP clients for a base URL and for a configuration, and the clock are parameters.
\<close>

datatype startup_error = StoreLibrary error | FetcherLibrary fetch_error | RuleConfig config_error

definition wrap_error :: "('e \<Rightarrow> startup_error) \<Rightarrow> 'e + 'x \<Rightarrow> startup_error + 'x" where
  "wrap_error f r = (case r of Inl e \<Rightarrow> Inl (f e) | Inr x \<Rightarrow> Inr x)"

definition load_rule_set_file ::
  "(string \<Rightarrow> compiled option) \<Rightarrow> (string \<Rightarrow> (string, toml) dict option) \<Rightarrow> (string \<Rightarrow> string option) \<Rightarrow> string \<Rightarrow> config_error + cache_rule list" where
  "load_rule_set_file compile loads read_text path =
     (case read_text path of None \<Rightarrow> Inl RuleConfigError | Some text \<Rightarrow> load_rule_set compile (loads text))"

definition rules_from_env ::
  "(string \<Rightarrow> compiled option) \<Rightarrow> (string \<Rightarrow> (string, toml) dict option) \<Rightarrow> (string \<Rightarrow> string option) \<Rightarrow> (string \<rightharpoonup> string) \<Rightarrow>
   config_error + cache_rule list" where
  "rules_from_env compile loads read_text env =
     (case env ''FETCHER_RULES_FILE'' of
        Some (c # cs) \<Rightarrow> load_rule_set_file compile loads read_text (c # cs)
      | _ \<Rightarrow> Inr default_rule_set)"

definition client_from_env :: "(string \<Rightarrow> 'a wire) \<Rightarrow> (string \<rightharpoonup> string) \<Rightarrow> fetch_error + 'a store_client" where
  "client_from_env wire_to env =
     (let base_url = (case env ''ASSET_STORE_BASE_URL'' of None \<Rightarrow> ''http://localhost:8080'' | Some u \<Rightarrow> u);
          service_id = (case env ''FETCHER_SERVICE_ID'' of None \<Rightarrow> ''fetcher'' | Some i \<Rightarrow> i);
          client = (\<lambda>secret. \<lparr>sc_wire = wire_to base_url, sc_service_id = service_id, sc_service_secret = secret\<rparr>) in
      case env ''FETCHER_SERVICE_SECRET'' of
        Some (c # cs) \<Rightarrow> Inr (client (c # cs))
      | _ \<Rightarrow> if env_flag env ''ASSET_STORE_DEV_MODE'' then Inr (client ''dev-secret:fetcher'') else Inl OtherException)"

definition fetcher_from_env ::
  "(string \<Rightarrow> float_text) \<Rightarrow> (http_config \<Rightarrow> 'd http_client) \<Rightarrow> ('d \<Rightarrow> int) \<Rightarrow> (string \<rightharpoonup> string) \<Rightarrow> fetch_error + 'd url_fetcher" where
  "fetcher_from_env py_float http_to now env =
     (if env_flag env ''FETCHER_SYNTHETIC'' then Inr (OtherFetcher (\<lambda>url d. (Inr (synthetic_fetch (now d) url), d)))
      else bind_result (http_fetcher_from_env py_float env) (\<lambda>cfg. Inr (HttpFetcher cfg (http_to cfg))))"

definition limit_of :: "(string \<rightharpoonup> string) \<Rightarrow> string \<Rightarrow> int \<Rightarrow> int option" where
  "limit_of env name dflt = (case env name of None \<Rightarrow> Some dflt | Some text \<Rightarrow> py_int_parse text)"

definition create_fetcher_app ::
  "(string \<Rightarrow> compiled option) \<Rightarrow> (string \<Rightarrow> (string, toml) dict option) \<Rightarrow> (string \<Rightarrow> string option) \<Rightarrow> (string \<Rightarrow> float_text) \<Rightarrow>
   (http_config \<Rightarrow> 'd http_client) \<Rightarrow> ('d \<Rightarrow> int) \<Rightarrow> (string \<Rightarrow> 'a wire) \<Rightarrow> (string \<rightharpoonup> string) \<Rightarrow> 'a \<Rightarrow> 'd \<Rightarrow>
   startup_error + ('a, 'd) fetcher_app \<times> ('a, 'd) fetcher" where
  "create_fetcher_app compile loads read_text py_float http_to now wire_to env store network =
     bind_result (wrap_error StoreLibrary (credentials_from_env env)) (\<lambda>credentials.
     bind_result (wrap_error RuleConfig (rules_from_env compile loads read_text env)) (\<lambda>rules.
     bind_result (wrap_error FetcherLibrary (fetcher_from_env py_float http_to now env)) (\<lambda>fetch.
     bind_result (wrap_error FetcherLibrary (client_from_env wire_to env)) (\<lambda>client.
     bind_result (wrap_error StoreLibrary (positive_limit_from_env (limit_of env ''FETCHER_MAX_INFLIGHT_JOBS'' 4))) (\<lambda>limit.
     bind_result (wrap_error StoreLibrary (make_work_gate limit)) (\<lambda>jobs.
     bind_result (wrap_error StoreLibrary (positive_limit_from_env (limit_of env ''FETCHER_HTTP_MAX_BYTES'' (50 * 1024 * 1024)))) (\<lambda>max_bytes.
     Inr (\<lparr>fa_credentials = credentials, fa_rules = rules,
            fa_pilot = \<lparr>pc_client = client, pc_fetcher = fetch, pc_max_bytes = max_bytes\<rparr>,
            fa_pilot_mode = env_flag env ''FETCHER_PILOT_MODE''\<rparr>,
          \<lparr>fs_store = store, fs_network = network, fs_read_capability = None, fs_jobs = jobs, fs_refetch_checks = [],
            fs_cache_operations = [], fs_ingress_auth = []\<rparr>))))))))"

end
