(* ===== verification/Pilot_Policy_Props.thy ===== *)
theory Pilot_Policy_Props
  imports Pilot_Policy
begin

text \<open>
  Preloading and reading an approved image use the same name: how approved URLs split, decode and
  normalise, and the agreement of the two sides.
\<close>

section \<open>Approved URLs split into their parts\<close>

definition plain_char :: "char \<Rightarrow> bool" where
  "plain_char c \<longleftrightarrow> 33 \<le> (of_char c :: int) \<and> (of_char c :: int) \<le> 126 \<and> c \<notin> {CHR ''?'', CHR ''#'', CHR ''%''}"

lemma partition_none: "c \<notin> set s \<Longrightarrow> py_partition c s = (s, False, [])"
  by (simp add: py_partition_not_found)

lemma not_plain: "\<not> plain_char (CHR 0x09)" "\<not> plain_char (CHR 0x0A)" "\<not> plain_char (CHR 0x0D)"
  by (simp_all add: plain_char_def)

lemma plain_not_space: "plain_char c \<Longrightarrow> \<not> py_isspace c"
proof
  assume c: "plain_char c" and "py_isspace c"
  then have "c \<in> set py_whitespace" by (simp add: py_isspace_def)
  moreover have "list_all (\<lambda>c. \<not> plain_char c) py_whitespace" by (simp add: py_whitespace_def plain_char_def)
  ultimately show False using c by (simp add: list_all_iff)
qed

lemma clean_plain: "list_all plain_char s \<Longrightarrow> clean_url s = s"
proof -
  assume s: "list_all plain_char s"
  then have "dropWhile (\<lambda>c. (of_char c :: int) \<le> 32) s = s"
    by (cases s) (simp_all add: plain_char_def)
  moreover have "filter (\<lambda>c. c \<notin> {CHR 0x09, CHR 0x0D, CHR 0x0A}) s = s"
    using s not_plain by (intro filter_True) (auto simp: list_all_iff)
  ultimately show ?thesis by (simp add: clean_url_def)
qed

lemma strip_plain: "list_all plain_char s \<Longrightarrow> py_strip s = s"
  unfolding py_strip_def by (rule strip_by_fix) (metis hd_in_set last_in_set list_all_iff plain_not_space)

lemma unquote_plain: "list_all plain_char s \<Longrightarrow> unquote s = Some s"
proof -
  assume s: "list_all plain_char s"
  have "unquote_tokens s = map (\<lambda>c. Inl (of_char c)) s"
    using s by (induction s) (auto simp: plain_char_def)
  moreover have "list_all plain_char s \<Longrightarrow> utf8_latin1 (map (\<lambda>c. Inl (of_char c)) s) = Some s" for s
    by (induction s) (auto simp: plain_char_def)
  ultimately show ?thesis using s by (simp add: unquote_def)
qed

lemma no_escapes: "list_all plain_char s \<Longrightarrow> \<not> bad_escape s \<and> \<not> ambiguous_escape s"
  by (induction s) (auto simp: plain_char_def)

definition https_parts :: "string \<Rightarrow> string \<Rightarrow> split_result" where
  "https_parts host path = \<lparr>u_scheme = ''https'', u_netloc = host, u_path = path, u_query = [], u_fragment = []\<rparr>"

lemma urlsplit_https:
  assumes "host \<in> {HOST, V3_HOST}" and "list_all plain_char path" and "take 1 path = ''/''"
  shows "urlsplit (''https://'' @ host @ path) = Some (https_parts host path)"
proof -
  let ?url = "''https://'' @ host @ path"
  have plain: "list_all plain_char ?url"
    using assms(1,2) by (auto simp: HOST_def V3_HOST_def plain_char_def)
  have scheme: "split_scheme [] ?url = (''https'', ''//'' @ host @ path)"
    by (simp add: split_scheme_def is_ascii_alpha_def scheme_char_def) code_simp
  obtain p where path: "path = CHR ''/'' # p" using assms(3) by (cases path) auto
  have netloc: "split_netloc (''//'' @ host @ path) = (host, path)"
    using assms(1) by (auto simp: split_netloc_def path HOST_def V3_HOST_def)
  have ok: "netloc_ok host" using assms(1) by (auto simp: netloc_ok_def HOST_def V3_HOST_def)
  have rest: "py_partition (CHR ''#'') path = (path, False, [])" "py_partition (CHR ''?'') path = (path, False, [])"
    using assms(2) by (auto intro!: partition_none simp: list_all_iff plain_char_def)
  show ?thesis
    unfolding urlsplit_def urlsplit_in_def clean_plain [OF plain] scheme netloc split_conv Let_def rest
    by (simp add: ok https_parts_def netloc rest)
qed

lemma no_slash_host: "host \<in> {HOST, V3_HOST} \<Longrightarrow> py_lower host = host \<and> hostinfo host = (host, []) \<and> CHR ''%'' \<notin> set host \<and> host \<noteq> []"
  by (auto simp: HOST_def V3_HOST_def py_lower_def py_lower_char_def hostinfo_def)

section \<open>Approved paths\<close>

lemmas pattern_defs = IMAGE_def V3_IMAGE_def LEGACY_FULL_def ark_page_def rendition_def REGION_def SIZE_def NUMBER_def digit_def

lemma policy_cases:
  "map_of POLICIES host = Some pattern \<Longrightarrow> host = HOST \<and> pattern = IMAGE \<or> host = V3_HOST \<and> pattern = V3_IMAGE"
  by (auto simp: POLICIES_def split: if_splits)

lemma pattern_plain:
  assumes "map_of POLICIES host = Some pattern" and "may_occur pattern c"
  shows "plain_char c"
  using policy_cases [OF assms(1)] assms(2)
  by (auto simp: pattern_defs in_ranges_def plain_char_def)

lemma seq_last:
  assumes "s \<in> lang (seq_of (rs @ [r]))" and "\<not> nullable r"
  shows "s \<noteq> [] \<and> may_occur r (last s)"
proof -
  obtain u v where "s = u @ v" "v \<in> lang r" using assms(1) by (auto simp: lang_seq_append lang_seq_Cons)
  moreover have "v \<noteq> []" using \<open>v \<in> lang r\<close> assms(2) by (auto simp: nullable_lang)
  ultimately show ?thesis using lang_chars [of v r "last v"] by simp
qed

lemma approved_path:
  assumes "map_of POLICIES host = Some pattern" and "fullmatch pattern path"
  shows "list_all plain_char path" and "\<exists>p. path = ''/i'' @ p" and "last path \<noteq> slash"
proof -
  have p: "path \<in> lang pattern" using assms(2) by (simp add: fullmatch_lang)
  show "list_all plain_char path"
    using pattern_plain [OF assms(1)] lang_chars [OF p] by (auto simp: list_all_iff)
  show "\<exists>p. path = ''/i'' @ p"
    using policy_cases [OF assms(1)] p by (auto simp: IMAGE_def V3_IMAGE_def lang_seq_Cons)
  obtain rs formats where "pattern = seq_of (rs @ [any_of (map lit formats)])" "slash \<notin> \<Union> (set ` set formats)" "[] \<notin> set formats"
    using policy_cases [OF assms(1)] that
       [of "lit ''/iiif/'' # ark_page @ butlast (rendition [''jpg'', ''jpeg'', ''tif'', ''tiff''])" "[''jpg'', ''jpeg'', ''tif'', ''tiff'']"]
       that [of "lit ''/iiif/image/v3/'' # ark_page @ butlast (rendition [''jpg'', ''jpeg'', ''tif'', ''tiff'', ''webp''])"
         "[''jpg'', ''jpeg'', ''tif'', ''tiff'', ''webp'']"]
    by (auto simp: IMAGE_def V3_IMAGE_def rendition_def)
  then show "last path \<noteq> slash" using seq_last [of path rs "any_of (map lit formats)"] p
    by (auto simp: nullable_lang)
qed


lemma approved_host: "map_of POLICIES host = Some pattern \<Longrightarrow> host \<in> {HOST, V3_HOST}"
  using policy_cases by blast

definition target_at :: "string \<Rightarrow> string \<Rightarrow> pilot_target" where
  "target_at host path = \<lparr>t_origin_url = ''https://'' @ host @ path, t_path = path, t_host = host\<rparr>"

lemma require_canonical:
  assumes "map_of POLICIES host = Some pattern" and "fullmatch pattern path" and "length (''https://'' @ host @ path) \<le> 2048"
  shows "pilot_require (''https://'' @ host @ path) = Inr (target_at host path)"
proof -
  note path = approved_path [OF assms(1,2)] and host = approved_host [OF assms(1)]
  have slash: "take 1 path = ''/''" using path(2) by auto
  note split = urlsplit_https [OF host path(1) slash]
  have plain: "list_all plain_char (''https://'' @ host @ path)"
    using host path(1) by (auto simp: HOST_def V3_HOST_def plain_char_def)
  then have chars: "list_all (\<lambda>c. 33 \<le> (of_char c :: int) \<and> (of_char c :: int) \<le> 126) (''https://'' @ host @ path)"
    "CHR ''?'' \<notin> set (''https://'' @ host @ path)" "CHR ''#'' \<notin> set (''https://'' @ host @ path)"
    unfolding list_all_iff plain_char_def by blast+
  show ?thesis
    unfolding pilot_require_def split
    using chars assms no_slash_host [OF host] no_escapes [OF path(1)] unquote_plain [OF path(1)]
    by (simp add: https_parts_def Let_def guard_result_def target_at_def)
qed

lemma normalize_canonical:
  assumes "map_of POLICIES host = Some pattern" and "fullmatch pattern path"
  shows "normalize_url (''https://'' @ host @ path) =
    Inr \<lparr>n_scheme = ''https'', n_host = host, n_port = None, n_path = path, n_query = []\<rparr>"
proof -
  note path = approved_path [OF assms(1,2)] and host = approved_host [OF assms(1)]
  have slash: "take 1 path = ''/''" using path(2) by auto
  note split = urlsplit_https [OF host path(1) slash]
  have plain: "list_all plain_char (''https://'' @ host @ path)"
    using host path(1) by (auto simp: HOST_def V3_HOST_def plain_char_def)
  have hn: "url_hostname (https_parts host path) = Some host" "url_port (https_parts host path) = Some None"
    using no_slash_host [OF host] by (simp_all add: url_hostname_def url_port_def https_parts_def partition_none)
  show ?thesis
    unfolding normalize_url_def strip_plain [OF plain] split
    using no_slash_host [OF host] unquote_plain [OF path(1)] path(2,3) hn
    by (auto simp: https_parts_def Let_def guard_result_def py_lower_def py_lower_char_def)
qed

lemma legacy_maps:
  assumes "fullmatch LEGACY_FULL path"
  shows "fullmatch V3_IMAGE (''/iiif/image/v3/'' @ legacy_group path @ ''/full/max/0/default.jpg'')"
    and "length path = length (legacy_group path) + 29"
proof -
  obtain g where g: "g \<in> lang (seq_of ark_page)" "path = ''/iiif/'' @ g @ ''/full/full/0/native.jpg''"
    using assms by (auto simp: fullmatch_lang LEGACY_FULL_def lang_seq_Cons lang_seq_append)
  then have group: "legacy_group path = g" by (simp add: legacy_group_def)
  have "fullmatch (seq_of (rendition [''jpg'', ''jpeg'', ''tif'', ''tiff'', ''webp''])) ''/full/max/0/default.jpg''" by code_simp
  then show "fullmatch V3_IMAGE (''/iiif/image/v3/'' @ legacy_group path @ ''/full/max/0/default.jpg'')"
    using g(1) by (auto simp: group fullmatch_lang V3_IMAGE_def lang_seq_Cons [of "lit s" for s] lang_seq_append)
  show "length path = length (legacy_group path) + 29" unfolding group by (simp add: g(2))
qed


text \<open>Splitting and decoding only shorten.\<close>

lemma partition_length: "length (fst (py_partition c s)) \<le> length s"
  by (induction s) (auto split: prod.splits)

lemma unquote_step: "\<exists>t r. unquote_tokens (c # cs) = t # unquote_tokens r \<and> length r \<le> length cs"
  unfolding unquote_tokens.simps(2)
  by (auto simp del: unquote_tokens.simps split: list.split option.split)

lemma unquote_length: "unquote s = Some p \<Longrightarrow> length p \<le> length s"
proof -
  have "utf8_latin1 ts = Some p \<Longrightarrow> length p \<le> length ts" for ts p
    by (induction ts arbitrary: p rule: utf8_latin1.induct) (fastforce split: if_splits list.splits sum.splits)+
  moreover have "length (unquote_tokens s) \<le> length s"
  proof (induction s rule: length_induct)
    case (1 s)
    then have "length (unquote_tokens r) \<le> length r" if "length r < length s" for r using that by blast
    then show ?case using unquote_step le_trans by (cases s) (simp, metis Suc_le_mono length_Cons less_Suc_eq_le)
  qed
  ultimately show "unquote s = Some p \<Longrightarrow> length p \<le> length s" by (fastforce simp: unquote_def)
qed

lemma urlsplit_length:
  assumes "urlsplit raw = Some parts" and "u_scheme parts = ''https''" and "u_netloc parts \<noteq> []"
  shows "8 + length (u_netloc parts) + length (u_path parts) \<le> length raw"
proof -
  define u where "u = clean_url raw"
  have u: "length u \<le> length raw"
    unfolding u_def clean_url_def by (rule order_trans [OF length_filter_le length_dropWhile_le])
  obtain scheme url where s: "split_scheme [] u = (scheme, url)" by (cases "split_scheme [] u")
  obtain netloc rest where n: "split_netloc url = (netloc, rest)" by (cases "split_netloc url")
  have parts: "u_scheme parts = scheme" "u_netloc parts = netloc" "length (u_path parts) \<le> length rest"
    using assms(1) s n partition_length [of "CHR ''#''" rest] partition_length [of "CHR ''?''" "fst (py_partition (CHR ''#'') rest)"]
    by (auto simp: urlsplit_def urlsplit_in_def u_def [symmetric] split: prod.splits if_splits)
  have "length u = 6 + length url"
  proof -
    obtain pre found post where p: "py_partition (CHR '':'') u = (pre, found, post)" by (metis prod_cases3)
    then have f: "found" "py_lower pre = ''https''" "url = post"
      using s parts(1) assms(2) by (auto simp: split_scheme_def split: if_splits)
    have "length (py_lower pre) = length ''https''" by (simp only: f(2))
    then have "length pre = 5" by (simp add: py_lower_def)
    then show ?thesis using p f by (auto simp: py_partition_found)
  qed
  moreover have "length url = 2 + length netloc + length rest"
  proof -
    have t: "take 2 url = ''//''" "netloc @ rest = drop 2 url"
      using n parts(2) assms(3) takeWhile_dropWhile_id unfolding split_netloc_def by (metis Pair_inject)+
    have "length (take 2 url) = 2" using t(1) by simp
    then have "2 \<le> length url" by simp
    then show ?thesis using arg_cong [of _ _ length, OF t(2)] by simp
  qed
  ultimately show ?thesis using u parts by simp
qed

lemma requireD:
  assumes "pilot_require raw = Inr t"
  shows "\<exists>host pattern path. map_of POLICIES host = Some pattern \<and> fullmatch pattern path \<and> t = target_at host path \<and>
    length (''https://'' @ host @ path) \<le> length raw \<and> length raw \<le> 2048"
proof -
  obtain parts pattern path where
    len: "length raw \<le> 2048" and parts: "urlsplit raw = Some parts" "u_scheme parts = ''https''"
    and pattern: "map_of POLICIES (py_lower (u_netloc parts)) = Some pattern"
    and path: "unquote (u_path parts) = Some path" "fullmatch pattern path"
    and t: "t = target_at (py_lower (u_netloc parts)) path"
    using assms unfolding pilot_require_def
    by (auto simp: bind_result_Inr Let_def target_at_def split: option.splits)
  have "u_netloc parts \<noteq> []" using pattern by (auto simp: POLICIES_def HOST_def V3_HOST_def py_lower_def)
  then have "length (''https://'' @ py_lower (u_netloc parts) @ path) \<le> length raw"
    using urlsplit_length [OF parts] unquote_length [OF path(1)] by (simp add: py_lower_def)
  then show ?thesis using len pattern path(2) t by blast
qed


section \<open>Preloading and reading agree on the name\<close>

lemma uint_of_char: "uint (of_char c :: 8 word) = of_char c"
  unfolding of_int_of_char [symmetric, where 'a = "8 word"] by (simp add: uint_word_of_int_eq take_bit_eq_mod)

lemma plain_bytes:
  "list_all plain_char s \<Longrightarrow> list_all (\<lambda>b. b < 128) (map of_char s :: bytes) \<and> map (\<lambda>b. char_of (uint b)) (map of_char s :: bytes) = s"
  by (induction s) (simp_all add: uint_of_char word_less_def plain_char_def)

lemma read_canonical:
  assumes "map_of POLICIES host = Some pattern" and "fullmatch pattern path" and "length (''https://'' @ host @ path) \<le> 2048"
  shows "require_read (map of_char (''/'' @ host @ path)) [] = Inr (target_at host path)"
proof -
  note path = approved_path [OF assms(1,2)] and host = approved_host [OF assms(1)]
  let ?p = "''/'' @ host @ path"
  have plain: "list_all plain_char ?p" using host path(1) by (auto simp: HOST_def V3_HOST_def plain_char_def)
  note plain_bytes [OF plain]
  moreover have "list_ex (\<lambda>(host, _). prefix (''/'' @ host @ ''/'') ?p) POLICIES"
    using host path(2) by (auto simp: POLICIES_def)
  ultimately show ?thesis
    using require_canonical [OF assms] unfolding require_read_def by (simp add: Let_def guard_result_def del: map_append map_map list_ex_iff)
qed

lemma alias_of_target:
  "fetch_url (target_at host path) = ''https://'' @ host @ path \<Longrightarrow>
   relative_alias (target_at host path) =
     Inr (PARTITION @ ''/'' @ (if host = HOST then [] else host @ ''/'') @ lstrip_char slash path)"
  by (simp add: relative_alias_def target_at_def)

lemma fetch_url_plain: "host \<noteq> HOST \<or> \<not> fullmatch LEGACY_FULL path \<Longrightarrow> fetch_url (target_at host path) = ''https://'' @ host @ path"
  by (auto simp: fetch_url_def target_at_def)

lemma match_canonical:
  assumes "map_of POLICIES host = Some pattern" and "fullmatch pattern path" and "length (''https://'' @ host @ path) \<le> 2048"
    and "host \<noteq> HOST \<or> \<not> fullmatch LEGACY_FULL path" and "u = ''https://'' @ host @ path"
  shows "\<exists>n m. normalize_url u = Inr n \<and> canonical_url n = u \<and> pilot_match n = Inr (Some m) \<and>
    rm_mirror_id m = PARTITION \<and> relative_alias (target_at host path) = Inr (PARTITION @ ''/'' @ primary_alias m)"
  using normalize_canonical [OF assms(1,2)] require_canonical [OF assms(1-3)] alias_of_target [OF fetch_url_plain [OF assms(4)]]
  by (simp add: assms(5) canonical_url_def pilot_match_def removeprefix_def primary_alias_def)

text \<open>The image that is fetched for a target: an approved one that is no legacy name, of the same alias.\<close>

lemma fetch_target:
  assumes "map_of POLICIES host = Some pattern" and "fullmatch pattern path"
  shows "\<exists>host' pattern' path'. map_of POLICIES host' = Some pattern' \<and> fullmatch pattern' path' \<and>
    (host' \<noteq> HOST \<or> \<not> fullmatch LEGACY_FULL path') \<and> fetch_url (target_at host path) = ''https://'' @ host' @ path' \<and>
    relative_alias (target_at host path) = relative_alias (target_at host' path') \<and>
    length (''https://'' @ host' @ path') \<le> length (''https://'' @ host @ path) + 9"
proof (cases "host = HOST \<and> fullmatch LEGACY_FULL path")
  case False
  then have plain: "host \<noteq> HOST \<or> \<not> fullmatch LEGACY_FULL path" by simp
  show ?thesis
    by (rule exI [of _ host], rule exI [of _ pattern], rule exI [of _ path]) (use assms plain fetch_url_plain [OF plain] in simp)
next
  case True
  define path' where "path' = ''/iiif/image/v3/'' @ legacy_group path @ ''/full/max/0/default.jpg''"
  have pol: "map_of POLICIES V3_HOST = Some V3_IMAGE" by (simp add: POLICIES_def HOST_def V3_HOST_def)
  have full: "fullmatch V3_IMAGE path'" and len: "length path = length (legacy_group path) + 29"
    using legacy_maps True by (simp_all add: path'_def)
  have url: "fetch_url (target_at host path) = ''https://'' @ V3_HOST @ path'" using True by (simp add: target_at_def fetch_url_def path'_def)
  have v3: "V3_HOST \<noteq> HOST" by (simp add: HOST_def V3_HOST_def)
  have ne: "fetch_url (target_at host path) \<noteq> t_origin_url (target_at host path)"
    unfolding url using True by (simp add: target_at_def HOST_def V3_HOST_def)
  have split: "urlsplit (fetch_url (target_at host path)) = Some (https_parts V3_HOST path')"
    unfolding url using approved_path [OF pol full] by (intro urlsplit_https) auto
  have rel: "relative_alias (target_at host path) = relative_alias (target_at V3_HOST path')"
    unfolding alias_of_target [OF fetch_url_plain [OF disjI1 [OF v3]]] using ne split v3
    by (simp add: relative_alias_def https_parts_def)
  have "length (''https://'' @ V3_HOST @ path') \<le> length (''https://'' @ host @ path) + 9"
    using True len by (simp add: path'_def HOST_def V3_HOST_def)
  then show ?thesis using pol full v3 url rel by blast
qed

text \<open>
  C38: Preloading and reading agree on the name of an image. An approved URL, however it spells its
  host and escapes its path, is fetched at an approved canonical URL that normalisation keeps;
  the rule applied there stores it under the very name that a read of the image's own path looks up,
  in the partition of the pilot.
\<close>

theorem preload_read_alias:
  assumes "pilot_require raw = Inr t" and "length raw \<le> 2039"
  shows "\<exists>n m. normalize_url (fetch_url t) = Inr n \<and> canonical_url n = fetch_url t \<and> is_ok (pilot_require (fetch_url t)) \<and>
     pilot_match n = Inr (Some m) \<and> rm_mirror_id m = PARTITION \<and>
     relative_alias t = Inr (PARTITION @ ''/'' @ primary_alias m) \<and>
     require_read (map of_char (''/'' @ t_host t @ t_path t)) [] = Inr t"
proof -
  obtain host pattern path where p: "map_of POLICIES host = Some pattern" "fullmatch pattern path"
    "length (''https://'' @ host @ path) \<le> length raw" "length raw \<le> 2048" and t: "t = target_at host path"
    using requireD [OF assms(1)] by blast
  obtain host' pattern' path' where q: "map_of POLICIES host' = Some pattern'" "fullmatch pattern' path'"
    "host' \<noteq> HOST \<or> \<not> fullmatch LEGACY_FULL path'" and url: "fetch_url t = ''https://'' @ host' @ path'"
    and rel: "relative_alias t = relative_alias (target_at host' path')"
    and len: "length (''https://'' @ host' @ path') \<le> length (''https://'' @ host @ path) + 9"
    using fetch_target [OF p(1,2)] unfolding t by blast
  have len': "length (''https://'' @ host' @ path') \<le> 2048" using len p(3) assms(2) by linarith
  have "require_read (map of_char (''/'' @ t_host t @ t_path t)) [] = Inr t"
    using read_canonical [OF p(1,2) order_trans [OF p(3,4)]] by (simp add: t target_at_def)
  then show ?thesis
    using match_canonical [OF q(1,2) len' q(3) url] require_canonical [OF q(1,2) len'] url rel by auto
qed

definition demo_url :: string where
  "demo_url = ''https://Gallica.bnf.fr/iiif/ark%3A/12148/b6/f1/full/full/0/native.jpg''"

definition demo_target :: pilot_target where
  "demo_target = target_at HOST ''/iiif/ark:/12148/b6/f1/full/full/0/native.jpg''"

theorem preload_read_alias_witness:
  "pilot_require demo_url = Inr demo_target \<and>
   (\<exists>n m. normalize_url (fetch_url demo_target) = Inr n \<and> canonical_url n = fetch_url demo_target \<and>
     is_ok (pilot_require (fetch_url demo_target)) \<and> pilot_match n = Inr (Some m) \<and> rm_mirror_id m = PARTITION \<and>
     relative_alias demo_target = Inr (PARTITION @ ''/'' @ primary_alias m) \<and>
     require_read (map of_char (''/'' @ t_host demo_target @ t_path demo_target)) [] = Inr demo_target)"
proof -
  have r: "pilot_require demo_url = Inr demo_target" by code_simp
  have "length demo_url \<le> 2039" by (simp add: demo_url_def)
  with preload_read_alias [OF r] r show ?thesis by blast
qed

end
