(* ===== verification/Pilot_Names.thy ===== *)
theory Pilot_Names
  imports Pilot_Policy_Props Guard_Props
begin

text \<open>
  The names under which approved images are kept are canonical paths of the asset store below the
  pilot's partition, so that uploading binds the very name that was asked for.
\<close>

section \<open>Names of approved images\<close>

definition solid :: "string \<Rightarrow> bool" where
  "solid s \<longleftrightarrow> slash \<notin> set s \<and> s \<notin> {[], ''.'', ''..''}"

lemma solidI: "slash \<notin> set s \<Longrightarrow> c \<in> set s \<Longrightarrow> c \<noteq> CHR ''.'' \<Longrightarrow> solid s"
  by (auto simp: solid_def)

lemma solid_word:
  assumes "s \<in> lang r" and "\<not> may_occur r slash" and "c \<in> set s" and "c \<noteq> CHR ''.''"
  shows "solid s"
  by (rule solidI [OF _ assms(3,4)]) (use lang_chars [OF assms(1)] assms(2) in blast)

lemma many1_first: "s \<in> lang (many1 (Chars rs)) \<Longrightarrow> \<exists>c. c \<in> set s \<and> in_ranges rs c"
  by (auto simp: lang_many1)

lemma number_first: "s \<in> lang NUMBER \<Longrightarrow> \<exists>c. c \<in> set s \<and> c \<noteq> CHR ''.''"
  using many1_first [of _ "[(CHR ''0'', CHR ''9'')]"]
  by (fastforce simp: NUMBER_def digit_def lang_seq_Cons in_ranges_def)

lemma segments_solid:
  "r \<in> lang REGION \<Longrightarrow> solid r" "z \<in> lang SIZE \<Longrightarrow> solid z"
proof -
  assume r: "r \<in> lang REGION"
  then have "\<exists>c. c \<in> set r \<and> c \<noteq> CHR ''.''" by (auto simp: REGION_def lang_seq_Cons; force)
  then show "solid r" by (elim exE conjE, intro solid_word [OF r]) (auto simp: REGION_def NUMBER_def digit_def in_ranges_def)
next
  assume z: "z \<in> lang SIZE"
  then have "\<exists>c. c \<in> set z \<and> c \<noteq> CHR ''.''" by (auto simp: SIZE_def lang_seq_Cons; force)
  then show "solid z" by (elim exE conjE, intro solid_word [OF z]) (auto simp: SIZE_def NUMBER_def digit_def in_ranges_def)
qed

lemma rendition_segments:
  assumes "s \<in> lang (seq_of (rendition formats))" and "\<forall>f \<in> set formats. slash \<notin> set f"
  shows "\<exists>segs. s = slash # join_with slash segs \<and> segs \<noteq> [] \<and> (\<forall>w \<in> set segs. solid w)"
proof -
  obtain region sz bang number quality fmt where s: "s = ''/'' @ region @ ''/'' @ sz @ ''/'' @ bang @ number @ ''/'' @ quality @ ''.'' @ fmt"
    and l: "region \<in> lang REGION" "sz \<in> lang SIZE" "bang \<in> lang (maybe (lit ''!''))" "number \<in> lang NUMBER"
      "quality \<in> lang (any_of [lit ''native'', lit ''default'', lit ''color'', lit ''gray'', lit ''bitonal''])" "fmt \<in> set formats"
    using assms(1) by (auto simp: rendition_def lang_seq_Cons simp del: lang.simps lang_any_Cons lang_maybe)
  have rot: "solid (bang @ number)"
  proof -
    have "slash \<notin> set number" using lang_chars [OF l(4), of slash] by (auto simp: NUMBER_def digit_def in_ranges_def)
    then show ?thesis using number_first [OF l(4)] l(3) by (auto intro: solidI)
  qed
  have leaf: "solid (quality @ ''.'' @ fmt)"
  proof (rule solidI [where c = "hd quality"])
    show "slash \<notin> set (quality @ ''.'' @ fmt)" using l(5,6) assms(2) by auto
    show "hd quality \<in> set (quality @ ''.'' @ fmt)" "hd quality \<noteq> CHR ''.''" using l(5) by auto
  qed
  show ?thesis
    by (rule exI [of _ "[region, sz, bang @ number, quality @ ''.'' @ fmt]"]) (simp add: s segments_solid l rot leaf [simplified])
qed

lemma ark_segments:
  assumes "g \<in> lang (seq_of ark_page)"
  shows "\<exists>segs. g = join_with slash segs \<and> segs \<noteq> [] \<and> (\<forall>w \<in> set segs. solid w)"
proof -
  let ?alnum = "[(CHR ''A'', CHR ''Z''), (CHR ''a'', CHR ''z''), (CHR ''0'', CHR ''9'')]"
  obtain w c ds where g: "g = ''ark:/12148/'' @ w @ ''/f'' @ [c] @ ds"
    and l: "w \<in> lang (many1 (Chars ?alnum))" "in_ranges [(CHR ''1'', CHR ''9'')] c" "ds \<in> lang (Many digit)"
    using assms by (auto simp: ark_page_def lang_seq_Cons simp del: lang.simps(6))
  obtain x where "x \<in> set w" "in_ranges ?alnum x" using many1_first [OF l(1)] by blast
  then have w: "solid w" by (intro solid_word [OF l(1)]) (auto simp: in_ranges_def)
  have "slash \<notin> set ds" using lang_chars [OF l(3), of slash] by (auto simp: digit_def in_ranges_def)
  then have page: "solid (''f'' @ [c] @ ds)" using l(2) by (intro solidI [where c = "CHR ''f''"]) (auto simp: in_ranges_def)
  show ?thesis
    by (rule exI [of _ "[''ark:'', ''12148'', w, ''f'' @ [c] @ ds]"]) (use g w page in \<open>simp add: solid_def\<close>)
qed


lemma join_append:
  "xs \<noteq> [] \<Longrightarrow> ys \<noteq> [] \<Longrightarrow> join_with c xs @ c # join_with c ys = join_with c (xs @ ys)"
proof (induction xs rule: induct_list012)
  case (2 x)
  then show ?case by (cases ys) auto
qed auto

text \<open>The name of an approved path below its partition: solid segments.\<close>

lemma approved_segments:
  assumes "map_of POLICIES host = Some pattern" and "fullmatch pattern path"
  shows "\<exists>segs. path = slash # join_with slash segs \<and> segs \<noteq> [] \<and> (\<forall>w \<in> set segs. solid w)"
proof -
  obtain pre formats where pat: "pattern = seq_of (lit (slash # join_with slash pre @ ''/'') # ark_page @ rendition formats)"
    and pre: "pre \<noteq> []" "\<forall>w \<in> set pre. solid w" and formats: "\<forall>f \<in> set formats. slash \<notin> set f"
    using policy_cases [OF assms(1)] that [of "[''iiif'']" "[''jpg'', ''jpeg'', ''tif'', ''tiff'']"]
      that [of "[''iiif'', ''image'', ''v3'']" "[''jpg'', ''jpeg'', ''tif'', ''tiff'', ''webp'']"]
    by (auto simp: IMAGE_def V3_IMAGE_def solid_def)
  obtain g s where path: "path = (slash # join_with slash pre @ ''/'') @ g @ s"
    and g: "g \<in> lang (seq_of ark_page)" and s: "s \<in> lang (seq_of (rendition formats))"
    using assms(2) by (auto simp: fullmatch_lang pat lang_seq_Cons [of "lit x" for x] lang_seq_append)
  obtain gs where gs: "g = join_with slash gs" "gs \<noteq> []" "\<forall>w \<in> set gs. solid w" using ark_segments [OF g] by blast
  obtain ss where ss: "s = slash # join_with slash ss" "ss \<noteq> []" "\<forall>w \<in> set ss. solid w"
    using rendition_segments [OF s formats] by blast
  have "path = slash # join_with slash (pre @ gs @ ss)"
    using pre(1) gs(2) ss(2) by (simp add: path gs(1) ss(1) join_append)
  then show ?thesis using pre gs ss by (intro exI [of _ "pre @ gs @ ss"]) auto
qed

lemma solid_canonical:
  assumes "segs \<noteq> []" and "\<forall>w \<in> set segs. solid w" and "list_all plain_char (join_with slash segs)"
  shows "canonical (join_with slash segs)"
proof -
  have split: "split_on slash (join_with slash segs) = segs" using assms(1,2) by (intro split_join) (auto simp: solid_def)
  have ne: "join_with slash segs \<noteq> []" using assms(1,2) by (cases "(slash, segs)" rule: join_with.cases) (auto simp: solid_def)
  have "hd (join_with slash segs) \<in> set (join_with slash segs)" "last (join_with slash segs) \<in> set (join_with slash segs)"
    using ne by simp_all
  then show ?thesis
    using split ne assms(2,3) plain_not_space
    by (auto simp: canonical_def valid_path_def list_ex_iff bad_segment_def solid_def list_all_iff)
qed

definition pilot_alias :: "string \<Rightarrow> parsed_alias" where
  "pilot_alias name = \<lparr>p_space = ''cache'', p_relative = PARTITION @ ''/'' @ name, p_partition_id = PARTITION,
     p_alias_in_partition = name, p_qualified = ''cache/'' @ PARTITION @ ''/'' @ name\<rparr>"

lemma pilot_alias_parsed:
  assumes "canonical name" and "\<not> prefix PARTITION name"
  shows "parse_alias (''cache/'' @ PARTITION @ ''/'' @ name) = Inr (pilot_alias name)"
    and "canonical (p_partition_id (pilot_alias name))" "canonical (p_alias_in_partition (pilot_alias name))"
      "canonical (p_relative (pilot_alias name))"
      "alias_under_partition (p_partition_id (pilot_alias name)) (p_alias_in_partition (pilot_alias name)) = Inr (p_relative (pilot_alias name))"
proof -
  have part: "canonical PARTITION" "slash \<notin> set PARTITION" "normalize_partition_id PARTITION = Inr PARTITION" by code_simp+
  have space: "normalize_space ''cache'' = Inr ''cache''" "canonical ''cache''" by code_simp+
  have rel: "canonical (PARTITION @ slash # name)" using part assms(1) by simp
  have full: "canonical (''cache'' @ slash # PARTITION @ slash # name)" by (rule canonical_append [OF space(2) rel])
  have p: "py_partition slash (''cache'' @ slash # PARTITION @ slash # name) = (''cache'', True, PARTITION @ slash # name)"
    "py_partition slash (PARTITION @ slash # name) = (PARTITION, True, name)"
    using part(2) by (simp_all only: py_partition_found) simp_all
  have "name \<noteq> []" using assms(1) by (auto simp: canonical_def valid_path_def)
  then have "parse_alias (''cache'' @ slash # PARTITION @ slash # name) = Inr (pilot_alias name)"
    using full rel part space assms(1)
    by (simp add: parse_alias_def p canonical_strip [OF full] valid_path_strip [OF conjunct1 [OF full [unfolded canonical_def]]]
        canonical_normal qualified_alias_def pilot_alias_def del: py_partition.simps append_Cons)
  then show "parse_alias (''cache/'' @ PARTITION @ ''/'' @ name) = Inr (pilot_alias name)" by simp
  show "canonical (p_partition_id (pilot_alias name))" "canonical (p_alias_in_partition (pilot_alias name))"
      "canonical (p_relative (pilot_alias name))" using part rel assms by (simp_all add: pilot_alias_def)
  show "alias_under_partition (p_partition_id (pilot_alias name)) (p_alias_in_partition (pilot_alias name)) = Inr (p_relative (pilot_alias name))"
    using assms part by (auto simp: pilot_alias_def alias_under_partition_def canonical_normal dest: append_prefixD)
qed

lemma join_hd: "segs \<noteq> [] \<Longrightarrow> \<forall>w \<in> set segs. solid w \<Longrightarrow> \<exists>c s. join_with slash segs = c # s \<and> c \<noteq> slash"
  by (cases "(slash, segs)" rule: join_with.cases) (auto simp: solid_def neq_Nil_conv)

text \<open>The name of an approved image below the pilot's partition.\<close>

lemma approved_name:
  assumes "map_of POLICIES host = Some pattern" and "fullmatch pattern path" and "host \<noteq> HOST \<or> \<not> fullmatch LEGACY_FULL path"
  shows "\<exists>name. relative_alias (target_at host path) = Inr (PARTITION @ ''/'' @ name) \<and> canonical name \<and> \<not> prefix PARTITION name"
proof -
  obtain segs where segs: "path = slash # join_with slash segs" "segs \<noteq> []" "\<forall>w \<in> set segs. solid w"
    using approved_segments [OF assms(1,2)] by blast
  note path = approved_path [OF assms(1,2)]
  have tail: "lstrip_char slash path = join_with slash segs"
    using join_hd [OF segs(2,3)] by (auto simp: segs(1) lstrip_char_def)
  have plain: "list_all plain_char (join_with slash segs)" using path(1) by (simp add: segs(1))
  obtain i where i: "join_with slash segs = CHR ''i'' # i" using path(2) by (auto simp: segs(1))
  note rel = alias_of_target [OF fetch_url_plain [OF assms(3)]]
  show ?thesis
  proof (cases "host = HOST")
    case True
    then show ?thesis using rel solid_canonical [OF segs(2,3) plain] by (simp add: tail i PARTITION_def)
  next
    case False
    then have host: "host = V3_HOST" using approved_host [OF assms(1)] by blast
    have "solid V3_HOST" "list_all plain_char V3_HOST" by (simp_all add: solid_def V3_HOST_def plain_char_def)
    then have "canonical (join_with slash (V3_HOST # segs))"
      using segs plain by (intro solid_canonical) (cases segs; simp add: plain_char_def)+
    moreover have "join_with slash (V3_HOST # segs) = V3_HOST @ slash # join_with slash segs" using segs(2) by (cases segs) auto
    ultimately show ?thesis using rel False by (simp add: tail host) (simp add: PARTITION_def V3_HOST_def)
  qed
qed

lemma preload_name:
  assumes "pilot_require raw = Inr t" and "normalize_url (fetch_url t) = Inr n" and "pilot_match n = Inr (Some m)"
  shows "rm_mirror_id m = PARTITION \<and> relative_alias t = Inr (PARTITION @ ''/'' @ primary_alias m) \<and> canonical_url n = fetch_url t \<and>
    canonical (primary_alias m) \<and> \<not> prefix PARTITION (primary_alias m)"
proof -
  obtain host pattern path where p: "map_of POLICIES host = Some pattern" "fullmatch pattern path" and t: "t = target_at host path"
    using requireD [OF assms(1)] by blast
  obtain host' pattern' path' where q: "map_of POLICIES host' = Some pattern'" "fullmatch pattern' path'"
    "host' \<noteq> HOST \<or> \<not> fullmatch LEGACY_FULL path'" and url: "fetch_url t = ''https://'' @ host' @ path'"
    and rel: "relative_alias t = relative_alias (target_at host' path')"
    using fetch_target [OF p] unfolding t by blast
  have can: "canonical_url n = fetch_url t"
    using normalize_canonical [OF q(1,2)] assms(2) unfolding url by (auto simp: canonical_url_def)
  obtain t' where "pilot_require (fetch_url t) = Inr t'" using assms(3) by (auto simp: pilot_match_def can bind_result_Inr)
  then have "length (fetch_url t) \<le> 2048" using requireD by blast
  then show ?thesis
    using match_canonical [OF q(1,2) _ q(3) url] approved_name [OF q] assms(2,3) rel by (auto simp: url)
qed

end
