(* ===== verification/Pilot_Store.thy ===== *)
theory Pilot_Store
  imports Pilot Pilot_Names Api_Props
begin

text \<open>
  The fetcher and the asset store together: the modelled HTTP application of the store as the wire of
  the fetcher's client, and what an upload through it leaves for later reads.
\<close>

section \<open>Percent-encoding is undone\<close>

lemma upper_hex_value: "0 \<le> n \<Longrightarrow> n < 16 \<Longrightarrow> hex_char_value (upper_hex n) = Some n"
proof -
  assume n: "0 \<le> n" "n < 16"
  have "\<forall>k \<in> {0..<16}. hex_char_value (upper_hex k) = Some k" by code_simp
  then show ?thesis using n by simp
qed

lemma tokens_percent:
  "0 \<le> n \<Longrightarrow> n < 256 \<Longrightarrow>
   unquote_tokens (CHR ''%'' # upper_hex (n div 16) # upper_hex (n mod 16) # s) = Inl n # unquote_tokens s"
  by (simp add: upper_hex_value)

lemma tokens_byte: "unquote_tokens (quote_byte b @ s) = Inl (uint b) # unquote_tokens s"
proof (cases "unreserved (char_of (uint b)) \<or> char_of (uint b) = slash")
  case True
  define c where "c = (char_of (uint b) :: char)"
  have b: "uint b = of_char c" using uint_lt2p [of b] by (simp add: c_def)
  have "c \<noteq> CHR ''%'' \<and> (of_char c :: int) < 128"
    using True unfolding c_def [symmetric] by (auto simp: unreserved_def is_ascii_alpha_def dec_digit_def Let_def)
  then show ?thesis using True unfolding quote_byte_def Let_def b by (simp add: c_def [symmetric])
next
  case False
  have "uint b < 256" using uint_lt2p [of b] by simp
  then show ?thesis using False tokens_percent [of "uint b" s] by (simp add: quote_byte_def Let_def del: unquote_tokens.simps)
qed

lemma tokens_quoted: "unquote_tokens (concat (map quote_byte bs) @ s) = map (\<lambda>b. Inl (uint b)) bs @ unquote_tokens s"
  by (induction bs) (simp_all add: tokens_byte del: unquote_tokens.simps)

lemma latin1_char: "utf8_latin1 (map (\<lambda>b. Inl (uint b)) (utf8_char c) @ ts) = map_option (Cons c) (utf8_latin1 ts)"
proof -
  define n where "n = (of_char c :: nat)"
  have n: "n < 256" unfolding n_def by (rule of_char_less)
  have c: "char_of (int n) = c" unfolding n_def of_nat_of_char by simp
  have byte: "uint (of_nat m :: 8 word) = int m" if "m < 256" for m
    using that by (simp add: unsigned_of_nat take_bit_nat_eq_self)
  show ?thesis
  proof (cases "n < 128")
    case True
    then show ?thesis using byte [of n] c by (simp add: utf8_char_def n_def [symmetric])
  next
    case False
    define h where "h = n div 64"
    have h: "h = 2 \<or> h = 3" using False n unfolding h_def by auto
    have bytes: "uint (of_nat (192 + h) :: 8 word) = int (192 + h)" "uint (of_nat (128 + n mod 64) :: 8 word) = int (128 + n mod 64)"
    proof -
      show "uint (of_nat (192 + h) :: 8 word) = int (192 + h)" by (rule byte) (use h in auto)
      have "n mod 64 < 64" by simp
      then show "uint (of_nat (128 + n mod 64) :: 8 word) = int (128 + n mod 64)" by (intro byte) simp
    qed
    have "64 * int h + int (n mod 64) = int n" unfolding h_def by (simp add: zdiv_int zmod_int)
    then have val: "char_of (64 * int h + int (n mod 64)) = c" using c by simp
    show ?thesis
      unfolding utf8_char_def Let_def n_def [symmetric] if_not_P [OF False] h_def [symmetric] list.map bytes append.simps utf8_latin1.simps
      using h val by auto
  qed
qed

lemma unquote_quote: "unquote (quote s) = Some s"
proof -
  have "utf8_latin1 (map (\<lambda>b. Inl (uint b)) (utf8_encode s)) = Some s"
    by (induction s) (simp_all add: utf8_encode_def latin1_char)
  then show ?thesis using tokens_quoted [of "utf8_encode s" "[]"] by (simp add: unquote_def quote_def)
qed

section \<open>An image in the store\<close>

text \<open>
  A name is bound to an asset whose bytes are in the store. Resolving, minting and reading keep it so.
\<close>

definition image_reg :: "string \<Rightarrow> asset \<Rightarrow> registry \<Rightarrow> bool" where
  "image_reg k a r \<longleftrightarrow>
     (\<exists>b. map_of (r_aliases r) k = Some b \<and> b_asset_id b = Some (a_asset_id a)) \<and>
     (\<exists>x. map_of (r_assets r) (a_asset_id a) = Some x \<and> a_asset_id x = a_asset_id a \<and> a_space x = a_space a \<and>
        a_partition_id x = a_partition_id a \<and> a_mime x = a_mime a)"

definition image_world :: "string \<Rightarrow> asset \<Rightarrow> bytes \<Rightarrow> local_store world \<Rightarrow> bool" where
  "image_world k a d w \<longleftrightarrow> image_reg k a (w_registry w) \<and>
     (\<exists>l. location_for_asset (a_space a) (a_partition_id a) (a_asset_id a) = Inr l \<and> local_contents (w_store w) (object_key l) = Some d)"

definition image_app :: "string \<Rightarrow> asset \<Rightarrow> bytes \<Rightarrow> local_store app \<Rightarrow> bool" where
  "image_app k a d x \<longleftrightarrow> image_world k a d (ap_world x)"

named_theorems image_intros \<open>operations that keep an image in the store\<close>

lemma image_reg_ticks [simp]: "image_reg k a (r\<lparr>r_ticks := n\<rparr>) = image_reg k a r"
  by (simp add: image_reg_def)

lemma image_registry [image_intros]:
  "keeps (image_reg k a) (resolve_alias sp al)" "keeps (image_reg k a) utcnow" "keeps (image_reg k a) (get_bucket_quota sp)"
  "keeps (image_reg k a) (record_capability_issue c op scope ttl out cid)" "keeps (image_reg k a) (record_read i)"
proof -
  show "keeps (image_reg k a) (resolve_alias sp al)"
    unfolding keeps_def using resolve_alias_frame [of sp al] by (metis image_reg_ticks)
  show "keeps (image_reg k a) utcnow" "keeps (image_reg k a) (get_bucket_quota sp)"
    by (simp_all add: keeps_wp utcnow_def wp_simps get_bucket_quota_def split: sum.split)
  show "keeps (image_reg k a) (record_capability_issue c op scope ttl out cid)"
    by (simp add: keeps_wp record_capability_issue_def audit_def utcnow_def wp_simps image_reg_def Let_def)
  show "keeps (image_reg k a) (record_read i)"
    by (auto simp: keeps_wp record_read_def get_asset_def put_asset_def utcnow_def wp_simps image_reg_def split: option.split)
qed

lemma image_on_registry [image_intros]: "keeps (image_reg k a) m \<Longrightarrow> keeps (image_world k a d) (on_registry m)"
  unfolding on_registry_def by (erule keeps_part) (simp_all add: image_world_def)

lemma image_on_ledger [image_intros]: "keeps (image_world k a d) (on_ledger m)"
  unfolding on_ledger_def by (rule keeps_part [where J = "\<lambda>_. True"]) (simp_all add: image_world_def keeps_def)

lemma image_get_object [image_intros]: "keeps (image_world k a d) (on_objects (bk_get_object local_backend l))"
  by (simp add: keeps_wp wp_on_objects local_backend_def local_get_object_def wp_simps image_world_def split: option.split)

lemma image_clock [image_intros]: "keeps (image_world k a d) clock_now"
  unfolding clock_now_def by (intro image_intros)

lemma image_read [image_intros]: "keeps (image_world k a d) (read_bytes local_backend cap al)"
  unfolding read_bytes_def resolve_for_read_def authorize_def by (intro image_intros keeps_intros)

lemma image_prune [image_intros]: "keeps (image_world k a d) prune_consumed_capabilities"
  unfolding prune_consumed_capabilities_def by (intro image_intros keeps_intros)

lemma image_on_world [image_intros]: "keeps (image_world k a d) m \<Longrightarrow> keeps (image_app k a d) (on_world m)"
  unfolding on_world_def by (erule keeps_part) (simp_all add: image_app_def)

lemma image_on_reg [image_intros]: "keeps (image_reg k a) m \<Longrightarrow> keeps (image_app k a d) (on_reg m)"
  unfolding on_reg_def by (intro image_intros)

lemma image_parts [image_intros]:
  "keeps (image_app k a d) (on_limiter m)" "keeps (image_app k a d) (on_capabilities m')"
  "keeps (image_app k a d) monotonic_op" "keeps (image_app k a d) uuid4_hex" "keeps (image_app k a d) (count_issued op x)"
  by (simp_all add: keeps_def on_limiter_def on_capabilities_def on_part_def monotonic_op_def uuid4_hex_def count_issued_def modify_def
      image_app_def split: prod.split)

lemma image_now [image_intros]: "keeps (image_app k a d) now_op"
  unfolding now_op_def by (intro image_intros)

lemma image_issue [image_intros]:
  assumes "keeps (image_reg k a) g"
  shows "keeps (image_app k a d) (on_issue (issue now cap g))"
proof -
  have "keeps (\<lambda>(c, r). image_reg k a r) (issue now cap g)"
    using assms unfolding keeps_wp issue_def store_prune_def
    by (simp add: wp_simps Capabilities.on_store_def on_rest_def split_beta)
  then show ?thesis
    unfolding on_issue_def by (rule keeps_part) (auto simp: image_app_def image_world_def)
qed

lemma image_routes:
  "keeps (image_app k a d) (route local_backend (Resolve h sp al))" "keeps (image_app k a d) (route local_backend (MintCapability h b))"
  "keeps (image_app k a d) (route local_backend (ReadObject h al' ''proxy'' n))"
proof -
  have rate: "keeps (image_app k a d) (case e of CapabilityRateError n \<Rightarrow> count_issued op x | _ \<Rightarrow> ret ())" for e op x
    by (cases e) (simp_all add: image_intros keeps_intros)
  show "keeps (image_app k a d) (route local_backend (Resolve h sp al))"
    unfolding route.simps resolve_def require_service_identity_def by (intro image_intros keeps_intros)
  show "keeps (image_app k a d) (route local_backend (MintCapability h b))"
    unfolding route.simps mint_capability_def require_service_identity_def by (intro image_intros keeps_intros rate)
  show "keeps (image_app k a d) (route local_backend (ReadObject h al' ''proxy'' n))"
    unfolding route.simps read_object_route_def require_capability_dep_def by simp (intro image_intros keeps_intros)
qed


section \<open>A successful upload\<close>

text \<open>When only what follows matters.\<close>

lemma wp_bind_any: "(\<And>x t. wp (f x) Q (\<lambda>_ _. True) t) \<Longrightarrow> wp (bind_op m f) Q (\<lambda>_ _. True) s"
  unfolding wp_bind by (rule wp_mono [OF wp_True]) simp_all

lemma wp_seq_any: "(\<And>t. wp n Q (\<lambda>_ _. True) t) \<Longrightarrow> wp (seq_op m n) Q (\<lambda>_ _. True) s"
  unfolding seq_op_def by (rule wp_bind_any)

lemma wp_bind_keeps:
  "keeps I m \<Longrightarrow> I s \<Longrightarrow> (\<And>x t. I t \<Longrightarrow> wp (f x) Q (\<lambda>_ _. True) t) \<Longrightarrow> wp (bind_op m f) Q (\<lambda>_ _. True) s"
  unfolding wp_bind keeps_wp by (rule wp_mono, blast) simp_all

lemma wp_seq_keeps:
  "keeps I m \<Longrightarrow> I s \<Longrightarrow> (\<And>t. I t \<Longrightarrow> wp n Q (\<lambda>_ _. True) t) \<Longrightarrow> wp (seq_op m n) Q (\<lambda>_ _. True) s"
  unfolding seq_op_def by (rule wp_bind_keeps)

lemma commit_mime:
  "mime \<noteq> [] \<Longrightarrow> wp (commit_asset i n c s (Some mime) ec) (\<lambda>a _. a_mime a = Some mime) (\<lambda>_ _. True) r"
  unfolding commit_asset_def Let_def
  by (intro wp_bind_any wp_seq_any) (simp add: wp_simps str_or_def split: list.split)

lemma wp_try_raise: "wp m Q (\<lambda>_ _. True) s \<Longrightarrow> wp (try_op m (\<lambda>e. seq_op (h e) (raise e))) Q (\<lambda>_ _. True) s"
  unfolding wp_try by (erule wp_mono) (auto intro: wp_seq_any simp: wp_raise)

lemma wp_then: "wp m (\<lambda>x _. P x) (\<lambda>_ _. True) s \<Longrightarrow> (\<And>x t. P x \<Longrightarrow> wp (f x) Q (\<lambda>_ _. True) t) \<Longrightarrow> wp (bind_op m f) Q (\<lambda>_ _. True) s"
  unfolding wp_bind by (erule wp_mono) simp_all

lemma write_mime:
  assumes "mime \<noteq> []"
  shows "wp (write_object B cap al d mut (Some mime) ec ttl) (\<lambda>a _. a_mime a = Some mime) (\<lambda>_ _. True) w"
  unfolding write_object_def
  by (rule wp_bind_any, rule wp_bind_any, rule wp_seq_any, rule wp_bind_any, rule wp_then [where P = "\<lambda>a. a_mime a = Some mime"],
      rule wp_try_raise, rule wp_bind_any, rule wp_seq_any, rule wp_bind_any, simp add: wp_on_registry commit_mime [OF assms],
      rule wp_bind_any, rule wp_seq_any, simp add: wp_ret)

lemma image_observe [image_intros]: "keeps (image_app k a d) (observe_bucket_fill sp)"
proof -
  have "keeps (image_app k a d) (modify (\<lambda>x. x\<lparr>ap_bucket_fill_ratio := f x\<rparr>))" for f
    by (simp add: keeps_def modify_def image_app_def)
  then show ?thesis unfolding observe_bucket_fill_def by (intro image_intros keeps_intros)
qed

text \<open>The part of \<open>uploaded\<close> that later reads rest on.\<close>

lemma uploaded_image:
  assumes "uploaded w p d a w'" and "parse_alias al = Inr p"
    and "canonical (p_partition_id p)" and "canonical (p_alias_in_partition p)"
    and "alias_under_partition (p_partition_id p) (p_alias_in_partition p) = Inr (p_relative p)"
    and "location_for_asset (a_space a) (a_partition_id a) (a_asset_id a) = Inr l"
    and "local_contents (w_store w') = (local_contents (w_store w))(object_key l \<mapsto> d)"
  shows "image_world (p_qualified p) a d w'"
proof -
  have "qualified_alias (p_space p) (p_relative p) = Inr (p_qualified p)" using parse_alias_Inr [OF assms(2)] by blast
  then have "a_aliases a = {p_qualified p}" using assms by (simp add: uploaded_def scoped_key_def)
  then show ?thesis
    using assms by (auto simp: uploaded_def image_world_def image_reg_def names_bound_def split: if_splits)
qed

lemma wp_write_route:
  assumes inv: "app_inv creds x" and p: "parse_alias al = Inr p"
    and can: "canonical (p_partition_id p)" "canonical (p_alias_in_partition p)"
    and sc: "alias_under_partition (p_partition_id p) (p_alias_in_partition p) = Inr (p_relative p)"
    and q: "uq_chunks q = [d]" "uq_content_type q = Some mime" "mime \<noteq> []"
  shows "wp (write_object_route local_backend h al q)
     (\<lambda>_ x'. \<exists>a. image_app (p_qualified p) a d x' \<and> a_mime a = Some mime) (\<lambda>_ _. True) x"
proof -
  have stored: "wp (on_world (write_object local_backend cap al d mut (Some mime) ec ttl))
      (\<lambda>a x'. image_app (p_qualified p) a d x' \<and> a_mime a = Some mime) (\<lambda>_ _. True) y" if "app_inv creds y" for y cap mut ec ttl
  proof -
    have r: "reachable (w_registry (ap_world y))" using that by (simp add: app_inv_def world_ok_def)
    have "wp (write_object local_backend cap al d mut (Some mime) ec ttl) (\<lambda>a w'. image_world (p_qualified p) a d w')
        (\<lambda>_ _. True) (ap_world y)"
      by (rule local_objects.wp_write_object [OF reachable_inv [OF r]]) (use p can sc uploaded_image in fastforce)
    from wp_conj [OF this write_mime [OF q(3)]] show ?thesis
      unfolding on_world_def wp_on_part by (rule wp_mono) (simp_all add: image_app_def)
  qed
  have body: "wp (bind_op (of_result (read_body limit [d] [])) (\<lambda>data.
        bind_op (on_world (write_object local_backend cap al data mut (Some mime) ec ttl)) (\<lambda>asset.
        seq_op (observe_bucket_fill (a_space asset)) (ret asset))))
      (\<lambda>_ x'. \<exists>a. image_app (p_qualified p) a d x' \<and> a_mime a = Some mime) (\<lambda>_ _. True) y" if "app_inv creds y" for y cap mut ec ttl limit
  proof -
    have fill: "wp (seq_op (observe_bucket_fill sp) (ret c)) (\<lambda>_ x'. \<exists>a. image_app (p_qualified p) a d x' \<and> a_mime a = Some mime)
        (\<lambda>_ _. True) x'" if "image_app (p_qualified p) a d x' \<and> a_mime a = Some mime" for sp c a x'
      by (rule wp_seq_keeps [OF image_observe]) (use that in \<open>auto simp: wp_ret\<close>)
    have "wp (on_world (write_object local_backend cap al d mut (Some mime) ec ttl))
        (\<lambda>a. wp (seq_op (observe_bucket_fill (a_space a)) (ret a)) (\<lambda>_ x'. \<exists>a. image_app (p_qualified p) a d x' \<and> a_mime a = Some mime)
           (\<lambda>_ _. True)) (\<lambda>_ _. True) y"
      by (rule wp_mono [OF stored [OF that]]) (blast intro: fill, simp)
    then show ?thesis by (simp add: wp_bind wp_of_result)
  qed
  have lease: "wp (bind_op (under_lease (bind_op (of_result (read_body limit [d] [])) (\<lambda>data.
        bind_op (on_world (write_object local_backend cap al data mut (Some mime) ec ttl)) (\<lambda>asset.
        seq_op (observe_bucket_fill (a_space asset)) (ret asset))))) (\<lambda>asset. ret (from_asset asset)))
      (\<lambda>_ x'. \<exists>a. image_app (p_qualified p) a d x' \<and> a_mime a = Some mime) (\<lambda>_ _. True) y" if "app_inv creds y" for y cap mut ec ttl limit
    unfolding wp_bind [of "under_lease m" for m] wp_under_lease wp_ret_fun
    using wp_mono [OF body [OF that]] by (simp add: image_app_def)
  show ?thesis
    unfolding write_object_route_def q
    by (rule wp_bind_keeps [OF keeps_capability_dep inv],
        rule wp_seq_keeps [where I = "app_inv creds"], intro keeps_intros, assumption,
        rule wp_seq_keeps [where I = "app_inv creds"], intro keeps_intros, assumption,
        rule wp_bind_keeps [where I = "app_inv creds"], intro keeps_intros, assumption,
        rule wp_seq_keeps [where I = "app_inv creds"], intro keeps_intros, assumption, erule lease)
qed


section \<open>Reading it back\<close>

lemma pilot_key:
  assumes "parse_alias al = Inr p" and "canonical (p_relative p)"
  shows "lookup_key (p_space p) (p_relative p) = Inr (p_qualified p)"
proof -
  have "qualified_alias (p_space p) (p_relative p) = Inr (p_qualified p)" using parse_alias_Inr [OF assms(1)] by blast
  then show ?thesis using parse_alias_normal(1) [OF assms(1)] assms(2) by (simp add: lookup_key_def canonical_normal)
qed

lemma image_resolved:
  assumes "image_reg (p_qualified p) a r" and "parse_alias al = Inr p" and "canonical (p_relative p)"
    and "fst (resolve_alias (p_space p) (p_relative p) r) = Inr y"
  shows "a_asset_id y = a_asset_id a \<and> a_space y = a_space a \<and> a_partition_id y = a_partition_id a \<and> a_mime y = a_mime a"
  using assms(1,4) pilot_key [OF assms(2,3)] by (auto simp: resolves_to image_reg_def)

lemma wp_read_route:
  assumes "image_app (p_qualified p) a d x" and "parse_alias al = Inr p" and "canonical (p_relative p)"
  shows "wp (read_object_route local_backend h al ''proxy'' n) (\<lambda>out _. out = ReadBytes d) (\<lambda>_ _. True) x"
proof -
  have read: "wp (read_bytes local_backend cap al) (\<lambda>data _. data = d) (\<lambda>_ _. True) (ap_world y)"
    if "image_app (p_qualified p) a d y" for cap y
  proof (rule read_bytes_post)
    fix p' z l data
    assume h: "parse_alias al = Inr p'" "location_for_asset (a_space z) (a_partition_id z) (a_asset_id z) = Inr l"
      "fst (bk_get_object local_backend l (w_store (ap_world y))) = Inr data"
      "fst (resolve_alias (p_space p') (p_relative p') ((w_registry (ap_world y))\<lparr>r_ticks := r_ticks (w_registry (ap_world y)) + 2\<rparr>)) = Inr z"
    have "p' = p" using h(1) assms(2) by simp
    then have "a_asset_id z = a_asset_id a \<and> a_space z = a_space a \<and> a_partition_id z = a_partition_id a \<and> a_mime z = a_mime a"
      using that h(4) by (intro image_resolved [OF _ assms(2,3)]) (simp_all add: image_app_def image_world_def)
    then show "data = d"
      using that h(2,3) by (auto simp: image_app_def image_world_def local_backend_def local_get_object_def local_contents_def
          bind_op_def gets_def ret_def raise_def split: option.splits)
  qed
  have dep: "keeps (image_app (p_qualified p) a d) (require_capability_dep h)"
    unfolding require_capability_dep_def by (intro image_intros keeps_intros)
  have go: "wp (bind_op (on_world (read_bytes local_backend cap al)) (\<lambda>data. ret (ReadBytes data))) (\<lambda>out _. out = ReadBytes d) (\<lambda>_ _. True) y"
    if "image_app (p_qualified p) a d y" for cap y
    unfolding wp_bind on_world_def wp_on_part by (rule wp_mono [OF read [OF that]]) (simp_all add: wp_ret)
  show ?thesis
    unfolding read_object_route_def
    by (rule wp_bind_keeps [OF dep assms(1)], rule wp_seq_keeps [where I = "image_app (p_qualified p) a d"], intro keeps_intros, assumption)
      (simp add: wp_seq wp_check go)
qed

lemma wp_resolve_route:
  assumes "image_app (p_qualified p) a d x" and "parse_alias al = Inr p" and "canonical (p_relative p)"
  shows "wp (resolve h (p_space p) (p_relative p)) (\<lambda>out _. ao_mime out = a_mime a) (\<lambda>_ _. True) x"
proof -
  have res: "wp (resolve_alias (p_space p) (p_relative p)) (\<lambda>y _. a_mime y = a_mime a) (\<lambda>_ _. True) r"
    if "image_reg (p_qualified p) a r" for r
    using image_resolved [OF that assms(2,3)] by (intro wpI) auto
  have "wp (on_reg (resolve_alias (p_space p) (p_relative p))) (\<lambda>y _. a_mime y = a_mime a) (\<lambda>_ _. True) y"
    if "image_app (p_qualified p) a d y" for y
    using that unfolding on_reg_def on_world_def wp_on_part wp_on_registry
    by (intro wp_mono [OF res]) (simp_all add: image_app_def image_world_def)
  note go = this
  show ?thesis
    unfolding resolve_def require_service_identity_def
    by (rule wp_bind_keeps [where I = "image_app (p_qualified p) a d", OF _ assms(1)], intro keeps_intros, rule wp_seq_keeps [where I = "image_app (p_qualified p) a d"],
        intro keeps_intros, assumption, rule wp_then [OF go], assumption) (simp add: wp_ret from_asset_def)
qed


section \<open>The store behind the wire\<close>

text \<open>
  The store's application answers the client's requests; of a document only the members that the client
  reads are written out, and the body of an object arrives in one chunk. The path of an object is
  decoded as the framework does before routing.
\<close>

definition opt_json :: "('x \<Rightarrow> json) \<Rightarrow> 'x option \<Rightarrow> json" where
  "opt_json f x = (case x of None \<Rightarrow> JNull | Some y \<Rightarrow> f y)"

definition asset_document :: "asset_out \<Rightarrow> json" where
  "asset_document x = JObject [(''asset_id'', JString (ao_asset_id x)), (''mime'', opt_json JString (ao_mime x)),
     (''size_bytes'', opt_json JInt (ao_size_bytes x)), (''checksum'', opt_json JString (ao_checksum x))]"

fun payload_reply :: "nat \<Rightarrow> payload \<Rightarrow> store_reply" where
  "payload_reply n (AssetPayload x) =
     \<lparr>sr_status = int n, sr_retry_after = None, sr_json = Some (asset_document x), sr_chunks = [], sr_broken = None\<rparr>"
| "payload_reply n (CapabilityPayload c) =
     \<lparr>sr_status = int n, sr_retry_after = None, sr_json = Some (JObject [(''capability_id'', JString (co_capability_id c))]),
      sr_chunks = [], sr_broken = None\<rparr>"
| "payload_reply n (ReadPayload (ReadBytes d)) =
     \<lparr>sr_status = int n, sr_retry_after = None, sr_json = None, sr_chunks = [d], sr_broken = None\<rparr>"
| "payload_reply n _ = \<lparr>sr_status = int n, sr_retry_after = None, sr_json = None, sr_chunks = [], sr_broken = None\<rparr>"

definition problem_reply :: "problem \<Rightarrow> store_reply" where
  "problem_reply p =
     \<lparr>sr_status = int (pb_status p), sr_retry_after = pb_retry_after p, sr_json = None, sr_chunks = [], sr_broken = None\<rparr>"

definition ask :: "'s backend \<Rightarrow> request \<Rightarrow> 's app \<Rightarrow> (fetch_error + store_reply) \<times> 's app" where
  "ask B q x =
     (case serve B q x of
        (Success n y, x') \<Rightarrow> (Inr (payload_reply n y), x')
      | (Problem p, x') \<Rightarrow> (Inr (problem_reply p), x'))"

definition refuse :: "error \<Rightarrow> 's app \<Rightarrow> (fetch_error + store_reply) \<times> 's app" where
  "refuse e x = (Inr (problem_reply (problem_for e)), x)"

definition path_alias :: "string \<Rightarrow> string option" where
  "path_alias path = (if prefix ''/objects/'' path then unquote (drop 9 path) else None)"

fun store_wire :: "'s backend \<Rightarrow> 's app wire" where
  "store_wire B (GetResolve h space al) = ask B (Resolve h space al)"
| "store_wire B (PostCapability h operation scope ttl single) =
     (if operation \<in> {''read'', ''write''}
      then ask B (MintCapability h \<lparr>mq_operation = (if operation = ''read'' then READ else WRITE), mq_scope_prefix = scope,
             mq_ttl_seconds = ttl, mq_single_use = single\<rparr>)
      else refuse RequestValidationError)"
| "store_wire B (PutObject h path content_type data) =
     (case path_alias path of
        None \<Rightarrow> refuse AliasNotFoundError
      | Some al \<Rightarrow> ask B (WriteObject h al \<lparr>uq_mutable = False, uq_expected_checksum = None, uq_ttl_seconds = None,
          uq_content_length = Some (nat_str (length data)), uq_content_type = content_type, uq_chunks = [data]\<rparr>))"
| "store_wire B (GetObject h path) =
     (case path_alias path of
        None \<Rightarrow> refuse AliasNotFoundError
      | Some al \<Rightarrow> ask B (ReadObject h al ''proxy'' DEFAULT_PRESIGN_TTL_SECONDS))"

lemma path_alias_object [simp]: "path_alias (object_path al) = Some al"
  by (simp add: path_alias_def object_path_def unquote_quote)

lemma wp_ask:
  "wp (ask B q) Q E x =
     wp (route B q) (\<lambda>y x'. Q (payload_reply (success_status q) y) x') (\<lambda>e x'. Q (problem_reply (problem_for e)) x') x"
  by (auto simp: wp_def ask_def serve_def split: prod.splits sum.splits)

lemma error_reply: "sr_status (problem_reply (problem_for e)) \<notin> {200, 201}"
  by (cases e) (simp_all add: problem_reply_def problem_for_def handle_domain_def handle_validation_def)

lemma wp_ask_keeps: "keeps I (route B q) \<Longrightarrow> I x \<Longrightarrow> wp (ask B q) (\<lambda>_. I) (\<lambda>_. I) x"
  unfolding wp_ask keeps_wp by blast

lemma wp_refuse: "wp (refuse e) Q E x = Q (problem_reply (problem_for e)) x"
  by (simp add: wp_def refuse_def)

section \<open>The client against the store\<close>

lemma client_mint_keeps:
  assumes wire: "sc_wire c = store_wire B" and I: "\<And>h b. keeps I (route B (MintCapability h b))" and "I x"
  shows "wp (client_mint c operation scope ttl) (\<lambda>_. I) (\<lambda>_. I) x"
proof -
  have "wp (store_wire B (PostCapability h operation scope ttl False)) (\<lambda>_. I) (\<lambda>_. I) x" for h
    using wp_ask_keeps [OF I assms(3)] assms(3) by (simp add: wp_refuse)
  then show ?thesis
    unfolding client_mint_def wire wp_bind
    by (rule wp_mono) (simp_all add: wp_simps json_item_def split: sum.split json.split)
qed

lemma client_resolve_keeps:
  assumes wire: "sc_wire c = store_wire B" and I: "\<And>h b. keeps I (route B (Resolve h sp al))" and "I x"
  shows "wp (client_resolve c sp al) (\<lambda>_. I) (\<lambda>_. I) x"
  unfolding client_resolve_def wire store_wire.simps wp_bind
  by (rule wp_mono [OF wp_ask_keeps [OF I assms(3)]]) (simp_all add: wp_simps split: sum.split)

lemma client_resolve_image:
  assumes wire: "sc_wire c = store_wire local_backend"
    and img: "image_app (p_qualified p) a d x" and p: "parse_alias al = Inr p" "canonical (p_relative p)"
  shows "wp (client_resolve c (p_space p) (p_relative p))
     (\<lambda>found x'. image_app (p_qualified p) a d x' \<and> (\<forall>doc. found = Some doc \<longrightarrow> json_get doc ''mime'' = Inr (opt_json JString (a_mime a))))
     (\<lambda>_. image_app (p_qualified p) a d) x"
proof -
  let ?I = "image_app (p_qualified p) a d" and ?q = "Resolve (service_header c) (p_space p) (p_relative p)"
  have "wp (route local_backend ?q) (\<lambda>y _. \<exists>out. y = AssetPayload out \<and> ao_mime out = a_mime a) (\<lambda>_ _. True) x"
    unfolding route.simps as_payload_def wp_bind by (rule wp_mono [OF wp_resolve_route [OF img p]]) (simp_all add: wp_ret)
  then have "wp (ask local_backend ?q) (\<lambda>r _. sr_status r = 200 \<longrightarrow> (\<exists>out. sr_json r = Some (asset_document out) \<and> ao_mime out = a_mime a))
      (\<lambda>_ _. True) x"
    unfolding wp_ask by (rule wp_mono) (use error_reply in auto)
  from wp_conj [OF this wp_ask_keeps [OF image_routes(1) img]] show ?thesis
    unfolding client_resolve_def wire store_wire.simps wp_bind
    by (rule wp_mono) (auto simp: wp_simps reply_json_def asset_document_def json_get_def split: sum.split option.split)
qed

lemma client_read_image:
  assumes wire: "sc_wire c = store_wire local_backend"
    and img: "image_app (p_qualified p) a d x" and p: "parse_alias al = Inr p" "canonical (p_relative p)"
  shows "wp (client_read_object c cap al limit) (\<lambda>data x'. image_app (p_qualified p) a d x' \<and> data = d)
     (\<lambda>_. image_app (p_qualified p) a d) x"
proof -
  let ?I = "image_app (p_qualified p) a d" and ?q = "ReadObject (''Capability '' @ cap) al ''proxy'' DEFAULT_PRESIGN_TTL_SECONDS"
  have "wp (route local_backend ?q) (\<lambda>y _. y = ReadPayload (ReadBytes d)) (\<lambda>_ _. True) x"
    unfolding route.simps as_payload_def wp_bind by (rule wp_mono [OF wp_read_route [OF img p]]) (simp_all add: wp_ret)
  then have "wp (ask local_backend ?q) (\<lambda>r _. sr_status r = 200 \<longrightarrow> sr_chunks r = [d] \<and> sr_broken r = None) (\<lambda>_ _. True) x"
    unfolding wp_ask by (rule wp_mono) (use error_reply in auto)
  from wp_conj [OF this wp_ask_keeps [OF image_routes(3) img]] show ?thesis
    unfolding client_read_object_def wire store_wire.simps wp_bind path_alias_object option.case
    by (rule wp_mono) (auto simp: wp_simps split: sum.split)
qed

lemma client_put_image:
  assumes wire: "sc_wire c = store_wire local_backend" and inv: "app_inv creds x" and p: "parse_alias al = Inr p"
    and can: "canonical (p_partition_id p)" "canonical (p_alias_in_partition p)"
    and sc: "alias_under_partition (p_partition_id p) (p_alias_in_partition p) = Inr (p_relative p)" and m: "mime \<noteq> []"
  shows "wp (client_put_object c cap al d mime) (\<lambda>_ x'. \<exists>a. image_app (p_qualified p) a d x' \<and> a_mime a = Some mime) (\<lambda>_ _. True) x"
proof -
  let ?q = "WriteObject (''Capability '' @ cap) al \<lparr>uq_mutable = False, uq_expected_checksum = None, uq_ttl_seconds = None,
          uq_content_length = Some (nat_str (length d)), uq_content_type = Some mime, uq_chunks = [d]\<rparr>"
  let ?Q = "\<lambda>x'. \<exists>a. image_app (p_qualified p) a d x' \<and> a_mime a = Some mime"
  have "wp (route local_backend ?q) (\<lambda>_. ?Q) (\<lambda>_ _. True) x"
    unfolding route.simps as_payload_def wp_bind
    by (rule wp_mono [OF wp_write_route [OF inv p can sc]]) (use m in \<open>simp_all add: wp_ret\<close>)
  then have "wp (ask local_backend ?q) (\<lambda>r x'. sr_status r = 201 \<longrightarrow> ?Q x') (\<lambda>_ _. True) x"
    unfolding wp_ask by (rule wp_mono) (use error_reply in auto)
  then show ?thesis
    unfolding client_put_object_def wire store_wire.simps wp_bind path_alias_object option.case if_not_P [OF m]
    by (rule wp_mono) (auto simp: wp_simps split: sum.split)
qed

section \<open>The parts of a fetcher process\<close>

lemma wp_on_asset_store [wp_simps]:
  "wp (on_asset_store m) Q E s = wp m (\<lambda>x a. Q x (s\<lparr>fs_store := a\<rparr>)) (\<lambda>e a. E e (s\<lparr>fs_store := a\<rparr>)) (fs_store s)"
  by (simp add: on_asset_store_def wp_on_part)

lemma wp_on_network [wp_simps]:
  "wp (on_network m) Q E s = wp m (\<lambda>x d. Q x (s\<lparr>fs_network := d\<rparr>)) (\<lambda>e d. E e (s\<lparr>fs_network := d\<rparr>)) (fs_network s)"
  by (simp add: on_network_def wp_on_part)

end
