(* ===== verification/Pilot_Example.thy ===== *)
theory Pilot_Example
  imports Pilot_Store
begin

text \<open>
  A run of the pilot on a concrete store: an image is looked up and missed, fetched, stored under a
  write capability, found again and read under a read capability. Digests stay symbolic; everything
  else is evaluated.
\<close>

section \<open>The image and its names\<close>

definition demo_path :: string where "demo_path = ''/iiif/ark:/12148/b6/f1/full/full/0/gray.jpg''"
definition demo_name :: string where "demo_name = tl demo_path"
definition demo_image :: pilot_target where "demo_image = target_at HOST demo_path"

lemma demo_image_approved: "pilot_require (''https://'' @ HOST @ demo_path) = Inr demo_image"
  "fetch_url demo_image = ''https://'' @ HOST @ demo_path"
  "relative_alias demo_image = Inr (PARTITION @ ''/'' @ demo_name)"
  by code_simp+

lemma demo_normal:
  "normalize_url (''https://'' @ HOST @ demo_path) = Inr \<lparr>n_scheme = ''https'', n_host = HOST, n_port = None, n_path = demo_path, n_query = []\<rparr>"
  "canonical_url \<lparr>n_scheme = ''https'', n_host = HOST, n_port = None, n_path = demo_path, n_query = []\<rparr> = ''https://'' @ HOST @ demo_path"
  "pilot_match \<lparr>n_scheme = ''https'', n_host = HOST, n_port = None, n_path = demo_path, n_query = []\<rparr> =
     Inr (Some \<lparr>rm_mirror_id = PARTITION, rm_aliases = [demo_name]\<rparr>)"
  by code_simp+

definition demo_full :: string where "demo_full = ''cache/'' @ PARTITION @ ''/'' @ demo_name"
definition demo_rel :: string where "demo_rel = PARTITION @ ''/'' @ demo_name"

lemma demo_texts:
  "parse_alias demo_full = Inr (pilot_alias demo_name)"
  "normalize_space ''cache'' = Inr ''cache''"
  "lookup_key ''cache'' demo_rel = Inr demo_full"
  "is_same_path_or_child demo_full (''cache/'' @ PARTITION)"
  "valid_scope (''cache/'' @ PARTITION) = Inr ()"
  "normalize_space (fst (py_partition slash (strip_char slash (''cache/'' @ PARTITION)))) = Inr ''cache''"
  "authorization_token ''capability'' ''Capability cap-f'' = Some ''cap-f''"
  "service_identity demo_credentials ''Service admin:s'' = Inr ''admin''"
  by code_simp+

definition demo_scope :: string where "demo_scope = ''cache/'' @ PARTITION"

lemma demo_scope_ok: "normalize_space (fst (py_partition slash (strip_char slash demo_scope))) = Inr ''cache''"
  "valid_scope demo_scope = Inr ()" "is_same_path_or_child demo_full demo_scope"
  by code_simp+

section \<open>Capabilities\<close>

definition demo_ask :: "operation \<Rightarrow> mint_request" where
  "demo_ask op = \<lparr>mq_operation = op, mq_scope_prefix = demo_scope, mq_ttl_seconds = 300, mq_single_use = False\<rparr>"

lemma demo_allowed: "assert_service_bucket_allowed ''admin'' ''cache'' op = Inr ()"
  by (cases op) (simp_all add: demo_covered)

lemma demo_admitted: "admit 0 ''admin'' \<lparr>rl_rate = 1, rl_burst = 2, rl_credit = [(''admin'', \<lparr>cr_tokens = PyFloat 2, cr_updated_at = 0\<rparr>)]\<rparr>
      = (Inr (), \<lparr>rl_rate = 1, rl_burst = 2, rl_credit = [(''admin'', \<lparr>cr_tokens = PyInt 1, cr_updated_at = 0\<rparr>)]\<rparr>)"
  "admit 0 ''admin'' \<lparr>rl_rate = 1, rl_burst = 2, rl_credit = [(''admin'', \<lparr>cr_tokens = PyInt 1, cr_updated_at = 0\<rparr>)]\<rparr>
      = (Inr (), \<lparr>rl_rate = 1, rl_burst = 2, rl_credit = [(''admin'', \<lparr>cr_tokens = PyFloat 0, cr_updated_at = 0\<rparr>)]\<rparr>)"
  by code_simp+

definition demo_issue_event :: "operation \<Rightarrow> datetime \<Rightarrow> audit_event" where
  "demo_issue_event op ts = \<lparr>e_action = ''capability.issue'', e_target = demo_scope, e_caller_service_id = ''admin'',
     e_outcome = ''granted'', e_before = Map.empty,
     e_after = [''operation'' \<mapsto> operation_value op, ''ttl_seconds'' \<mapsto> int_str 300,
       ''capability_fingerprint'' \<mapsto> sha256_hex (utf8_encode ''cap-f'')], e_ts = ts\<rparr>"

definition demo_grant :: "operation \<Rightarrow> datetime \<Rightarrow> capability" where
  "demo_grant op ts = \<lparr>c_capability_id = ''cap-f'', c_operation = op, c_scope_prefix = demo_scope, c_expires_at = ts,
     c_caller_service_id = ''admin'', c_single_use = False\<rparr>"

definition demo_w :: "registry \<Rightarrow> local_store \<Rightarrow> (string \<times> string) list \<Rightarrow> local_store world" where
  "demo_w r st res = \<lparr>w_registry = r, w_store = st, w_ledger = new_ledger, w_cleanup_total = [], w_reservation_total = res\<rparr>"

lemma demo_w_simps [simp]:
  "w_registry (demo_w r st res) = r" "w_store (demo_w r st res) = st" "w_ledger (demo_w r st res) = new_ledger"
  "w_reservation_total (demo_w r st res) = res"
  "(demo_w r st res)\<lparr>w_registry := r'\<rparr> = demo_w r' st res" "(demo_w r st res)\<lparr>w_store := st'\<rparr> = demo_w r st' res"
  "(demo_w r st res)\<lparr>w_reservation_total := res'\<rparr> = demo_w r st res'" "(demo_w r st res)\<lparr>w_ledger := new_ledger\<rparr> = demo_w r st res"
  by (simp_all add: demo_w_def)

definition demo_stage :: "local_store world \<Rightarrow> capability list \<Rightarrow> py_num \<Rightarrow> nat \<Rightarrow> (string \<times> string) list \<Rightarrow> nat \<Rightarrow> local_store app" where
  "demo_stage w caps tokens g issued n =
     \<lparr>ap_world = w, ap_credentials = demo_credentials,
      ap_capabilities = \<lparr>s_capabilities = map (\<lambda>c. (''cap-f'', c)) caps, s_max_capabilities = 5\<rparr>,
      ap_issuance_rate = \<lparr>rl_rate = 1, rl_burst = 2, rl_credit = [(''admin'', \<lparr>cr_tokens = tokens, cr_updated_at = 0\<rparr>)]\<rparr>,
      ap_uploads = \<lparr>g_limit = 1, g_active = 0, g_granted = g, g_denied = 0\<rparr>, ap_max_upload_bytes = 2,
      ap_issued_total = issued, ap_bucket_fill_ratio = Map.empty, ap_monotonic = (\<lambda>_. 0), ap_monotonic_reads = Suc n,
      ap_hex_ids = (\<lambda>_. ''f''), ap_next_hex = n\<rparr>"

lemma demo_stage_simps [simp]:
  "ap_world (demo_stage w caps tokens g issued n) = w" "ap_credentials (demo_stage w caps tokens g issued n) = demo_credentials"
  "(demo_stage w caps tokens g issued n)\<lparr>ap_world := w'\<rparr> = demo_stage w' caps tokens g issued n"
  "ap_capabilities (demo_stage w caps tokens g issued n) = \<lparr>s_capabilities = map (\<lambda>c. (''cap-f'', c)) caps, s_max_capabilities = 5\<rparr>"
  "(demo_stage w caps tokens g issued n)\<lparr>ap_capabilities := \<lparr>s_capabilities = map (\<lambda>c. (''cap-f'', c)) caps', s_max_capabilities = 5\<rparr>\<rparr> =
     demo_stage w caps' tokens g issued n"
  "ap_uploads (demo_stage w caps tokens g issued n) = \<lparr>g_limit = 1, g_active = 0, g_granted = g, g_denied = 0\<rparr>"
  "ap_max_upload_bytes (demo_stage w caps tokens g issued n) = 2"
  "(demo_stage w caps tokens g issued n)\<lparr>ap_uploads := \<lparr>g_limit = 1, g_active = 0, g_granted = g', g_denied = 0\<rparr>\<rparr> =
     demo_stage w caps tokens g' issued n"
  "(demo_stage w caps tokens g issued n)\<lparr>ap_capabilities := \<lparr>s_capabilities = [(''cap-f'', c)], s_max_capabilities = 5\<rparr>\<rparr> =
     demo_stage w [c] tokens g issued n"
  by (simp_all add: demo_stage_def)

lemma demo_stage0: "demo_app = demo_stage (demo_w demo_new new_local_store []) [] (PyFloat 2) 0 [] 0"
  by (simp add: demo_app_def demo_stage_def demo_world_def demo_w_def)

lemma demo_ledger: "new_ledger\<lparr>l_consumed := ledger_prune_locked t (l_consumed new_ledger)\<rparr> = new_ledger"
  by (simp add: new_ledger_def)

lemma demo_minting:
  assumes "admit 0 ''admin'' \<lparr>rl_rate = 1, rl_burst = 2, rl_credit = [(''admin'', \<lparr>cr_tokens = tokens, cr_updated_at = 0\<rparr>)]\<rparr>
      = (Inr (), \<lparr>rl_rate = 1, rl_burst = 2, rl_credit = [(''admin'', \<lparr>cr_tokens = tokens', cr_updated_at = 0\<rparr>)]\<rparr>)"
    and "caps = [] \<or> caps = [demo_grant WRITE 300000000]" and "r_clock r = int" and "k < 100"
  shows "mint_capability ''Service admin:s'' (demo_ask op) (demo_stage (demo_w (r\<lparr>r_ticks := k\<rparr>) st res) caps tokens g issued n) =
     (Inr \<lparr>co_capability_id = ''cap-f'', co_operation = operation_value op, co_scope_prefix = demo_scope, co_caller_service_id = ''admin'',
        co_expires_at = int k + 300000000, co_single_use = False\<rparr>,
      demo_stage (demo_w (r\<lparr>r_audit_events := r_audit_events r @ [demo_issue_event op (int k + 3)], r_ticks := k + 4\<rparr>) st res)
        [demo_grant op (int k + 300000000)] tokens' g (issued @ [(operation_value op, ''granted'')]) (Suc n))"
  using assms(2-)
  by (intro wp_eqI, elim disjE)
    (simp_all add: mint_capability_def demo_ask_def require_service_identity_def wp_simps demo_stage_def demo_w_def demo_headers valid_mint_def
        on_limiter_def wp_of_eq [where m = "admit 0 ''admin''", OF assms(1)] demo_scope_ok demo_allowed dt_add_def seconds_def
        datetime_max_def datetime_min_def make_capability_def bind_result_def on_world_def prune_consumed_capabilities_def on_issue_def
        issue_def record_capability_issue_def Let_def now_in_def tick_def store_prune_locked_def store_prune_step_def demo_ledger demo_grant_def
        demo_issue_event_def cong: wp_lazy)

section \<open>The upload\<close>

lemma demo_store_texts:
  "normalize_alias_specs (AliasMapping [(demo_name, b)]) = Inr [(demo_name, b)]"
  "alias_under_partition PARTITION demo_name = Inr demo_rel"
  "qualified_alias ''cache'' demo_rel = Inr demo_full"
  "normalize_relative_alias demo_rel = Inr demo_rel"
  "normalize_partition_id PARTITION = Inr PARTITION"
  "build_storage_key PARTITION ''u'' = Inr (PARTITION @ ''/assets/u'')"
  "location_for_asset ''cache'' PARTITION ''u'' = Inr \<lparr>loc_bucket = ''cache'', loc_key = PARTITION @ ''/assets/u''\<rparr>"
  "py_int_parse (nat_str 2) = Some 2" "py_int_parse (nat_str (Suc (Suc 0))) = Some 2"
  by (simp_all add: normalize_alias_specs_def del: nat_str.simps) code_simp+

definition demo_r1 :: registry where
  "demo_r1 = demo_new\<lparr>r_audit_events := [demo_issue_event WRITE 3], r_ticks := 4\<rparr>"

definition demo_image_pending :: asset where
  "demo_image_pending = \<lparr>a_asset_id = ''u'', a_space = ''cache'', a_partition_id = PARTITION,
     a_storage_key = PARTITION @ ''/assets/u'', a_state = PENDING, a_aliases = {demo_full},
     a_mime = Some ''image/jpeg'', a_size_bytes = None, a_reserved_bytes = Some 2, a_checksum_algo = ''sha256'',
     a_checksum = None, a_annotations = fmempty, a_created_at = 9, a_updated_at = 9,
     a_expires_at = None, a_expired_at = None, a_last_read_at = None, a_read_count = 0,
     a_payload_deleted_at = None, a_owner_service_id = ''admin'', a_eviction_policy = INHERIT\<rparr>"

definition demo_image_asset :: asset where
  "demo_image_asset = demo_image_pending\<lparr>a_state := AVAILABLE, a_size_bytes := Some 2, a_reserved_bytes := None,
     a_checksum := Some (compute_checksum [1, 2]), a_updated_at := 12\<rparr>"

definition demo_image_events :: "audit_event list" where
  "demo_image_events =
    [demo_issue_event WRITE 3,
     \<lparr>e_action = ''alias.create'', e_target = demo_full, e_caller_service_id = ''admin'', e_outcome = ''success'',
      e_before = Map.empty, e_after = [''asset_id'' \<mapsto> ''u'', ''mutable'' \<mapsto> bool_str_lower False], e_ts = 10\<rparr>,
     \<lparr>e_action = ''asset.upload_reserve'', e_target = ''u'', e_caller_service_id = ''admin'', e_outcome = ''success'',
      e_before = Map.empty, e_after = [''reserved_bytes'' \<mapsto> int_str 2], e_ts = 11\<rparr>,
     \<lparr>e_action = ''asset.commit'', e_target = ''u'', e_caller_service_id = ''admin'', e_outcome = ''success'',
      e_before = [''state'' \<mapsto> state_value PENDING], e_after = [''state'' \<mapsto> state_value AVAILABLE], e_ts = 13\<rparr>]"

definition demo_r2 :: registry where
  "demo_r2 = demo_new\<lparr>r_assets := [(''u'', demo_image_pending)],
     r_aliases := [(demo_full, \<lparr>b_space = ''cache'', b_alias = demo_rel, b_asset_id = Some ''u'', b_mutable = False,
       b_previous_asset_id = None, b_created_at = 9, b_updated_at = 9, b_created_by_service_id = ''admin''\<rparr>)],
     r_audit_events := take 3 demo_image_events, r_ticks := 12, r_next_uuid := 1\<rparr>"

definition demo_r3 :: registry where
  "demo_r3 = demo_r2\<lparr>r_assets := [(''u'', demo_image_asset)],
     r_partition_quotas := [((''cache'', PARTITION), (default_partition_quota ''cache'' PARTITION)\<lparr>pq_used_bytes := 2, pq_used_asset_count := 1\<rparr>)],
     r_bucket_quotas := [(''cache'', (default_bucket_quota ''cache'')\<lparr>bq_used_bytes := 2\<rparr>)],
     r_audit_events := demo_image_events, r_ticks := 14\<rparr>"

lemmas demo_image_defs = demo_r1_def demo_r2_def demo_r3_def demo_new_def demo_image_pending_def demo_image_asset_def demo_image_events_def

lemma demo_reserving:
  "reserve_asset ''cache'' PARTITION (AliasMapping [(demo_name, False)]) ''admin'' (Some ''image/jpeg'') None INHERIT None (Some 2)
    (demo_r1\<lparr>r_ticks := 9\<rparr>) = (Inr demo_image_pending, demo_r2)"
  by (rule wp_eqI)
    (simp add: demo_eval demo_image_defs reserve_asset_def require_alias_name_available_def alias_name_is_blocked_def
      enforce_quota_def pending_uploads_def reserved_sum_def demo_uuids_def scoped_key_def demo_store_texts
      bind_reserved_alias_def binding_qualified_alias_def cong: wp_lazy)

lemma demo_committing:
  "commit_asset ''u'' 2 (compute_checksum [1, 2]) ''admin'' (Some ''image/jpeg'') None demo_r2 = (Inr demo_image_asset, demo_r3)"
  by (rule wp_eqI)
    (simp add: demo_eval demo_image_defs commit_asset_def enforce_quota_def pending_uploads_def reserved_sum_def
      acquire_quota_def str_or_def demo_store_texts cong: wp_lazy)

lemma demo_grant_simps [simp]:
  "c_capability_id (demo_grant op t) = ''cap-f''" "c_operation (demo_grant op t) = op" "c_scope_prefix (demo_grant op t) = demo_scope"
  "c_expires_at (demo_grant op t) = t" "c_caller_service_id (demo_grant op t) = ''admin''" "c_single_use (demo_grant op t) = False"
  by (simp_all add: demo_grant_def)

lemma demo_alias_fields [simp]:
  "p_space (pilot_alias demo_name) = ''cache''" "p_relative (pilot_alias demo_name) = demo_rel"
  "p_partition_id (pilot_alias demo_name) = PARTITION" "p_alias_in_partition (pilot_alias demo_name) = demo_name"
  "p_qualified (pilot_alias demo_name) = demo_full"
  by (simp_all add: pilot_alias_def demo_rel_def demo_full_def)

lemma demo_granting:
  assumes "r_clock r = int" and "int k + 2 < t"
  shows "authorize (demo_grant op t) op demo_full (demo_w (r\<lparr>r_ticks := k\<rparr>) st res) =
     (Inr (pilot_alias demo_name), demo_w (r\<lparr>r_ticks := k + 2\<rparr>) st res)"
  using assms
  by (intro wp_eqI) (simp add: authorize_def wp_simps demo_texts require_capability_def guard_result_def Let_def tick_def
      demo_ledger allows_def demo_allowed now_in_def demo_scope_ok cong: wp_lazy)

definition demo_st :: local_store where
  "demo_st = \<lparr>o_objects = [((''cache'', PARTITION @ ''/assets/u''), [1, 2])]\<rparr>"

lemma demo_writing:
  "write_object local_backend (demo_grant WRITE 300000000) demo_full [1, 2] False (Some ''image/jpeg'') None None
     (demo_w (demo_r1\<lparr>r_ticks := 7\<rparr>) new_local_store []) =
   (Inr demo_image_asset, demo_w (demo_r3\<lparr>r_ticks := 15\<rparr>) demo_st [(''cache'', ''granted'')])"
proof -
  have a: "authorize (demo_grant WRITE 300000000) WRITE demo_full (demo_w (demo_r1\<lparr>r_ticks := 7\<rparr>) new_local_store []) =
     (Inr (pilot_alias demo_name), demo_w (demo_r1\<lparr>r_ticks := 9\<rparr>) new_local_store [])"
    by (subst demo_granting) (simp_all add: demo_image_defs)
  note run = wp_of_eq [where m = "authorize cap WRITE demo_full" for cap, OF a]
    wp_of_eq [where m = "reserve_asset ''cache'' PARTITION (AliasMapping [(demo_name, False)]) ''admin'' (Some ''image/jpeg'') None INHERIT None (Some 2)",
      OF demo_reserving]
    wp_of_eq [where m = "commit_asset ''u'' 2 (compute_checksum [1, 2]) ''admin'' (Some ''image/jpeg'') None", OF demo_committing]
    wp_of_eq [where m = "local_put_object l d" for l d, OF local_put_eq]
  have g: "map_of (r_assets demo_r2) ''u'' = Some demo_image_pending" by (simp add: demo_r2_def)
  have u: "a_asset_id demo_image_pending = ''u''" "a_space demo_image_pending = ''cache''" "a_partition_id demo_image_pending = PARTITION"
    "a_state demo_image_pending = PENDING" by (simp_all add: demo_image_pending_def)
  have r3: "r_ticks demo_r3 = 14" by (simp add: demo_r3_def)
  have st: "o_objects new_local_store = []" "new_local_store\<lparr>o_objects := [((''cache'', PARTITION @ ''/assets/u''), [1, 2])]\<rparr> = demo_st"
    by (simp_all add: new_local_store_def demo_st_def)
  show ?thesis
    by (rule wp_eqI)
      (simp add: write_object_def wp_bind wp_seq wp_try wp_counts wp_of_result wp_on_registry run wp_on_objects wp_check
        asset_lock_def wp_get_asset g u demo_store_texts stat_of_def wp_clock_now wp_on_ledger record_successful_use_def wp_prune_expired wp_ret
        tick_def object_key_def st r3 demo_ledger cong: wp_lazy)
qed

lemma demo_dep:
  assumes "r_clock r = int" and "int k < c_expires_at cap"
  shows "require_capability_dep ''Capability cap-f'' (demo_stage (demo_w (r\<lparr>r_ticks := k\<rparr>) st res) [cap] tokens g issued n) =
     (Inr cap, demo_stage (demo_w (r\<lparr>r_ticks := Suc k\<rparr>) st res) [cap] tokens g issued n)"
  using assms
  by (intro wp_eqI) (simp add: require_capability_dep_def demo_texts wp_simps now_op_def on_world_def on_capabilities_def tick_def now_in_def
      get_capability_def store_prune_locked_def store_prune_step_def cong: wp_lazy)

definition demo_put :: upload_request where
  "demo_put = \<lparr>uq_mutable = False, uq_expected_checksum = None, uq_ttl_seconds = None,
     uq_content_length = Some (nat_str (length [1 :: 8 word, 2])), uq_content_type = Some ''image/jpeg'', uq_chunks = [[1, 2]]\<rparr>"

lemma demo_uploading:
  "write_object_route local_backend ''Capability cap-f'' demo_full demo_put
     (demo_stage (demo_w demo_r1 new_local_store []) [demo_grant WRITE 300000000] tokens g issued n) =
   (Inr (from_asset demo_image_asset),
    demo_stage (demo_w (demo_r3\<lparr>r_ticks := 15\<rparr>) demo_st [(''cache'', ''granted'')]) [demo_grant WRITE 300000000] tokens (Suc g) issued n)"
proof -
  have clock: "r_clock demo_r1 = int" by (simp add: demo_r1_def demo_new_def)
  have r1: "demo_r1 = demo_r1\<lparr>r_ticks := 4\<rparr>" by (simp add: demo_r1_def)
  have dep: "require_capability_dep ''Capability cap-f'' (demo_stage (demo_w demo_r1 st res) [demo_grant WRITE 300000000] tokens g issued n) =
     (Inr (demo_grant WRITE 300000000), demo_stage (demo_w (demo_r1\<lparr>r_ticks := 5\<rparr>) st res) [demo_grant WRITE 300000000] tokens g issued n)" for st res
    by (subst r1, subst demo_dep) (simp_all add: clock)
  have auth: "authorize (demo_grant WRITE 300000000) WRITE demo_full (demo_w (demo_r1\<lparr>r_ticks := 5\<rparr>) st res) =
      (Inr (pilot_alias demo_name), demo_w (demo_r1\<lparr>r_ticks := 7\<rparr>) st res)" for st res
    by (subst demo_granting) (simp_all add: clock)
  have fill: "get_bucket_quota ''cache'' (demo_r3\<lparr>r_ticks := 15\<rparr>) = (Inr ((default_bucket_quota ''cache'')\<lparr>bq_used_bytes := 2\<rparr>), demo_r3\<lparr>r_ticks := 15\<rparr>)"
    by (rule wp_eqI) (simp add: get_bucket_quota_def wp_simps demo_texts demo_r3_def bucket_at_def)
  note run = wp_of_eq [where m = "require_capability_dep h" for h, OF dep] wp_of_eq [where m = "authorize cap WRITE demo_full" for cap, OF auth]
    wp_of_eq [where m = "write_object local_backend cap demo_full d False (Some m) None None" for cap d m, OF demo_writing]
    wp_of_eq [where m = "get_bucket_quota s" for s, OF fill]
  have s: "a_space demo_image_asset = ''cache''" by (simp add: demo_image_asset_def demo_image_pending_def)
  show ?thesis
    by (rule wp_eqI)
      (simp add: write_object_route_def demo_put_def wp_bind wp_seq wp_check positive_opt_def run on_world_def wp_on_part authorize_write_def
        wp_gets wp_of_result check_declared_size_def demo_store_texts wp_under_lease observe_bucket_fill_def on_reg_def wp_on_registry s
        default_bucket_quota_def wp_ret cong: wp_lazy del: nat_str.simps)
qed

section \<open>The exchanges of the client\<close>

lemma ask_ok: "route B q x = (Inr y, x') \<Longrightarrow> ask B q x = (Inr (payload_reply (success_status q) y), x')"
  by (simp add: ask_def serve_def)

lemma ask_error: "route B q x = (Inl e, x') \<Longrightarrow> ask B q x = (Inr (problem_reply (problem_for e)), x')"
  by (simp add: ask_def serve_def)

lemma as_payload_ok: "m x = (Inr y, x') \<Longrightarrow> as_payload f m x = (Inr (f y), x')"
  by (simp add: as_payload_def bind_op_def ret_def)

definition demo_client :: "local_store app store_client" where
  "demo_client = \<lparr>sc_wire = store_wire local_backend, sc_service_id = ''admin'', sc_service_secret = ''s''\<rparr>"

lemma demo_header: "service_header demo_client = ''Service admin:s''" "sc_wire demo_client = store_wire local_backend"
  by (simp_all add: service_header_def demo_client_def)

lemma demo_missing: "client_resolve demo_client ''cache'' demo_rel demo_app = (Inr None, demo_app)"
proof -
  have r: "resolve_alias ''cache'' demo_rel demo_new = (Inl AliasNotFoundError, demo_new)"
    by (rule wp_raiseI) (simp add: resolve_alias_def wp_bind wp_get_binding demo_texts)
  have "resolve ''Service admin:s'' ''cache'' demo_rel demo_app = (Inl AliasNotFoundError, demo_app)"
    unfolding demo_stage0
    by (rule wp_raiseI)
      (simp add: resolve_def require_service_identity_def wp_bind wp_seq wp_gets wp_of_result demo_texts demo_allowed on_reg_def on_world_def
        wp_on_part wp_on_registry, simp add: wp_def r)
  from ask_error [where q = "Resolve h sp al" for h sp al, unfolded route.simps, OF as_payload_error [where m = "resolve h sp al" for h sp al, OF this]]
  show ?thesis
    by (simp add: client_resolve_def bind_op_def demo_header problem_reply_def problem_for_def handle_domain_def ret_def)
qed

definition demo_stage1 :: "local_store app" where
  "demo_stage1 = demo_stage (demo_w demo_r1 new_local_store []) [demo_grant WRITE 300000000] (PyInt 1) 0 [(''write'', ''granted'')] 1"

definition demo_stage2 :: "nat \<Rightarrow> local_store app" where
  "demo_stage2 k = demo_stage (demo_w (demo_r3\<lparr>r_ticks := k\<rparr>) demo_st [(''cache'', ''granted'')]) [demo_grant WRITE 300000000] (PyInt 1) 1
     [(''write'', ''granted'')] 1"

definition demo_stage3 :: "nat \<Rightarrow> local_store app" where
  "demo_stage3 k = demo_stage (demo_w (demo_r3\<lparr>r_audit_events := demo_image_events @ [demo_issue_event READ 19], r_ticks := k\<rparr>) demo_st
     [(''cache'', ''granted'')]) [demo_grant READ 300000016] (PyFloat 0) 1 [(''write'', ''granted''), (''read'', ''granted'')] (Suc (Suc 0))"

lemma demo_mint_reply:
  assumes "mint_capability ''Service admin:s'' (demo_ask op) x = (Inr out, x')" and "co_capability_id out = ''cap-f''"
  shows "client_mint demo_client (operation_value op) demo_scope 300 x = (Inr ''cap-f'', x')"
proof -
  have "ask local_backend (MintCapability ''Service admin:s'' (demo_ask op)) x = (Inr (payload_reply 201 (CapabilityPayload out)), x')"
    using ask_ok [where q = "MintCapability h b" for h b, unfolded route.simps, OF as_payload_ok [where m = "mint_capability h b" for h b, OF assms(1)]] by simp
  then show ?thesis
    using assms(2)
    by (cases op) (simp_all add: client_mint_def bind_op_def seq_op_def demo_header demo_ask_def check_def ret_def of_result_def reply_json_def json_item_def)
qed

lemma demo_minted_write: "mint_write_capability demo_client demo_scope 300 demo_app = (Inr ''cap-f'', demo_stage1)"
  using demo_mint_reply [where op = WRITE, OF demo_minting [OF demo_admitted(1), of "[]" demo_new 0, unfolded demo_w_def]]
  by (simp add: mint_write_capability_def demo_stage0 demo_stage1_def demo_r1_def demo_new_def demo_w_def)

lemma demo_minted_read: "mint_read_capability demo_client demo_scope (demo_stage2 16) = (Inr ''cap-f'', demo_stage3 20)"
  using demo_mint_reply [where op = READ, OF demo_minting [OF demo_admitted(2), of "[demo_grant WRITE 300000000]" demo_r3 16]]
  by (simp add: mint_read_capability_def demo_stage2_def demo_stage3_def demo_r3_def demo_r2_def demo_new_def)

definition demo_doc :: json where
  "demo_doc = asset_document (from_asset demo_image_asset)"

lemma demo_doc_items:
  "json_item demo_doc ''asset_id'' = Inr (JString ''u'')" "json_get demo_doc ''mime'' = Inr (JString ''image/jpeg'')"
  "json_get demo_doc ''size_bytes'' = Inr (JInt 2)" "json_get demo_doc ''checksum'' = Inr (JString (compute_checksum [1, 2]))"
  by (simp_all add: demo_doc_def asset_document_def from_asset_def demo_image_asset_def demo_image_pending_def json_item_def json_get_def opt_json_def)

lemma demo_stored_image: "client_put_object demo_client ''cap-f'' demo_full [1, 2] ''image/jpeg'' demo_stage1 = (Inr demo_doc, demo_stage2 15)"
proof -
  have "ask local_backend (WriteObject ''Capability cap-f'' demo_full demo_put) demo_stage1 =
      (Inr (payload_reply 201 (AssetPayload (from_asset demo_image_asset))), demo_stage2 15)"
    using ask_ok [where q = "WriteObject h al q" for h al q, unfolded route.simps,
        OF as_payload_ok [where m = "write_object_route B h al q" for B h al q, OF demo_uploading]]
    by (simp add: demo_stage1_def demo_stage2_def)
  then show ?thesis
    by (simp add: client_put_object_def bind_op_def seq_op_def demo_header demo_put_def check_def ret_def of_result_def reply_json_def demo_doc_def
        del: nat_str.simps)
qed

lemma demo_resolving:
  "resolve_alias ''cache'' demo_rel (demo_r3\<lparr>r_ticks := k\<rparr>) = (Inr demo_image_asset, demo_r3\<lparr>r_ticks := Suc k\<rparr>)"
  "resolve_alias ''cache'' demo_rel (demo_r3\<lparr>r_audit_events := es, r_ticks := k\<rparr>) = (Inr demo_image_asset, demo_r3\<lparr>r_audit_events := es, r_ticks := Suc k\<rparr>)"
  by (rule wp_eqI, simp add: demo_eval demo_image_defs resolve_alias_def wp_get_binding demo_texts require_live_def is_resolvable_def cong: wp_lazy)+

lemma demo_found: "client_resolve demo_client ''cache'' demo_rel (demo_stage2 15) = (Inr (Some demo_doc), demo_stage2 16)"
proof -
  note run = wp_of_eq [where m = "resolve_alias sp al" for sp al, OF demo_resolving(1)]
  have "resolve ''Service admin:s'' ''cache'' demo_rel (demo_stage2 15) = (Inr (from_asset demo_image_asset), demo_stage2 16)"
    unfolding demo_stage2_def
    by (rule wp_eqI)
      (simp add: resolve_def require_service_identity_def wp_bind wp_seq wp_gets wp_of_result demo_texts demo_allowed on_reg_def on_world_def
        wp_on_part wp_on_registry run wp_ret)
  from ask_ok [where q = "Resolve h sp al" for h sp al, unfolded route.simps, OF as_payload_ok [where m = "resolve h sp al" for h sp al, OF this]]
  show ?thesis
    by (simp add: client_resolve_def bind_op_def demo_header ret_def of_result_def reply_json_def demo_doc_def)
qed

lemma demo_served: "fst (client_read_object demo_client ''cap-f'' demo_full 10 (demo_stage3 20)) = Inr [1, 2]"
proof -
  define w where "w = demo_w (demo_r3\<lparr>r_audit_events := demo_image_events @ [demo_issue_event READ 19], r_ticks := 21\<rparr>) demo_st [(''cache'', ''granted'')]"
  have clock: "r_clock demo_r3 = int" by (simp add: demo_image_defs)
  have dep: "require_capability_dep ''Capability cap-f'' (demo_stage3 20) =
     (Inr (demo_grant READ 300000016), (demo_stage3 20)\<lparr>ap_world := w\<rparr>)"
    unfolding demo_stage3_def w_def by (subst demo_dep) (simp_all add: clock)
  have fields: "a_space demo_image_asset = ''cache''" "a_partition_id demo_image_asset = PARTITION" "a_asset_id demo_image_asset = ''u''"
    "r_assets demo_r3 = [(''u'', demo_image_asset)]"
    by (simp_all add: demo_image_asset_def demo_image_pending_def demo_r3_def)
  have "fst (read_bytes local_backend (demo_grant READ 300000016) demo_full w) = Inr [1, 2]"
    by (rule read_succeeds [OF demo_texts(1), where l = "\<lparr>loc_bucket = ''cache'', loc_key = PARTITION @ ''/assets/u''\<rparr>" and a = demo_image_asset])
      (simp_all add: authorized_def w_def allows_def demo_allowed demo_scope_ok now_in_def clock demo_resolving demo_st_def local_contents_def object_key_def local_get_eq
        fields demo_store_texts)
  then have run: "wp (read_bytes local_backend (demo_grant READ 300000016) demo_full) (\<lambda>x _. x = [1, 2]) (\<lambda>_ _. False) w"
    by (auto simp: wp_def split: prod.split sum.split)
  have "wp (read_object_route local_backend ''Capability cap-f'' demo_full ''proxy'' DEFAULT_PRESIGN_TTL_SECONDS)
      (\<lambda>x _. x = ReadBytes [1, 2]) (\<lambda>_ _. False) (demo_stage3 20)"
    using wp_mono [OF run]
    by (simp add: read_object_route_def wp_bind wp_of_eq [where m = "require_capability_dep h" for h, OF dep] wp_seq wp_check wp_ret
        DEFAULT_PRESIGN_TTL_SECONDS_def on_world_def wp_on_part)
  then obtain x' where "read_object_route local_backend ''Capability cap-f'' demo_full ''proxy'' DEFAULT_PRESIGN_TTL_SECONDS (demo_stage3 20) =
      (Inr (ReadBytes [1, 2]), x')"
    by (auto simp: wp_def split: prod.splits sum.splits)
  from ask_ok [where q = "ReadObject h al md n" for h al md n, unfolded route.simps,
      OF as_payload_ok [where m = "read_object_route B h al md n" for B h al md n, OF this]]
  show ?thesis
    by (simp add: client_read_object_def bind_op_def seq_op_def demo_header check_def ret_def of_result_def)
qed

section \<open>The run\<close>

definition demo_pilot :: "(local_store app, unit) pilot" where
  "demo_pilot = \<lparr>pc_client = demo_client, pc_fetcher = OtherFetcher (\<lambda>url n. (Inr \<lparr>fc_data = [1, 2], fc_mime = ''image/jpeg''\<rparr>, n)),
     pc_max_bytes = 10\<rparr>"

definition demo_process :: "local_store app \<Rightarrow> string option \<Rightarrow> (local_store app, unit) fetcher" where
  "demo_process x cap = \<lparr>fs_store = x, fs_network = (), fs_read_capability = cap,
     fs_jobs = \<lparr>g_limit = 1, g_active = 0, g_granted = 0, g_denied = 0\<rparr>, fs_refetch_checks = [], fs_cache_operations = [], fs_ingress_auth = []\<rparr>"

definition demo_url :: string where "demo_url = ''https://'' @ HOST @ demo_path"

lemma demo_process_simps [simp]:
  "fs_store (demo_process x cap) = x" "fs_network (demo_process x cap) = n" "fs_read_capability (demo_process x cap) = cap"
  "(demo_process x cap)\<lparr>fs_store := y\<rparr> = demo_process y cap" "(demo_process x cap)\<lparr>fs_network := n\<rparr> = demo_process x cap"
  "(demo_process x cap)\<lparr>fs_read_capability := c\<rparr> = demo_process x c"
  by (simp_all add: demo_process_def)

lemma demo_approved: "pilot_require demo_url = Inr demo_image" "fetch_url demo_image = demo_url"
  unfolding demo_url_def by (rule demo_image_approved)+

lemma demo_fetched: "approved_fetch demo_pilot demo_url n = (Inr \<lparr>fc_data = [1, 2], fc_mime = ''image/jpeg''\<rparr>, n)"
  by (rule wp_eqI) (simp add: approved_fetch_def demo_pilot_def demo_approved wp_bind wp_seq wp_of_result wp_check wp_ret IMAGE_MIMES_def, simp add: wp_def seq_op_def bind_op_def check_def ret_def)

definition demo_cached :: ensure_url_result where
  "demo_cached = \<lparr>eu_asset_id = JString ''u'', eu_qualified_alias = demo_full, eu_cache_hit = False, eu_bucket = ''cache'', eu_partition_id = PARTITION\<rparr>"

lemma demo_preloaded: "preload demo_pilot demo_url False (demo_process demo_app None) = (Inr demo_cached, demo_process (demo_stage2 15) None)"
proof -
  have names: "''cache'' @ ''/'' @ demo_rel = demo_full" "''cache'' @ ''/'' @ PARTITION = demo_scope" "PARTITION @ ''/'' @ demo_name = demo_rel"
    by (simp_all add: demo_full_def demo_scope_def demo_rel_def)
  have c: "pc_client demo_pilot = demo_client" by (simp add: demo_pilot_def)
  note run = wp_of_eq [where m = "client_resolve demo_client ''cache'' demo_rel", OF demo_missing]
    wp_of_eq [where m = "mint_write_capability demo_client demo_scope 300", OF demo_minted_write]
    wp_of_eq [where m = "client_put_object demo_client ''cap-f'' demo_full [1, 2] ''image/jpeg''", OF demo_stored_image]
    wp_of_eq [where m = "approved_fetch demo_pilot demo_url", OF demo_fetched]
  have normal: "normalize_request demo_url = Inr \<lparr>n_scheme = ''https'', n_host = HOST, n_port = None, n_path = demo_path, n_query = []\<rparr>"
    "canonical_url \<lparr>n_scheme = ''https'', n_host = HOST, n_port = None, n_path = demo_path, n_query = []\<rparr> = demo_url"
    unfolding normalize_request_def demo_url_def by (simp_all only: demo_normal sum.case)
  have place: "placement pilot_match \<lparr>n_scheme = ''https'', n_host = HOST, n_port = None, n_path = demo_path, n_query = []\<rparr> None None =
      Inr (''cache'', PARTITION, demo_rel)"
    by (simp add: placement_def demo_normal bind_result_def primary_alias_def names del: append_Cons)
  show ?thesis
    by (rule wp_eqI)
      (simp add: preload_def ensure_url_def c wp_bind wp_of_result normal demo_approved place wp_try run wp_on_asset_store wp_on_network
        demo_doc_items wp_ret demo_cached_def names del: append_Cons)
qed

lemma demo_image_read:
  "\<exists>s2. pilot_read demo_pilot demo_image (demo_process (demo_stage2 15) None) =
     (Inr \<lparr>ci_data = [1, 2], ci_mime = ''image/jpeg'', ci_checksum = compute_checksum [1, 2]\<rparr>, s2)"
proof -
  have names: "''cache/'' @ demo_rel = demo_full" "''cache/'' @ PARTITION = demo_scope"
    by (simp_all add: demo_full_def demo_scope_def demo_rel_def)
  have c: "pc_client demo_pilot = demo_client" "pc_max_bytes demo_pilot = 10" by (simp_all add: demo_pilot_def)
  have rel: "relative_alias demo_image = Inr demo_rel" unfolding demo_rel_def by (rule demo_image_approved)
  note run = wp_of_eq [where m = "client_resolve demo_client ''cache'' demo_rel", OF demo_found]
    wp_of_eq [where m = "mint_read_capability demo_client demo_scope", OF demo_minted_read]
    wp_of_eq [where m = "client_read_object demo_client ''cap-f'' demo_full 10", OF fst_Inr [where m = "client_read_object c i al n" for c i al n, OF demo_served]]
  have mime: "image_mime (JString ''image/jpeg'') = Inr ''image/jpeg''" by (simp add: image_mime_def IMAGE_MIMES_def)
  have sum: "''sha256:'' @ sha256_hex d = compute_checksum d" for d by (simp add: compute_checksum_def CHECKSUM_ALGO_def)
  have "wp (pilot_read demo_pilot demo_image) (\<lambda>i _. i = \<lparr>ci_data = [1, 2], ci_mime = ''image/jpeg'', ci_checksum = compute_checksum [1, 2]\<rparr>)
      (\<lambda>_ _. False) (demo_process (demo_stage2 15) None)"
    by (simp add: pilot_read_def read_asset_def read_image_def read_token_def wp_bind wp_seq wp_try wp_of_result wp_check wp_ret wp_gets wp_modify
        wp_on_asset_store run c rel names demo_doc_items json_size_def bind_result_def mime sum Let_def del: append_Cons)
  then show ?thesis by (auto simp: wp_def split: prod.splits sum.splits)
qed

end
