(* ===== verification/Pilot_Props.thy ===== *)
theory Pilot_Props
  imports Pilot_Example
begin

text \<open>
  Preloading an image and reading it back through the modelled asset store.
\<close>

section \<open>The pilot on the modelled store\<close>

definition holds_image :: "string \<Rightarrow> asset \<Rightarrow> bytes \<Rightarrow> 'd \<Rightarrow> (local_store app, 'd) fetcher \<Rightarrow> bool" where
  "holds_image k a d net s \<longleftrightarrow> image_app k a d (fs_store s) \<and> fs_network s = net"

lemma read_token_image:
  assumes "sc_wire (pc_client P) = store_wire local_backend" and "holds_image k a d net s"
  shows "wp (read_token P stale) (\<lambda>_. holds_image k a d net) (\<lambda>_. holds_image k a d net) s"
proof -
  have "wp (mint_read_capability (pc_client P) scope) (\<lambda>_. image_app k a d) (\<lambda>_. image_app k a d) (fs_store s)" for scope
    using assms(2) unfolding mint_read_capability_def by (intro client_mint_keeps [OF assms(1) image_routes(2)]) (simp add: holds_image_def)
  then have "wp (mint_read_capability (pc_client P) scope)
      (\<lambda>y x. holds_image k a d net (s\<lparr>fs_store := x, fs_read_capability := Some y\<rparr>)) (\<lambda>_ x. holds_image k a d net (s\<lparr>fs_store := x\<rparr>)) (fs_store s)" for scope
    by (rule wp_mono) (use assms(2) in \<open>simp_all add: holds_image_def\<close>)
  then show ?thesis using assms(2) by (auto simp: read_token_def wp_simps split: option.split)
qed

lemma read_image_image:
  assumes "sc_wire (pc_client P) = store_wire local_backend" and "parse_alias al = Inr p" "canonical (p_relative p)"
    and "holds_image (p_qualified p) a d net s"
  shows "wp (read_image P al) (\<lambda>data s'. data = d \<and> holds_image (p_qualified p) a d net s')
     (\<lambda>_. holds_image (p_qualified p) a d net) s"
proof -
  let ?I = "holds_image (p_qualified p) a d net"
  have read: "wp (on_asset_store (client_read_object (pc_client P) token al limit)) (\<lambda>data s'. data = d \<and> ?I s') (\<lambda>_. ?I) t"
    if "?I t" for token limit t
    unfolding wp_on_asset_store
    by (rule wp_mono [OF client_read_image [OF assms(1) _ assms(2,3)]]) (use that in \<open>simp_all add: holds_image_def\<close>)
  have retry: "wp (case e of
         AssetStoreError status x \<Rightarrow>
           if status \<noteq> Some 403 then raise e
           else bind_op (read_token P (Some token)) (\<lambda>fresh. on_asset_store (client_read_object (pc_client P) fresh al limit))
       | _ \<Rightarrow> raise e) (\<lambda>data s'. data = d \<and> ?I s') (\<lambda>_. ?I) t" if "?I t" for e token limit t
  proof -
    have "wp (bind_op (read_token P (Some token)) (\<lambda>fresh. on_asset_store (client_read_object (pc_client P) fresh al limit)))
        (\<lambda>data s'. data = d \<and> ?I s') (\<lambda>_. ?I) t"
      unfolding wp_bind by (rule wp_mono [OF read_token_image [OF assms(1) that]]) (use read in auto)
    then show ?thesis using that by (cases e) (simp_all add: wp_raise)
  qed
  have "wp (try_op (on_asset_store (client_read_object (pc_client P) token al limit)) (\<lambda>e. case e of
         AssetStoreError status x \<Rightarrow>
           if status \<noteq> Some 403 then raise e
           else bind_op (read_token P (Some token)) (\<lambda>fresh. on_asset_store (client_read_object (pc_client P) fresh al limit))
       | _ \<Rightarrow> raise e)) (\<lambda>data s'. data = d \<and> ?I s') (\<lambda>_. ?I) t" if "?I t" for token limit t
    unfolding wp_try by (rule wp_mono [OF read [OF that]]) (assumption, erule retry)
  then show ?thesis
    unfolding read_image_def wp_bind by (rule wp_mono [OF read_token_image [OF assms(1,4)]])
qed

lemma wp_bind_pure: "(\<And>x. r = Inr x \<Longrightarrow> wp (f x) Q (\<lambda>_ _. True) s) \<Longrightarrow> wp (bind_op (of_result r) f) Q (\<lambda>_ _. True) s"
  by (cases r) (simp_all add: wp_bind wp_of_result)

lemma wp_check_then: "(b \<Longrightarrow> wp n Q (\<lambda>_ _. True) s) \<Longrightarrow> wp (seq_op (check b e) n) Q (\<lambda>_ _. True) s"
  by (simp add: wp_seq wp_check)

lemma wp_pilot_read:
  assumes "sc_wire (pc_client P) = store_wire local_backend" and "parse_alias (''cache/'' @ p_relative p) = Inr p" "canonical (p_relative p)"
    and "p_space p = ''cache''" and "holds_image (p_qualified p) a d net s" and "relative_alias t = Inr (p_relative p)"
  shows "wp (pilot_read P t) (\<lambda>image s'. ci_data image = d \<and> Some (ci_mime image) = a_mime a \<and> fs_network s' = net) (\<lambda>_ _. True) s"
proof -
  let ?I = "holds_image (p_qualified p) a d net" and ?Q = "\<lambda>image s'. ci_data image = d \<and> Some (ci_mime image) = a_mime a \<and> fs_network s' = net"
  have asset: "wp (read_asset P (p_relative p) doc) ?Q (\<lambda>_ _. True) t"
    if "?I t" "json_get doc ''mime'' = Inr (opt_json JString (a_mime a))" for doc t
  proof -
    have mime: "a_mime a = Some m" if "bind_result (json_get doc ''mime'') image_mime = Inr m" for m
      using that \<open>json_get doc ''mime'' = _\<close> by (auto simp: opt_json_def image_mime_def split: option.splits if_splits)
    have img: "wp (bind_op (read_image P (''cache/'' @ p_relative p)) f) ?Q (\<lambda>_ _. True) t"
      if "\<And>s'. ?I s' \<Longrightarrow> wp (f d) ?Q (\<lambda>_ _. True) s'" for f
      unfolding wp_bind by (rule wp_mono [OF read_image_image [OF assms(1-3) \<open>?I t\<close>]]) (use that in auto)
    show ?thesis
      unfolding read_asset_def
    proof (rule wp_bind_pure, goal_cases)
      case (1 size_json)
      show ?case
      proof (cases "json_size size_json")
        case (Some n)
        show ?thesis
          unfolding Some option.case
          by (rule wp_check_then, rule wp_check_then, rule wp_bind_pure, rule img, rule wp_bind_pure, unfold Let_def, rule wp_check_then)
            (simp add: wp_ret mime holds_image_def)
      qed (simp add: wp_raise)
    qed
  qed
  have found: "wp (case found of None \<Rightarrow> raise CacheMissError | Some doc \<Rightarrow> read_asset P (p_relative p) doc) ?Q (\<lambda>_ _. True) t"
    if "?I t" "\<forall>doc. found = Some doc \<longrightarrow> json_get doc ''mime'' = Inr (opt_json JString (a_mime a))" for found t
    using that asset by (cases found) (auto simp: wp_raise)
  have now: "image_app (p_qualified p) a d (fs_store s)" using assms(5) by (simp add: holds_image_def)
  have keep: "?I (s\<lparr>fs_store := x\<rparr>)" if "image_app (p_qualified p) a d x" for x
    using assms(5) that by (simp add: holds_image_def)
  have "wp (bind_op (on_asset_store (client_resolve (pc_client P) (p_space p) (p_relative p)))
      (\<lambda>found. case found of None \<Rightarrow> raise CacheMissError | Some doc \<Rightarrow> read_asset P (p_relative p) doc)) ?Q (\<lambda>_ _. True) s"
    unfolding wp_bind wp_on_asset_store
    by (rule wp_mono [OF client_resolve_image [OF assms(1) now assms(2,3)]], rule found, use keep in blast, blast, simp)
  then show ?thesis
    unfolding pilot_read_def assms(4,6) wp_try
    by (intro wp_mono [OF wp_bind_pure]) (auto simp: wp_raise split: fetch_error.split)
qed


section \<open>Preloading\<close>

lemma approved_mime: "approved_fetch P url n = (Inr c, n') \<Longrightarrow> fc_mime c \<noteq> []"
proof -
  have "wp (approved_fetch P url) (\<lambda>c _. fc_mime c \<noteq> []) (\<lambda>_ _. True) n"
    unfolding approved_fetch_def
    by (rule wp_seq_any, rule wp_bind_any, rule wp_seq_any, rule wp_check_then) (auto simp: wp_ret IMAGE_MIMES_def)
  then show "approved_fetch P url n = (Inr c, n') \<Longrightarrow> fc_mime c \<noteq> []" by (simp add: wp_def)
qed

definition preloaded :: "(local_store app, 'd) pilot \<Rightarrow> pilot_target \<Rightarrow> 'd \<Rightarrow> (local_store app, 'd) fetcher \<Rightarrow> bool" where
  "preloaded P t net s' \<longleftrightarrow>
     (\<exists>content name a. approved_fetch P (fetch_url t) net = (Inr content, fs_network s') \<and>
        relative_alias t = Inr (PARTITION @ ''/'' @ name) \<and> canonical name \<and> \<not> prefix PARTITION name \<and>
        image_app (p_qualified (pilot_alias name)) a (fc_data content) (fs_store s') \<and> a_mime a = Some (fc_mime content))"

lemma wp_preload:
  assumes wire: "sc_wire (pc_client P) = store_wire local_backend" and inv: "app_inv creds (fs_store s)" and t: "pilot_require url = Inr t"
  shows "wp (preload P url False)
     (\<lambda>r s'. \<not> eu_cache_hit r \<longrightarrow> preloaded P t (fs_network s) s')
     (\<lambda>_ _. True) s" (is "wp _ ?Q _ _")
proof -
  have conflict: "wp (after_conflict P t b) ?Q (\<lambda>_ _. True) s'" for b s'
    unfolding after_conflict_def
    by (rule wp_bind_pure, rule wp_bind_any) (auto split: option.split intro!: wp_bind_pure simp: wp_raise wp_ret)
  have hit: "wp (bind_op (of_result (json_item doc ''asset_id'')) (\<lambda>i. ret (f i))) ?Q (\<lambda>_ _. True) s'" if "\<And>i. eu_cache_hit (f i)" for doc f s'
    by (rule wp_bind_pure) (simp add: wp_ret that)
  let ?c = "pc_client P"
  have store: "wp (bind_op (on_asset_store (mint_write_capability ?c scope 300)) (\<lambda>cap.
         bind_op (on_asset_store (client_put_object ?c cap al (fc_data content) (fc_mime content))) (\<lambda>asset.
         bind_op (of_result (json_item asset ''asset_id'')) (\<lambda>i. ret (f i))))) ?Q (\<lambda>_ _. True) s'"
    if "approved_fetch P (fetch_url t) (fs_network s) = (Inr content, fs_network s')" "app_inv creds (fs_store s')"
      "relative_alias t = Inr (PARTITION @ ''/'' @ name)" "canonical name" "\<not> prefix PARTITION name"
      "al = ''cache/'' @ PARTITION @ ''/'' @ name" for scope name content f s' al
  proof -
    note parsed = pilot_alias_parsed [OF that(4,5)]
    have mime: "fc_mime content \<noteq> []" using that(1) by (rule approved_mime)
    have put: "wp (client_put_object ?c cap (''cache/'' @ PARTITION @ ''/'' @ name) (fc_data content) (fc_mime content))
        (\<lambda>_ x'. \<exists>a. image_app (p_qualified (pilot_alias name)) a (fc_data content) x' \<and> a_mime a = Some (fc_mime content)) (\<lambda>_ _. True) x"
      if "app_inv creds x" for cap x
      by (rule client_put_image [OF wire that parsed(1,2,3,5) mime])
    have result: "wp (bind_op (of_result (json_item asset ''asset_id'')) (\<lambda>i. ret (f i))) ?Q (\<lambda>_ _. True) (s'\<lparr>fs_store := x\<rparr>)"
      if "image_app (p_qualified (pilot_alias name)) a (fc_data content) x \<and> a_mime a = Some (fc_mime content)" for asset a x
      by (rule wp_bind_pure) (use that \<open>approved_fetch _ _ _ = _\<close> \<open>relative_alias t = _\<close> \<open>canonical name\<close> \<open>\<not> prefix _ _\<close> in \<open>auto simp: wp_ret preloaded_def\<close>)
    have upload: "wp (bind_op (on_asset_store (client_put_object ?c cap (''cache/'' @ PARTITION @ ''/'' @ name) (fc_data content) (fc_mime content)))
        (\<lambda>asset. bind_op (of_result (json_item asset ''asset_id'')) (\<lambda>i. ret (f i)))) ?Q (\<lambda>_ _. True) (s'\<lparr>fs_store := x\<rparr>)"
      if "app_inv creds x" for cap x
      unfolding wp_bind [of "on_asset_store m" for m] wp_on_asset_store
      by (rule wp_mono [OF put]) (use that result in auto)
    show ?thesis
      unfolding that(6) wp_bind [of "on_asset_store m" for m] wp_on_asset_store mint_write_capability_def
      by (rule wp_mono [OF client_mint_keeps [OF wire keeps_route that(2)]])
        (use upload [unfolded wp_bind [of "on_asset_store m" for m] wp_on_asset_store] in auto)
  qed
  have fetched: "wp (bind_op (on_network (approved_fetch P (fetch_url t))) g) ?Q (\<lambda>_ _. True) s'"
    if "fs_network s' = fs_network s"
      "\<And>content n'. approved_fetch P (fetch_url t) (fs_network s) = (Inr content, n') \<Longrightarrow> wp (g content) ?Q (\<lambda>_ _. True) (s'\<lparr>fs_network := n'\<rparr>)" for g s'
    unfolding wp_bind wp_on_network that(1) by (rule wpI) (use that(2) in auto)
  have ensure: "wp (ensure_url ?c pilot_match (approved_fetch P) (fetch_url t) False None None 300) ?Q (\<lambda>_ _. True) s"
    unfolding ensure_url_def
  proof (rule wp_bind_pure, rule wp_bind_pure, goal_cases)
    case (1 n place)
    then obtain m where n: "normalize_url (fetch_url t) = Inr n" and m: "pilot_match n = Inr (Some m)"
      and place: "place = (''cache'', rm_mirror_id m, rm_mirror_id m @ ''/'' @ primary_alias m)"
      by (auto simp: normalize_request_def placement_def bind_result_Inr split: sum.splits option.splits if_splits)
    note name = preload_name [OF t n m]
    have url: "canonical_url n = fetch_url t" using name by simp
    show ?case
    proof (unfold place split_conv Let_def, subst wp_bind, subst wp_on_asset_store, rule wp_mono [OF client_resolve_keeps [OF wire keeps_route inv]], goal_cases)
      case (1 found x)
      show ?case
      proof (cases found)
        case None
        show ?thesis
          unfolding None prod.case option.case url
          by (rule fetched, simp, rule store [where name = "primary_alias m"]) (use 1 name in simp_all)
      next
        case (Some existing)
        then show ?thesis by (simp add: hit)
      qed
    qed simp
  qed
  show ?thesis
    unfolding preload_def t
    by (simp add: wp_bind wp_of_result wp_try, rule wp_mono [OF ensure])
      (auto simp: wp_raise conflict split: fetch_error.split)
qed

text \<open>
  C40: What is preloaded is what is served. Let a fetcher process talk to an asset store that has served
  any sequence of requests, and let \<open>preload\<close> of an approved URL succeed on it without a cache hit. If
  \<open>read\<close> of the image then succeeds, it answers the bytes and the media type that the one fetch of the
  image's URL gave, and no further fetch is made. This runs through every layer: the policy, the
  normaliser and the rule of the pilot, the client with its URL quoting, the handlers of the store with
  their capabilities, the guard, the registry and the objects.
\<close>

theorem preload_then_read:
  assumes "app_reachable local_backend (fs_store s)" and "sc_wire (pc_client P) = store_wire local_backend"
    and "preload P url False s = (Inr r, s1)" and "\<not> eu_cache_hit r"
    and "pilot_require url = Inr t" and "pilot_read P t s1 = (Inr img, s2)"
  shows "\<exists>content. approved_fetch P (fetch_url t) (fs_network s) = (Inr content, fs_network s1) \<and>
     ci_data img = fc_data content \<and> ci_mime img = fc_mime content \<and> fs_network s2 = fs_network s1"
proof -
  have "app_inv (ap_credentials (fs_store s)) (fs_store s)" by (rule app_reachable_inv [OF assms(1)])
  from wp_result [OF wp_preload [OF assms(2) this assms(5)] assms(3)] assms(4)
  obtain content name a where f: "approved_fetch P (fetch_url t) (fs_network s) = (Inr content, fs_network s1)"
    and rel: "relative_alias t = Inr (p_relative (pilot_alias name))" and name: "canonical name" "\<not> prefix PARTITION name"
    and held: "holds_image (p_qualified (pilot_alias name)) a (fc_data content) (fs_network s1) s1" and m: "a_mime a = Some (fc_mime content)"
    by (auto simp: pilot_alias_def holds_image_def preloaded_def)
  note parsed = pilot_alias_parsed [OF name]
  have "ci_data img = fc_data content \<and> Some (ci_mime img) = a_mime a \<and> fs_network s2 = fs_network s1"
    by (rule wp_result [OF wp_pilot_read [OF assms(2) _ parsed(4) _ held rel] assms(6)]) (use parsed(1) in \<open>simp_all add: pilot_alias_def\<close>)
  then show ?thesis using f m by auto
qed

theorem preload_then_read_witness:
  "\<exists>img s2. pilot_read demo_pilot demo_image (demo_process (demo_stage2 15) None) = (Inr img, s2) \<and>
     (\<exists>content. approved_fetch demo_pilot (fetch_url demo_image) () = (Inr content, ()) \<and>
        ci_data img = fc_data content \<and> ci_mime img = fc_mime content \<and> fs_network s2 = ())"
proof -
  obtain img s2 where read: "pilot_read demo_pilot demo_image (demo_process (demo_stage2 15) None) = (Inr img, s2)"
    using demo_image_read by blast
  have "app_reachable local_backend (fs_store (demo_process demo_app None))" by (simp add: demo_app_reachable)
  moreover have "sc_wire (pc_client demo_pilot) = store_wire local_backend" by (simp add: demo_pilot_def demo_header)
  moreover have "\<not> eu_cache_hit demo_cached" by (simp add: demo_cached_def)
  ultimately show ?thesis using preload_then_read [OF _ _ demo_preloaded _ demo_approved(1) read] read by auto
qed

end
