(* ===== verification/Pg.thy ===== *)
theory Pg
  imports Registry
begin

text \<open>
  The Postgres registry, \<^verbatim>\<open>asset_store_core/pg_registry.py\<close>. Its tables are association lists from primary
  keys to rows, and every SQL statement of the class is an operation on them that checks what the schema
  checks: unique keys, the reference of an alias to its asset, the range of \<open>bigint\<close> and the constraint on
  reservations. A statement that the database refuses raises \<open>BackendError\<close>. Statements run one at a time,
  so row locks have no effect and are left out; text holds no NUL characters, which Postgres cannot store, and
  is ordered by code points.
\<close>

section \<open>Tables\<close>

record asset_row =
  ar_asset_id :: string
  ar_space :: string
  ar_partition_id :: string
  ar_storage_key :: string
  ar_state :: asset_state
  ar_mime :: "string option"
  ar_size_bytes :: "int option"
  ar_reserved_bytes :: "int option"
  ar_checksum_algo :: string
  ar_checksum :: "string option"
  ar_annotations :: "(string, string) fmap"
  ar_eviction_policy :: eviction_policy
  ar_owner_service_id :: string
  ar_created_at :: datetime
  ar_updated_at :: datetime
  ar_expires_at :: "datetime option"
  ar_expired_at :: "datetime option"
  ar_last_read_at :: "datetime option"
  ar_read_count :: int
  ar_payload_deleted_at :: "datetime option"

text \<open>
  The columns of \<open>aliases\<close>, \<open>partition_quotas\<close>, \<open>bucket_quotas\<close> and, after its id, \<open>audit_events\<close> are the
  fields of the corresponding dataclasses. A state or policy column holds the value of its enumeration.
\<close>

record tables =
  tb_assets :: "(string, asset_row) dict"
  tb_aliases :: "(string \<times> string, alias_binding) dict"
  tb_tombstones :: "(string \<times> string, datetime) dict"
  tb_partition_quotas :: "(string \<times> string, partition_quota) dict"
  tb_bucket_quotas :: "(string, bucket_quota) dict"
  tb_audit_events :: "(int \<times> audit_event) list"

definition empty_tables :: tables where
  "empty_tables = \<lparr>tb_assets = [], tb_aliases = [], tb_tombstones = [], tb_partition_quotas = [],
     tb_bucket_quotas = [], tb_audit_events = []\<rparr>"

definition in_bigint :: "int \<Rightarrow> bool" where
  "in_bigint n \<longleftrightarrow> - (2 ^ 63) \<le> n \<and> n < 2 ^ 63"

definition opt_bigint :: "int option \<Rightarrow> bool" where
  "opt_bigint x = (case x of None \<Rightarrow> True | Some n \<Rightarrow> in_bigint n)"

section \<open>The registry\<close>

text \<open>
  The object and what it reaches: the tables, the sequence of audit ids (which no rollback resets), the
  clock, the identifiers and the environment, the pool with its answer to each request for a connection,
  whether this thread holds one, the order in which the database returns the rows of a query that asks for
  none, by the number of the unit of work, and the counters.
\<close>

record pg =
  pg_tables :: tables
  pg_audit_id :: int
  pg_alias_grace :: int
  pg_env :: environ
  pg_clock :: "nat \<Rightarrow> datetime"
  pg_ticks :: nat
  pg_uuids :: "nat \<Rightarrow> string"
  pg_next_uuid :: nat
  pg_pool :: "nat \<Rightarrow> bool"
  pg_scan :: "nat \<Rightarrow> asset_row list \<Rightarrow> asset_row list"
  pg_checkouts :: nat
  pg_connected :: bool
  pg_transactions :: "string list"
  pg_unavailable :: nat

definition pg_utcnow :: "(pg, datetime) op" where
  "pg_utcnow s = (Inr (pg_clock s (pg_ticks s)), s\<lparr>pg_ticks := Suc (pg_ticks s)\<rparr>)"

definition pg_new_asset_id :: "(pg, string) op" where
  "pg_new_asset_id s = (Inr (pg_uuids s (pg_next_uuid s)), s\<lparr>pg_next_uuid := Suc (pg_next_uuid s)\<rparr>)"

text \<open>
  The constructor with \<open>bootstrap_schema=False\<close>, on a database that holds the tables; the statements of the
  bootstrap do nothing when the tables exist.
\<close>

definition init_pg ::
  "tables \<Rightarrow> int \<Rightarrow> int option \<Rightarrow> environ \<Rightarrow> (nat \<Rightarrow> datetime) \<Rightarrow> (nat \<Rightarrow> string) \<Rightarrow> (nat \<Rightarrow> bool) \<Rightarrow>
   (nat \<Rightarrow> asset_row list \<Rightarrow> asset_row list) \<Rightarrow> error + pg" where
  "init_pg tables audit_id alias_name_grace_period env clock uuids pool scan =
     (let s = \<lparr>pg_tables = tables, pg_audit_id = audit_id, pg_alias_grace = seconds (7 * 86400), pg_env = env,
               pg_clock = clock, pg_ticks = 0, pg_uuids = uuids, pg_next_uuid = 0, pg_pool = pool, pg_scan = scan, pg_checkouts = 0,
               pg_connected = False, pg_transactions = [], pg_unavailable = 0\<rparr>
      in case alias_name_grace_period of
           None \<Rightarrow> Inr s
         | Some g \<Rightarrow> if g < 0 then Inl ValidationError else Inr (s\<lparr>pg_alias_grace := g\<rparr>))"

text \<open>
  The bounds of the pool: an argument or the environment variable of the same name, whose text \<open>int\<close> or
  \<open>float\<close> may refuse.
\<close>

record pool_bounds =
  pb_min_size :: int
  pb_max_size :: int
  pb_timeout :: rat
  pb_max_waiting :: int

definition int_setting :: "(string \<rightharpoonup> string) \<Rightarrow> string \<Rightarrow> int \<Rightarrow> int option \<Rightarrow> error + int" where
  "int_setting env name dflt given =
     (case given of
        Some n \<Rightarrow> Inr n
      | None \<Rightarrow>
          (case env name of
             None \<Rightarrow> Inr dflt
           | Some text \<Rightarrow> (case py_int_parse text of None \<Rightarrow> Inl ValidationError | Some n \<Rightarrow> Inr n)))"

definition float_setting :: "(string \<Rightarrow> float_text) \<Rightarrow> (string \<rightharpoonup> string) \<Rightarrow> string \<Rightarrow> rat \<Rightarrow> float_text option \<Rightarrow> error + float_text" where
  "float_setting py_float env name dflt given =
     (case given of
        Some x \<Rightarrow> Inr x
      | None \<Rightarrow>
          (case env name of
             None \<Rightarrow> Inr (FloatValue dflt)
           | Some text \<Rightarrow> (case py_float text of FloatInvalid \<Rightarrow> Inl ValidationError | x \<Rightarrow> Inr x)))"

definition pool_bounds_for ::
  "(string \<Rightarrow> float_text) \<Rightarrow> (string \<rightharpoonup> string) \<Rightarrow> int option \<Rightarrow> int option \<Rightarrow> float_text option \<Rightarrow> int option \<Rightarrow>
   error + pool_bounds" where
  "pool_bounds_for py_float env pool_min_size pool_max_size pool_timeout pool_max_waiting =
     bind_result (int_setting env ''ASSET_STORE_PG_POOL_MIN'' 1 pool_min_size) (\<lambda>minimum.
     bind_result (int_setting env ''ASSET_STORE_PG_POOL_MAX'' 8 pool_max_size) (\<lambda>maximum.
     bind_result (float_setting py_float env ''ASSET_STORE_PG_POOL_TIMEOUT'' 5 pool_timeout) (\<lambda>timeout.
     bind_result (int_setting env ''ASSET_STORE_PG_POOL_MAX_WAITING'' 32 pool_max_waiting) (\<lambda>waiting.
     case timeout of
       FloatValue t \<Rightarrow>
         bind_result (guard_result (1 \<le> minimum \<and> minimum \<le> maximum \<and> 1 \<le> waiting \<and> 0 < t) ValidationError) (\<lambda>_.
         Inr \<lparr>pb_min_size = minimum, pb_max_size = maximum, pb_timeout = t, pb_max_waiting = waiting\<rparr>)
     | _ \<Rightarrow> Inl ValidationError))))"

section \<open>Units of work\<close>

text \<open>A transaction, also a nested one, restores the tables when its body raises.\<close>

definition pg_transaction :: "(pg, 'a) op \<Rightarrow> (pg, 'a) op" where
  "pg_transaction m s =
     (case m s of
        (Inl e, t) \<Rightarrow> (Inl e, t\<lparr>pg_tables := pg_tables s\<rparr>)
      | (Inr x, t) \<Rightarrow> (Inr x, t))"

definition pg_getconn :: "(pg, bool) op" where
  "pg_getconn s = (Inr (pg_pool s (pg_checkouts s)), s\<lparr>pg_checkouts := Suc (pg_checkouts s)\<rparr>)"

definition pg_finish :: "string \<Rightarrow> (pg, unit) op" where
  "pg_finish outcome = modify (\<lambda>s. s\<lparr>pg_transactions := pg_transactions s @ [outcome], pg_connected := False\<rparr>)"

definition unit_of_work :: "(pg, 'a) op \<Rightarrow> (pg, 'a) op" where
  "unit_of_work m =
     bind_op (gets pg_connected) (\<lambda>nested.
     if nested then m
     else
       bind_op pg_getconn (\<lambda>available.
       if \<not> available then
         seq_op (modify (\<lambda>s. s\<lparr>pg_unavailable := Suc (pg_unavailable s)\<rparr>)) (raise RegistryUnavailableError)
       else
         seq_op (modify (\<lambda>s. s\<lparr>pg_connected := True\<rparr>)) (
         bind_op (try_op (pg_transaction m) (\<lambda>e. seq_op (pg_finish ''rolled_back'') (raise e))) (\<lambda>x.
         seq_op (pg_finish ''committed'') (ret x)))))"

text \<open>\<open>self._conn.execute\<close>: a statement needs the connection of a unit of work.\<close>

definition execute :: "(tables, 'a) op \<Rightarrow> (pg, 'a) op" where
  "execute m =
     bind_op (gets pg_connected) (\<lambda>connected.
     seq_op (check connected RuntimeError) (on_part pg_tables (\<lambda>t s. s\<lparr>pg_tables := t\<rparr>) m))"

section \<open>Statements\<close>

definition select_asset :: "string \<Rightarrow> (tables, asset_row option) op" where
  "select_asset asset_id = gets (\<lambda>t. map_of (tb_assets t) asset_id)"

definition select_alias_names :: "string \<Rightarrow> (tables, string list) op" where
  "select_alias_names asset_id =
     gets (\<lambda>t. map b_alias (filter (\<lambda>b. b_asset_id b = Some asset_id) (dict_values (tb_aliases t))))"

definition select_alias :: "string \<Rightarrow> string \<Rightarrow> (tables, alias_binding option) op" where
  "select_alias space alias = gets (\<lambda>t. map_of (tb_aliases t) (space, alias))"

definition row_in_range :: "asset_row \<Rightarrow> bool" where
  "row_in_range row \<longleftrightarrow> opt_bigint (ar_size_bytes row) \<and> opt_bigint (ar_reserved_bytes row) \<and>
     (case ar_reserved_bytes row of None \<Rightarrow> True | Some n \<Rightarrow> 0 \<le> n) \<and> in_bigint (ar_read_count row)"

definition insert_asset :: "asset_row \<Rightarrow> (tables, unit) op" where
  "insert_asset row =
     seq_op (check (row_in_range row) BackendError) (
     bind_op (gets (\<lambda>t. map_of (tb_assets t) (ar_asset_id row))) (\<lambda>present.
     seq_op (check (present = None) BackendError) (
     modify (\<lambda>t. t\<lparr>tb_assets := AList.update (ar_asset_id row) row (tb_assets t)\<rparr>))))"

definition reference_ok :: "(string, asset_row) dict \<Rightarrow> alias_binding \<Rightarrow> bool" where
  "reference_ok assets b = (case b_asset_id b of None \<Rightarrow> True | Some i \<Rightarrow> map_of assets i \<noteq> None)"

text \<open>The answer tells whether the key was free: one caller turns a violation of uniqueness into an error of its own.\<close>

definition insert_alias :: "alias_binding \<Rightarrow> (tables, bool) op" where
  "insert_alias b =
     bind_op (gets (\<lambda>t. map_of (tb_aliases t) (b_space b, b_alias b))) (\<lambda>present.
     if present \<noteq> None then ret False
     else
       bind_op (gets tb_assets) (\<lambda>assets.
       seq_op (check (reference_ok assets b) BackendError) (
       seq_op (modify (\<lambda>t. t\<lparr>tb_aliases := AList.update (b_space b, b_alias b) b (tb_aliases t)\<rparr>)) (
       ret True))))"

text \<open>An update touches the row of its key, if there is one.\<close>

definition update_asset :: "string \<Rightarrow> (asset_row \<Rightarrow> asset_row) \<Rightarrow> (tables, unit) op" where
  "update_asset asset_id f =
     bind_op (select_asset asset_id) (\<lambda>found.
     case found of
       None \<Rightarrow> ret ()
     | Some row \<Rightarrow>
         seq_op (check (row_in_range (f row)) BackendError) (
         modify (\<lambda>t. t\<lparr>tb_assets := AList.update asset_id (f row) (tb_assets t)\<rparr>)))"

definition update_alias :: "string \<Rightarrow> string \<Rightarrow> (alias_binding \<Rightarrow> alias_binding) \<Rightarrow> (tables, unit) op" where
  "update_alias space alias f =
     bind_op (select_alias space alias) (\<lambda>found.
     case found of
       None \<Rightarrow> ret ()
     | Some b \<Rightarrow>
         bind_op (gets tb_assets) (\<lambda>assets.
         seq_op (check (reference_ok assets (f b)) BackendError) (
         modify (\<lambda>t. t\<lparr>tb_aliases := AList.update (space, alias) (f b) (tb_aliases t)\<rparr>))))"

definition delete_alias :: "string \<Rightarrow> string \<Rightarrow> (tables, unit) op" where
  "delete_alias space alias = modify (\<lambda>t. t\<lparr>tb_aliases := AList.delete (space, alias) (tb_aliases t)\<rparr>)"

definition touch_asset :: "string \<Rightarrow> datetime \<Rightarrow> (pg, unit) op" where
  "touch_asset asset_id now = execute (update_asset asset_id (\<lambda>row. row\<lparr>ar_updated_at := now\<rparr>))"

section \<open>Helpers\<close>

definition asset_from_row :: "asset_row \<Rightarrow> string set \<Rightarrow> asset" where
  "asset_from_row row aliases =
     \<lparr>a_asset_id = ar_asset_id row, a_space = ar_space row, a_partition_id = ar_partition_id row,
      a_storage_key = ar_storage_key row, a_state = ar_state row, a_aliases = aliases, a_mime = ar_mime row,
      a_size_bytes = ar_size_bytes row, a_reserved_bytes = ar_reserved_bytes row,
      a_checksum_algo = ar_checksum_algo row, a_checksum = ar_checksum row, a_annotations = ar_annotations row,
      a_created_at = ar_created_at row, a_updated_at = ar_updated_at row, a_expires_at = ar_expires_at row,
      a_expired_at = ar_expired_at row, a_last_read_at = ar_last_read_at row, a_read_count = ar_read_count row,
      a_payload_deleted_at = ar_payload_deleted_at row, a_owner_service_id = ar_owner_service_id row,
      a_eviction_policy = ar_eviction_policy row\<rparr>"

definition qualified_names :: "string \<Rightarrow> string list \<Rightarrow> string set" where
  "qualified_names space names = set (map (\<lambda>n. space @ ''/'' @ n) names)"

definition load_asset :: "string \<Rightarrow> (pg, asset) op" where
  "load_asset asset_id =
     bind_op (execute (select_asset asset_id)) (\<lambda>found.
     case found of
       None \<Rightarrow> raise AssetNotFoundError
     | Some row \<Rightarrow>
         bind_op (execute (select_alias_names asset_id)) (\<lambda>names.
         ret (asset_from_row row (qualified_names (ar_space row) names))))"

definition load_binding :: "string \<Rightarrow> string \<Rightarrow> (pg, alias_binding) op" where
  "load_binding norm_space norm_alias =
     bind_op (execute (select_alias norm_space norm_alias)) (\<lambda>found.
     case found of None \<Rightarrow> raise AliasNotFoundError | Some b \<Rightarrow> ret b)"

definition next_audit_id :: "(pg, int) op" where
  "next_audit_id s = (Inr (pg_audit_id s), s\<lparr>pg_audit_id := pg_audit_id s + 1\<rparr>)"

definition write_audit ::
  "string \<Rightarrow> string \<Rightarrow> string \<Rightarrow> string \<Rightarrow> (string \<rightharpoonup> string) \<Rightarrow> (string \<rightharpoonup> string) \<Rightarrow> (pg, unit) op" where
  "write_audit action target caller_service_id outcome before after =
     bind_op pg_utcnow (\<lambda>ts.
     bind_op next_audit_id (\<lambda>i.
     execute (modify (\<lambda>t. t\<lparr>tb_audit_events := tb_audit_events t @
       [(i, \<lparr>e_action = action, e_target = target, e_caller_service_id = caller_service_id,
         e_outcome = outcome, e_before = before, e_after = after, e_ts = ts\<rparr>)]\<rparr>))))"

definition pg_require_alias_name_available :: "string \<Rightarrow> string \<Rightarrow> (pg, unit) op" where
  "pg_require_alias_name_available norm_space alias_name =
     bind_op (execute (select_alias norm_space alias_name)) (\<lambda>existing.
     seq_op (check (existing = None) AliasConflictError) (
     bind_op (execute (gets (\<lambda>t. map_of (tb_tombstones t) (norm_space, alias_name)))) (\<lambda>tomb.
     case tomb of
       None \<Rightarrow> ret ()
     | Some grace_until \<Rightarrow>
         bind_op pg_utcnow (\<lambda>now.
         if grace_until \<le> now then
           execute (modify (\<lambda>t. t\<lparr>tb_tombstones := AList.delete (norm_space, alias_name) (tb_tombstones t)\<rparr>))
         else raise AliasConflictError))))"

section \<open>Quotas\<close>

definition insert_if_absent :: "'k \<Rightarrow> 'v \<Rightarrow> ('k, 'v) dict \<Rightarrow> ('k, 'v) dict" where
  "insert_if_absent k v d = (if map_of d k = None then AList.update k v d else d)"

definition pg_partition_quota :: "string \<Rightarrow> string \<Rightarrow> bool \<Rightarrow> (pg, partition_quota) op" where
  "pg_partition_quota norm_space norm_partition for_update =
     seq_op (if for_update then
         execute (modify (\<lambda>t. t\<lparr>tb_partition_quotas :=
           insert_if_absent (norm_space, norm_partition) (default_partition_quota norm_space norm_partition) (tb_partition_quotas t)\<rparr>))
       else ret ()) (
     bind_op (execute (gets (\<lambda>t. map_of (tb_partition_quotas t) (norm_space, norm_partition)))) (\<lambda>found.
     case found of
       None \<Rightarrow> ret (default_partition_quota norm_space norm_partition)
     | Some row \<Rightarrow> ret (row\<lparr>pq_space := norm_space, pq_partition_id := norm_partition\<rparr>)))"

definition pg_bucket_quota :: "string \<Rightarrow> bool \<Rightarrow> (pg, bucket_quota) op" where
  "pg_bucket_quota norm_space for_update =
     seq_op (if for_update then
         execute (modify (\<lambda>t. t\<lparr>tb_bucket_quotas :=
           insert_if_absent norm_space (default_bucket_quota norm_space) (tb_bucket_quotas t)\<rparr>))
       else ret ()) (
     bind_op (execute (gets (\<lambda>t. map_of (tb_bucket_quotas t) norm_space))) (\<lambda>found.
     case found of
       None \<Rightarrow> ret (default_bucket_quota norm_space)
     | Some row \<Rightarrow> ret (row\<lparr>bq_space := norm_space\<rparr>)))"

definition select_pending :: "string \<Rightarrow> string option \<Rightarrow> (tables, asset_row list) op" where
  "select_pending space exclude_asset_id =
     gets (\<lambda>t. filter (\<lambda>row. ar_space row = space \<and> ar_state row = PENDING \<and> ar_reserved_bytes row \<noteq> None \<and>
                             Some (ar_asset_id row) \<noteq> exclude_asset_id)
       (dict_values (tb_assets t)))"

text \<open>\<open>SUM\<close> skips nulls and \<open>COALESCE(..., 0)\<close> is the sum of no rows.\<close>

definition sql_sum :: "(asset_row \<Rightarrow> int option) \<Rightarrow> asset_row list \<Rightarrow> int" where
  "sql_sum column rows = sum_list (List.map_filter column rows)"

definition select_physical :: "string \<Rightarrow> string option \<Rightarrow> (tables, int) op" where
  "select_physical space exclude_asset_id =
     gets (\<lambda>t. sql_sum (\<lambda>row. case ar_size_bytes row of Some n \<Rightarrow> Some n | None \<Rightarrow> ar_reserved_bytes row)
       (filter (\<lambda>row. ar_space row = space \<and> ar_payload_deleted_at row = None \<and> Some (ar_asset_id row) \<noteq> exclude_asset_id)
          (dict_values (tb_assets t))))"

definition pg_enforce_quota :: "string \<Rightarrow> string \<Rightarrow> int \<Rightarrow> string option \<Rightarrow> (pg, unit) op" where
  "pg_enforce_quota space partition_id new_bytes exclude_asset_id =
     bind_op (pg_partition_quota space partition_id True) (\<lambda>pq.
     bind_op (pg_bucket_quota space True) (\<lambda>bq.
     bind_op (execute (select_pending space exclude_asset_id)) (\<lambda>pending.
     (let partition_pending = filter (\<lambda>row. ar_partition_id row = partition_id) pending in
     seq_op (check
       (case pq_quota_bytes pq of
          None \<Rightarrow> True
        | Some q \<Rightarrow> of_int (pq_used_bytes pq + sql_sum ar_reserved_bytes partition_pending + new_bytes)
                    < py_int_fmul q PARTITION_HARD_RATIO)
       (QuotaExceededError ''partition'')) (
     seq_op (check
       (case pq_quota_asset_count pq of
          None \<Rightarrow> True
        | Some n \<Rightarrow> pq_used_asset_count pq + int (length partition_pending) + 1 \<le> n)
       (QuotaExceededError ''partition'')) (
     bind_op (gets pg_env) (\<lambda>env.
     bind_op (of_result (capacity_limits env)) (\<lambda>limits.
     seq_op
       (if map_of limits space \<noteq> None then
          bind_op (execute (select_physical space exclude_asset_id)) (\<lambda>usage.
          of_result (enforce_capacity env space (usage + new_bytes)))
        else ret ()) (
     check
       (case bq_quota_bytes bq of
          None \<Rightarrow> True
        | Some q \<Rightarrow> of_int (bq_used_bytes bq + sql_sum ar_reserved_bytes pending + new_bytes)
                    < py_int_fmul q (bq_hard_ceiling bq))
       (QuotaExceededError ''bucket''))))))))))"

definition put_partition_row :: "string \<Rightarrow> string \<Rightarrow> partition_quota \<Rightarrow> (tables, unit) op" where
  "put_partition_row space partition_id row =
     seq_op (check (opt_bigint (pq_quota_bytes row) \<and> opt_bigint (pq_quota_asset_count row) \<and>
       in_bigint (pq_used_bytes row) \<and> in_bigint (pq_used_asset_count row)) BackendError) (
     modify (\<lambda>t. t\<lparr>tb_partition_quotas := AList.update (space, partition_id) row (tb_partition_quotas t)\<rparr>))"

definition put_bucket_row :: "string \<Rightarrow> bucket_quota \<Rightarrow> (tables, unit) op" where
  "put_bucket_row space row =
     seq_op (check (opt_bigint (bq_quota_bytes row) \<and> in_bigint (bq_used_bytes row)) BackendError) (
     modify (\<lambda>t. t\<lparr>tb_bucket_quotas := AList.update space row (tb_bucket_quotas t)\<rparr>))"

text \<open>An upsert: \<open>INSERT ... ON CONFLICT ... DO UPDATE\<close>.\<close>

definition pg_acquire_quota :: "string \<Rightarrow> string \<Rightarrow> int \<Rightarrow> (pg, unit) op" where
  "pg_acquire_quota space partition_id nbytes =
     seq_op (execute (bind_op (gets (\<lambda>t. map_of (tb_partition_quotas t) (space, partition_id))) (\<lambda>found.
       put_partition_row space partition_id
         (case found of
            None \<Rightarrow> (default_partition_quota space partition_id)\<lparr>pq_used_bytes := nbytes, pq_used_asset_count := 1\<rparr>
          | Some row \<Rightarrow> row\<lparr>pq_used_bytes := pq_used_bytes row + nbytes,
                            pq_used_asset_count := pq_used_asset_count row + 1\<rparr>)))) (
     execute (bind_op (gets (\<lambda>t. map_of (tb_bucket_quotas t) space)) (\<lambda>found.
       put_bucket_row space
         (case found of
            None \<Rightarrow> (default_bucket_quota space)\<lparr>bq_used_bytes := nbytes\<rparr>
          | Some row \<Rightarrow> row\<lparr>bq_used_bytes := bq_used_bytes row + nbytes\<rparr>))))"

definition pg_release_quota :: "string \<Rightarrow> string \<Rightarrow> int \<Rightarrow> (pg, unit) op" where
  "pg_release_quota space partition_id nbytes =
     seq_op (execute (bind_op (gets (\<lambda>t. map_of (tb_partition_quotas t) (space, partition_id))) (\<lambda>found.
       case found of
         None \<Rightarrow> ret ()
       | Some row \<Rightarrow> put_partition_row space partition_id
           (row\<lparr>pq_used_bytes := max 0 (pq_used_bytes row - nbytes),
                pq_used_asset_count := max 0 (pq_used_asset_count row - 1)\<rparr>)))) (
     execute (bind_op (gets (\<lambda>t. map_of (tb_bucket_quotas t) space)) (\<lambda>found.
       case found of
         None \<Rightarrow> ret ()
       | Some row \<Rightarrow> put_bucket_row space (row\<lparr>bq_used_bytes := max 0 (bq_used_bytes row - nbytes)\<rparr>))))"

end
