(* ===== verification/Pg_Ops.thy ===== *)
theory Pg_Ops
  imports Pg
begin

text \<open>
  The public methods of the Postgres registry, in the order of the source. Every one is a unit of work.
\<close>

section \<open>Reservation and commit\<close>

definition pg_bind_alias ::
  "string \<Rightarrow> string \<Rightarrow> datetime \<Rightarrow> string \<Rightarrow> (string \<times> bool) \<times> string \<Rightarrow> (pg, unit) op" where
  "pg_bind_alias norm_space asset_id now owner_service_id spec =
     (let scoped_alias = snd spec; mutable = snd (fst spec) in
     bind_op (execute (insert_alias \<lparr>b_space = norm_space, b_alias = scoped_alias, b_asset_id = Some asset_id,
       b_mutable = mutable, b_previous_asset_id = None, b_created_at = now, b_updated_at = now,
       b_created_by_service_id = owner_service_id\<rparr>)) (\<lambda>inserted.
     seq_op (check inserted BackendError) (
     write_audit ''alias.create'' (norm_space @ ''/'' @ scoped_alias) owner_service_id ''success'' Map.empty
       [''asset_id'' \<mapsto> asset_id, ''mutable'' \<mapsto> bool_str_lower mutable])))"

definition pg_reserve_asset ::
  "string \<Rightarrow> string \<Rightarrow> alias_specs \<Rightarrow> string \<Rightarrow> string option \<Rightarrow> (string, string) fmap option \<Rightarrow>
   eviction_policy \<Rightarrow> int option \<Rightarrow> int option \<Rightarrow> (pg, asset) op" where
  "pg_reserve_asset space partition_id aliases owner_service_id mime annotations eviction_policy
       ttl_seconds reserved_bytes =
     unit_of_work (
     seq_op (check (case reserved_bytes of None \<Rightarrow> True | Some n \<Rightarrow> 0 \<le> n) ValidationError) (
     bind_op (of_result (normalize_space space)) (\<lambda>norm_space.
     bind_op (of_result (normalize_partition_id partition_id)) (\<lambda>norm_partition.
     bind_op (of_result (normalize_alias_specs aliases)) (\<lambda>specs.
     bind_op (of_result (map_result (\<lambda>spec. alias_under_partition norm_partition (fst spec)) specs)) (\<lambda>scoped.
     bind_op pg_new_asset_id (\<lambda>asset_id.
     bind_op pg_utcnow (\<lambda>now.
     bind_op (of_result (build_storage_key norm_partition asset_id)) (\<lambda>storage_key.
     seq_op (pg_transaction (
       seq_op (for_each scoped (pg_require_alias_name_available norm_space)) (
       seq_op (case reserved_bytes of
           None \<Rightarrow> ret ()
         | Some n \<Rightarrow> pg_enforce_quota norm_space norm_partition n None) (
       bind_op (gets pg_env) (\<lambda>env.
       bind_op (of_result (expiry_for env norm_space ttl_seconds now)) (\<lambda>expires_at.
       seq_op (execute (insert_asset
         \<lparr>ar_asset_id = asset_id, ar_space = norm_space, ar_partition_id = norm_partition,
          ar_storage_key = storage_key, ar_state = PENDING, ar_mime = mime, ar_size_bytes = None,
          ar_reserved_bytes = reserved_bytes, ar_checksum_algo = ''sha256'', ar_checksum = None,
          ar_annotations = (case annotations of None \<Rightarrow> fmempty | Some m \<Rightarrow> m),
          ar_eviction_policy = eviction_policy, ar_owner_service_id = owner_service_id,
          ar_created_at = now, ar_updated_at = now, ar_expires_at = expires_at, ar_expired_at = None,
          ar_last_read_at = None, ar_read_count = 0, ar_payload_deleted_at = None\<rparr>)) (
       seq_op (for_each (zip specs scoped) (pg_bind_alias norm_space asset_id now owner_service_id)) (
       case reserved_bytes of
         None \<Rightarrow> ret ()
       | Some n \<Rightarrow> write_audit ''asset.upload_reserve'' asset_id owner_service_id ''success'' Map.empty
                    [''reserved_bytes'' \<mapsto> int_str n])))))))) (
     load_asset asset_id))))))))))"

definition pg_commit_asset ::
  "string \<Rightarrow> int \<Rightarrow> string \<Rightarrow> string \<Rightarrow> string option \<Rightarrow> string option \<Rightarrow> (pg, asset) op" where
  "pg_commit_asset asset_id size_bytes checksum caller_service_id mime expected_checksum =
     unit_of_work (
     seq_op (check (0 \<le> size_bytes) ValidationError) (
     (let server_checksum = py_strip checksum in
     seq_op (check (server_checksum \<noteq> []) ValidationError) (
     seq_op (check (case expected_checksum of None \<Rightarrow> True | Some c \<Rightarrow> c = server_checksum) ChecksumMismatchError) (
     bind_op pg_utcnow (\<lambda>now.
     seq_op (pg_transaction (
       bind_op (execute (select_asset asset_id)) (\<lambda>found.
       case found of
         None \<Rightarrow> raise AssetNotFoundError
       | Some row \<Rightarrow>
           seq_op (check (ar_state row = PENDING) InvalidStateTransitionError) (
           seq_op (check (case ar_reserved_bytes row of None \<Rightarrow> True | Some n \<Rightarrow> n = size_bytes) ValidationError) (
           seq_op (pg_enforce_quota (ar_space row) (ar_partition_id row) size_bytes (Some asset_id)) (
           seq_op (execute (update_asset asset_id (\<lambda>r. r\<lparr>ar_state := AVAILABLE, ar_size_bytes := Some size_bytes,
             ar_checksum := Some server_checksum, ar_mime := str_or mime (ar_mime row), ar_updated_at := now,
             ar_reserved_bytes := None\<rparr>))) (
           seq_op (pg_acquire_quota (ar_space row) (ar_partition_id row) size_bytes) (
           write_audit ''asset.commit'' asset_id caller_service_id ''success''
             [''state'' \<mapsto> state_value PENDING] [''state'' \<mapsto> state_value AVAILABLE]))))))) ) (
     load_asset asset_id)))))))"

definition pg_update_annotations ::
  "string \<Rightarrow> (string, string) fmap \<Rightarrow> string \<Rightarrow> bool \<Rightarrow> (pg, asset) op" where
  "pg_update_annotations asset_id patch caller_service_id overwrite =
     unit_of_work (
     bind_op pg_utcnow (\<lambda>now.
     seq_op (pg_transaction (
       bind_op (execute (select_asset asset_id)) (\<lambda>found.
       case found of
         None \<Rightarrow> raise AssetNotFoundError
       | Some row \<Rightarrow>
           seq_op (check (ar_state row \<noteq> DELETED) InvalidStateTransitionError) (
           (let before = ar_annotations row; merged = (if overwrite then patch else before ++\<^sub>f patch) in
           seq_op (execute (update_asset asset_id (\<lambda>r. r\<lparr>ar_annotations := merged, ar_updated_at := now\<rparr>))) (
           write_audit ''asset.annotations_update'' asset_id caller_service_id ''success''
             (fmlookup before) (fmlookup merged))))))) (
     load_asset asset_id)))"

section \<open>Lifecycle\<close>

definition transition_out_of_available ::
  "string \<Rightarrow> string \<Rightarrow> asset_state list \<Rightarrow> asset_state \<Rightarrow> string \<Rightarrow> (pg, asset) op" where
  "transition_out_of_available asset_id caller_service_id allowed_from new_state action =
     bind_op pg_utcnow (\<lambda>now.
     seq_op (pg_transaction (
       bind_op (execute (select_asset asset_id)) (\<lambda>found.
       case found of
         None \<Rightarrow> raise AssetNotFoundError
       | Some row \<Rightarrow>
           seq_op (check (ar_state row \<in> set allowed_from) InvalidStateTransitionError) (
           seq_op (execute (update_asset asset_id (\<lambda>r. r\<lparr>ar_state := new_state, ar_updated_at := now,
             ar_expired_at := (if new_state = EXPIRED then Some now else ar_expired_at r)\<rparr>))) (
           seq_op (if ar_state row = AVAILABLE
             then pg_release_quota (ar_space row) (ar_partition_id row) (or_zero (ar_size_bytes row)) else ret ()) (
           write_audit action asset_id caller_service_id ''success''
             [''state'' \<mapsto> state_value (ar_state row)] [''state'' \<mapsto> state_value new_state])))))) (
     load_asset asset_id))"

definition pg_expire_asset :: "string \<Rightarrow> string \<Rightarrow> (pg, asset) op" where
  "pg_expire_asset asset_id caller_service_id =
     unit_of_work (transition_out_of_available asset_id caller_service_id [AVAILABLE] EXPIRED ''asset.expire'')"

definition pg_delete_asset :: "string \<Rightarrow> string \<Rightarrow> (pg, asset) op" where
  "pg_delete_asset asset_id caller_service_id =
     unit_of_work (transition_out_of_available asset_id caller_service_id [AVAILABLE, EXPIRED] DELETED ''asset.delete'')"

definition pg_set_eviction_policy :: "string \<Rightarrow> eviction_policy \<Rightarrow> string \<Rightarrow> (pg, asset) op" where
  "pg_set_eviction_policy asset_id eviction_policy caller_service_id =
     unit_of_work (
     bind_op pg_utcnow (\<lambda>now.
     seq_op (pg_transaction (
       bind_op (execute (select_asset asset_id)) (\<lambda>found.
       case found of
         None \<Rightarrow> raise AssetNotFoundError
       | Some row \<Rightarrow>
           seq_op (check (ar_state row \<noteq> DELETED) InvalidStateTransitionError) (
           seq_op (execute (update_asset asset_id (\<lambda>r. r\<lparr>ar_eviction_policy := eviction_policy, ar_updated_at := now\<rparr>))) (
           write_audit ''asset.eviction_policy_set'' asset_id caller_service_id ''success''
             [''eviction_policy'' \<mapsto> eviction_value (ar_eviction_policy row)]
             [''eviction_policy'' \<mapsto> eviction_value eviction_policy]))))) (
     load_asset asset_id)))"

section \<open>Aliases\<close>

definition pg_mark_for_gc_if_orphaned :: "string \<Rightarrow> string \<Rightarrow> (pg, unit) op" where
  "pg_mark_for_gc_if_orphaned asset_id caller_service_id =
     bind_op (execute (select_alias_names asset_id)) (\<lambda>remaining.
     if remaining \<noteq> [] then ret ()
     else
       bind_op (execute (select_asset asset_id)) (\<lambda>found.
       case found of
         None \<Rightarrow> ret ()
       | Some row \<Rightarrow>
           if ar_state row \<in> {EXPIRED, DELETED} then ret ()
           else
             bind_op pg_utcnow (\<lambda>t1.
             bind_op pg_utcnow (\<lambda>t2.
             seq_op (execute (update_asset asset_id (\<lambda>r. r\<lparr>ar_state := EXPIRED, ar_updated_at := t1, ar_expired_at := Some t2\<rparr>))) (
             seq_op (if ar_state row = AVAILABLE
               then pg_release_quota (ar_space row) (ar_partition_id row) (or_zero (ar_size_bytes row)) else ret ()) (
             write_audit ''asset.gc_mark'' asset_id caller_service_id ''success''
               [''state'' \<mapsto> state_value (ar_state row), ''reason'' \<mapsto> ''zero_aliases'']
               [''state'' \<mapsto> state_value EXPIRED]))))))"

definition pg_detach_alias :: "string \<Rightarrow> string \<Rightarrow> string \<Rightarrow> (pg, unit) op" where
  "pg_detach_alias space alias caller_service_id =
     unit_of_work (
     bind_op (of_result (normalize_space space)) (\<lambda>norm_space.
     bind_op (of_result (normalize_relative_alias alias)) (\<lambda>norm_alias.
     pg_transaction (
       bind_op (load_binding norm_space norm_alias) (\<lambda>binding.
       seq_op (if b_mutable binding then
           bind_op (of_result (binding_qualified_alias binding)) (\<lambda>_. raise AliasImmutableError) else ret ()) (
       case b_asset_id binding of
         None \<Rightarrow> bind_op (of_result (binding_qualified_alias binding)) (\<lambda>_. raise InvalidStateTransitionError)
       | Some asset_id \<Rightarrow>
           seq_op (execute (delete_alias norm_space norm_alias)) (
           bind_op (gets pg_alias_grace) (\<lambda>grace.
           seq_op (if 0 < grace then
               bind_op pg_utcnow (\<lambda>now.
               bind_op (of_result (dt_add now grace)) (\<lambda>grace_until.
               execute (modify (\<lambda>t. t\<lparr>tb_tombstones := AList.update (norm_space, norm_alias) grace_until (tb_tombstones t)\<rparr>))))
             else ret ()) (
           bind_op (of_result (binding_qualified_alias binding)) (\<lambda>qualified.
           seq_op (write_audit ''alias.detach'' qualified caller_service_id ''success''
             [''asset_id'' \<mapsto> asset_id] Map.empty) (
           bind_op pg_utcnow (\<lambda>now.
           seq_op (touch_asset asset_id now) (
           pg_mark_for_gc_if_orphaned asset_id caller_service_id)))))))))))))"

definition pg_detach_mutable_alias :: "string \<Rightarrow> string \<Rightarrow> string \<Rightarrow> (pg, alias_binding) op" where
  "pg_detach_mutable_alias space alias caller_service_id =
     unit_of_work (
     bind_op (of_result (normalize_space space)) (\<lambda>norm_space.
     bind_op (of_result (normalize_relative_alias alias)) (\<lambda>norm_alias.
     bind_op pg_utcnow (\<lambda>now.
     seq_op (pg_transaction (
       bind_op (load_binding norm_space norm_alias) (\<lambda>binding.
       seq_op (if \<not> b_mutable binding then
           bind_op (of_result (binding_qualified_alias binding)) (\<lambda>_. raise AliasImmutableError) else ret ()) (
       case b_asset_id binding of
         None \<Rightarrow> bind_op (of_result (binding_qualified_alias binding)) (\<lambda>_. raise InvalidStateTransitionError)
       | Some old_asset_id \<Rightarrow>
           seq_op (execute (update_alias norm_space norm_alias (\<lambda>b. b\<lparr>b_asset_id := None,
             b_previous_asset_id := Some old_asset_id, b_updated_at := now\<rparr>))) (
           bind_op (of_result (binding_qualified_alias binding)) (\<lambda>qualified.
           seq_op (write_audit ''alias.detach_mutable'' qualified caller_service_id ''success''
             [''asset_id'' \<mapsto> old_asset_id] [''asset_id'' \<mapsto> []]) (
           seq_op (touch_asset old_asset_id now) (
           pg_mark_for_gc_if_orphaned old_asset_id caller_service_id)))))))) (
     load_binding norm_space norm_alias)))))"

definition pg_rebind_alias :: "string \<Rightarrow> string \<Rightarrow> string \<Rightarrow> string \<Rightarrow> (pg, alias_binding) op" where
  "pg_rebind_alias space alias target_asset_id caller_service_id =
     unit_of_work (
     bind_op (of_result (normalize_space space)) (\<lambda>norm_space.
     bind_op (of_result (normalize_relative_alias alias)) (\<lambda>norm_alias.
     bind_op pg_utcnow (\<lambda>now.
     seq_op (pg_transaction (
       bind_op (load_binding norm_space norm_alias) (\<lambda>binding.
       seq_op (if \<not> b_mutable binding then
           bind_op (of_result (binding_qualified_alias binding)) (\<lambda>_. raise AliasImmutableError) else ret ()) (
       seq_op (if b_asset_id binding \<noteq> None then
           bind_op (of_result (binding_qualified_alias binding)) (\<lambda>_. raise InvalidStateTransitionError) else ret ()) (
       bind_op (load_asset target_asset_id) (\<lambda>new_asset.
       seq_op (check (a_space new_asset = b_space binding) AliasConflictError) (
       bind_op (of_result (partition_from_scoped_alias (b_alias binding))) (\<lambda>partition.
       seq_op (check (a_partition_id new_asset = partition) AliasConflictError) (
       seq_op (check (a_state new_asset = AVAILABLE) InvalidStateTransitionError) (
       (let previous_asset_id = (case b_previous_asset_id binding of None \<Rightarrow> [] | Some p \<Rightarrow> p) in
       seq_op (execute (update_alias norm_space norm_alias (\<lambda>b. b\<lparr>b_asset_id := Some target_asset_id,
         b_previous_asset_id := None, b_updated_at := now\<rparr>))) (
       seq_op (touch_asset target_asset_id now) (
       bind_op (of_result (binding_qualified_alias binding)) (\<lambda>qualified.
       write_audit ''alias.rebind'' qualified caller_service_id ''success''
         [''asset_id'' \<mapsto> previous_asset_id] [''asset_id'' \<mapsto> target_asset_id])))))))))))))) (
     load_binding norm_space norm_alias)))))"

definition pg_resolve_alias :: "string \<Rightarrow> string \<Rightarrow> (pg, asset) op" where
  "pg_resolve_alias space alias =
     unit_of_work (
     bind_op (of_result (normalize_space space)) (\<lambda>norm_space.
     bind_op (of_result (normalize_relative_alias alias)) (\<lambda>norm_alias.
     bind_op (execute (select_alias norm_space norm_alias)) (\<lambda>found.
     case found of
       None \<Rightarrow> raise AliasNotFoundError
     | Some b \<Rightarrow>
         (case b_asset_id b of
            None \<Rightarrow> raise InvalidStateTransitionError
          | Some asset_id \<Rightarrow>
              bind_op (load_asset asset_id) (\<lambda>asset.
              bind_op pg_utcnow (\<lambda>now.
              seq_op (of_result (require_live asset now)) (
              seq_op (check (is_resolvable asset) InvalidStateTransitionError) (
              ret asset)))))))))"

section \<open>Quota configuration\<close>

definition pg_get_partition_quota :: "string \<Rightarrow> string \<Rightarrow> (pg, partition_quota) op" where
  "pg_get_partition_quota space partition_id =
     unit_of_work (
     bind_op (of_result (normalize_space space)) (\<lambda>s.
     bind_op (of_result (normalize_partition_id partition_id)) (\<lambda>p. pg_partition_quota s p False)))"

definition pg_get_bucket_quota :: "string \<Rightarrow> (pg, bucket_quota) op" where
  "pg_get_bucket_quota space =
     unit_of_work (bind_op (of_result (normalize_space space)) (\<lambda>s. pg_bucket_quota s False))"

definition pg_set_partition_quota ::
  "string \<Rightarrow> string \<Rightarrow> int option \<Rightarrow> int option \<Rightarrow> bool option \<Rightarrow> string \<Rightarrow> (pg, partition_quota) op" where
  "pg_set_partition_quota space partition_id quota_bytes quota_asset_count eviction_sweep_enabled caller_service_id =
     unit_of_work (
     seq_op (check (case quota_bytes of None \<Rightarrow> True | Some q \<Rightarrow> 0 \<le> q) ValidationError) (
     seq_op (check (case quota_asset_count of None \<Rightarrow> True | Some q \<Rightarrow> 0 \<le> q) ValidationError) (
     bind_op (of_result (normalize_space space)) (\<lambda>norm_space.
     bind_op (of_result (normalize_partition_id partition_id)) (\<lambda>norm_partition.
     seq_op (pg_transaction (
       bind_op (pg_partition_quota norm_space norm_partition True) (\<lambda>current.
       (let sweep = (case eviction_sweep_enabled of None \<Rightarrow> pq_eviction_sweep_enabled current | Some b \<Rightarrow> b) in
       seq_op (execute (bind_op (gets (\<lambda>t. map_of (tb_partition_quotas t) (norm_space, norm_partition))) (\<lambda>found.
         put_partition_row norm_space norm_partition
           (case found of
              None \<Rightarrow> current\<lparr>pq_quota_bytes := quota_bytes, pq_quota_asset_count := quota_asset_count,
                              pq_eviction_sweep_enabled := sweep\<rparr>
            | Some row \<Rightarrow> row\<lparr>pq_quota_bytes := quota_bytes, pq_quota_asset_count := quota_asset_count,
                              pq_eviction_sweep_enabled := sweep\<rparr>)))) (
       write_audit ''admin.quota_set'' (norm_space @ ''/'' @ norm_partition) caller_service_id ''success''
         [''quota_bytes'' \<mapsto> opt_str int_str (pq_quota_bytes current),
          ''quota_asset_count'' \<mapsto> opt_str int_str (pq_quota_asset_count current),
          ''eviction_sweep_enabled'' \<mapsto> bool_str (pq_eviction_sweep_enabled current)]
         [''quota_bytes'' \<mapsto> opt_str int_str quota_bytes,
          ''quota_asset_count'' \<mapsto> opt_str int_str quota_asset_count,
          ''eviction_sweep_enabled'' \<mapsto> bool_str sweep]))))) (
     pg_get_partition_quota norm_space norm_partition))))))"

definition pg_set_bucket_quota :: "string \<Rightarrow> int option \<Rightarrow> rat \<Rightarrow> rat \<Rightarrow> (pg, bucket_quota) op" where
  "pg_set_bucket_quota space quota_bytes warn_threshold hard_ceiling =
     unit_of_work (
     seq_op (check (case quota_bytes of None \<Rightarrow> True | Some q \<Rightarrow> 0 \<le> q) ValidationError) (
     bind_op (of_result (normalize_space space)) (\<lambda>norm_space.
     seq_op (pg_transaction (
       bind_op (pg_bucket_quota norm_space True) (\<lambda>current.
       execute (bind_op (gets (\<lambda>t. map_of (tb_bucket_quotas t) norm_space)) (\<lambda>found.
         put_bucket_row norm_space
           (case found of
              None \<Rightarrow> current\<lparr>bq_quota_bytes := quota_bytes, bq_warn_threshold := warn_threshold, bq_hard_ceiling := hard_ceiling\<rparr>
            | Some row \<Rightarrow> row\<lparr>bq_quota_bytes := quota_bytes, bq_warn_threshold := warn_threshold,
                              bq_hard_ceiling := hard_ceiling\<rparr>)))))) (
     pg_get_bucket_quota norm_space))))"

section \<open>Audit and maintenance\<close>

definition pg_audit_events :: "(pg, audit_event list) op" where
  "pg_audit_events = unit_of_work (execute (gets (\<lambda>t. map snd (sort_key fst (tb_audit_events t)))))"

definition pg_record_capability_issue ::
  "string \<Rightarrow> string \<Rightarrow> string \<Rightarrow> int \<Rightarrow> string \<Rightarrow> string option \<Rightarrow> (pg, unit) op" where
  "pg_record_capability_issue caller_service_id operation scope_prefix ttl_seconds outcome capability_id =
     unit_of_work (
     (let after = [''operation'' \<mapsto> operation, ''ttl_seconds'' \<mapsto> int_str ttl_seconds];
          after' = (case capability_id of
                      None \<Rightarrow> after
                    | Some cid \<Rightarrow> after(''capability_fingerprint'' \<mapsto> sha256_hex (utf8_encode cid)))
      in pg_transaction (write_audit ''capability.issue'' scope_prefix caller_service_id outcome Map.empty after')))"

definition select_reserved_bytes :: "string \<Rightarrow> (tables, int) op" where
  "select_reserved_bytes space =
     gets (\<lambda>t. sql_sum ar_reserved_bytes
       (filter (\<lambda>row. ar_space row = space \<and> ar_payload_deleted_at row = None) (dict_values (tb_assets t))))"

text \<open>
  The figure for a scrape, \<open>None\<close> for NaN: it takes a connection of its own, outside of any unit of work and
  its counters.
\<close>

definition metric_reserved_upload_bytes :: "string \<Rightarrow> (pg, int option) op" where
  "metric_reserved_upload_bytes space =
     bind_op pg_getconn (\<lambda>available.
     if \<not> available then ret None
     else
       bind_op (of_result (normalize_space space)) (\<lambda>s.
       bind_op (on_part pg_tables (\<lambda>t x. x\<lparr>pg_tables := t\<rparr>) (select_reserved_bytes s)) (\<lambda>n. ret (Some n))))"

definition pg_reserved_upload_bytes :: "string \<Rightarrow> (pg, int) op" where
  "pg_reserved_upload_bytes space =
     unit_of_work (bind_op (of_result (normalize_space space)) (\<lambda>s. execute (select_reserved_bytes s)))"

text \<open>A query without an order gives its rows in any order, which is an argument here.\<close>

definition select_assets :: "(asset_row list \<Rightarrow> asset_row list) \<Rightarrow> (asset_row \<Rightarrow> bool) \<Rightarrow> (tables, asset list) op" where
  "select_assets scan P =
     gets (\<lambda>t. map (\<lambda>row. asset_from_row row (qualified_names (ar_space row)
         (map b_alias (filter (\<lambda>b. b_asset_id b = Some (ar_asset_id row)) (dict_values (tb_aliases t))))))
       (scan (filter P (dict_values (tb_assets t)))))"

definition pg_list_assets :: "(pg, asset list) op" where
  "pg_list_assets =
     unit_of_work (
     bind_op (gets (\<lambda>s. pg_scan s (pg_checkouts s))) (\<lambda>scan.
     execute (select_assets scan (\<lambda>row. ar_payload_deleted_at row = None))))"

definition pg_asset_lock :: "string \<Rightarrow> (asset \<Rightarrow> (pg, 'a) op) \<Rightarrow> (pg, 'a) op" where
  "pg_asset_lock asset_id body = unit_of_work (pg_transaction (bind_op (load_asset asset_id) body))"

definition pg_get_asset :: "string \<Rightarrow> (pg, asset) op" where
  "pg_get_asset asset_id = unit_of_work (load_asset asset_id)"

definition pg_record_read :: "string \<Rightarrow> (pg, unit) op" where
  "pg_record_read asset_id =
     unit_of_work (
     bind_op pg_utcnow (\<lambda>now.
     execute (update_asset asset_id (\<lambda>r.
       if ar_state r = AVAILABLE then r\<lparr>ar_last_read_at := Some now, ar_read_count := ar_read_count r + 1\<rparr> else r))))"

definition pg_lifecycle_update ::
  "asset \<Rightarrow> asset_state \<Rightarrow> datetime \<Rightarrow> string \<Rightarrow> bool \<Rightarrow> (pg, asset) op" where
  "pg_lifecycle_update asset state now reason payload_deleted =
     unit_of_work (
     bind_op (load_asset (a_asset_id asset)) (\<lambda>current.
     seq_op (check (current = asset) InvalidStateTransitionError) (
     seq_op (of_result (validate_cleanup_transition asset state payload_deleted)) (
     seq_op (execute (update_asset (a_asset_id asset) (\<lambda>r. r\<lparr>ar_state := state, ar_updated_at := now,
       ar_expired_at := (if state = EXPIRED then Some now else a_expired_at asset),
       ar_payload_deleted_at := (if payload_deleted then Some now else a_payload_deleted_at asset)\<rparr>))) (
     seq_op (if a_state asset = AVAILABLE
       then pg_release_quota (a_space asset) (a_partition_id asset) (or_zero (a_size_bytes asset)) else ret ()) (
     seq_op (write_audit
       (if payload_deleted then ''asset.payload_delete''
        else if state = EXPIRED then ''asset.expire'' else ''asset.delete'')
       (a_asset_id asset) ''lifecycle-worker'' ''success''
       [''state'' \<mapsto> state_value (a_state asset)] [''state'' \<mapsto> state_value state, ''reason'' \<mapsto> reason]) (
     load_asset (a_asset_id asset))))))))"

definition pg_recent_audit :: "string option \<Rightarrow> int \<Rightarrow> (pg, audit_event list) op" where
  "pg_recent_audit asset_id limit =
     unit_of_work (
     seq_op (check (1 \<le> limit \<and> limit \<le> 500) ValidationError) (
     execute (gets (\<lambda>t. rev (map snd (take (nat limit) (rev (sort_key fst
       (filter (\<lambda>(_, e). case asset_id of
                  None \<Rightarrow> True
                | Some i \<Rightarrow> e_target e = i \<or> e_before e ''asset_id'' = Some i \<or> e_after e ''asset_id'' = Some i)
          (tb_audit_events t))))))))))"

section \<open>Later additions\<close>

definition pg_attach_alias :: "string \<Rightarrow> string \<Rightarrow> bool \<Rightarrow> string \<Rightarrow> (pg, alias_binding) op" where
  "pg_attach_alias asset_id alias mutable caller_service_id =
     unit_of_work (pg_asset_lock asset_id (\<lambda>asset.
     seq_op (check (a_state asset \<noteq> DELETED) InvalidStateTransitionError) (
     bind_op (of_result (alias_under_partition (a_partition_id asset) alias)) (\<lambda>name.
     seq_op (pg_require_alias_name_available (a_space asset) name) (
     bind_op pg_utcnow (\<lambda>now.
     bind_op (pg_transaction (execute (insert_alias \<lparr>b_space = a_space asset, b_alias = name, b_asset_id = Some asset_id,
       b_mutable = mutable, b_previous_asset_id = None, b_created_at = now, b_updated_at = now,
       b_created_by_service_id = caller_service_id\<rparr>))) (\<lambda>inserted.
     seq_op (check inserted AliasConflictError) (
     seq_op (touch_asset asset_id now) (
     seq_op (write_audit ''alias.attach'' (a_space asset @ ''/'' @ name) caller_service_id ''success'' Map.empty
       [''asset_id'' \<mapsto> asset_id, ''mutable'' \<mapsto> bool_str_lower mutable]) (
     load_binding (a_space asset) name))))))))))"

definition pg_set_asset_ttl :: "string \<Rightarrow> int \<Rightarrow> string \<Rightarrow> (pg, asset) op" where
  "pg_set_asset_ttl asset_id ttl_seconds caller_service_id =
     unit_of_work (pg_asset_lock asset_id (\<lambda>asset.
     seq_op (check (a_state asset \<in> {AVAILABLE, EXPIRED}) InvalidStateTransitionError) (
     seq_op (check (a_size_bytes asset \<noteq> None \<and> a_checksum asset \<noteq> None) InvalidStateTransitionError) (
     bind_op pg_utcnow (\<lambda>now.
     bind_op (gets pg_env) (\<lambda>env.
     bind_op (of_result (expiry_for env (a_space asset) (Some ttl_seconds) now)) (\<lambda>deadline.
     seq_op (if a_state asset = EXPIRED then
         seq_op (pg_enforce_quota (a_space asset) (a_partition_id asset) (or_zero (a_size_bytes asset))
           (Some (a_asset_id asset)))
         (pg_acquire_quota (a_space asset) (a_partition_id asset) (or_zero (a_size_bytes asset)))
       else ret ()) (
     seq_op (execute (update_asset asset_id (\<lambda>r. r\<lparr>ar_state := AVAILABLE, ar_expires_at := deadline,
       ar_expired_at := None, ar_updated_at := now\<rparr>))) (
     seq_op (write_audit ''admin.ttl_set'' asset_id caller_service_id ''success''
       [''expires_at'' \<mapsto> opt_str datetime_str (a_expires_at asset), ''state'' \<mapsto> state_value (a_state asset)]
       [''expires_at'' \<mapsto> opt_str datetime_str deadline, ''state'' \<mapsto> ''available'']) (
     load_asset asset_id))))))))))"

end
