(* ===== verification/Pg_Rel.thy ===== *)
theory Pg_Rel
  imports Pg_Ops Registry_Steps
begin

text \<open>
  How the tables of the Postgres registry represent the dictionaries of the in-memory one, and what the
  statements do to this relation. The clock stands still during a call: the two classes read it at
  different moments.
\<close>

section \<open>Weakest preconditions\<close>

lemma wp_pg_utcnow [wp_simps]: "wp pg_utcnow Q E s = Q (pg_clock s (pg_ticks s)) (s\<lparr>pg_ticks := Suc (pg_ticks s)\<rparr>)"
  by (simp add: wp_def pg_utcnow_def)

lemma wp_pg_new_asset_id [wp_simps]:
  "wp pg_new_asset_id Q E s = Q (pg_uuids s (pg_next_uuid s)) (s\<lparr>pg_next_uuid := Suc (pg_next_uuid s)\<rparr>)"
  by (simp add: wp_def pg_new_asset_id_def)

lemma wp_next_audit_id [wp_simps]: "wp next_audit_id Q E s = Q (pg_audit_id s) (s\<lparr>pg_audit_id := pg_audit_id s + 1\<rparr>)"
  by (simp add: wp_def next_audit_id_def)

lemma wp_pg_getconn [wp_simps]: "wp pg_getconn Q E s = Q (pg_pool s (pg_checkouts s)) (s\<lparr>pg_checkouts := Suc (pg_checkouts s)\<rparr>)"
  by (simp add: wp_def pg_getconn_def)

lemma wp_pg_transaction [wp_simps]: "wp (pg_transaction m) Q E s = wp m Q (\<lambda>e t. E e (t\<lparr>pg_tables := pg_tables s\<rparr>)) s"
  by (auto simp: wp_def pg_transaction_def split: prod.split sum.split)

lemma wp_execute [wp_simps]:
  "pg_connected s \<Longrightarrow>
   wp (execute m) Q E s = wp m (\<lambda>x t. Q x (s\<lparr>pg_tables := t\<rparr>)) (\<lambda>e t. E e (s\<lparr>pg_tables := t\<rparr>)) (pg_tables s)"
  by (simp add: execute_def wp_simps)

lemma wp_nested: "pg_connected s \<Longrightarrow> wp (unit_of_work m) Q E s = wp m Q E s"
  by (simp add: unit_of_work_def wp_simps)

text \<open>A unit of work that gets its connection.\<close>

definition checked_out :: "pg \<Rightarrow> pg" where
  "checked_out s = s\<lparr>pg_checkouts := Suc (pg_checkouts s), pg_connected := True\<rparr>"

definition finished :: "string \<Rightarrow> pg \<Rightarrow> pg" where
  "finished outcome s = s\<lparr>pg_transactions := pg_transactions s @ [outcome], pg_connected := False\<rparr>"

lemma wp_unit_of_work:
  assumes "\<not> pg_connected s" and "pg_pool s (pg_checkouts s)"
  shows "wp (unit_of_work m) Q E s =
    wp m (\<lambda>x t. Q x (finished ''committed'' t)) (\<lambda>e t. E e (finished ''rolled_back'' (t\<lparr>pg_tables := pg_tables s\<rparr>))) (checked_out s)"
proof -
  have "wp (seq_op (pg_finish ''committed'') (ret x)) Q E = (\<lambda>t. Q x (finished ''committed'' t))" for x
    by (rule ext) (simp add: wp_simps pg_finish_def finished_def)
  then show ?thesis using assms by (simp add: unit_of_work_def wp_simps pg_finish_def checked_out_def finished_def)
qed

lemmas statement_defs = select_asset_def select_alias_names_def select_alias_def insert_asset_def insert_alias_def
  update_asset_def update_alias_def delete_alias_def touch_asset_def load_binding_def write_audit_def
  put_partition_row_def put_bucket_row_def

section \<open>Rows and assets\<close>

definition alias_names :: "(string \<times> string, alias_binding) dict \<Rightarrow> string \<Rightarrow> string list" where
  "alias_names als i = map b_alias (filter (\<lambda>b. b_asset_id b = Some i) (dict_values als))"

definition loaded :: "(string \<times> string, alias_binding) dict \<Rightarrow> asset_row \<Rightarrow> asset" where
  "loaded als row = asset_from_row row (qualified_names (ar_space row) (alias_names als (ar_asset_id row)))"

lemma loaded_simps [simp]:
  "a_asset_id (loaded als row) = ar_asset_id row" "a_space (loaded als row) = ar_space row"
  "a_partition_id (loaded als row) = ar_partition_id row" "a_storage_key (loaded als row) = ar_storage_key row"
  "a_state (loaded als row) = ar_state row" "a_mime (loaded als row) = ar_mime row"
  "a_aliases (loaded als row) = qualified_names (ar_space row) (alias_names als (ar_asset_id row))"
  "a_size_bytes (loaded als row) = ar_size_bytes row" "a_reserved_bytes (loaded als row) = ar_reserved_bytes row"
  "a_checksum (loaded als row) = ar_checksum row" "a_annotations (loaded als row) = ar_annotations row"
  "a_expires_at (loaded als row) = ar_expires_at row" "a_expired_at (loaded als row) = ar_expired_at row"
  "a_read_count (loaded als row) = ar_read_count row" "a_payload_deleted_at (loaded als row) = ar_payload_deleted_at row"
  "a_eviction_policy (loaded als row) = ar_eviction_policy row" "a_created_at (loaded als row) = ar_created_at row"
  by (simp_all add: loaded_def asset_from_row_def)

text \<open>A change of a column is the change of the field.\<close>

lemma loaded_update:
  "(loaded als row)\<lparr>a_state := v1\<rparr> = loaded als (row\<lparr>ar_state := v1\<rparr>)"
  "(loaded als row)\<lparr>a_updated_at := v2\<rparr> = loaded als (row\<lparr>ar_updated_at := v2\<rparr>)"
  "(loaded als row)\<lparr>a_expired_at := v3\<rparr> = loaded als (row\<lparr>ar_expired_at := v3\<rparr>)"
  "(loaded als row)\<lparr>a_size_bytes := v4\<rparr> = loaded als (row\<lparr>ar_size_bytes := v4\<rparr>)"
  "(loaded als row)\<lparr>a_reserved_bytes := v4\<rparr> = loaded als (row\<lparr>ar_reserved_bytes := v4\<rparr>)"
  "(loaded als row)\<lparr>a_checksum := v5\<rparr> = loaded als (row\<lparr>ar_checksum := v5\<rparr>)"
  "(loaded als row)\<lparr>a_mime := v5\<rparr> = loaded als (row\<lparr>ar_mime := v5\<rparr>)"
  "(loaded als row)\<lparr>a_annotations := v6\<rparr> = loaded als (row\<lparr>ar_annotations := v6\<rparr>)"
  "(loaded als row)\<lparr>a_eviction_policy := v7\<rparr> = loaded als (row\<lparr>ar_eviction_policy := v7\<rparr>)"
  "(loaded als row)\<lparr>a_expires_at := v3\<rparr> = loaded als (row\<lparr>ar_expires_at := v3\<rparr>)"
  "(loaded als row)\<lparr>a_last_read_at := v3\<rparr> = loaded als (row\<lparr>ar_last_read_at := v3\<rparr>)"
  "(loaded als row)\<lparr>a_read_count := v8\<rparr> = loaded als (row\<lparr>ar_read_count := v8\<rparr>)"
  "(loaded als row)\<lparr>a_payload_deleted_at := v3\<rparr> = loaded als (row\<lparr>ar_payload_deleted_at := v3\<rparr>)"
  by (simp_all add: loaded_def asset_from_row_def)

lemma loaded_eq_update: "loaded als (row\<lparr>ar_updated_at := u\<rparr>) = (loaded als row)\<lparr>a_updated_at := u\<rparr>"
  by (simp add: loaded_update)

lemma loaded_names: "set (alias_names als' (ar_asset_id row)) = set (alias_names als (ar_asset_id row)) \<Longrightarrow> loaded als' row = loaded als row"
  by (simp add: loaded_def qualified_names_def)

lemma in_set_update: "x \<in> set (AList.update k v d) \<Longrightarrow> x = (k, v) \<or> x \<in> set d"
  by (induction d) (auto split: if_splits)

lemma map_update: "map (\<lambda>(k, v). (k, g v)) (AList.update k v d) = AList.update k (g v) (map (\<lambda>(k, v). (k, g v)) d)"
  by (induction d) auto

lemma map_keys_update:
  "(\<And>k'. k' \<in> fst ` set d \<Longrightarrow> f k' = f k \<Longrightarrow> k' = k) \<Longrightarrow>
   map (\<lambda>(k, v). (f k, v)) (AList.update k v d) = AList.update (f k) v (map (\<lambda>(k, v). (f k, v)) d)"
proof (induction d)
  case (Cons p d)
  then show ?case by (cases p) force
qed simp

lemma map_keys_delete:
  "(\<And>k'. k' \<in> fst ` set d \<Longrightarrow> f k' = f k \<Longrightarrow> k' = k) \<Longrightarrow>
   map (\<lambda>(k, v). (f k, v)) (AList.delete k d) = AList.delete (f k) (map (\<lambda>(k, v). (f k, v)) d)"
proof (induction d)
  case (Cons p d)
  then show ?case by (cases p) (force simp: AList.delete_eq)
qed simp

lemma map_keys_lookup:
  "(\<And>k'. k' \<in> fst ` set d \<Longrightarrow> f k' = f k \<Longrightarrow> k' = k) \<Longrightarrow> map_of (map (\<lambda>(k, v). (f k, v)) d) (f k) = map_of d k"
proof (induction d)
  case (Cons p d)
  then show ?case by (cases p) force
qed simp

section \<open>The relation\<close>

definition assets_rel :: "(string, asset) dict \<Rightarrow> (string, asset_row) dict \<Rightarrow> (string \<times> string, alias_binding) dict \<Rightarrow> bool" where
  "assets_rel A rows als \<longleftrightarrow> A = map (\<lambda>(i, row). (i, loaded als row)) rows"

definition key_name :: "string \<times> string \<Rightarrow> string" where
  "key_name k = fst k @ ''/'' @ snd k"

definition aliases_rel :: "(string, alias_binding) dict \<Rightarrow> (string \<times> string, alias_binding) dict \<Rightarrow> bool" where
  "aliases_rel L als \<longleftrightarrow> L = map (\<lambda>(k, b). (key_name k, b)) als \<and>
     (\<forall>(k, b) \<in> set als. k = (b_space b, b_alias b) \<and> b_space b \<in> STORAGE_BUCKETS \<and> canonical (b_alias b))"

text \<open>A tombstone whose time is over may linger in the table, because a rollback restores it.\<close>

definition tombs_rel :: "datetime \<Rightarrow> (string, datetime) dict \<Rightarrow> (string \<times> string, datetime) dict \<Rightarrow> bool" where
  "tombs_rel t D tombs \<longleftrightarrow>
     (\<forall>s a. s \<in> STORAGE_BUCKETS \<longrightarrow>
        (\<forall>g. map_of D (key_name (s, a)) = Some g \<longrightarrow> map_of tombs (s, a) = Some g) \<and>
        (\<forall>g. map_of tombs (s, a) = Some g \<and> t < g \<longrightarrow> map_of D (key_name (s, a)) = Some g))"

definition partition_in_range :: "partition_quota \<Rightarrow> bool" where
  "partition_in_range q \<longleftrightarrow> opt_bigint (pq_quota_bytes q) \<and> opt_bigint (pq_quota_asset_count q)"

definition quotas_rel ::
  "(string \<times> string, partition_quota) dict \<Rightarrow> (string, bucket_quota) dict \<Rightarrow>
   (string \<times> string, partition_quota) dict \<Rightarrow> (string, bucket_quota) dict \<Rightarrow> bool" where
  "quotas_rel P B P' B' \<longleftrightarrow> quotas_ok P' B' \<and>
     (\<forall>s p. quota_at P s p = quota_at P' s p \<and> partition_in_range (quota_at P' s p)) \<and>
     (\<forall>s. bucket_at B s = bucket_at B' s \<and> opt_bigint (bq_quota_bytes (bucket_at B' s)))"

definition rows_ok :: "(string, asset_row) dict \<Rightarrow> bool" where
  "rows_ok rows \<longleftrightarrow> (\<forall>i row. map_of rows i = Some row \<longrightarrow> canonical (ar_partition_id row) \<and> row_in_range row)"

definition rel :: "datetime \<Rightarrow> registry \<Rightarrow> tables \<Rightarrow> bool" where
  "rel t r T \<longleftrightarrow>
     assets_rel (r_assets r) (tb_assets T) (tb_aliases T) \<and> aliases_rel (r_aliases r) (tb_aliases T) \<and>
     tombs_rel t (r_tombstones r) (tb_tombstones T) \<and>
     quotas_rel (r_partition_quotas r) (r_bucket_quotas r) (tb_partition_quotas T) (tb_bucket_quotas T) \<and>
     rows_ok (tb_assets T) \<and> r_audit_events r = map snd (tb_audit_events T)"

section \<open>Looking up\<close>

lemma assets_rel_lookup: "assets_rel A rows als \<Longrightarrow> map_of A i = map_option (loaded als) (map_of rows i)"
  by (simp add: assets_rel_def map_of_map)

lemma key_name_inj: "s \<in> STORAGE_BUCKETS \<Longrightarrow> s' \<in> STORAGE_BUCKETS \<Longrightarrow> key_name (s, a) = key_name (s', a') \<Longrightarrow> s = s' \<and> a = a'"
  using first_segment_unique [of s slash a s' a'] by (simp add: key_name_def bucket_no_slash)

lemma aliases_rel_keys:
  "aliases_rel L als \<Longrightarrow> s \<in> STORAGE_BUCKETS \<Longrightarrow> k \<in> fst ` set als \<Longrightarrow> key_name k = key_name (s, a) \<Longrightarrow> k = (s, a)"
  by (cases k) (auto simp: aliases_rel_def dest!: key_name_inj [rotated 2])

lemma aliases_rel_lookup: "aliases_rel L als \<Longrightarrow> s \<in> STORAGE_BUCKETS \<Longrightarrow> map_of L (key_name (s, a)) = map_of als (s, a)"
  using aliases_rel_keys [of L als s _ a] by (simp add: aliases_rel_def map_keys_lookup)

lemma aliases_rel_row:
  "aliases_rel L als \<Longrightarrow> map_of als (s, a) = Some b \<Longrightarrow> b_space b = s \<and> b_alias b = a \<and> s \<in> STORAGE_BUCKETS \<and> canonical a"
  by (auto simp: aliases_rel_def dest!: map_of_SomeD)

section \<open>Changing\<close>

lemma update_map_cong:
  assumes "\<And>j x. (j, x) \<in> set d \<Longrightarrow> j \<noteq> i \<Longrightarrow> f x = g x" and "distinct (map fst d)"
  shows "AList.update i v (map (\<lambda>(j, x). (j, f x)) d) = AList.update i v (map (\<lambda>(j, x). (j, g x)) d)"
  using assms
proof (induction d)
  case (Cons p d)
  obtain j x where p: "p = (j, x)" by (cases p)
  have rest: "f y = g y" if "(k, y) \<in> set d" "k \<noteq> i" for k y using Cons.prems(1) [of k y] that by simp
  show ?case
  proof (cases "j = i")
    case True
    have "map (\<lambda>(k, y). (k, f y)) d = map (\<lambda>(k, y). (k, g y)) d"
      by (intro map_cong refl) (use Cons.prems(2) True p rest in \<open>force split: prod.split\<close>)
    with True p show ?thesis by simp
  next
    case False
    then have "f x = g x" using Cons.prems(1) [of j x] p by simp
    moreover have "AList.update i v (map (\<lambda>(k, y). (k, f y)) d) = AList.update i v (map (\<lambda>(k, y). (k, g y)) d)"
      using Cons.IH Cons.prems(2) rest by simp
    ultimately show ?thesis using False p by simp
  qed
qed simp

lemma assets_rel_update:
  assumes "assets_rel A rows als" and "\<And>j row. map_of rows j = Some row \<Longrightarrow> ar_asset_id row = j" and "dict_ok rows"
    and "\<And>j. j \<noteq> i \<Longrightarrow> set (alias_names als' j) = set (alias_names als j)" and "a' = loaded als' row'"
  shows "assets_rel (AList.update i a' A) (AList.update i row' rows) als'"
proof -
  have "loaded als row = loaded als' row" if "(j, row) \<in> set rows" "j \<noteq> i" for j row
  proof -
    have "ar_asset_id row = j" using that(1) assms(2,3) by (simp add: dict_in_iff)
    then show ?thesis using assms(4) [OF that(2)] by (intro loaded_names [symmetric]) simp
  qed
  then show ?thesis
    using assms(1,3,5) update_map_cong [of rows i "loaded als" "loaded als'"] by (simp add: assets_rel_def map_update dict_ok_def)
qed

section \<open>Quotas\<close>

lemma sql_sum_or_zero: "sql_sum f rows = sum_list (map (\<lambda>row. or_zero (f row)) rows)"
  by (induction rows) (auto simp: sql_sum_def List.map_filter_simps split: option.split)

lemma assets_rel_values: "assets_rel A rows als \<Longrightarrow> dict_values A = map (loaded als) (dict_values rows)"
  by (auto simp: assets_rel_def dict_values_def)

definition prepare :: "string \<Rightarrow> string \<Rightarrow> tables \<Rightarrow> tables" where
  "prepare sp p T = T\<lparr>tb_partition_quotas := insert_if_absent (sp, p) (default_partition_quota sp p) (tb_partition_quotas T),
     tb_bucket_quotas := insert_if_absent sp (default_bucket_quota sp) (tb_bucket_quotas T)\<rparr>"

lemma quota_at_insert [simp]: "quota_at (insert_if_absent (sp, p) (default_partition_quota sp p) P) s k = quota_at P s k"
  by (auto simp: quota_at_def insert_if_absent_def)

lemma bucket_at_insert [simp]: "bucket_at (insert_if_absent sp (default_bucket_quota sp) B) s = bucket_at B s"
  by (auto simp: bucket_at_def insert_if_absent_def)

lemma quotas_ok_insert [intro]:
  "quotas_ok P B \<Longrightarrow> quotas_ok (insert_if_absent (sp, p) (default_partition_quota sp p) P) B"
  "quotas_ok P B \<Longrightarrow> quotas_ok P (insert_if_absent sp (default_bucket_quota sp) B)"
  by (auto simp: insert_if_absent_def default_partition_quota_def default_bucket_quota_def
      intro!: quotas_ok_update_partition quotas_ok_update_bucket)

lemma prepare_simps [simp]:
  "tb_assets (prepare sp p T) = tb_assets T" "tb_aliases (prepare sp p T) = tb_aliases T"
  "tb_tombstones (prepare sp p T) = tb_tombstones T" "tb_audit_events (prepare sp p T) = tb_audit_events T"
  by (simp_all add: prepare_def)

lemma rel_prepare: "rel t r T \<Longrightarrow> rel t r (prepare sp p T)"
  by (auto simp: rel_def quotas_rel_def prepare_def)

lemma quota_row: "quotas_ok P B \<Longrightarrow> map_of P (s, p) = Some row \<Longrightarrow> row\<lparr>pq_space := s, pq_partition_id := p\<rparr> = row"
  by (auto simp: quotas_ok_def)

lemma bucket_row: "quotas_ok P B \<Longrightarrow> map_of B s = Some row \<Longrightarrow> row\<lparr>bq_space := s\<rparr> = row"
  by (auto simp: quotas_ok_def)

lemma wp_pg_partition_quota:
  assumes "pg_connected s" and "quotas_ok (tb_partition_quotas (pg_tables s)) (tb_bucket_quotas (pg_tables s))"
  shows "wp (pg_partition_quota sp p u) Q E s =
     Q (quota_at (tb_partition_quotas (pg_tables s)) sp p)
       (if u then s\<lparr>pg_tables := (pg_tables s)\<lparr>tb_partition_quotas :=
          insert_if_absent (sp, p) (default_partition_quota sp p) (tb_partition_quotas (pg_tables s))\<rparr>\<rparr> else s)"
  using assms quota_row [OF assms(2), of sp p]
  by (auto simp: pg_partition_quota_def wp_simps quota_at_def insert_if_absent_def default_partition_quota_def split: option.split)

lemma wp_pg_bucket_quota:
  assumes "pg_connected s" and "quotas_ok (tb_partition_quotas (pg_tables s)) (tb_bucket_quotas (pg_tables s))"
  shows "wp (pg_bucket_quota sp u) Q E s =
     Q (bucket_at (tb_bucket_quotas (pg_tables s)) sp)
       (if u then s\<lparr>pg_tables := (pg_tables s)\<lparr>tb_bucket_quotas :=
          insert_if_absent sp (default_bucket_quota sp) (tb_bucket_quotas (pg_tables s))\<rparr>\<rparr> else s)"
  using assms bucket_row [OF assms(2), of sp]
  by (auto simp: pg_bucket_quota_def wp_simps bucket_at_def insert_if_absent_def default_bucket_quota_def split: option.split)

lemma bucket_space [simp]: "s \<in> STORAGE_BUCKETS \<Longrightarrow> normalize_space s = Inr s"
  by (simp add: normalize_space_def bucket_normal)

lemma wp_pg_enforce_quota:
  assumes rel: "rel t r (pg_tables s)" and c: "pg_connected s" and sp: "sp \<in> STORAGE_BUCKETS" and p: "canonical p"
    and env: "pg_env s = r_env r"
  shows "wp (pg_enforce_quota sp p n x) Q E s =
     wp (enforce_quota sp p n x) (\<lambda>_ _. Q () (s\<lparr>pg_tables := prepare sp p (pg_tables s)\<rparr>))
       (\<lambda>e _. E e (s\<lparr>pg_tables := prepare sp p (pg_tables s)\<rparr>)) r"
proof -
  let ?T = "pg_tables s"
  have q: "quotas_ok (tb_partition_quotas ?T) (tb_bucket_quotas ?T)"
    and at: "quota_at (r_partition_quotas r) sp p = quota_at (tb_partition_quotas ?T) sp p"
      "bucket_at (r_bucket_quotas r) sp = bucket_at (tb_bucket_quotas ?T) sp"
    using rel by (auto simp: rel_def quotas_rel_def)
  have q': "quotas_ok (insert_if_absent (sp, p) (default_partition_quota sp p) (tb_partition_quotas ?T)) (tb_bucket_quotas ?T)"
    using q by (rule quotas_ok_insert)
  have vals: "dict_values (r_assets r) = map (loaded (tb_aliases ?T)) (dict_values (tb_assets ?T))"
    using rel by (auto simp: rel_def dest: assets_rel_values)
  have sums: "reserved_sum (map (loaded als) rows) = sql_sum ar_reserved_bytes rows" for als rows
    by (simp add: reserved_sum_def sql_sum_or_zero o_def)
  have pend: "pending_uploads sp x r = map (loaded (tb_aliases ?T))
      (filter (\<lambda>row. ar_space row = sp \<and> ar_state row = PENDING \<and> ar_reserved_bytes row \<noteq> None \<and> Some (ar_asset_id row) \<noteq> x)
        (dict_values (tb_assets ?T)))"
    by (simp add: pending_uploads_def vals filter_map o_def)
  have phys: "physical_bytes sp x r = sql_sum (\<lambda>row. case ar_size_bytes row of Some n \<Rightarrow> Some n | None \<Rightarrow> ar_reserved_bytes row)
      (filter (\<lambda>row. ar_space row = sp \<and> ar_payload_deleted_at row = None \<and> Some (ar_asset_id row) \<noteq> x) (dict_values (tb_assets ?T)))"
    by (simp add: physical_bytes_def vals filter_map o_def sql_sum_or_zero physical_size_def, intro arg_cong [where f = sum_list] map_cong refl)
      (auto split: option.split)
  show ?thesis
    using c sp p
    by (simp add: pg_enforce_quota_def enforce_quota_def wp_simps wp_pg_partition_quota q wp_pg_bucket_quota q' at env Let_def
        select_pending_def select_physical_def pend phys filter_map o_def sums prepare_def split: option.split sum.split)
qed

definition more_used :: "int \<Rightarrow> partition_quota \<Rightarrow> partition_quota" where
  "more_used n q = q\<lparr>pq_used_bytes := pq_used_bytes q + n, pq_used_asset_count := pq_used_asset_count q + 1\<rparr>"

definition less_used :: "int \<Rightarrow> partition_quota \<Rightarrow> partition_quota" where
  "less_used n q = q\<lparr>pq_used_bytes := max 0 (pq_used_bytes q - n), pq_used_asset_count := max 0 (pq_used_asset_count q - 1)\<rparr>"

definition bucket_more :: "int \<Rightarrow> bucket_quota \<Rightarrow> bucket_quota" where
  "bucket_more n q = q\<lparr>bq_used_bytes := bq_used_bytes q + n\<rparr>"

definition bucket_less :: "int \<Rightarrow> bucket_quota \<Rightarrow> bucket_quota" where
  "bucket_less n q = q\<lparr>bq_used_bytes := max 0 (bq_used_bytes q - n)\<rparr>"

definition with_quotas ::
  "string \<Rightarrow> string \<Rightarrow> (partition_quota \<Rightarrow> partition_quota) \<Rightarrow> (bucket_quota \<Rightarrow> bucket_quota) \<Rightarrow> registry \<Rightarrow> registry" where
  "with_quotas sp p f g r = r\<lparr>
     r_partition_quotas := AList.update (sp, p) (f (quota_at (r_partition_quotas r) sp p)) (r_partition_quotas r),
     r_bucket_quotas := AList.update sp (g (bucket_at (r_bucket_quotas r) sp)) (r_bucket_quotas r)\<rparr>"

lemma used_simps [simp]:
  "pq_space (more_used n q) = pq_space q" "pq_partition_id (more_used n q) = pq_partition_id q"
  "pq_space (less_used n q) = pq_space q" "pq_partition_id (less_used n q) = pq_partition_id q"
  "bq_space (bucket_more n b) = bq_space b" "bq_space (bucket_less n b) = bq_space b"
  "pq_quota_bytes (more_used n q) = pq_quota_bytes q" "pq_quota_asset_count (more_used n q) = pq_quota_asset_count q"
  "pq_quota_bytes (less_used n q) = pq_quota_bytes q" "pq_quota_asset_count (less_used n q) = pq_quota_asset_count q"
  "bq_quota_bytes (bucket_more n b) = bq_quota_bytes b" "bq_quota_bytes (bucket_less n b) = bq_quota_bytes b"
  by (simp_all add: more_used_def less_used_def bucket_more_def bucket_less_def)

lemma wp_acquire_canonical:
  assumes "sp \<in> STORAGE_BUCKETS" "canonical p" and q: "quotas_ok (r_partition_quotas r) (r_bucket_quotas r)"
  shows "wp (acquire_quota sp p n) Q E r = Q () (with_quotas sp p (more_used n) (bucket_more n) r)"
  using assms
  by (simp add: acquire_quota_def wp_simps quota_at_names [OF q] bucket_at_name [OF q] with_quotas_def more_used_def bucket_more_def)

lemma wp_release_canonical:
  assumes "a_space a \<in> STORAGE_BUCKETS" "canonical (a_partition_id a)" and q: "quotas_ok (r_partition_quotas r) (r_bucket_quotas r)"
  shows "wp (release_quota a) Q E r =
     Q () (if a_state a = AVAILABLE
           then with_quotas (a_space a) (a_partition_id a) (less_used (or_zero (a_size_bytes a))) (bucket_less (or_zero (a_size_bytes a))) r
           else r)"
  using assms
  by (simp add: release_quota_def wp_simps Let_def quota_at_names [OF q] bucket_at_name [OF q] with_quotas_def less_used_def bucket_less_def)

text \<open>Numbers that leave room for one more addition.\<close>

definition small :: "int \<Rightarrow> bool" where
  "small n \<longleftrightarrow> 0 \<le> n \<and> n < 2 ^ 62"

definition roomy :: "(string \<times> string, partition_quota) dict \<Rightarrow> (string, bucket_quota) dict \<Rightarrow> bool" where
  "roomy P B \<longleftrightarrow> (\<forall>s p. small (pq_used_bytes (quota_at P s p)) \<and> small (pq_used_asset_count (quota_at P s p))) \<and>
     (\<forall>s. small (bq_used_bytes (bucket_at B s)))"

lemma small_bigint: "small n \<Longrightarrow> in_bigint n" "small n \<Longrightarrow> small m \<Longrightarrow> in_bigint (n + m)" "small n \<Longrightarrow> in_bigint (n + 1)"
    "small n \<Longrightarrow> 0 \<le> m \<Longrightarrow> in_bigint (max 0 (n - m))"
  by (auto simp: small_def in_bigint_def)

text \<open>The tables after the two statements of each change of the counters.\<close>

definition pg_acquired :: "string \<Rightarrow> string \<Rightarrow> int \<Rightarrow> tables \<Rightarrow> tables" where
  "pg_acquired sp p n T = T\<lparr>
     tb_partition_quotas := AList.update (sp, p) (more_used n (quota_at (tb_partition_quotas T) sp p)) (tb_partition_quotas T),
     tb_bucket_quotas := AList.update sp (bucket_more n (bucket_at (tb_bucket_quotas T) sp)) (tb_bucket_quotas T)\<rparr>"

definition pg_released :: "string \<Rightarrow> string \<Rightarrow> int \<Rightarrow> tables \<Rightarrow> tables" where
  "pg_released sp p n T = T\<lparr>
     tb_partition_quotas := (if map_of (tb_partition_quotas T) (sp, p) = None then tb_partition_quotas T
       else AList.update (sp, p) (less_used n (quota_at (tb_partition_quotas T) sp p)) (tb_partition_quotas T)),
     tb_bucket_quotas := (if map_of (tb_bucket_quotas T) sp = None then tb_bucket_quotas T
       else AList.update sp (bucket_less n (bucket_at (tb_bucket_quotas T) sp)) (tb_bucket_quotas T))\<rparr>"

definition roomy_tables :: "tables \<Rightarrow> bool" where
  "roomy_tables T \<longleftrightarrow> roomy (tb_partition_quotas T) (tb_bucket_quotas T) \<and>
     (\<forall>s p. partition_in_range (quota_at (tb_partition_quotas T) s p)) \<and>
     (\<forall>s. opt_bigint (bq_quota_bytes (bucket_at (tb_bucket_quotas T) s)))"

lemma quota_table_simps [simp]:
  "tb_assets (pg_acquired sp p n T) = tb_assets T" "tb_aliases (pg_acquired sp p n T) = tb_aliases T"
  "tb_tombstones (pg_acquired sp p n T) = tb_tombstones T" "tb_audit_events (pg_acquired sp p n T) = tb_audit_events T"
  "tb_assets (pg_released sp p n T) = tb_assets T" "tb_aliases (pg_released sp p n T) = tb_aliases T"
  "tb_tombstones (pg_released sp p n T) = tb_tombstones T" "tb_audit_events (pg_released sp p n T) = tb_audit_events T"
  "pg_acquired sp p n (T\<lparr>tb_assets := A\<rparr>) = (pg_acquired sp p n T)\<lparr>tb_assets := A\<rparr>"
  "pg_acquired sp p n (T\<lparr>tb_audit_events := E\<rparr>) = (pg_acquired sp p n T)\<lparr>tb_audit_events := E\<rparr>"
  "pg_released sp p n (T\<lparr>tb_assets := A\<rparr>) = (pg_released sp p n T)\<lparr>tb_assets := A\<rparr>"
  "pg_released sp p n (T\<lparr>tb_aliases := L\<rparr>) = (pg_released sp p n T)\<lparr>tb_aliases := L\<rparr>"
  "pg_released sp p n (T\<lparr>tb_tombstones := D\<rparr>) = (pg_released sp p n T)\<lparr>tb_tombstones := D\<rparr>"
  "pg_released sp p n (T\<lparr>tb_audit_events := E\<rparr>) = (pg_released sp p n T)\<lparr>tb_audit_events := E\<rparr>"
  by (simp_all add: pg_acquired_def pg_released_def)

lemma with_quotas_simps [simp]:
  "r_assets (with_quotas sp p f g r) = r_assets r" "r_aliases (with_quotas sp p f g r) = r_aliases r"
  "r_tombstones (with_quotas sp p f g r) = r_tombstones r" "r_audit_events (with_quotas sp p f g r) = r_audit_events r"
  "r_clock (with_quotas sp p f g r) = r_clock r" "r_ticks (with_quotas sp p f g r) = r_ticks r"
  "with_quotas sp p f g (r\<lparr>r_assets := A\<rparr>) = (with_quotas sp p f g r)\<lparr>r_assets := A\<rparr>"
  "with_quotas sp p f g (r\<lparr>r_aliases := L\<rparr>) = (with_quotas sp p f g r)\<lparr>r_aliases := L\<rparr>"
  "with_quotas sp p f g (r\<lparr>r_tombstones := D\<rparr>) = (with_quotas sp p f g r)\<lparr>r_tombstones := D\<rparr>"
  "with_quotas sp p f g (r\<lparr>r_audit_events := E\<rparr>) = (with_quotas sp p f g r)\<lparr>r_audit_events := E\<rparr>"
  "with_quotas sp p f g (r\<lparr>r_ticks := n\<rparr>) = (with_quotas sp p f g r)\<lparr>r_ticks := n\<rparr>"
  by (simp_all add: with_quotas_def)

lemma roomy_tables_simps [simp]:
  "roomy_tables (T\<lparr>tb_assets := A\<rparr>) = roomy_tables T" "roomy_tables (T\<lparr>tb_aliases := L\<rparr>) = roomy_tables T"
  "roomy_tables (T\<lparr>tb_tombstones := D\<rparr>) = roomy_tables T" "roomy_tables (T\<lparr>tb_audit_events := E\<rparr>) = roomy_tables T"
  "roomy_tables (prepare sp p T) = roomy_tables T"
  by (simp_all add: roomy_tables_def roomy_def prepare_def)

lemma rel_roomy: "rel t r T \<Longrightarrow> roomy (r_partition_quotas r) (r_bucket_quotas r) \<Longrightarrow> roomy_tables T"
  by (simp add: rel_def quotas_rel_def roomy_tables_def roomy_def)

lemma roomy_tablesD:
  assumes "roomy_tables T"
  shows "small (pq_used_bytes (quota_at (tb_partition_quotas T) s p))" "small (pq_used_asset_count (quota_at (tb_partition_quotas T) s p))"
    "small (bq_used_bytes (bucket_at (tb_bucket_quotas T) s))" "partition_in_range (quota_at (tb_partition_quotas T) s p)"
    "opt_bigint (bq_quota_bytes (bucket_at (tb_bucket_quotas T) s))"
  using assms by (simp_all add: roomy_tables_def roomy_def)

lemma wp_pg_acquire:
  assumes "roomy_tables (pg_tables s)" "small n" and c: "pg_connected s"
  shows "wp (pg_acquire_quota sp p n) Q E s = Q () (s\<lparr>pg_tables := pg_acquired sp p n (pg_tables s)\<rparr>)"
proof -
  let ?P = "tb_partition_quotas (pg_tables s)" and ?B = "tb_bucket_quotas (pg_tables s)"
  have row: "(case map_of ?P (sp, p) of None \<Rightarrow> (default_partition_quota sp p)\<lparr>pq_used_bytes := n, pq_used_asset_count := 1\<rparr>
      | Some row \<Rightarrow> row\<lparr>pq_used_bytes := pq_used_bytes row + n, pq_used_asset_count := pq_used_asset_count row + 1\<rparr>) = more_used n (quota_at ?P sp p)"
    by (auto simp: quota_at_def more_used_def default_partition_quota_def split: option.split)
  have brow: "(case map_of ?B sp of None \<Rightarrow> (default_bucket_quota sp)\<lparr>bq_used_bytes := n\<rparr>
      | Some row \<Rightarrow> row\<lparr>bq_used_bytes := bq_used_bytes row + n\<rparr>) = bucket_more n (bucket_at ?B sp)"
    by (auto simp: bucket_at_def bucket_more_def default_bucket_quota_def split: option.split)
  have fits: "in_bigint (pq_used_bytes (more_used n (quota_at ?P sp p)))" "in_bigint (pq_used_asset_count (more_used n (quota_at ?P sp p)))"
    "in_bigint (bq_used_bytes (bucket_more n (bucket_at ?B sp)))"
    using \<open>small n\<close> roomy_tablesD [OF assms(1)] by (simp_all add: more_used_def bucket_more_def small_bigint)
  show ?thesis
    using c roomy_tablesD(4,5) [OF assms(1)] fits
    by (simp add: pg_acquire_quota_def wp_simps put_partition_row_def put_bucket_row_def row brow partition_in_range_def pg_acquired_def)
qed

lemma wp_pg_release:
  assumes "roomy_tables (pg_tables s)" "0 \<le> n" and c: "pg_connected s"
  shows "wp (pg_release_quota sp p n) Q E s = Q () (s\<lparr>pg_tables := pg_released sp p n (pg_tables s)\<rparr>)"
proof -
  let ?P = "tb_partition_quotas (pg_tables s)" and ?B = "tb_bucket_quotas (pg_tables s)"
  have fits: "in_bigint (pq_used_bytes (less_used n (quota_at ?P sp p)))" "in_bigint (pq_used_asset_count (less_used n (quota_at ?P sp p)))"
    "in_bigint (bq_used_bytes (bucket_less n (bucket_at ?B sp)))"
    using \<open>0 \<le> n\<close> roomy_tablesD [OF assms(1)] by (simp_all add: less_used_def bucket_less_def small_bigint)
  show ?thesis
    using c roomy_tablesD(4) [OF assms(1), of sp p] roomy_tablesD(5) [OF assms(1), of sp] fits
    by (auto simp: pg_release_quota_def wp_simps put_partition_row_def put_bucket_row_def partition_in_range_def
        quota_at_def bucket_at_def less_used_def bucket_less_def pg_released_def split: option.split)
qed

lemma quotas_rel_update:
  assumes "quotas_rel P B P' B'" and "f (quota_at P' sp p) = q" "pq_space q = sp" "pq_partition_id q = p" "partition_in_range q"
    and "g (bucket_at B' sp) = b" "bq_space b = sp" "opt_bigint (bq_quota_bytes b)"
  shows "quotas_rel (AList.update (sp, p) (f (quota_at P sp p)) P) (AList.update sp (g (bucket_at B sp)) B)
     (AList.update (sp, p) q P') (AList.update sp b B')"
  using assms by (auto simp: quotas_rel_def intro!: quotas_ok_update_partition quotas_ok_update_bucket)

lemma rel_acquired:
  assumes "rel t r T"
  shows "rel t (with_quotas sp p (more_used n) (bucket_more n) r) (pg_acquired sp p n T)"
proof -
  have q: "quotas_rel (r_partition_quotas r) (r_bucket_quotas r) (tb_partition_quotas T) (tb_bucket_quotas T)"
    using assms by (simp add: rel_def)
  then have ok: "quotas_ok (tb_partition_quotas T) (tb_bucket_quotas T)" by (simp add: quotas_rel_def)
  show ?thesis
    using assms quotas_rel_update [OF q, of "more_used n" sp p _ "bucket_more n"] q
    by (simp add: rel_def with_quotas_def pg_acquired_def quota_at_names [OF ok] bucket_at_name [OF ok] partition_in_range_def quotas_rel_def)
qed

lemma less_default: "0 \<le> n \<Longrightarrow> less_used n (default_partition_quota s p) = default_partition_quota s p"
  "0 \<le> n \<Longrightarrow> bucket_less n (default_bucket_quota s) = default_bucket_quota s"
  by (simp_all add: less_used_def bucket_less_def default_partition_quota_def default_bucket_quota_def)

lemma rel_released:
  assumes "rel t r T" "0 \<le> n"
  shows "rel t (with_quotas sp p (less_used n) (bucket_less n) r) (pg_released sp p n T)"
proof -
  let ?P = "tb_partition_quotas T" and ?B = "tb_bucket_quotas T"
  have q: "quotas_rel (r_partition_quotas r) (r_bucket_quotas r) ?P ?B" using assms by (simp add: rel_def)
  then have ok: "quotas_ok ?P ?B" by (simp add: quotas_rel_def)
  have same: "quota_at (tb_partition_quotas (pg_released sp p n T)) s' p' = quota_at (AList.update (sp, p) (less_used n (quota_at ?P sp p)) ?P) s' p'"
    "bucket_at (tb_bucket_quotas (pg_released sp p n T)) s' = bucket_at (AList.update sp (bucket_less n (bucket_at ?B sp)) ?B) s'" for s' p'
    using less_default [OF \<open>0 \<le> n\<close>] by (auto simp: quota_at_def bucket_at_def pg_released_def)
  have ok': "quotas_ok (tb_partition_quotas (pg_released sp p n T)) (tb_bucket_quotas (pg_released sp p n T))"
    using ok by (auto simp: pg_released_def quota_at_names bucket_at_name intro!: quotas_ok_update_partition quotas_ok_update_bucket)
  have "quotas_rel (AList.update (sp, p) (less_used n (quota_at (r_partition_quotas r) sp p)) (r_partition_quotas r))
      (AList.update sp (bucket_less n (bucket_at (r_bucket_quotas r) sp)) (r_bucket_quotas r))
      (AList.update (sp, p) (less_used n (quota_at ?P sp p)) ?P) (AList.update sp (bucket_less n (bucket_at ?B sp)) ?B)"
    by (rule quotas_rel_update [OF q]) (use q in \<open>simp_all add: quota_at_names [OF ok] bucket_at_name [OF ok] partition_in_range_def quotas_rel_def\<close>)
  then have "quotas_rel (r_partition_quotas (with_quotas sp p (less_used n) (bucket_less n) r)) (r_bucket_quotas (with_quotas sp p (less_used n) (bucket_less n) r))
      (tb_partition_quotas (pg_released sp p n T)) (tb_bucket_quotas (pg_released sp p n T))"
    unfolding quotas_rel_def same with_quotas_def using ok' by simp
  with assms show ?thesis by (simp add: rel_def)
qed

end
