(* ===== verification/Pg_Parity.thy ===== *)
theory Pg_Parity
  imports Pg_Rel Registry_Props
begin

text \<open>
  The Postgres registry against the in-memory one, call by call: in states that represent each other, at one
  instant, both give the same answer or raise the same error and end in states that represent each other.
  This theory holds the calls on assets and quotas.
\<close>

section \<open>One call on both\<close>

definition agree :: "datetime \<Rightarrow> (registry, 'a) op \<Rightarrow> registry \<Rightarrow> 'a \<Rightarrow> tables \<Rightarrow> bool" where
  "agree t m r y T' \<longleftrightarrow> wp m (\<lambda>x r'. x = y \<and> rel t r' T') (\<lambda>_ _. False) r"

definition both_fail :: "datetime \<Rightarrow> (registry, 'a) op \<Rightarrow> registry \<Rightarrow> error \<Rightarrow> tables \<Rightarrow> bool" where
  "both_fail t m r e T \<longleftrightarrow> wp m (\<lambda>_ _. False) (\<lambda>e' r'. e' = e \<and> (e \<noteq> OverflowError \<longrightarrow> rel t r' T)) r"

definition parity :: "datetime \<Rightarrow> (registry, 'a) op \<Rightarrow> (pg, 'a) op \<Rightarrow> registry \<Rightarrow> pg \<Rightarrow> bool" where
  "parity t m n r s \<longleftrightarrow> fst (m r) = fst (n s) \<and> (fst (m r) \<noteq> Inl OverflowError \<longrightarrow> rel t (snd (m r)) (pg_tables (snd (n s))))"

text \<open>What the two registries share when a call begins.\<close>

definition aligned :: "datetime \<Rightarrow> registry \<Rightarrow> pg \<Rightarrow> bool" where
  "aligned t r s \<longleftrightarrow> rel t r (pg_tables s) \<and> reg_inv r \<and> roomy (r_partition_quotas r) (r_bucket_quotas r) \<and>
     (\<forall>n. r_clock r n = t) \<and> (\<forall>n. pg_clock s n = t) \<and>
     pg_env s = r_env r \<and> pg_alias_grace s = r_alias_grace r \<and> pg_uuids s (pg_next_uuid s) = r_uuids r (r_next_uuid r)"

lemma parityI:
  assumes "\<not> pg_connected s" "pg_pool s (pg_checkouts s)"
    and "wp body (\<lambda>y s'. agree t m r y (pg_tables s')) (\<lambda>e _. both_fail t m r e (pg_tables s)) (checked_out s)"
  shows "parity t m (unit_of_work body) r s"
proof -
  have "wp (unit_of_work body) (\<lambda>y s'. agree t m r y (pg_tables s')) (\<lambda>e s'. both_fail t m r e (pg_tables s')) s"
    unfolding wp_unit_of_work [OF assms(1,2)] by (rule wp_mono [OF assms(3)]) (simp_all add: finished_def)
  then show ?thesis
    by (cases "m r"; cases "fst (m r)"; cases "unit_of_work body s"; cases "fst (unit_of_work body s)")
      (auto simp: parity_def wp_def agree_def both_fail_def)
qed

lemma checked_out_simps [simp]:
  "pg_tables (checked_out s) = pg_tables s" "pg_connected (checked_out s)" "pg_clock (checked_out s) = pg_clock s"
  "pg_env (checked_out s) = pg_env s" "pg_alias_grace (checked_out s) = pg_alias_grace s"
  "pg_uuids (checked_out s) = pg_uuids s" "pg_next_uuid (checked_out s) = pg_next_uuid s"
  by (simp_all add: checked_out_def)

lemma rel_ticks [simp]: "rel t (r\<lparr>r_ticks := n\<rparr>) T = rel t r T" "rel t (r\<lparr>r_next_uuid := n\<rparr>) T = rel t r T"
  by (simp_all add: rel_def)

lemma alignedD:
  assumes "aligned t r s"
  shows "rel t r (pg_tables s)" "reg_inv r" "roomy_tables (pg_tables s)" "r_clock r n = t" "pg_clock s n = t"
    "pg_env s = r_env r" "pg_alias_grace s = r_alias_grace r" "pg_uuids s (pg_next_uuid s) = r_uuids r (r_next_uuid r)"
    "assets_ok (r_assets r)" "quotas_ok (r_partition_quotas r) (r_bucket_quotas r)"
  using assms by (auto simp: aligned_def reg_inv_def intro: rel_roomy)

lemma rel_asset:
  assumes "rel t r T" "assets_ok (r_assets r)" "map_of (tb_assets T) i = Some row"
  shows "map_of (r_assets r) i = Some (loaded (tb_aliases T) row)" "ar_asset_id row = i" "ar_space row \<in> STORAGE_BUCKETS"
    "canonical (ar_partition_id row)" "row_in_range row" "asset_wf (loaded (tb_aliases T) row)"
proof -
  show m: "map_of (r_assets r) i = Some (loaded (tb_aliases T) row)"
    using assms(1,3) assets_rel_lookup [of "r_assets r" "tb_assets T" "tb_aliases T" i] by (simp add: rel_def)
  then show "ar_asset_id row = i" "asset_wf (loaded (tb_aliases T) row)"
    using assms(2) unfolding assets_ok_def by (metis loaded_simps(1))+
  then show "ar_space row \<in> STORAGE_BUCKETS" by (simp add: asset_wf_def)
  show "canonical (ar_partition_id row)" "row_in_range row" using assms(1,3) by (auto simp: rel_def rows_ok_def)
qed

lemma rel_no_asset: "rel t r T \<Longrightarrow> map_of (tb_assets T) i = None \<Longrightarrow> map_of (r_assets r) i = None"
  using assets_rel_lookup [of "r_assets r" "tb_assets T" "tb_aliases T" i] by (simp add: rel_def)

lemma rel_keys:
  assumes "rel t r T" "assets_ok (r_assets r)"
  shows "dict_ok (tb_assets T)" "map_of (tb_assets T) i = Some row \<Longrightarrow> ar_asset_id row = i"
proof -
  have rel: "assets_rel (r_assets r) (tb_assets T) (tb_aliases T)" using assms(1) by (simp add: rel_def)
  then show "dict_ok (tb_assets T)" using assms(2) by (auto simp: assets_rel_def assets_ok_def dict_ok_def o_def case_prod_unfold)
  show "map_of (tb_assets T) i = Some row \<Longrightarrow> ar_asset_id row = i"
    using assets_rel_lookup [OF rel, of i] assms(2) by (fastforce simp: assets_ok_def)
qed

lemma rel_put_row:
  assumes "rel t r T" "assets_ok (r_assets r)" and "a' = loaded (tb_aliases T) row'" and "canonical (ar_partition_id row')" "row_in_range row'"
    and "A = r_assets r" "rows = tb_assets T"
  shows "rel t (r\<lparr>r_assets := AList.update i a' A\<rparr>) (T\<lparr>tb_assets := AList.update i row' rows\<rparr>)"
proof -
  have "assets_rel (AList.update i a' (r_assets r)) (AList.update i row' (tb_assets T)) (tb_aliases T)"
    by (rule assets_rel_update [OF _ _ rel_keys(1) [OF assms(1,2)]]) (use assms rel_keys(2) [OF assms(1,2)] in \<open>auto simp: rel_def\<close>)
  then show ?thesis using assms by (auto simp: rel_def rows_ok_def)
qed

lemma rel_audit: "rel t r T \<Longrightarrow> L = r_audit_events r \<Longrightarrow> L' = tb_audit_events T \<Longrightarrow>
    rel t (r\<lparr>r_audit_events := L @ [e]\<rparr>) (T\<lparr>tb_audit_events := L' @ [(i, e)]\<rparr>)"
  by (simp add: rel_def)

lemma row_simps [simp]:
  "row_in_range (row\<lparr>ar_state := v1\<rparr>) = row_in_range row" "row_in_range (row\<lparr>ar_updated_at := v2\<rparr>) = row_in_range row"
  "row_in_range (row\<lparr>ar_expired_at := v3\<rparr>) = row_in_range row" "row_in_range (row\<lparr>ar_checksum := v5\<rparr>) = row_in_range row"
  "row_in_range (row\<lparr>ar_mime := v5\<rparr>) = row_in_range row" "row_in_range (row\<lparr>ar_annotations := v6\<rparr>) = row_in_range row"
  "row_in_range (row\<lparr>ar_eviction_policy := v7\<rparr>) = row_in_range row" "row_in_range (row\<lparr>ar_expires_at := v3\<rparr>) = row_in_range row"
  "row_in_range (row\<lparr>ar_last_read_at := v3\<rparr>) = row_in_range row" "row_in_range (row\<lparr>ar_payload_deleted_at := v3\<rparr>) = row_in_range row"
  by (simp_all add: row_in_range_def)

lemma loaded_row: "ar_asset_id row = i \<Longrightarrow> ar_space row = sp \<Longrightarrow> asset_from_row row (qualified_names sp (alias_names als i)) = loaded als row"
  by (auto simp: loaded_def)

lemma wp_load_asset:
  assumes "pg_connected s"
  shows "wp (load_asset i) Q E s =
     (case map_of (tb_assets (pg_tables s)) i of
        None \<Rightarrow> E AssetNotFoundError s
      | Some row \<Rightarrow> Q (asset_from_row row (qualified_names (ar_space row) (alias_names (tb_aliases (pg_tables s)) i))) s)"
  using assms by (simp add: load_asset_def wp_simps select_asset_def select_alias_names_def alias_names_def split: option.split)


lemma agreeI: "wp m (\<lambda>x r'. x = y \<and> rel t r' T') (\<lambda>_ _. False) r \<Longrightarrow> agree t m r y T'"
  by (simp add: agree_def)

definition ready :: "datetime \<Rightarrow> registry \<Rightarrow> pg \<Rightarrow> bool" where
  "ready t r s \<longleftrightarrow> aligned t r s \<and> \<not> pg_connected s \<and> pg_pool s (pg_checkouts s)"

lemma parity_unit:
  assumes "ready t r s"
    and "aligned t r s \<Longrightarrow> wp body (\<lambda>y s'. agree t m r y (pg_tables s')) (\<lambda>e _. both_fail t m r e (pg_tables s)) (checked_out s)"
  shows "parity t m (unit_of_work body) r s"
  using assms by (auto simp: ready_def intro: parityI)

lemmas parity_defs = wp_simps statement_defs both_fail_def agree_def Let_def wp_load_asset loaded_update loaded_row

lemma parity_update_annotations:
  assumes "ready t r s"
  shows "parity t (update_annotations i patch c ow) (pg_update_annotations i patch c ow) r s"
  unfolding pg_update_annotations_def
proof (rule parity_unit [OF assms], goal_cases)
  case 1
  note d = alignedD [OF 1]
  show ?case
  proof (cases "map_of (tb_assets (pg_tables s)) i")
    case None
    then show ?thesis using d rel_no_asset [OF d(1)] by (simp add: parity_defs update_annotations_def)
  next
    case (Some row)
    then show ?thesis
      using d rel_asset [OF d(1,9) Some]
      by (auto simp: parity_defs update_annotations_def intro!: rel_audit rel_put_row)
  qed
qed

lemma parity_set_eviction_policy:
  assumes "ready t r s"
  shows "parity t (set_eviction_policy i p c) (pg_set_eviction_policy i p c) r s"
  unfolding pg_set_eviction_policy_def
proof (rule parity_unit [OF assms], goal_cases)
  case 1
  note d = alignedD [OF 1]
  show ?case
  proof (cases "map_of (tb_assets (pg_tables s)) i")
    case None
    then show ?thesis using d rel_no_asset [OF d(1)] by (simp add: parity_defs set_eviction_policy_def)
  next
    case (Some row)
    then show ?thesis
      using d rel_asset [OF d(1,9) Some]
      by (auto simp: parity_defs set_eviction_policy_def intro!: rel_audit rel_put_row)
  qed
qed

lemma parity_record_capability_issue:
  assumes "ready t r s"
  shows "parity t (record_capability_issue c op sp ttl out cid) (pg_record_capability_issue c op sp ttl out cid) r s"
  unfolding pg_record_capability_issue_def
proof (rule parity_unit [OF assms], goal_cases)
  case 1
  then show ?case using alignedD [OF 1] by (auto simp: parity_defs record_capability_issue_def intro!: rel_audit)
qed

lemma update_same: "map_of d k = Some v \<Longrightarrow> AList.update k v d = d"
  by (induction d) (auto split: if_splits)

lemma parity_record_read:
  assumes "ready t r s" and "map_of (r_assets r) i \<noteq> None" and "\<And>a. map_of (r_assets r) i = Some a \<Longrightarrow> small (a_read_count a)"
  shows "parity t (record_read i) (pg_record_read i) r s"
  unfolding pg_record_read_def
proof (rule parity_unit [OF assms(1)], goal_cases)
  case 1
  note d = alignedD [OF 1]
  show ?case
  proof (cases "map_of (tb_assets (pg_tables s)) i")
    case None
    then show ?thesis using assms(2) rel_no_asset [OF d(1)] by simp
  next
    case (Some row)
    note a = rel_asset [OF d(1,9) Some]
    have same: "AList.update i row (tb_assets (pg_tables s)) = tb_assets (pg_tables s)" using Some by (rule update_same)
    have "in_bigint (ar_read_count row + 1)" using assms(3) [OF a(1)] by (simp add: small_bigint)
    then have "row_in_range (row\<lparr>ar_last_read_at := Some t, ar_read_count := ar_read_count row + 1\<rparr>)"
      using a(5) by (simp add: row_in_range_def)
    then show ?thesis
      using d a Some same by (auto simp: parity_defs record_read_def intro!: rel_put_row)
  qed
qed


lemma size_nonneg: "asset_wf (loaded als row) \<Longrightarrow> 0 \<le> or_zero (ar_size_bytes row)"
  by (cases "ar_size_bytes row") (auto simp: asset_wf_def)

lemma parity_expire_asset:
  assumes "ready t r s"
  shows "parity t (expire_asset i c) (pg_expire_asset i c) r s"
  unfolding pg_expire_asset_def transition_out_of_available_def
proof (rule parity_unit [OF assms], goal_cases)
  case 1
  note d = alignedD [OF 1]
  show ?case
  proof (cases "map_of (tb_assets (pg_tables s)) i")
    case None
    then show ?thesis using d rel_no_asset [OF d(1)] by (simp add: parity_defs expire_asset_def)
  next
    case (Some row)
    note a = rel_asset [OF d(1,9) Some]
    then show ?thesis
      using d Some
      by (auto simp: parity_defs expire_asset_def wp_pg_release wp_release_canonical size_nonneg intro!: rel_audit rel_put_row rel_released)
  qed
qed

lemma parity_delete_asset:
  assumes "ready t r s"
  shows "parity t (delete_asset i c) (pg_delete_asset i c) r s"
  unfolding pg_delete_asset_def transition_out_of_available_def
proof (rule parity_unit [OF assms], goal_cases)
  case 1
  note d = alignedD [OF 1]
  show ?case
  proof (cases "map_of (tb_assets (pg_tables s)) i")
    case None
    then show ?thesis using d rel_no_asset [OF d(1)] by (simp add: parity_defs delete_asset_def)
  next
    case (Some row)
    note a = rel_asset [OF d(1,9) Some]
    then show ?thesis
      using d Some
      by (auto simp: parity_defs delete_asset_def wp_pg_release wp_release_canonical size_nonneg intro!: rel_audit rel_put_row rel_released)
  qed
qed

lemma parity_lifecycle_update:
  assumes "ready t r s"
  shows "parity t (lifecycle_update a st now reason pd) (pg_lifecycle_update a st now reason pd) r s"
  unfolding pg_lifecycle_update_def
proof (rule parity_unit [OF assms], goal_cases)
  case 1
  note d = alignedD [OF 1]
  show ?case
  proof (cases "map_of (tb_assets (pg_tables s)) (a_asset_id a)")
    case None
    then show ?thesis using d rel_no_asset [OF d(1)] by (simp add: parity_defs lifecycle_update_def)
  next
    case (Some row)
    note a = rel_asset [OF d(1,9) Some]
    show ?thesis
    proof (cases "a = loaded (tb_aliases (pg_tables s)) row")
      case True
      show ?thesis
        unfolding True using a(1,3-) [unfolded True loaded_simps] Some [unfolded True loaded_simps] d
        by (cases "validate_cleanup_transition (loaded (tb_aliases (pg_tables s)) row) st pd"; cases "ar_state row = AVAILABLE")
          (simp_all add: parity_defs lifecycle_update_def wp_pg_release wp_release_canonical size_nonneg
              split del: if_split,
           (intro conjI rel_audit rel_put_row rel_released rel_ticks [THEN iffD2]; simp add: size_nonneg)+)
    next
      case False
      with a d Some show ?thesis by (simp add: parity_defs lifecycle_update_def)
    qed
  qed
qed


lemma enforce_quota_ticks [simp]: "fst (enforce_quota sp p n x (r\<lparr>r_ticks := k\<rparr>)) = fst (enforce_quota sp p n x r)"
  by (rule enforce_quota_cong) (simp_all add: pending_uploads_def physical_bytes_def)

lemma wp_pg_enforce:
  assumes "rel t r (pg_tables s)" "pg_connected s" "sp \<in> STORAGE_BUCKETS" "canonical p" "pg_env s = r_env r"
  shows "wp (pg_enforce_quota sp p n x) Q E s = (case fst (enforce_quota sp p n x r) of
     Inl e \<Rightarrow> E e (s\<lparr>pg_tables := prepare sp p (pg_tables s)\<rparr>) | Inr _ \<Rightarrow> Q () (s\<lparr>pg_tables := prepare sp p (pg_tables s)\<rparr>))"
  by (simp add: wp_pg_enforce_quota [OF assms] wp_enforce_ok)

lemma parity_commit_asset:
  assumes "ready t r s" and n: "small n"
  shows "parity t (commit_asset i n cs c m ec) (pg_commit_asset i n cs c m ec) r s"
  unfolding pg_commit_asset_def
proof (rule parity_unit [OF assms(1)], goal_cases)
  case 1
  note d = alignedD [OF 1]
  show ?case
  proof (cases "map_of (tb_assets (pg_tables s)) i")
    case None
    then show ?thesis using d rel_no_asset [OF d(1)] by (simp add: parity_defs commit_asset_def)
  next
    case (Some row)
    note a = rel_asset [OF d(1,9) Some]
    have range: "row_in_range (row\<lparr>ar_state := AVAILABLE, ar_size_bytes := Some n, ar_checksum := k, ar_mime := m', ar_updated_at := u, ar_reserved_bytes := None\<rparr>)" for k m' u
      using a(5) n by (simp add: row_in_range_def opt_bigint_def small_bigint)
    note enforce = wp_pg_enforce [where t = t and r = r]
    show ?thesis
      using d Some a range
      by (auto simp: parity_defs commit_asset_def enforce wp_enforce_ok wp_pg_acquire wp_acquire_canonical n
           intro!: rel_audit rel_put_row rel_acquired rel_prepare split: sum.split)
        (simp_all add: loaded_def asset_from_row_def)
  qed
qed


lemma parity_set_asset_ttl:
  assumes "ready t r s" and small: "\<And>a. map_of (r_assets r) i = Some a \<Longrightarrow> small (or_zero (a_size_bytes a))"
  shows "parity t (set_asset_ttl i ttl c) (pg_set_asset_ttl i ttl c) r s"
  unfolding pg_set_asset_ttl_def pg_asset_lock_def
proof (rule parity_unit [OF assms(1)], goal_cases)
  case 1
  note d = alignedD [OF 1]
  show ?case
  proof (cases "map_of (tb_assets (pg_tables s)) i")
    case None
    then show ?thesis using d rel_no_asset [OF d(1)] by (simp add: parity_defs wp_nested set_asset_ttl_def)
  next
    case (Some row)
    note a = rel_asset [OF d(1,9) Some]
    note enforce = wp_pg_enforce [where t = t and r = r]
    show ?thesis
      using d Some a small [OF a(1)]
      by (auto simp: parity_defs wp_nested set_asset_ttl_def enforce wp_enforce_ok wp_pg_acquire wp_acquire_canonical
           intro!: rel_audit rel_put_row rel_acquired rel_prepare split: sum.split)
  qed
qed

lemma rel_partition_update:
  assumes "rel t r T" and "q = f (quota_at (tb_partition_quotas T) sp p)" "q' = f (quota_at (r_partition_quotas r) sp p)"
    "pq_space q = sp" "pq_partition_id q = p" "partition_in_range q"
    and "P = r_partition_quotas r" "P' = tb_partition_quotas T"
  shows "rel t (r\<lparr>r_partition_quotas := AList.update (sp, p) q' P\<rparr>) (T\<lparr>tb_partition_quotas := AList.update (sp, p) q P'\<rparr>)"
  using assms by (auto simp: rel_def quotas_rel_def intro!: quotas_ok_update_partition)

lemma rel_bucket_update:
  assumes "rel t r T" and "q = f (bucket_at (tb_bucket_quotas T) sp)" "q' = f (bucket_at (r_bucket_quotas r) sp)"
    "bq_space q = sp" "opt_bigint (bq_quota_bytes q)"
    and "P = r_bucket_quotas r" "P' = tb_bucket_quotas T"
  shows "rel t (r\<lparr>r_bucket_quotas := AList.update sp q' P\<rparr>) (T\<lparr>tb_bucket_quotas := AList.update sp q P'\<rparr>)"
  using assms by (auto simp: rel_def quotas_rel_def intro!: quotas_ok_update_bucket)


lemma insert_if_absent_simps [simp]:
  "map_of (insert_if_absent (sp, p) (default_partition_quota sp p) P) (sp, p) = Some (quota_at P sp p)"
  "map_of (insert_if_absent sp (default_bucket_quota sp) B) sp = Some (bucket_at B sp)"
  by (auto simp: insert_if_absent_def quota_at_def bucket_at_def split: option.split)

lemma update_insert_if_absent [simp]: "AList.update k v (insert_if_absent k w d) = AList.update k v d"
  by (auto simp: insert_if_absent_def)

lemma opt_small: "(\<And>n. x = Some n \<Longrightarrow> small n) \<Longrightarrow> opt_bigint x"
  by (cases x) (auto simp: opt_bigint_def small_bigint)

lemma rel_quotas:
  assumes "rel t r T"
  shows "quotas_ok (tb_partition_quotas T) (tb_bucket_quotas T)" "quota_at (r_partition_quotas r) sp p = quota_at (tb_partition_quotas T) sp p"
    "bucket_at (r_bucket_quotas r) sp = bucket_at (tb_bucket_quotas T) sp"
  using assms by (simp_all add: rel_def quotas_rel_def)


text \<open>A text that one normalisation brings to its final form.\<close>

definition settles :: "string \<Rightarrow> bool" where
  "settles a = (case normalize_relative_alias a of Inl _ \<Rightarrow> True | Inr b \<Rightarrow> canonical b)"

lemma settlesD: "settles a \<Longrightarrow> normalize_relative_alias a = Inr b \<Longrightarrow> canonical b"
  by (simp add: settles_def)

lemma normalize_space_bucket: "normalize_space sp = Inr s \<Longrightarrow> s \<in> STORAGE_BUCKETS"
  by (auto simp: normalize_space_def normalize_bucket_def bind_result_Inr Let_def split: if_splits)

lemma parity_set_partition_quota:
  assumes "ready t r s" and small: "opt_bigint qb" "opt_bigint qc" and p: "settles p"
  shows "parity t (set_partition_quota sp p qb qc sw c) (pg_set_partition_quota sp p qb qc sw c) r s"
  unfolding pg_set_partition_quota_def
proof (rule parity_unit [OF assms(1)], goal_cases)
  case 1
  note d = alignedD [OF 1]
  show ?case
  proof (cases "normalize_space sp"; cases "normalize_partition_id p")
    fix s' p' assume n: "normalize_space sp = Inr s'" "normalize_partition_id p = Inr p'"
    then have norm: "s' \<in> STORAGE_BUCKETS" "canonical p'"
      using normalize_space_bucket settlesD [OF p] by (auto simp: normalize_partition_id_def)
    let ?q = "\<lambda>q. q\<lparr>pq_quota_bytes := qb, pq_quota_asset_count := qc,
       pq_eviction_sweep_enabled := (case sw of None \<Rightarrow> pq_eviction_sweep_enabled (quota_at (tb_partition_quotas (pg_tables s)) s' p') | Some b \<Rightarrow> b)\<rparr>"
    have "quotas_ok (AList.update (s', p') (?q (quota_at (tb_partition_quotas (pg_tables s)) s' p')) (tb_partition_quotas (pg_tables s)))
        (tb_bucket_quotas (pg_tables s))"
      using rel_quotas(1) [OF d(1)] by (auto simp: quota_at_names intro!: quotas_ok_update_partition)
    then show ?thesis
      using d small roomy_tablesD [OF d(3)]
      by (cases sw) (auto simp: parity_defs n norm set_partition_quota_def wp_pg_partition_quota rel_quotas [OF d(1)] quota_at_names [OF rel_quotas(1) [OF d(1)]]
           pg_get_partition_quota_def wp_nested partition_in_range_def small_bigint
           intro!: rel_audit rel_partition_update [where f = ?q])
  qed (use d in \<open>auto simp: parity_defs set_partition_quota_def\<close>)
qed

lemma parity_set_bucket_quota:
  assumes "ready t r s" and small: "opt_bigint qb"
  shows "parity t (set_bucket_quota sp qb w h) (pg_set_bucket_quota sp qb w h) r s"
  unfolding pg_set_bucket_quota_def
proof (rule parity_unit [OF assms(1)], goal_cases)
  case 1
  note d = alignedD [OF 1]
  show ?case
  proof (cases "normalize_space sp")
    case (Inr s')
    then have norm: "s' \<in> STORAGE_BUCKETS" by (rule normalize_space_bucket)
    let ?q = "\<lambda>q. q\<lparr>bq_quota_bytes := qb, bq_warn_threshold := w, bq_hard_ceiling := h\<rparr>"
    have "quotas_ok (tb_partition_quotas (pg_tables s)) (AList.update s' (?q (bucket_at (tb_bucket_quotas (pg_tables s)) s')) (tb_bucket_quotas (pg_tables s)))"
      using rel_quotas(1) [OF d(1)] by (auto simp: bucket_at_name intro!: quotas_ok_update_bucket)
    then show ?thesis
      using d small roomy_tablesD [OF d(3)]
      by (auto simp: parity_defs Inr norm set_bucket_quota_def wp_pg_bucket_quota rel_quotas [OF d(1)] bucket_at_name [OF rel_quotas(1) [OF d(1)]]
           pg_get_bucket_quota_def wp_nested small_bigint
           intro!: rel_bucket_update [where f = ?q])
  qed (use d in \<open>auto simp: parity_defs set_bucket_quota_def\<close>)
qed

lemma parity_get_partition_quota:
  assumes "ready t r s"
  shows "parity t (get_partition_quota sp p) (pg_get_partition_quota sp p) r s"
  unfolding pg_get_partition_quota_def
proof (rule parity_unit [OF assms(1)], goal_cases)
  case 1
  then show ?case
    using alignedD [OF 1] rel_quotas [OF alignedD(1) [OF 1]]
    by (auto simp: parity_defs get_partition_quota_def wp_pg_partition_quota split: sum.split)
qed

lemma parity_get_bucket_quota:
  assumes "ready t r s"
  shows "parity t (get_bucket_quota sp) (pg_get_bucket_quota sp) r s"
  unfolding pg_get_bucket_quota_def
proof (rule parity_unit [OF assms(1)], goal_cases)
  case 1
  then show ?case
    using alignedD [OF 1] rel_quotas [OF alignedD(1) [OF 1]]
    by (auto simp: parity_defs get_bucket_quota_def wp_pg_bucket_quota split: sum.split)
qed

lemma parity_get_asset:
  assumes "ready t r s"
  shows "parity t (get_asset i) (pg_get_asset i) r s"
  unfolding pg_get_asset_def
proof (rule parity_unit [OF assms(1)], goal_cases)
  case 1
  note d = alignedD [OF 1]
  show ?case
  proof (cases "map_of (tb_assets (pg_tables s)) i")
    case None
    then show ?thesis using d rel_no_asset [OF d(1)] by (simp add: parity_defs)
  next
    case (Some row)
    then show ?thesis using d rel_asset [OF d(1,9) Some] by (simp add: parity_defs)
  qed
qed

lemma key_of_lookup:
  assumes "settles al"
  shows "lookup_key sp al = bind_result (normalize_space sp) (\<lambda>s. bind_result (normalize_relative_alias al) (\<lambda>a. Inr (key_name (s, a))))"
  using normalize_space_bucket [of sp] settlesD [OF assms]
  by (auto simp: lookup_key_def bind_result_def qualified_alias_canonical key_name_def split: sum.split)

lemma parity_resolve_alias:
  assumes "ready t r s" and al: "settles al"
  shows "parity t (resolve_alias sp al) (pg_resolve_alias sp al) r s"
  unfolding pg_resolve_alias_def
proof (rule parity_unit [OF assms(1)], goal_cases)
  case 1
  note d = alignedD [OF 1]
  show ?case
  proof (cases "normalize_space sp"; cases "normalize_relative_alias al")
    fix s' a' assume n: "normalize_space sp = Inr s'" "normalize_relative_alias al = Inr a'"
    then have key: "lookup_key sp al = Inr (key_name (s', a'))" by (simp add: key_of_lookup [OF al] bind_result_def)
    have look: "map_of (r_aliases r) (key_name (s', a')) = map_of (tb_aliases (pg_tables s)) (s', a')"
      using d(1) normalize_space_bucket [OF n(1)] by (auto simp: rel_def intro!: aliases_rel_lookup)
    have asset: "map_of (r_assets r) i = map_option (loaded (tb_aliases (pg_tables s))) (map_of (tb_assets (pg_tables s)) i)" for i
      using d(1) by (auto simp: rel_def intro!: assets_rel_lookup)
    show ?thesis
      using d by (auto simp: parity_defs n resolve_alias_def wp_get_binding key look asset rel_keys(2) [OF d(1) d(9)] split: option.split sum.split)
  qed (use d in \<open>auto simp: parity_defs resolve_alias_def wp_get_binding key_of_lookup [OF al] bind_result_def\<close>)
qed

end
