(* ===== verification/Pg_Alias.thy ===== *)
theory Pg_Alias
  imports Pg_Parity
begin

text \<open>
  The calls of the Postgres registry that bind, detach and rebind aliases, against those of the in-memory
  registry. A column of the alias table plays the role of the alias sets that the in-memory assets carry.
\<close>

section \<open>Names of an asset\<close>

lemma rel_aliases_ok: "aliases_rel L als \<Longrightarrow> dict_ok L \<Longrightarrow> dict_ok als"
  by (auto simp: aliases_rel_def dict_ok_def distinct_map o_def case_prod_unfold intro: inj_on_imageI2)

lemma alignedD_aliases:
  assumes "aligned t r s"
  shows "dict_ok (tb_aliases (pg_tables s))" "aliases_rel (r_aliases r) (tb_aliases (pg_tables s))" "links_ok (r_assets r) (r_aliases r)"
    "aliases_ok (r_aliases r)" "tombs_rel t (r_tombstones r) (tb_tombstones (pg_tables s))"
proof -
  show rel: "aliases_rel (r_aliases r) (tb_aliases (pg_tables s))" and "links_ok (r_assets r) (r_aliases r)"
    "aliases_ok (r_aliases r)" "tombs_rel t (r_tombstones r) (tb_tombstones (pg_tables s))"
    using assms by (auto simp: aligned_def rel_def reg_inv_def)
  then show "dict_ok (tb_aliases (pg_tables s))" by (auto intro: rel_aliases_ok simp: aliases_ok_def)
qed

text \<open>A name of an asset lies in the space of the asset.\<close>

lemma bound_row:
  assumes "aligned t r s" and "map_of (tb_aliases (pg_tables s)) (sp, a) = Some b" and "b_asset_id b = Some i"
  obtains row where "map_of (tb_assets (pg_tables s)) i = Some row" "ar_space row = sp"
proof -
  note d = alignedD [OF assms(1)] alignedD_aliases [OF assms(1)]
  have sp: "sp \<in> STORAGE_BUCKETS" using aliases_rel_row [OF d(12) assms(2)] by simp
  have "bound_to (r_aliases r) (key_name (sp, a)) i"
    using assms(2,3) aliases_rel_lookup [OF d(12) sp, of a] by (simp add: bound_to_def)
  then obtain m where m: "map_of (r_assets r) i = Some m" "key_name (sp, a) \<in> a_aliases m"
    using d(13) by (auto simp: links_ok_def has_alias_def)
  then obtain row where row: "map_of (tb_assets (pg_tables s)) i = Some row" "m = loaded (tb_aliases (pg_tables s)) row"
    using rel_no_asset [OF d(1), of i] rel_asset(1) [OF d(1,9), of i] by (cases "map_of (tb_assets (pg_tables s)) i") auto
  obtain x where "key_name (sp, a) = key_name (ar_space row, x)"
    using m(2) unfolding row(2) by (auto simp: qualified_names_def key_name_def)
  then have "ar_space row = sp" using key_name_inj [OF sp rel_asset(3) [OF d(1,9) row(1)]] by blast
  with row(1) that show thesis by blast
qed

lemma key_name_eq: "s \<in> STORAGE_BUCKETS \<Longrightarrow> s' \<in> STORAGE_BUCKETS \<Longrightarrow> key_name (s, a) = key_name (s', a') \<longleftrightarrow> s = s' \<and> a = a'"
  using key_name_inj by blast

lemma aliases_rel_update:
  assumes "aliases_rel L als" "b_space b = sp" "b_alias b = a" "sp \<in> STORAGE_BUCKETS" "canonical a" "L' = L" "als' = als"
  shows "aliases_rel (AList.update (key_name (sp, a)) b L') (AList.update (sp, a) b als')"
  using assms map_keys_update [of als key_name "(sp, a)" b] aliases_rel_keys [OF assms(1) assms(4)]
  by (auto simp: aliases_rel_def dest!: in_set_update)

lemma aliases_rel_delete:
  assumes "aliases_rel L als" "sp \<in> STORAGE_BUCKETS" "L' = L" "als' = als"
  shows "aliases_rel (AList.delete (key_name (sp, a)) L') (AList.delete (sp, a) als')"
  using assms map_keys_delete [of als key_name "(sp, a)"] aliases_rel_keys [OF assms(1,2)]
  by (auto simp: aliases_rel_def AList.delete_eq)

lemma tombs_relD:
  assumes "tombs_rel t D tombs" "s \<in> STORAGE_BUCKETS"
  shows "map_of D (key_name (s, a)) = Some g \<Longrightarrow> map_of tombs (s, a) = Some g"
    "map_of tombs (s, a) = Some g \<Longrightarrow> t < g \<Longrightarrow> map_of D (key_name (s, a)) = Some g"
  using assms unfolding tombs_rel_def by blast+

lemma tombs_relI:
  assumes "\<And>s a g. s \<in> STORAGE_BUCKETS \<Longrightarrow> map_of D (key_name (s, a)) = Some g \<Longrightarrow> map_of tombs (s, a) = Some g"
    and "\<And>s a g. s \<in> STORAGE_BUCKETS \<Longrightarrow> map_of tombs (s, a) = Some g \<Longrightarrow> t < g \<Longrightarrow> map_of D (key_name (s, a)) = Some g"
  shows "tombs_rel t D tombs"
  using assms unfolding tombs_rel_def by blast

lemma tombs_rel_update:
  assumes "tombs_rel t D tombs" "sp \<in> STORAGE_BUCKETS"
  shows "tombs_rel t (AList.update (key_name (sp, a)) g D) (AList.update (sp, a) g tombs)"
proof (rule tombs_relI)
  fix s x h assume s: "s \<in> STORAGE_BUCKETS"
  note eq = key_name_eq [OF s assms(2), of x a] and d = tombs_relD [OF assms(1) s, of x h]
  show "map_of (AList.update (key_name (sp, a)) g D) (key_name (s, x)) = Some h \<Longrightarrow> map_of (AList.update (sp, a) g tombs) (s, x) = Some h"
    using d(1) eq by (auto split: if_splits)
  show "map_of (AList.update (sp, a) g tombs) (s, x) = Some h \<Longrightarrow> t < h \<Longrightarrow> map_of (AList.update (key_name (sp, a)) g D) (key_name (s, x)) = Some h"
    using d(2) eq by (auto split: if_splits)
qed

text \<open>The check of a name prunes a tombstone whose time is over, and the tables may keep it or not.\<close>

lemma tombs_rel_prune:
  assumes rel: "tombs_rel t D tombs" "sp \<in> STORAGE_BUCKETS" and over: "\<And>g. map_of D (key_name (sp, a)) = Some g \<Longrightarrow> g \<le> t"
  shows "tombs_rel t (AList.delete (key_name (sp, a)) D) tombs"
    "tombs_rel t (AList.delete (key_name (sp, a)) D) (AList.delete (sp, a) tombs)"
proof -
  have D: "map_of (AList.delete (key_name (sp, a)) D) (key_name (s, x)) = (if s = sp \<and> x = a then None else map_of D (key_name (s, x)))"
    if "s \<in> STORAGE_BUCKETS" for s x
    using key_name_eq [OF that rel(2), of x a] by (simp add: delete_conv')
  show "tombs_rel t (AList.delete (key_name (sp, a)) D) tombs"
  proof (rule tombs_relI)
    fix s x h assume s: "s \<in> STORAGE_BUCKETS"
    show "map_of (AList.delete (key_name (sp, a)) D) (key_name (s, x)) = Some h \<Longrightarrow> map_of tombs (s, x) = Some h"
      using tombs_relD(1) [OF rel(1) s, of x h] by (auto simp: D [OF s] split: if_splits)
    show "map_of tombs (s, x) = Some h \<Longrightarrow> t < h \<Longrightarrow> map_of (AList.delete (key_name (sp, a)) D) (key_name (s, x)) = Some h"
      using tombs_relD(2) [OF rel(1) s, of x h] over [of h] key_name_eq [OF s rel(2), of x a] by (auto simp: D [OF s] split: if_splits)
  qed
  show "tombs_rel t (AList.delete (key_name (sp, a)) D) (AList.delete (sp, a) tombs)"
  proof (rule tombs_relI)
    fix s x h assume s: "s \<in> STORAGE_BUCKETS"
    show "map_of (AList.delete (key_name (sp, a)) D) (key_name (s, x)) = Some h \<Longrightarrow> map_of (AList.delete (sp, a) tombs) (s, x) = Some h"
      using tombs_relD(1) [OF rel(1) s, of x h] by (auto simp: D [OF s] delete_conv' split: if_splits)
    show "map_of (AList.delete (sp, a) tombs) (s, x) = Some h \<Longrightarrow> t < h \<Longrightarrow> map_of (AList.delete (key_name (sp, a)) D) (key_name (s, x)) = Some h"
      using tombs_relD(2) [OF rel(1) s, of x h] key_name_eq [OF s rel(2), of x a] by (auto simp: D [OF s] delete_conv' split: if_splits)
  qed
qed

lemma name_available_cases:
  assumes rel: "aliases_rel (r_aliases r) (tb_aliases (pg_tables s))" "tombs_rel t (r_tombstones r) (tb_tombstones (pg_tables s))"
    and c: "pg_connected s" "\<And>n. r_clock r n = t" "\<And>n. pg_clock s n = t" and sp: "sp \<in> STORAGE_BUCKETS" and a: "canonical a"
  obtains (taken) k k' where "pg_require_alias_name_available sp a s = (Inl AliasConflictError, s\<lparr>pg_ticks := k\<rparr>)"
      "require_alias_name_available sp a r = (Inl AliasConflictError, r\<lparr>r_ticks := k'\<rparr>)"
  | (free) k k' D tombs where
      "pg_require_alias_name_available sp a s = (Inr (), s\<lparr>pg_tables := (pg_tables s)\<lparr>tb_tombstones := tombs\<rparr>, pg_ticks := k\<rparr>)"
      "require_alias_name_available sp a r = (Inr (), r\<lparr>r_tombstones := D, r_ticks := k'\<rparr>)"
      "tombs_rel t D tombs" "\<And>old. tombs_rel t (r_tombstones r) old \<Longrightarrow> tombs_rel t D old" "map_of (tb_aliases (pg_tables s)) (sp, a) = None"
proof -
  have key: "qualified_alias sp a = Inr (key_name (sp, a))" using sp a by (simp add: qualified_alias_canonical key_name_def)
  have look: "map_of (r_aliases r) (key_name (sp, a)) = map_of (tb_aliases (pg_tables s)) (sp, a)" by (rule aliases_rel_lookup [OF rel(1) sp])
  have pg: "pg_require_alias_name_available sp a s =
     (if map_of (tb_aliases (pg_tables s)) (sp, a) \<noteq> None then (Inl AliasConflictError, s)
      else case map_of (tb_tombstones (pg_tables s)) (sp, a) of
        None \<Rightarrow> (Inr (), s)
      | Some g \<Rightarrow> if g \<le> t then (Inr (), s\<lparr>pg_tables := (pg_tables s)\<lparr>tb_tombstones := AList.delete (sp, a) (tb_tombstones (pg_tables s))\<rparr>, pg_ticks := Suc (pg_ticks s)\<rparr>)
                  else (Inl AliasConflictError, s\<lparr>pg_ticks := Suc (pg_ticks s)\<rparr>))"
    using c by (simp add: pg_require_alias_name_available_def execute_def bind_op_def seq_op_def gets_def modify_def check_def ret_def raise_def on_part_def select_alias_def pg_utcnow_def split: option.split)
  have mem: "require_alias_name_available sp a r =
     (if map_of (tb_aliases (pg_tables s)) (sp, a) \<noteq> None then (Inl AliasConflictError, r)
      else case map_of (r_tombstones r) (key_name (sp, a)) of
        None \<Rightarrow> (Inr (), r)
      | Some g \<Rightarrow> if g \<le> t then (Inr (), r\<lparr>r_tombstones := AList.delete (key_name (sp, a)) (r_tombstones r), r_ticks := Suc (r_ticks r)\<rparr>)
                  else (Inl AliasConflictError, r\<lparr>r_ticks := Suc (r_ticks r)\<rparr>))"
    using c by (simp add: require_alias_name_available_def alias_name_is_blocked_def key look bind_op_def seq_op_def gets_def modify_def of_result_def ret_def raise_def utcnow_def split: option.split)
  note tomb = tombs_relD [OF rel(2) sp, of a]
  show thesis
  proof (cases "map_of (tb_aliases (pg_tables s)) (sp, a)")
    case (Some b)
    then show thesis using taken [of "pg_ticks s" "r_ticks r"] pg mem by simp
  next
    case none: None
    show thesis
    proof (cases "map_of (tb_tombstones (pg_tables s)) (sp, a)")
      case None
      then have "map_of (r_tombstones r) (key_name (sp, a)) = None" using tomb(1) by (cases "map_of (r_tombstones r) (key_name (sp, a))") auto
      then show thesis using None none pg mem rel(2) free [of "pg_ticks s" "tb_tombstones (pg_tables s)" "r_ticks r" "r_tombstones r"] by simp
    next
      case (Some g)
      show thesis
      proof (cases "g \<le> t")
        case False
        then have "map_of (r_tombstones r) (key_name (sp, a)) = Some g" using tomb(2) [OF Some] by simp
        then show thesis using Some none pg mem False taken by simp
      next
        case True
        have over: "h \<le> t" if "map_of (r_tombstones r) (key_name (sp, a)) = Some h" for h
          using tomb(1) [OF that] Some True by simp
        have "\<exists>k'. require_alias_name_available sp a r = (Inr (), r\<lparr>r_tombstones := AList.delete (key_name (sp, a)) (r_tombstones r), r_ticks := k'\<rparr>)"
          using mem none over by (cases "map_of (r_tombstones r) (key_name (sp, a))") (auto simp: map_of_eq_None_iff intro: exI [of _ "r_ticks r"])
        then show thesis
          using Some none pg True tombs_rel_prune [OF _ sp over] rel(2) free
          by (auto split: option.splits)
      qed
    qed
  qed
qed


lemma wp_of_err: "m s = (Inl e, t) \<Longrightarrow> wp m Q E s = E e t"
  by (simp add: wp_def)

lemma rel_change:
  assumes "rel t r T" "assets_ok (r_assets r)" and "aliases_rel (r_aliases r') (tb_aliases T')" "tombs_rel t (r_tombstones r') (tb_tombstones T')"
    and "\<And>j. j \<noteq> i \<Longrightarrow> set (alias_names (tb_aliases T') j) = set (alias_names (tb_aliases T) j)"
    and "r_assets r' = AList.update i (loaded (tb_aliases T') row') (r_assets r)" "tb_assets T' = AList.update i row' (tb_assets T)"
    and "canonical (ar_partition_id row')" "row_in_range row'" and "r_audit_events r' = map snd (tb_audit_events T')"
    and "r_partition_quotas r' = r_partition_quotas r" "r_bucket_quotas r' = r_bucket_quotas r"
      "tb_partition_quotas T' = tb_partition_quotas T" "tb_bucket_quotas T' = tb_bucket_quotas T"
  shows "rel t r' T'"
proof -
  have "assets_rel (r_assets r') (tb_assets T') (tb_aliases T')"
    unfolding assms(6,7)
    by (rule assets_rel_update [OF _ _ rel_keys(1) [OF assms(1,2)]]) (use assms(1,5) rel_keys(2) [OF assms(1,2)] in \<open>auto simp: rel_def\<close>)
  then show ?thesis using assms by (auto simp: rel_def rows_ok_def)
qed

lemma names_update_new:
  "map_of als k = None \<Longrightarrow> alias_names (AList.update k b als) j = alias_names als j @ (if b_asset_id b = Some j then [b_alias b] else [])"
  by (simp add: alias_names_def dict_values_new)

lemma slash_key: "s @ slash # a = key_name (s, a)"
  by (simp add: key_name_def)

lemma qualified_names_image: "qualified_names sp names = (\<lambda>n. key_name (sp, n)) ` set names"
  by (auto simp: qualified_names_def key_name_def)

lemma qualified_names_minus:
  "qualified_names sp names - {key_name (sp, a)} = (\<lambda>n. key_name (sp, n)) ` (set names - {a})"
  by (auto simp: qualified_names_image key_name_def)

lemma loaded_touch:
  "A' = (\<lambda>n. key_name (ar_space row, n)) ` set (alias_names als' (ar_asset_id row)) \<Longrightarrow>
   (loaded als row)\<lparr>a_aliases := A', a_updated_at := u\<rparr> = loaded als' (row\<lparr>ar_updated_at := u\<rparr>)"
  by (simp add: loaded_def asset_from_row_def qualified_names_image)

lemma alias_under_canonical:
  assumes "alias_under_partition p al = Inr a" "settles al" "canonical p"
  shows "canonical a"
  using assms settlesD [OF assms(2)]
  by (auto simp: alias_under_partition_def bind_result_Inr canonical_normal normalize_partition_id_def split: if_splits)

lemma parity_attach_alias:
  assumes "ready t r s" and al: "settles al"
  shows "parity t (attach_alias i al mut c) (pg_attach_alias i al mut c) r s"
  unfolding pg_attach_alias_def pg_asset_lock_def
proof (rule parity_unit [OF assms(1)], goal_cases)
  case 1
  note d = alignedD [OF 1] alignedD_aliases [OF 1]
  have events: "r_audit_events r = map snd (tb_audit_events (pg_tables s))" using d(1) by (simp add: rel_def)
  show ?case
  proof (cases "map_of (tb_assets (pg_tables s)) i")
    case None
    then show ?thesis using d rel_no_asset [OF d(1)] by (simp add: parity_defs wp_nested attach_alias_def)
  next
    case (Some row)
    note a = rel_asset [OF d(1,9) Some]
    show ?thesis
    proof (cases "alias_under_partition (ar_partition_id row) al")
      case (Inl e)
      then show ?thesis using d a Some by (auto simp: parity_defs wp_nested attach_alias_def)
    next
      case (Inr x)
      note x = alias_under_canonical [OF Inr al a(4)]
      have key: "qualified_alias (ar_space row) x = Inr (key_name (ar_space row, x))" using a(3) x by (simp add: qualified_alias_canonical key_name_def)
      show ?thesis
      proof (rule name_available_cases [of r "checked_out s" t "ar_space row" x], goal_cases)
        case (8 k k')
        then show ?case using d a Some Inr by (auto simp: parity_defs wp_nested attach_alias_def wp_of_err)
      next
        case (9 k k' D tombs)
        then show ?case using d a Some Inr key x
            by (simp add: parity_defs wp_nested attach_alias_def wp_of_eq reference_ok_def add_alias_to_asset_def,
              intro impI rel_change [OF d(1,9), where i = i and row' = "row\<lparr>ar_updated_at := t\<rparr>"])
             (simp_all add: aliases_rel_update names_update_new events slash_key, intro arg_cong [where f = "\<lambda>a. AList.update i a (r_assets r)"] loaded_touch,
                simp add: names_update_new qualified_names_image)
      qed (use d a x in simp_all)
    qed
  qed
qed


section \<open>Detach and rebind\<close>

definition others :: "(string \<times> string, alias_binding) dict \<Rightarrow> string \<times> string \<Rightarrow> string \<Rightarrow> string set" where
  "others als k j = b_alias ` {b \<in> ran ((map_of als)(k := None)). b_asset_id b = Some j}"

lemma names_ran: "dict_ok als \<Longrightarrow> set (alias_names als j) = b_alias ` {b \<in> ran (map_of als). b_asset_id b = Some j}"
proof -
  assume "dict_ok als"
  then have "set (dict_values als) = ran (map_of als)" by (intro set_eqI) (simp add: dict_values_iff ran_def)
  then show ?thesis by (simp add: alias_names_def)
qed

lemma names_update:
  assumes "dict_ok als"
  shows "set (alias_names (AList.update k b als) j) = (if b_asset_id b = Some j then insert (b_alias b) (others als k j) else others als k j)"
proof -
  have "ran (map_of (AList.update k b als)) = insert b (ran ((map_of als)(k := None)))"
    using ran_map_upd [of "(map_of als)(k := None)" k b] by (simp add: update_conv')
  then have "{x \<in> ran (map_of (AList.update k b als)). b_asset_id x = Some j} =
     (if b_asset_id b = Some j then insert b {x \<in> ran ((map_of als)(k := None)). b_asset_id x = Some j}
      else {x \<in> ran ((map_of als)(k := None)). b_asset_id x = Some j})" by auto
  then show ?thesis using assms by (simp add: names_ran others_def)
qed

lemma names_delete: "dict_ok als \<Longrightarrow> set (alias_names (AList.delete k als) j) = others als k j"
  by (simp add: names_ran others_def delete_conv')

lemma names_split:
  "dict_ok als \<Longrightarrow> map_of als k = Some b \<Longrightarrow>
   set (alias_names als j) = (if b_asset_id b = Some j then insert (b_alias b) (others als k j) else others als k j)"
  using names_update [of als k b j] update_same [of als k b] by simp

lemma others_fresh:
  assumes "aligned t r s" and "map_of (tb_aliases (pg_tables s)) (sp, a) = Some b" and "b_asset_id b = Some i"
  shows "a \<notin> others (tb_aliases (pg_tables s)) (sp, a) i"
proof
  assume "a \<in> others (tb_aliases (pg_tables s)) (sp, a) i"
  then obtain sp' a' b' where o: "(sp', a') \<noteq> (sp, a)" "map_of (tb_aliases (pg_tables s)) (sp', a') = Some b'" "b_asset_id b' = Some i" "a = b_alias b'"
    by (auto simp: others_def ran_def split: if_splits)
  have "a' = a" using aliases_rel_row [OF alignedD_aliases(2) [OF assms(1)] o(2)] o(4) by simp
  moreover have "sp' = sp"
    using bound_row [OF assms] bound_row [OF assms(1) o(2,3)] by (metis option.inject)
  ultimately show False using o(1) by simp
qed

lemma wp_mark:
  assumes rel: "rel t r (pg_tables s)" "assets_ok (r_assets r)" "quotas_ok (r_partition_quotas r) (r_bucket_quotas r)"
    and c: "pg_connected s" "\<And>n. r_clock r n = t" "\<And>n. pg_clock s n = t" "roomy_tables (pg_tables s)"
    and row: "map_of (tb_assets (pg_tables s)) i = Some row"
  shows "wp (pg_mark_for_gc_if_orphaned i c) (\<lambda>_ s'. tb_aliases (pg_tables s') = tb_aliases (pg_tables s) \<and> pg_connected s' \<and>
     agree t (mark_for_gc_if_orphaned i c) r () (pg_tables s')) (\<lambda>_ _. False) s"
proof -
  note a = rel_asset [OF rel(1,2) row]
  have none: "map b_alias (filter (\<lambda>b. b_asset_id b = Some i) (dict_values (tb_aliases (pg_tables s)))) = [] \<longleftrightarrow> a_aliases (loaded (tb_aliases (pg_tables s)) row) = {}"
    using a(2) by (auto simp: qualified_names_def alias_names_def filter_empty_conv)
  show ?thesis
    using c a row rel none
    by (auto simp: pg_mark_for_gc_if_orphaned_def mark_for_gc_if_orphaned_def parity_defs wp_pg_release wp_release_canonical size_nonneg
        simp del: loaded_simps(7) intro!: rel_audit rel_put_row rel_released)
qed


lemma binding_key: "aliases_rel L als \<Longrightarrow> map_of als (s, a) = Some b \<Longrightarrow> binding_qualified_alias b = Inr (key_name (s, a))"
  using aliases_rel_row [of L als s a b] by (simp add: binding_qualified_alias_def qualified_alias_canonical key_name_def)

lemma parity_rebind_alias:
  assumes "ready t r s" and al: "settles al"
  shows "parity t (rebind_alias sp al i c) (pg_rebind_alias sp al i c) r s"
  unfolding pg_rebind_alias_def
proof (rule parity_unit [OF assms(1)], goal_cases)
  case 1
  note d = alignedD [OF 1] alignedD_aliases [OF 1]
  have events: "r_audit_events r = map snd (tb_audit_events (pg_tables s))" using d(1) by (simp add: rel_def)
  show ?case
  proof (cases "normalize_space sp"; cases "normalize_relative_alias al")
    fix s' a' assume n: "normalize_space sp = Inr s'" "normalize_relative_alias al = Inr a'"
    then have key: "lookup_key sp al = Inr (key_name (s', a'))" by (simp add: key_of_lookup [OF al] bind_result_def)
    have look: "map_of (r_aliases r) (key_name (s', a')) = map_of (tb_aliases (pg_tables s)) (s', a')"
      using d(12) normalize_space_bucket [OF n(1)] by (rule aliases_rel_lookup)
    show ?thesis
    proof (cases "map_of (tb_aliases (pg_tables s)) (s', a')")
      case None
      then show ?thesis using d by (simp add: parity_defs n rebind_alias_def wp_get_binding key look)
    next
      case (Some b)
      note b = Some binding_key [OF d(12) Some] aliases_rel_row [OF d(12) Some]
      show ?thesis
      proof (cases "map_of (tb_assets (pg_tables s)) i")
        case None
        then show ?thesis using d b rel_no_asset [OF d(1)] by (simp add: parity_defs n rebind_alias_def wp_get_binding key look)
      next
        case (Some row)
        note a = rel_asset [OF d(1,9) Some]
        show ?thesis
        proof (cases "b_asset_id b")
          case None
          have names: "set (alias_names (AList.update (s', a') (b\<lparr>b_asset_id := Some i, b_previous_asset_id := None, b_updated_at := t\<rparr>) (tb_aliases (pg_tables s))) j) =
              (if j = i then insert a' (set (alias_names (tb_aliases (pg_tables s)) j)) else set (alias_names (tb_aliases (pg_tables s)) j))" for j
            using b d(11) None by (simp add: names_update names_split [OF d(11) b(1)])
          show ?thesis
            using d b Some a None
            by (simp add: parity_defs n rebind_alias_def wp_get_binding key look reference_ok_def add_alias_to_asset_def split: sum.split,
              intro impI rel_change [OF d(1,9), where i = i and row' = "row\<lparr>ar_updated_at := t\<rparr>"])
             (simp_all add: aliases_rel_update names events,
              intro arg_cong [where f = "\<lambda>a. AList.update i a (r_assets r)"] loaded_touch, simp add: names qualified_names_image)
        qed (use d b Some a in \<open>simp add: parity_defs n rebind_alias_def wp_get_binding key look split: sum.split\<close>)
      qed
    qed
  qed (use d in \<open>auto simp: parity_defs rebind_alias_def wp_get_binding key_of_lookup [OF al] bind_result_def\<close>)
qed


text \<open>Both detach methods end with the collection of an asset that lost its last name.\<close>

lemma wp_detached:
  assumes al: "aligned t r s" and row: "map_of (tb_assets (pg_tables s)) i = Some row"
    and names: "\<And>j. set (alias_names als j) = (if j = i then set (alias_names (tb_aliases (pg_tables s)) j) - {a} else set (alias_names (tb_aliases (pg_tables s)) j))"
    and "tb_aliases (pg_tables s0) = als" "aliases_rel (r_aliases r0) als"
    and "r_assets r0 = AList.update i (loaded als (row\<lparr>ar_updated_at := t\<rparr>)) (r_assets r)"
      "tb_assets (pg_tables s0) = AList.update i (row\<lparr>ar_updated_at := t\<rparr>) (tb_assets (pg_tables s))"
    and "tombs_rel t (r_tombstones r0) (tb_tombstones (pg_tables s0))" "r_audit_events r0 = map snd (tb_audit_events (pg_tables s0))"
    and "r_partition_quotas r0 = r_partition_quotas r" "r_bucket_quotas r0 = r_bucket_quotas r"
      "tb_partition_quotas (pg_tables s0) = tb_partition_quotas (pg_tables s)" "tb_bucket_quotas (pg_tables s0) = tb_bucket_quotas (pg_tables s)"
    and "pg_connected s0" "pg_clock s0 = pg_clock s" "r_clock r0 = r_clock r"
  shows "wp (pg_mark_for_gc_if_orphaned i c) (\<lambda>_ s1. tb_aliases (pg_tables s1) = als \<and> pg_connected s1 \<and>
     agree t (mark_for_gc_if_orphaned i c) r0 () (pg_tables s1)) (\<lambda>_ _. False) s0"
proof -
  note d = alignedD [OF al] and a = rel_asset [OF alignedD(1) [OF al] alignedD(9) [OF al] row]
  let ?row = "row\<lparr>ar_updated_at := t\<rparr>"
  have wf: "asset_wf (loaded als ?row)" using a(6) by (simp add: asset_wf_def)
  have "wp (pg_mark_for_gc_if_orphaned i c) (\<lambda>_ s1. tb_aliases (pg_tables s1) = tb_aliases (pg_tables s0) \<and> pg_connected s1 \<and>
     agree t (mark_for_gc_if_orphaned i c) r0 () (pg_tables s1)) (\<lambda>_ _. False) s0"
    by (rule wp_mark [where row = ?row], rule rel_change [OF d(1,9), where i = i and row' = ?row])
      (use assms d a wf in \<open>simp_all add: names assets_ok_update roomy_tables_def\<close>)
  then show ?thesis using assms(4) by simp
qed

lemma parity_detach_mutable_alias:
  assumes "ready t r s" and al: "settles al"
  shows "parity t (detach_mutable_alias sp al c) (pg_detach_mutable_alias sp al c) r s"
  unfolding pg_detach_mutable_alias_def
proof (rule parity_unit [OF assms(1)], goal_cases)
  case 1
  note d = alignedD [OF 1] alignedD_aliases [OF 1]
  have events: "r_audit_events r = map snd (tb_audit_events (pg_tables s))" using d(1) by (simp add: rel_def)
  show ?case
  proof (cases "normalize_space sp"; cases "normalize_relative_alias al")
    fix s' a' assume n: "normalize_space sp = Inr s'" "normalize_relative_alias al = Inr a'"
    then have key: "lookup_key sp al = Inr (key_name (s', a'))" by (simp add: key_of_lookup [OF al] bind_result_def)
    have look: "map_of (r_aliases r) (key_name (s', a')) = map_of (tb_aliases (pg_tables s)) (s', a')"
      using d(12) normalize_space_bucket [OF n(1)] by (rule aliases_rel_lookup)
    show ?thesis
    proof (cases "map_of (tb_aliases (pg_tables s)) (s', a')")
      case None
      then show ?thesis using d by (simp add: parity_defs n detach_mutable_alias_def wp_get_binding key look)
    next
      case (Some b)
      note b = Some binding_key [OF d(12) Some] aliases_rel_row [OF d(12) Some]
      show ?thesis
      proof (cases "b_asset_id b")
        case None
        then show ?thesis using d b by (simp add: parity_defs n detach_mutable_alias_def wp_get_binding key look)
      next
        case (Some i)
        obtain row where row: "map_of (tb_assets (pg_tables s)) i = Some row" "ar_space row = s'" by (rule bound_row [OF 1 b(1) Some])
        note a = rel_asset [OF d(1,9) row(1)]
        let ?b = "b\<lparr>b_asset_id := None, b_previous_asset_id := Some i, b_updated_at := t\<rparr>"
        let ?als = "AList.update (s', a') ?b (tb_aliases (pg_tables s))" and ?row = "row\<lparr>ar_updated_at := t\<rparr>"
        let ?r = "r\<lparr>r_assets := AList.update i (loaded ?als ?row) (r_assets r), r_aliases := AList.update (key_name (s', a')) ?b (r_aliases r),
          r_ticks := Suc (Suc (Suc (r_ticks r))), r_audit_events := r_audit_events r @
            [\<lparr>e_action = ''alias.detach_mutable'', e_target = key_name (s', a'), e_caller_service_id = c, e_outcome = ''success'',
              e_before = [''asset_id'' \<mapsto> i], e_after = [''asset_id'' \<mapsto> []], e_ts = t\<rparr>]\<rparr>"
        have names: "set (alias_names ?als j) = (if j = i then set (alias_names (tb_aliases (pg_tables s)) j) - {a'} else set (alias_names (tb_aliases (pg_tables s)) j))" for j
          using b Some others_fresh [OF 1 b(1) Some] by (simp add: names_update [OF d(11)] names_split [OF d(11) b(1)])
        have asset: "(loaded (tb_aliases (pg_tables s)) row)\<lparr>a_aliases := qualified_names s' (alias_names (tb_aliases (pg_tables s)) i) - {key_name (s', a')}, a_updated_at := t\<rparr> =
            loaded ?als ?row"
          by (rule loaded_touch) (simp add: a(2) names row(2) qualified_names_minus)
        note mark = wp_detached [OF 1 row(1) names, where ?r0.0 = ?r]
        show ?thesis
          using d b Some a row
          by (simp add: parity_defs n detach_mutable_alias_def wp_get_binding key look reference_ok_def remove_alias_from_asset_def asset split: sum.split,
            intro impI wp_mono [OF mark])
           (auto simp: events wp_simps agree_def aliases_rel_update)
      qed
    qed
  qed (use d in \<open>auto simp: parity_defs detach_mutable_alias_def wp_get_binding key_of_lookup [OF al] bind_result_def\<close>)
qed

lemma parity_detach_alias:
  assumes "ready t r s" and al: "settles al"
  shows "parity t (detach_alias sp al c) (pg_detach_alias sp al c) r s"
  unfolding pg_detach_alias_def
proof (rule parity_unit [OF assms(1)], goal_cases)
  case 1
  note d = alignedD [OF 1] alignedD_aliases [OF 1]
  have events: "r_audit_events r = map snd (tb_audit_events (pg_tables s))" using d(1) by (simp add: rel_def)
  show ?case
  proof (cases "normalize_space sp"; cases "normalize_relative_alias al")
    fix s' a' assume n: "normalize_space sp = Inr s'" "normalize_relative_alias al = Inr a'"
    then have key: "lookup_key sp al = Inr (key_name (s', a'))" by (simp add: key_of_lookup [OF al] bind_result_def)
    have look: "map_of (r_aliases r) (key_name (s', a')) = map_of (tb_aliases (pg_tables s)) (s', a')"
      using d(12) normalize_space_bucket [OF n(1)] by (rule aliases_rel_lookup)
    show ?thesis
    proof (cases "map_of (tb_aliases (pg_tables s)) (s', a')")
      case None
      then show ?thesis using d by (simp add: parity_defs n detach_alias_def wp_get_binding key look)
    next
      case (Some b)
      note b = Some binding_key [OF d(12) Some] aliases_rel_row [OF d(12) Some]
      show ?thesis
      proof (cases "b_asset_id b")
        case None
        then show ?thesis using d b by (simp add: parity_defs n detach_alias_def wp_get_binding key look)
      next
        case (Some i)
        obtain row where row: "map_of (tb_assets (pg_tables s)) i = Some row" "ar_space row = s'" by (rule bound_row [OF 1 b(1) Some])
        note a = rel_asset [OF d(1,9) row(1)]
        let ?als = "AList.delete (s', a') (tb_aliases (pg_tables s))" and ?row = "row\<lparr>ar_updated_at := t\<rparr>"
        let ?e = "\<lparr>e_action = ''alias.detach'', e_target = key_name (s', a'), e_caller_service_id = c, e_outcome = ''success'',
              e_before = [''asset_id'' \<mapsto> i], e_after = Map.empty, e_ts = t\<rparr>"
        let ?r = "r\<lparr>r_aliases := AList.delete (key_name (s', a')) (r_aliases r), r_assets := AList.update i (loaded ?als ?row) (r_assets r)\<rparr>"
        let ?gone = "?r\<lparr>r_ticks := Suc (Suc (r_ticks r)), r_audit_events := r_audit_events r @ [?e]\<rparr>"
        let ?kept = "\<lambda>g. ?r\<lparr>r_tombstones := AList.update (key_name (s', a')) g (r_tombstones r), r_ticks := Suc (Suc (Suc (r_ticks r))),
              r_audit_events := r_audit_events r @ [?e]\<rparr>"
        have names: "set (alias_names ?als j) = (if j = i then set (alias_names (tb_aliases (pg_tables s)) j) - {a'} else set (alias_names (tb_aliases (pg_tables s)) j))" for j
          using b Some others_fresh [OF 1 b(1) Some] by (simp add: names_delete [OF d(11)] names_split [OF d(11) b(1)])
        have asset: "(loaded (tb_aliases (pg_tables s)) row)\<lparr>a_aliases := qualified_names s' (alias_names (tb_aliases (pg_tables s)) i) - {key_name (s', a')}, a_updated_at := t\<rparr> =
            loaded ?als ?row"
          by (rule loaded_touch) (simp add: a(2) names row(2) qualified_names_minus)
        note mark = wp_detached [OF 1 row(1) names]
        show ?thesis
        proof (cases "0 < r_alias_grace r")
          case False
          then show ?thesis
            using d b Some a row
            by (simp add: parity_defs n detach_alias_def wp_get_binding key look remove_alias_from_asset_def asset,
              intro impI wp_mono [OF mark [where ?r0.0 = ?gone]])
             (auto simp: events agree_def aliases_rel_delete)
        next
          case True
          show ?thesis
          proof (cases "dt_add t (r_alias_grace r)")
            case (Inl e)
            then have "e = OverflowError" by (auto simp: dt_add_def split: if_splits)
            with True Inl show ?thesis
              using d b Some a row by (simp add: parity_defs n detach_alias_def wp_get_binding key look remove_alias_from_asset_def asset)
          next
            case (Inr g)
            with True show ?thesis
              using d b Some a row
              by (simp add: parity_defs n detach_alias_def wp_get_binding key look remove_alias_from_asset_def asset,
                intro impI wp_mono [OF mark [where ?r0.0 = "?kept g"]])
               (auto simp: events agree_def aliases_rel_delete tombs_rel_update)
          qed
        qed
      qed
    qed
  qed (use d in \<open>auto simp: parity_defs detach_alias_def wp_get_binding key_of_lookup [OF al] bind_result_def\<close>)
qed


end
