(* ===== verification/Pg_Reserve.thy ===== *)
theory Pg_Reserve
  imports Pg_Alias
begin

text \<open>
  The reservation of an asset, whose loops over the names run in both registries side by side.
\<close>

definition under_partition :: "string \<Rightarrow> string \<Rightarrow> string" where
  "under_partition p a = (if a = p \<or> prefix (p @ ''/'') a then a else p @ ''/'' @ a)"

lemma alias_under: "canonical p \<Longrightarrow> canonical a \<Longrightarrow> alias_under_partition p a = Inr (under_partition p a)"
  by (simp add: alias_under_partition_def bind_result_def canonical_normal under_partition_def)

lemma under_canonical: "canonical p \<Longrightarrow> canonical a \<Longrightarrow> canonical (under_partition p a)"
  by (simp add: under_partition_def)

text \<open>All names of a reservation.\<close>

lemma names_available_cases:
  assumes rel: "aliases_rel (r_aliases r) (tb_aliases (pg_tables s))" "tombs_rel t (r_tombstones r) (tb_tombstones (pg_tables s))"
    and c: "pg_connected s" "\<And>n. r_clock r n = t" "\<And>n. pg_clock s n = t" and sp: "sp \<in> STORAGE_BUCKETS" and xs: "\<forall>x\<in>set xs. canonical x"
  shows "(\<exists>s' D k'. for_each xs (pg_require_alias_name_available sp) s = (Inl AliasConflictError, s') \<and>
      for_each xs (require_alias_name_available sp) r = (Inl AliasConflictError, r\<lparr>r_tombstones := D, r_ticks := k'\<rparr>) \<and>
      (\<forall>old. tombs_rel t (r_tombstones r) old \<longrightarrow> tombs_rel t D old)) \<or>
    (\<exists>k k' D tombs. for_each xs (pg_require_alias_name_available sp) s = (Inr (), s\<lparr>pg_tables := (pg_tables s)\<lparr>tb_tombstones := tombs\<rparr>, pg_ticks := k\<rparr>) \<and>
      for_each xs (require_alias_name_available sp) r = (Inr (), r\<lparr>r_tombstones := D, r_ticks := k'\<rparr>) \<and>
      tombs_rel t D tombs \<and> (\<forall>old. tombs_rel t (r_tombstones r) old \<longrightarrow> tombs_rel t D old) \<and>
      (\<forall>x\<in>set xs. map_of (tb_aliases (pg_tables s)) (sp, x) = None))"
  using rel c xs
proof (induction xs arbitrary: r s)
  case Nil
  then show ?case
    by (intro disjI2 exI [of _ "pg_ticks s"] exI [of _ "r_ticks r"] exI [of _ "r_tombstones r"] exI [of _ "tb_tombstones (pg_tables s)"])
      (simp add: ret_def)
next
  case (Cons x xs)
  show ?case
  proof (rule name_available_cases [of r s t sp x], goal_cases)
    case (8 k k')
    then show ?case
      by (intro disjI1 exI [of _ "s\<lparr>pg_ticks := k\<rparr>"] exI [of _ "r_tombstones r"] exI [of _ k']) (simp add: seq_op_def bind_op_def)
  next
    case (9 k k' D tombs)
    let ?s = "s\<lparr>pg_tables := (pg_tables s)\<lparr>tb_tombstones := tombs\<rparr>, pg_ticks := k\<rparr>" and ?r = "r\<lparr>r_tombstones := D, r_ticks := k'\<rparr>"
    note here = 9
    have first: "for_each (x # xs) (pg_require_alias_name_available sp) s = for_each xs (pg_require_alias_name_available sp) ?s"
      "for_each (x # xs) (require_alias_name_available sp) r = for_each xs (require_alias_name_available sp) ?r"
      using here(1,2) by (simp_all add: seq_op_def bind_op_def)
    have prems: "aliases_rel (r_aliases ?r) (tb_aliases (pg_tables ?s))" "tombs_rel t (r_tombstones ?r) (tb_tombstones (pg_tables ?s))"
      "pg_connected ?s" "r_clock ?r n = t" "pg_clock ?s n = t" "\<forall>x\<in>set xs. canonical x" for n
      using Cons.prems here(3) by simp_all
    show ?case unfolding first
      using Cons.IH [OF prems] here(4,5) by (simp del: for_each.simps) (elim disjE exE; blast)
  qed (use Cons.prems sp in simp_all)
qed


text \<open>The bindings of a reservation, once the names are known to be free and different.\<close>

lemma bindings:
  assumes "aliases_rel (r_aliases r) (tb_aliases (pg_tables s))" "r_audit_events r = map snd (tb_audit_events (pg_tables s))"
    and "pg_connected s" "\<And>n. r_clock r n = t" "\<And>n. pg_clock s n = t" and sp: "sp \<in> STORAGE_BUCKETS"
    and "\<forall>q\<in>set ps. alias_under_partition p (fst (fst q)) = Inr (snd q) \<and> canonical (snd q) \<and> map_of (tb_aliases (pg_tables s)) (sp, snd q) = None"
    and "distinct (map snd ps)" and "map_of (tb_assets (pg_tables s)) i \<noteq> None"
  shows "\<exists>als L E F k k' m.
      for_each ps (pg_bind_alias sp i now own) s =
        (Inr (), s\<lparr>pg_tables := (pg_tables s)\<lparr>tb_aliases := als, tb_audit_events := E\<rparr>, pg_ticks := k, pg_audit_id := m\<rparr>) \<and>
      for_each (map fst ps) (bind_reserved_alias sp p i now own) r = (Inr (), r\<lparr>r_aliases := L, r_audit_events := F, r_ticks := k'\<rparr>) \<and>
      aliases_rel L als \<and> F = map snd E \<and>
      (\<forall>j. alias_names als j = alias_names (tb_aliases (pg_tables s)) j @ (if j = i then map snd ps else []))"
  using assms(1-5,7-9)
proof (induction ps arbitrary: r s)
  case Nil
  show ?case
  proof (intro exI conjI)
    show "for_each [] (pg_bind_alias sp i now own) s = (Inr (), s\<lparr>pg_tables := (pg_tables s)\<lparr>tb_aliases := tb_aliases (pg_tables s),
        tb_audit_events := tb_audit_events (pg_tables s)\<rparr>, pg_ticks := pg_ticks s, pg_audit_id := pg_audit_id s\<rparr>)"
      by (simp add: ret_def)
    show "for_each (map fst []) (bind_reserved_alias sp p i now own) r =
        (Inr (), r\<lparr>r_aliases := r_aliases r, r_audit_events := r_audit_events r, r_ticks := r_ticks r\<rparr>)"
      by (simp add: ret_def)
  qed (use Nil in simp_all)
next
  case (Cons q ps)
  obtain nm mu x where q: "q = ((nm, mu), x)" by (cases q) auto
  let ?b = "\<lparr>b_space = sp, b_alias = x, b_asset_id = Some i, b_mutable = mu, b_previous_asset_id = None, b_created_at = now,
     b_updated_at = now, b_created_by_service_id = own\<rparr>"
  let ?e = "\<lparr>e_action = ''alias.create'', e_target = key_name (sp, x), e_caller_service_id = own, e_outcome = ''success'',
     e_before = Map.empty, e_after = [''asset_id'' \<mapsto> i, ''mutable'' \<mapsto> bool_str_lower mu], e_ts = t\<rparr>"
  let ?s = "s\<lparr>pg_tables := (pg_tables s)\<lparr>tb_aliases := AList.update (sp, x) ?b (tb_aliases (pg_tables s)),
      tb_audit_events := tb_audit_events (pg_tables s) @ [(pg_audit_id s, ?e)]\<rparr>, pg_ticks := Suc (pg_ticks s), pg_audit_id := pg_audit_id s + 1\<rparr>"
  let ?r = "r\<lparr>r_aliases := AList.update (key_name (sp, x)) ?b (r_aliases r), r_audit_events := r_audit_events r @ [?e], r_ticks := Suc (r_ticks r)\<rparr>"
  have x: "alias_under_partition p nm = Inr x" "canonical x" "map_of (tb_aliases (pg_tables s)) (sp, x) = None" "x \<notin> snd ` set ps"
    using Cons.prems(6,7) q by auto
  have key: "qualified_alias sp x = Inr (key_name (sp, x))" using sp x(2) by (simp add: qualified_alias_canonical key_name_def)
  have "pg_bind_alias sp i now own q s = (Inr (), ?s)"
    by (rule wp_eqI) (use Cons.prems x in \<open>auto simp: pg_bind_alias_def q wp_simps statement_defs reference_ok_def slash_key\<close>)
  moreover have "bind_reserved_alias sp p i now own (fst q) r = (Inr (), ?r)"
    by (rule wp_eqI) (use Cons.prems x key in \<open>simp add: bind_reserved_alias_def q wp_simps binding_qualified_alias_def Let_def\<close>)
  ultimately have first: "for_each (q # ps) (pg_bind_alias sp i now own) s = for_each ps (pg_bind_alias sp i now own) ?s"
      "for_each (map fst (q # ps)) (bind_reserved_alias sp p i now own) r = for_each (map fst ps) (bind_reserved_alias sp p i now own) ?r"
    by (simp_all add: seq_op_def bind_op_def)
  have "aliases_rel (r_aliases ?r) (tb_aliases (pg_tables ?s))"
    using aliases_rel_update [OF Cons.prems(1) _ _ sp x(2), of ?b] by simp
  moreover have "\<forall>q\<in>set ps. alias_under_partition p (fst (fst q)) = Inr (snd q) \<and> canonical (snd q) \<and> map_of (tb_aliases (pg_tables ?s)) (sp, snd q) = None"
    using Cons.prems(6) x(4) by (auto simp: image_iff)
  ultimately obtain als L E F k k' m where rest:
      "for_each ps (pg_bind_alias sp i now own) ?s =
        (Inr (), ?s\<lparr>pg_tables := (pg_tables ?s)\<lparr>tb_aliases := als, tb_audit_events := E\<rparr>, pg_ticks := k, pg_audit_id := m\<rparr>)"
      "for_each (map fst ps) (bind_reserved_alias sp p i now own) ?r = (Inr (), ?r\<lparr>r_aliases := L, r_audit_events := F, r_ticks := k'\<rparr>)"
      "aliases_rel L als" "F = map snd E"
      "alias_names als j = alias_names (tb_aliases (pg_tables ?s)) j @ (if j = i then map snd ps else [])" for j
    using Cons.IH [of ?r ?s] Cons.prems by auto
  show ?case unfolding first
  proof (intro exI conjI)
    show "for_each ps (pg_bind_alias sp i now own) ?s =
        (Inr (), s\<lparr>pg_tables := (pg_tables s)\<lparr>tb_aliases := als, tb_audit_events := E\<rparr>, pg_ticks := k, pg_audit_id := m\<rparr>)"
      using rest(1) by (simp del: for_each.simps)
    show "for_each (map fst ps) (bind_reserved_alias sp p i now own) ?r = (Inr (), r\<lparr>r_aliases := L, r_audit_events := F, r_ticks := k'\<rparr>)"
      using rest(2) by (simp del: for_each.simps)
  qed (use rest(3-) x(3) in \<open>auto simp: names_update_new q\<close>)
qed


lemma in_fold_update: "q \<in> set (fold (\<lambda>p d. AList.update (fst p) (snd p) d) ps d) \<Longrightarrow> q \<in> set ps \<or> q \<in> set d"
proof (induction ps arbitrary: d)
  case (Cons p ps)
  then have "q \<in> set ps \<or> q \<in> set (AList.update (fst p) (snd p) d)" by simp
  then show ?case using in_set_update [of q "fst p" "snd p" d] by auto
qed simp

lemma map_result_set: "map_result f xs = Inr ys \<Longrightarrow> set ys = {y. \<exists>x\<in>set xs. f x = Inr y}"
  by (induction xs arbitrary: ys) (fastforce simp: bind_result_Inr)+

lemma specs_canonical:
  assumes "normalize_alias_specs al = Inr specs" "\<forall>q\<in>set (alias_items al). settles (fst q)" "q \<in> set specs"
  shows "canonical (fst q)"
proof -
  obtain ps where ps: "map_result (\<lambda>p. bind_result (normalize_relative_alias (fst p)) (\<lambda>n. Inr (n, snd p))) (alias_items al) = Inr ps" "specs = dict_of_pairs ps"
    using assms(1) by (auto simp: normalize_alias_specs_def bind_result_Inr)
  have "q \<in> set ps" using assms(3) ps(2) in_fold_update [of q ps "[]"] unfolding dict_of_pairs_def by simp
  then obtain p where "p \<in> set (alias_items al)" "normalize_relative_alias (fst p) = Inr (fst q)"
    using map_result_set [OF ps(1)] by (auto simp: bind_result_Inr)
  then show ?thesis using assms(2) settlesD by blast
qed

lemma map_result_all: "(\<And>x. x \<in> set xs \<Longrightarrow> f x = Inr (g x)) \<Longrightarrow> map_result f xs = Inr (map g xs)"
  by (induction xs) (auto simp: bind_result_def)

lemma for_each_cong: "(\<And>x. x \<in> set xs \<Longrightarrow> f x = g x) \<Longrightarrow> for_each xs f = for_each xs g"
  by (induction xs) auto

lemma for_each_map: "for_each (map h xs) f = for_each xs (\<lambda>x. f (h x))"
  by (induction xs) auto

lemma bind_of_Inr: "bind_op (of_result (Inr x)) f = f x"
  by (rule ext) (simp add: bind_op_def of_result_def)


lemmas wp_loop_eq = wp_of_eq [where m = "for_each xs f" for xs f]

text \<open>The last part of a reservation: the row, its bindings and the audit record, then the answer.\<close>

lemma reserve_tail:
  assumes rel: "rel t r (pg_tables s)" "assets_ok (r_assets r)" and c: "pg_connected s" "\<And>n. r_clock r n = t" "\<And>n. pg_clock s n = t"
    and sp: "sp \<in> STORAGE_BUCKETS"
    and fresh: "map_of (tb_assets (pg_tables s)) i = None" "alias_names (tb_aliases (pg_tables s)) i = []"
    and row: "ar_asset_id row = i" "ar_space row = sp" "canonical (ar_partition_id row)" "row_in_range row"
    and names: "\<forall>q\<in>set specs. alias_under_partition p (fst q) = Inr (f q) \<and> canonical (f q) \<and> map_of (tb_aliases (pg_tables s)) (sp, f q) = None"
      "distinct (map f specs)"
    and a: "a = asset_from_row row (set (map (\<lambda>q. key_name (sp, f q)) specs))"
  obtains als L E k k' n where
    "for_each (zip specs (map f specs)) (pg_bind_alias sp i now own)
        (s\<lparr>pg_tables := (pg_tables s)\<lparr>tb_assets := AList.update i row (tb_assets (pg_tables s))\<rparr>\<rparr>) =
      (Inr (), s\<lparr>pg_tables := (pg_tables s)\<lparr>tb_assets := AList.update i row (tb_assets (pg_tables s)), tb_aliases := als, tb_audit_events := E\<rparr>,
        pg_ticks := k, pg_audit_id := n\<rparr>)"
    "for_each specs (bind_reserved_alias sp p i now own) (r\<lparr>r_assets := AList.update i a (r_assets r)\<rparr>) =
      (Inr (), r\<lparr>r_assets := AList.update i a (r_assets r), r_aliases := L, r_audit_events := map snd E, r_ticks := k'\<rparr>)"
    "asset_from_row row (qualified_names sp (alias_names als i)) = a"
    "\<And>k2. rel t (r\<lparr>r_assets := AList.update i a (r_assets r), r_aliases := L, r_audit_events := map snd E, r_ticks := k2\<rparr>)
      ((pg_tables s)\<lparr>tb_assets := AList.update i row (tb_assets (pg_tables s)), tb_aliases := als, tb_audit_events := E\<rparr>)"
    "\<And>e j k2. rel t (r\<lparr>r_assets := AList.update i a (r_assets r), r_aliases := L, r_ticks := k2, r_audit_events := map snd E @ [e]\<rparr>)
      ((pg_tables s)\<lparr>tb_assets := AList.update i row (tb_assets (pg_tables s)), tb_aliases := als, tb_audit_events := E @ [(j, e)]\<rparr>)"
proof -
  let ?s = "s\<lparr>pg_tables := (pg_tables s)\<lparr>tb_assets := AList.update i row (tb_assets (pg_tables s))\<rparr>\<rparr>"
  let ?r = "r\<lparr>r_assets := AList.update i a (r_assets r)\<rparr>"
  let ?ps = "zip specs (map f specs)"
  have zip: "map fst ?ps = specs" "map snd ?ps = map f specs" by simp_all
  have ps: "\<forall>q\<in>set ?ps. alias_under_partition p (fst (fst q)) = Inr (snd q) \<and> canonical (snd q) \<and> map_of (tb_aliases (pg_tables s)) (sp, snd q) = None"
  proof -
    have "?ps = map (\<lambda>q. (q, f q)) specs" by (simp add: zip_map2 zip_same_conv_map)
    then show ?thesis using names(1) by simp
  qed
  have fields: "aliases_rel (r_aliases r) (tb_aliases (pg_tables s))" "r_audit_events r = map snd (tb_audit_events (pg_tables s))"
    "tombs_rel t (r_tombstones r) (tb_tombstones (pg_tables s))"
    using rel(1) by (simp_all add: rel_def)
  obtain als L E F k k' n where b:
      "for_each ?ps (pg_bind_alias sp i now own) ?s =
        (Inr (), ?s\<lparr>pg_tables := (pg_tables ?s)\<lparr>tb_aliases := als, tb_audit_events := E\<rparr>, pg_ticks := k, pg_audit_id := n\<rparr>)"
      "for_each specs (bind_reserved_alias sp p i now own) ?r = (Inr (), ?r\<lparr>r_aliases := L, r_audit_events := F, r_ticks := k'\<rparr>)"
      "aliases_rel L als" "F = map snd E"
      "\<And>j. alias_names als j = alias_names (tb_aliases (pg_tables s)) j @ (if j = i then map f specs else [])"
    using bindings [of ?r ?s t sp ?ps p i now own] fields c sp ps names(2) unfolding zip by auto
  have "qualified_names sp (map f specs) = set (map (\<lambda>q. key_name (sp, f q)) specs)" by (auto simp: qualified_names_image)
  then have loaded: "a = loaded als row" "asset_from_row row (qualified_names sp (map f specs)) = loaded als row"
    unfolding a loaded_def row(1,2) b(5) fresh(2) by simp_all
  have result: "rel t (?r\<lparr>r_aliases := L, r_audit_events := F\<rparr>) ((pg_tables ?s)\<lparr>tb_aliases := als, tb_audit_events := E\<rparr>)"
    by (rule rel_change [OF rel, where i = i and row' = row]) (use b(3-5) fields(3) row loaded in simp_all)
  have audited: "rel t (?r\<lparr>r_aliases := L, r_ticks := k2, r_audit_events := F @ [e]\<rparr>) ((pg_tables ?s)\<lparr>tb_aliases := als, tb_audit_events := E @ [(j, e)]\<rparr>)" for e j k2
    by (rule rel_change [OF rel, where i = i and row' = row]) (use b(3-5) fields(3) row loaded in simp_all)
  show thesis
    by (rule that [where als = als and E = E and k = k and n = n and L = L and k' = k']) (use b(1,2) loaded result audited b(4,5) fresh(2) in simp_all)
qed

text \<open>The names of a reservation, as each registry forms them.\<close>

lemma scoped_names:
  assumes "sp \<in> STORAGE_BUCKETS" "canonical p" "\<And>q. q \<in> set specs \<Longrightarrow> canonical (fst q)"
  shows "map_result (\<lambda>spec. alias_under_partition p (fst spec)) specs = Inr (map (\<lambda>q. under_partition p (fst q)) specs)"
    and "for_each (map fst specs) (\<lambda>alias. bind_op (of_result (alias_under_partition p alias)) (require_alias_name_available sp)) =
      for_each (map (\<lambda>q. under_partition p (fst q)) specs) (require_alias_name_available sp)"
    and "map_result (scoped_key sp p) (map fst specs) = Inr (map (\<lambda>q. key_name (sp, under_partition p (fst q))) specs)"
proof -
  show "map_result (\<lambda>spec. alias_under_partition p (fst spec)) specs = Inr (map (\<lambda>q. under_partition p (fst q)) specs)"
    by (rule map_result_all) (simp add: alias_under assms)
  show "for_each (map fst specs) (\<lambda>alias. bind_op (of_result (alias_under_partition p alias)) (require_alias_name_available sp)) =
      for_each (map (\<lambda>q. under_partition p (fst q)) specs) (require_alias_name_available sp)"
    by (simp only: for_each_map, rule for_each_cong) (simp add: alias_under assms bind_of_Inr)
  have "map_result (scoped_key sp p) (map fst specs) = Inr (map (\<lambda>a. key_name (sp, under_partition p a)) (map fst specs))"
    using assms(1,2) assms(3) [of "(_, _)"]
    by (intro map_result_all) (force simp: scoped_key_def alias_under bind_result_def qualified_alias_canonical under_canonical slash_key)
  then show "map_result (scoped_key sp p) (map fst specs) = Inr (map (\<lambda>q. key_name (sp, under_partition p (fst q))) specs)"
    by (simp add: o_def)
qed

lemma fresh_id:
  assumes "aligned t r s" "i = r_uuids r (r_next_uuid r)"
  shows "map_of (r_assets r) i = None" "py_strip i \<noteq> []" "map_of (tb_assets (pg_tables s)) i = None"
    "alias_names (tb_aliases (pg_tables s)) i = []"
proof -
  note d = alignedD [OF assms(1)] alignedD_aliases [OF assms(1)]
  show "map_of (r_assets r) i = None" "py_strip i \<noteq> []"
    using d(2) assms(2) by (auto simp: reg_inv_def ids_fresh_def uuid_source_ok_def)
  then show new: "map_of (tb_assets (pg_tables s)) i = None"
    using rel_asset(1) [OF d(1,9)] by (cases "map_of (tb_assets (pg_tables s)) i") auto
  have "b_asset_id b \<noteq> Some i" if "b \<in> set (dict_values (tb_aliases (pg_tables s)))" for b
    using that bound_row [OF assms(1), of _ _ b i] new by (auto simp: dict_values_iff [OF d(11)])
  then show "alias_names (tb_aliases (pg_tables s)) i = []" by (auto simp: alias_names_def filter_empty_conv)
qed

lemma parity_reserve_asset:
  assumes "ready t r s" and p: "settles p" and al: "\<forall>q\<in>set (alias_items al). settles (fst q)" and rb: "\<And>n. rb = Some n \<Longrightarrow> small n"
    and dist: "\<And>np specs. normalize_partition_id p = Inr np \<Longrightarrow> normalize_alias_specs al = Inr specs \<Longrightarrow> distinct (map (\<lambda>q. under_partition np (fst q)) specs)"
  shows "parity t (reserve_asset sp p al own m ann ev ttl rb) (pg_reserve_asset sp p al own m ann ev ttl rb) r s"
  unfolding pg_reserve_asset_def
proof (rule parity_unit [OF assms(1)], goal_cases)
  case 1
  note d = alignedD [OF 1] alignedD_aliases [OF 1]
  have events: "r_audit_events r = map snd (tb_audit_events (pg_tables s))" using d(1) by (simp add: rel_def)
  have rb0: "case rb of None \<Rightarrow> True | Some n \<Rightarrow> 0 \<le> n" using rb by (auto simp: small_def split: option.split)
  show ?case
  proof (cases "normalize_space sp"; cases "normalize_partition_id p"; cases "normalize_alias_specs al")
    fix s' p' specs assume n: "normalize_space sp = Inr s'" "normalize_partition_id p = Inr p'" "normalize_alias_specs al = Inr specs"
    have norm: "s' \<in> STORAGE_BUCKETS" "canonical p'" "\<And>q. q \<in> set specs \<Longrightarrow> canonical (fst q)"
      using n normalize_space_bucket settlesD [OF p] specs_canonical [OF n(3) al] by (auto simp: normalize_partition_id_def)
    let ?f = "\<lambda>q. under_partition p' (fst q)" and ?i = "r_uuids r (r_next_uuid r)"
    note scoped_names = scoped_names [OF norm]
    note scoped = scoped_names(1) and checks = scoped_names(2) and keys = scoped_names(3)
    note strip = fresh_id(2) [OF 1 refl] and new = fresh_id(3) [OF 1 refl] and unnamed = fresh_id(4) [OF 1 refl]
    obtain key where key: "build_storage_key p' ?i = Inr key" using strip norm(2) by (auto simp: build_storage_key_Inr)
    let ?s = "(checked_out s)\<lparr>pg_next_uuid := Suc (pg_next_uuid s), pg_ticks := Suc (pg_ticks (checked_out s))\<rparr>"
    have avail: "aliases_rel (r_aliases r) (tb_aliases (pg_tables ?s))" "tombs_rel t (r_tombstones r) (tb_tombstones (pg_tables ?s))"
      "pg_connected ?s" "r_clock r k = t" "pg_clock ?s k = t" "\<forall>x\<in>set (map ?f specs). canonical x" for k
      using d norm by (auto simp: under_canonical)
    from names_available_cases [OF avail(1-5) norm(1) avail(6)] show ?thesis
    proof (elim disjE exE conjE)
      fix s1 D k' assume "for_each (map ?f specs) (pg_require_alias_name_available s') ?s = (Inl AliasConflictError, s1)"
        "for_each (map ?f specs) (require_alias_name_available s') r = (Inl AliasConflictError, r\<lparr>r_tombstones := D, r_ticks := k'\<rparr>)"
        "\<forall>old. tombs_rel t (r_tombstones r) old \<longrightarrow> tombs_rel t D old"
      then show ?thesis
        using d n rb0 key by (simp add: parity_defs scoped checks reserve_asset_def norm wp_of_err) (simp add: rel_def)
    next
      fix k k' D tombs
      assume free: "for_each (map ?f specs) (pg_require_alias_name_available s') ?s = (Inr (), ?s\<lparr>pg_tables := (pg_tables ?s)\<lparr>tb_tombstones := tombs\<rparr>, pg_ticks := k\<rparr>)"
        "for_each (map ?f specs) (require_alias_name_available s') r = (Inr (), r\<lparr>r_tombstones := D, r_ticks := k'\<rparr>)"
        "tombs_rel t D tombs" "\<forall>old. tombs_rel t (r_tombstones r) old \<longrightarrow> tombs_rel t D old"
        "\<forall>x\<in>set (map ?f specs). map_of (tb_aliases (pg_tables ?s)) (s', x) = None"
      let ?r1 = "r\<lparr>r_tombstones := D, r_ticks := k'\<rparr>"
      let ?T = "(pg_tables s)\<lparr>tb_tombstones := tombs\<rparr>"
      have rel1: "rel t ?r1 (pg_tables s)" "rel t ?r1 ?T" using d(1,15) free(3,4) by (simp_all add: rel_def)
      have names: "\<forall>q\<in>set specs. alias_under_partition p' (fst q) = Inr (?f q) \<and> canonical (?f q) \<and> map_of (tb_aliases (pg_tables s)) (s', ?f q) = None"
        using free(5) norm by (auto simp: alias_under under_canonical)
      have enforce: "fst (enforce_quota s' p' b None ?r1) = fst (enforce_quota s' p' b None r)" for b
        by (rule enforce_quota_cong) (simp_all add: pending_uploads_def physical_bytes_def)
      let ?row = "\<lambda>dl. \<lparr>ar_asset_id = ?i, ar_space = s', ar_partition_id = p', ar_storage_key = key, ar_state = PENDING,
       ar_mime = m, ar_size_bytes = None, ar_reserved_bytes = rb, ar_checksum_algo = ''sha256'', ar_checksum = None,
       ar_annotations = case ann of None \<Rightarrow> fmempty | Some m \<Rightarrow> m, ar_eviction_policy = ev, ar_owner_service_id = own, ar_created_at = t,
       ar_updated_at = t, ar_expires_at = dl, ar_expired_at = None, ar_last_read_at = None, ar_read_count = 0,
       ar_payload_deleted_at = None\<rparr>"
      have range: "row_in_range (?row dl)" for dl
        using rb by (cases rb) (auto simp: row_in_range_def opt_bigint_def small_bigint in_bigint_def small_def)
      let ?a = "\<lambda>dl. asset_from_row (?row dl) (set (map (\<lambda>q. key_name (s', ?f q)) specs))"
      have dist': "distinct (map ?f specs)" using dist [OF n(2,3)] .
      note tail = reserve_tail [where t = t and i = ?i and p = p' and sp = s' and f = ?f and own = own and now = t]
      show ?thesis
      proof (cases "expiry_for (r_env r) s' ttl t")
        case (Inl e)
        show ?thesis
        proof (cases rb)
          case None
          then show ?thesis
            using d n rb0 key free rel1 Inl
            by (simp add: wp_simps both_fail_def agree_def scoped checks keys reserve_asset_def norm wp_loop_eq)
        next
          case (Some b)
          then show ?thesis
            using d n rb0 key free rel1 Inl
            by (simp add: wp_simps both_fail_def agree_def scoped checks keys reserve_asset_def norm wp_loop_eq
              wp_pg_enforce [where t = t and r = ?r1] wp_enforce_ok enforce split: sum.split)
        qed
      next
        case (Inr dl)
        let ?r2 = "r\<lparr>r_tombstones := D, r_next_uuid := Suc (r_next_uuid r), r_ticks := Suc k'\<rparr>"
        show ?thesis
        proof (cases rb)
          case None
          show ?thesis
          proof (rule tail [of ?r2 "(checked_out s)\<lparr>pg_next_uuid := Suc (pg_next_uuid s), pg_ticks := k, pg_tables := ?T\<rparr>" "?row dl" specs "?a dl"], goal_cases)
            case (16 als L E k2 k3 n2)
            then show ?case
              using d n rb0 key free rel1 Inr None new range [of dl]
              by (simp add: parity_defs scoped checks keys reserve_asset_def norm wp_loop_eq asset_from_row_def)
          qed (use d new unnamed norm names dist [OF n(2,3)] range rel1 in simp_all)
        next
          case (Some b)
          let ?s2 = "(checked_out s)\<lparr>pg_next_uuid := Suc (pg_next_uuid s), pg_ticks := k, pg_tables := prepare s' p' ?T\<rparr>"
          have relp: "rel t ?r1 (prepare s' p' ?T)" using rel1(2) by (rule rel_prepare)
          show ?thesis
          proof (rule tail [of ?r2 ?s2 "?row dl" specs "?a dl"], goal_cases)
            case (16 als L E k2 k3 n2)
            then show ?case
              using d n rb0 key free rel1 Inr Some new range [of dl]
              by (simp add: parity_defs scoped checks keys reserve_asset_def norm wp_loop_eq asset_from_row_def
                wp_pg_enforce [where t = t and r = ?r1] wp_enforce_ok enforce split: sum.split)
          qed (use d new unnamed norm names dist [OF n(2,3)] range relp in simp_all)
        qed
      qed
    qed
  qed (use d rb0 in \<open>simp_all add: parity_defs reserve_asset_def\<close>)
qed

end
