(* ===== verification/Pg_Schema.thy ===== *)
theory Pg_Schema
  imports Pg_Rel Admin "HOL-Library.Multiset"
begin

text \<open>
  What the schema of the database guarantees and every call of the Postgres registry keeps: the constraints
  of the tables, and that a call which raises leaves the tables as they were and returns its connection.
\<close>

section \<open>Listing\<close>

text \<open>The condition that \<open>query_assets\<close> assembles, on a row and the alias table.\<close>

definition row_matches :: "asset_query \<Rightarrow> (string \<times> string, alias_binding) dict \<Rightarrow> asset_row \<Rightarrow> bool" where
  "row_matches q als row \<longleftrightarrow>
     (case q_space q of None \<Rightarrow> True | Some s \<Rightarrow> ar_space row = s) \<and>
     (case q_partition_id q of None \<Rightarrow> True | Some p \<Rightarrow> ar_partition_id row = p) \<and>
     (case q_state q of None \<Rightarrow> True | Some s \<Rightarrow> ar_state row = s) \<and>
     (case q_created_from q of None \<Rightarrow> True | Some d \<Rightarrow> d \<le> ar_created_at row) \<and>
     (case q_created_to q of None \<Rightarrow> True | Some d \<Rightarrow> ar_created_at row \<le> d) \<and>
     (case q_prefix q of
        None \<Rightarrow> True
      | Some p \<Rightarrow> list_ex (\<lambda>n. b_asset_id n = Some (ar_asset_id row) \<and>
          (b_space n @ ''/'' @ b_alias n = p \<or>
           take (length (p @ ''/'')) (b_space n @ ''/'' @ b_alias n) = p @ ''/'')) (dict_values als))"

definition row_key :: "asset_row \<Rightarrow> datetime \<times> string" where
  "row_key row = (ar_created_at row, ar_asset_id row)"

text \<open>\<open>ORDER BY\<close> compares identifiers by code points, as every collation does on lower-case hexadecimal text.\<close>

definition pg_query_assets :: "asset_query \<Rightarrow> (pg, asset list) op" where
  "pg_query_assets q =
     unit_of_work (
     bind_op (of_result (after q)) (\<lambda>start.
     execute (gets (\<lambda>t. map (\<lambda>row. asset_from_row row (qualified_names (ar_space row)
         (map b_alias (filter (\<lambda>b. b_asset_id b = Some (ar_asset_id row)) (dict_values (tb_aliases t))))))
       (take (nat (q_limit q + 1)) (sort_key row_key
         (filter (\<lambda>row. row_matches q (tb_aliases t) row \<and> (case start of None \<Rightarrow> True | Some k \<Rightarrow> k < row_key row))
           (dict_values (tb_assets t)))))))))"

section \<open>Requests\<close>

text \<open>
  A request is a call of the registry or one of its queries, and a reply is what it returns; of a listing that
  has no order, what it holds.
\<close>

datatype registry_request =
    Call call
  | GetAsset string
  | ListAssets
  | QueryAssets asset_query
  | GetPartitionQuota string string
  | GetBucketQuota string
  | ReservedUploadBytes string
  | AuditEvents
  | RecentAudit "string option" int

datatype registry_reply =
    NoReply
  | AssetReply asset
  | BindingReply alias_binding
  | PartitionReply partition_quota
  | BucketReply bucket_quota
  | AssetsReply "asset list"
  | UnorderedReply "asset multiset"
  | BytesReply int
  | EventsReply "audit_event list"

definition reply_with :: "('a \<Rightarrow> registry_reply) \<Rightarrow> ('s, 'a) op \<Rightarrow> ('s, registry_reply) op" where
  "reply_with f m = bind_op m (\<lambda>x. ret (f x))"

abbreviation no_reply :: "('s, unit) op \<Rightarrow> ('s, registry_reply) op" where
  "no_reply \<equiv> reply_with (\<lambda>_. NoReply)"

fun mem_call :: "call \<Rightarrow> (registry, registry_reply) op" where
  "mem_call (ReserveAsset sp p al own m ann ev ttl rb) = reply_with AssetReply (reserve_asset sp p al own m ann ev ttl rb)"
| "mem_call (AttachAlias i al mut c) = reply_with BindingReply (attach_alias i al mut c)"
| "mem_call (CommitAsset i n cs c m ec) = reply_with AssetReply (commit_asset i n cs c m ec)"
| "mem_call (UpdateAnnotations i p c ow) = reply_with AssetReply (update_annotations i p c ow)"
| "mem_call (ResolveAlias sp al) = reply_with AssetReply (resolve_alias sp al)"
| "mem_call (DetachAlias sp al c) = no_reply (detach_alias sp al c)"
| "mem_call (DetachMutableAlias sp al c) = reply_with BindingReply (detach_mutable_alias sp al c)"
| "mem_call (RebindAlias sp al i c) = reply_with BindingReply (rebind_alias sp al i c)"
| "mem_call (ExpireAsset i c) = reply_with AssetReply (expire_asset i c)"
| "mem_call (DeleteAsset i c) = reply_with AssetReply (delete_asset i c)"
| "mem_call (SetEvictionPolicy i p c) = reply_with AssetReply (set_eviction_policy i p c)"
| "mem_call (SetPartitionQuota sp p qb qc sw c) = reply_with PartitionReply (set_partition_quota sp p qb qc sw c)"
| "mem_call (SetBucketQuota sp qb w h) = reply_with BucketReply (set_bucket_quota sp qb w h)"
| "mem_call (RecordRead i) = no_reply (record_read i)"
| "mem_call (LifecycleUpdate a st now reason pd) = reply_with AssetReply (lifecycle_update a st now reason pd)"
| "mem_call (SetAssetTtl i ttl c) = reply_with AssetReply (set_asset_ttl i ttl c)"
| "mem_call (RecordCapabilityIssue c op sp ttl out cid) = no_reply (record_capability_issue c op sp ttl out cid)"
| "mem_call ReadClock = no_reply (void utcnow)"

fun mem_answer :: "registry_request \<Rightarrow> (registry, registry_reply) op" where
  "mem_answer (Call c) = mem_call c"
| "mem_answer (GetAsset i) = reply_with AssetReply (get_asset i)"
| "mem_answer ListAssets = reply_with UnorderedReply (bind_op list_assets (\<lambda>assets. ret (mset assets)))"
| "mem_answer (QueryAssets q) = reply_with AssetsReply (query_assets q)"
| "mem_answer (GetPartitionQuota sp p) = reply_with PartitionReply (get_partition_quota sp p)"
| "mem_answer (GetBucketQuota sp) = reply_with BucketReply (get_bucket_quota sp)"
| "mem_answer (ReservedUploadBytes sp) = reply_with BytesReply (reserved_upload_bytes sp)"
| "mem_answer AuditEvents = reply_with EventsReply (gets r_audit_events)"
| "mem_answer (RecentAudit i n) = reply_with EventsReply (recent_audit i n)"

fun pg_call :: "call \<Rightarrow> (pg, registry_reply) op" where
  "pg_call (ReserveAsset sp p al own m ann ev ttl rb) = reply_with AssetReply (pg_reserve_asset sp p al own m ann ev ttl rb)"
| "pg_call (AttachAlias i al mut c) = reply_with BindingReply (pg_attach_alias i al mut c)"
| "pg_call (CommitAsset i n cs c m ec) = reply_with AssetReply (pg_commit_asset i n cs c m ec)"
| "pg_call (UpdateAnnotations i p c ow) = reply_with AssetReply (pg_update_annotations i p c ow)"
| "pg_call (ResolveAlias sp al) = reply_with AssetReply (pg_resolve_alias sp al)"
| "pg_call (DetachAlias sp al c) = no_reply (pg_detach_alias sp al c)"
| "pg_call (DetachMutableAlias sp al c) = reply_with BindingReply (pg_detach_mutable_alias sp al c)"
| "pg_call (RebindAlias sp al i c) = reply_with BindingReply (pg_rebind_alias sp al i c)"
| "pg_call (ExpireAsset i c) = reply_with AssetReply (pg_expire_asset i c)"
| "pg_call (DeleteAsset i c) = reply_with AssetReply (pg_delete_asset i c)"
| "pg_call (SetEvictionPolicy i p c) = reply_with AssetReply (pg_set_eviction_policy i p c)"
| "pg_call (SetPartitionQuota sp p qb qc sw c) = reply_with PartitionReply (pg_set_partition_quota sp p qb qc sw c)"
| "pg_call (SetBucketQuota sp qb w h) = reply_with BucketReply (pg_set_bucket_quota sp qb w h)"
| "pg_call (RecordRead i) = no_reply (pg_record_read i)"
| "pg_call (LifecycleUpdate a st now reason pd) = reply_with AssetReply (pg_lifecycle_update a st now reason pd)"
| "pg_call (SetAssetTtl i ttl c) = reply_with AssetReply (pg_set_asset_ttl i ttl c)"
| "pg_call (RecordCapabilityIssue c op sp ttl out cid) = no_reply (pg_record_capability_issue c op sp ttl out cid)"
| "pg_call ReadClock = no_reply (void pg_utcnow)"

fun pg_answer :: "registry_request \<Rightarrow> (pg, registry_reply) op" where
  "pg_answer (Call c) = pg_call c"
| "pg_answer (GetAsset i) = reply_with AssetReply (pg_get_asset i)"
| "pg_answer ListAssets = reply_with UnorderedReply (bind_op pg_list_assets (\<lambda>assets. ret (mset assets)))"
| "pg_answer (QueryAssets q) = reply_with AssetsReply (pg_query_assets q)"
| "pg_answer (GetPartitionQuota sp p) = reply_with PartitionReply (pg_get_partition_quota sp p)"
| "pg_answer (GetBucketQuota sp) = reply_with BucketReply (pg_get_bucket_quota sp)"
| "pg_answer (ReservedUploadBytes sp) = reply_with BytesReply (pg_reserved_upload_bytes sp)"
| "pg_answer AuditEvents = reply_with EventsReply pg_audit_events"
| "pg_answer (RecentAudit i n) = reply_with EventsReply (pg_recent_audit i n)"

section \<open>The constraints\<close>

definition partition_row_ok :: "partition_quota \<Rightarrow> bool" where
  "partition_row_ok q \<longleftrightarrow> opt_bigint (pq_quota_bytes q) \<and> opt_bigint (pq_quota_asset_count q) \<and>
     in_bigint (pq_used_bytes q) \<and> in_bigint (pq_used_asset_count q)"

definition bucket_row_ok :: "bucket_quota \<Rightarrow> bool" where
  "bucket_row_ok q \<longleftrightarrow> opt_bigint (bq_quota_bytes q) \<and> in_bigint (bq_used_bytes q)"

definition schema_ok :: "tables \<Rightarrow> bool" where
  "schema_ok T \<longleftrightarrow>
     dict_ok (tb_assets T) \<and> (\<forall>(i, row) \<in> set (tb_assets T). ar_asset_id row = i \<and> row_in_range row) \<and>
     dict_ok (tb_aliases T) \<and> (\<forall>(k, b) \<in> set (tb_aliases T). k = (b_space b, b_alias b) \<and> reference_ok (tb_assets T) b) \<and>
     dict_ok (tb_tombstones T) \<and>
     dict_ok (tb_partition_quotas T) \<and> (\<forall>(k, q) \<in> set (tb_partition_quotas T). k = (pq_space q, pq_partition_id q) \<and> partition_row_ok q) \<and>
     dict_ok (tb_bucket_quotas T) \<and> (\<forall>(k, q) \<in> set (tb_bucket_quotas T). k = bq_space q \<and> bucket_row_ok q) \<and>
     distinct (map fst (tb_audit_events T))"

text \<open>Besides, the audit ids in use are in order and the sequence is ahead of them.\<close>

definition pg_ok :: "pg \<Rightarrow> bool" where
  "pg_ok s \<longleftrightarrow> schema_ok (pg_tables s) \<and> sorted (map fst (tb_audit_events (pg_tables s))) \<and>
     (\<forall>(i, e) \<in> set (tb_audit_events (pg_tables s)). i < pg_audit_id s)"

section \<open>Inside a unit of work\<close>

definition good :: "pg \<Rightarrow> pg \<Rightarrow> bool" where
  "good s t \<longleftrightarrow> pg_ok t \<and> pg_connected t \<and> pg_env t = pg_env s \<and> pg_alias_grace t = pg_alias_grace s \<and> pg_scan t = pg_scan s \<and>
     pg_audit_id s \<le> pg_audit_id t"

definition sound :: "(pg, 'a) op \<Rightarrow> bool" where
  "sound m \<longleftrightarrow> (\<forall>s. pg_ok s \<and> pg_connected s \<longrightarrow> wp m (\<lambda>_. good s) (\<lambda>_. good s) s)"

named_theorems sound_intros \<open>operations that keep the schema\<close>

lemma good_refl: "pg_ok s \<Longrightarrow> pg_connected s \<Longrightarrow> good s s"
  by (simp add: good_def)

lemma good_trans: "good s t \<Longrightarrow> good t u \<Longrightarrow> good s u"
  by (auto simp: good_def)

lemma soundI: "(\<And>s. pg_ok s \<Longrightarrow> pg_connected s \<Longrightarrow> wp m (\<lambda>_. good s) (\<lambda>_. good s) s) \<Longrightarrow> sound m"
  by (simp add: sound_def)

lemma sound_wp: "sound m \<Longrightarrow> pg_ok s \<Longrightarrow> pg_connected s \<Longrightarrow> wp m (\<lambda>_. good s) (\<lambda>_. good s) s"
  by (simp add: sound_def)

lemma sound_after: "sound m \<Longrightarrow> good s t \<Longrightarrow> wp m (\<lambda>_. good s) (\<lambda>_. good s) t"
  using good_trans by (auto simp: sound_def good_def elim!: wp_mono)

lemma sound_basic [sound_intros]:
  "sound (ret x)" "sound (raise e)" "sound (check b e)" "sound (of_result c)" "sound (gets f)" "sound pg_utcnow" "sound pg_new_asset_id"
  by (auto intro!: soundI simp: wp_simps good_def pg_ok_def split: sum.split)

lemma sound_bind [sound_intros]: "sound m \<Longrightarrow> (\<And>x. sound (f x)) \<Longrightarrow> sound (bind_op m f)"
  by (rule soundI, unfold wp_bind, rule wp_mono [OF sound_wp]) (auto intro: sound_after)

lemma sound_seq [sound_intros]: "sound m \<Longrightarrow> sound n \<Longrightarrow> sound (seq_op m n)"
  unfolding seq_op_def by (rule sound_bind)

lemma sound_if [sound_intros]: "(b \<Longrightarrow> sound m) \<Longrightarrow> (\<not> b \<Longrightarrow> sound n) \<Longrightarrow> sound (if b then m else n)"
  by simp

lemma sound_option [sound_intros]:
  "(x = None \<Longrightarrow> sound m) \<Longrightarrow> (\<And>y. x = Some y \<Longrightarrow> sound (f y)) \<Longrightarrow> sound (case x of None \<Rightarrow> m | Some y \<Rightarrow> f y)"
  by (cases x) simp_all

lemma sound_Let [sound_intros]: "(\<And>x. sound (f x)) \<Longrightarrow> sound (Let v f)"
  by (simp add: Let_def)

lemma sound_for_each [sound_intros]: "(\<And>x. sound (f x)) \<Longrightarrow> sound (for_each xs f)"
  by (induction xs) (auto intro: sound_intros)

lemma sound_nested [sound_intros]: "sound m \<Longrightarrow> sound (unit_of_work m)"
  by (rule soundI) (simp add: wp_nested sound_wp)

lemma sound_transaction [sound_intros]: "sound m \<Longrightarrow> sound (pg_transaction m)"
proof (rule soundI)
  fix s assume m: "sound m" and s: "pg_ok s" "pg_connected s"
  show "wp (pg_transaction m) (\<lambda>_. good s) (\<lambda>_. good s) s"
    unfolding wp_pg_transaction by (rule wp_mono [OF sound_wp [OF m s]]) (use s in \<open>fastforce simp: good_def pg_ok_def\<close>)+
qed

section \<open>Statements\<close>

definition table_sound :: "(tables, 'a) op \<Rightarrow> bool" where
  "table_sound m \<longleftrightarrow> (\<forall>T. schema_ok T \<longrightarrow>
     wp m (\<lambda>_ T'. schema_ok T' \<and> tb_audit_events T' = tb_audit_events T) (\<lambda>_ T'. T' = T) T)"

lemma sound_execute: "table_sound m \<Longrightarrow> sound (execute m)"
proof (rule soundI)
  fix s assume "table_sound m" and s: "pg_ok s" "pg_connected s"
  then have m: "wp m (\<lambda>_ T'. schema_ok T' \<and> tb_audit_events T' = tb_audit_events (pg_tables s)) (\<lambda>_ T'. T' = pg_tables s) (pg_tables s)"
    by (simp add: table_sound_def pg_ok_def)
  show "wp (execute m) (\<lambda>_. good s) (\<lambda>_. good s) s"
    unfolding wp_execute [OF s(2)] by (rule wp_mono [OF m]) (use s in \<open>auto simp: pg_ok_def good_def\<close>)
qed

lemma in_delete: "x \<in> set (AList.delete k d) \<Longrightarrow> x \<in> set d"
  by (simp add: AList.delete_eq)

lemma table_sound_gets: "table_sound (gets f)"
  by (simp add: table_sound_def wp_simps)

lemma sound_gets [sound_intros]: "sound (execute (gets f))"
  by (rule sound_execute [OF table_sound_gets])

lemma sound_selects [sound_intros]: "sound (execute (select_asset i))" "sound (execute (select_alias_names i))" "sound (execute (select_alias sp a))"
    "sound (execute (select_pending sp x))" "sound (execute (select_physical sp x))" "sound (execute (select_reserved_bytes sp))" "sound (execute (select_assets f P))"
  by (simp_all add: select_asset_def select_alias_names_def select_alias_def select_pending_def select_physical_def select_reserved_bytes_def
      select_assets_def sound_gets)

lemma reference_update: "reference_ok A b \<Longrightarrow> reference_ok (AList.update i row A) b"
  by (auto simp: reference_ok_def split: option.split)

lemma sound_insert_asset [sound_intros]: "sound (execute (insert_asset row))"
  by (rule sound_execute)
    (auto simp: table_sound_def insert_asset_def wp_simps schema_ok_def dest!: in_set_update intro: reference_update)

lemma sound_insert_alias [sound_intros]: "sound (execute (insert_alias b))"
  by (rule sound_execute) (auto simp: table_sound_def insert_alias_def wp_simps schema_ok_def dest!: in_set_update)

lemma sound_update_asset [sound_intros]: "(\<And>row. ar_asset_id (f row) = ar_asset_id row) \<Longrightarrow> sound (execute (update_asset i f))"
  by (rule sound_execute)
    (auto simp: table_sound_def update_asset_def select_asset_def wp_simps schema_ok_def dict_in_iff [symmetric]
      dest!: in_set_update intro: reference_update split: option.split)

lemma sound_update_alias [sound_intros]:
  "(\<And>b. b_space (f b) = b_space b \<and> b_alias (f b) = b_alias b) \<Longrightarrow> sound (execute (update_alias sp a f))"
  by (rule sound_execute)
    (auto simp: table_sound_def update_alias_def select_alias_def wp_simps schema_ok_def dict_in_iff [symmetric]
      dest!: in_set_update split: option.split)

lemma sound_delete_alias [sound_intros]: "sound (execute (delete_alias sp a))"
  by (rule sound_execute) (auto simp: table_sound_def delete_alias_def wp_simps schema_ok_def dest!: in_delete)

lemma sound_tombstones [sound_intros]:
  "sound (execute (modify (\<lambda>t. t\<lparr>tb_tombstones := AList.update k g (tb_tombstones t)\<rparr>)))"
  "sound (execute (modify (\<lambda>t. t\<lparr>tb_tombstones := AList.delete k (tb_tombstones t)\<rparr>)))"
  by (rule sound_execute, auto simp: table_sound_def wp_simps schema_ok_def)+

lemma sound_write_audit [sound_intros]: "sound (write_audit act tgt c out bef aft)"
  by (rule soundI) (fastforce simp: write_audit_def wp_simps good_def pg_ok_def schema_ok_def sorted_append)


section \<open>Quotas\<close>

lemma insert_if_absent_all: "\<forall>x\<in>set d. P x \<Longrightarrow> P (k, v) \<Longrightarrow> \<forall>x\<in>set (insert_if_absent k v d). P x"
  unfolding insert_if_absent_def by (auto dest!: in_set_update split: if_splits)

lemma insert_if_absent_ok [simp]: "dict_ok d \<Longrightarrow> dict_ok (insert_if_absent k v d)"
  by (simp add: insert_if_absent_def)

lemma sound_insert_quota [sound_intros]:
  "sound (execute (modify (\<lambda>t. t\<lparr>tb_partition_quotas := insert_if_absent (sp, p) (default_partition_quota sp p) (tb_partition_quotas t)\<rparr>)))"
  "sound (execute (modify (\<lambda>t. t\<lparr>tb_bucket_quotas := insert_if_absent sp (default_bucket_quota sp) (tb_bucket_quotas t)\<rparr>)))"
  by (rule sound_execute, unfold table_sound_def, intro allI impI, simp add: wp_simps schema_ok_def,
      rule insert_if_absent_all, simp, simp add: default_partition_quota_def default_bucket_quota_def
        partition_row_ok_def bucket_row_ok_def opt_bigint_def in_bigint_def)+

lemma sound_quota_reads [sound_intros]: "sound (pg_partition_quota sp p u)" "sound (pg_bucket_quota sp u)"
  unfolding pg_partition_quota_def pg_bucket_quota_def by (intro sound_intros)+

lemma schema_rows:
  assumes "schema_ok T"
  shows "map_of (tb_partition_quotas T) (sp, p) = Some q \<Longrightarrow> pq_space q = sp \<and> pq_partition_id q = p"
    "map_of (tb_bucket_quotas T) sp = Some b \<Longrightarrow> bq_space b = sp"
  using assms by (auto simp: schema_ok_def dest!: map_of_SomeD)

lemma table_sound_put:
  assumes "schema_ok T"
  shows "pq_space q = sp \<Longrightarrow> pq_partition_id q = p \<Longrightarrow>
      wp (put_partition_row sp p q) (\<lambda>_ T'. schema_ok T' \<and> tb_audit_events T' = tb_audit_events T) (\<lambda>_ T'. T' = T) T"
    "bq_space b = sp \<Longrightarrow>
      wp (put_bucket_row sp b) (\<lambda>_ T'. schema_ok T' \<and> tb_audit_events T' = tb_audit_events T) (\<lambda>_ T'. T' = T) T"
  using assms
  by (auto simp: put_partition_row_def put_bucket_row_def wp_simps schema_ok_def partition_row_ok_def bucket_row_ok_def dest!: in_set_update)

lemma default_names [simp]:
  "pq_space (default_partition_quota sp p) = sp" "pq_partition_id (default_partition_quota sp p) = p" "bq_space (default_bucket_quota sp) = sp"
  by (simp_all add: default_partition_quota_def default_bucket_quota_def)

lemma sound_quota_changes [sound_intros]: "sound (pg_acquire_quota sp p n)" "sound (pg_release_quota sp p n)"
  unfolding pg_acquire_quota_def pg_release_quota_def
  by (intro sound_seq sound_execute; auto simp: table_sound_def wp_simps dest: schema_rows split: option.split intro!: table_sound_put)+

lemma sound_enforce [sound_intros]: "sound (pg_enforce_quota sp p n x)"
  unfolding pg_enforce_quota_def by (intro sound_intros)

lemma sound_load [sound_intros]: "sound (load_asset i)" "sound (load_binding sp a)" "sound (touch_asset i now)"
  unfolding load_asset_def load_binding_def touch_asset_def by (intro sound_intros; simp)+

lemma sound_require_name [sound_intros]: "sound (pg_require_alias_name_available sp a)"
  unfolding pg_require_alias_name_available_def by (intro sound_intros)

lemma sound_mark [sound_intros]: "sound (pg_mark_for_gc_if_orphaned i c)"
  unfolding pg_mark_for_gc_if_orphaned_def by (intro sound_intros; simp)

lemma sound_transition [sound_intros]: "sound (transition_out_of_available i c ss st act)"
  unfolding transition_out_of_available_def by (intro sound_intros; simp)

lemma sound_quota_gets [sound_intros]: "sound (pg_get_partition_quota sp p)" "sound (pg_get_bucket_quota sp)"
  unfolding pg_get_partition_quota_def pg_get_bucket_quota_def by (intro sound_intros)+


lemma sound_bind_result:
  "sound m \<Longrightarrow> (\<And>s. pg_connected s \<Longrightarrow> wp m (\<lambda>x _. P x) (\<lambda>_ _. True) s) \<Longrightarrow> (\<And>x. P x \<Longrightarrow> sound (f x)) \<Longrightarrow> sound (bind_op m f)"
  by (rule soundI, unfold wp_bind, rule wp_mono [OF wp_conj [OF sound_wp]]) (auto intro: sound_after)

lemma quota_names:
  "pg_connected s \<Longrightarrow> wp (pg_partition_quota sp p u) (\<lambda>q _. pq_space q = sp \<and> pq_partition_id q = p) (\<lambda>_ _. True) s"
  "pg_connected s \<Longrightarrow> wp (pg_bucket_quota sp u) (\<lambda>q _. bq_space q = sp) (\<lambda>_ _. True) s"
  by (auto simp: pg_partition_quota_def pg_bucket_quota_def wp_simps split: option.split)

section \<open>Every call\<close>

lemma sound_set_quotas [sound_intros]:
  "sound (pg_set_partition_quota sp p qb qc sw c)" "sound (pg_set_bucket_quota sp qb w h)"
  unfolding pg_set_partition_quota_def pg_set_bucket_quota_def
  by (intro sound_intros sound_bind_result [OF _ quota_names(1)] sound_bind_result [OF _ quota_names(2)] sound_execute;
      auto simp: table_sound_def wp_simps dest: schema_rows split: option.split intro!: table_sound_put)+

lemma sound_bind_alias [sound_intros]: "sound (pg_bind_alias sp i now own q)"
  unfolding pg_bind_alias_def by (intro sound_intros)

lemma sound_asset_lock [sound_intros]: "(\<And>a. sound (f a)) \<Longrightarrow> sound (pg_asset_lock i f)"
  unfolding pg_asset_lock_def by (intro sound_intros)

lemma sound_calls [sound_intros]:
  "sound (pg_reserve_asset sp p al own m ann ev ttl rb)" "sound (pg_attach_alias i x mut c)" "sound (pg_commit_asset i n cs c m ec)"
  "sound (pg_update_annotations i patch c ow)" "sound (pg_resolve_alias sp x)" "sound (pg_detach_alias sp x c)"
  "sound (pg_detach_mutable_alias sp x c)" "sound (pg_rebind_alias sp x i c)" "sound (pg_expire_asset i c)" "sound (pg_delete_asset i c)"
  "sound (pg_set_eviction_policy i ev c)" "sound (pg_record_read i)" "sound (pg_lifecycle_update a st now reason pd)"
  "sound (pg_set_asset_ttl i n c)" "sound (pg_record_capability_issue c op sp n out cid)" "sound (pg_get_asset i)" "sound pg_list_assets"
  "sound (pg_query_assets q)" "sound (pg_reserved_upload_bytes sp)" "sound pg_audit_events" "sound (pg_recent_audit target k)"
  unfolding pg_reserve_asset_def pg_attach_alias_def pg_commit_asset_def pg_update_annotations_def pg_resolve_alias_def pg_detach_alias_def
    pg_detach_mutable_alias_def pg_rebind_alias_def pg_expire_asset_def pg_delete_asset_def pg_set_eviction_policy_def pg_record_read_def
    pg_lifecycle_update_def pg_set_asset_ttl_def pg_record_capability_issue_def pg_get_asset_def pg_list_assets_def pg_query_assets_def
    pg_reserved_upload_bytes_def pg_audit_events_def pg_recent_audit_def
  by (intro sound_intros; simp)+

lemma sound_answer: "sound (pg_answer q)"
proof (cases q)
  case (Call c)
  then show ?thesis by (cases c) (auto simp: reply_with_def void_def intro!: sound_intros)
qed (auto simp: reply_with_def intro!: sound_intros)

section \<open>Whole units\<close>

lemma unit_eval:
  "unit_of_work m s =
     (if pg_connected s then m s
      else if \<not> pg_pool s (pg_checkouts s) then
        (Inl RegistryUnavailableError, s\<lparr>pg_checkouts := Suc (pg_checkouts s), pg_unavailable := Suc (pg_unavailable s)\<rparr>)
      else case pg_transaction m (checked_out s) of
        (Inl e, t) \<Rightarrow> (Inl e, finished ''rolled_back'' t)
      | (Inr x, t) \<Rightarrow> (Inr x, finished ''committed'' t))"
  by (simp add: unit_of_work_def bind_op_def seq_op_def gets_def modify_def try_op_def pg_getconn_def pg_finish_def ret_def raise_def
      checked_out_def finished_def split: prod.split sum.split)

lemma unit_again: "unit_of_work (unit_of_work m) = unit_of_work m"
proof
  fix s
  have "pg_transaction (unit_of_work m) (checked_out s) = pg_transaction m (checked_out s)"
    by (simp add: pg_transaction_def unit_eval checked_out_def)
  then show "unit_of_work (unit_of_work m) s = unit_of_work m s"
    unfolding unit_eval [of "unit_of_work m"] unit_eval [of m] by simp
qed

text \<open>Between calls no connection is held.\<close>

definition at_rest :: "pg \<Rightarrow> pg \<Rightarrow> bool" where
  "at_rest s t \<longleftrightarrow> pg_ok t \<and> \<not> pg_connected t \<and> pg_env t = pg_env s \<and> pg_alias_grace t = pg_alias_grace s \<and> pg_scan t = pg_scan s"

lemma wp_unit_atomic:
  assumes m: "sound m" "m = unit_of_work m" and s: "pg_ok s" "\<not> pg_connected s"
  shows "wp m (\<lambda>_. at_rest s) (\<lambda>_ t. at_rest s t \<and> pg_tables t = pg_tables s) s"
proof (cases "pg_pool s (pg_checkouts s)")
  case True
  have c: "pg_ok (checked_out s)" "pg_connected (checked_out s)" using s(1) by (simp_all add: checked_out_def pg_ok_def)
  show ?thesis
    by (subst m(2), unfold wp_unit_of_work [OF s(2) True], rule wp_mono [OF sound_wp [OF m(1) c]])
      (use s in \<open>fastforce simp: good_def at_rest_def finished_def checked_out_def pg_ok_def\<close>)+
next
  case False
  then show ?thesis
    by (subst m(2)) (use s in \<open>simp add: unit_of_work_def wp_simps at_rest_def pg_ok_def\<close>)
qed

lemma unit_map: "bind_op (unit_of_work m) (\<lambda>x. ret (f x)) = unit_of_work (bind_op m (\<lambda>x. ret (f x)))"
proof
  fix s show "bind_op (unit_of_work m) (\<lambda>x. ret (f x)) s = unit_of_work (bind_op m (\<lambda>x. ret (f x))) s"
    by (simp add: bind_op_def unit_eval pg_transaction_def ret_def split: prod.split sum.split)
qed

lemma wp_reply_with [wp_simps]: "wp (reply_with f m) Q E s = wp m (\<lambda>x. Q (f x)) E s"
  by (simp add: reply_with_def wp_simps)

lemmas unit_defs = pg_reserve_asset_def pg_attach_alias_def pg_commit_asset_def pg_update_annotations_def pg_resolve_alias_def pg_detach_alias_def
    pg_detach_mutable_alias_def pg_rebind_alias_def pg_expire_asset_def pg_delete_asset_def pg_set_eviction_policy_def pg_record_read_def
    pg_lifecycle_update_def pg_set_asset_ttl_def pg_record_capability_issue_def pg_get_asset_def pg_list_assets_def pg_query_assets_def
    pg_set_partition_quota_def pg_set_bucket_quota_def pg_get_partition_quota_def pg_get_bucket_quota_def
    pg_reserved_upload_bytes_def pg_audit_events_def pg_recent_audit_def

lemma call_units:
  "pg_reserve_asset sp p al own m ann ev ttl rb = unit_of_work (pg_reserve_asset sp p al own m ann ev ttl rb)"
  "pg_attach_alias i x mut c = unit_of_work (pg_attach_alias i x mut c)"
  "pg_commit_asset i n cs c m ec = unit_of_work (pg_commit_asset i n cs c m ec)"
  "pg_update_annotations i patch c ow = unit_of_work (pg_update_annotations i patch c ow)"
  "pg_resolve_alias sp x = unit_of_work (pg_resolve_alias sp x)"
  "pg_detach_alias sp x c = unit_of_work (pg_detach_alias sp x c)"
  "pg_detach_mutable_alias sp x c = unit_of_work (pg_detach_mutable_alias sp x c)"
  "pg_rebind_alias sp x i c = unit_of_work (pg_rebind_alias sp x i c)"
  "pg_expire_asset i c = unit_of_work (pg_expire_asset i c)"
  "pg_delete_asset i c = unit_of_work (pg_delete_asset i c)"
  "pg_set_eviction_policy i ev c = unit_of_work (pg_set_eviction_policy i ev c)"
  "pg_record_read i = unit_of_work (pg_record_read i)"
  "pg_lifecycle_update a st now reason pd = unit_of_work (pg_lifecycle_update a st now reason pd)"
  "pg_set_asset_ttl i n c = unit_of_work (pg_set_asset_ttl i n c)"
  "pg_record_capability_issue c op sp n out cid = unit_of_work (pg_record_capability_issue c op sp n out cid)"
  "pg_get_asset i = unit_of_work (pg_get_asset i)"
  "pg_list_assets = unit_of_work (pg_list_assets)"
  "pg_query_assets q = unit_of_work (pg_query_assets q)"
  "pg_set_partition_quota sp p qb qc sw c = unit_of_work (pg_set_partition_quota sp p qb qc sw c)"
  "pg_set_bucket_quota sp qb w h = unit_of_work (pg_set_bucket_quota sp qb w h)"
  "pg_get_partition_quota sp p = unit_of_work (pg_get_partition_quota sp p)"
  "pg_get_bucket_quota sp = unit_of_work (pg_get_bucket_quota sp)"
  "pg_reserved_upload_bytes sp = unit_of_work (pg_reserved_upload_bytes sp)"
  "pg_audit_events = unit_of_work pg_audit_events"
  "pg_recent_audit target k = unit_of_work (pg_recent_audit target k)"
  by (unfold unit_defs) (rule unit_again [symmetric])+

lemma mapped_unit:
  "m = unit_of_work m \<Longrightarrow> bind_op m (\<lambda>x. ret (f x)) = unit_of_work (bind_op m (\<lambda>x. ret (f x)))"
  by (metis unit_map)

lemma wp_answer_atomic:
  assumes "pg_ok s" "\<not> pg_connected s"
  shows "wp (pg_answer q) (\<lambda>_. at_rest s) (\<lambda>_ t. at_rest s t \<and> pg_tables t = pg_tables s) s"
proof (cases q)
  case (Call c)
  show ?thesis
  proof (cases c)
    case ReadClock
    with Call assms show ?thesis by (simp add: wp_simps wp_void at_rest_def pg_ok_def)
  qed (auto simp: Call wp_reply_with intro!: wp_unit_atomic sound_intros call_units assms)
qed (auto simp: wp_reply_with intro!: wp_unit_atomic sound_intros call_units mapped_unit assms)

inductive pg_reachable :: "pg \<Rightarrow> bool" where
  new: "init_pg empty_tables 1 g env clock uuids pool scan = Inr s \<Longrightarrow> pg_reachable s"
| answer: "pg_reachable s \<Longrightarrow> pg_reachable (snd (pg_answer q s))"

lemma pg_reachable_ok: "pg_reachable s \<Longrightarrow> pg_ok s \<and> \<not> pg_connected s"
proof (induction rule: pg_reachable.induct)
  case (new g env clock uuids pool scan s)
  then show ?case
    by (auto simp: init_pg_def Let_def pg_ok_def schema_ok_def empty_tables_def split: option.splits if_splits)
next
  case (answer s q)
  then have "wp (pg_answer q) (\<lambda>_. at_rest s) (\<lambda>_. at_rest s) s" by (intro wp_mono [OF wp_answer_atomic]) auto
  then have "at_rest s (snd (pg_answer q s))" by (rule wp_snd)
  then show ?case by (simp add: at_rest_def)
qed

end
