(* ===== verification/Pg_Refine.thy ===== *)
theory Pg_Refine
  imports Pg_Reserve Pg_Schema
begin

text \<open>
  The behavioural parity that the Postgres registry promises: from new registries, any sequence of requests at
  nondecreasing instants gets the same replies and errors from both, within the limits that
  \<open>request_ok\<close> names.
\<close>

section \<open>Listing\<close>

lemma insort_map: "insort_key f (g x) (map g xs) = map g (insort_key (\<lambda>x. f (g x)) x xs)"
  by (induction xs) auto

lemma sort_map: "sort_key f (map g xs) = map g (sort_key (\<lambda>x. f (g x)) xs)"
  by (induction xs) (simp_all add: sort_key_def insort_map)

lemma prefix_take: "prefix xs ys \<longleftrightarrow> take (length xs) ys = xs"
  by (metis append_eq_conv_conj prefix_def)

lemma matches_loaded:
  assumes al: "aligned t r s" and row: "row \<in> set (dict_values (tb_assets (pg_tables s)))"
  shows "matches q (loaded (tb_aliases (pg_tables s)) row) = row_matches q (tb_aliases (pg_tables s)) row"
proof -
  note d = alignedD [OF al] alignedD_aliases [OF al]
  let ?als = "tb_aliases (pg_tables s)"
  obtain i where i: "map_of (tb_assets (pg_tables s)) i = Some row"
    using row dict_values_iff [OF rel_keys(1) [OF d(1,9)], of row] by auto
  note id = rel_asset(2) [OF d(1,9) i]
  have space: "b_space b = ar_space row" if "b \<in> set (dict_values ?als)" "b_asset_id b = Some i" for b
  proof -
    note b = that
    obtain sp a where k: "map_of ?als (sp, a) = Some b" using b(1) dict_values_iff [OF d(11), of b] by auto
    then show ?thesis using bound_row [OF al k b(2)] aliases_rel_row [OF d(12) k] i by (metis option.inject)
  qed
  have "(\<exists>k \<in> qualified_names (ar_space row) (alias_names ?als i). prefix_matches k p) \<longleftrightarrow>
      (\<exists>n \<in> set (dict_values ?als). b_asset_id n = Some i \<and> prefix_matches (b_space n @ ''/'' @ b_alias n) p)" for p
    using space by (auto simp: qualified_names_def alias_names_def)
  moreover have "prefix_matches x p \<longleftrightarrow> x = p \<or> take (length (p @ ''/'')) x = p @ ''/''" for x p
    unfolding prefix_matches_def prefix_take ..
  ultimately have names: "(\<exists>k \<in> qualified_names (ar_space row) (alias_names ?als i). prefix_matches k p) \<longleftrightarrow>
      list_ex (\<lambda>n. b_asset_id n = Some i \<and> (b_space n @ ''/'' @ b_alias n = p \<or>
         take (length (p @ ''/'')) (b_space n @ ''/'' @ b_alias n) = p @ ''/'')) (dict_values ?als)" for p
    unfolding list_ex_iff by simp
  have opt: "(x = None \<or> x = Some v) \<longleftrightarrow> (case x of None \<Rightarrow> True | Some w \<Rightarrow> v = w)" for x and v :: 'x by (cases x) auto
  show ?thesis unfolding matches_def row_matches_def loaded_simps id names opt ..
qed

lemma parity_query_assets:
  assumes "ready t r s"
  shows "parity t (query_assets q) (pg_query_assets q) r s"
  unfolding pg_query_assets_def
proof (rule parity_unit [OF assms], goal_cases)
  case 1
  note d = alignedD [OF 1]
  let ?rows = "dict_values (tb_assets (pg_tables s))" and ?als = "tb_aliases (pg_tables s)"
  have vals: "dict_values (r_assets r) = map (loaded ?als) ?rows"
    using d(1) by (auto simp: rel_def dest: assets_rel_values)
  have key: "asset_key (loaded ?als row) = row_key row" for row by (simp add: asset_key_def row_key_def)
  have "filter (\<lambda>a. matches q a \<and> P (asset_key a)) (sort_key asset_key (dict_values (r_assets r))) =
      map (loaded ?als) (sort_key row_key (filter (\<lambda>row. row_matches q ?als row \<and> P (row_key row)) ?rows))" for P
    unfolding vals sort_map key filter_map filter_sort [symmetric]
    by (intro arg_cong [where f = "map (loaded ?als)"] filter_cong refl) (simp add: matches_loaded [OF 1] key)
  note rows = this [of "\<lambda>k. case start of None \<Rightarrow> True | Some k' \<Rightarrow> k' < k" for start]
  show ?case
    using d(1) by (simp add: parity_defs query_assets_def rows take_map flip: alias_names_def loaded_def split: sum.split)
qed

text \<open>Rows that come in any order are still these rows.\<close>

definition scan_ok :: "pg \<Rightarrow> bool" where
  "scan_ok s \<longleftrightarrow> (\<forall>n rows. mset (pg_scan s n rows) = mset rows)"

lemma parity_list_assets:
  assumes "ready t r s" and "scan_ok s"
  shows "parity t (bind_op list_assets (\<lambda>assets. ret (mset assets))) (bind_op pg_list_assets (\<lambda>assets. ret (mset assets))) r s"
  unfolding pg_list_assets_def unit_map
proof (rule parity_unit [OF assms(1)], goal_cases)
  case 1
  note d = alignedD [OF 1]
  let ?f = "loaded (tb_aliases (pg_tables s))" and ?rows = "filter (\<lambda>row. ar_payload_deleted_at row = None) (dict_values (tb_assets (pg_tables s)))"
  have "dict_values (r_assets r) = map ?f (dict_values (tb_assets (pg_tables s)))"
    using d(1) by (auto simp: rel_def dest: assets_rel_values)
  then have mem: "filter (\<lambda>a. a_payload_deleted_at a = None) (dict_values (r_assets r)) = map ?f ?rows" by (simp add: filter_map o_def)
  have "mset (map ?f (pg_scan s n ?rows)) = mset (map ?f ?rows)" for n
    using assms(2) by (simp add: scan_ok_def)
  then show ?case
    using d(1) by (simp add: parity_defs list_assets_def select_assets_def mem checked_out_def flip: alias_names_def loaded_def)
qed

section \<open>Sums and the audit log\<close>

lemma parity_reserved_upload_bytes:
  assumes "ready t r s" and n: "normalize_space sp = Inr n"
  shows "parity t (reserved_upload_bytes sp) (pg_reserved_upload_bytes sp) r s"
  unfolding pg_reserved_upload_bytes_def
proof (rule parity_unit [OF assms(1)], goal_cases)
  case 1
  note d = alignedD [OF 1]
  have "dict_values (r_assets r) = map (loaded (tb_aliases (pg_tables s))) (dict_values (tb_assets (pg_tables s)))"
    using d(1) by (auto simp: rel_def dest: assets_rel_values)
  then show ?case
    using d(1) by (auto simp: parity_defs reserved_upload_bytes_def select_reserved_bytes_def n reserved_sum_def sql_sum_or_zero filter_map o_def)
qed

lemma audit_log: "rel t r T \<Longrightarrow> sorted (map fst (tb_audit_events T)) \<Longrightarrow>
    r_audit_events r = map snd (tb_audit_events T) \<and> sort_key fst (tb_audit_events T) = tb_audit_events T \<and>
    sort_key fst (filter P (tb_audit_events T)) = filter P (tb_audit_events T)"
  by (simp add: rel_def sort_key_id_if_sorted sorted_filter)

lemma parity_audit_events:
  assumes "ready t r s" and "pg_ok s"
  shows "parity t (gets r_audit_events) pg_audit_events r s"
  unfolding pg_audit_events_def
proof (rule parity_unit [OF assms(1)], goal_cases)
  case 1
  note d = alignedD(1) [OF 1]
  then show ?case using audit_log [OF d] assms(2) by (simp add: parity_defs pg_ok_def)
qed

lemma parity_recent_audit:
  assumes "ready t r s" and "pg_ok s"
  shows "parity t (recent_audit i n) (pg_recent_audit i n) r s"
  unfolding pg_recent_audit_def
proof (rule parity_unit [OF assms(1)], goal_cases)
  case 1
  note d = alignedD(1) [OF 1]
  have last_of: "rev (map snd (take k (rev xs))) = drop (length xs - k) (map snd xs)" for k and xs :: "(int \<times> audit_event) list"
    by (simp add: take_rev rev_map drop_map)
  show ?case
    using d audit_log [OF d] assms(2)
    by (simp add: parity_defs pg_ok_def recent_audit_def last_of filter_map o_def split_def)
qed

section \<open>Two systems in lockstep\<close>

text \<open>
  A step takes an environment and a request to a reply and a new state. \<open>proper\<close> says that every request of a
  sequence is allowed when its turn comes and that the environments follow each other.
\<close>

fun replay :: "('e \<Rightarrow> 'c \<Rightarrow> 'a \<Rightarrow> 'o \<times> 'a) \<Rightarrow> ('e \<times> 'c) list \<Rightarrow> 'a \<Rightarrow> 'o list \<times> 'a" where
  "replay step [] a = ([], a)"
| "replay step ((e, c) # rest) a = (case step e c a of (x, b) \<Rightarrow> (case replay step rest b of (xs, d) \<Rightarrow> (x # xs, d)))"

fun proper :: "('e \<Rightarrow> 'e \<Rightarrow> bool) \<Rightarrow> ('e \<Rightarrow> 'c \<Rightarrow> 'a \<Rightarrow> bool) \<Rightarrow> ('e \<Rightarrow> 'c \<Rightarrow> 'a \<Rightarrow> 'o \<times> 'a) \<Rightarrow> 'e \<Rightarrow> ('e \<times> 'c) list \<Rightarrow> 'a \<Rightarrow> bool" where
  "proper earlier allowed step e0 [] a = True"
| "proper earlier allowed step e0 ((e, c) # rest) a =
     (earlier e0 e \<and> allowed e c a \<and> proper earlier allowed step e rest (snd (step e c a)))"

locale lockstep =
  fixes step1 :: "'e \<Rightarrow> 'c \<Rightarrow> 'a \<Rightarrow> 'o \<times> 'a"
    and step2 :: "'e \<Rightarrow> 'c \<Rightarrow> 'b \<Rightarrow> 'o \<times> 'b"
    and linked :: "'e \<Rightarrow> 'a \<Rightarrow> 'b \<Rightarrow> bool"
    and allowed :: "'e \<Rightarrow> 'c \<Rightarrow> 'a \<Rightarrow> bool"
    and earlier :: "'e \<Rightarrow> 'e \<Rightarrow> bool"
  assumes same_reply: "linked e a b \<Longrightarrow> allowed e c a \<Longrightarrow> fst (step1 e c a) = fst (step2 e c b)"
    and still_linked: "linked e a b \<Longrightarrow> allowed e c a \<Longrightarrow> linked e (snd (step1 e c a)) (snd (step2 e c b))"
    and linked_later: "linked e a b \<Longrightarrow> earlier e e' \<Longrightarrow> linked e' a b"
begin

lemma replay_linked:
  "linked e0 a b \<Longrightarrow> proper earlier allowed step1 e0 trace a \<Longrightarrow>
   fst (replay step1 trace a) = fst (replay step2 trace b) \<and> (\<exists>e. linked e (snd (replay step1 trace a)) (snd (replay step2 trace b)))"
proof (induction trace arbitrary: e0 a b)
  case (Cons ec rest)
  obtain e c where ec: "ec = (e, c)" by (cases ec)
  have here: "linked e a b" "allowed e c a" "proper earlier allowed step1 e rest (snd (step1 e c a))"
    using Cons.prems linked_later by (auto simp: ec)
  then show ?case
    using Cons.IH [OF still_linked [OF here(1,2)] here(3)] same_reply [OF here(1,2)]
    by (auto simp: ec split: prod.split)
qed auto

end

section \<open>One request\<close>

text \<open>Numbers the database can hold, with room for the additions of one call.\<close>

definition modest :: "registry \<Rightarrow> bool" where
  "modest r \<longleftrightarrow>
     list_all (\<lambda>(k, q). small (pq_used_bytes q) \<and> small (pq_used_asset_count q)) (r_partition_quotas r) \<and>
     list_all (\<lambda>(k, q). small (bq_used_bytes q)) (r_bucket_quotas r) \<and>
     list_all (\<lambda>(i, a). small (or_zero (a_size_bytes a)) \<and> small (a_read_count a)) (r_assets r)"

lemma modest_roomy: "modest r \<Longrightarrow> roomy (r_partition_quotas r) (r_bucket_quotas r)"
  by (fastforce simp: modest_def roomy_def list_all_iff quota_at_def bucket_at_def small_def default_partition_quota_def default_bucket_quota_def
      split: option.split dest!: map_of_SomeD)

lemma modest_asset: "modest r \<Longrightarrow> map_of (r_assets r) i = Some a \<Longrightarrow> small (or_zero (a_size_bytes a)) \<and> small (a_read_count a)"
  by (fastforce simp: modest_def list_all_iff dest!: map_of_SomeD)

definition distinct_names :: "string \<Rightarrow> alias_specs \<Rightarrow> bool" where
  "distinct_names p al =
     (case normalize_partition_id p of
        Inl _ \<Rightarrow> True
      | Inr np \<Rightarrow> (case normalize_alias_specs al of
          Inl _ \<Rightarrow> True
        | Inr specs \<Rightarrow> distinct (map (\<lambda>q. under_partition np (fst q)) specs)))"

text \<open>
  Where the two may differ: a name that changes when it is normalised twice, two names of a reservation that
  fall together under the partition, a number beyond \<open>bigint\<close>, the record of a read of an unknown asset, and
  the reserved bytes of a bucket that does not exist.
\<close>

fun call_ok :: "registry \<Rightarrow> call \<Rightarrow> bool" where
  "call_ok r (ReserveAsset sp p al own m ann ev ttl rb) =
     (settles p \<and> list_all (\<lambda>q. settles (fst q)) (alias_items al) \<and> distinct_names p al \<and> (case rb of None \<Rightarrow> True | Some n \<Rightarrow> small n))"
| "call_ok r (AttachAlias i al mut c) = settles al"
| "call_ok r (CommitAsset i n cs c m ec) = (n < 2 ^ 62)"
| "call_ok r (ResolveAlias sp al) = settles al"
| "call_ok r (DetachAlias sp al c) = settles al"
| "call_ok r (DetachMutableAlias sp al c) = settles al"
| "call_ok r (RebindAlias sp al i c) = settles al"
| "call_ok r (SetPartitionQuota sp p qb qc sw c) = (settles p \<and> opt_bigint qb \<and> opt_bigint qc)"
| "call_ok r (SetBucketQuota sp qb w h) = opt_bigint qb"
| "call_ok r (RecordRead i) = (map_of (r_assets r) i \<noteq> None)"
| "call_ok r _ = True"

fun request_ok :: "registry \<Rightarrow> registry_request \<Rightarrow> bool" where
  "request_ok r (Call c) = call_ok r c"
| "request_ok r (ReservedUploadBytes sp) = (case normalize_space sp of Inl _ \<Rightarrow> False | Inr _ \<Rightarrow> True)"
| "request_ok r _ = True"

lemma parity_reply: "parity t m n r s \<Longrightarrow> parity t (reply_with f m) (reply_with f n) r s"
  by (auto simp: parity_def reply_with_def bind_op_def ret_def split: prod.splits sum.splits)

lemma parity_commit_any:
  assumes "ready t r s" and "n < 2 ^ 62"
  shows "parity t (commit_asset i n cs c m ec) (pg_commit_asset i n cs c m ec) r s"
proof (cases "0 \<le> n")
  case True
  then show ?thesis using assms by (intro parity_commit_asset) (simp_all add: small_def)
next
  case False
  show ?thesis
    unfolding pg_commit_asset_def
  proof (rule parity_unit [OF assms(1)], goal_cases)
    case 1
    with False show ?case using alignedD(1) [OF 1] by (simp add: parity_defs commit_asset_def)
  qed
qed

lemma parity_clock: "ready t r s \<Longrightarrow> parity t (void utcnow) (void pg_utcnow) r s"
  by (simp add: parity_def void_def seq_op_def bind_op_def ret_def utcnow_def pg_utcnow_def ready_def alignedD(1))

lemmas parity_calls = parity_attach_alias parity_commit_any parity_update_annotations parity_resolve_alias parity_detach_alias
  parity_detach_mutable_alias parity_rebind_alias parity_expire_asset parity_delete_asset parity_set_eviction_policy
  parity_set_partition_quota parity_set_bucket_quota parity_lifecycle_update parity_record_capability_issue parity_clock
  parity_get_asset parity_list_assets parity_query_assets parity_get_partition_quota parity_get_bucket_quota
  parity_reserved_upload_bytes parity_audit_events parity_recent_audit

lemma parity_request:
  assumes "ready t r s" "modest r" "request_ok r q" "pg_ok s" "scan_ok s"
  shows "parity t (mem_answer q) (pg_answer q) r s"
proof (cases q)
  case (Call c)
  show ?thesis
  proof (cases c)
    case (ReserveAsset sp p al own m ann ev ttl rb)
    then show ?thesis
      using assms Call
      by (auto simp: distinct_names_def list_all_iff intro!: parity_reply parity_reserve_asset split: option.splits)
  next
    case (RecordRead i)
    then show ?thesis using assms Call modest_asset by (auto intro!: parity_reply parity_record_read)
  next
    case (SetAssetTtl i ttl c)
    then show ?thesis using assms Call modest_asset by (auto intro!: parity_reply parity_set_asset_ttl)
  qed (use assms Call in \<open>auto intro!: parity_reply parity_calls\<close>)
qed (use assms in \<open>auto intro!: parity_reply parity_calls split: sum.splits\<close>)

section \<open>All requests\<close>

text \<open>
  The environment of a request: the instant, which both registries read, and the identifier that
  \<open>uuid\<close> returns to a reservation. The pool has a connection.
\<close>

type_synonym moment = "datetime \<times> string"

definition mem_at :: "datetime \<Rightarrow> registry \<Rightarrow> registry" where
  "mem_at t r = r\<lparr>r_clock := \<lambda>_. t\<rparr>"

definition pg_at :: "moment \<Rightarrow> pg \<Rightarrow> pg" where
  "pg_at e s = s\<lparr>pg_clock := \<lambda>_. fst e, pg_uuids := \<lambda>_. snd e, pg_pool := \<lambda>_. True\<rparr>"

definition mem_step :: "moment \<Rightarrow> registry_request \<Rightarrow> registry \<Rightarrow> (error + registry_reply) \<times> registry" where
  "mem_step e q r = mem_answer q (mem_at (fst e) r)"

definition pg_step :: "moment \<Rightarrow> registry_request \<Rightarrow> pg \<Rightarrow> (error + registry_reply) \<times> pg" where
  "pg_step e q s = pg_answer q (pg_at e s)"

definition not_later :: "moment \<Rightarrow> moment \<Rightarrow> bool" where
  "not_later e e' \<longleftrightarrow> fst e \<le> fst e'"

definition error_of :: "error + 'a \<Rightarrow> error option" where
  "error_of result = (case result of Inl e \<Rightarrow> Some e | Inr _ \<Rightarrow> None)"

lemma error_of_iff [simp]: "error_of result = Some e \<longleftrightarrow> result = Inl e"
  by (simp add: error_of_def split: sum.split)

text \<open>After an \<open>OverflowError\<close> the in-memory registry may have done half of a call.\<close>

definition admissible :: "moment \<Rightarrow> registry_request \<Rightarrow> registry \<Rightarrow> bool" where
  "admissible e q r \<longleftrightarrow> modest r \<and> request_ok r q \<and> snd e = r_uuids r (r_next_uuid r) \<and> error_of (fst (mem_step e q r)) \<noteq> Some OverflowError"

definition mirrors :: "moment \<Rightarrow> registry \<Rightarrow> pg \<Rightarrow> bool" where
  "mirrors e r s \<longleftrightarrow> rel (fst e) r (pg_tables s) \<and> reg_inv r \<and> pg_ok s \<and> \<not> pg_connected s \<and>
     pg_env s = r_env r \<and> pg_alias_grace s = r_alias_grace r \<and> scan_ok s"

lemma mem_at_simps [simp]:
  "r_assets (mem_at t r) = r_assets r" "r_env (mem_at t r) = r_env r" "r_alias_grace (mem_at t r) = r_alias_grace r"
  "r_uuids (mem_at t r) = r_uuids r" "r_next_uuid (mem_at t r) = r_next_uuid r" "r_clock (mem_at t r) n = t"
  "reg_inv (mem_at t r) = reg_inv r" "modest (mem_at t r) = modest r" "rel t' (mem_at t r) T = rel t' r T"
  "r_partition_quotas (mem_at t r) = r_partition_quotas r" "r_bucket_quotas (mem_at t r) = r_bucket_quotas r"
  by (simp_all add: mem_at_def reg_inv_def modest_def rel_def)

lemma pg_at_simps [simp]:
  "pg_tables (pg_at e s) = pg_tables s" "pg_env (pg_at e s) = pg_env s" "pg_alias_grace (pg_at e s) = pg_alias_grace s"
  "pg_connected (pg_at e s) = pg_connected s" "pg_clock (pg_at e s) n = fst e" "pg_uuids (pg_at e s) n = snd e" "pg_pool (pg_at e s) n"
  "pg_ok (pg_at e s) = pg_ok s" "pg_scan (pg_at e s) = pg_scan s" "scan_ok (pg_at e s) = scan_ok s"
  by (simp_all add: pg_at_def pg_ok_def scan_ok_def)

lemma request_ok_at: "request_ok (mem_at t r) q = request_ok r q"
proof (cases q)
  case (Call c)
  then show ?thesis by (cases c) simp_all
qed simp_all

lemma mem_frame:
  assumes "reg_inv r"
  shows "reg_inv (snd (mem_answer q r)) \<and> r_env (snd (mem_answer q r)) = r_env r \<and> r_alias_grace (snd (mem_answer q r)) = r_alias_grace r"
proof (cases q)
  case (Call c)
  have "snd (mem_call c r) = snd (exec_call c r)"
    by (cases c) (simp_all add: reply_with_def void_def seq_op_def bind_op_def ret_def split: prod.split sum.split)
  then show ?thesis
    using Call keeps_exec_call [of c] exec_call_step_ok [OF assms, of c] assms by (simp add: keeps_inv_def step_ok_def evolves_def)
qed (use assms in \<open>simp_all add: reply_with_def bind_op_def ret_def get_asset_def gets_def list_assets_def query_assets_def of_result_def raise_def
    get_partition_quota_def get_bucket_quota_def partition_quota_of_def bucket_quota_of_def reserved_upload_bytes_def recent_audit_def
    seq_op_def check_def Let_def split: sum.split option.split\<close>)

lemma tombs_later: "tombs_rel t D tombs \<Longrightarrow> t \<le> t' \<Longrightarrow> tombs_rel t' D tombs"
  unfolding tombs_rel_def by (meson order_le_less_trans)

lemma rel_later: "rel t r T \<Longrightarrow> t \<le> t' \<Longrightarrow> rel t' r T"
  by (auto simp: rel_def intro: tombs_later)

lemma mirrors_step:
  assumes "mirrors e r s" "admissible e q r"
  shows "fst (mem_step e q r) = fst (pg_step e q s) \<and> mirrors e (snd (mem_step e q r)) (snd (pg_step e q s))"
proof -
  let ?r = "mem_at (fst e) r" and ?s = "pg_at e s"
  have "ready (fst e) ?r ?s"
    using assms modest_roomy [of r] by (simp add: ready_def aligned_def mirrors_def admissible_def)
  then have p: "parity (fst e) (mem_answer q) (pg_answer q) ?r ?s"
    using assms by (intro parity_request) (simp_all add: admissible_def request_ok_at mirrors_def)
  have "wp (pg_answer q) (\<lambda>_. at_rest ?s) (\<lambda>_. at_rest ?s) ?s"
    using assms(1) by (intro wp_mono [OF wp_answer_atomic]) (auto simp: mirrors_def)
  then have "at_rest ?s (snd (pg_answer q ?s))" by (rule wp_snd)
  then show ?thesis
    using p assms mem_frame [of ?r q] by (simp add: parity_def mem_step_def pg_step_def mirrors_def at_rest_def admissible_def scan_ok_def)
qed

lemma mirrors_later: "mirrors e r s \<Longrightarrow> not_later e e' \<Longrightarrow> mirrors e' r s"
  by (auto simp: mirrors_def not_later_def intro: rel_later)

interpretation registries: lockstep mem_step pg_step mirrors admissible not_later
  using mirrors_step mirrors_later by unfold_locales blast+

lemma mirrors_new:
  assumes "uuid_source_ok uuids" "init_registry g env clock uuids = Inr r" "init_pg empty_tables i g env clock' uuids' pool scan = Inr s"
    "\<forall>n rows. mset (scan n rows) = mset rows"
  shows "mirrors e r s"
proof -
  have "reg_inv r" using assms(1,2) by (rule reg_inv_init [rotated])
  with assms show ?thesis
    by (auto simp: mirrors_def init_registry_def init_pg_def Let_def rel_def assets_rel_def aliases_rel_def tombs_rel_def quotas_rel_def
        quotas_ok_def rows_ok_def empty_tables_def quota_at_def bucket_at_def partition_in_range_def default_partition_quota_def
        default_bucket_quota_def opt_bigint_def pg_ok_def schema_ok_def scan_ok_def split: option.splits if_splits)
qed

end
