(* ===== verification/Pg_Props.thy ===== *)
theory Pg_Props
  imports Pg_Refine
begin

text \<open>
  The two properties of the Postgres registry, after a concrete database on which their hypotheses hold: a
  partition quota, a reservation with two names, its commit, a reservation that a name refuses, and what follows.
\<close>

definition demo_requests :: "(moment \<times> registry_request) list" where
  "demo_requests =
    [((10, ''u''), Call (SetPartitionQuota ''cache'' ''p'' None (Some 5) None ''o'')),
     ((20, ''u''), Call (ReserveAsset ''cache'' ''p'' (AliasMapping [(''x'', False), (''y'', True)]) ''s'' None None INHERIT
        (Some 3600) (Some 400))),
     ((30, ''uu''), Call (CommitAsset ''u'' 400 ''c'' ''s'' None None)),
     ((40, ''uu''), Call (ReserveAsset ''cache'' ''p'' (AliasNames [''x'']) ''s'' None None INHERIT None None)),
     ((40, ''uu''), Call (DetachAlias ''cache'' ''p/x'' ''s'')),
     ((50, ''uu''), Call (ResolveAlias ''cache'' ''p/y'')),
     ((60, ''uu''), Call (DeleteAsset ''u'' ''s'')),
     ((70, ''uu''), RecentAudit (Some ''u'') 2),
     ((80, ''uu''), ListAssets)]"

definition demo_pg :: pg where
  "demo_pg = \<lparr>pg_tables = empty_tables, pg_audit_id = 1, pg_alias_grace = 1000, pg_env = demo_env, pg_clock = (\<lambda>n. int n),
     pg_ticks = 0, pg_uuids = demo_uuids, pg_next_uuid = 0, pg_pool = (\<lambda>_. True), pg_scan = (\<lambda>_. rev), pg_checkouts = 0, pg_connected = False,
     pg_transactions = [], pg_unavailable = 0\<rparr>"

definition demo_taken :: pg where
  "demo_taken = snd (pg_answer (Call (ReserveAsset ''cache'' ''p'' (AliasNames [''x'']) ''s'' None None INHERIT None None)) demo_pg)"

lemma demo_pg_new: "init_pg empty_tables 1 (Some 1000) demo_env (\<lambda>n. int n) demo_uuids (\<lambda>_. True) (\<lambda>_. rev) = Inr demo_pg"
  by (simp add: init_pg_def demo_pg_def)

lemma demo_new_registry: "init_registry (Some 1000) demo_env (\<lambda>n. int n) demo_uuids = Inr demo_new"
  by (simp add: init_registry_def demo_new_def)

lemma demo_proper: "proper not_later admissible mem_step (0, []) demo_requests demo_new"
  by code_simp

lemma demo_pg_reachable: "pg_reachable demo_taken"
  unfolding demo_taken_def by (intro pg_reachable.answer pg_reachable.new [OF demo_pg_new])

lemma demo_refused:
  "error_of (fst (pg_answer (Call (ReserveAsset ''cache'' ''p'' (AliasMapping [(''z'', True), (''x'', True)]) ''s'' None None INHERIT None None))
     demo_taken)) = Some AliasConflictError"
  by code_simp

lemma demo_replies:
  "map error_of (fst (replay mem_step demo_requests demo_new)) =
     [None, None, None, Some AliasConflictError, None, None, None, None, None]"
  by code_simp

section \<open>Where the two differ\<close>

text \<open>
  Two names that are the same under the partition: the in-memory registry binds the name twice, the database
  refuses the second row.
\<close>

lemma colliding_names_differ:
  "error_of (fst (mem_answer (Call (ReserveAsset ''cache'' ''p'' (AliasNames [''x'', ''p/x'']) ''s'' None None INHERIT None None)) demo_new)) = None \<and>
   error_of (fst (pg_answer (Call (ReserveAsset ''cache'' ''p'' (AliasNames [''x'', ''p/x'']) ''s'' None None INHERIT None None)) demo_pg)) =
     Some BackendError"
  by code_simp

text \<open>The record of a read of an unknown asset.\<close>

lemma unknown_read_differs:
  "error_of (fst (mem_answer (Call (RecordRead ''u'')) demo_new)) = Some AssetNotFoundError \<and>
   error_of (fst (pg_answer (Call (RecordRead ''u'')) demo_pg)) = None"
  by code_simp

section \<open>Properties\<close>

text \<open>
  C14: The Postgres registry keeps its promise of behavioural parity: a new database and a new in-memory
  registry with the same configuration answer every sequence of requests with the same values and the same
  errors, and end in states that mirror each other: the same assets, names, blocked names, quotas and audit log.
  The listing of all assets, for which the database is asked for no order and may choose any, holds the same
  assets. The instants of the requests do not go back, both registries draw the same asset ids, and each request
  is admissible when its turn comes: its numbers fit the columns of the database and its names are settled.
\<close>

theorem postgres_parity:
  assumes "uuid_source_ok uuids"
    and "init_registry grace env clock uuids = Inr r"
    and "init_pg empty_tables 1 grace env clock' uuids' pool scan = Inr s"
    and "\<forall>n rows. mset (scan n rows) = mset rows"
    and "proper not_later admissible mem_step e0 requests r"
  shows "fst (replay pg_step requests s) = fst (replay mem_step requests r) \<and>
    (\<exists>e. mirrors e (snd (replay mem_step requests r)) (snd (replay pg_step requests s)))"
  using registries.replay_linked [OF mirrors_new [OF assms(1-4)] assms(5)] by metis

theorem postgres_parity_witness:
  "map error_of (fst (replay pg_step demo_requests demo_pg)) =
     [None, None, None, Some AliasConflictError, None, None, None, None, None]"
  using postgres_parity [OF demo_uuids_ok demo_new_registry demo_pg_new _ demo_proper] demo_replies by simp

text \<open>
  C29: Whatever requests it has answered, the database is typed by its schema: primary keys are unique and
  agree with their rows, every name refers to an asset that exists or to none, every number fits its column
  and no reservation is negative. A request that fails, at whichever statement, leaves every table as it was,
  and none keeps its connection.
\<close>

theorem database_typed:
  assumes "pg_reachable s"
  shows "schema_ok (pg_tables s) \<and> \<not> pg_connected s \<and>
    (\<forall>e. fst (pg_answer q s) = Inl e \<longrightarrow> pg_tables (snd (pg_answer q s)) = pg_tables s)"
proof -
  note ok = pg_reachable_ok [OF assms]
  have "wp (pg_answer q) (\<lambda>_. at_rest s) (\<lambda>_ t. at_rest s t \<and> pg_tables t = pg_tables s) s"
    using ok by (intro wp_answer_atomic) auto
  with ok show ?thesis by (auto simp: wp_def pg_ok_def split: prod.splits)
qed

theorem database_typed_witness:
  "pg_tables (snd (pg_answer (Call (ReserveAsset ''cache'' ''p'' (AliasMapping [(''z'', True), (''x'', True)]) ''s'' None None INHERIT None None))
     demo_taken)) = pg_tables demo_taken \<and> schema_ok (pg_tables demo_taken)"
  using database_typed [OF demo_pg_reachable] demo_refused [unfolded error_of_iff] by blast

end
