(* ===== verification/Spec2Isabelle.thy ===== *)
theory Spec2Isabelle
  imports Lifecycle_Props Api_Props Admin_Props Admission S3_Store Fetcher_App Pilot_Props Pg_Props
begin

text \<open>
  A verification of an asset store and of the fetcher service that fills it. The store,
  \<^verbatim>\<open>src/src/asset_store_core\<close>, is a registry of assets and aliases, the capabilities that authorise
  access to it, the guard that combines registry and object store, the lifecycle worker and the HTTP
  application on top. The fetcher, \<^verbatim>\<open>src/src/fetcher_service\<close>, turns URLs into assets: it decides which
  URLs are cached and under which name, fetches them from vetted addresses only, and talks to the store
  over HTTP; its pilot serves approved images from there.

  \<^bold>\<open>The store and where it is modelled.\<close>

  \<^item> \<^verbatim>\<open>errors.py\<close>, and the combinators for fallible stateful code: \<open>Prelude\<close>. An operation is a
    function from a state to an error or a value together with the state it leaves; the state of a
    raise is kept, so that what a failed call has already changed is visible.
  \<^item> \<^verbatim>\<open>paths.py\<close>, \<^verbatim>\<open>storage.py\<close>: \<open>Paths\<close>, with Python's string methods in \<open>Py_Text\<close> and \<open>Prelude\<close>
    and IEEE binary64 rounding in \<open>Py_Float\<close>. Strings are lists of Latin-1 code points.
  \<^item> \<^verbatim>\<open>models.py\<close>, \<^verbatim>\<open>retention.py\<close>: \<open>Models\<close>. An instant is a number of microseconds, bounded by the
    calendar as \<open>datetime\<close> is.
  \<^item> \<^verbatim>\<open>registry.py\<close> (\<open>InMemoryAssetRegistry\<close>) and its interface \<^verbatim>\<open>registry_base.py\<close>: \<open>Registry\<close> holds
    the state and one definition per method; \<open>Registry_Inv\<close> the invariant, \<open>Registry_Ops\<close> that
    the operations keep it, \<open>Registry_Steps\<close> the calls as a step relation with its reachable
    states, \<open>Registry_Example\<close> a concrete history, \<open>Registry_Props\<close> the properties.
  \<^item> \<^verbatim>\<open>pg_registry.py\<close> (\<open>PostgresAssetRegistry\<close>): \<open>Pg\<close> has the tables, units of work with their pool,
    the SQL statements as operations on tables that check what the schema checks, and the helpers;
    \<open>Pg_Ops\<close> one definition per method; \<open>Pg_Schema\<close> the constraints and that every request keeps them
    and is atomic. \<open>Pg_Rel\<close> relates tables to the dictionaries of the in-memory registry; \<open>Pg_Parity\<close>,
    \<open>Pg_Alias\<close> and \<open>Pg_Reserve\<close> show call by call that both do the same; \<open>Pg_Refine\<close> lifts this to
    sequences of requests, by the locale \<open>lockstep\<close>; \<open>Pg_Props\<close> has the properties.
  \<^item> \<^verbatim>\<open>capabilities.py\<close>: \<open>Capabilities\<close>. \<^verbatim>\<open>service_policy.py\<close>, \<^verbatim>\<open>service_identity.py\<close>: \<open>Services\<close>.
    \<^verbatim>\<open>issuance_rate.py\<close>, \<^verbatim>\<open>admission.py\<close>: \<open>Admission\<close>.
  \<^item> \<^verbatim>\<open>object_store.py\<close>: \<open>Object_Store\<close>. The protocol is a record of operations; what the callers
    rely on is the locale \<open>object_store\<close>, what the sweep needs of failed deletions its extension
    \<open>deleting_store\<close>; both are interpreted on the local store and on one that cannot delete. \<^verbatim>\<open>s3_object_store.py\<close>:
    \<open>S3_Store\<close>, over the calls of the client library, whose documented behaviour is a locale.
  \<^item> \<^verbatim>\<open>guard.py\<close>: \<open>Guard\<close>, with its weakest preconditions; \<open>Guard_Example\<close>, \<open>Guard_Props\<close>.
  \<^item> \<^verbatim>\<open>lifecycle.py\<close>: \<open>Lifecycle\<close> and \<open>Lifecycle_Props\<close>.
  \<^item> \<^verbatim>\<open>api/schemas.py\<close>, \<^verbatim>\<open>api/errors.py\<close>: \<open>Api_Schemas\<close>. \<^verbatim>\<open>api/app.py\<close>: \<open>Api\<close>, the routes as requests
    in \<open>Api_Server\<close>, their properties in \<open>Api_Props\<close>. \<^verbatim>\<open>admin_query.py\<close>, \<^verbatim>\<open>api/admin.py\<close>: \<open>Admin\<close> and
    \<open>Admin_Props\<close>.

  \<^bold>\<open>The fetcher and where it is modelled.\<close>

  \<^item> \<^verbatim>\<open>errors.py\<close>, \<^verbatim>\<open>transport.py\<close>: \<open>Transport\<close>, over \<open>Py_Net\<close>, the part of \<open>ipaddress\<close> it uses.
    Resolver, dialler and clock are parameters.
  \<^item> \<^verbatim>\<open>normalize.py\<close>, \<^verbatim>\<open>rules.py\<close>, \<^verbatim>\<open>config.py\<close>: \<open>Rules\<close>, over \<open>Py_Url\<close>, the part of \<open>urllib.parse\<close> that is
    used. TOML and the regular expressions of configured rules are parameters.
  \<^item> \<^verbatim>\<open>pilot_policy.py\<close>: \<open>Pilot_Policy\<close>, with its regular expressions over \<open>Py_Regex\<close>, which matches by
    derivatives and is shown equal to the language of an expression; \<open>Pilot_Policy_Props\<close>.
  \<^item> \<^verbatim>\<open>fetcher.py\<close>: \<open>Fetch\<close>. An HTTP client is a record of a name lookup and a request, each a function on
    the state of the network.
  \<^item> \<^verbatim>\<open>client.py\<close>: \<open>Store_Client\<close>, over any wire, a function from requests to replies.
    \<^verbatim>\<open>service.py\<close>: \<open>Ensure\<close>. \<^verbatim>\<open>pilot.py\<close>: \<open>Pilot\<close>. \<^verbatim>\<open>app.py\<close>: \<open>Fetcher_App\<close>.
  \<^item> Fetcher and store together: \<open>Pilot_Names\<close> shows that the names of approved images are canonical,
    \<open>Pilot_Store\<close> takes the modelled application of the store as the wire of the client,
    \<open>Pilot_Example\<close> evaluates one run, \<open>Pilot_Props\<close> has the property of the whole.

  \<^bold>\<open>What is shown.\<close> The registry's counters are exact, its alias links consistent, its audit log
  append-only, its failed calls without effect, and its lifecycle one-way (C1 to C10). A capability
  covers exactly its scope, is used once if single-use, and is stored only when audited (C11 to C13).
  The Postgres registry answers every sequence of requests as the in-memory one does, the order of an unordered
  listing apart, so what is shown of that registry holds of it (C14), and its tables keep their schema, also when
  a request fails (C29).
  Identities, rates and leases behave as configured (C15 to C17). Bytes are read and written only
  with authority, a failed upload leaves nothing behind that is not recorded for deletion, what is uploaded is
  what is read, and which name an upload binds is known, also where it lies outside of the capability's scope
  (C18 to C23). A sweep acts only where quota, capacity or age require it, deletes bytes only behind a fence, and
  reclaims what is due or counts an error for it (C24 to C28). The application keeps all of this for any sequence
  of requests, grants nothing without a credential, refuses uploads for their size without effect, and its
  operator listing is complete (C30 to C35). The S3 adapter meets the contract of the store and aborts what it
  does not complete (C36). What is shown of guard and sweep holds for every store that keeps the contract, with
  whatever calls fail. The fetcher dials only addresses of one vetted answer (C37), preload and read agree
  on the name of an image (C38), a fetch ends and makes only validated requests (C39), and what the pilot
  has stored is what it serves (C40).

  \<^bold>\<open>Bounds.\<close> No definition of the program needs fuel: its loops run over lists, and redirects are
  followed a configured number of times. The only bounded recursion is \<open>walk\<close> of \<open>Admin_Props\<close>, a client
  that follows cursors; C34 shows that one page per matching asset and one more are enough.

  \<^bold>\<open>Limits.\<close> Text is Latin-1; where the fetcher would continue with a text outside of it, its model ends
  in \<open>UnmodelledText\<close>, which is no exception of the program. Requests are taken one after the other: the
  registry's methods, the ledger's and the pilot's read token run under a lock and are one step each,
  but requests that overlap between those steps are not modelled. The statements of a unit of work of the
  Postgres registry are not interleaved with those of another, so its row locks are left out. Its parity is
  shown for instants that do not change during a request, for numbers that fit \<open>bigint\<close> with room for
  one addition, and within \<open>request_ok\<close>; \<open>Pg_Props\<close> evaluates two requests outside of it, on which the
  registries differ. Where a statement has no \<open>ORDER BY\<close> the order of its rows is a parameter and the listing is
  compared as a multiset; where it has one, text is ordered by code points, as every collation orders the
  hexadecimal identifiers it is used for. The denied ranges of C37 are those the code checks: addresses in the
  deprecated IPv4-compatible and site-local prefixes of IPv6 are dialled. A service that behaves as S3
  documents may leave an upload open when its reply to the creation of it is lost.

  \<^bold>\<open>Not modelled.\<close> The connection pool and bootstrap of the Postgres registry, metrics,
  logs and static files, thread scheduling, the adapters between httpx and httpcore, command-line entry
  points, migrations, deployment checks and tools.
\<close>

end
